(* ===== verification/Prelude.thy ===== *)
theory Prelude
  imports Main "HOL-Library.AList" "HOL-Library.Char_ord" "HOL-Library.List_Lexorder"
    "HOL-Library.Sublist"
begin

text \<open>
  Shared vocabulary of the development: the part of Go's \<^verbatim>\<open>strings\<close>, \<^verbatim>\<open>fmt\<close> and
  \<^verbatim>\<open>strconv\<close> packages the modelled code uses, Go maps as association lists with distinct keys,
  the iteration order of \<^verbatim>\<open>range\<close> over a map, and generic lemmas on lists and options.

  Strings are byte strings (a HOL \<^typ>\<open>char\<close> is a byte). Case mapping and white space are
  those of ASCII: on ASCII strings the functions below agree with Go's; a byte above 127 is
  left alone, where Go would decode UTF-8.
\<close>

named_theorems go_str \<open>equations of the string functions\<close>
named_theorems wf_rules \<open>preservation of the well-formedness of maps and registries\<close>

subsection \<open>Bytes and ASCII case\<close>

definition byte :: "char \<Rightarrow> nat" where
  "byte c = of_char c"

definition is_upper :: "char \<Rightarrow> bool" where
  "is_upper c \<longleftrightarrow> 65 \<le> byte c \<and> byte c \<le> 90"

definition is_lower :: "char \<Rightarrow> bool" where
  "is_lower c \<longleftrightarrow> 97 \<le> byte c \<and> byte c \<le> 122"

definition is_digit :: "char \<Rightarrow> bool" where
  "is_digit c \<longleftrightarrow> 48 \<le> byte c \<and> byte c \<le> 57"

definition lower_char :: "char \<Rightarrow> char" where
  "lower_char c = (if is_upper c then char_of (byte c + 32) else c)"

definition ToLower :: "string \<Rightarrow> string" where
  "ToLower s = map lower_char s"

definition EqualFold :: "string \<Rightarrow> string \<Rightarrow> bool" where
  "EqualFold s t \<longleftrightarrow> ToLower s = ToLower t"

definition is_space :: "char \<Rightarrow> bool" where
  "is_space c \<longleftrightarrow> byte c = 32 \<or> (9 \<le> byte c \<and> byte c \<le> 13)"

lemma byte_less [simp]: "byte c < 256"
  by (simp add: byte_def)

lemma byte_inject [simp]: "byte c = byte d \<longleftrightarrow> c = d"
  by (simp add: byte_def)

lemma byte_char_of [simp]: "byte (char_of n) = n mod 256"
  by (simp add: byte_def)

lemma byte_Char [simp]:
  "byte (Char b0 b1 b2 b3 b4 b5 b6 b7) = of_char (Char b0 b1 b2 b3 b4 b5 b6 b7)"
  by (simp add: byte_def)

lemma byte_lower_char: "byte (lower_char c) = (if is_upper c then byte c + 32 else byte c)"
  by (auto simp: lower_char_def is_upper_def)

lemma lower_char_not_upper [simp]: "\<not> is_upper (lower_char c)"
  by (auto simp: is_upper_def byte_lower_char)

lemma lower_char_id [simp]: "\<not> is_upper c \<Longrightarrow> lower_char c = c"
  by (simp add: lower_char_def)

lemma lower_char_eq_low:
  assumes "byte d < 65" shows "lower_char c = d \<longleftrightarrow> c = d"
proof -
  have "lower_char c = d \<longleftrightarrow> byte (lower_char c) = byte d" by simp
  also have "\<dots> \<longleftrightarrow> byte c = byte d"
    using assms by (auto simp: byte_lower_char is_upper_def)
  finally show ?thesis by simp
qed

lemma lower_char_dot [simp]: "lower_char c = CHR ''.'' \<longleftrightarrow> c = CHR ''.''"
  by (rule lower_char_eq_low) simp

lemma lower_char_of_dot [simp]: "lower_char (CHR ''.'') = CHR ''.''"
  by simp

lemma ToLower_Nil [simp]: "ToLower [] = []"
  by (simp add: ToLower_def)

lemma ToLower_Cons [simp]: "ToLower (c # s) = lower_char c # ToLower s"
  by (simp add: ToLower_def)

lemma ToLower_append [simp]: "ToLower (s @ t) = ToLower s @ ToLower t"
  by (simp add: ToLower_def)

lemma ToLower_idem [simp]: "ToLower (ToLower s) = ToLower s"
  by (simp add: ToLower_def)

lemma length_ToLower [simp]: "length (ToLower s) = length s"
  by (simp add: ToLower_def)

lemma ToLower_eq_Nil [simp]: "ToLower s = [] \<longleftrightarrow> s = []"
  by (simp add: ToLower_def)

lemma EqualFold_refl [simp]: "EqualFold s s"
  by (simp add: EqualFold_def)

subsection \<open>Prefixes, suffixes, trimming, splitting\<close>

definition HasPrefix :: "string \<Rightarrow> string \<Rightarrow> bool" where
  "HasPrefix s p \<longleftrightarrow> take (length p) s = p"

definition HasSuffix :: "string \<Rightarrow> string \<Rightarrow> bool" where
  "HasSuffix s p \<longleftrightarrow> length p \<le> length s \<and> drop (length s - length p) s = p"

definition TrimSuffix :: "string \<Rightarrow> string \<Rightarrow> string" where
  "TrimSuffix s p = (if HasSuffix s p then take (length s - length p) s else s)"

definition TrimPrefix :: "string \<Rightarrow> string \<Rightarrow> string" where
  "TrimPrefix s p = (if HasPrefix s p then drop (length p) s else s)"

definition TrimSpace :: "string \<Rightarrow> string" where
  "TrimSpace s = rev (dropWhile is_space (rev (dropWhile is_space s)))"

text \<open>\<^verbatim>\<open>strings.Split(s, sep)\<close> for a one-byte separator.\<close>

fun Split :: "string \<Rightarrow> char \<Rightarrow> string list" where
  "Split [] sep = [[]]"
| "Split (c # s) sep =
     (if c = sep then [] # Split s sep
      else (case Split s sep of [] \<Rightarrow> [[c]] | w # ws \<Rightarrow> (c # w) # ws))"

text \<open>\<^verbatim>\<open>strings.SplitN(s, sep, 2)\<close>: one or two parts, cut at the first separator.\<close>

fun SplitN2 :: "string \<Rightarrow> char \<Rightarrow> string list" where
  "SplitN2 s sep =
     (case dropWhile (\<lambda>c. c \<noteq> sep) s of
        [] \<Rightarrow> [s]
      | _ # rest \<Rightarrow> [takeWhile (\<lambda>c. c \<noteq> sep) s, rest])"

fun Join :: "string list \<Rightarrow> string \<Rightarrow> string" where
  "Join [] sep = []"
| "Join [w] sep = w"
| "Join (w # v # ws) sep = w @ sep @ Join (v # ws) sep"

fun Contains :: "string \<Rightarrow> string \<Rightarrow> bool" where
  "Contains [] p \<longleftrightarrow> p = []"
| "Contains (c # s) p \<longleftrightarrow> HasPrefix (c # s) p \<or> Contains s p"

lemma HasPrefix_append [simp]: "HasPrefix (p @ s) p"
  by (simp add: HasPrefix_def)

lemma HasPrefix_iff: "HasPrefix s p \<longleftrightarrow> (\<exists>t. s = p @ t)"
  by (auto simp: HasPrefix_def) (metis append_take_drop_id)

lemma HasSuffix_append [simp]: "HasSuffix (s @ p) p"
  by (simp add: HasSuffix_def)

lemma HasSuffix_iff: "HasSuffix s p \<longleftrightarrow> (\<exists>t. s = t @ p)"
  by (auto simp: HasSuffix_def) (metis append_take_drop_id)

lemma TrimSuffix_append [simp]: "TrimSuffix (s @ p) p = s"
  by (simp add: TrimSuffix_def)

lemma TrimSuffix_id [simp]: "\<not> HasSuffix s p \<Longrightarrow> TrimSuffix s p = s"
  by (simp add: TrimSuffix_def)

lemma TrimPrefix_append [simp]: "TrimPrefix (p @ s) p = s"
  by (simp add: TrimPrefix_def)

lemma HasPrefix_TrimPrefix: "HasPrefix s p \<Longrightarrow> p @ TrimPrefix s p = s"
  by (auto simp: HasPrefix_iff)

lemma Contains_iff: "Contains s p \<longleftrightarrow> (\<exists>a b. s = a @ p @ b)"
proof (induction s)
  case Nil
  show ?case by auto
next
  case (Cons c s)
  show ?case
  proof
    assume "Contains (c # s) p"
    then show "\<exists>a b. c # s = a @ p @ b"
      using Cons by (auto simp: HasPrefix_iff) (metis append_Cons append_Nil)+
  next
    assume "\<exists>a b. c # s = a @ p @ b"
    then obtain a b where ab: "c # s = a @ p @ b" by blast
    show "Contains (c # s) p"
    proof (cases a)
      case Nil
      with ab have "HasPrefix (c # s) p" by (simp only: append_Nil HasPrefix_append)
      then show ?thesis by simp
    next
      case (Cons d a')
      with ab have "s = a' @ p @ b" by simp
      then have "Contains s p" using \<open>Contains s p \<longleftrightarrow> (\<exists>a b. s = a @ p @ b)\<close> by blast
      then show ?thesis by simp
    qed
  qed
qed

lemma Split_neq_Nil [simp]: "Split s sep \<noteq> []"
  by (induction s) (auto split: list.splits)

lemma Split_no_sep: "sep \<notin> set s \<Longrightarrow> Split s sep = [s]"
  by (induction s) auto

lemma Split_append_sep:
  "sep \<notin> set w \<Longrightarrow> Split (w @ sep # s) sep = w # Split s sep"
  by (induction w) auto

lemma Join_Cons: "ws \<noteq> [] \<Longrightarrow> Join (w # ws) sep = w @ sep @ Join ws sep"
  by (cases ws) auto

lemma Split_Join:
  assumes "ws \<noteq> []" and "\<forall>w \<in> set ws. sep \<notin> set w"
  shows "Split (Join ws [sep]) sep = ws"
  using assms
proof (induction ws)
  case Nil
  then show ?case by simp
next
  case (Cons w ws)
  then show ?case
    by (cases "ws = []") (auto simp: Join_Cons Split_no_sep Split_append_sep)
qed

lemma Join_Split: "Join (Split s sep) [sep] = s"
proof (induction s)
  case (Cons c s)
  then show ?case
    by (cases "Split s sep") (auto simp: Join_Cons split: list.splits,
        (metis Join.simps(2,3) append_Cons neq_Nil_conv)+)
qed simp

lemma Split_parts_no_sep: "w \<in> set (Split s sep) \<Longrightarrow> sep \<notin> set w"
proof (induction s arbitrary: w)
  case (Cons c s)
  then show ?case by (auto split: if_splits list.splits)
qed simp

lemma SplitN2_Cons:
  "sep \<notin> set k \<Longrightarrow> SplitN2 (k @ sep # v) sep = [k, v]"
  by (induction k) (auto split: list.splits)

lemma SplitN2_two:
  "SplitN2 s sep = [k, v] \<longleftrightarrow> s = k @ sep # v \<and> sep \<notin> set k"
proof
  assume "SplitN2 s sep = [k, v]"
  then show "s = k @ sep # v \<and> sep \<notin> set k"
  proof (cases "dropWhile (\<lambda>c. c \<noteq> sep) s")
    case (Cons d r)
    have "s = takeWhile (\<lambda>c. c \<noteq> sep) s @ dropWhile (\<lambda>c. c \<noteq> sep) s" by simp
    moreover have "d = sep" using Cons by (metis (full_types) dropWhile_eq_Cons_conv)
    ultimately show ?thesis
      using Cons \<open>SplitN2 s sep = [k, v]\<close> by (auto dest: set_takeWhileD)
  qed simp
qed (simp add: SplitN2_Cons del: SplitN2.simps)

declare SplitN2.simps [simp del]

subsection \<open>Formatting\<close>

definition digit_char :: "nat \<Rightarrow> char" where
  "digit_char d = char_of (48 + d)"

fun Itoa :: "nat \<Rightarrow> string" where
  "Itoa n = (if n < 10 then [digit_char n] else Itoa (n div 10) @ [digit_char (n mod 10)])"

declare Itoa.simps [simp del]

definition hex_char :: "nat \<Rightarrow> char" where
  "hex_char d = (if d < 10 then char_of (48 + d) else char_of (87 + d))"

text \<open>One byte of \<^verbatim>\<open>strconv.Quote\<close> (the \<^verbatim>\<open>%q\<close> verb) on ASCII input.\<close>

definition quote_char :: "char \<Rightarrow> string" where
  "quote_char c =
     (let n = byte c; bs = CHR 0x5C in
      if n = 34 \<or> n = 92 then [bs, c]
      else if n = 7 then [bs, CHR ''a''] else if n = 8 then [bs, CHR ''b'']
      else if n = 9 then [bs, CHR ''t''] else if n = 10 then [bs, CHR ''n'']
      else if n = 11 then [bs, CHR ''v''] else if n = 12 then [bs, CHR ''f'']
      else if n = 13 then [bs, CHR ''r'']
      else if n < 32 \<or> n = 127 then [bs, CHR ''x'', hex_char (n div 16), hex_char (n mod 16)]
      else [c])"

definition Quote :: "string \<Rightarrow> string" where
  "Quote s = CHR 0x22 # concat (map quote_char s) @ [CHR 0x22]"

text \<open>\<^verbatim>\<open>fmt.Sprintf("%v", xs)\<close> of a slice of strings.\<close>

definition show_slice :: "string list \<Rightarrow> string" where
  "show_slice xs = CHR ''['' # Join xs '' '' @ '']''"

subsection \<open>Go maps\<close>

text \<open>
  A Go map is an association list with distinct keys, read with \<^const>\<open>map_of\<close>, written
  with \<^const>\<open>AList.update\<close> and \<^const>\<open>AList.delete\<close>. A nil map reads like an empty one. The
  order of the list has no meaning: a \<^verbatim>\<open>range\<close> loop visits the keys in the order an
  \<^emph>\<open>iteration\<close> gives, any function that lists each key once.
\<close>

type_synonym ('k, 'v) gomap = "('k \<times> 'v) list"
type_synonym 'k iteration = "'k list \<Rightarrow> 'k list"

definition wf_map :: "('k, 'v) gomap \<Rightarrow> bool" where
  "wf_map m \<longleftrightarrow> distinct (map fst m)"

definition has_key :: "('k, 'v) gomap \<Rightarrow> 'k \<Rightarrow> bool" where
  "has_key m k \<longleftrightarrow> map_of m k \<noteq> None"

definition map_get :: "'v \<Rightarrow> ('k, 'v) gomap \<Rightarrow> 'k \<Rightarrow> 'v" where
  "map_get d m k = (case map_of m k of None \<Rightarrow> d | Some v \<Rightarrow> v)"

definition is_iteration :: "'k iteration \<Rightarrow> bool" where
  "is_iteration it \<longleftrightarrow> (\<forall>ks. distinct ks \<longrightarrow> distinct (it ks) \<and> set (it ks) = set ks)"

lemma wf_map_Nil [simp, wf_rules]: "wf_map []"
  by (simp add: wf_map_def)

lemma wf_map_update [wf_rules]: "wf_map m \<Longrightarrow> wf_map (AList.update k v m)"
  by (simp add: wf_map_def distinct_update)

lemma wf_map_delete [wf_rules]: "wf_map m \<Longrightarrow> wf_map (AList.delete k m)"
  by (simp add: wf_map_def AList.distinct_delete)

lemma map_of_update [simp]: "map_of (AList.update k v m) = (map_of m)(k \<mapsto> v)"
  by (simp add: update_conv')

lemma map_of_delete [simp]: "map_of (AList.delete k m) = (map_of m)(k := None)"
  by (simp add: delete_conv')

lemma keys_update: "fst ` set (AList.update k v m) = insert k (fst ` set m)"
  by (metis dom_map_of_conv_image_fst dom_fun_upd map_of_update option.distinct(1))

lemma has_key_iff: "has_key m k \<longleftrightarrow> k \<in> fst ` set m"
  by (simp add: has_key_def map_of_eq_None_iff)

lemma key_lookup: "k \<in> fst ` set m \<Longrightarrow> \<exists>v. map_of m k = Some v"
  by (auto dest: weak_map_of_SomeI)

lemma has_key_update [simp]: "has_key (AList.update k v m) j \<longleftrightarrow> j = k \<or> has_key m j"
  by (auto simp: has_key_def)

lemma has_key_Nil [simp]: "\<not> has_key [] k"
  by (simp add: has_key_def)

lemma is_iteration_set: "is_iteration it \<Longrightarrow> distinct ks \<Longrightarrow> set (it ks) = set ks"
  by (simp add: is_iteration_def)

lemma is_iteration_id [simp]: "is_iteration id" "is_iteration (\<lambda>ks. ks)"
  by (simp_all add: is_iteration_def)

lemma is_iteration_rev [simp]: "is_iteration rev"
  by (simp add: is_iteration_def)

subsection \<open>Lists\<close>

text \<open>\<^verbatim>\<open>appendUnique\<close>-style updates and first-match filters recur in several components.\<close>

fun first_by :: "('a \<Rightarrow> 'k) \<Rightarrow> 'k list \<Rightarrow> 'a list \<Rightarrow> 'a list" where
  "first_by f seen [] = []"
| "first_by f seen (x # xs) =
     (if f x \<in> set seen then first_by f seen xs else x # first_by f (f x # seen) xs)"

lemma first_by_subset: "set (first_by f seen xs) \<subseteq> set xs"
  by (induction f seen xs rule: first_by.induct) auto

lemma first_by_keys: "f ` set (first_by f seen xs) = f ` set xs - set seen"
  by (induction f seen xs rule: first_by.induct) auto

lemma distinct_first_by:
  "distinct (map f (first_by f seen xs)) \<and> set (map f (first_by f seen xs)) \<inter> set seen = {}"
  by (induction f seen xs rule: first_by.induct) auto

lemma find_append: "find P (xs @ ys) = (case find P xs of None \<Rightarrow> find P ys | Some x \<Rightarrow> Some x)"
  by (induction xs) auto

lemma first_by_distinct:
  "distinct (map f xs) \<Longrightarrow> set (map f xs) \<inter> set seen = {} \<Longrightarrow> first_by f seen xs = xs"
  by (induction f seen xs rule: first_by.induct) auto

lemma subseq_first_by: "subseq (first_by f seen xs) xs"
  by (induction f seen xs rule: first_by.induct) auto

lemma first_by_first:
  assumes "x \<in> set (first_by f seen xs)"
  shows "\<exists>as bs. xs = as @ x # bs \<and> f x \<notin> f ` set as"
  using assms
proof (induction f seen xs rule: first_by.induct)
  case (2 f seen y ys)
  show ?case
  proof (cases "x = y")
    case True
    then show ?thesis by (metis append_Nil empty_set image_empty empty_iff)
  next
    case False
    have sub: "f x \<noteq> f y"
    proof (cases "f y \<in> set seen")
      case True
      with "2.prems" have "x \<in> set (first_by f seen ys)" by simp
      then have "f x \<notin> set seen" using first_by_keys [of f seen ys] by blast
      with True show ?thesis by auto
    next
      case False2: False
      with "2.prems" False have "x \<in> set (first_by f (f y # seen) ys)" by simp
      then have "f x \<notin> set (f y # seen)" using first_by_keys [of f "f y # seen" ys] by blast
      then show ?thesis by simp
    qed
    have "\<exists>as bs. ys = as @ x # bs \<and> f x \<notin> f ` set as"
      using 2 False by (auto split: if_splits)
    then obtain as bs where "ys = as @ x # bs" "f x \<notin> f ` set as" by blast
    with sub show ?thesis by (intro exI [of _ "y # as"] exI [of _ bs]) auto
  qed
qed simp

end
