(* ===== verification/GoErrors.thy ===== *)
theory GoErrors
  imports Prelude
begin

text \<open>
  Error values of \<^verbatim>\<open>pkg/provider/errors.go\<close>, \<^verbatim>\<open>pkg/source/errors.go\<close> and the
  validation errors of \<^verbatim>\<open>pkg/source/hostname.go\<close>, with their text (\<^verbatim>\<open>Error()\<close>),
  their chain (\<^verbatim>\<open>Unwrap()\<close>) and \<^verbatim>\<open>errors.Is\<close>. A fallible operation of the model
  returns \<open>err option\<close> (\<open>None\<close> is Go's nil error) or \<open>err + 'a\<close>.
\<close>

datatype err =
    ErrNotFound | ErrConflict | ErrTypeConflict | ErrUnauthorized | ErrProviderUnavailable
  | ErrHostnameEmpty | ErrHostnameTooLong | ErrLabelTooLong | ErrLabelEmpty
  | ErrInvalidCharacters | ErrInvalidLabelStart | ErrInvalidLabelEnd
  | ConfigError string string string        \<comment> \<open>field, value, message\<close>
  | ProviderError string string err         \<comment> \<open>provider, operation, cause\<close>
  | DuplicateSourceError string
  | SourceNotFoundError string
  | ExtractionError string string "err option"
  | HostnameValidationError string string err  \<comment> \<open>hostname, label, cause\<close>
  | Errorf string err                       \<comment> \<open>\<^verbatim>\<open>fmt.Errorf("...: %w", err)\<close>, the text before the verb\<close>
  | ErrorfAfter err string                  \<comment> \<open>\<^verbatim>\<open>fmt.Errorf("%w: ...", err)\<close>, the text after the colon\<close>
  | ErrorfTwo err err                       \<comment> \<open>\<^verbatim>\<open>fmt.Errorf("%w: %w", e1, e2)\<close>\<close>
  | ErrorNew string                         \<comment> \<open>\<^verbatim>\<open>errors.New\<close>, or \<^verbatim>\<open>fmt.Errorf\<close> without \<^verbatim>\<open>%w\<close>\<close>

fun HostnameValidationError_Error :: "string \<Rightarrow> string \<Rightarrow> string \<Rightarrow> string" where
  "HostnameValidationError_Error h l cause =
     (if l \<noteq> [] then ''invalid hostname '' @ Quote h @ '': label '' @ Quote l @ '': '' @ cause
      else ''invalid hostname '' @ Quote h @ '': '' @ cause)"

fun ConfigError_Error :: "string \<Rightarrow> string \<Rightarrow> string \<Rightarrow> string" where
  "ConfigError_Error f v m =
     (if v \<noteq> [] then ''configuration error: '' @ f @ ''='' @ Quote v @ '': '' @ m
      else ''configuration error: '' @ f @ '': '' @ m)"

primrec Error :: "err \<Rightarrow> string" where
  "Error ErrNotFound = ''record not found''"
| "Error ErrConflict = ''record already exists''"
| "Error ErrTypeConflict = ''record type conflict''"
| "Error ErrUnauthorized = ''unauthorized''"
| "Error ErrProviderUnavailable = ''provider unavailable''"
| "Error ErrHostnameEmpty = ''hostname is empty''"
| "Error ErrHostnameTooLong = ''hostname exceeds 253 characters''"
| "Error ErrLabelTooLong = ''hostname label exceeds 63 characters''"
| "Error ErrLabelEmpty = ''hostname contains empty label''"
| "Error ErrInvalidCharacters = ''hostname contains invalid characters''"
| "Error ErrInvalidLabelStart = ''hostname label must start with alphanumeric character''"
| "Error ErrInvalidLabelEnd = ''hostname label must end with alphanumeric character''"
| "Error (ConfigError f v m) = ConfigError_Error f v m"
| "Error (ProviderError p op e) = ''provider '' @ p @ '': '' @ op @ '': '' @ Error e"
| "Error (DuplicateSourceError n) = ''source '' @ Quote n @ '' already registered''"
| "Error (SourceNotFoundError n) = ''source '' @ Quote n @ '' not found''"
| "Error (ExtractionError s m e) =
     ''source '' @ s @ '': '' @ m @
       (case map_option Error e of None \<Rightarrow> [] | Some t \<Rightarrow> '': '' @ t)"
| "Error (HostnameValidationError h l e) = HostnameValidationError_Error h l (Error e)"
| "Error (Errorf p e) = p @ Error e"
| "Error (ErrorfAfter e t) = Error e @ '': '' @ t"
| "Error (ErrorfTwo e f) = Error e @ '': '' @ Error f"
| "Error (ErrorNew t) = t"

fun Unwrap :: "err \<Rightarrow> err option" where
  "Unwrap (ProviderError _ _ e) = Some e"
| "Unwrap (ExtractionError _ _ e) = e"
| "Unwrap (HostnameValidationError _ _ e) = Some e"
| "Unwrap (Errorf _ e) = Some e"
| "Unwrap (ErrorfAfter e _) = Some e"
| "Unwrap _ = None"

lemma Unwrap_size [termination_simp]: "Unwrap e = Some e' \<Longrightarrow> size e' < size e"
  by (cases e) auto

text \<open>\<^verbatim>\<open>errors.Is(err, target)\<close> follows the chain of causes, and both branches of an error with two causes.\<close>

fun errors_Is :: "err \<Rightarrow> err \<Rightarrow> bool" where
  "errors_Is e target \<longleftrightarrow>
     e = target \<or>
     (case e of
        ErrorfTwo e1 e2 \<Rightarrow> errors_Is e1 target \<or> errors_Is e2 target
      | _ \<Rightarrow> (case Unwrap e of None \<Rightarrow> False | Some e' \<Rightarrow> errors_Is e' target))"

declare errors_Is.simps [simp del]

lemmas errors_Is_step = errors_Is.simps [of ErrNotFound] errors_Is.simps [of ErrConflict]
  errors_Is.simps [of ErrTypeConflict] errors_Is.simps [of "ProviderError p op e" for p op e]
  errors_Is.simps [of "Errorf p e" for p e] errors_Is.simps [of "ErrorfAfter e t" for e t]
  errors_Is.simps [of "ErrorfTwo e f" for e f] errors_Is.simps [of "ErrorNew t" for t]
  errors_Is.simps [of "ConfigError f v m" for f v m] errors_Is.simps [of ErrUnauthorized]
  errors_Is.simps [of ErrProviderUnavailable]

definition ErrConfigMissing :: "string \<Rightarrow> err" where
  "ErrConfigMissing field = ConfigError field [] ''required but not set''"

definition ErrConfigInvalid :: "string \<Rightarrow> string \<Rightarrow> string \<Rightarrow> err" where
  "ErrConfigInvalid field v msg = ConfigError field v msg"

definition WrapError :: "string \<Rightarrow> string \<Rightarrow> err option \<Rightarrow> err option" where
  "WrapError p op e = map_option (ProviderError p op) e"

definition WrapExtractionError :: "string \<Rightarrow> string \<Rightarrow> err option \<Rightarrow> err" where
  "WrapExtractionError src msg e = ExtractionError src msg e"

definition IsNotFound :: "err \<Rightarrow> bool" where
  "IsNotFound e = errors_Is e ErrNotFound"

definition IsConflict :: "err \<Rightarrow> bool" where
  "IsConflict e = errors_Is e ErrConflict"

definition IsTypeConflict :: "err \<Rightarrow> bool" where
  "IsTypeConflict e = errors_Is e ErrTypeConflict"

definition IsUnauthorized :: "err \<Rightarrow> bool" where
  "IsUnauthorized e = errors_Is e ErrUnauthorized"

definition IsProviderUnavailable :: "err \<Rightarrow> bool" where
  "IsProviderUnavailable e = errors_Is e ErrProviderUnavailable"

lemmas is_error_defs = IsNotFound_def IsConflict_def IsTypeConflict_def IsUnauthorized_def
  IsProviderUnavailable_def

text \<open>Wrapping keeps the classification of an error.\<close>

lemma errors_Is_Errorf:
  "t \<noteq> Errorf p e \<Longrightarrow> errors_Is (Errorf p e) t = errors_Is e t"
  by (subst errors_Is.simps) auto

lemma errors_Is_ProviderError:
  "t \<noteq> ProviderError p op e \<Longrightarrow> errors_Is (ProviderError p op e) t = errors_Is e t"
  by (subst errors_Is.simps) auto

lemma is_error_wrap [simp]:
  "IsNotFound (Errorf p e) = IsNotFound e" "IsConflict (Errorf p e) = IsConflict e"
  "IsTypeConflict (Errorf p e) = IsTypeConflict e"
  "IsNotFound (ProviderError q op e) = IsNotFound e"
  "IsConflict (ProviderError q op e) = IsConflict e"
  "IsTypeConflict (ProviderError q op e) = IsTypeConflict e"
  by (simp_all add: is_error_defs errors_Is_Errorf errors_Is_ProviderError)

lemma is_error_leaf [simp]:
  "IsConflict ErrConflict" "\<not> IsConflict ErrNotFound" "\<not> IsConflict (ErrorNew t)"
  "IsNotFound ErrNotFound" "\<not> IsNotFound ErrConflict" "\<not> IsNotFound (ErrorNew t)"
  "IsTypeConflict ErrTypeConflict" "\<not> IsTypeConflict (ErrorNew t)"
  "\<not> IsConflict ErrTypeConflict" "\<not> IsTypeConflict ErrConflict"
  by (simp_all add: is_error_defs errors_Is_step)

end
