(* ===== verification/Hostname.thy ===== *)
theory Hostname
  imports GoErrors "HOL-Library.Word"
begin

text \<open>
  \<^verbatim>\<open>pkg/source/hostname.go\<close>: hostnames with their record hints, normalization,
  RFC 1123 and RFC 2782 validation, and the slice helpers. The validators are proved
  equivalent to declarative readings of the two RFC grammars, and normalization is shown
  to be idempotent and validity-preserving on what the validators accept.
\<close>

subsection \<open>Constants and character classes\<close>

definition MaxHostnameLength :: nat where "MaxHostnameLength = 253"
definition MaxLabelLength :: nat where "MaxLabelLength = 63"
definition recordTypeSRV :: string where "recordTypeSRV = ''SRV''"

definition isAlphanumeric :: "char \<Rightarrow> bool" where
  "isAlphanumeric b \<longleftrightarrow> is_lower b \<or> is_upper b \<or> is_digit b"

definition alnum_hyphen :: "char \<Rightarrow> bool" where
  "alnum_hyphen c \<longleftrightarrow> isAlphanumeric c \<or> c = CHR ''-''"

text \<open>
  The three fixed regular expressions: \<^verbatim>\<open>^[a-zA-Z0-9]([a-zA-Z0-9-]*[a-zA-Z0-9])?$\<close>,
  its one-character case, and the same after an underscore.
\<close>

fun labelRegex :: "string \<Rightarrow> bool" where
  "labelRegex [] = False"
| "labelRegex (c # rest) \<longleftrightarrow>
     isAlphanumeric c \<and>
     (rest = [] \<or> (list_all alnum_hyphen (butlast rest) \<and> isAlphanumeric (last rest)))"

definition singleCharLabelRegex :: "string \<Rightarrow> bool" where
  "singleCharLabelRegex s \<longleftrightarrow> (case s of [c] \<Rightarrow> isAlphanumeric c | _ \<Rightarrow> False)"

definition srvLabelRegex :: "string \<Rightarrow> bool" where
  "srvLabelRegex s \<longleftrightarrow> (case s of [] \<Rightarrow> False | c # rest \<Rightarrow> c = CHR ''_'' \<and> labelRegex rest)"

definition NormalizeHostname :: "string \<Rightarrow> string" where
  "NormalizeHostname hostname = ToLower (TrimSuffix hostname ''.'')"

subsection \<open>Validation\<close>

text \<open>The format check both validators run on an ordinary label (its length is at least 1).\<close>

definition check_label_format :: "string \<Rightarrow> string \<Rightarrow> err option" where
  "check_label_format hostname label =
     (if length label = 1 then
        (if \<not> singleCharLabelRegex label
         then Some (HostnameValidationError hostname label ErrInvalidCharacters) else None)
      else if \<not> labelRegex label then
        (if \<not> isAlphanumeric (hd label)
         then Some (HostnameValidationError hostname label ErrInvalidLabelStart)
         else if \<not> isAlphanumeric (last label)
         then Some (HostnameValidationError hostname label ErrInvalidLabelEnd)
         else Some (HostnameValidationError hostname label ErrInvalidCharacters))
      else None)"

fun validate_labels :: "string \<Rightarrow> nat \<Rightarrow> string list \<Rightarrow> err option" where
  "validate_labels hostname i [] = None"
| "validate_labels hostname i (label # labels) =
     (if label = [] then Some (HostnameValidationError hostname label ErrLabelEmpty)
      else if length label > MaxLabelLength
        then Some (HostnameValidationError hostname label ErrLabelTooLong)
      else if i = 0 \<and> label = ''*'' then validate_labels hostname (i + 1) labels
      else case check_label_format hostname label of
             Some e \<Rightarrow> Some e
           | None \<Rightarrow> validate_labels hostname (i + 1) labels)"

definition ValidateHostname :: "string \<Rightarrow> err option" where
  "ValidateHostname hostname0 =
     (let hostname = TrimSuffix hostname0 ''.'' in
      if hostname = [] then Some (HostnameValidationError hostname [] ErrHostnameEmpty)
      else if length hostname > MaxHostnameLength
        then Some (HostnameValidationError hostname [] ErrHostnameTooLong)
      else validate_labels hostname 0 (Split hostname (CHR ''.'')))"

fun validate_srv_labels :: "string \<Rightarrow> nat \<Rightarrow> string list \<Rightarrow> err option" where
  "validate_srv_labels hostname i [] = None"
| "validate_srv_labels hostname i (label # labels) =
     (if label = [] then Some (HostnameValidationError hostname label ErrLabelEmpty)
      else if length label > MaxLabelLength
        then Some (HostnameValidationError hostname label ErrLabelTooLong)
      else if i < 2 then
        (if \<not> srvLabelRegex label
         then Some (HostnameValidationError hostname label
                (ErrorNew ''SRV service/protocol label must start with underscore''))
         else validate_srv_labels hostname (i + 1) labels)
      else case check_label_format hostname label of
             Some e \<Rightarrow> Some e
           | None \<Rightarrow> validate_srv_labels hostname (i + 1) labels)"

definition ValidateSRVHostname :: "string \<Rightarrow> err option" where
  "ValidateSRVHostname hostname0 =
     (let hostname = TrimSuffix hostname0 ''.'' in
      if hostname = [] then Some (HostnameValidationError hostname [] ErrHostnameEmpty)
      else if length hostname > MaxHostnameLength
        then Some (HostnameValidationError hostname [] ErrHostnameTooLong)
      else let labels = Split hostname (CHR ''.'') in
      if length labels < 3
        then Some (HostnameValidationError hostname []
               (ErrorNew ''SRV hostname must have at least 3 labels (_service._proto.name)''))
      else validate_srv_labels hostname 0 labels)"

subsection \<open>Hostnames and hints\<close>

type_synonym uint16 = "16 word"
type_synonym metadata = "(string, string) gomap"

record SRVHints =
  hint_Priority :: uint16
  hint_Weight :: uint16
  hint_Port :: uint16

record RecordHints =
  rh_Type :: string
  rh_Target :: string
  rh_TTL :: int
  rh_Provider :: string
  rh_SRV :: "SRVHints option"
  rh_Metadata :: metadata

record Hostname =
  h_Name :: string
  h_Source :: string
  h_Router :: string
  h_RecordHints :: "RecordHints option"
  h_Metadata :: metadata

definition HasRecordHints :: "Hostname \<Rightarrow> bool" where
  "HasRecordHints h \<longleftrightarrow> h_RecordHints h \<noteq> None"

definition Hostname_String :: "Hostname \<Rightarrow> string" where
  "Hostname_String h =
     (if h_Router h \<noteq> [] then h_Name h @ '' (from '' @ h_Source h @ '':'' @ h_Router h @ '')''
      else h_Name h @ '' (from '' @ h_Source h @ '')'')"

definition Validate :: "Hostname \<Rightarrow> err option" where
  "Validate h =
     (case h_RecordHints h of
        Some hints \<Rightarrow> if rh_Type hints = recordTypeSRV then ValidateSRVHostname (h_Name h)
                      else ValidateHostname (h_Name h)
      | None \<Rightarrow> ValidateHostname (h_Name h))"

definition IsValid :: "Hostname \<Rightarrow> bool" where
  "IsValid h \<longleftrightarrow>
     (case h_RecordHints h of
        Some hints \<Rightarrow> if rh_Type hints = recordTypeSRV then ValidateSRVHostname (h_Name h) = None
                      else ValidateHostname (h_Name h) = None
      | None \<Rightarrow> ValidateHostname (h_Name h) = None)"

definition NormalizedName :: "Hostname \<Rightarrow> string" where
  "NormalizedName h = NormalizeHostname (h_Name h)"

type_synonym Hostnames = "Hostname list"

definition Names :: "Hostnames \<Rightarrow> string list" where
  "Names hs = map h_Name hs"

definition Deduplicate :: "Hostnames \<Rightarrow> Hostnames" where
  "Deduplicate hs = first_by NormalizedName [] hs"

definition Filter :: "(Hostname \<Rightarrow> bool) \<Rightarrow> Hostnames \<Rightarrow> Hostnames" where
  "Filter predicate hs = filter predicate hs"

definition FromSource :: "string \<Rightarrow> Hostnames \<Rightarrow> Hostnames" where
  "FromSource sourceName hs = Filter (\<lambda>h. h_Source h = sourceName) hs"

definition ValidHostnames :: "Hostnames \<Rightarrow> Hostnames" where
  "ValidHostnames hs = Filter IsValid hs"

record ValidationResult =
  vr_Valid :: Hostnames
  vr_Invalid :: "(Hostname \<times> err) list"

fun validate_all_from :: "ValidationResult \<Rightarrow> Hostnames \<Rightarrow> ValidationResult" where
  "validate_all_from res [] = res"
| "validate_all_from res (h # hs) =
     (case Validate h of
        Some e \<Rightarrow> validate_all_from (res\<lparr>vr_Invalid := vr_Invalid res @ [(h, e)]\<rparr>) hs
      | None \<Rightarrow> validate_all_from (res\<lparr>vr_Valid := vr_Valid res @ [h]\<rparr>) hs)"

definition ValidateAll :: "Hostnames \<Rightarrow> ValidationResult" where
  "ValidateAll hs = validate_all_from \<lparr>vr_Valid = [], vr_Invalid = []\<rparr> hs"

subsection \<open>What the validators accept\<close>

text \<open>A declarative reading of the two grammars, on the name without its trailing dot.\<close>

definition ldh_label :: "string \<Rightarrow> bool" where
  "ldh_label l \<longleftrightarrow> l \<noteq> [] \<and> length l \<le> 63 \<and> (\<forall>c \<in> set l. alnum_hyphen c) \<and>
     hd l \<noteq> CHR ''-'' \<and> last l \<noteq> CHR ''-''"

definition rfc1123_name :: "string \<Rightarrow> bool" where
  "rfc1123_name s \<longleftrightarrow>
     (\<exists>l ls. s = Join (l # ls) ''.'' \<and> length s \<le> 253 \<and>
        (l = ''*'' \<or> ldh_label l) \<and> (\<forall>k \<in> set ls. ldh_label k))"

definition rfc2782_name :: "string \<Rightarrow> bool" where
  "rfc2782_name s \<longleftrightarrow>
     (\<exists>srv proto l ls. s = Join ((CHR ''_'' # srv) # (CHR ''_'' # proto) # l # ls) ''.'' \<and>
        length s \<le> 253 \<and> length srv < 63 \<and> length proto < 63 \<and>
        ldh_label srv \<and> ldh_label proto \<and> (\<forall>k \<in> set (l # ls). ldh_label k))"

lemma isAlphanumeric_dot [simp]: "\<not> isAlphanumeric (CHR ''.'')"
  by (simp add: isAlphanumeric_def is_lower_def is_upper_def is_digit_def)

lemma isAlphanumeric_hyphen [simp]: "\<not> isAlphanumeric (CHR ''-'')"
  by (simp add: isAlphanumeric_def is_lower_def is_upper_def is_digit_def)

lemma isAlphanumeric_underscore [simp]: "\<not> isAlphanumeric (CHR ''_'')"
  by (simp add: isAlphanumeric_def is_lower_def is_upper_def is_digit_def)

lemma labelRegex_iff:
  "labelRegex s \<longleftrightarrow> s \<noteq> [] \<and> (\<forall>c \<in> set s. alnum_hyphen c) \<and> hd s \<noteq> CHR ''-'' \<and> last s \<noteq> CHR ''-''"
proof (cases s)
  case (Cons c rest)
  show ?thesis
  proof (cases "rest = []")
    case False
    have "set rest = insert (last rest) (set (butlast rest))"
      using False by (metis append_butlast_last_id insert_is_Un list.set(1,2) set_append sup_commute)
    then show ?thesis
      using Cons False by (auto simp: alnum_hyphen_def list_all_iff)
  qed (use Cons in \<open>auto simp: alnum_hyphen_def\<close>)
qed simp

lemma single_eq_labelRegex: "length s = 1 \<Longrightarrow> singleCharLabelRegex s = labelRegex s"
  by (cases s) (auto simp: singleCharLabelRegex_def)

lemma check_label_format_None:
  "l \<noteq> [] \<Longrightarrow> check_label_format h l = None \<longleftrightarrow> labelRegex l"
  by (auto simp: check_label_format_def single_eq_labelRegex split: if_splits)

lemma ldh_label_iff: "ldh_label l \<longleftrightarrow> length l \<le> 63 \<and> labelRegex l"
  by (auto simp: ldh_label_def labelRegex_iff)

lemma ldh_label_Nil [simp]: "\<not> ldh_label []"
  by (simp add: ldh_label_def)

lemma first_error_None:
  "(case e of None \<Rightarrow> r | Some x \<Rightarrow> Some x) = None \<longleftrightarrow> e = None \<and> r = None"
  by (cases e) auto

lemmas label_check_simps = first_error_None check_label_format_None ldh_label_iff MaxLabelLength_def

lemma validate_labels_None_tail:
  "i > 0 \<Longrightarrow> validate_labels h i ls = None \<longleftrightarrow> (\<forall>l \<in> set ls. ldh_label l)"
proof (induction ls arbitrary: i)
  case (Cons l ls)
  then show ?case by (cases "l = []") (auto simp: label_check_simps)
qed simp

lemma validate_labels_None:
  "validate_labels h 0 (l # ls) = None \<longleftrightarrow>
     (l = ''*'' \<or> ldh_label l) \<and> (\<forall>k \<in> set ls. ldh_label k)"
proof (cases "l = ''*'' \<or> l = []")
  case False
  then show ?thesis by (auto simp: label_check_simps validate_labels_None_tail)
qed (auto simp: validate_labels_None_tail MaxLabelLength_def)

lemma srvLabelRegex_iff:
  "length l \<le> 63 \<and> srvLabelRegex l \<longleftrightarrow>
     (\<exists>k. l = CHR ''_'' # k \<and> length k < 63 \<and> ldh_label k)"
  by (cases l) (auto simp: srvLabelRegex_def ldh_label_iff)

lemma validate_srv_labels_tail:
  "i \<ge> 2 \<Longrightarrow> validate_srv_labels h i ls = None \<longleftrightarrow> (\<forall>l \<in> set ls. ldh_label l)"
proof (induction ls arbitrary: i)
  case (Cons l ls)
  then show ?case by (cases "l = []") (auto simp: label_check_simps)
qed simp

lemma validate_srv_labels_None:
  "validate_srv_labels h 0 (s # p # ls) = None \<longleftrightarrow>
     (length s \<le> 63 \<and> srvLabelRegex s) \<and> (length p \<le> 63 \<and> srvLabelRegex p) \<and>
     (\<forall>k \<in> set ls. ldh_label k)"
  by (auto simp: validate_srv_labels_tail MaxLabelLength_def srvLabelRegex_def)

lemma ldh_no_dot: "ldh_label l \<Longrightarrow> CHR ''.'' \<notin> set l"
  by (auto simp: ldh_label_def alnum_hyphen_def)

lemma Split_eq_iff_Join:
  assumes "ls \<noteq> []" and "\<forall>l \<in> set ls. sep \<notin> set l"
  shows "Split s sep = ls \<longleftrightarrow> s = Join ls [sep]"
  using assms Split_Join Join_Split by metis

lemma rfc1123_name_Split:
  "rfc1123_name s \<longleftrightarrow> length s \<le> 253 \<and>
     (\<exists>l ls. Split s (CHR ''.'') = l # ls \<and>
        (l = ''*'' \<or> ldh_label l) \<and> (\<forall>k \<in> set ls. ldh_label k))"
proof -
  have "s = Join (l # ls) ''.'' \<longleftrightarrow> Split s (CHR ''.'') = l # ls"
    if "l = ''*'' \<or> ldh_label l" "\<forall>k \<in> set ls. ldh_label k" for l ls
    using that by (subst Split_eq_iff_Join) (auto dest: ldh_no_dot)
  then show ?thesis unfolding rfc1123_name_def by blast
qed

lemma rfc2782_name_Split:
  "rfc2782_name s \<longleftrightarrow> length s \<le> 253 \<and>
     (\<exists>srv proto l ls. Split s (CHR ''.'') = (CHR ''_'' # srv) # (CHR ''_'' # proto) # l # ls \<and>
        length srv < 63 \<and> length proto < 63 \<and>
        ldh_label srv \<and> ldh_label proto \<and> (\<forall>k \<in> set (l # ls). ldh_label k))"
proof -
  have "s = Join ((CHR ''_'' # srv) # (CHR ''_'' # proto) # l # ls) ''.'' \<longleftrightarrow>
      Split s (CHR ''.'') = (CHR ''_'' # srv) # (CHR ''_'' # proto) # l # ls"
    if "ldh_label srv" "ldh_label proto" "\<forall>k \<in> set (l # ls). ldh_label k" for srv proto l ls
    using that by (subst Split_eq_iff_Join) (auto dest: ldh_no_dot)
  then show ?thesis unfolding rfc2782_name_def by blast
qed

lemma rfc1123_name_neq_Nil: "rfc1123_name s \<Longrightarrow> s \<noteq> []"
  by (auto simp: rfc1123_name_Split)

lemma ValidateHostname_iff:
  "ValidateHostname s = None \<longleftrightarrow> rfc1123_name (TrimSuffix s ''.'')"
proof -
  let ?t = "TrimSuffix s ''.''"
  obtain l ls where sp: "Split ?t (CHR ''.'') = l # ls" by (metis Split_neq_Nil neq_Nil_conv)
  show ?thesis
  proof (cases "?t = []")
    case True
    then show ?thesis using rfc1123_name_neq_Nil by (auto simp: ValidateHostname_def)
  next
    case False
    then show ?thesis
      by (auto simp: ValidateHostname_def Let_def rfc1123_name_Split sp MaxHostnameLength_def
          validate_labels_None simp del: validate_labels.simps)
  qed
qed

lemma ValidateSRVHostname_iff:
  "ValidateSRVHostname s = None \<longleftrightarrow> rfc2782_name (TrimSuffix s ''.'')"
proof -
  let ?t = "TrimSuffix s ''.''"
  show ?thesis
  proof (cases "length (Split ?t (CHR ''.'')) < 3")
    case True
    then show ?thesis by (auto simp: ValidateSRVHostname_def Let_def rfc2782_name_Split)
  next
    case False
    then have "Suc (Suc (Suc 0)) \<le> length (Split ?t (CHR ''.''))" by simp
    then obtain a b c ls where sp: "Split ?t (CHR ''.'') = a # b # c # ls"
      unfolding Suc_le_length_iff by blast
    then have "?t \<noteq> []" by auto
    with sp show ?thesis
      by (auto simp: ValidateSRVHostname_def Let_def rfc2782_name_Split MaxHostnameLength_def
          validate_srv_labels_None srvLabelRegex_iff simp del: validate_srv_labels.simps)
  qed
qed

subsection \<open>Normalization\<close>

lemma alnum_lower_char [simp]: "isAlphanumeric (lower_char c) = isAlphanumeric c"
  by (auto simp: isAlphanumeric_def is_lower_def is_upper_def is_digit_def byte_lower_char)

lemma lower_char_hyphen [simp]: "lower_char c = CHR ''-'' \<longleftrightarrow> c = CHR ''-''"
  by (rule lower_char_eq_low) simp

lemma alnum_hyphen_lower_char [simp]: "alnum_hyphen (lower_char c) = alnum_hyphen c"
  by (simp add: alnum_hyphen_def)

lemma ldh_label_ToLower [simp]: "ldh_label (ToLower l) = ldh_label l"
  by (auto simp: ldh_label_def ToLower_def hd_map last_map)

lemma Split_ToLower:
  "\<not> is_upper sep \<Longrightarrow> (\<And>c. lower_char c = sep \<longleftrightarrow> c = sep) \<Longrightarrow>
    Split (ToLower s) sep = map ToLower (Split s sep)"
  by (induction s) (auto split: list.splits)

lemma Split_ToLower_dot: "Split (ToLower s) (CHR ''.'') = map ToLower (Split s (CHR ''.''))"
  by (rule Split_ToLower) (auto simp: is_upper_def)

lemma lower_char_star [simp]: "lower_char c = CHR ''*'' \<longleftrightarrow> c = CHR ''*''"
  by (rule lower_char_eq_low) simp

lemma ToLower_star: "ToLower l = ''*'' \<longleftrightarrow> l = ''*''"
  by (cases l) auto

lemma rfc1123_name_ToLower [simp]: "rfc1123_name (ToLower s) = rfc1123_name s"
  by (auto simp: rfc1123_name_Split Split_ToLower_dot ToLower_star)

lemma Split_snoc_sep: "Split (s @ [sep]) sep = Split s sep @ [[]]"
  by (induction s) (auto split: list.splits)

lemma HasSuffix_dot_Split: "HasSuffix s ''.'' \<Longrightarrow> last (Split s (CHR ''.'')) = []"
  by (auto simp: HasSuffix_iff Split_snoc_sep)

lemma rfc1123_no_trailing_dot: "rfc1123_name s \<Longrightarrow> \<not> HasSuffix s ''.''"
proof
  assume v: "rfc1123_name s" and d: "HasSuffix s ''.''"
  then obtain l ls where sp: "Split s (CHR ''.'') = l # ls" "l = ''*'' \<or> ldh_label l"
      "\<forall>k \<in> set ls. ldh_label k"
    unfolding rfc1123_name_Split by blast
  have "[] \<notin> set (l # ls)" using sp(2,3) by auto
  moreover have "last (l # ls) \<in> set (l # ls)" by (rule last_in_set) simp
  moreover have "last (l # ls) = []" using HasSuffix_dot_Split [OF d] sp(1) by simp
  ultimately show False by metis
qed

lemma NormalizeHostname_valid:
  assumes "ValidateHostname s = None"
  shows "ValidateHostname (NormalizeHostname s) = None"
    and "NormalizeHostname (NormalizeHostname s) = NormalizeHostname s"
proof -
  from assms have v: "rfc1123_name (TrimSuffix s ''.'')" by (simp add: ValidateHostname_iff)
  then have "rfc1123_name (NormalizeHostname s)" by (simp add: NormalizeHostname_def)
  then have d: "\<not> HasSuffix (NormalizeHostname s) ''.''" by (rule rfc1123_no_trailing_dot)
  then show "ValidateHostname (NormalizeHostname s) = None"
    using \<open>rfc1123_name (NormalizeHostname s)\<close> by (simp add: ValidateHostname_iff)
  show "NormalizeHostname (NormalizeHostname s) = NormalizeHostname s"
    using d by (simp add: NormalizeHostname_def)
qed

lemma NormalizeHostname_lower [simp]: "ToLower (NormalizeHostname s) = NormalizeHostname s"
  by (simp add: NormalizeHostname_def)

subsection \<open>Slices of hostnames\<close>

lemma Validate_None_iff: "Validate h = None \<longleftrightarrow> IsValid h"
  by (simp add: Validate_def IsValid_def split: option.splits)

lemma validate_all_from_eq:
  "vr_Valid (validate_all_from res hs) = vr_Valid res @ filter IsValid hs"
  "map fst (vr_Invalid (validate_all_from res hs)) =
     map fst (vr_Invalid res) @ filter (\<lambda>h. \<not> IsValid h) hs"
  by (induction hs arbitrary: res) (auto split: option.splits simp flip: Validate_None_iff)

lemma ValidateAll_Valid [simp]: "vr_Valid (ValidateAll hs) = ValidHostnames hs"
  by (simp add: ValidateAll_def validate_all_from_eq ValidHostnames_def Filter_def)

lemma ValidateAll_Invalid: "map fst (vr_Invalid (ValidateAll hs)) = filter (\<lambda>h. \<not> IsValid h) hs"
  by (simp add: ValidateAll_def validate_all_from_eq)

lemma ValidateAll_counts:
  "length (vr_Valid (ValidateAll hs)) + length (vr_Invalid (ValidateAll hs)) = length hs"
proof -
  have "length (vr_Invalid (ValidateAll hs)) = length (filter (\<lambda>h. \<not> IsValid h) hs)"
    by (metis ValidateAll_Invalid length_map)
  then show ?thesis
    by (simp add: ValidHostnames_def Filter_def sum_length_filter_compl)
qed

subsection \<open>Properties\<close>

text \<open>C14: \<^verbatim>\<open>ValidateHostname\<close> accepts exactly the RFC 1123 names (with a wildcard allowed as the first
  label), and \<^verbatim>\<open>ValidateSRVHostname\<close> exactly the RFC 2782 service names, both up to one trailing dot.\<close>
theorem hostname_validation:
  "(ValidateHostname s = None \<longleftrightarrow> rfc1123_name (TrimSuffix s ''.'')) \<and>
   (ValidateSRVHostname s = None \<longleftrightarrow> rfc2782_name (TrimSuffix s ''.''))"
  by (simp add: ValidateHostname_iff ValidateSRVHostname_iff)

text \<open>The normalised form of a valid hostname is valid, lower case, without a trailing dot, and a
  fixed point of normalisation, so that it can serve as a map key.\<close>
lemma hostname_normal_form:
  assumes "ValidateHostname s = None"
  shows "ValidateHostname (NormalizeHostname s) = None \<and>
    NormalizeHostname (NormalizeHostname s) = NormalizeHostname s \<and>
    ToLower (NormalizeHostname s) = NormalizeHostname s \<and> \<not> HasSuffix (NormalizeHostname s) ''.''"
proof -
  have "rfc1123_name (TrimSuffix (NormalizeHostname s) ''.'')"
    using NormalizeHostname_valid(1) [OF assms] by (simp add: ValidateHostname_iff)
  moreover have "rfc1123_name (NormalizeHostname s)"
    using assms by (simp add: ValidateHostname_iff NormalizeHostname_def)
  ultimately show ?thesis
    using NormalizeHostname_valid [OF assms] rfc1123_no_trailing_dot by simp
qed

theorem hostname_normal_form_witness:
  "ValidateHostname ''App.Example.COM.'' = None \<and> NormalizeHostname ''App.Example.COM.'' = ''app.example.com'' \<and>
   ValidateHostname ''app.example.com'' = None"
proof -
  have v: "ValidateHostname ''App.Example.COM.'' = None" by code_simp
  have n: "NormalizeHostname ''App.Example.COM.'' = ''app.example.com''" by code_simp
  show ?thesis using hostname_normal_form [OF v] v by (simp only: n simp_thms)
qed

text \<open>\<^verbatim>\<open>ValidateAll\<close> splits a list of hostnames in two, in order and without loss: the valid ones, and
  the invalid ones each with the error its validation reports.\<close>

lemma validate_all_partition:
  "vr_Valid (ValidateAll hs) = filter IsValid hs \<and>
   vr_Invalid (ValidateAll hs) = List.map_filter (\<lambda>h. map_option (Pair h) (Validate h)) hs \<and>
   length (vr_Valid (ValidateAll hs)) + length (vr_Invalid (ValidateAll hs)) = length hs"
proof -
  have "vr_Invalid (validate_all_from res hs) =
      vr_Invalid res @ List.map_filter (\<lambda>h. map_option (Pair h) (Validate h)) hs" for res
    by (induction hs arbitrary: res) (auto split: option.splits simp: map_filter_simps)
  then show ?thesis
    using ValidateAll_counts [of hs] by (simp add: ValidateAll_def ValidHostnames_def Filter_def validate_all_from_eq)
qed

text \<open>\<^verbatim>\<open>Deduplicate\<close> keeps, in order, the first hostname of every normalised name and nothing else.\<close>

lemma deduplicate_first:
  "find (\<lambda>h. NormalizedName h = n) (Deduplicate hs) = find (\<lambda>h. NormalizedName h = n) hs \<and>
   distinct (map NormalizedName (Deduplicate hs)) \<and> subseq (Deduplicate hs) hs"
proof -
  have "find (\<lambda>h. NormalizedName h = n) (first_by NormalizedName seen hs) = find (\<lambda>h. NormalizedName h = n) hs"
    if "n \<notin> set seen" for seen
    using that by (induction hs arbitrary: seen) auto
  then show ?thesis
    using distinct_first_by [of NormalizedName "[]" hs] subseq_first_by by (simp add: Deduplicate_def)
qed

end
