(* ===== verification/Workload.thy ===== *)
theory Workload
  imports Hostname
begin

text \<open>
  \<^verbatim>\<open>pkg/workload/workload.go\<close>: the platform-independent description of a container, an
  Ingress, a virtual machine and so on, with its accessors, and the \<^verbatim>\<open>Lister\<close> interface.
  Platforms and kinds are Go strings with named constants. A nil map reads like an empty one,
  so the nil checks of the accessors are the lookup in an empty map.
\<close>

type_synonym Platform = string
type_synonym Kind = string

definition PlatformDocker :: Platform where "PlatformDocker = ''docker''"
definition PlatformKubernetes :: Platform where "PlatformKubernetes = ''kubernetes''"
definition PlatformProxmox :: Platform where "PlatformProxmox = ''proxmox''"
definition PlatformIncus :: Platform where "PlatformIncus = ''incus''"
definition PlatformStatic :: Platform where "PlatformStatic = ''static''"

lemmas Platform_defs = PlatformDocker_def PlatformKubernetes_def PlatformProxmox_def
  PlatformIncus_def PlatformStatic_def

definition IsProxmox :: "Platform \<Rightarrow> bool" where "IsProxmox p \<longleftrightarrow> p = PlatformProxmox"
definition IsIncus :: "Platform \<Rightarrow> bool" where "IsIncus p \<longleftrightarrow> p = PlatformIncus"

definition KindContainer :: Kind where "KindContainer = ''container''"
definition KindService :: Kind where "KindService = ''service''"
definition KindIngress :: Kind where "KindIngress = ''ingress''"
definition KindIngressRoute :: Kind where "KindIngressRoute = ''ingressroute''"
definition KindHTTPRoute :: Kind where "KindHTTPRoute = ''httproute''"
definition KindK8sService :: Kind where "KindK8sService = ''k8s-service''"
definition KindPod :: Kind where "KindPod = ''pod''"
definition KindVM :: Kind where "KindVM = ''vm''"
definition KindLXC :: Kind where "KindLXC = ''lxc''"
definition KindIncusContainer :: Kind where "KindIncusContainer = ''incus-container''"
definition KindIncusVM :: Kind where "KindIncusVM = ''incus-vm''"

record Workload =
  wl_ID :: string
  wl_Name :: string
  wl_Namespace :: string
  wl_Labels :: metadata
  wl_Annotations :: metadata
  wl_Platform :: Platform
  wl_Kind :: Kind
  wl_Hostnames :: "string list"
  wl_Metadata :: metadata

definition Workload_String :: "Workload \<Rightarrow> string" where
  "Workload_String w = wl_Platform w @ ''/'' @ wl_Kind w @ '':'' @ wl_Name w"

definition HasLabel :: "Workload \<Rightarrow> string \<Rightarrow> bool" where
  "HasLabel w key = has_key (wl_Labels w) key"

definition GetLabel :: "Workload \<Rightarrow> string \<Rightarrow> string" where
  "GetLabel w key = map_get [] (wl_Labels w) key"

definition GetLabelOr :: "Workload \<Rightarrow> string \<Rightarrow> string \<Rightarrow> string" where
  "GetLabelOr w key defaultValue = map_get defaultValue (wl_Labels w) key"

definition HasAnnotation :: "Workload \<Rightarrow> string \<Rightarrow> bool" where
  "HasAnnotation w key = has_key (wl_Annotations w) key"

definition GetAnnotation :: "Workload \<Rightarrow> string \<Rightarrow> string" where
  "GetAnnotation w key = map_get [] (wl_Annotations w) key"

definition GetAnnotationOr :: "Workload \<Rightarrow> string \<Rightarrow> string \<Rightarrow> string" where
  "GetAnnotationOr w key defaultValue = map_get defaultValue (wl_Annotations w) key"

definition GetLabelOrAnnotation :: "Workload \<Rightarrow> string \<Rightarrow> string" where
  "GetLabelOrAnnotation w key =
     (case map_of (wl_Labels w) key of
        Some v \<Rightarrow> v
      | None \<Rightarrow> (case map_of (wl_Annotations w) key of Some v \<Rightarrow> v | None \<Rightarrow> []))"

definition IsDocker :: "Workload \<Rightarrow> bool" where
  "IsDocker w \<longleftrightarrow> wl_Platform w = PlatformDocker"

definition IsKubernetes :: "Workload \<Rightarrow> bool" where
  "IsKubernetes w \<longleftrightarrow> wl_Platform w = PlatformKubernetes"

text \<open>A lister reads the platform, part of the world \<open>'w\<close>, without changing it.\<close>

record 'w Lister =
  l_ListWorkloads :: "'w \<Rightarrow> err + Workload list"
  l_Platform :: Platform

end
