(* ===== verification/SourceRegistry.thy ===== *)
theory SourceRegistry
  imports Workload
begin

text \<open>
  \<^verbatim>\<open>pkg/source/source.go\<close>, \<^verbatim>\<open>pkg/source/registry.go\<close> and \<^verbatim>\<open>pkg/source/watcher.go\<close>: the
  source interface, the registry that queries the sources in registration order, and the
  watcher that polls the discoverable ones and reports changes of their hostname sets. Sources
  are stateless; discovery reads files, that is the world.
\<close>

record 'w Source =
  s_Name :: string
  s_Extract :: "Workload \<Rightarrow> err + Hostnames"
  s_Discover :: "'w \<Rightarrow> err + Hostnames"
  s_SupportsDiscovery :: bool
  s_SupportedPlatforms :: "Platform list"

record 'w SourceRegistry =
  sr_sources :: "'w Source list"
  sr_byName :: "(string, 'w Source) gomap"

definition NewSourceRegistry :: "'w SourceRegistry" where
  "NewSourceRegistry = \<lparr>sr_sources = [], sr_byName = []\<rparr>"

definition Register :: "'w Source \<Rightarrow> 'w SourceRegistry \<Rightarrow> err option \<times> 'w SourceRegistry" where
  "Register src r =
     (let name = s_Name src in
      if has_key (sr_byName r) name then (Some (DuplicateSourceError name), r)
      else (None, r\<lparr>sr_sources := sr_sources r @ [src],
                    sr_byName := AList.update name src (sr_byName r)\<rparr>))"

definition Source_Get :: "'w SourceRegistry \<Rightarrow> string \<Rightarrow> 'w Source option" where
  "Source_Get r name = map_of (sr_byName r) name"

definition Source_All :: "'w SourceRegistry \<Rightarrow> 'w Source list" where
  "Source_All r = sr_sources r"

definition Source_Count :: "'w SourceRegistry \<Rightarrow> nat" where
  "Source_Count r = length (sr_sources r)"

definition isWorkloadDisabled :: "Workload \<Rightarrow> bool" where
  "isWorkloadDisabled wl =
     (if (case map_of (wl_Labels wl) ''dnsweaver.enabled'' of
            Some v \<Rightarrow> EqualFold (TrimSpace v) ''false'' | None \<Rightarrow> False) then True
      else if (case map_of (wl_Annotations wl) ''dnsweaver.dev/enabled'' of
            Some v \<Rightarrow> EqualFold (TrimSpace v) ''false'' | None \<Rightarrow> False) then True
      else False)"

definition sourceSupports :: "'w Source \<Rightarrow> Platform \<Rightarrow> bool" where
  "sourceSupports src platform =
     (if s_SupportedPlatforms src = [] then True
      else list_ex (\<lambda>p. p = platform) (s_SupportedPlatforms src))"

fun extract_loop :: "Workload \<Rightarrow> 'w Source list \<Rightarrow> Hostnames \<Rightarrow> Hostnames" where
  "extract_loop wl [] allHostnames = allHostnames"
| "extract_loop wl (src # srcs) allHostnames =
     (if \<not> sourceSupports src (wl_Platform wl) then extract_loop wl srcs allHostnames
      else case s_Extract src wl of
        Inl _ \<Rightarrow> extract_loop wl srcs allHostnames
      | Inr hostnames \<Rightarrow>
          if hostnames \<noteq> [] then extract_loop wl srcs (allHostnames @ hostnames)
          else extract_loop wl srcs allHostnames)"

definition ExtractAll :: "'w SourceRegistry \<Rightarrow> Workload \<Rightarrow> Hostnames" where
  "ExtractAll r wl =
     (if isWorkloadDisabled wl then [] else extract_loop wl (sr_sources r) [])"

fun discover_loop :: "'w \<Rightarrow> 'w Source list \<Rightarrow> Hostnames \<Rightarrow> Hostnames" where
  "discover_loop w [] allHostnames = allHostnames"
| "discover_loop w (src # srcs) allHostnames =
     (if \<not> s_SupportsDiscovery src then discover_loop w srcs allHostnames
      else case s_Discover src w of
        Inl _ \<Rightarrow> discover_loop w srcs allHostnames
      | Inr hostnames \<Rightarrow>
          if hostnames \<noteq> [] then discover_loop w srcs (allHostnames @ hostnames)
          else discover_loop w srcs allHostnames)"

definition DiscoverAll :: "'w SourceRegistry \<Rightarrow> 'w \<Rightarrow> Hostnames" where
  "DiscoverAll r w = discover_loop w (sr_sources r) []"

definition DiscoverableSources :: "'w SourceRegistry \<Rightarrow> 'w Source list" where
  "DiscoverableSources r = filter s_SupportsDiscovery (sr_sources r)"

definition ExtractFrom :: "'w SourceRegistry \<Rightarrow> string \<Rightarrow> Workload \<Rightarrow> err + Hostnames" where
  "ExtractFrom r sourceName wl =
     (case map_of (sr_byName r) sourceName of
        None \<Rightarrow> Inl (SourceNotFoundError sourceName)
      | Some src \<Rightarrow> s_Extract src wl)"

definition DiscoverFrom :: "'w SourceRegistry \<Rightarrow> string \<Rightarrow> 'w \<Rightarrow> err + Hostnames" where
  "DiscoverFrom r sourceName w =
     (case map_of (sr_byName r) sourceName of
        None \<Rightarrow> Inl (SourceNotFoundError sourceName)
      | Some src \<Rightarrow> if \<not> s_SupportsDiscovery src then Inr [] else s_Discover src w)"

subsection \<open>The registry as an ordered set of sources with distinct names\<close>

definition wf_sources :: "'w SourceRegistry \<Rightarrow> bool" where
  "wf_sources r \<longleftrightarrow> distinct (map s_Name (sr_sources r)) \<and>
     (\<forall>n. map_of (sr_byName r) n = find (\<lambda>s. s_Name s = n) (sr_sources r))"

lemma find_name_None: "find (\<lambda>s. s_Name s = n) ss = None \<longleftrightarrow> n \<notin> s_Name ` set ss"
  by (auto simp: find_None_iff)

lemma wf_NewSourceRegistry [simp]: "wf_sources NewSourceRegistry"
  by (simp add: wf_sources_def NewSourceRegistry_def)

lemma wf_Register [wf_rules]:
  assumes "wf_sources r" shows "wf_sources (snd (Register src r))"
proof (cases "has_key (sr_byName r) (s_Name src)")
  case False
  then have none: "find (\<lambda>s. s_Name s = s_Name src) (sr_sources r) = None"
    using assms by (simp add: wf_sources_def has_key_def)
  then have "s_Name src \<notin> s_Name ` set (sr_sources r)" by (simp only: find_name_None) simp
  with none show ?thesis
    using assms False
    by (auto simp: wf_sources_def Register_def find_append split: option.splits)
qed (use assms in \<open>simp add: Register_def\<close>)

lemma Register_spec:
  assumes "wf_sources r"
  shows "Register src r =
    (if s_Name src \<in> s_Name ` set (sr_sources r) then (Some (DuplicateSourceError (s_Name src)), r)
     else (None, r\<lparr>sr_sources := sr_sources r @ [src],
                   sr_byName := AList.update (s_Name src) src (sr_byName r)\<rparr>))"
proof -
  have "has_key (sr_byName r) (s_Name src) \<longleftrightarrow> s_Name src \<in> s_Name ` set (sr_sources r)"
    using assms by (metis find_name_None has_key_def wf_sources_def)
  then show ?thesis by (simp add: Register_def)
qed

text \<open>What one source contributes, and the aggregate as a concatenation in registration order.\<close>

definition contribution :: "Workload \<Rightarrow> 'w Source \<Rightarrow> Hostnames" where
  "contribution wl src =
     (if sourceSupports src (wl_Platform wl)
      then case s_Extract src wl of Inl _ \<Rightarrow> [] | Inr hs \<Rightarrow> hs else [])"

definition discovery :: "'w \<Rightarrow> 'w Source \<Rightarrow> Hostnames" where
  "discovery w src =
     (if s_SupportsDiscovery src
      then case s_Discover src w of Inl _ \<Rightarrow> [] | Inr hs \<Rightarrow> hs else [])"

lemma extract_loop_eq: "extract_loop wl srcs acc = acc @ concat (map (contribution wl) srcs)"
  by (induction srcs arbitrary: acc) (auto simp: contribution_def split: sum.splits)

lemma discover_loop_eq: "discover_loop w srcs acc = acc @ concat (map (discovery w) srcs)"
  by (induction srcs arbitrary: acc) (auto simp: discovery_def split: sum.splits)

lemma ExtractAll_eq:
  "ExtractAll r wl =
    (if isWorkloadDisabled wl then [] else concat (map (contribution wl) (sr_sources r)))"
  by (simp add: ExtractAll_def extract_loop_eq)

lemma DiscoverAll_eq: "DiscoverAll r w = concat (map (discovery w) (sr_sources r))"
  by (simp add: DiscoverAll_def discover_loop_eq)

subsection \<open>What a source promises\<close>

text \<open>
  The built-in sources never fail on a workload, mark every hostname with their own name and return
  nothing from discovery unless it is configured.
\<close>

locale hostname_source =
  fixes src :: "'w Source"
  assumes extract_total: "\<exists>hs. s_Extract src wl = Inr hs"
    and extract_tagged: "s_Extract src wl = Inr hs \<Longrightarrow> h \<in> set hs \<Longrightarrow> h_Source h = s_Name src"
    and discover_tagged: "s_Discover src w = Inr hs \<Longrightarrow> h \<in> set hs \<Longrightarrow> h_Source h = s_Name src"
    and no_discovery: "\<not> s_SupportsDiscovery src \<Longrightarrow> s_Discover src w = Inr []"
begin

lemma extract_contribution:
  "sourceSupports src (wl_Platform wl) \<Longrightarrow> s_Extract src wl = Inr (contribution wl src)"
  using extract_total [of wl] by (auto simp: contribution_def)

lemma contribution_tagged: "h \<in> set (contribution wl src) \<Longrightarrow> h_Source h = s_Name src"
proof -
  assume h: "h \<in> set (contribution wl src)"
  then have "sourceSupports src (wl_Platform wl)"
    by (cases "sourceSupports src (wl_Platform wl)") (simp_all add: contribution_def)
  then show ?thesis using h extract_contribution extract_tagged by blast
qed

lemma discovery_tagged: "h \<in> set (discovery w src) \<Longrightarrow> h_Source h = s_Name src"
  by (cases "s_Discover src w"; cases "s_SupportsDiscovery src") (simp_all add: discovery_def discover_tagged)

end

lemma extracted_from:
  assumes "\<And>s. s \<in> set (sr_sources r) \<Longrightarrow> hostname_source s" and "h \<in> set (ExtractAll r wl @ DiscoverAll r w)"
  shows "\<exists>s \<in> set (sr_sources r). h_Source h = s_Name s \<and> h \<in> set (contribution wl s @ discovery w s)"
  using assms hostname_source.contribution_tagged hostname_source.discovery_tagged
  by (fastforce simp: ExtractAll_eq DiscoverAll_eq split: if_splits)

subsection \<open>Properties\<close>

text \<open>Extraction over all sources is the concatenation, in registration order, of what each source
  that supports the platform and does not fail contributes; an opted-out workload contributes nothing.\<close>
lemma extract_all_spec:
  "ExtractAll r wl =
    (if isWorkloadDisabled wl then []
     else concat (map (\<lambda>s. if sourceSupports s (wl_Platform wl)
       then (case s_Extract s wl of Inl _ \<Rightarrow> [] | Inr hs \<Rightarrow> hs) else []) (sr_sources r)))"
  by (simp add: ExtractAll_eq contribution_def cong: map_cong)

end
