(* ===== verification/FileWatcher.thy ===== *)
theory FileWatcher
  imports SourceRegistry
begin

text \<open>
  \<^verbatim>\<open>pkg/source/watcher.go\<close>: polling of the discoverable sources. \<open>lastSeen\<close> maps a source to
  the set of names it had at the last report, a list without repetitions here (Go:
  \<^verbatim>\<open>map[string]struct{}\<close>). The callback is a parameter that may change the world. The
  life cycle (Start, Stop, and the polling goroutines with their contexts) is a step relation
  whose steps are the critical sections of the code, in any interleaving.
\<close>

type_synonym 'w callback = "string \<Rightarrow> Hostnames \<Rightarrow> 'w \<Rightarrow> 'w"
type_synonym last_seen = "(string, string list) gomap"

definition hasChanged :: "last_seen \<Rightarrow> string \<Rightarrow> Hostnames \<Rightarrow> bool" where
  "hasChanged lastSeen sourceName hostnames =
     (case map_of lastSeen sourceName of
        None \<Rightarrow> length hostnames > 0
      | Some current \<Rightarrow>
          let newSet = remdups (map h_Name hostnames) in
          if length current \<noteq> length newSet then True
          else list_ex (\<lambda>name. name \<notin> set newSet) current)"

definition updateLastSeen :: "string \<Rightarrow> Hostnames \<Rightarrow> last_seen \<Rightarrow> last_seen" where
  "updateLastSeen sourceName hostnames lastSeen =
     AList.update sourceName (remdups (map h_Name hostnames)) lastSeen"

fun poll_sources :: "'w callback \<Rightarrow> 'w Source list \<Rightarrow> last_seen \<times> 'w \<Rightarrow> last_seen \<times> 'w" where
  "poll_sources callback [] (seen, w) = (seen, w)"
| "poll_sources callback (src # srcs) (seen, w) =
     (case s_Discover src w of
        Inl _ \<Rightarrow> poll_sources callback srcs (seen, w)
      | Inr hostnames \<Rightarrow>
          if hasChanged seen (s_Name src) hostnames
          then poll_sources callback srcs
                 (updateLastSeen (s_Name src) hostnames seen, callback (s_Name src) hostnames w)
          else poll_sources callback srcs (seen, w))"

definition pollAll ::
  "'w callback \<Rightarrow> 'w SourceRegistry \<Rightarrow> last_seen \<times> 'w \<Rightarrow> last_seen \<times> 'w" where
  "pollAll callback registry st =
     (let sources = DiscoverableSources registry in
      if sources = [] then st else poll_sources callback sources st)"

subsection \<open>Change detection compares sets of names\<close>

definition wf_seen :: "last_seen \<Rightarrow> bool" where
  "wf_seen seen \<longleftrightarrow> (\<forall>n. distinct (map_get [] seen n))"

definition seen_names :: "last_seen \<Rightarrow> string \<Rightarrow> string set" where
  "seen_names seen n = set (map_get [] seen n)"

lemma wf_seen_update [wf_rules]: "wf_seen seen \<Longrightarrow> wf_seen (updateLastSeen n hs seen)"
  by (simp add: wf_seen_def updateLastSeen_def map_get_def)

lemma seen_names_update:
  "seen_names (updateLastSeen n hs seen) m = (if m = n then h_Name ` set hs else seen_names seen m)"
  by (simp add: seen_names_def updateLastSeen_def map_get_def)

lemma hasChanged_iff:
  assumes "wf_seen seen"
  shows "hasChanged seen n hs \<longleftrightarrow> seen_names seen n \<noteq> h_Name ` set hs"
proof (cases "map_of seen n")
  case None
  then show ?thesis by (auto simp: hasChanged_def seen_names_def map_get_def)
next
  case (Some xs)
  let ?new = "remdups (map h_Name hs)"
  have d: "distinct xs" using assms Some unfolding wf_seen_def map_get_def by (metis option.simps(5))
  have new: "set ?new = h_Name ` set hs" "distinct ?new" by auto
  have "set xs = set ?new" if "length xs = length ?new" "set xs \<subseteq> set ?new"
    using that d new(2) by (metis List.finite_set card_subset_eq distinct_card)
  moreover have "length xs = length ?new" if "set xs = set ?new"
    using that d new(2) by (metis distinct_card)
  ultimately show ?thesis
    using Some new(1)
    by (auto simp: hasChanged_def seen_names_def map_get_def Let_def list_ex_iff simp del: set_remdups)
qed

text \<open>
  After a poll every source that could be read is reported: its set of names is the recorded
  one. The callback is required to leave what the sources discover alone (it reconciles DNS
  records, not the configuration files).
\<close>

lemma wf_seen_poll [wf_rules]: "wf_seen seen \<Longrightarrow> wf_seen (fst (poll_sources cb srcs (seen, w)))"
  by (induction cb srcs "(seen, w)" arbitrary: seen w rule: poll_sources.induct)
    (auto simp: wf_rules split: sum.splits)

lemma poll_other:
  "n \<notin> s_Name ` set srcs \<Longrightarrow>
    seen_names (fst (poll_sources cb srcs (seen, w))) n = seen_names seen n"
  by (induction cb srcs "(seen, w)" arbitrary: seen w rule: poll_sources.induct)
    (auto simp: seen_names_update split: sum.splits)

lemma poll_world:
  assumes "\<forall>src \<in> S. \<forall>n hs w. s_Discover src (cb n hs w) = s_Discover src w" and "src \<in> S"
  shows "s_Discover src (snd (poll_sources cb srcs (seen, w))) = s_Discover src w"
  using assms
  by (induction cb srcs "(seen, w)" arbitrary: seen w rule: poll_sources.induct)
    (auto split: sum.splits)

lemma poll_seen:
  assumes "wf_seen seen" and "distinct (map s_Name srcs)"
    and "\<forall>src \<in> set srcs. \<forall>n hs w. s_Discover src (cb n hs w) = s_Discover src w"
    and "src \<in> set srcs" and "s_Discover src w = Inr hs"
  shows "seen_names (fst (poll_sources cb srcs (seen, w))) (s_Name src) = h_Name ` set hs"
  using assms
proof (induction srcs arbitrary: seen w)
  case (Cons s srcs)
  show ?case
  proof (cases "src = s")
    case True
    then have "s_Name src \<notin> s_Name ` set srcs" using Cons.prems(2) by auto
    then show ?thesis
      using True Cons.prems by (auto simp: poll_other seen_names_update hasChanged_iff)
  next
    case False
    then have "src \<in> set srcs" using Cons.prems(4) by simp
    then show ?thesis
      using Cons by (auto simp: wf_rules split: sum.splits)
  qed
qed simp

lemma poll_quiet:
  assumes "wf_seen seen"
    and "\<forall>src \<in> set srcs. \<forall>hs. s_Discover src w = Inr hs \<longrightarrow> seen_names seen (s_Name src) = h_Name ` set hs"
  shows "poll_sources cb srcs (seen, w) = (seen, w)"
  using assms by (induction srcs) (auto simp: hasChanged_iff split: sum.splits)

lemma poll_idem:
  assumes "wf_seen seen" and "distinct (map s_Name srcs)"
    and "\<forall>src \<in> set srcs. \<forall>n hs w. s_Discover src (cb n hs w) = s_Discover src w"
  shows "poll_sources cb srcs (poll_sources cb srcs (seen, w)) = poll_sources cb srcs (seen, w)"
proof -
  obtain seen' w' where p: "poll_sources cb srcs (seen, w) = (seen', w')" by fastforce
  have "wf_seen seen'" using wf_seen_poll [OF assms(1), of cb srcs w] p by simp
  moreover have "seen_names seen' (s_Name src) = h_Name ` set hs"
    if "src \<in> set srcs" "s_Discover src w' = Inr hs" for src hs
  proof -
    have "s_Discover src w = Inr hs" using poll_world [OF assms(3) that(1), of srcs seen w] that p by simp
    then show ?thesis using poll_seen [OF assms that(1)] p by fastforce
  qed
  ultimately have "poll_sources cb srcs (seen', w') = (seen', w')" by (intro poll_quiet) auto
  then show ?thesis using p by simp
qed

subsection \<open>Life cycle\<close>

text \<open>
  \<open>fw_cancel\<close> is the goroutine whose context \<^verbatim>\<open>w.cancel\<close> cancels; \<open>fw_loops\<close> maps every
  goroutine that is still in \<^verbatim>\<open>pollLoop\<close> to whether its context is cancelled.
\<close>

record fw_life =
  fw_running :: bool
  fw_cancel :: "nat option"
  fw_loops :: "nat \<Rightarrow> bool option"
  fw_next :: nat

definition fw_init :: fw_life where
  "fw_init = \<lparr>fw_running = False, fw_cancel = None, fw_loops = (\<lambda>_. None), fw_next = 0\<rparr>"

definition fw_Start :: "fw_life \<Rightarrow> fw_life" where
  "fw_Start s =
     (if fw_running s then s
      else s\<lparr>fw_cancel := Some (fw_next s), fw_running := True,
             fw_loops := (fw_loops s)(fw_next s \<mapsto> False), fw_next := fw_next s + 1\<rparr>)"

definition cancel_loop :: "nat \<Rightarrow> (nat \<Rightarrow> bool option) \<Rightarrow> nat \<Rightarrow> bool option" where
  "cancel_loop g loops = (if loops g = None then loops else loops(g \<mapsto> True))"

definition fw_Stop :: "fw_life \<Rightarrow> fw_life" where
  "fw_Stop s =
     (case fw_cancel s of
        Some g \<Rightarrow> s\<lparr>fw_loops := cancel_loop g (fw_loops s), fw_cancel := None, fw_running := False\<rparr>
      | None \<Rightarrow> s\<lparr>fw_running := False\<rparr>)"

text \<open>The exit of a goroutine whose context is done.\<close>

definition fw_exit :: "nat \<Rightarrow> fw_life \<Rightarrow> fw_life" where
  "fw_exit g s = s\<lparr>fw_running := False, fw_loops := (fw_loops s)(g := None)\<rparr>"

inductive fw_step :: "fw_life \<Rightarrow> fw_life \<Rightarrow> bool" where
  step_Start: "fw_step s (fw_Start s)"
| step_Stop: "fw_step s (fw_Stop s)"
| step_exit: "fw_loops s g = Some True \<Longrightarrow> fw_step s (fw_exit g s)"

inductive fw_reach :: "fw_life \<Rightarrow> bool" where
  reach_init: "fw_reach fw_init"
| reach_step: "fw_reach s \<Longrightarrow> fw_step s t \<Longrightarrow> fw_reach t"

definition live_loops :: "fw_life \<Rightarrow> nat set" where
  "live_loops s = {g. fw_loops s g = Some False}"

lemma fw_reach_bound: "fw_reach s \<Longrightarrow> fw_loops s g \<noteq> None \<Longrightarrow> g < fw_next s"
proof (induction arbitrary: g rule: fw_reach.induct)
  case (reach_step s t)
  from reach_step.hyps(2) show ?case
    using reach_step.IH reach_step.prems
    by cases (auto simp: fw_Start_def fw_Stop_def fw_exit_def cancel_loop_def less_Suc_eq
        split: if_splits option.splits)
qed (simp add: fw_init_def)

text \<open>The cancel function, when there is one, belongs to the goroutine started last.\<close>

lemma fw_reach_cancel: "fw_reach s \<Longrightarrow> fw_cancel s = Some g \<Longrightarrow> g + 1 = fw_next s"
proof (induction arbitrary: g rule: fw_reach.induct)
  case (reach_step s t)
  from reach_step.hyps(2) show ?case
    using reach_step.IH reach_step.prems
    by cases (auto simp: fw_Start_def fw_Stop_def fw_exit_def split: if_splits option.splits)
qed (simp add: fw_init_def)

lemma fw_Stop_cancels: "fw_cancel s = Some g \<Longrightarrow> g \<notin> live_loops (fw_Stop s)"
  by (auto simp: live_loops_def fw_Stop_def cancel_loop_def)

lemma fw_two_loops:
  "\<exists>s. fw_reach s \<and> fw_running s \<and> live_loops s = {1, 2} \<and> live_loops (fw_Stop s) = {1}"
proof -
  let ?s2 = "fw_Start (fw_Stop (fw_Start fw_init))"
  let ?s = "fw_Start (fw_exit 0 ?s2)"
  have r2: "fw_reach ?s2" by (intro reach_step [OF _ step_Start] reach_step [OF _ step_Stop] reach_init)
  have e: "fw_loops ?s2 0 = Some True"
    by (simp add: fw_Start_def fw_Stop_def fw_init_def cancel_loop_def)
  have "fw_reach ?s"
    using reach_step [OF r2 step_exit [of ?s2 0, OF e]] by (rule reach_step [OF _ step_Start])
  moreover have "fw_running ?s"
    by (simp add: fw_Start_def)
  moreover have "live_loops ?s = {1, 2}" "live_loops (fw_Stop ?s) = {1}"
    by (auto simp: live_loops_def fw_Start_def fw_Stop_def fw_exit_def fw_init_def cancel_loop_def)
  ultimately show ?thesis by blast
qed

subsection \<open>Properties\<close>

text \<open>A poll is idempotent: when the callbacks do not change what the sources discover, a second poll
  right after the first calls no callback and changes no state.\<close>

lemma poll_idempotent:
  assumes "wf_seen seen" and "distinct (map s_Name srcs)"
    and "\<forall>src \<in> set srcs. \<forall>n hs w. s_Discover src (cb n hs w) = s_Discover src w"
  shows "poll_sources cb srcs (poll_sources cb srcs (seen, w)) = poll_sources cb srcs (seen, w)"
  using assms by (rule poll_idem)

definition ex_file_source :: "nat Source" where
  "ex_file_source = \<lparr>s_Name = ''f'', s_Extract = (\<lambda>_. Inr []),
     s_Discover = (\<lambda>_. Inr [\<lparr>h_Name = ''a.b'', h_Source = ''f'', h_Router = [], h_RecordHints = None, h_Metadata = []\<rparr>]),
     s_SupportsDiscovery = True, s_SupportedPlatforms = []\<rparr>"

theorem poll_idempotent_witness:
  "poll_sources (\<lambda>_ _ n. n + 1) [ex_file_source] ([], 0) = ([(''f'', [''a.b''])], 1) \<and>
   poll_sources (\<lambda>_ _ n. n + 1) [ex_file_source] ([(''f'', [''a.b''])], 1) = ([(''f'', [''a.b''])], 1)"
proof -
  have a: "poll_sources (\<lambda>_ _ n. n + 1) [ex_file_source] ([], 0) = ([(''f'', [''a.b''])], 1)"
    by code_simp
  have "poll_sources (\<lambda>_ _ n. n + 1) [ex_file_source] (poll_sources (\<lambda>_ _ n. n + 1) [ex_file_source] ([], 0)) =
    poll_sources (\<lambda>_ _ n. n + 1) [ex_file_source] ([], 0)"
    by (rule poll_idempotent) (simp_all add: wf_seen_def map_get_def ex_file_source_def)
  with a show ?thesis by simp
qed

text \<open>C18: Stopping the watcher cancels the loop started last, but a loop cancelled earlier that exits after
  a restart clears the running flag, so two live loops are reachable and Stop leaves one running.\<close>
theorem watcher_leaks_loop:
  "\<exists>s. fw_reach s \<and> fw_running s \<and> live_loops s = {1, 2} \<and> live_loops (fw_Stop s) = {1}"
  by (rule fw_two_loops)

end
