(* ===== verification/EventWatcher.thy ===== *)
theory EventWatcher
  imports FileWatcher
begin

text \<open>
  \<^verbatim>\<open>internal/watcher/watcher.go\<close>: Docker events are debounced; each one stops the pending timer and arms a new
  one, and a timer that fires triggers a reconciliation. Starting, stopping and the exit of the event loop have
  the shape of the file watcher's and reuse its life cycle. Steps interleave freely: a loop whose context is
  cancelled may still take an event, and a timer may fire late. The log is a ghost: latest entry first.
\<close>

record ew_Config =
  ew_DebounceInterval :: int
  ew_ReconnectInterval :: int

definition ew_DefaultConfig :: ew_Config where
  "ew_DefaultConfig = \<lparr>ew_DebounceInterval = 2 * 1000000000, ew_ReconnectInterval = 5 * 1000000000\<rparr>"

datatype ew_note = Event int | Reconcile_at int | Stopped int

record event_watcher =
  ew_life :: fw_life
  ew_debounce :: "nat option"
  ew_timers :: "(nat \<times> int) list"   \<comment> \<open>the armed timers with the times they are due\<close>
  ew_nextTimer :: nat
  ew_now :: int
  ew_log :: "ew_note list"

definition ew_New :: "int \<Rightarrow> event_watcher" where
  "ew_New now = \<lparr>ew_life = fw_init, ew_debounce = None, ew_timers = [], ew_nextTimer = 0, ew_now = now, ew_log = []\<rparr>"

definition buildEventFilters :: "bool \<Rightarrow> (string \<times> string) list" where
  "buildEventFilters isSwarm =
     (if isSwarm then [(''type'', ''service''), (''event'', ''create''), (''event'', ''update''), (''event'', ''remove'')]
      else [(''type'', ''container''), (''event'', ''start''), (''event'', ''stop''), (''event'', ''die''), (''event'', ''destroy'')])"

definition stop_timer :: "nat option \<Rightarrow> (nat \<times> int) list \<Rightarrow> (nat \<times> int) list" where
  "stop_timer t timers = (case t of None \<Rightarrow> timers | Some i \<Rightarrow> filter (\<lambda>(j, _). j \<noteq> i) timers)"

definition ew_Start :: "event_watcher \<Rightarrow> event_watcher" where
  "ew_Start w = w\<lparr>ew_life := fw_Start (ew_life w)\<rparr>"

definition ew_Stop :: "event_watcher \<Rightarrow> event_watcher" where
  "ew_Stop w = w\<lparr>ew_life := fw_Stop (ew_life w), ew_timers := stop_timer (ew_debounce w) (ew_timers w),
     ew_debounce := None, ew_log := Stopped (ew_now w) # ew_log w\<rparr>"

definition ew_IsRunning :: "event_watcher \<Rightarrow> bool" where
  "ew_IsRunning w \<longleftrightarrow> fw_running (ew_life w)"

definition ew_exit :: "nat \<Rightarrow> event_watcher \<Rightarrow> event_watcher" where
  "ew_exit g w = w\<lparr>ew_life := fw_exit g (ew_life w)\<rparr>"

definition ew_handleEvent :: "ew_Config \<Rightarrow> event_watcher \<Rightarrow> event_watcher" where
  "ew_handleEvent cfg w =
     w\<lparr>ew_timers := (ew_nextTimer w, ew_now w + ew_DebounceInterval cfg) # stop_timer (ew_debounce w) (ew_timers w),
       ew_debounce := Some (ew_nextTimer w), ew_nextTimer := ew_nextTimer w + 1, ew_log := Event (ew_now w) # ew_log w\<rparr>"

definition ew_triggerReconcile :: "event_watcher \<Rightarrow> event_watcher" where
  "ew_triggerReconcile w = w\<lparr>ew_log := Reconcile_at (ew_now w) # ew_log w\<rparr>"

definition ew_TriggerNow :: "event_watcher \<Rightarrow> event_watcher" where
  "ew_TriggerNow w =
     ew_triggerReconcile (w\<lparr>ew_timers := stop_timer (ew_debounce w) (ew_timers w), ew_debounce := None\<rparr>)"

text \<open>A due timer runs the function it was armed with; the watcher keeps its handle.\<close>

definition ew_fire :: "nat \<Rightarrow> event_watcher \<Rightarrow> event_watcher" where
  "ew_fire i w = ew_triggerReconcile (w\<lparr>ew_timers := stop_timer (Some i) (ew_timers w)\<rparr>)"

inductive ew_step :: "ew_Config \<Rightarrow> event_watcher \<Rightarrow> event_watcher \<Rightarrow> bool" for cfg where
  ew_start: "ew_step cfg w (ew_Start w)"
| ew_stop: "ew_step cfg w (ew_Stop w)"
| ew_exits: "fw_loops (ew_life w) g = Some True \<Longrightarrow> ew_step cfg w (ew_exit g w)"
| ew_event: "fw_loops (ew_life w) g \<noteq> None \<Longrightarrow> ew_step cfg w (ew_handleEvent cfg w)"
| ew_fires: "(i, due) \<in> set (ew_timers w) \<Longrightarrow> due \<le> ew_now w \<Longrightarrow> ew_step cfg w (ew_fire i w)"
| ew_now: "ew_step cfg w (ew_TriggerNow w)"
| ew_tick: "0 \<le> d \<Longrightarrow> ew_step cfg w (w\<lparr>ew_now := ew_now w + d\<rparr>)"

inductive ew_reach :: "ew_Config \<Rightarrow> event_watcher \<Rightarrow> bool" for cfg where
  ew_reach_init: "ew_reach cfg (ew_New now)"
| ew_reach_step: "ew_reach cfg w \<Longrightarrow> ew_step cfg w w' \<Longrightarrow> ew_reach cfg w'"

subsection \<open>The debounce invariant\<close>

text \<open>The time of the last event, and whether it still waits for a reconciliation.\<close>

fun last_event :: "ew_note list \<Rightarrow> int option" where
  "last_event [] = None"
| "last_event (Event t # log) = Some t"
| "last_event (_ # log) = last_event log"

fun unsettled :: "ew_note list \<Rightarrow> bool" where
  "unsettled [] \<longleftrightarrow> False"
| "unsettled (Event t # log) \<longleftrightarrow> True"
| "unsettled (_ # log) \<longleftrightarrow> False"

definition wf_watcher :: "ew_Config \<Rightarrow> event_watcher \<Rightarrow> bool" where
  "wf_watcher cfg w \<longleftrightarrow>
     (if unsettled (ew_log w)
      then \<exists>i e. ew_timers w = [(i, e + ew_DebounceInterval cfg)] \<and> ew_debounce w = Some i \<and> last_event (ew_log w) = Some e
      else ew_timers w = []) \<and>
     (\<forall>e. last_event (ew_log w) = Some e \<longrightarrow> e \<le> ew_now w)"

lemma stop_timer_simps [simp]: "stop_timer t [] = []" "stop_timer (Some i) [(i, due)] = []"
  by (simp_all add: stop_timer_def split: option.splits)

lemma wf_watcher_step:
  assumes "wf_watcher cfg w" "ew_step cfg w w'" shows "wf_watcher cfg w'"
  using assms(2,1)
proof cases
  case (ew_tick d)
  then show ?thesis using assms(1) by (force simp: wf_watcher_def split: if_splits)
qed (use assms(1) in \<open>auto simp: wf_watcher_def ew_Start_def ew_Stop_def ew_exit_def ew_handleEvent_def ew_fire_def
    ew_TriggerNow_def ew_triggerReconcile_def split: if_splits\<close>)

lemma ew_reach_wf: "ew_reach cfg w \<Longrightarrow> wf_watcher cfg w"
proof (induction rule: ew_reach.induct)
  case (ew_reach_init now)
  show ?case by (simp add: wf_watcher_def ew_New_def)
qed (rule wf_watcher_step)

text \<open>Between events there is at most one reconciliation by a timer.\<close>

lemma fire_once: "wf_watcher cfg w \<Longrightarrow> (i, due) \<in> set (ew_timers w) \<Longrightarrow> ew_timers (ew_fire i w) = []"
  by (auto simp: wf_watcher_def ew_fire_def ew_triggerReconcile_def stop_timer_def split: if_splits)

text \<open>A cancelled loop that takes one more event arms a timer nobody stops.\<close>

lemma event_after_stop:
  "\<exists>w. ew_reach cfg w \<and> \<not> fw_running (ew_life w) \<and> live_loops (ew_life w) = {} \<and> ew_timers w \<noteq> []"
proof -
  let ?s = "ew_Stop (ew_Start (ew_New 0))"
  have r: "ew_reach cfg ?s"
    by (intro ew_reach_step [OF _ ew_stop] ew_reach_step [OF _ ew_start] ew_reach_init)
  have "fw_loops (ew_life ?s) 0 \<noteq> None"
    by (simp add: ew_Stop_def ew_Start_def ew_New_def fw_Start_def fw_Stop_def fw_init_def cancel_loop_def)
  then have "ew_reach cfg (ew_handleEvent cfg ?s)" by (intro ew_reach_step [OF r] ew_event)
  moreover have "\<not> fw_running (ew_life ?s)" "live_loops (ew_life ?s) = {}"
    by (auto simp: live_loops_def ew_Stop_def ew_Start_def ew_New_def fw_Start_def fw_Stop_def fw_init_def cancel_loop_def)
  ultimately show ?thesis by (intro exI [of _ "ew_handleEvent cfg ?s"]) (simp add: ew_handleEvent_def)
qed

subsection \<open>Properties\<close>

text \<open>C24: Debouncing loses no event and never reconciles early: in every reachable state of the event watcher an
  event that was followed by neither a reconciliation nor a stop has exactly one armed timer, due one debounce
  interval after it; and once it is due, firing it reconciles and leaves no timer behind. Otherwise no timer is
  armed.\<close>
theorem debounce_loses_nothing:
  assumes "ew_reach cfg w"
  shows "if unsettled (ew_log w)
    then \<exists>i e. last_event (ew_log w) = Some e \<and> ew_timers w = [(i, e + ew_DebounceInterval cfg)] \<and>
      ew_timers (ew_fire i w) = [] \<and> ew_log (ew_fire i w) = Reconcile_at (ew_now w) # ew_log w \<and>
      (e + ew_DebounceInterval cfg \<le> ew_now w \<longrightarrow> ew_step cfg w (ew_fire i w))
    else ew_timers w = []"
proof -
  note wf = ew_reach_wf [OF assms]
  have "ew_timers (ew_fire i w) = [] \<and> (due \<le> ew_now w \<longrightarrow> ew_step cfg w (ew_fire i w))" if "ew_timers w = [(i, due)]" for i due
    using fire_once [OF wf, of i due] ew_fires [of i due w cfg] that by simp
  moreover have "ew_log (ew_fire i w) = Reconcile_at (ew_now w) # ew_log w" for i
    by (simp add: ew_fire_def ew_triggerReconcile_def)
  ultimately show ?thesis using wf unfolding wf_watcher_def by (cases "unsettled (ew_log w)") fastforce+
qed

theorem debounce_loses_nothing_witness:
  "\<exists>w. ew_reach ew_DefaultConfig w \<and> unsettled (ew_log w) \<and> ew_timers w = [(1, 2000000005)]"
proof -
  let ?c = ew_DefaultConfig
  let ?s = "ew_Start (ew_New 0)" let ?t = "(ew_handleEvent ?c ?s)\<lparr>ew_now := ew_now (ew_handleEvent ?c ?s) + 5\<rparr>"
  have loop: "fw_loops (ew_life ?s) 0 \<noteq> None" "fw_loops (ew_life ?t) 0 \<noteq> None"
    by (simp_all add: ew_Start_def ew_New_def fw_Start_def fw_init_def ew_handleEvent_def)
  have "ew_reach ?c ?s" by (intro ew_reach_step [OF _ ew_start] ew_reach_init)
  then have "ew_reach ?c (ew_handleEvent ?c ?s)" by (rule ew_reach_step) (rule ew_event [OF loop(1)])
  then have "ew_reach ?c ?t" by (rule ew_reach_step) (rule ew_tick, simp)
  then have r: "ew_reach ?c (ew_handleEvent ?c ?t)" by (rule ew_reach_step) (rule ew_event [OF loop(2)])
  have "unsettled (ew_log (ew_handleEvent ?c ?t))" "ew_debounce (ew_handleEvent ?c ?t) = Some 1"
    "last_event (ew_log (ew_handleEvent ?c ?t)) = Some 5" "fst ` set (ew_timers (ew_handleEvent ?c ?t)) \<subseteq> {1}"
    by (auto simp: ew_handleEvent_def ew_Start_def ew_New_def stop_timer_def)
  then show ?thesis using debounce_loses_nothing [OF r] r by (auto simp: ew_DefaultConfig_def intro!: exI [of _ "ew_handleEvent ?c ?t"])
qed

end
