(* ===== verification/DnsRecord.thy ===== *)
theory DnsRecord
  imports Hostname
begin

text \<open>
  \<^verbatim>\<open>pkg/provider/provider.go\<close>, \<^verbatim>\<open>mode.go\<close> and \<^verbatim>\<open>identity.go\<close>: DNS records, the
  encoding of ownership in TXT records, provider capabilities, operational modes, and the
  \<^verbatim>\<open>Provider\<close> interface. Record types and modes are Go strings with named constants, so any
  other string is a value too. The interface is a record of functions over a world \<open>'w\<close>, the
  state of every backend the providers talk to; the optional interfaces \<^verbatim>\<open>Updater\<close>,
  \<^verbatim>\<open>Identifiable\<close> and \<^verbatim>\<open>Closer\<close> are option-valued fields.
\<close>

subsection \<open>Records\<close>

type_synonym RecordType = string

definition RecordTypeA :: RecordType where "RecordTypeA = ''A''"
definition RecordTypeAAAA :: RecordType where "RecordTypeAAAA = ''AAAA''"
definition RecordTypeCNAME :: RecordType where "RecordTypeCNAME = ''CNAME''"
definition RecordTypeTXT :: RecordType where "RecordTypeTXT = ''TXT''"
definition RecordTypeSRV :: RecordType where "RecordTypeSRV = ''SRV''"
definition RecordTypeHTTPS :: RecordType where "RecordTypeHTTPS = ''HTTPS''"

lemmas RecordType_defs = RecordTypeA_def RecordTypeAAAA_def RecordTypeCNAME_def
  RecordTypeTXT_def RecordTypeSRV_def RecordTypeHTTPS_def

record SRVData =
  srv_Priority :: uint16
  srv_Weight :: uint16
  srv_Port :: uint16

record HTTPSData =
  https_Priority :: uint16
  https_TargetName :: string
  https_ALPN :: string

record Record =
  r_Hostname :: string
  r_Type :: RecordType
  r_Target :: string
  r_TTL :: int
  r_ProviderID :: string
  r_SRV :: "SRVData option"
  r_HTTPS :: "HTTPSData option"
  r_Metadata :: metadata

text \<open>A composite literal that sets three fields; the others have Go's zero value.\<close>

definition record_literal :: "string \<Rightarrow> RecordType \<Rightarrow> string \<Rightarrow> Record" where
  "record_literal h t tgt = \<lparr>r_Hostname = h, r_Type = t, r_Target = tgt, r_TTL = 0,
     r_ProviderID = [], r_SRV = None, r_HTTPS = None, r_Metadata = []\<rparr>"

lemma record_literal_sel [simp]:
  "r_Hostname (record_literal h t g) = h" "r_Type (record_literal h t g) = t"
  "r_Target (record_literal h t g) = g" "r_TTL (record_literal h t g) = 0"
  "r_SRV (record_literal h t g) = None" "r_Metadata (record_literal h t g) = []"
  by (simp_all add: record_literal_def)

definition RecordEquals :: "Record \<Rightarrow> Record \<Rightarrow> bool" where
  "RecordEquals a b =
     (if r_Hostname a \<noteq> r_Hostname b \<or> r_Type a \<noteq> r_Type b \<or> r_Target a \<noteq> r_Target b
         \<or> r_TTL a \<noteq> r_TTL b then False
      else if r_Type a = RecordTypeSRV then
        (case (r_SRV a, r_SRV b) of
           (None, None) \<Rightarrow> True
         | (Some x, Some y) \<Rightarrow> srv_Priority x = srv_Priority y \<and> srv_Weight x = srv_Weight y
             \<and> srv_Port x = srv_Port y
         | _ \<Rightarrow> False)
      else if r_Type a = RecordTypeHTTPS then
        (case (r_HTTPS a, r_HTTPS b) of
           (None, None) \<Rightarrow> True
         | (Some x, Some y) \<Rightarrow> https_Priority x = https_Priority y
             \<and> https_TargetName x = https_TargetName y \<and> https_ALPN x = https_ALPN y
         | _ \<Rightarrow> False)
      else True)"

subsection \<open>Ownership records\<close>

definition OwnershipPrefix :: string where "OwnershipPrefix = ''_dnsweaver''"
definition ownershipHeritage :: string where "ownershipHeritage = ''heritage=dnsweaver''"
definition keyHeritage :: string where "keyHeritage = ''heritage''"
definition keyInstance :: string where "keyInstance = ''instance''"

definition reserved_key :: "string \<Rightarrow> bool" where
  "reserved_key k \<longleftrightarrow> k = keyHeritage \<or> k = keyInstance"

definition metadata_pair :: "metadata \<Rightarrow> string \<Rightarrow> string" where
  "metadata_pair m k = '','' @ k @ ''='' @ map_get [] m k"

definition MakeOwnershipValue :: "string \<Rightarrow> metadata \<Rightarrow> string" where
  "MakeOwnershipValue instanceID m =
     ownershipHeritage @
     (if instanceID \<noteq> [] then '','' @ keyInstance @ ''='' @ instanceID else []) @
     (if m \<noteq> [] then
        (let keys = sort (filter (\<lambda>k. \<not> reserved_key k) (map fst m))
         in concat (map (metadata_pair m) keys))
      else [])"

text \<open>The loop over the comma-separated parts.\<close>

fun parse_parts :: "string list \<Rightarrow> string \<Rightarrow> metadata \<Rightarrow> string \<times> metadata" where
  "parse_parts [] iid m = (iid, m)"
| "parse_parts (part # parts) iid m =
     (case SplitN2 part (CHR ''='') of
        [k, v] \<Rightarrow>
          if k = keyInstance then parse_parts parts v m
          else if k = keyHeritage then parse_parts parts iid m
          else parse_parts parts iid (AList.update k v m)
      | _ \<Rightarrow> parse_parts parts iid m)"

definition ParseOwnershipValue :: "string \<Rightarrow> bool \<times> string \<times> metadata" where
  "ParseOwnershipValue v =
     (if \<not> HasPrefix v ownershipHeritage then (False, [], [])
      else let rest = drop (length ownershipHeritage) v in
      if rest = [] then (True, [], [])
      else if \<not> HasPrefix rest '','' then (False, [], [])
      else (True, parse_parts (Split (drop 1 rest) (CHR '','')) [] []))"

definition MatchesOwnership :: "string \<Rightarrow> string \<Rightarrow> bool" where
  "MatchesOwnership v ourInstanceID =
     (case ParseOwnershipValue v of
        (isOwned, recordInstanceID, _) \<Rightarrow>
          if \<not> isOwned then False else recordInstanceID = ourInstanceID)"

definition IsDnsweaverOwned :: "string \<Rightarrow> bool" where
  "IsDnsweaverOwned v = fst (ParseOwnershipValue v)"

definition OwnershipRecordName :: "string \<Rightarrow> string" where
  "OwnershipRecordName hostname = OwnershipPrefix @ ''.'' @ hostname"

definition IsOwnershipRecord :: "string \<Rightarrow> bool" where
  "IsOwnershipRecord hostname \<longleftrightarrow>
     length hostname > length OwnershipPrefix + 1 \<and>
     take (length OwnershipPrefix + 1) hostname = OwnershipPrefix @ ''.''"

definition ExtractHostnameFromOwnership :: "string \<Rightarrow> string" where
  "ExtractHostnameFromOwnership name =
     (if \<not> IsOwnershipRecord name then [] else drop (length OwnershipPrefix + 1) name)"

definition OwnershipRecord :: "string \<Rightarrow> int \<Rightarrow> string \<Rightarrow> metadata \<Rightarrow> Record" where
  "OwnershipRecord hostname ttl instanceID m =
     (record_literal (OwnershipRecordName hostname) RecordTypeTXT
        (MakeOwnershipValue instanceID m))\<lparr>r_TTL := ttl\<rparr>"

subsection \<open>Capabilities, modes, identity and the provider interface\<close>

record Capabilities =
  SupportsOwnershipTXT :: bool
  SupportsNativeUpdate :: bool
  SupportedRecordTypes :: "RecordType list"

fun SupportsRecordType :: "Capabilities \<Rightarrow> RecordType \<Rightarrow> bool" where
  "SupportsRecordType c rt = list_ex (\<lambda>t. t = rt) (SupportedRecordTypes c)"

type_synonym OperationalMode = string

definition ModeManaged :: OperationalMode where "ModeManaged = ''managed''"
definition ModeAuthoritative :: OperationalMode where "ModeAuthoritative = ''authoritative''"
definition ModeAdditive :: OperationalMode where "ModeAdditive = ''additive''"

lemmas Mode_defs = ModeManaged_def ModeAuthoritative_def ModeAdditive_def

definition ParseOperationalMode :: "string \<Rightarrow> err + OperationalMode" where
  "ParseOperationalMode s =
     (if s = [] then Inr ModeManaged
      else let mode = ToLower (TrimSpace s) in
      if mode \<in> {ModeManaged, ModeAuthoritative, ModeAdditive} then Inr mode
      else Inl (ErrorNew (''invalid operational mode '' @ Quote s @
             '': must be one of managed, authoritative, additive'')))"

definition Mode_IsValid :: "OperationalMode \<Rightarrow> bool" where
  "Mode_IsValid m \<longleftrightarrow> m \<in> {ModeManaged, ModeAuthoritative, ModeAdditive}"

definition AllowsDelete :: "OperationalMode \<Rightarrow> bool" where
  "AllowsDelete m \<longleftrightarrow> m \<noteq> ModeAdditive"

definition RequiresOwnership :: "OperationalMode \<Rightarrow> bool" where
  "RequiresOwnership m \<longleftrightarrow> m = ModeManaged \<or> m = []"

record ProviderIdentity =
  id_Type :: string
  id_Endpoint :: string
  id_Zone :: string

record 'w Provider =
  p_Name :: string
  p_Type :: string
  p_Ping :: "'w \<Rightarrow> err option \<times> 'w"
  p_Capabilities :: Capabilities
  p_List :: "'w \<Rightarrow> (err + Record list) \<times> 'w"
  p_Create :: "Record \<Rightarrow> 'w \<Rightarrow> err option \<times> 'w"
  p_Delete :: "Record \<Rightarrow> 'w \<Rightarrow> err option \<times> 'w"
  p_Update :: "(Record \<Rightarrow> Record \<Rightarrow> 'w \<Rightarrow> err option \<times> 'w) option"
  p_Identity :: "ProviderIdentity option"
  p_Close :: "('w \<Rightarrow> err option \<times> 'w) option"

definition IdentityOf :: "'w Provider \<Rightarrow> ProviderIdentity" where
  "IdentityOf p =
     (case p_Identity p of
        Some i \<Rightarrow> i
      | None \<Rightarrow> \<lparr>id_Type = p_Type p, id_Endpoint = [], id_Zone = []\<rparr>)"

subsection \<open>Ownership encoding: round trip\<close>

text \<open>
  What a key, a value or an instance name must avoid for the flat encoding to be read back:
  commas separate the parts, the first equals sign ends a key.
\<close>

definition plain_value :: "string \<Rightarrow> bool" where
  "plain_value v \<longleftrightarrow> CHR '','' \<notin> set v"

definition plain_metadata :: "metadata \<Rightarrow> bool" where
  "plain_metadata m \<longleftrightarrow>
     wf_map m \<and> (\<forall>(k, v) \<in> set m. plain_value k \<and> CHR ''='' \<notin> set k \<and> plain_value v)"

text \<open>The parts the encoder writes after the heritage, in order.\<close>

definition ownership_keys :: "metadata \<Rightarrow> string list" where
  "ownership_keys m = sort (filter (\<lambda>k. \<not> reserved_key k) (map fst m))"

definition kv :: "string \<Rightarrow> string \<Rightarrow> string" where
  "kv k v = k @ ''='' @ v"

definition ownership_parts :: "string \<Rightarrow> metadata \<Rightarrow> string list" where
  "ownership_parts iid m =
     (if iid \<noteq> [] then [kv keyInstance iid] else []) @
     map (\<lambda>k. kv k (map_get [] m k)) (ownership_keys m)"

lemma MakeOwnershipValue_parts:
  "MakeOwnershipValue iid m =
     ownershipHeritage @ concat (map (\<lambda>p. CHR '','' # p) (ownership_parts iid m))"
proof -
  have "metadata_pair m = (\<lambda>k. CHR '','' # kv k (map_get [] m k))"
    by (simp add: metadata_pair_def kv_def fun_eq_iff)
  then show ?thesis
    by (simp add: MakeOwnershipValue_def ownership_parts_def ownership_keys_def kv_def comp_def)
qed

lemma concat_comma_Join:
  "ps \<noteq> [] \<Longrightarrow> concat (map (\<lambda>p. sep # p) ps) = sep # Join ps [sep]"
proof (induction ps)
  case (Cons p ps)
  then show ?case by (cases "ps = []") (auto simp: Join_Cons)
qed simp

lemma ParseOwnershipValue_parts:
  assumes "\<forall>p \<in> set ps. CHR '','' \<notin> set p"
  shows "ParseOwnershipValue (ownershipHeritage @ concat (map (\<lambda>p. CHR '','' # p) ps)) =
    (True, parse_parts ps [] [])"
proof (cases "ps = []")
  case False
  then show ?thesis
    using assms by (simp add: ParseOwnershipValue_def concat_comma_Join Split_Join HasPrefix_def)
qed (simp add: ParseOwnershipValue_def HasPrefix_def)

lemma parse_parts_kv:
  "CHR ''='' \<notin> set k \<Longrightarrow> parse_parts (kv k v # ps) iid m =
     (if k = keyInstance then parse_parts ps v m
      else if k = keyHeritage then parse_parts ps iid m
      else parse_parts ps iid (AList.update k v m))"
  using SplitN2_Cons [of "CHR ''=''" k v] by (simp add: kv_def)

lemma parse_parts_data:
  assumes "\<forall>k \<in> set ks. CHR ''='' \<notin> set k \<and> \<not> reserved_key k"
  shows "\<exists>m'. parse_parts (map (\<lambda>k. kv k (f k)) ks) iid m = (iid, m') \<and>
     (\<forall>j. map_of m' j = (if j \<in> set ks then Some (f j) else map_of m j))"
  using assms
proof (induction ks arbitrary: m)
  case (Cons k ks)
  then obtain m' where
    "parse_parts (map (\<lambda>k. kv k (f k)) ks) iid (AList.update k (f k) m) = (iid, m')"
    "\<forall>j. map_of m' j = (if j \<in> set ks then Some (f j) else map_of (AList.update k (f k) m) j)"
    by force
  then show ?case using Cons.prems
    by (auto simp: parse_parts_kv reserved_key_def simp del: parse_parts.simps(2))
qed simp

lemma ownership_keys_set: "set (ownership_keys m) = {k \<in> fst ` set m. \<not> reserved_key k}"
  by (auto simp: ownership_keys_def)

lemma plain_metadata_value:
  assumes "plain_metadata m" and "k \<in> fst ` set m"
  shows "\<exists>v. map_of m k = Some v \<and> plain_value v"
proof -
  obtain v where v: "map_of m k = Some v" using assms(2)
    by (metis map_of_eq_None_iff not_Some_eq)
  then show ?thesis using assms(1) by (auto simp: plain_metadata_def dest!: map_of_SomeD)
qed

lemma plain_value_kv: "plain_value (kv k v) \<longleftrightarrow> plain_value k \<and> plain_value v"
  by (auto simp: kv_def plain_value_def)

lemma plain_keyInstance [simp]: "plain_value keyInstance" "CHR ''='' \<notin> set keyInstance"
  by (simp_all add: keyInstance_def plain_value_def)

lemma ownership_parts_plain:
  assumes "plain_value iid" and "plain_metadata m"
  shows "\<forall>p \<in> set (ownership_parts iid m). CHR '','' \<notin> set p"
proof -
  have "plain_value (kv k (map_get [] m k))" if "k \<in> set (ownership_keys m)" for k
  proof -
    from that have k: "k \<in> fst ` set m" by (simp add: ownership_keys_set)
    then have "plain_value k" using assms(2) by (auto simp: plain_metadata_def)
    moreover obtain v where "map_of m k = Some v" "plain_value v"
      using plain_metadata_value [OF assms(2) k] by blast
    ultimately show ?thesis by (simp add: plain_value_kv map_get_def)
  qed
  then show ?thesis
    using assms(1) by (auto simp: ownership_parts_def plain_value_kv simp flip: plain_value_def)
qed

lemma parse_ownership_parts:
  assumes "plain_metadata m"
  shows "\<exists>m'. parse_parts (ownership_parts iid m) [] [] = (iid, m') \<and>
    (\<forall>k. map_of m' k = (if reserved_key k then None else map_of m k))"
proof -
  let ?f = "\<lambda>k. map_get [] m k" and ?ks = "ownership_keys m"
  have ks: "\<forall>k \<in> set ?ks. CHR ''='' \<notin> set k \<and> \<not> reserved_key k"
    using assms by (auto simp: ownership_keys_set plain_metadata_def)
  obtain m' where m': "parse_parts (map (\<lambda>k. kv k (?f k)) ?ks) iid [] = (iid, m')"
    "\<forall>j. map_of m' j = (if j \<in> set ?ks then Some (?f j) else map_of [] j)"
    using parse_parts_data [OF ks] by blast
  have "parse_parts (ownership_parts iid m) [] [] = (iid, m')"
    using m'(1) by (auto simp: ownership_parts_def parse_parts_kv simp del: parse_parts.simps(2))
  moreover have "map_of m' k = (if reserved_key k then None else map_of m k)" for k
  proof (cases "k \<in> fst ` set m")
    case True
    then show ?thesis using m'(2) plain_metadata_value [OF assms True]
      by (auto simp: ownership_keys_set map_get_def)
  next
    case False
    then have "map_of m k = None" by (simp add: map_of_eq_None_iff)
    then show ?thesis using m'(2) False by (simp add: ownership_keys_set)
  qed
  ultimately show ?thesis by blast
qed

lemma ownership_value_roundtrip_aux:
  assumes "plain_value iid" and "plain_metadata m"
  shows "\<exists>m'. ParseOwnershipValue (MakeOwnershipValue iid m) = (True, iid, m') \<and>
    (\<forall>k. map_of m' k = (if reserved_key k then None else map_of m k))"
  using parse_ownership_parts [OF assms(2), of iid] ownership_parts_plain [OF assms]
  by (auto simp: MakeOwnershipValue_parts ParseOwnershipValue_parts)

lemma MatchesOwnership_Make:
  assumes "plain_value iid" and "plain_metadata m"
  shows "MatchesOwnership (MakeOwnershipValue iid m) ours \<longleftrightarrow> iid = ours"
  using ownership_value_roundtrip_aux [OF assms] by (auto simp: MatchesOwnership_def)

lemma IsOwnershipRecord_Name [simp]: "IsOwnershipRecord (OwnershipRecordName h) \<longleftrightarrow> h \<noteq> []"
  by (auto simp: IsOwnershipRecord_def OwnershipRecordName_def)

lemma IsOwnershipRecord_iff: "IsOwnershipRecord n \<longleftrightarrow> (\<exists>h. h \<noteq> [] \<and> n = OwnershipRecordName h)"
proof
  assume n: "IsOwnershipRecord n"
  then have "n = OwnershipRecordName (drop (length OwnershipPrefix + 1) n)"
    unfolding IsOwnershipRecord_def OwnershipRecordName_def
    by (metis append_assoc append_take_drop_id)
  then show "\<exists>h. h \<noteq> [] \<and> n = OwnershipRecordName h" using n by (metis IsOwnershipRecord_Name)
qed auto

lemma Extract_Name [simp]: "ExtractHostnameFromOwnership (OwnershipRecordName h) = h"
  by (auto simp: ExtractHostnameFromOwnership_def) (simp_all add: OwnershipRecordName_def)

lemma OwnershipRecordName_inject [simp]:
  "OwnershipRecordName a = OwnershipRecordName b \<longleftrightarrow> a = b"
  by (simp add: OwnershipRecordName_def)

lemma NormalizeHostname_OwnershipRecordName:
  "h \<noteq> [] \<Longrightarrow> NormalizeHostname (OwnershipRecordName h) = OwnershipRecordName (NormalizeHostname h)"
proof -
  assume "h \<noteq> []"
  then have "TrimSuffix (OwnershipRecordName h) ''.'' = OwnershipRecordName (TrimSuffix h ''.'')"
    by (cases h rule: rev_cases)
      (auto simp: OwnershipRecordName_def TrimSuffix_def HasSuffix_iff simp flip: append_assoc)
  moreover have "ToLower OwnershipPrefix = OwnershipPrefix" by (simp add: OwnershipPrefix_def is_upper_def)
  ultimately show ?thesis by (simp add: NormalizeHostname_def OwnershipRecordName_def)
qed

subsection \<open>Properties\<close>

text \<open>C15: An ownership value is read back as written: the instance and, for every key except the two
  reserved ones, the metadata, whatever the iteration order of the map, provided no part contains a
  comma and no key an equals sign.\<close>
theorem ownership_value_roundtrip:
  assumes "plain_value iid" and "plain_metadata m"
  shows "\<exists>m'. ParseOwnershipValue (MakeOwnershipValue iid m) = (True, iid, m') \<and>
    (\<forall>k. map_of m' k = (if reserved_key k then None else map_of m k))"
  using assms by (rule ownership_value_roundtrip_aux)

theorem ownership_value_roundtrip_witness:
  "plain_value ''prod'' \<and> plain_metadata [(''proxied'', ''true''), (''alias'', ''a=b'')] \<and>
   MakeOwnershipValue ''prod'' [(''proxied'', ''true''), (''alias'', ''a=b'')] =
     ''heritage=dnsweaver,instance=prod,alias=a=b,proxied=true'' \<and>
   (\<exists>m'. ParseOwnershipValue ''heritage=dnsweaver,instance=prod,alias=a=b,proxied=true'' = (True, ''prod'', m') \<and>
      map_of m' ''alias'' = Some ''a=b'')"
proof -
  let ?m = "[(''proxied'', ''true''), (''alias'', ''a=b'')]"
  have p: "plain_value ''prod''" by code_simp
  have m: "plain_metadata ?m" by code_simp
  have v: "MakeOwnershipValue ''prod'' ?m = ''heritage=dnsweaver,instance=prod,alias=a=b,proxied=true''"
    by code_simp
  have r: "\<not> reserved_key ''alias''" by code_simp
  have l: "map_of ?m ''alias'' = Some ''a=b''" by simp
  show ?thesis using ownership_value_roundtrip [OF p m] p m r l unfolding v by (metis (no_types, lifting))
qed



text \<open>Ownership record names and hostnames correspond one to one: the name of a nonempty hostname is
  an ownership name from which that hostname is extracted, and every ownership name arises so.\<close>
lemma ownership_name_bijection:
  "(IsOwnershipRecord n \<longleftrightarrow> (\<exists>h. h \<noteq> [] \<and> n = OwnershipRecordName h)) \<and>
   ExtractHostnameFromOwnership (OwnershipRecordName h) = h \<and>
   (IsOwnershipRecord n \<longrightarrow> OwnershipRecordName (ExtractHostnameFromOwnership n) = n)"
  using IsOwnershipRecord_iff [of n] by auto

theorem ownership_name_bijection_witness:
  "OwnershipRecordName (ExtractHostnameFromOwnership ''_dnsweaver.a.b'') = ''_dnsweaver.a.b''"
proof -
  have "IsOwnershipRecord ''_dnsweaver.a.b''" by code_simp
  then show ?thesis using ownership_name_bijection by blast
qed

end
