(* ===== verification/Matcher.thy ===== *)
theory Matcher
  imports GoErrors
begin

text \<open>
  \<^verbatim>\<open>internal/matcher/matcher.go\<close>: domain patterns. Go's regular-expression engine is the
  argument \<open>rx\<close> of the definitions (\<^verbatim>\<open>regexp.Compile\<close>, a compiled expression being its
  \<^verbatim>\<open>MatchString\<close>); what is relied on is the locale \<open>regexp_engine\<close>: the documented meaning of
  literals, escaped punctuation, \<^verbatim>\<open>.\<close>, bracket classes, \<^verbatim>\<open>*\<close>, the anchors and the
  \<^verbatim>\<open>(?i)\<close> flag. The section on the fragment gives that meaning as an executable parser and
  matcher, which is also an engine of its own and interprets the locale. The main result is
  that the glob compiled by \<^verbatim>\<open>globToRegex\<close> matches as the glob syntax says.
\<close>

subsection \<open>The program\<close>

datatype PatternType = PatternTypeGlob | PatternTypeRegex

type_synonym Regexp = "string \<Rightarrow> bool"
type_synonym engine = "string \<Rightarrow> err + Regexp"

record compiledPattern =
  cp_original :: string
  cp_regex :: Regexp

record DomainMatcher =
  dm_includes :: "compiledPattern list"
  dm_excludes :: "compiledPattern list"
  dm_patternType :: PatternType

record DomainMatcherConfig =
  Includes :: "string list"
  Excludes :: "string list"
  UseRegex :: bool

text \<open>\<^verbatim>\<open>string(c)\<close> of a byte, and \<^verbatim>\<open>regexp.QuoteMeta\<close>.\<close>

definition string_of_byte :: "char \<Rightarrow> string" where
  "string_of_byte c =
     (let n = byte c in
      if n < 128 then [c] else [char_of (192 + n div 64), char_of (128 + n mod 64)])"

definition meta_chars :: string where
  "meta_chars = CHR 0x5C # ''.+*?()|[]{}^$''"

definition QuoteMeta :: "string \<Rightarrow> string" where
  "QuoteMeta s = concat (map (\<lambda>c. if c \<in> set meta_chars then [CHR 0x5C, c] else [c]) s)"

text \<open>The body of the loop of \<^verbatim>\<open>globToRegex\<close>, from the current index on.\<close>

function globToRegex_from :: "string \<Rightarrow> string" where
  "globToRegex_from [] = []"
| "globToRegex_from (c # s) =
     (if c = CHR ''*'' then ''.*'' @ globToRegex_from s
      else if c = CHR ''?'' then ''[^.]'' @ globToRegex_from s
      else if c = CHR ''['' then
        (case dropWhile (\<lambda>d. d \<noteq> CHR '']'') s of
           [] \<Rightarrow> QuoteMeta (string_of_byte c) @ globToRegex_from s
         | _ # rest \<Rightarrow>
             c # takeWhile (\<lambda>d. d \<noteq> CHR '']'') s @ '']'' @ globToRegex_from rest)
      else if c = CHR ''.'' then [CHR 0x5C, CHR ''.''] @ globToRegex_from s
      else QuoteMeta (string_of_byte c) @ globToRegex_from s)"
  by pat_completeness auto
termination
proof (relation "measure length", goal_cases)
  case (5 c s d rest)
  have "length (dropWhile (\<lambda>d. d \<noteq> CHR '']'') s) \<le> length s" by (rule length_dropWhile_le)
  with 5 show ?case by simp
qed auto

definition globToRegex :: "string \<Rightarrow> string" where
  "globToRegex pattern = ''^'' @ globToRegex_from pattern @ ''$''"

definition compile :: "engine \<Rightarrow> PatternType \<Rightarrow> string \<Rightarrow> err + compiledPattern" where
  "compile rx ty pattern =
     (let regexStr0 = (if ty = PatternTypeRegex then pattern else globToRegex pattern);
          regexStr = (if \<not> HasPrefix regexStr0 ''(?i)'' then ''(?i)'' @ regexStr0 else regexStr0) in
      case rx regexStr of
        Inl e \<Rightarrow> Inl e
      | Inr re \<Rightarrow> Inr \<lparr>cp_original = pattern, cp_regex = re\<rparr>)"

fun compile_all :: "engine \<Rightarrow> PatternType \<Rightarrow> string \<Rightarrow> string list \<Rightarrow> err + compiledPattern list" where
  "compile_all rx ty kind [] = Inr []"
| "compile_all rx ty kind (p # ps) =
     (case compile rx ty p of
        Inl e \<Rightarrow> Inl (Errorf (''invalid '' @ kind @ '' pattern '' @ Quote p @ '': '') e)
      | Inr cp \<Rightarrow> (case compile_all rx ty kind ps of Inl e \<Rightarrow> Inl e | Inr cps \<Rightarrow> Inr (cp # cps)))"

definition NewDomainMatcher :: "engine \<Rightarrow> DomainMatcherConfig \<Rightarrow> err + DomainMatcher" where
  "NewDomainMatcher rx cfg =
     (if Includes cfg = [] then Inl (ErrorNew ''at least one include pattern is required'')
      else let ty = (if UseRegex cfg then PatternTypeRegex else PatternTypeGlob) in
      case compile_all rx ty ''include'' (Includes cfg) of
        Inl e \<Rightarrow> Inl e
      | Inr incs \<Rightarrow>
          (case compile_all rx ty ''exclude'' (Excludes cfg) of
             Inl e \<Rightarrow> Inl e
           | Inr excs \<Rightarrow>
               Inr \<lparr>dm_includes = incs, dm_excludes = excs, dm_patternType = ty\<rparr>))"

definition Matches :: "DomainMatcher \<Rightarrow> string \<Rightarrow> bool" where
  "Matches m hostname0 =
     (let hostname = TrimSuffix (ToLower hostname0) ''.'' in
      if list_ex (\<lambda>ex. cp_regex ex hostname) (dm_excludes m) then False
      else if list_ex (\<lambda>inc. cp_regex inc hostname) (dm_includes m) then True
      else False)"

definition DomainMatcher_String :: "DomainMatcher \<Rightarrow> string" where
  "DomainMatcher_String m =
     (let typeStr = (if dm_patternType m = PatternTypeRegex then ''regex'' else ''glob'');
          parts = [''type='' @ typeStr] @
            (if dm_includes m \<noteq> []
             then [''includes=['' @ Join (map cp_original (dm_includes m)) '', '' @ '']''] else []) @
            (if dm_excludes m \<noteq> []
             then [''excludes=['' @ Join (map cp_original (dm_excludes m)) '', '' @ '']''] else [])
      in ''DomainMatcher{'' @ Join parts '', '' @ ''}'')"

subsection \<open>The fragment of regular expressions that globs compile to\<close>

datatype atom =
    AChar char
  | AAny
  | AClass bool "(char \<times> char) list"  \<comment> \<open>negated?, ranges\<close>
  | ABegin
  | AEnd

type_synonym item = "atom \<times> bool"  \<comment> \<open>an atom and whether \<^verbatim>\<open>*\<close> follows\<close>

definition plain_in_class :: "char \<Rightarrow> bool" where
  "plain_in_class c \<longleftrightarrow> byte c < 128 \<and> c \<noteq> CHR '']'' \<and> c \<noteq> CHR ''['' \<and> c \<noteq> CHR 0x5C
     \<and> c \<noteq> CHR ''-'' \<and> c \<noteq> CHR ''^''"

text \<open>The inside of a bracket class: single characters and ranges.\<close>

fun class_ranges :: "string \<Rightarrow> (char \<times> char) list option" where
  "class_ranges [] = Some []"
| "class_ranges (a # m # b # s) =
     (if m = CHR ''-'' then
        (if plain_in_class a \<and> plain_in_class b \<and> byte a \<le> byte b
         then map_option (\<lambda>rs. (a, b) # rs) (class_ranges s) else None)
      else if plain_in_class a then map_option (\<lambda>rs. (a, a) # rs) (class_ranges (m # b # s))
      else None)"
| "class_ranges (a # s) =
     (if plain_in_class a then map_option (\<lambda>rs. (a, a) # rs) (class_ranges s) else None)"

definition class_atom :: "string \<Rightarrow> atom option" where
  "class_atom body =
     (case body of
        [] \<Rightarrow> None
      | c # s \<Rightarrow>
          if c = CHR ''^'' then (if s = [] then None else map_option (AClass True) (class_ranges s))
          else map_option (AClass False) (class_ranges body))"

text \<open>One atom and the rest of the expression; \<open>None\<close> outside the fragment.\<close>

fun parse_atom :: "string \<Rightarrow> (atom \<times> string) option" where
  "parse_atom [] = None"
| "parse_atom (c # s) =
     (if c = CHR ''.'' then Some (AAny, s)
      else if c = CHR ''^'' then Some (ABegin, s)
      else if c = CHR ''$'' then Some (AEnd, s)
      else if c = CHR 0x5C then
        (case s of [] \<Rightarrow> None
         | d # s' \<Rightarrow> if d \<in> set meta_chars then Some (AChar d, s') else None)
      else if c = CHR ''['' then
        (case dropWhile (\<lambda>d. d \<noteq> CHR '']'') s of
           [] \<Rightarrow> None
         | _ # rest \<Rightarrow> map_option (\<lambda>a. (a, rest)) (class_atom (takeWhile (\<lambda>d. d \<noteq> CHR '']'') s)))
      else if c \<in> set meta_chars \<or> byte c \<ge> 128 then None
      else Some (AChar c, s))"

lemma parse_atom_length [termination_simp]: "parse_atom s = Some (a, rest) \<Longrightarrow> length rest < length s"
proof (induction s rule: parse_atom.induct)
  case (2 c s)
  have "length (dropWhile (\<lambda>d. d \<noteq> CHR '']'') s) \<le> length s" by (rule length_dropWhile_le)
  with 2 show ?case by (auto split: if_splits list.splits)
qed simp

lemma parse_atom_length_Cons [termination_simp]:
  "parse_atom s = Some (a, c # rest) \<Longrightarrow> Suc (length rest) < length s"
  "parse_atom s = Some (a, c # rest) \<Longrightarrow> length rest < length s"
  using parse_atom_length [of s a "c # rest"] by simp_all

fun parse_items :: "string \<Rightarrow> item list option" where
  "parse_items s =
     (if s = [] then Some []
      else case parse_atom s of
        None \<Rightarrow> None
      | Some (a, rest) \<Rightarrow>
          (case rest of
             c # rest' \<Rightarrow>
               if c = CHR ''*'' then
                 (if a = ABegin \<or> a = AEnd then None
                  else map_option (\<lambda>is. (a, True) # is) (parse_items rest'))
               else map_option (\<lambda>is. (a, False) # is) (parse_items rest)
           | [] \<Rightarrow> Some [(a, False)]))"

declare parse_items.simps [simp del]

definition swap_case :: "char \<Rightarrow> char" where
  "swap_case c =
     (if is_upper c then char_of (byte c + 32) else if is_lower c then char_of (byte c - 32) else c)"

definition in_ranges :: "(char \<times> char) list \<Rightarrow> char \<Rightarrow> bool" where
  "in_ranges rs c \<longleftrightarrow> list_ex (\<lambda>(a, b). byte a \<le> byte c \<and> byte c \<le> byte b) rs"

text \<open>Matching one character under \<^verbatim>\<open>(?i)\<close>. The dot does not match a newline.\<close>

fun atom_match :: "atom \<Rightarrow> char \<Rightarrow> bool" where
  "atom_match (AChar d) c \<longleftrightarrow> lower_char c = lower_char d"
| "atom_match AAny c \<longleftrightarrow> byte c \<noteq> 10"
| "atom_match (AClass neg rs) c \<longleftrightarrow> (in_ranges rs c \<or> in_ranges rs (swap_case c)) \<noteq> neg"
| "atom_match ABegin c \<longleftrightarrow> False"
| "atom_match AEnd c \<longleftrightarrow> False"

text \<open>\<open>items_match st is s\<close>: the items match a prefix of \<open>s\<close>; \<open>st\<close> tells the start of the text.\<close>

fun items_match :: "bool \<Rightarrow> item list \<Rightarrow> string \<Rightarrow> bool" where
  "items_match st [] s = True"
| "items_match st ((a, True) # is) s =
     (items_match st is s \<or>
      (case s of [] \<Rightarrow> False | c # s' \<Rightarrow> atom_match a c \<and> items_match False ((a, True) # is) s'))"
| "items_match st ((ABegin, False) # is) s = (st \<and> items_match st is s)"
| "items_match st ((AEnd, False) # is) s = (s = [] \<and> items_match st is s)"
| "items_match st ((a, False) # is) s =
     (case s of [] \<Rightarrow> False | c # s' \<Rightarrow> atom_match a c \<and> items_match False is s')"

fun search :: "bool \<Rightarrow> item list \<Rightarrow> string \<Rightarrow> bool" where
  "search st is [] = items_match st is []"
| "search st is (c # s) = (items_match st is (c # s) \<or> search False is s)"

definition fragment_match :: "string \<Rightarrow> Regexp option" where
  "fragment_match s = map_option (search True) (parse_items s)"

text \<open>The interface of the engine, and the executable engine for the fragment.\<close>

locale regexp_engine =
  fixes rx :: engine
  assumes rx_fragment:
    "fragment_match s = Some m \<Longrightarrow> rx (''(?i)'' @ s) = Inr m"

definition fragment_engine :: engine where
  "fragment_engine s =
     (if HasPrefix s ''(?i)'' then
        (case fragment_match (drop 4 s) of
           Some m \<Rightarrow> Inr m
         | None \<Rightarrow> Inl (ErrorNew ''expression outside the fragment''))
      else Inl (ErrorNew ''expression outside the fragment''))"

interpretation fe: regexp_engine fragment_engine
  by unfold_locales (simp add: fragment_engine_def HasPrefix_def)

subsection \<open>Glob syntax\<close>

text \<open>
  The documented meaning of a glob: a star matches any run of characters, dots included; a
  question mark one character other than a dot; a bracket class one character of the set;
  anything else itself, up to case. \<open>glob_ok\<close> are the patterns inside this syntax.
\<close>

function glob_items :: "string \<Rightarrow> item list option" where
  "glob_items [] = Some []"
| "glob_items (c # s) =
     (if c = CHR ''*'' then map_option (\<lambda>is. (AAny, True) # is) (glob_items s)
      else if c = CHR ''?'' then
        map_option (\<lambda>is. (AClass True [(CHR ''.'', CHR ''.'')], False) # is) (glob_items s)
      else if c = CHR ''['' then
        (case dropWhile (\<lambda>d. d \<noteq> CHR '']'') s of
           [] \<Rightarrow> map_option (\<lambda>is. (AChar c, False) # is) (glob_items s)
         | _ # rest \<Rightarrow>
            (case class_atom (takeWhile (\<lambda>d. d \<noteq> CHR '']'') s) of
               None \<Rightarrow> None
             | Some a \<Rightarrow> map_option (\<lambda>is. (a, False) # is) (glob_items rest)))
      else if byte c \<ge> 128 then None
      else map_option (\<lambda>is. (AChar c, False) # is) (glob_items s))"
  by pat_completeness auto
termination
proof (relation "measure length", goal_cases)
  case (5 c s d rest)
  have "length (dropWhile (\<lambda>d. d \<noteq> CHR '']'') s) \<le> length s" by (rule length_dropWhile_le)
  with 5 show ?case by simp
qed auto

text \<open>Full matching of a whole string by a list of character items.\<close>

fun full_match :: "item list \<Rightarrow> string \<Rightarrow> bool" where
  "full_match [] s \<longleftrightarrow> s = []"
| "full_match ((a, True) # is) s \<longleftrightarrow>
     full_match is s \<or>
     (case s of [] \<Rightarrow> False | c # s' \<Rightarrow> atom_match a c \<and> full_match ((a, True) # is) s')"
| "full_match ((a, False) # is) s \<longleftrightarrow>
     (case s of [] \<Rightarrow> False | c # s' \<Rightarrow> atom_match a c \<and> full_match is s')"

definition glob_match :: "string \<Rightarrow> string \<Rightarrow> bool" where
  "glob_match p s = (case glob_items p of None \<Rightarrow> False | Some is \<Rightarrow> full_match is s)"

definition glob_ok :: "string \<Rightarrow> bool" where
  "glob_ok p \<longleftrightarrow> glob_items p \<noteq> None"

subsection \<open>Compiled globs match as globs\<close>

lemma parse_items_atom:
  assumes "parse_atom (w @ t) = Some (a, t)" and "w \<noteq> []"
    and "t = [] \<or> hd t \<noteq> CHR ''*''"
  shows "parse_items (w @ t) = map_option (\<lambda>is. (a, False) # is) (parse_items t)"
  using assms
  by (subst parse_items.simps) (cases t, auto simp: parse_items.simps [of "[]"])

lemma parse_items_star:
  "parse_items (''.*'' @ t) = map_option (\<lambda>is. (AAny, True) # is) (parse_items t)"
  by (subst parse_items.simps) simp

lemma QuoteMeta_single: "QuoteMeta [c] = (if c \<in> set meta_chars then [CHR 0x5C, c] else [c])"
  by (simp add: QuoteMeta_def)

lemma parse_atom_QuoteMeta:
  "byte c < 128 \<Longrightarrow> parse_atom (QuoteMeta [c] @ t) = Some (AChar c, t)"
  by (auto simp: QuoteMeta_single meta_chars_def)

lemma parse_atom_class:
  assumes "class_atom body = Some a" and "CHR '']'' \<notin> set body"
  shows "parse_atom ((CHR ''['' # body @ '']'') @ t) = Some (a, t)"
proof -
  have "dropWhile (\<lambda>d. d \<noteq> CHR '']'') (body @ '']'' @ t) = '']'' @ t"
    "takeWhile (\<lambda>d. d \<noteq> CHR '']'') (body @ '']'' @ t) = body"
    using assms(2) by (subst dropWhile_append2 takeWhile_append2; auto)+
  then show ?thesis using assms(1) by simp
qed

lemma QuoteMeta_hd: "byte c < 128 \<Longrightarrow> hd (QuoteMeta [c] @ t) \<noteq> CHR ''*''"
  by (auto simp: QuoteMeta_single meta_chars_def)

lemma QuoteMeta_neq_Nil [simp]: "QuoteMeta [c] \<noteq> []"
  by (simp add: QuoteMeta_single)

lemma string_of_byte_ascii [simp]: "byte c < 128 \<Longrightarrow> string_of_byte c = [c]"
  by (simp add: string_of_byte_def)

lemma string_of_byte_bracket [simp]: "string_of_byte (CHR ''['') = ''[''"
  by (rule string_of_byte_ascii) simp

lemma dot_is_QuoteMeta: "[CHR 0x5C, CHR ''.''] = QuoteMeta ''.''"
  by (simp add: QuoteMeta_single meta_chars_def)

text \<open>No atom of a compiled glob is followed by a star it did not write itself.\<close>

lemma globToRegex_from_hd:
  assumes "glob_items p \<noteq> None"
  shows "hd (globToRegex_from p @ ''$'') \<noteq> CHR ''*''"
proof (cases p)
  case (Cons c s)
  show ?thesis
  proof (cases "c = CHR ''['' \<or> c = CHR ''.'' \<or> c = CHR ''*'' \<or> c = CHR ''?''")
    case True
    then show ?thesis using Cons by (auto simp: QuoteMeta_single meta_chars_def split: list.splits)
  next
    case False
    with assms Cons have "byte c < 128" by (auto split: if_splits)
    then show ?thesis using Cons False QuoteMeta_hd [of c "globToRegex_from s @ ''$''"] by simp
  qed
qed simp

lemma parse_items_literal:
  assumes "byte c < 128" and "hd t \<noteq> CHR ''*''"
  shows "parse_items (QuoteMeta [c] @ t) = map_option (\<lambda>is. (AChar c, False) # is) (parse_items t)"
  using assms by (intro parse_items_atom parse_atom_QuoteMeta) auto

lemma parse_items_class:
  assumes "class_atom body = Some a" and "CHR '']'' \<notin> set body" and "hd t \<noteq> CHR ''*''"
  shows "parse_items (CHR ''['' # body @ '']'' @ t) =
    map_option (\<lambda>is. (a, False) # is) (parse_items t)"
  using parse_items_atom [OF parse_atom_class [OF assms(1,2)]] assms(3) by simp

lemma class_atom_not_dot: "class_atom ''^.'' = Some (AClass True [(CHR ''.'', CHR ''.'')])"
  by (simp add: class_atom_def plain_in_class_def)

lemma parse_items_glob:
  "glob_items p = Some is \<Longrightarrow>
     parse_items (globToRegex_from p @ ''$'') = Some (is @ [(AEnd, False)])"
proof (induction p arbitrary: "is" rule: globToRegex_from.induct)
  case 1
  then show ?case by (simp add: parse_items.simps)
next
  case (2 c s)
  let ?body = "takeWhile (\<lambda>d. d \<noteq> CHR '']'') s"
  consider (star) "c = CHR ''*''" | (quest) "c = CHR ''?''"
    | (open_br) "c = CHR ''[''" "dropWhile (\<lambda>d. d \<noteq> CHR '']'') s = []"
    | (cls) d rest where "c = CHR ''[''" "dropWhile (\<lambda>d. d \<noteq> CHR '']'') s = d # rest"
    | (dot) "c = CHR ''.''"
    | (lit) "c \<noteq> CHR ''*''" "c \<noteq> CHR ''?''" "c \<noteq> CHR ''[''" "c \<noteq> CHR ''.''"
    by (metis neq_Nil_conv)
  then show ?case
  proof cases
    case star
    with "2.prems" obtain is' where "glob_items s = Some is'" "is = (AAny, True) # is'" by auto
    then show ?thesis using star "2.IH"(1) parse_items_star [of "globToRegex_from s @ ''$''"]
      by simp
  next
    case quest
    with "2.prems" obtain is' where g: "glob_items s = Some is'"
      "is = (AClass True [(CHR ''.'', CHR ''.'')], False) # is'" by auto
    then show ?thesis
      using quest "2.IH"(2) globToRegex_from_hd [of s]
        parse_items_class [OF class_atom_not_dot, of "globToRegex_from s @ ''$''"] by simp
  next
    case open_br
    with "2.prems" obtain is' where g: "glob_items s = Some is'" "is = (AChar c, False) # is'" by auto
    have e: "globToRegex_from (c # s) = QuoteMeta [c] @ globToRegex_from s"
      using open_br by (simp del: dropWhile_eq_Nil_conv)
    show ?thesis
      unfolding e using open_br g "2.IH"(3) globToRegex_from_hd [of s]
        parse_items_literal [of c "globToRegex_from s @ ''$''"] by simp
  next
    case cls
    with "2.prems" obtain is' a where g: "glob_items rest = Some is'" "class_atom ?body = Some a"
      "is = (a, False) # is'" by (auto split: option.splits)
    have "CHR '']'' \<notin> set ?body" by (auto dest: set_takeWhileD)
    then show ?thesis
      using cls g "2.IH"(4) globToRegex_from_hd [of rest]
        parse_items_class [OF g(2), of "globToRegex_from rest @ ''$''"] by simp
  next
    case dot
    with "2.prems" obtain is' where g: "glob_items s = Some is'" "is = (AChar c, False) # is'" by auto
    then show ?thesis
      using dot "2.IH"(5) globToRegex_from_hd [of s]
        parse_items_literal [of c "globToRegex_from s @ ''$''"] dot_is_QuoteMeta by simp
  next
    case lit
    with "2.prems" obtain is' where g: "glob_items s = Some is'" "is = (AChar c, False) # is'"
      "byte c < 128" by (auto split: if_splits)
    then show ?thesis
      using lit "2.IH"(6) globToRegex_from_hd [of s]
        parse_items_literal [of c "globToRegex_from s @ ''$''"] by simp
  qed
qed

text \<open>The items of a glob match characters only, so a match up to the end anchor is a full match.\<close>

definition char_items :: "item list \<Rightarrow> bool" where
  "char_items is \<longleftrightarrow> (\<forall>(a, b) \<in> set is. a \<noteq> ABegin \<and> a \<noteq> AEnd)"

lemma class_atom_char: "class_atom body = Some a \<Longrightarrow> a \<noteq> ABegin \<and> a \<noteq> AEnd"
  by (auto simp: class_atom_def split: list.splits if_splits)

lemma glob_items_step:
  assumes "glob_items (c # s) = Some is"
  shows "\<exists>a b is' rest. is = (a, b) # is' \<and> a \<noteq> ABegin \<and> a \<noteq> AEnd \<and>
    glob_items rest = Some is' \<and> length rest < length (c # s)"
proof (cases "c = CHR ''['' \<and> dropWhile (\<lambda>d. d \<noteq> CHR '']'') s \<noteq> []")
  case True
  then obtain d rest where dr: "dropWhile (\<lambda>d. d \<noteq> CHR '']'') s = d # rest" by (meson neq_Nil_conv)
  have "length (dropWhile (\<lambda>d. d \<noteq> CHR '']'') s) \<le> length s" by (rule length_dropWhile_le)
  with True dr assms class_atom_char show ?thesis by (fastforce split: option.splits)
next
  case False
  then have "\<exists>a b is'. is = (a, b) # is' \<and> a \<noteq> ABegin \<and> a \<noteq> AEnd \<and> glob_items s = Some is'"
    using assms by (cases "c = CHR ''[''") (auto simp del: dropWhile_eq_Nil_conv split: if_splits)
  then show ?thesis by auto
qed

lemma glob_items_char: "glob_items p = Some is \<Longrightarrow> char_items is"
proof (induction p arbitrary: "is" rule: length_induct)
  case (1 p)
  show ?case
  proof (cases p)
    case Nil
    with 1 show ?thesis by (simp add: char_items_def)
  next
    case (Cons c s)
    with 1 glob_items_step [of c s "is"] show ?thesis by (fastforce simp: char_items_def)
  qed
qed

lemma items_match_full:
  "char_items is \<Longrightarrow> items_match st (is @ [(AEnd, False)]) s \<longleftrightarrow> full_match is s"
proof (induction "is" s arbitrary: st rule: full_match.induct)
  case (2 a "is" s)
  then have "char_items is" by (simp add: char_items_def)
  then have skip: "items_match st (is @ [(AEnd, False)]) s = full_match is s"
    by (rule "2.IH"(1))
  show ?case
  proof (cases s)
    case Nil
    with skip show ?thesis by simp
  next
    case (Cons c s')
    have "items_match False (((a, True) # is) @ [(AEnd, False)]) s' = full_match ((a, True) # is) s'"
      by (rule "2.IH"(2) [OF Cons "2.prems"])
    with skip Cons show ?thesis
      by (simp only: items_match.simps(2) [of st a _ "c # s'"] full_match.simps(2) [of a "is" "c # s'"]
          append_Cons list.case)
  qed
next
  case (3 a "is" s)
  then show ?case by (cases a) (auto simp: char_items_def split: list.splits)
qed simp

lemma search_not_start: "\<not> search False ((ABegin, False) # is) s"
  by (induction s) auto

lemma fragment_match_glob:
  "glob_items p = Some is \<Longrightarrow> fragment_match (globToRegex p) = Some (glob_match p)"
proof -
  assume g: "glob_items p = Some is"
  have "parse_items (globToRegex p) = Some ((ABegin, False) # is @ [(AEnd, False)])"
    using parse_items_glob [OF g] globToRegex_from_hd [of p] g
      parse_items_atom [of "''^''" "globToRegex_from p @ ''$''" ABegin]
    by (simp add: globToRegex_def)
  moreover have "search True ((ABegin, False) # is @ [(AEnd, False)]) s = glob_match p s" for s
    using items_match_full [OF glob_items_char [OF g]] search_not_start
    by (cases s) (auto simp: glob_match_def g)
  ultimately show ?thesis by (simp add: fragment_match_def fun_eq_iff)
qed

lemma globToRegex_no_flag: "\<not> HasPrefix (globToRegex p) ''(?i)''"
  by (simp add: globToRegex_def HasPrefix_def)

context regexp_engine
begin

lemma compile_glob:
  assumes "glob_ok p"
  shows "compile rx PatternTypeGlob p = Inr \<lparr>cp_original = p, cp_regex = glob_match p\<rparr>"
proof -
  from assms obtain "is" where "glob_items p = Some is" by (auto simp: glob_ok_def)
  then have "rx (''(?i)'' @ globToRegex p) = Inr (glob_match p)"
    by (intro rx_fragment fragment_match_glob)
  then show ?thesis using globToRegex_no_flag by (simp add: compile_def)
qed

lemma compile_all_glob:
  assumes "\<forall>p \<in> set ps. glob_ok p"
  shows "compile_all rx PatternTypeGlob kind ps =
    Inr (map (\<lambda>p. \<lparr>cp_original = p, cp_regex = glob_match p\<rparr>) ps)"
  using assms by (induction ps) (simp_all add: compile_glob)

lemma NewDomainMatcher_glob:
  assumes "\<not> UseRegex cfg" "Includes cfg \<noteq> []"
    and "\<forall>p \<in> set (Includes cfg) \<union> set (Excludes cfg). glob_ok p"
  shows "\<exists>m. NewDomainMatcher rx cfg = Inr m \<and>
    (\<forall>h. Matches m h \<longleftrightarrow>
       (\<exists>p \<in> set (Includes cfg). glob_match p (TrimSuffix (ToLower h) ''.'')) \<and>
       \<not> (\<exists>p \<in> set (Excludes cfg). glob_match p (TrimSuffix (ToLower h) ''.'')))"
  using assms
  by (auto simp: NewDomainMatcher_def compile_all_glob Matches_def Let_def list_ex_iff)

end

subsection \<open>Wildcard domains\<close>

text \<open>A literal pattern matches itself up to case; a star in front of it any subdomain.\<close>

definition glob_literal :: "string \<Rightarrow> bool" where
  "glob_literal p \<longleftrightarrow> (\<forall>c \<in> set p. byte c < 128 \<and> c \<noteq> CHR ''*'' \<and> c \<noteq> CHR ''?'' \<and> c \<noteq> CHR ''['')"

lemma glob_items_literal:
  "glob_literal p \<Longrightarrow> glob_items p = Some (map (\<lambda>c. (AChar c, False)) p)"
  by (induction p) (auto simp: glob_literal_def)

lemma full_match_literal:
  "full_match (map (\<lambda>c. (AChar c, False)) p) s \<longleftrightarrow> ToLower s = ToLower p"
proof (induction p arbitrary: s)
  case (Cons c p)
  then show ?case by (cases s) auto
qed simp

lemma full_match_star:
  "full_match ((AAny, True) # is) s \<longleftrightarrow>
     (\<exists>t u. s = t @ u \<and> (\<forall>c \<in> set t. byte c \<noteq> 10) \<and> full_match is u)"
proof (induction s)
  case (Cons c s)
  show ?case
  proof
    assume "full_match ((AAny, True) # is) (c # s)"
    then consider "full_match is (c # s)" | "byte c \<noteq> 10" "full_match ((AAny, True) # is) s" by auto
    then show "\<exists>t u. c # s = t @ u \<and> (\<forall>c \<in> set t. byte c \<noteq> 10) \<and> full_match is u"
    proof cases
      case 1
      then show ?thesis by (intro exI [of _ "[]"] exI [of _ "c # s"]) simp
    next
      case 2
      then obtain t u where "s = t @ u" "\<forall>c \<in> set t. byte c \<noteq> 10" "full_match is u"
        using Cons by blast
      with 2 show ?thesis by (intro exI [of _ "c # t"] exI [of _ u]) auto
    qed
  next
    assume "\<exists>t u. c # s = t @ u \<and> (\<forall>c \<in> set t. byte c \<noteq> 10) \<and> full_match is u"
    then obtain t u where tu: "c # s = t @ u" "\<forall>c \<in> set t. byte c \<noteq> 10" "full_match is u" by blast
    then show "full_match ((AAny, True) # is) (c # s)"
      using Cons by (cases t) auto
  qed
qed simp

lemma glob_match_wildcard:
  assumes "glob_literal p"
  shows "glob_match (''*'' @ p) s \<longleftrightarrow>
    (\<exists>t u. s = t @ u \<and> (\<forall>c \<in> set t. byte c \<noteq> 10) \<and> ToLower u = ToLower p)"
  using full_match_star [of "map (\<lambda>c. (AChar c, False)) p" s]
  by (simp add: glob_match_def glob_items_literal [OF assms] full_match_literal)

lemma glob_match_literal: "glob_literal p \<Longrightarrow> glob_match p s \<longleftrightarrow> ToLower s = ToLower p"
  by (simp add: glob_match_def glob_items_literal full_match_literal)

lemma glob_ok_literal: "glob_literal p \<Longrightarrow> glob_ok p" "glob_literal p \<Longrightarrow> glob_ok (''*'' @ p)"
  by (simp_all add: glob_ok_def glob_items_literal)

subsection \<open>Properties\<close>

text \<open>C17: With a regexp engine that agrees with the documented semantics on the fragment the globs are
  translated to, a matcher built from well-formed glob patterns exists and matches a hostname, compared
  in lower case without its trailing dot, iff an include pattern matches and no exclude pattern does.\<close>
theorem glob_matcher_correct:
  assumes "regexp_engine rx" and "\<not> UseRegex cfg" and "Includes cfg \<noteq> []"
    and "\<forall>p \<in> set (Includes cfg) \<union> set (Excludes cfg). glob_ok p"
  shows "\<exists>m. NewDomainMatcher rx cfg = Inr m \<and>
    (\<forall>h. Matches m h \<longleftrightarrow>
       (\<exists>p \<in> set (Includes cfg). glob_match p (TrimSuffix (ToLower h) ''.'')) \<and>
       \<not> (\<exists>p \<in> set (Excludes cfg). glob_match p (TrimSuffix (ToLower h) ''.'')))"
  using regexp_engine.NewDomainMatcher_glob [OF assms] .

theorem glob_matcher_correct_witness:
  "\<exists>m. NewDomainMatcher fragment_engine
      \<lparr>Includes = [''*.example.com''], Excludes = [''admin.*''], UseRegex = False\<rparr> = Inr m \<and>
    Matches m ''App.Example.com.'' \<and> \<not> Matches m ''admin.example.com''"
proof -
  let ?c = "\<lparr>Includes = [''*.example.com''], Excludes = [''admin.*''], UseRegex = False\<rparr>"
  have ok: "\<forall>p \<in> set (Includes ?c) \<union> set (Excludes ?c). glob_ok p" by code_simp
  obtain m where m: "NewDomainMatcher fragment_engine ?c = Inr m"
    "\<forall>h. Matches m h \<longleftrightarrow> (\<exists>p \<in> set (Includes ?c). glob_match p (TrimSuffix (ToLower h) ''.'')) \<and>
       \<not> (\<exists>p \<in> set (Excludes ?c). glob_match p (TrimSuffix (ToLower h) ''.''))"
    using glob_matcher_correct [OF fe.regexp_engine_axioms _ _ ok] by auto
  have "glob_match ''*.example.com'' (TrimSuffix (ToLower ''App.Example.com.'') ''.'')"
    "\<not> glob_match ''admin.*'' (TrimSuffix (ToLower ''App.Example.com.'') ''.'')"
    "glob_match ''admin.*'' (TrimSuffix (ToLower ''admin.example.com'') ''.'')" by code_simp+
  with m show ?thesis by auto
qed

text \<open>A matcher built from the wildcard pattern \<^verbatim>\<open>*.domain\<close> matches exactly the names that end in
  the dot and the domain, compared without case and trailing dot, at any depth of subdomain.\<close>

lemma wildcard_subdomains:
  assumes "regexp_engine rx" and "glob_literal p"
  shows "\<exists>m. NewDomainMatcher rx \<lparr>Includes = [''*'' @ p], Excludes = [], UseRegex = False\<rparr> = Inr m \<and>
    (\<forall>h. Matches m h \<longleftrightarrow> (\<exists>t u. TrimSuffix (ToLower h) ''.'' = t @ u \<and>
       (\<forall>c \<in> set t. byte c \<noteq> 10) \<and> ToLower u = ToLower p))"
  using regexp_engine.NewDomainMatcher_glob [OF assms(1), of "\<lparr>Includes = [''*'' @ p], Excludes = [], UseRegex = False\<rparr>"]
    glob_ok_literal(2) [OF assms(2)] glob_match_wildcard [OF assms(2)] by auto

theorem wildcard_subdomains_witness:
  "\<exists>m. NewDomainMatcher fragment_engine \<lparr>Includes = [''*.example.com''], Excludes = [], UseRegex = False\<rparr> = Inr m \<and>
    Matches m ''a.b.Example.com.''"
proof -
  have l: "glob_literal ''.example.com''" by code_simp
  obtain m where m: "NewDomainMatcher fragment_engine \<lparr>Includes = [''*'' @ ''.example.com''], Excludes = [], UseRegex = False\<rparr> = Inr m"
    "\<forall>h. Matches m h \<longleftrightarrow> (\<exists>t u. TrimSuffix (ToLower h) ''.'' = t @ u \<and>
       (\<forall>c \<in> set t. byte c \<noteq> 10) \<and> ToLower u = ToLower ''.example.com'')"
    using wildcard_subdomains [OF fe.regexp_engine_axioms l] by auto
  have "TrimSuffix (ToLower ''a.b.Example.com.'') ''.'' = ''a.b'' @ ''.example.com''" "\<forall>c \<in> set ''a.b''. byte c \<noteq> 10"
    by code_simp+
  then have "Matches m ''a.b.Example.com.''" unfolding m(2) [rule_format] by blast
  then show ?thesis using m(1) by auto
qed

end
