(* ===== verification/NetIP.thy ===== *)
theory NetIP
  imports Prelude
begin

text \<open>
  The part of Go's \<^verbatim>\<open>net\<close> package the program uses to tell addresses from names:
  \<^verbatim>\<open>net.ParseIP\<close> (dotted decimal without leading zeros; colon-separated hexadecimal groups
  with at most one ellipsis and an optional trailing dotted quad; no zone) and
  \<^verbatim>\<open>IP.To4\<close>, which also accepts an IPv4-mapped IPv6 address.
\<close>

definition digit_value :: "char \<Rightarrow> nat option" where
  "digit_value c = (if is_digit c then Some (byte c - 48) else None)"

definition hex_value :: "char \<Rightarrow> nat option" where
  "hex_value c =
     (if is_digit c then Some (byte c - 48)
      else if 97 \<le> byte c \<and> byte c \<le> 102 then Some (byte c - 87)
      else if 65 \<le> byte c \<and> byte c \<le> 70 then Some (byte c - 55)
      else None)"

fun decimal :: "nat \<Rightarrow> string \<Rightarrow> nat option" where
  "decimal acc [] = Some acc"
| "decimal acc (c # s) =
     (case digit_value c of None \<Rightarrow> None | Some d \<Rightarrow> decimal (10 * acc + d) s)"

definition parse_octet :: "string \<Rightarrow> nat option" where
  "parse_octet s =
     (if s = [] \<or> length s > 3 \<or> (length s > 1 \<and> hd s = CHR ''0'') then None
      else case decimal 0 s of None \<Rightarrow> None | Some n \<Rightarrow> if n > 255 then None else Some n)"

fun all_some :: "'a option list \<Rightarrow> 'a list option" where
  "all_some [] = Some []"
| "all_some (None # xs) = None"
| "all_some (Some x # xs) = map_option (\<lambda>ys. x # ys) (all_some xs)"

definition parseIPv4 :: "string \<Rightarrow> nat list option" where
  "parseIPv4 s =
     (let fields = Split s (CHR ''.'') in
      if length fields \<noteq> 4 then None else all_some (map parse_octet fields))"

text \<open>
  The loop of the IPv6 parser. The first argument counts the 16-bit groups still free,
  \<open>acc\<close> holds the bytes read so far, \<open>ell\<close> the position of the ellipsis. It returns the
  bytes and the ellipsis when the whole string was used.
\<close>

fun hex_acc :: "string \<Rightarrow> nat" where
  "hex_acc s = foldl (\<lambda>a c. 16 * a + (case hex_value c of None \<Rightarrow> 0 | Some d \<Rightarrow> d)) 0 s"

primrec v6_groups :: "nat \<Rightarrow> nat list \<Rightarrow> nat option \<Rightarrow> string \<Rightarrow> (nat list \<times> nat option) option" where
  "v6_groups 0 acc ell s = (if s = [] then Some (acc, ell) else None)"
| "v6_groups (Suc n) acc ell s =
     (let digits = takeWhile (\<lambda>c. hex_value c \<noteq> None) s;
          rest = dropWhile (\<lambda>c. hex_value c \<noteq> None) s in
      if length digits > 4 \<or> digits = [] then None
      else if rest \<noteq> [] \<and> hd rest = CHR ''.'' then
        (if ell = None \<and> length acc \<noteq> 12 then None
         else if length acc + 4 > 16 then None
         else case parseIPv4 s of None \<Rightarrow> None | Some bs \<Rightarrow> Some (acc @ bs, ell))
      else
        let acc' = acc @ [hex_acc digits div 256, hex_acc digits mod 256] in
        case rest of
          [] \<Rightarrow> Some (acc', ell)
        | c # rest' \<Rightarrow>
            if c \<noteq> CHR '':'' \<or> rest' = [] then None
            else if hd rest' = CHR '':'' then
              (if ell \<noteq> None then None
               else if tl rest' = [] then Some (acc', Some (length acc'))
               else v6_groups n acc' (Some (length acc')) (tl rest'))
            else v6_groups n acc' ell rest')"

definition parseIPv6 :: "string \<Rightarrow> nat list option" where
  "parseIPv6 s =
     (let lead = take 2 s = ''::'';
          body = (if lead then drop 2 s else s) in
      if lead \<and> body = [] then Some (replicate 16 0)
      else case v6_groups 8 [] (if lead then Some 0 else None) body of
        None \<Rightarrow> None
      | Some (bs, ell) \<Rightarrow>
          if length bs < 16 then
            (case ell of
               None \<Rightarrow> None
             | Some e \<Rightarrow> Some (take e bs @ replicate (16 - length bs) 0 @ drop e bs))
          else if ell \<noteq> None then None else Some bs)"

definition v4_mapped_prefix :: "nat list" where
  "v4_mapped_prefix = replicate 10 0 @ [255, 255]"

text \<open>\<^verbatim>\<open>net.ParseIP\<close>: the 16 bytes of the address, or nil.\<close>

definition ParseIP :: "string \<Rightarrow> nat list option" where
  "ParseIP s =
     (case dropWhile (\<lambda>c. c \<noteq> CHR ''.'' \<and> c \<noteq> CHR '':'' \<and> c \<noteq> CHR ''%'') s of
        [] \<Rightarrow> None
      | c # _ \<Rightarrow>
          if c = CHR ''.'' then map_option (\<lambda>bs. v4_mapped_prefix @ bs) (parseIPv4 s)
          else if c = CHR '':'' then parseIPv6 s
          else None)"

definition To4 :: "nat list \<Rightarrow> nat list option" where
  "To4 ip = (if take 12 ip = v4_mapped_prefix then Some (drop 12 ip) else None)"

subsection \<open>Printing and classifying addresses\<close>

text \<open>\<^verbatim>\<open>IP.String\<close>: dotted decimal for an IPv4 address, otherwise groups with the first longest run of zeros elided.\<close>

fun hex_string :: "nat \<Rightarrow> string" where
  "hex_string n = (if n < 16 then [hex_char n] else hex_string (n div 16) @ [hex_char (n mod 16)])"

declare hex_string.simps [simp del]

fun v6_words :: "nat list \<Rightarrow> nat list" where
  "v6_words (a # b # bs) = (256 * a + b) # v6_words bs"
| "v6_words _ = []"

definition zero_run :: "nat list \<Rightarrow> nat \<times> nat" where
  "zero_run gs = fold (\<lambda>i (s, e). let l = length (takeWhile (\<lambda>g. g = 0) (drop i gs))
     in if l \<ge> 2 \<and> l > e - s then (i, i + l) else (s, e)) [0..<8] (255, 255)"

definition IP_String :: "nat list \<Rightarrow> string" where
  "IP_String ip =
     (case To4 ip of
        Some bs \<Rightarrow> Join (map Itoa bs) ''.''
      | None \<Rightarrow>
          let gs = v6_words ip; (s, e) = zero_run gs; hex = (\<lambda>xs. Join (map hex_string xs) '':'')
          in if s = 255 then hex gs else hex (take s gs) @ ''::'' @ hex (drop e gs))"

definition ip_is_loopback :: "nat list \<Rightarrow> bool" where
  "ip_is_loopback ip = (case To4 ip of Some bs \<Rightarrow> hd bs = 127 | None \<Rightarrow> ip = replicate 15 0 @ [1])"

definition ip_is_unspecified :: "nat list \<Rightarrow> bool" where
  "ip_is_unspecified ip = (To4 ip = Some [0, 0, 0, 0] \<or> ip = replicate 16 0)"

definition ip_is_multicast :: "nat list \<Rightarrow> bool" where
  "ip_is_multicast ip = (case To4 ip of Some bs \<Rightarrow> hd bs div 16 = 14 | None \<Rightarrow> hd ip = 255)"

definition ip_is_link_local :: "nat list \<Rightarrow> bool" where
  "ip_is_link_local ip =
     (case To4 ip of Some bs \<Rightarrow> take 2 bs = [169, 254] | None \<Rightarrow> hd ip = 254 \<and> ip ! 1 div 64 = 2)"

definition ip_is_global :: "nat list \<Rightarrow> bool" where
  "ip_is_global ip \<longleftrightarrow> To4 ip \<noteq> Some [255, 255, 255, 255] \<and> \<not> ip_is_unspecified ip \<and> \<not> ip_is_loopback ip \<and>
     \<not> ip_is_multicast ip \<and> \<not> ip_is_link_local ip"

lemma Itoa_neq_Nil [simp]: "Itoa n \<noteq> []"
  by (subst Itoa.simps) simp

subsection \<open>A printed address is parsed back\<close>

lemma digit_value_char: "d < 10 \<Longrightarrow> digit_value (digit_char d) = Some d"
  by (simp add: digit_value_def digit_char_def is_digit_def)

lemma hex_value_char: "d < 16 \<Longrightarrow> hex_value (hex_char d) = Some d"
  by (auto simp: hex_value_def hex_char_def digit_char_def is_digit_def)

lemma decimal_append: "decimal acc (s @ t) = (case decimal acc s of None \<Rightarrow> None | Some n \<Rightarrow> decimal n t)"
  by (induction s arbitrary: acc) (auto split: option.splits)

lemma Itoa_step: "10 \<le> n \<Longrightarrow> Itoa n = Itoa (n div 10) @ [digit_char (n mod 10)]"
  by (subst Itoa.simps) simp

lemma Itoa_digit: "n < 10 \<Longrightarrow> Itoa n = [digit_char n]"
  by (subst Itoa.simps) simp

lemma decimal_Itoa: "decimal 0 (Itoa n) = Some n"
proof (induction n rule: Itoa.induct)
  case (1 n)
  then show ?case by (cases "n < 10") (simp_all add: Itoa_digit Itoa_step decimal_append digit_value_char)
qed

lemma Itoa_digits: "list_all is_digit (Itoa n)"
proof (induction n rule: Itoa.induct)
  case (1 n)
  then show ?case by (cases "n < 10") (simp_all add: Itoa_digit Itoa_step digit_char_def is_digit_def)
qed

lemma Itoa_dot [simp]: "CHR ''.'' \<notin> set (Itoa n)"
  using Itoa_digits [of n] by (auto simp: list_all_iff is_digit_def)

lemma parse_octet_Itoa: "n < 256 \<Longrightarrow> parse_octet (Itoa n) = Some n"
proof -
  assume n: "n < 256"
  have "length (Itoa n) \<le> 3 \<and> (length (Itoa n) > 1 \<longrightarrow> hd (Itoa n) \<noteq> CHR ''0'')"
  proof (cases "n < 10")
    case False
    then show ?thesis
    proof (cases "n < 100")
      case True
      with False show ?thesis by (auto simp: Itoa_step Itoa_digit digit_char_def dest: arg_cong [of _ _ byte])
    next
      case False
      then have "n div 10 div 10 < 10" "1 \<le> n div 10 div 10" "10 \<le> n div 10" "10 \<le> n" using n by simp_all
      then show ?thesis by (auto simp: Itoa_step Itoa_digit digit_char_def dest: arg_cong [of _ _ byte])
    qed
  qed (simp add: Itoa_digit)
  then show ?thesis using n by (auto simp: parse_octet_def decimal_Itoa)
qed

lemma all_some_map: "(\<And>x. x \<in> set xs \<Longrightarrow> f x = Some (g x)) \<Longrightarrow> all_some (map f xs) = Some (map g xs)"
  by (induction xs) auto

lemma parseIPv4_Join:
  assumes "length bs = 4" "\<forall>b \<in> set bs. b < 256"
  shows "parseIPv4 (Join (map Itoa bs) ''.'') = Some bs"
proof -
  have "Split (Join (map Itoa bs) ''.'') (CHR ''.'') = map Itoa bs"
    using assms(1) by (intro Split_Join) (auto)
  moreover have "all_some (map (\<lambda>b. parse_octet (Itoa b)) bs) = Some (map (\<lambda>b. b) bs)"
    by (rule all_some_map) (use assms(2) in \<open>simp add: parse_octet_Itoa\<close>)
  ultimately show ?thesis using assms(1) by (simp add: parseIPv4_def comp_def)
qed

lemma hex_string_step: "16 \<le> n \<Longrightarrow> hex_string n = hex_string (n div 16) @ [hex_char (n mod 16)]"
  by (subst hex_string.simps) simp

lemma hex_string_digit: "n < 16 \<Longrightarrow> hex_string n = [hex_char n]"
  by (subst hex_string.simps) simp

lemma hex_string_chars: "list_all (\<lambda>c. hex_value c \<noteq> None) (hex_string n)"
proof (induction n rule: hex_string.induct)
  case (1 n)
  then show ?case by (cases "n < 16") (simp_all add: hex_string_digit hex_string_step hex_value_char)
qed

lemma hex_acc_string: "hex_acc (hex_string n) = n"
proof (induction n rule: hex_string.induct)
  case (1 n)
  then show ?case by (cases "n < 16") (simp_all add: hex_string_digit hex_string_step hex_value_char)
qed

lemma length_hex_string: "n < 16 ^ Suc k \<Longrightarrow> length (hex_string n) \<le> Suc k"
proof (induction k arbitrary: n)
  case (Suc k)
  then show ?case
    by (cases "n < 16") (simp_all add: hex_string_digit hex_string_step Suc.IH)
qed (simp add: hex_string_digit)

lemma hex_string_Nil [simp]: "hex_string n \<noteq> []"
  by (subst hex_string.simps) simp


definition group_bytes :: "nat list \<Rightarrow> nat list" where
  "group_bytes gs = concat (map (\<lambda>g. [g div 256, g mod 256]) gs)"

definition hex_groups :: "nat list \<Rightarrow> string" where
  "hex_groups gs = Join (map hex_string gs) '':''"

lemma hex_groups_Nil [simp]: "hex_groups [] = []"
  by (simp add: hex_groups_def)

declare v6_groups.simps(2) [simp del]

lemma group_bytes_simps [simp]:
  "group_bytes [] = []" "group_bytes (g # gs) = g div 256 # g mod 256 # group_bytes gs"
  "group_bytes (gs @ hs) = group_bytes gs @ group_bytes hs" "length (group_bytes gs) = 2 * length gs"
  "group_bytes (replicate n 0) = replicate (2 * n) 0"
  by (induction gs) (simp_all add: group_bytes_def, induction n, simp_all)

lemma hex_groups_Cons: "hex_groups (g # gs) = hex_string g @ (if gs = [] then [] else CHR '':'' # hex_groups gs)"
  by (cases gs) (auto simp: hex_groups_def)

lemma hex_run:
  assumes "s = [] \<or> hex_value (hd s) = None"
  shows "takeWhile (\<lambda>c. hex_value c \<noteq> None) (hex_string g @ s) = hex_string g"
    "dropWhile (\<lambda>c. hex_value c \<noteq> None) (hex_string g @ s) = s"
proof -
  have "\<forall>c \<in> set (hex_string g). hex_value c \<noteq> None" using hex_string_chars [of g] by (simp add: list_all_iff)
  then show "takeWhile (\<lambda>c. hex_value c \<noteq> None) (hex_string g @ s) = hex_string g"
    "dropWhile (\<lambda>c. hex_value c \<noteq> None) (hex_string g @ s) = s"
    using assms by (cases s; simp add: takeWhile_append dropWhile_append; auto simp: takeWhile_eq_Nil_iff)+
qed

lemma hex_value_colon [simp]: "hex_value (CHR '':'') = None" "hex_value (CHR ''.'') = None"
  by (simp_all add: hex_value_def is_digit_def)

lemma hd_hex [simp]: "hex_value (hd (hex_string g)) \<noteq> None"
  using hex_string_chars [of g] by (cases "hex_string g") auto

lemma hd_hex_groups: "gs \<noteq> [] \<Longrightarrow> hex_value (hd (hex_groups gs)) \<noteq> None" "gs \<noteq> [] \<Longrightarrow> hex_groups gs \<noteq> []"
  by (cases gs; simp add: hex_groups_Cons)+

lemma v6_group:
  assumes "g < 65536" and "s = [] \<or> hd s = CHR '':''"
  shows "v6_groups (Suc n) acc ell (hex_string g @ s) =
    (let acc' = acc @ [g div 256, g mod 256] in
        case s of
          [] \<Rightarrow> Some (acc', ell)
        | c # rest' \<Rightarrow>
            if rest' = [] then None
            else if hd rest' = CHR '':'' then
              (if ell \<noteq> None then None
               else if tl rest' = [] then Some (acc', Some (length acc'))
               else v6_groups n acc' (Some (length acc')) (tl rest'))
            else v6_groups n acc' ell rest')"
proof -
  have "s = [] \<or> hex_value (hd s) = None" using assms(2) by auto
  note run = hex_run [OF this, of g]
  have "length (hex_string g) \<le> 4" using length_hex_string [of g 3] assms(1) by simp
  moreover have "\<not> (s \<noteq> [] \<and> hd s = CHR ''.'')" using assms(2) by auto
  ultimately show ?thesis using assms(2)
    unfolding v6_groups.simps run Let_def hex_acc_string by (cases s) auto
qed

lemma v6_groups_hex:
  "gs \<noteq> [] \<Longrightarrow> length gs \<le> n \<Longrightarrow> \<forall>g \<in> set gs. g < 65536 \<Longrightarrow>
    v6_groups n acc ell (hex_groups gs) = Some (acc @ group_bytes gs, ell)"
proof (induction gs arbitrary: n acc)
  case (Cons g gs)
  obtain m where n: "n = Suc m" using Cons.prems(2) by (cases n) auto
  show ?case
  proof (cases "gs = []")
    case True
    then show ?thesis using v6_group [of g "[]" m acc ell] Cons.prems n by (simp add: hex_groups_Cons)
  next
    case False
    have "hd (hex_groups gs) \<noteq> CHR '':''" using hd_hex_groups(1) [OF False] by auto
    then show ?thesis
      using v6_group [of g "CHR '':'' # hex_groups gs" m acc ell] Cons.IH [OF False, of m] Cons.prems n False hd_hex_groups(2) [OF False]
      by (simp add: hex_groups_Cons)
  qed
qed simp

lemma v6_groups_ellipsis:
  "gs \<noteq> [] \<Longrightarrow> length gs + length hs \<le> n \<Longrightarrow> \<forall>g \<in> set gs \<union> set hs. g < 65536 \<Longrightarrow>
    v6_groups n acc None (hex_groups gs @ ''::'' @ hex_groups hs) =
      Some (acc @ group_bytes gs @ group_bytes hs, Some (length acc + 2 * length gs))"
proof (induction gs arbitrary: n acc)
  case (Cons g gs)
  obtain m where n: "n = Suc m" using Cons.prems(2) by (cases n) auto
  show ?case
  proof (cases "gs = []")
    case True
    show ?thesis
    proof (cases "hs = []")
      case False
      then show ?thesis
        using v6_group [of g "''::'' @ hex_groups hs" m acc None] v6_groups_hex [OF False, of m] Cons.prems n True hd_hex_groups(2) [OF False]
        by (simp add: hex_groups_Cons)
    qed (use v6_group [of g "''::''" m acc None] Cons.prems n True in \<open>simp add: hex_groups_Cons\<close>)
  next
    case False
    have "hd (hex_groups gs @ ''::'' @ hex_groups hs) \<noteq> CHR '':''"
      using hd_hex_groups [OF False] by (cases "hex_groups gs") auto
    then show ?thesis
      using v6_group [of g "CHR '':'' # hex_groups gs @ ''::'' @ hex_groups hs" m acc None]
        Cons.IH [OF False, of m] Cons.prems n False hd_hex_groups(2) [OF False]
      by (simp add: hex_groups_Cons)
  qed
qed simp

text \<open>The run of zeros that is elided.\<close>

definition zero_range :: "nat list \<Rightarrow> nat \<times> nat \<Rightarrow> bool" where
  "zero_range gs r \<longleftrightarrow> (case r of (s, e) \<Rightarrow>
     (s = 255 \<and> e = 255) \<or> (s < e \<and> e \<le> length gs \<and> drop s (take e gs) = replicate (e - s) 0))"

lemma takeWhile_zero: "length (takeWhile (\<lambda>g. g = (0::nat)) xs) = l \<Longrightarrow> take l xs = replicate l 0 \<and> l \<le> length xs"
  by (induction xs arbitrary: l) (auto split: if_splits)

lemma zero_run_range: "length gs = 8 \<Longrightarrow> zero_range gs (zero_run gs)"
proof -
  assume len: "length gs = 8"
  have step: "zero_range gs (let l = length (takeWhile (\<lambda>g. g = 0) (drop i gs))
      in if l \<ge> 2 \<and> l > snd r - fst r then (i, i + l) else r)" if "zero_range gs r" for i and r :: "nat \<times> nat"
  proof -
    let ?l = "length (takeWhile (\<lambda>g. g = 0) (drop i gs))"
    have "take ?l (drop i gs) = replicate ?l 0" "?l \<le> length (drop i gs)" using takeWhile_zero [of "drop i gs"] by blast+
    then show ?thesis using that by (auto simp: zero_range_def Let_def take_drop add.commute split: prod.splits)
  qed
  have "zero_range gs (fold (\<lambda>i (s, e). let l = length (takeWhile (\<lambda>g. g = 0) (drop i gs))
     in if l \<ge> 2 \<and> l > e - s then (i, i + l) else (s, e)) is r)" if "zero_range gs r" for "is" r
    using that
  proof (induction "is" arbitrary: r)
    case (Cons i "is")
    obtain s e where r: "r = (s, e)" by (cases r)
    show ?case using Cons.IH [OF step [OF Cons.prems, of i]] unfolding r by simp
  qed simp
  moreover have "zero_range gs (255, 255)" by (simp add: zero_range_def)
  ultimately show ?thesis by (simp add: zero_run_def)
qed

lemma v6_words_bytes:
  "even (length bs) \<Longrightarrow> \<forall>b \<in> set bs. b < 256 \<Longrightarrow> group_bytes (v6_words bs) = bs \<and> (\<forall>g \<in> set (v6_words bs). g < 65536)
    \<and> 2 * length (v6_words bs) = length bs"
  by (induction bs rule: v6_words.induct) auto


definition v6_text :: "nat list \<Rightarrow> string" where
  "v6_text gs = (let (s, e) = zero_run gs in if s = 255 then hex_groups gs else hex_groups (take s gs) @ ''::'' @ hex_groups (drop e gs))"

lemma IP_String_v6: "To4 ip = None \<Longrightarrow> IP_String ip = v6_text (v6_words ip)"
  by (simp add: IP_String_def v6_text_def hex_groups_def Let_def split: prod.splits)

lemma take2_hex: "hex_value (hd s) \<noteq> None \<Longrightarrow> take 2 s \<noteq> ''::''"
  by (cases s) auto

lemma v6_text_parsed:
  assumes gs: "length gs = 8" "\<forall>g \<in> set gs. g < 65536"
  shows "parseIPv6 (v6_text gs) = Some (group_bytes gs)"
proof -
  obtain s e where r: "zero_run gs = (s, e)" by fastforce
  have ne: "gs \<noteq> []" using gs(1) by auto
  show ?thesis
  proof (cases "s = 255")
    case True
    then have t: "v6_text gs = hex_groups gs" by (simp add: v6_text_def r)
    have "v6_groups 8 [] None (hex_groups gs) = Some (group_bytes gs, None)"
      using v6_groups_hex [OF ne, of 8 "[]" None] gs by simp
    then show ?thesis using take2_hex [OF hd_hex_groups(1) [OF ne]] gs(1) by (simp add: parseIPv6_def Let_def t)
  next
    case False
    then have z: "s < e" "e \<le> 8" "drop s (take e gs) = replicate (e - s) 0"
      using zero_run_range [OF gs(1)] gs(1) by (simp_all add: r zero_range_def)
    let ?a = "take s gs" and ?b = "drop e gs"
    have "take e gs = ?a @ replicate (e - s) 0"
      using z(3) append_take_drop_id [of s "take e gs"] z(1) by (simp add: min_def)
    then have split: "gs = ?a @ replicate (e - s) 0 @ ?b" by (metis append.assoc append_take_drop_id)
    have t: "v6_text gs = hex_groups ?a @ ''::'' @ hex_groups ?b" using False by (simp add: v6_text_def r)
    have b: "\<forall>g \<in> set ?a \<union> set ?b. g < 65536" using gs(2) by (auto dest: in_set_takeD in_set_dropD)
    have la: "length ?a = s" "length ?b = 8 - e" using z gs(1) by simp_all
    have bytes: "group_bytes gs = group_bytes ?a @ replicate (2 * (e - s)) 0 @ group_bytes ?b"
      by (subst split) simp
    have n: "16 - (2 * s + 2 * (8 - e)) = 2 * (e - s)" using z by simp
    show ?thesis
    proof (cases "?a = []")
      case True
      then have s: "s = 0" using ne by simp
      show ?thesis
      proof (cases "?b = []")
        case True
        then have "e = 8" using la z by simp
        then show ?thesis using s gs(1) by (simp add: parseIPv6_def t bytes)
      next
        case False
        have "v6_groups 8 [] (Some 0) (hex_groups ?b) = Some (group_bytes ?b, Some 0)"
          using v6_groups_hex [OF False, of 8 "[]" "Some 0"] b la by simp
        then show ?thesis using n s z la bytes hd_hex_groups(2) [OF False] by (simp add: parseIPv6_def t)
      qed
    next
      case False
      have "v6_groups 8 [] None (hex_groups ?a @ ''::'' @ hex_groups ?b) =
          Some (group_bytes ?a @ group_bytes ?b, Some (2 * s))"
        using v6_groups_ellipsis [OF False _ b, of 8 "[]"] la z by simp
      moreover have "take 2 (v6_text gs) \<noteq> ''::''"
        using hd_hex_groups [OF False] by (intro take2_hex) (simp add: t hd_append)
      moreover have "2 * s + 2 * (8 - e) < 16" using z(1,2) by simp
      ultimately show ?thesis unfolding bytes t parseIPv6_def using n la by (simp add: Let_def)
    qed
  qed
qed

lemma dropWhile_stop: "\<forall>c \<in> set a. P c \<Longrightarrow> \<not> P c \<Longrightarrow> dropWhile P (a @ c # b) = c # b"
  by (induction a) auto

lemma hex_groups_marks: "c \<in> set (hex_groups gs) \<Longrightarrow> c = CHR '':'' \<or> hex_value c \<noteq> None"
  using hex_string_chars by (induction gs) (auto simp: hex_groups_Cons list_all_iff split: if_splits)

lemma v6_text_colon: "length gs = 8 \<Longrightarrow> \<exists>a b. v6_text gs = a @ CHR '':'' # b \<and> (\<forall>c \<in> set a. hex_value c \<noteq> None)"
proof -
  assume gs: "length gs = 8"
  have "CHR '':'' \<in> set (v6_text gs)"
  proof (cases "zero_run gs")
    case (Pair s e)
    obtain g h hs where "gs = g # h # hs" using gs by (cases gs; cases "tl gs") auto
    then show ?thesis using Pair by (simp add: v6_text_def hex_groups_Cons)
  qed
  then obtain a b where ab: "v6_text gs = a @ CHR '':'' # b" "CHR '':'' \<notin> set a" by (meson split_list_first)
  have marks: "c = CHR '':'' \<or> hex_value c \<noteq> None" if "c \<in> set (v6_text gs)" for c
  proof (cases "zero_run gs")
    case (Pair s e)
    have "c = CHR '':'' \<or> (\<exists>hs. c \<in> set (hex_groups hs))"
      using that unfolding v6_text_def Pair by (auto split: if_splits)
    then show ?thesis using hex_groups_marks by blast
  qed
  have "hex_value c \<noteq> None" if "c \<in> set a" for c
    using marks [of c] that ab by (metis Un_iff set_append)
  then show ?thesis using ab(1) by blast
qed

lemma hex_value_marks: "hex_value c \<noteq> None \<Longrightarrow> c \<noteq> CHR ''.'' \<and> c \<noteq> CHR '':'' \<and> c \<noteq> CHR ''%''"
  by (auto simp: hex_value_def is_digit_def split: if_splits)

definition ip_bytes :: "nat list \<Rightarrow> bool" where
  "ip_bytes ip \<longleftrightarrow> length ip = 16 \<and> (\<forall>b \<in> set ip. b < 256)"

lemma ParseIP_IP_String: "ip_bytes ip \<Longrightarrow> ParseIP (IP_String ip) = Some ip"
proof -
  assume ip: "ip_bytes ip"
  show ?thesis
  proof (cases "To4 ip")
    case None
    note w = v6_words_bytes [of ip]
    have "length (v6_words ip) = 8" "\<forall>g \<in> set (v6_words ip). g < 65536" "group_bytes (v6_words ip) = ip"
      using w ip by (auto simp: ip_bytes_def)
    moreover from this(1) obtain a b where "v6_text (v6_words ip) = a @ CHR '':'' # b" "\<forall>c \<in> set a. hex_value c \<noteq> None"
      using v6_text_colon by blast
    ultimately show ?thesis using v6_text_parsed [of "v6_words ip"] IP_String_v6 [OF None]
      by (simp add: ParseIP_def dropWhile_stop hex_value_marks del: not_None_eq)
  next
    case (Some bs)
    then have bs: "bs = drop 12 ip" "ip = v4_mapped_prefix @ bs"
      by (auto simp: To4_def split: if_splits) (metis append_take_drop_id)
    have l: "length bs = 4" "\<forall>b \<in> set bs. b < 256"
      using ip unfolding bs(1) ip_bytes_def by (auto dest: in_set_dropD)
    then obtain b cs where c: "bs = b # cs" "cs \<noteq> []" by (cases bs; cases "tl bs") auto
    have "IP_String ip = Itoa b @ CHR ''.'' # Join (map Itoa cs) ''.''"
      using Some c by (simp add: IP_String_def Join_Cons)
    moreover have "\<forall>d \<in> set (Itoa b). d \<noteq> CHR ''.'' \<and> d \<noteq> CHR '':'' \<and> d \<noteq> CHR ''%''"
      using Itoa_digits [of b] by (auto simp: list_all_iff is_digit_def)
    moreover have "parseIPv4 (IP_String ip) = Some bs" using parseIPv4_Join [OF l] Some by (simp add: IP_String_def)
    ultimately show ?thesis using bs(2) by (simp add: ParseIP_def dropWhile_stop)
  qed
qed


lemma all_some_Some: "all_some xs = Some ys \<longleftrightarrow> xs = map Some ys"
  by (induction xs arbitrary: ys rule: all_some.induct) (auto simp: Cons_eq_map_conv)

lemma parseIPv4_bytes: "parseIPv4 s = Some bs \<Longrightarrow> length bs = 4 \<and> (\<forall>b \<in> set bs. b < 256)"
proof -
  assume p: "parseIPv4 s = Some bs"
  then have m: "map parse_octet (Split s (CHR ''.'')) = map Some bs" "length (Split s (CHR ''.'')) = 4"
    by (auto simp: parseIPv4_def Let_def all_some_Some split: if_splits)
  have "b < 256" if "b \<in> set bs" for b
  proof -
    have "Some b \<in> set (map parse_octet (Split s (CHR ''.'')))" using that m(1) by simp
    then show ?thesis by (auto simp: parse_octet_def split: if_splits option.splits)
  qed
  then show ?thesis using m by (metis length_map)
qed

lemma hex_acc_less: "hex_acc s < 16 ^ length s"
proof (induction s rule: rev_induct)
  case (snoc c s)
  have "(case hex_value c of None \<Rightarrow> 0 | Some d \<Rightarrow> d) < 16" by (auto simp: hex_value_def is_digit_def)
  then show ?case using snoc by simp
qed simp

text \<open>The parser never writes past the sixteen bytes, and the ellipsis stays inside what was read.\<close>

lemma v6_groups_bytes:
  "v6_groups n acc ell s = Some (bs, e') \<Longrightarrow> length acc + 2 * n \<le> 16 \<Longrightarrow> \<forall>b \<in> set acc. b < 256 \<Longrightarrow>
    (\<forall>e. ell = Some e \<longrightarrow> e \<le> length acc) \<Longrightarrow>
    length bs \<le> 16 \<and> (\<forall>b \<in> set bs. b < 256) \<and> (\<forall>e. e' = Some e \<longrightarrow> e \<le> length bs)"
proof (induction n arbitrary: acc ell s)
  case (Suc n)
  let ?d = "takeWhile (\<lambda>c. hex_value c \<noteq> None) s" and ?r = "dropWhile (\<lambda>c. hex_value c \<noteq> None) s"
  define A where "A = acc @ [hex_acc ?d div 256, hex_acc ?d mod 256]"
  have d: "length ?d \<le> 4" "?d \<noteq> []" using Suc.prems(1) by (auto simp: v6_groups.simps(2) Let_def split: if_splits)
  have "hex_acc ?d < 16 ^ 4" using less_le_trans [OF hex_acc_less [of ?d] power_increasing [OF d(1), of "16 :: nat"]] by simp
  then have h: "hex_acc ?d div 256 < 256" by (simp add: less_mult_imp_div_less)
  have acc: "length A + 2 * n \<le> 16" "\<forall>b \<in> set A. b < 256" using Suc.prems(2,3) h by (simp_all add: A_def)
  have len: "length A = length acc + 2" by (simp add: A_def)
  have ell: "\<forall>e. ell = Some e \<longrightarrow> e \<le> length A" using Suc.prems(4) by (auto simp: len)
  note IH = Suc.IH [OF _ acc]
  show ?case
  proof (cases "?r \<noteq> [] \<and> hd ?r = CHR ''.''")
    case True
    with Suc.prems(1) d obtain q where "parseIPv4 s = Some q" "bs = acc @ q" "e' = ell" "length acc + 4 \<le> 16"
      by (auto simp: v6_groups.simps(2) Let_def split: if_splits option.splits)
    then show ?thesis using parseIPv4_bytes [of s q] Suc.prems(3,4) by fastforce
  next
    case False
    show ?thesis
    proof (cases ?r)
      case Nil
      have "bs = A" "e' = ell" using Suc.prems(1) d unfolding v6_groups.simps(2) Let_def Nil A_def
        by (simp_all split: if_splits del: not_None_eq)
      then show ?thesis using acc len ell by simp
    next
      case (Cons c rest)
      have "(if rest = [] then None else if hd rest = CHR '':'' then
          (if ell \<noteq> None then None else if tl rest = [] then Some (A, Some (length A))
           else v6_groups n A (Some (length A)) (tl rest)) else v6_groups n A ell rest) = Some (bs, e')"
        using Suc.prems(1) d False unfolding v6_groups.simps(2) Let_def Cons A_def
        by (cases ell) (simp_all split: if_splits del: not_None_eq hex_acc.simps)
      then consider "rest \<noteq> []" "hd rest = CHR '':''" "ell = None" "tl rest = []" "bs = A" "e' = Some (length A)"
        | "v6_groups n A (Some (length A)) (tl rest) = Some (bs, e')"
        | "v6_groups n A ell rest = Some (bs, e')"
        by (cases "rest = []"; cases "hd rest = CHR '':''"; cases "ell = None"; cases "tl rest = []") simp_all
      then show ?thesis
      proof cases
        case 1
        then show ?thesis using acc len by simp
      next
        case 2
        then show ?thesis using IH [OF 2] by simp
      next
        case 3
        show ?thesis using IH [OF 3] len ell by simp
      qed
    qed
  qed
qed (auto split: if_splits)

lemma ParseIP_bytes: "ParseIP s = Some ip \<Longrightarrow> ip_bytes ip"
proof -
  assume p: "ParseIP s = Some ip"
  consider bs where "parseIPv4 s = Some bs" "ip = v4_mapped_prefix @ bs" | "parseIPv6 s = Some ip"
    using p by (auto simp: ParseIP_def split: list.splits if_splits)
  then show ?thesis
  proof cases
    case 1
    then show ?thesis using parseIPv4_bytes [of s bs] by (auto simp: ip_bytes_def v4_mapped_prefix_def)
  next
    case 2
    let ?body = "if take 2 s = ''::'' then drop 2 s else s" and ?ell = "if take 2 s = ''::'' then Some 0 else None"
    show ?thesis
    proof (cases "v6_groups 8 [] ?ell ?body")
      case (Some r)
      obtain bs ell where r: "r = (bs, ell)" by fastforce
      have b: "length bs \<le> 16" "\<forall>b \<in> set bs. b < 256" "\<forall>e. ell = Some e \<longrightarrow> e \<le> length bs"
        using v6_groups_bytes [of 8 "[]" ?ell ?body bs ell] Some r by auto
      consider "ip = replicate 16 0" | "ip = bs" "length bs = 16"
        | e where "ell = Some e" "ip = take e bs @ replicate (16 - length bs) 0 @ drop e bs" "length bs < 16"
        using 2 Some r b(1) unfolding parseIPv6_def Let_def by (auto split: if_splits option.splits)
      then show ?thesis
      proof cases
        case 3
        then have "e \<le> length bs" using b(3) by simp
        then show ?thesis using 3 b(1,2) by (auto simp: ip_bytes_def dest: in_set_takeD in_set_dropD)
      qed (use b(2) in \<open>auto simp: ip_bytes_def\<close>)
    next
      case None
      then have "ip = replicate 16 0" using 2 unfolding parseIPv6_def Let_def by (auto split: if_splits)
      then show ?thesis by (simp add: ip_bytes_def)
    qed
  qed
qed

lemma IP_String_neq_Nil: "ip_bytes ip \<Longrightarrow> IP_String ip \<noteq> []"
  using ParseIP_IP_String [of ip] by (auto simp: ParseIP_def)

end
