(* ===== verification/ProviderInstance.thy ===== *)
theory ProviderInstance
  imports DnsRecord Matcher NetIP
begin

text \<open>
  \<^verbatim>\<open>pkg/provider/instance.go\<close>: a provider with its domain matcher and record defaults, the
  operations the reconciler performs through it, and the validation of its configuration.
  Every operation takes the world of the backends and returns the new one; the Prometheus
  counters each call bumps are left out. The field \<open>pi_ptr\<close> is the address of the Go object
  (\<^verbatim>\<open>*ProviderInstance\<close>), which \<^verbatim>\<open>Registry.Remove\<close> compares.
\<close>

definition isIPAddress :: "string \<Rightarrow> bool" where
  "isIPAddress s \<longleftrightarrow> ParseIP s \<noteq> None"

definition isIPv4Address :: "string \<Rightarrow> bool" where
  "isIPv4Address s \<longleftrightarrow> (case ParseIP s of None \<Rightarrow> False | Some ip \<Rightarrow> To4 ip \<noteq> None)"

definition isIPv6Address :: "string \<Rightarrow> bool" where
  "isIPv6Address s \<longleftrightarrow> (case ParseIP s of None \<Rightarrow> False | Some ip \<Rightarrow> To4 ip = None)"

record 'w ProviderInstance =
  pi_ptr :: nat
  pi_Provider :: "'w Provider"
  pi_Matcher :: DomainMatcher
  pi_RecordType :: RecordType
  pi_Target :: string
  pi_dynamicTarget :: "string option"
  pi_TTL :: int
  pi_Mode :: OperationalMode
  pi_InstanceID :: string
  pi_MetadataFilters :: "(string, string list) gomap"
  pi_Identity :: ProviderIdentity

definition Name :: "'w ProviderInstance \<Rightarrow> string" where
  "Name inst = p_Name (pi_Provider inst)"

definition EffectiveTarget :: "'w ProviderInstance \<Rightarrow> string" where
  "EffectiveTarget inst =
     (case pi_dynamicTarget inst of Some v \<Rightarrow> v | None \<Rightarrow> pi_Target inst)"

definition SetDynamicTarget :: "string \<Rightarrow> 'w ProviderInstance \<Rightarrow> 'w ProviderInstance" where
  "SetDynamicTarget target inst =
     (if target = [] then inst\<lparr>pi_dynamicTarget := None\<rparr>
      else inst\<lparr>pi_dynamicTarget := Some target\<rparr>)"

definition Type :: "'w ProviderInstance \<Rightarrow> string" where
  "Type inst = p_Type (pi_Provider inst)"

definition inst_Matches :: "'w ProviderInstance \<Rightarrow> string \<Rightarrow> bool" where
  "inst_Matches inst hostname = Matches (pi_Matcher inst) hostname"

definition sliceContainsString :: "string list \<Rightarrow> string \<Rightarrow> bool" where
  "sliceContainsString haystack needle = list_ex (\<lambda>s. s = needle) haystack"

definition matchesMetadataFilters :: "metadata \<Rightarrow> (string, string list) gomap \<Rightarrow> bool" where
  "matchesMetadataFilters m filters =
     (if filters = [] then True
      else list_all (\<lambda>(key, allowed).
             case map_of m key of None \<Rightarrow> True | Some v \<Rightarrow> sliceContainsString allowed v) filters)"

definition MatchesWithMetadata :: "'w ProviderInstance \<Rightarrow> string \<Rightarrow> metadata \<Rightarrow> bool" where
  "MatchesWithMetadata inst hostname m =
     (if \<not> Matches (pi_Matcher inst) hostname then False
      else matchesMetadataFilters m (pi_MetadataFilters inst))"

subsection \<open>Operations on records\<close>

definition CreateRecordWithValues ::
  "'w ProviderInstance \<Rightarrow> string \<Rightarrow> RecordType \<Rightarrow> string \<Rightarrow> int \<Rightarrow> SRVData option \<Rightarrow> metadata \<Rightarrow>
   'w \<Rightarrow> err option \<times> 'w" where
  "CreateRecordWithValues inst hostname recordType target ttl srvData m w =
     p_Create (pi_Provider inst)
       ((record_literal hostname recordType target)
          \<lparr>r_TTL := ttl, r_SRV := srvData, r_Metadata := m\<rparr>) w"

definition CreateRecord :: "'w ProviderInstance \<Rightarrow> string \<Rightarrow> 'w \<Rightarrow> err option \<times> 'w" where
  "CreateRecord inst hostname w =
     CreateRecordWithValues inst hostname (pi_RecordType inst) (EffectiveTarget inst)
       (pi_TTL inst) None [] w"

definition DeleteRecord :: "'w ProviderInstance \<Rightarrow> string \<Rightarrow> 'w \<Rightarrow> err option \<times> 'w" where
  "DeleteRecord inst hostname w =
     p_Delete (pi_Provider inst)
       (record_literal hostname (pi_RecordType inst) (EffectiveTarget inst)) w"

definition UpdateRecord :: "'w ProviderInstance \<Rightarrow> Record \<Rightarrow> Record \<Rightarrow> 'w \<Rightarrow> err option \<times> 'w" where
  "UpdateRecord inst existing desired w =
     (case p_Update (pi_Provider inst) of
        Some update \<Rightarrow> update existing desired w
      | None \<Rightarrow>
          (case p_Delete (pi_Provider inst) existing w of
             (Some e, w') \<Rightarrow>
               if \<not> errors_Is e ErrNotFound then (Some e, w')
               else p_Create (pi_Provider inst) desired w'
           | (None, w') \<Rightarrow> p_Create (pi_Provider inst) desired w'))"

definition is_data_type :: "RecordType \<Rightarrow> bool" where
  "is_data_type t \<longleftrightarrow>
     t \<in> {RecordTypeA, RecordTypeAAAA, RecordTypeCNAME, RecordTypeSRV, RecordTypeHTTPS}"

definition GetExistingRecords :: "'w ProviderInstance \<Rightarrow> string \<Rightarrow> 'w \<Rightarrow> (err + Record list) \<times> 'w" where
  "GetExistingRecords inst hostname w =
     (case p_List (pi_Provider inst) w of
        (Inl e, w') \<Rightarrow> (Inl e, w')
      | (Inr allRecords, w') \<Rightarrow>
          (Inr (filter (\<lambda>r. EqualFold (r_Hostname r) hostname \<and> is_data_type (r_Type r)) allRecords),
           w'))"

definition DeleteRecordByTarget ::
  "'w ProviderInstance \<Rightarrow> string \<Rightarrow> RecordType \<Rightarrow> string \<Rightarrow> 'w \<Rightarrow> err option \<times> 'w" where
  "DeleteRecordByTarget inst hostname recordType target w =
     p_Delete (pi_Provider inst) (record_literal hostname recordType target) w"

definition DeleteSRVRecord ::
  "'w ProviderInstance \<Rightarrow> string \<Rightarrow> string \<Rightarrow> SRVData option \<Rightarrow> 'w \<Rightarrow> err option \<times> 'w" where
  "DeleteSRVRecord inst hostname target srvData w =
     p_Delete (pi_Provider inst)
       ((record_literal hostname RecordTypeSRV target)\<lparr>r_SRV := srvData\<rparr>) w"

definition CreateOwnershipRecord ::
  "'w ProviderInstance \<Rightarrow> string \<Rightarrow> metadata \<Rightarrow> 'w \<Rightarrow> err option \<times> 'w" where
  "CreateOwnershipRecord inst hostname m w =
     (case p_Create (pi_Provider inst)
             (OwnershipRecord hostname (pi_TTL inst) (pi_InstanceID inst) m) w of
        (Some e, w') \<Rightarrow> if IsConflict e then (None, w') else (Some e, w')
      | (None, w') \<Rightarrow> (None, w'))"

definition DeleteOwnershipRecord :: "'w ProviderInstance \<Rightarrow> string \<Rightarrow> 'w \<Rightarrow> err option \<times> 'w" where
  "DeleteOwnershipRecord inst hostname w =
     p_Delete (pi_Provider inst)
       (OwnershipRecord hostname (pi_TTL inst) (pi_InstanceID inst) []) w"

definition HasOwnershipRecord :: "'w ProviderInstance \<Rightarrow> string \<Rightarrow> 'w \<Rightarrow> (err + bool) \<times> 'w" where
  "HasOwnershipRecord inst hostname w =
     (let ownershipName = OwnershipRecordName hostname in
      case p_List (pi_Provider inst) w of
        (Inl e, w') \<Rightarrow> (Inl e, w')
      | (Inr records, w') \<Rightarrow>
          (Inr (list_ex (\<lambda>r. r_Hostname r = ownershipName \<and> r_Type r = RecordTypeTXT
                   \<and> MatchesOwnership (r_Target r) (pi_InstanceID inst)) records), w'))"

record RecoveredHostname =
  rec_Hostname :: string
  rec_Metadata :: metadata

fun recover_from :: "string \<Rightarrow> Record list \<Rightarrow> RecoveredHostname list" where
  "recover_from iid [] = []"
| "recover_from iid (r # rs) =
     (if r_Type r = RecordTypeTXT \<and> IsOwnershipRecord (r_Hostname r) then
        (case ParseOwnershipValue (r_Target r) of
           (isOwned, _, m) \<Rightarrow>
             if \<not> isOwned then recover_from iid rs
             else if \<not> MatchesOwnership (r_Target r) iid then recover_from iid rs
             else let hostname = ExtractHostnameFromOwnership (r_Hostname r) in
               if hostname \<noteq> []
               then \<lparr>rec_Hostname = hostname, rec_Metadata = m\<rparr> # recover_from iid rs
               else recover_from iid rs)
      else recover_from iid rs)"

definition RecoverOwnedHostnames ::
  "'w ProviderInstance \<Rightarrow> 'w \<Rightarrow> (err + RecoveredHostname list) \<times> 'w" where
  "RecoverOwnedHostnames inst w =
     (case p_List (pi_Provider inst) w of
        (Inl e, w') \<Rightarrow> (Inl e, w')
      | (Inr records, w') \<Rightarrow> (Inr (recover_from (pi_InstanceID inst) records), w'))"

definition Ping :: "'w ProviderInstance \<Rightarrow> 'w \<Rightarrow> err option \<times> 'w" where
  "Ping inst w = p_Ping (pi_Provider inst) w"

subsection \<open>Configuration of an instance\<close>

record ProviderInstanceConfig =
  cfg_Name :: string
  cfg_TypeName :: string
  cfg_RecordType :: RecordType
  cfg_Target :: string
  cfg_TTL :: int
  cfg_Mode :: OperationalMode
  cfg_Domains :: "string list"
  cfg_ExcludeDomains :: "string list"
  cfg_DomainsRegex :: "string list"
  cfg_ExcludeDomainsRegex :: "string list"
  cfg_MetadataFilters :: "(string, string list) gomap"
  cfg_ProviderConfig :: "(string, string) gomap"

definition cfg_Validate :: "ProviderInstanceConfig \<Rightarrow> err option" where
  "cfg_Validate c =
     (if cfg_Name c = [] then Some (ErrConfigMissing ''name'')
      else if cfg_TypeName c = [] then Some (ErrConfigMissing ''type'')
      else if cfg_RecordType c \<noteq> RecordTypeA \<and> cfg_RecordType c \<noteq> RecordTypeAAAA
              \<and> cfg_RecordType c \<noteq> RecordTypeCNAME
        then Some (ErrConfigInvalid ''record_type'' (cfg_RecordType c) ''must be A, AAAA, or CNAME'')
      else if cfg_Target c = [] then Some (ErrConfigMissing ''target'')
      else if cfg_RecordType c = RecordTypeCNAME \<and> isIPAddress (cfg_Target c)
        then Some (ErrConfigInvalid ''target'' (cfg_Target c)
          ''CNAME records cannot point to IP addresses; use record_type=A or AAAA for IP targets'')
      else if cfg_RecordType c = RecordTypeA \<and> \<not> isIPv4Address (cfg_Target c)
        then Some (ErrConfigInvalid ''target'' (cfg_Target c)
          ''A records must point to IPv4 addresses; use record_type=AAAA for IPv6 or CNAME for hostnames'')
      else if cfg_RecordType c = RecordTypeAAAA \<and> \<not> isIPv6Address (cfg_Target c)
        then Some (ErrConfigInvalid ''target'' (cfg_Target c)
          ''AAAA records must point to IPv6 addresses; use record_type=A for IPv4 or CNAME for hostnames'')
      else if cfg_TTL c < 1 then Some (ErrConfigInvalid ''ttl'' [] ''must be at least 1'')
      else let hasGlob = cfg_Domains c \<noteq> []; hasRegex = cfg_DomainsRegex c \<noteq> [] in
      if \<not> hasGlob \<and> \<not> hasRegex then Some (ErrConfigMissing ''domains (or domains_regex)'')
      else if hasGlob \<and> hasRegex
        then Some (ErrConfigInvalid ''domains'' [] ''cannot specify both DOMAINS and DOMAINS_REGEX'')
      else None)"

definition cfg_UseRegex :: "ProviderInstanceConfig \<Rightarrow> bool" where
  "cfg_UseRegex c \<longleftrightarrow> cfg_DomainsRegex c \<noteq> []"

definition GetIncludes :: "ProviderInstanceConfig \<Rightarrow> string list" where
  "GetIncludes c = (if cfg_UseRegex c then cfg_DomainsRegex c else cfg_Domains c)"

definition GetExcludes :: "ProviderInstanceConfig \<Rightarrow> string list" where
  "GetExcludes c = (if cfg_UseRegex c then cfg_ExcludeDomainsRegex c else cfg_ExcludeDomains c)"

text \<open>A valid configuration has a matcher and a target that fits its record type.\<close>

lemma cfg_Validate_None:
  assumes "cfg_Validate c = None"
  shows "cfg_Name c \<noteq> []" "cfg_TypeName c \<noteq> []" "cfg_TTL c \<ge> 1" "GetIncludes c \<noteq> []"
    and "cfg_RecordType c = RecordTypeA \<and> isIPv4Address (cfg_Target c) \<or>
         cfg_RecordType c = RecordTypeAAAA \<and> isIPv6Address (cfg_Target c) \<or>
         cfg_RecordType c = RecordTypeCNAME \<and> \<not> isIPAddress (cfg_Target c) \<and> cfg_Target c \<noteq> []"
  using assms
  by (auto simp: cfg_Validate_def Let_def GetIncludes_def cfg_UseRegex_def split: if_splits)

lemma isIPAddress_cases:
  "isIPAddress s \<longleftrightarrow> isIPv4Address s \<or> isIPv6Address s" "\<not> (isIPv4Address s \<and> isIPv6Address s)"
  by (auto simp: isIPAddress_def isIPv4Address_def isIPv6Address_def split: option.splits)

subsection \<open>Calls and preorders on the world\<close>

text \<open>
  What an operation may do to the world is described by the provider calls it makes. A
  \<open>world_order\<close> is a relation between an earlier and a later world that is kept by doing
  nothing and by one thing after another; an operation respects it when every call it may
  make does. Equality gives \<open>changes nothing\<close>; the section on stores gives \<open>keeps every record
  outside a set of names\<close>.
\<close>

datatype call = CList | CPing | CCreate Record | CDelete Record | CUpdate Record Record

fun exec :: "'w Provider \<Rightarrow> call \<Rightarrow> 'w \<Rightarrow> 'w" where
  "exec P CList w = snd (p_List P w)"
| "exec P CPing w = snd (p_Ping P w)"
| "exec P (CCreate r) w = snd (p_Create P r w)"
| "exec P (CDelete r) w = snd (p_Delete P r w)"
| "exec P (CUpdate a b) w = (case p_Update P of None \<Rightarrow> w | Some u \<Rightarrow> snd (u a b w))"

text \<open>The normalized names a call reads or writes; listing and pinging name no record.\<close>

fun call_names :: "call \<Rightarrow> string set" where
  "call_names CList = {}"
| "call_names CPing = {}"
| "call_names (CCreate r) = {NormalizeHostname (r_Hostname r)}"
| "call_names (CDelete r) = {NormalizeHostname (r_Hostname r)}"
| "call_names (CUpdate a b) = {NormalizeHostname (r_Hostname a), NormalizeHostname (r_Hostname b)}"

text \<open>The normalized names of a hostname and of its ownership record.\<close>

definition own_names :: "string \<Rightarrow> string set" where
  "own_names h = {NormalizeHostname h, NormalizeHostname (OwnershipRecordName h)}"

text \<open>The calls of an update: native, or a delete and a create.\<close>

definition update_calls :: "'w Provider \<Rightarrow> Record \<Rightarrow> Record \<Rightarrow> call set" where
  "update_calls P a b = (case p_Update P of None \<Rightarrow> {CDelete a, CCreate b} | Some _ \<Rightarrow> {CUpdate a b})"

locale world_order =
  fixes R :: "'w \<Rightarrow> 'w \<Rightarrow> bool"
  assumes R_refl: "R w w"
    and R_trans: "R u v \<Longrightarrow> R v w \<Longrightarrow> R u w"
begin

definition safe :: "'w Provider \<Rightarrow> call \<Rightarrow> bool" where
  "safe P c \<longleftrightarrow> (\<forall>w. R w (exec P c w))"

lemma safeD: "safe P c \<Longrightarrow> R w (exec P c w)"
  by (simp add: safe_def)

definition safe_on :: "'w Provider \<Rightarrow> string set \<Rightarrow> bool" where
  "safe_on P N \<longleftrightarrow> (\<forall>c. call_names c \<subseteq> N \<longrightarrow> safe P c)"

lemma safe_on_List: "safe_on P N \<Longrightarrow> safe P CList"
  by (simp add: safe_on_def)

lemma safe_on_Create: "safe_on P N \<Longrightarrow> NormalizeHostname (r_Hostname r) \<in> N \<Longrightarrow> safe P (CCreate r)"
  by (simp add: safe_on_def)

lemma safe_on_Delete: "safe_on P N \<Longrightarrow> NormalizeHostname (r_Hostname r) \<in> N \<Longrightarrow> safe P (CDelete r)"
  by (simp add: safe_on_def)

lemma safe_on_update_calls:
  "safe_on P N \<Longrightarrow> NormalizeHostname (r_Hostname a) \<in> N \<Longrightarrow> NormalizeHostname (r_Hostname b) \<in> N \<Longrightarrow>
    c \<in> update_calls P a b \<Longrightarrow> safe P c"
  by (auto simp: safe_on_def update_calls_def split: option.splits)

lemma safe_on_mono: "safe_on P N \<Longrightarrow> M \<subseteq> N \<Longrightarrow> safe_on P M"
  by (auto simp: safe_on_def)

lemma R_List: "safe P CList \<Longrightarrow> p_List P w = (x, w') \<Longrightarrow> R w w'"
  using safeD [of P CList w] by simp

lemma R_Ping: "safe P CPing \<Longrightarrow> p_Ping P w = (x, w') \<Longrightarrow> R w w'"
  using safeD [of P CPing w] by simp

lemma R_Create: "safe P (CCreate r) \<Longrightarrow> p_Create P r w = (x, w') \<Longrightarrow> R w w'"
  using safeD [of P "CCreate r" w] by simp

lemma R_Delete: "safe P (CDelete r) \<Longrightarrow> p_Delete P r w = (x, w') \<Longrightarrow> R w w'"
  using safeD [of P "CDelete r" w] by simp

lemma R_Update: "safe P (CUpdate a b) \<Longrightarrow> p_Update P = Some u \<Longrightarrow> u a b w = (x, w') \<Longrightarrow> R w w'"
  using safeD [of P "CUpdate a b" w] by simp

lemma R_UpdateRecord:
  assumes "\<forall>c \<in> update_calls (pi_Provider inst) a b. safe (pi_Provider inst) c"
    and "UpdateRecord inst a b w = (x, w')"
  shows "R w w'"
proof (cases "p_Update (pi_Provider inst)")
  case None
  obtain e w1 where d: "p_Delete (pi_Provider inst) a w = (e, w1)" by fastforce
  have "R w w1" using assms(1) None d by (auto simp: update_calls_def intro: R_Delete)
  moreover have "R w1 w'" if "p_Create (pi_Provider inst) b w1 = (x, w')"
    using assms(1) None that by (auto simp: update_calls_def intro: R_Create)
  ultimately show ?thesis
    using assms(2) None d R_trans
    by (auto simp: UpdateRecord_def split: option.splits if_splits)
next
  case (Some u)
  then show ?thesis using assms by (auto simp: UpdateRecord_def update_calls_def intro: R_Update)
qed

text \<open>The write operations of an instance on the names it is given.\<close>

lemma R_DeleteRecord_on:
  assumes "safe_on (pi_Provider inst) N" and "NormalizeHostname h \<in> N"
  shows "R w (snd (DeleteSRVRecord inst h t s w))" "R w (snd (DeleteRecordByTarget inst h rt t w))"
    "R w (snd (DeleteRecord inst h w))"
proof -
  have "R w (snd (p_Delete (pi_Provider inst) x w))" if "r_Hostname x = h" for x
    using safeD [OF safe_on_Delete [OF assms(1)], of x w] assms(2) that by simp
  then show "R w (snd (DeleteSRVRecord inst h t s w))" "R w (snd (DeleteRecordByTarget inst h rt t w))"
    "R w (snd (DeleteRecord inst h w))"
    by (simp_all add: DeleteSRVRecord_def DeleteRecordByTarget_def DeleteRecord_def)
qed

lemma R_CreateRecordWithValues_on:
  assumes "safe_on (pi_Provider inst) N" and "NormalizeHostname h \<in> N"
  shows "R w (snd (CreateRecordWithValues inst h rt t ttl s m w))"
  using safeD [OF safe_on_Create [OF assms(1)]] assms(2) by (simp add: CreateRecordWithValues_def)

lemma R_DeleteOwnershipRecord_on:
  assumes "safe_on (pi_Provider inst) N" and "NormalizeHostname (OwnershipRecordName h) \<in> N"
  shows "R w (snd (DeleteOwnershipRecord inst h w))"
  using safeD [OF safe_on_Delete [OF assms(1)]] assms(2)
  by (simp add: DeleteOwnershipRecord_def OwnershipRecord_def)

lemma R_GetExistingRecords:
  "safe (pi_Provider inst) CList \<Longrightarrow> GetExistingRecords inst h w = (x, w') \<Longrightarrow> R w w'"
  by (auto simp: GetExistingRecords_def split: prod.splits sum.splits intro: R_List)

lemma R_HasOwnershipRecord:
  "safe (pi_Provider inst) CList \<Longrightarrow> HasOwnershipRecord inst h w = (x, w') \<Longrightarrow> R w w'"
  by (auto simp: HasOwnershipRecord_def Let_def split: prod.splits sum.splits intro: R_List)

lemma R_RecoverOwnedHostnames:
  "safe (pi_Provider inst) CList \<Longrightarrow> RecoverOwnedHostnames inst w = (x, w') \<Longrightarrow> R w w'"
  by (auto simp: RecoverOwnedHostnames_def split: prod.splits sum.splits intro: R_List)

lemma R_CreateOwnershipRecord:
  "safe (pi_Provider inst) (CCreate (OwnershipRecord h (pi_TTL inst) (pi_InstanceID inst) m)) \<Longrightarrow>
   CreateOwnershipRecord inst h m w = (x, w') \<Longrightarrow> R w w'"
  by (auto simp: CreateOwnershipRecord_def split: prod.splits option.splits if_splits intro: R_Create)

end

interpretation weq: world_order "(=)"
  by unfold_locales auto

text \<open>What a view of the world shows is unchanged.\<close>

interpretation view: world_order "\<lambda>w w'. f w = f w'" for f
  by unfold_locales auto

subsection \<open>Properties\<close>

text \<open>A configuration that passes validation has a name, a type, a positive TTL, exactly one of the
  two pattern styles, and a target of the family its record type needs.\<close>

lemma config_validation_sound:
  assumes "cfg_Validate c = None"
  shows "cfg_Name c \<noteq> [] \<and> cfg_TypeName c \<noteq> [] \<and> 1 \<le> cfg_TTL c \<and>
    ((cfg_Domains c = []) \<noteq> (cfg_DomainsRegex c = [])) \<and>
    (cfg_RecordType c = RecordTypeA \<and> isIPv4Address (cfg_Target c) \<or>
     cfg_RecordType c = RecordTypeAAAA \<and> isIPv6Address (cfg_Target c) \<or>
     cfg_RecordType c = RecordTypeCNAME \<and> \<not> isIPAddress (cfg_Target c) \<and> cfg_Target c \<noteq> [])"
  using cfg_Validate_None [OF assms] assms by (auto simp: cfg_Validate_def Let_def split: if_splits)

theorem config_validation_sound_witness:
  "isIPv4Address ''10.0.0.1'' \<and> \<not> isIPv4Address ''10.0.0.256'' \<and>
   cfg_Validate \<lparr>cfg_Name = ''p'', cfg_TypeName = ''dnsmasq'', cfg_RecordType = ''A'', cfg_Target = ''10.0.0.1'',
     cfg_TTL = 300, cfg_Mode = [], cfg_Domains = [''*.x''], cfg_ExcludeDomains = [], cfg_DomainsRegex = [],
     cfg_ExcludeDomainsRegex = [], cfg_MetadataFilters = [], cfg_ProviderConfig = []\<rparr> = None"
proof -
  let ?c = "\<lparr>cfg_Name = ''p'', cfg_TypeName = ''dnsmasq'', cfg_RecordType = ''A'', cfg_Target = ''10.0.0.1'',
     cfg_TTL = 300, cfg_Mode = [], cfg_Domains = [''*.x''], cfg_ExcludeDomains = [], cfg_DomainsRegex = [],
     cfg_ExcludeDomainsRegex = [], cfg_MetadataFilters = [], cfg_ProviderConfig = []\<rparr>"
  have v: "cfg_Validate ?c = None" by code_simp
  have n: "\<not> isIPv4Address ''10.0.0.256''" by code_simp
  show ?thesis using config_validation_sound [OF v] v n by (simp add: RecordType_defs)
qed

end
