(* ===== verification/ProviderRegistry.thy ===== *)
theory ProviderRegistry
  imports ProviderInstance
begin

text \<open>
  \<^verbatim>\<open>pkg/provider/registry.go\<close> and \<^verbatim>\<open>pkg/provider/tls.go\<close>, with the TLS settings of
  \<^verbatim>\<open>pkg/httputil/client.go\<close> a factory receives. Instances live in one list in priority order;
  \<^verbatim>\<open>byName\<close> maps a configured name to the address of its instance. Every method runs under
  the registry's lock, so each is one step. The invariant \<open>wf_registry\<close> says that the index and the
  list describe the same objects; it is kept by every operation. The names providers report
  are the configured ones when the factories pass the name on, which is the contract
  \<open>named_factories\<close>.
\<close>

subsection \<open>TLS settings\<close>

record TLSConfig =
  tls_CAFile :: string
  tls_CertFile :: string
  tls_KeyFile :: string
  tls_ServerName :: string
  tls_InsecureSkip :: bool
  tls_PinnedSHA256 :: string
  tls_MinVersion :: uint16

definition IsZero :: "TLSConfig \<Rightarrow> bool" where
  "IsZero t \<longleftrightarrow> tls_CAFile t = [] \<and> tls_CertFile t = [] \<and> tls_KeyFile t = [] \<and>
     tls_ServerName t = [] \<and> \<not> tls_InsecureSkip t \<and> tls_PinnedSHA256 t = [] \<and> tls_MinVersion t = 0"

definition VersionTLS12 :: uint16 where "VersionTLS12 = 0x0303"
definition VersionTLS13 :: uint16 where "VersionTLS13 = 0x0304"

definition ParseTLSMinVersion :: "string \<Rightarrow> err + uint16" where
  "ParseTLSMinVersion s0 =
     (let s = TrimPrefix (TrimPrefix (ToLower (TrimSpace s0)) ''tls'') ''v'' in
      if s = [] then Inr 0
      else if s = ''1.2'' \<or> s = ''12'' then Inr VersionTLS12
      else if s = ''1.3'' \<or> s = ''13'' then Inr VersionTLS13
      else Inl (ErrorNew (''unsupported TLS min version '' @ Quote s @
                 '' (use '' @ Quote ''1.2'' @ '' or '' @ Quote ''1.3'' @ '')'')))"

definition parseBoolish :: "string \<Rightarrow> bool" where
  "parseBoolish s \<longleftrightarrow> ToLower (TrimSpace s) \<in> {''true'', ''1'', ''yes'', ''on''}"

definition extractTLSConfig :: "(string, string) gomap \<Rightarrow> TLSConfig option" where
  "extractTLSConfig cfgMap =
     (if length cfgMap = 0 then None
      else
        let tls = \<lparr>tls_CAFile = map_get [] cfgMap ''TLS_CA_FILE'',
                   tls_CertFile = map_get [] cfgMap ''TLS_CERT_FILE'',
                   tls_KeyFile = map_get [] cfgMap ''TLS_KEY_FILE'',
                   tls_ServerName = map_get [] cfgMap ''TLS_SERVER_NAME'',
                   tls_InsecureSkip = False, tls_PinnedSHA256 = [], tls_MinVersion = 0\<rparr>;
            tls = (case map_of cfgMap ''TLS_SKIP_VERIFY'' of
                     Some v \<Rightarrow> if v \<noteq> [] then tls\<lparr>tls_InsecureSkip := parseBoolish v\<rparr> else tls
                   | None \<Rightarrow> tls);
            tls = (case map_of cfgMap ''TLS_MIN_VERSION'' of
                     Some v \<Rightarrow> if v \<noteq> [] then
                                (case ParseTLSMinVersion v of
                                   Inl _ \<Rightarrow> tls
                                 | Inr parsed \<Rightarrow> tls\<lparr>tls_MinVersion := parsed\<rparr>)
                              else tls
                   | None \<Rightarrow> tls)
        in if IsZero tls then None else Some tls)"

subsection \<open>Factories and the registry\<close>

record HTTPConfig =
  http_Timeout :: int
  http_TLS :: "TLSConfig option"
  http_TLSSkipVerify :: bool
  http_UserAgent :: string

record FactoryConfig =
  fc_Name :: string
  fc_ProviderConfig :: "(string, string) gomap"
  fc_HTTP :: HTTPConfig

type_synonym 'w Factory = "FactoryConfig \<Rightarrow> 'w \<Rightarrow> (err + 'w Provider) \<times> 'w"

record 'w Registry =
  reg_factories :: "(string, 'w Factory) gomap"
  reg_instances :: "'w ProviderInstance list"
  reg_byName :: "(string, nat) gomap"
  reg_instanceID :: string
  reg_nextPtr :: nat   \<comment> \<open>the address of the next allocated instance\<close>

definition NewRegistry :: "'w Registry" where
  "NewRegistry = \<lparr>reg_factories = [], reg_instances = [], reg_byName = [], reg_instanceID = [],
     reg_nextPtr = 0\<rparr>"

definition SetInstanceID :: "string \<Rightarrow> 'w Registry \<Rightarrow> 'w Registry" where
  "SetInstanceID iid r = r\<lparr>reg_instanceID := iid\<rparr>"

definition RegisterFactory :: "string \<Rightarrow> 'w Factory \<Rightarrow> 'w Registry \<Rightarrow> 'w Registry" where
  "RegisterFactory typeName factory r =
     r\<lparr>reg_factories := AList.update typeName factory (reg_factories r)\<rparr>"

definition factory_config :: "ProviderInstanceConfig \<Rightarrow> FactoryConfig" where
  "factory_config cfg =
     (let tlsCfg = extractTLSConfig (cfg_ProviderConfig cfg) in
      \<lparr>fc_Name = cfg_Name cfg, fc_ProviderConfig = cfg_ProviderConfig cfg,
       fc_HTTP = \<lparr>http_Timeout = 0, http_TLS = tlsCfg,
                  http_TLSSkipVerify = (case tlsCfg of None \<Rightarrow> False | Some t \<Rightarrow> tls_InsecureSkip t),
                  http_UserAgent = []\<rparr>\<rparr>)"

definition new_instance ::
  "nat \<Rightarrow> string \<Rightarrow> ProviderInstanceConfig \<Rightarrow> 'w Provider \<Rightarrow> DomainMatcher \<Rightarrow> 'w ProviderInstance" where
  "new_instance ptr instanceID cfg p m =
     (let inst = \<lparr>pi_ptr = ptr, pi_Provider = p, pi_Matcher = m, pi_RecordType = cfg_RecordType cfg,
                  pi_Target = cfg_Target cfg, pi_dynamicTarget = None, pi_TTL = cfg_TTL cfg,
                  pi_Mode = cfg_Mode cfg, pi_InstanceID = instanceID,
                  pi_MetadataFilters = cfg_MetadataFilters cfg, pi_Identity = IdentityOf p\<rparr>
      in if pi_Mode inst = [] then inst\<lparr>pi_Mode := ModeManaged\<rparr> else inst)"

definition CreateInstance ::
  "engine \<Rightarrow> ProviderInstanceConfig \<Rightarrow> 'w Registry \<times> 'w \<Rightarrow> err option \<times> 'w Registry \<times> 'w" where
  "CreateInstance rx cfg st =
     (let (r, w) = st in
      case cfg_Validate cfg of
        Some e \<Rightarrow>
          (Some (Errorf (''invalid configuration for provider '' @ Quote (cfg_Name cfg) @ '': '') e), r, w)
      | None \<Rightarrow>
          if has_key (reg_byName r) (cfg_Name cfg) then
            (Some (ErrorNew (''provider instance '' @ Quote (cfg_Name cfg) @ '' already exists'')), r, w)
          else case map_of (reg_factories r) (cfg_TypeName cfg) of
            None \<Rightarrow> (Some (ErrorNew (''unknown provider type: '' @ cfg_TypeName cfg)), r, w)
          | Some factory \<Rightarrow>
              (case factory (factory_config cfg) w of
                 (Inl e, w') \<Rightarrow>
                   (Some (Errorf (''creating provider '' @ cfg_Name cfg @ '': '') e), r, w')
               | (Inr p, w') \<Rightarrow>
                   (case NewDomainMatcher rx \<lparr>Includes = GetIncludes cfg, Excludes = GetExcludes cfg,
                                              UseRegex = cfg_UseRegex cfg\<rparr> of
                      Inl e \<Rightarrow>
                        (Some (Errorf (''creating domain matcher for '' @ cfg_Name cfg @ '': '') e), r, w')
                    | Inr m \<Rightarrow>
                        let inst = new_instance (reg_nextPtr r) (reg_instanceID r) cfg p m in
                        (None,
                         r\<lparr>reg_instances := reg_instances r @ [inst],
                           reg_byName := AList.update (cfg_Name cfg) (pi_ptr inst) (reg_byName r),
                           reg_nextPtr := reg_nextPtr r + 1\<rparr>,
                         w'))))"

definition Get :: "'w Registry \<Rightarrow> string \<Rightarrow> 'w ProviderInstance option" where
  "Get r name =
     (case map_of (reg_byName r) name of
        None \<Rightarrow> None
      | Some ptr \<Rightarrow> find (\<lambda>i. pi_ptr i = ptr) (reg_instances r))"

definition All :: "'w Registry \<Rightarrow> 'w ProviderInstance list" where
  "All r = reg_instances r"

definition MatchingProviders :: "'w Registry \<Rightarrow> string \<Rightarrow> 'w ProviderInstance list" where
  "MatchingProviders r hostname = filter (\<lambda>inst. inst_Matches inst hostname) (reg_instances r)"

definition MatchingProvidersForHostname ::
  "'w Registry \<Rightarrow> string \<Rightarrow> metadata \<Rightarrow> 'w ProviderInstance list" where
  "MatchingProvidersForHostname r hostname m =
     filter (\<lambda>inst. MatchesWithMetadata inst hostname m) (reg_instances r)"

definition FirstMatchingProvider :: "'w Registry \<Rightarrow> string \<Rightarrow> 'w ProviderInstance option" where
  "FirstMatchingProvider r hostname = find (\<lambda>inst. inst_Matches inst hostname) (reg_instances r)"

fun ping_all :: "'w ProviderInstance list \<Rightarrow> (string, err option) gomap \<Rightarrow> 'w \<Rightarrow>
  (string, err option) gomap \<times> 'w" where
  "ping_all [] results w = (results, w)"
| "ping_all (inst # insts) results w =
     (let (e, w') = Ping inst w in ping_all insts (AList.update (Name inst) e results) w')"

definition PingAll :: "'w Registry \<Rightarrow> 'w \<Rightarrow> (string, err option) gomap \<times> 'w" where
  "PingAll r w = ping_all (reg_instances r) [] w"

fun remove_ptr :: "nat \<Rightarrow> 'w ProviderInstance list \<Rightarrow> 'w ProviderInstance list" where
  "remove_ptr ptr [] = []"
| "remove_ptr ptr (p # ps) = (if pi_ptr p = ptr then ps else p # remove_ptr ptr ps)"

definition Remove :: "string \<Rightarrow> 'w Registry \<Rightarrow> bool \<times> 'w Registry" where
  "Remove name r =
     (case map_of (reg_byName r) name of
        None \<Rightarrow> (False, r)
      | Some ptr \<Rightarrow> (True, r\<lparr>reg_byName := AList.delete name (reg_byName r),
                            reg_instances := remove_ptr ptr (reg_instances r)\<rparr>))"

fun close_all :: "'w ProviderInstance list \<Rightarrow> err option \<Rightarrow> 'w \<Rightarrow> err option \<times> 'w" where
  "close_all [] firstErr w = (firstErr, w)"
| "close_all (inst # insts) firstErr w =
     (case p_Close (pi_Provider inst) of
        None \<Rightarrow> close_all insts firstErr w
      | Some close \<Rightarrow>
          (case close w of
             (Some e, w') \<Rightarrow> close_all insts (if firstErr = None then Some e else firstErr) w'
           | (None, w') \<Rightarrow> close_all insts firstErr w'))"

definition Close :: "'w Registry \<times> 'w \<Rightarrow> err option \<times> 'w Registry \<times> 'w" where
  "Close st =
     (let (r, w) = st; (e, w') = close_all (reg_instances r) None w in
      (e, r\<lparr>reg_instances := [], reg_byName := []\<rparr>, w'))"

definition Count :: "'w Registry \<Rightarrow> nat" where
  "Count r = length (reg_instances r)"

type_synonym identityKey = "ProviderIdentity \<times> RecordType"

definition identity_key :: "'w ProviderInstance \<Rightarrow> identityKey" where
  "identity_key inst = (pi_Identity inst, pi_RecordType inst)"

fun identity_groups ::
  "'w ProviderInstance list \<Rightarrow> (identityKey, string list) gomap \<Rightarrow> identityKey list \<Rightarrow>
   (identityKey, string list) gomap \<times> identityKey list" where
  "identity_groups [] groups order = (groups, order)"
| "identity_groups (inst # insts) groups order =
     (let k = identity_key inst in
      identity_groups insts (AList.update k (map_get [] groups k @ [Name inst]) groups)
        (if has_key groups k then order else order @ [k]))"

text \<open>The warnings that are logged: the key of the group, its members and the winner.\<close>

definition WarnDuplicateIdentities :: "'w Registry \<Rightarrow> (identityKey \<times> string list \<times> string) list" where
  "WarnDuplicateIdentities r =
     (let (groups, order) = identity_groups (reg_instances r) [] [] in
      concat (map (\<lambda>k. let names = map_get [] groups k in
                if length names < 2 then [] else [(k, names, names ! 0)]) order))"

text \<open>\<^verbatim>\<open>inst.SetDynamicTarget\<close> through a pointer into the registry (the target refresher).\<close>

definition set_dynamic_target :: "nat \<Rightarrow> string \<Rightarrow> 'w Registry \<Rightarrow> 'w Registry" where
  "set_dynamic_target ptr target r =
     r\<lparr>reg_instances :=
         map (\<lambda>i. if pi_ptr i = ptr then SetDynamicTarget target i else i) (reg_instances r)\<rparr>"

subsection \<open>The index and the list agree\<close>

definition wf_registry :: "'w Registry \<Rightarrow> bool" where
  "wf_registry r \<longleftrightarrow>
     distinct (map pi_ptr (reg_instances r)) \<and> (\<forall>i \<in> set (reg_instances r). pi_ptr i < reg_nextPtr r) \<and>
     wf_map (reg_byName r) \<and> distinct (map snd (reg_byName r)) \<and>
     snd ` set (reg_byName r) = pi_ptr ` set (reg_instances r)"

lemma update_fresh: "k \<notin> fst ` set m \<Longrightarrow> AList.update k v m = m @ [(k, v)]"
  by (induction m) auto

lemma delete_update_fresh: "k \<notin> fst ` set m \<Longrightarrow> AList.delete k (AList.update k v m) = m"
  by (induction m) auto

lemma remove_ptr_filter:
  "distinct (map pi_ptr is) \<Longrightarrow> remove_ptr p is = filter (\<lambda>i. pi_ptr i \<noteq> p) is"
proof (induction "is")
  case (Cons a "is")
  then have "pi_ptr a \<notin> pi_ptr ` set is" by simp
  then have "\<forall>i \<in> set is. pi_ptr i \<noteq> pi_ptr a" by (metis imageI)
  then have "filter (\<lambda>i. pi_ptr i \<noteq> pi_ptr a) is = is" by (simp add: filter_id_conv)
  with Cons show ?case by (cases "pi_ptr a = p") auto
qed simp

lemma find_ptr:
  assumes "distinct (map pi_ptr is)" and "i \<in> set is"
  shows "find (\<lambda>j. pi_ptr j = pi_ptr i) is = Some i"
  using assms by (induction "is") (auto simp: image_iff)

lemma find_ptr_iff:
  assumes "distinct (map pi_ptr is)"
  shows "find (\<lambda>j. pi_ptr j = p) is = Some i \<longleftrightarrow> i \<in> set is \<and> pi_ptr i = p"
  using find_ptr [OF assms] by (auto simp: find_Some_iff)

lemma pi_ptr_new_instance [simp]: "pi_ptr (new_instance p iid cfg q m) = p"
  by (simp add: new_instance_def Let_def)

lemma Name_new_instance [simp]: "Name (new_instance p iid cfg q m) = p_Name q"
  by (simp add: new_instance_def Let_def Name_def)

lemma wf_NewRegistry [simp]: "wf_registry NewRegistry"
  by (simp add: wf_registry_def NewRegistry_def)

lemma wf_SetInstanceID [wf_rules]: "wf_registry r \<Longrightarrow> wf_registry (SetInstanceID iid r)"
  by (simp add: wf_registry_def SetInstanceID_def)

lemma wf_RegisterFactory [wf_rules]: "wf_registry r \<Longrightarrow> wf_registry (RegisterFactory n f r)"
  by (simp add: wf_registry_def RegisterFactory_def)

text \<open>A successful creation appends one instance with a fresh address; a failed one changes nothing.\<close>

lemma CreateInstance_cases:
  assumes "CreateInstance rx cfg (r, w) = (e, r', w')"
  obtains (failed) x where "e = Some x" "r' = r"
  | (created) f p m where "e = None" "cfg_Validate cfg = None" "\<not> has_key (reg_byName r) (cfg_Name cfg)"
      "map_of (reg_factories r) (cfg_TypeName cfg) = Some f" "f (factory_config cfg) w = (Inr p, w')"
      "r' = r\<lparr>reg_instances := reg_instances r @ [new_instance (reg_nextPtr r) (reg_instanceID r) cfg p m],
              reg_byName := AList.update (cfg_Name cfg) (reg_nextPtr r) (reg_byName r),
              reg_nextPtr := reg_nextPtr r + 1\<rparr>"
  using assms
  by (auto simp: CreateInstance_def Let_def split: option.splits if_splits prod.splits sum.splits)

lemma wf_CreateInstance [wf_rules]:
  assumes "wf_registry r" and "CreateInstance rx cfg (r, w) = (e, r', w')"
  shows "wf_registry r'"
  using assms(2)
proof (cases rule: CreateInstance_cases)
  case (created f p m)
  have fresh: "cfg_Name cfg \<notin> fst ` set (reg_byName r)" using created(3) by (simp add: has_key_iff)
  have "reg_nextPtr r \<notin> pi_ptr ` set (reg_instances r)" using assms(1) by (auto simp: wf_registry_def)
  then show ?thesis
    using assms(1) created(6) fresh
    by (auto simp: wf_registry_def update_fresh wf_map_def image_Un intro: less_SucI)
qed (use assms(1) in simp)

lemma wf_Remove [wf_rules]:
  assumes "wf_registry r" shows "wf_registry (snd (Remove n r))"
proof (cases "map_of (reg_byName r) n")
  case (Some p)
  let ?b = "reg_byName r"
  have d: "distinct (map snd ?b)" "wf_map ?b" "distinct (map pi_ptr (reg_instances r))"
    using assms by (auto simp: wf_registry_def)
  have np: "(n, p) \<in> set ?b" using Some by (rule map_of_SomeD)
  have del: "AList.delete n ?b = filter (\<lambda>(k, v). k \<noteq> n) ?b"
    by (auto simp: AList.delete_eq intro: filter_cong)
  have uniq: "k = n \<longleftrightarrow> v = p" if "(k, v) \<in> set ?b" for k v
    using that np d(1,2) by (metis distinct_map eq_key_imp_eq_value inj_onD prod.inject snd_conv wf_map_def)
  have "snd ` set (filter (\<lambda>(k, v). k \<noteq> n) ?b) = snd ` set ?b - {p}"
    using uniq by (auto simp: image_iff)
  moreover have "distinct (map snd (filter (\<lambda>(k, v). k \<noteq> n) ?b))"
    using d(1) by (rule distinct_map_filter)
  moreover have "pi_ptr ` set (filter (\<lambda>i. pi_ptr i \<noteq> p) (reg_instances r)) = pi_ptr ` set (reg_instances r) - {p}"
    by auto
  ultimately show ?thesis
    using assms Some d wf_map_delete [of ?b n]
    by (auto simp: wf_registry_def Remove_def remove_ptr_filter del distinct_map_filter)
qed (use assms in \<open>simp add: Remove_def\<close>)

lemma wf_Close [wf_rules]: "wf_registry (fst (snd (Close (r, w))))"
  by (simp add: wf_registry_def Close_def split: prod.splits)

lemma pi_ptr_SetDynamicTarget [simp]: "pi_ptr (SetDynamicTarget t i) = pi_ptr i"
  by (simp add: SetDynamicTarget_def)

lemma wf_registry_ptrs:
  "wf_registry r \<longleftrightarrow>
     distinct (map pi_ptr (reg_instances r)) \<and>
     (\<forall>p \<in> set (map pi_ptr (reg_instances r)). p < reg_nextPtr r) \<and>
     wf_map (reg_byName r) \<and> distinct (map snd (reg_byName r)) \<and>
     snd ` set (reg_byName r) = set (map pi_ptr (reg_instances r))"
  by (simp add: wf_registry_def)

lemma ptrs_set_dynamic_target [simp]:
  "map pi_ptr (reg_instances (set_dynamic_target p t r)) = map pi_ptr (reg_instances r)"
  by (simp add: set_dynamic_target_def)

lemma wf_set_dynamic_target [wf_rules]: "wf_registry r \<Longrightarrow> wf_registry (set_dynamic_target p t r)"
  unfolding wf_registry_ptrs ptrs_set_dynamic_target by (simp add: set_dynamic_target_def)

text \<open>Lookup after creation and removal.\<close>

lemma Get_Some_iff:
  assumes "wf_registry r"
  shows "Get r n = Some i \<longleftrightarrow> i \<in> set (reg_instances r) \<and> map_of (reg_byName r) n = Some (pi_ptr i)"
  using assms by (auto simp: Get_def wf_registry_def find_ptr_iff split: option.splits)

lemma Get_None_iff:
  assumes "wf_registry r" shows "Get r n = None \<longleftrightarrow> \<not> has_key (reg_byName r) n"
proof (cases "map_of (reg_byName r) n")
  case (Some p)
  then have "p \<in> snd ` set (reg_byName r)" by (force dest: map_of_SomeD)
  then obtain i where "i \<in> set (reg_instances r)" "pi_ptr i = p"
    using assms by (auto simp: wf_registry_def)
  then show ?thesis using Some assms by (metis Get_Some_iff has_key_def option.distinct(1))
qed (simp add: Get_def has_key_def)

lemma Get_CreateInstance:
  assumes "wf_registry r" and "CreateInstance rx cfg (r, w) = (None, r', w')"
  obtains p m where
    "Get r' (cfg_Name cfg) = Some (new_instance (reg_nextPtr r) (reg_instanceID r) cfg p m)"
    "\<And>n. n \<noteq> cfg_Name cfg \<Longrightarrow> Get r' n = Get r n"
    "reg_instances r' = reg_instances r @ [new_instance (reg_nextPtr r) (reg_instanceID r) cfg p m]"
  using assms(2)
proof (cases rule: CreateInstance_cases)
  case (created f p m)
  let ?i = "new_instance (reg_nextPtr r) (reg_instanceID r) cfg p m"
  have wf': "wf_registry r'" using assms by (rule wf_CreateInstance)
  have "Get r' (cfg_Name cfg) = Some ?i"
    unfolding Get_Some_iff [OF wf'] using created(6) by simp
  moreover have "Get r' n = Get r n" if "n \<noteq> cfg_Name cfg" for n
  proof (cases "Get r n")
    case None
    then have "map_of (reg_byName r) n = None"
      using Get_None_iff [OF assms(1)] by (simp add: has_key_def)
    then have "Get r' n = None" using that created(6) by (simp add: Get_def)
    with None show ?thesis by simp
  next
    case (Some i)
    then have "Get r' n = Some i"
      using that created(6) unfolding Get_Some_iff [OF wf'] Get_Some_iff [OF assms(1)] by simp
    with Some show ?thesis by simp
  qed
  ultimately show thesis using that created(6) by simp
qed simp

lemma Get_Remove:
  assumes "wf_registry r"
  shows "Get (snd (Remove n r)) m = (if m = n then None else Get r m)"
proof (cases "map_of (reg_byName r) n")
  case None
  then show ?thesis by (simp add: Remove_def Get_def)
next
  case (Some p)
  have wf': "wf_registry (snd (Remove n r))" using assms by (rule wf_Remove)
  show ?thesis
  proof (cases "m = n")
    case True
    then show ?thesis using Some by (simp add: Remove_def Get_def)
  next
    case False
    have "map_of (reg_byName r) m \<noteq> Some p"
    proof
      assume "map_of (reg_byName r) m = Some p"
      then have "(m, p) \<in> set (reg_byName r)" by (rule map_of_SomeD)
      moreover have "(n, p) \<in> set (reg_byName r)" using Some by (rule map_of_SomeD)
      ultimately show False using False assms
        by (metis (no_types, lifting) Pair_inject distinct_map inj_onD snd_conv wf_registry_def)
    qed
    moreover have "distinct (map pi_ptr (reg_instances r))" using assms by (simp add: wf_registry_def)
    ultimately have "Get (snd (Remove n r)) m = Some i \<longleftrightarrow> Get r m = Some i" for i
      using False Some unfolding Get_Some_iff [OF wf'] Get_Some_iff [OF assms]
      by (auto simp: Remove_def remove_ptr_filter)
    then show ?thesis using False by (metis option.exhaust)
  qed
qed

lemma Remove_CreateInstance:
  assumes "wf_registry r" and "CreateInstance rx cfg (r, w) = (None, r', w')"
  shows "reg_instances (snd (Remove (cfg_Name cfg) r')) = reg_instances r \<and>
    reg_byName (snd (Remove (cfg_Name cfg) r')) = reg_byName r"
  using assms(2)
proof (cases rule: CreateInstance_cases)
  case (created f p m)
  have fresh: "cfg_Name cfg \<notin> fst ` set (reg_byName r)" using created(3) by (simp add: has_key_iff)
  have ptr: "\<forall>i \<in> set (reg_instances r). pi_ptr i \<noteq> reg_nextPtr r" "distinct (map pi_ptr (reg_instances r))"
    using assms(1) by (auto simp: wf_registry_def)
  then have "remove_ptr (reg_nextPtr r) (reg_instances r @ [new_instance (reg_nextPtr r) iid cfg p m]) =
      reg_instances r" for iid
    by (subst remove_ptr_filter) (auto simp: filter_id_conv)
  then show ?thesis
    using created(6) delete_update_fresh [OF fresh] by (simp add: Remove_def)
qed simp

subsection \<open>Reachable registries\<close>

text \<open>Any interleaving of the registry's methods over a fixed set of factories.\<close>

inductive reg_step :: "engine \<Rightarrow> 'w Registry \<times> 'w \<Rightarrow> 'w Registry \<times> 'w \<Rightarrow> bool" for rx where
  reg_create: "CreateInstance rx cfg (r, w) = (e, r', w') \<Longrightarrow> reg_step rx (r, w) (r', w')"
| reg_remove: "reg_step rx (r, w) (snd (Remove n r), w)"
| reg_close: "Close (r, w) = (e, r', w') \<Longrightarrow> reg_step rx (r, w) (r', w')"
| reg_setid: "reg_step rx (r, w) (SetInstanceID iid r, w)"
| reg_target: "reg_step rx (r, w) (set_dynamic_target p t r, w)"
| reg_world: "reg_step rx (r, w) (r, w')"   \<comment> \<open>anything else that happens outside the registry\<close>

inductive_cases reg_stepE: "reg_step rx (r, w) (r', w')"

inductive reg_reach :: "engine \<Rightarrow> (string, 'w Factory) gomap \<Rightarrow> 'w Registry \<times> 'w \<Rightarrow> bool" for rx fs where
  reg_init: "reg_reach rx fs (NewRegistry\<lparr>reg_factories := fs\<rparr>, w)"
| reg_next: "reg_reach rx fs s \<Longrightarrow> reg_step rx s t \<Longrightarrow> reg_reach rx fs t"

lemma wf_reg_step: "reg_step rx s t \<Longrightarrow> wf_registry (fst s) \<Longrightarrow> wf_registry (fst t)"
proof (induction rule: reg_step.induct)
  case (reg_close r w e r' w')
  then show ?case using wf_Close [of r w] by simp
qed (auto simp: wf_rules)

lemma factories_reg_step: "reg_step rx s t \<Longrightarrow> reg_factories (fst t) = reg_factories (fst s)"
proof (induction rule: reg_step.induct)
  case (reg_create cfg r w e r' w')
  then show ?case by (cases rule: CreateInstance_cases) auto
qed (auto simp: Remove_def Close_def SetInstanceID_def set_dynamic_target_def
     split: option.splits prod.splits)

definition named_registry :: "'w Registry \<Rightarrow> bool" where
  "named_registry r \<longleftrightarrow>
     (\<forall>(n, p) \<in> set (reg_byName r). \<forall>i \<in> set (reg_instances r). pi_ptr i = p \<longrightarrow> Name i = n)"

lemma named_registryD:
  "named_registry r \<Longrightarrow> (n, p) \<in> set (reg_byName r) \<Longrightarrow> i \<in> set (reg_instances r) \<Longrightarrow> pi_ptr i = p \<Longrightarrow>
    Name i = n"
  by (auto simp: named_registry_def)

lemma named_byName:
  assumes "wf_registry r" "named_registry r" "i \<in> set (reg_instances r)"
  shows "map_of (reg_byName r) (Name i) = Some (pi_ptr i)"
proof -
  have "pi_ptr i \<in> snd ` set (reg_byName r)" using assms(1,3) by (simp add: wf_registry_def)
  then obtain n where n: "(n, pi_ptr i) \<in> set (reg_byName r)" by auto
  then have "Name i = n" using named_registryD [OF assms(2) n assms(3)] by simp
  then show ?thesis using n assms(1) by (simp add: wf_registry_def wf_map_def)
qed

lemma named_Get:
  assumes "wf_registry r" "named_registry r"
  shows "Get r n = Some i \<longleftrightarrow> i \<in> set (reg_instances r) \<and> Name i = n"
  using named_byName [OF assms] named_registryD [OF assms(2)]
  by (auto simp: Get_Some_iff [OF assms(1)] dest: map_of_SomeD)

lemma named_distinct:
  assumes "wf_registry r" "named_registry r" shows "distinct (map Name (reg_instances r))"
proof -
  have "inj_on Name (set (reg_instances r))"
    by (rule inj_onI) (metis assms named_Get option.inject)
  moreover have "distinct (reg_instances r)" using assms(1) by (auto simp: wf_registry_def distinct_map)
  ultimately show ?thesis by (simp add: distinct_map)
qed

lemma Name_SetDynamicTarget [simp]: "Name (SetDynamicTarget t i) = Name i"
  by (simp add: SetDynamicTarget_def Name_def)

lemma set_remove_ptr: "set (remove_ptr p is) \<subseteq> set is"
  by (induction "is") auto

lemma named_Remove: "named_registry r \<Longrightarrow> named_registry (snd (Remove n r))"
  by (auto simp: named_registry_def Remove_def AList.delete_eq dest!: subsetD [OF set_remove_ptr]
      split: option.splits)

lemma named_SetInstanceID: "named_registry r \<Longrightarrow> named_registry (SetInstanceID iid r)"
  by (simp add: named_registry_def SetInstanceID_def)

lemma named_Close: "Close (r, w) = (e, r', w') \<Longrightarrow> named_registry r'"
  by (auto simp: Close_def named_registry_def split: prod.splits)

lemma named_set_dynamic_target: "named_registry r \<Longrightarrow> named_registry (set_dynamic_target p t r)"
  by (auto simp: named_registry_def set_dynamic_target_def)

text \<open>
  The contract of a factory: the provider it makes reports the name it was given (every
  \<^verbatim>\<open>Name()\<close> of the built-in providers returns the configured name).
\<close>

locale named_factories =
  fixes fs :: "(string, 'w Factory) gomap"
  assumes factory_name: "map_of fs ty = Some f \<Longrightarrow> f c w = (Inr p, w') \<Longrightarrow> p_Name p = fc_Name c"
begin

lemma named_CreateInstance:
  assumes "wf_registry r" "named_registry r" "reg_factories r = fs"
    and "CreateInstance rx cfg (r, w) = (e, r', w')"
  shows "named_registry r'"
  using assms(4)
proof (cases rule: CreateInstance_cases)
  case (created f p m)
  have "p_Name p = cfg_Name cfg"
    using factory_name created(4,5) assms(3) by (fastforce simp: factory_config_def Let_def)
  moreover have "cfg_Name cfg \<notin> fst ` set (reg_byName r)" using created(3) by (simp add: has_key_iff)
  moreover have "q \<noteq> reg_nextPtr r" if "(n, q) \<in> set (reg_byName r)" for n q
  proof -
    have "q \<in> pi_ptr ` set (reg_instances r)" using that assms(1) by (force simp: wf_registry_def)
    then show ?thesis using assms(1) by (auto simp: wf_registry_def)
  qed
  moreover have "pi_ptr i \<noteq> reg_nextPtr r" if "i \<in> set (reg_instances r)" for i
    using that assms(1) by (auto simp: wf_registry_def)
  ultimately show ?thesis
    using named_registryD [OF assms(2)] created(6) by (auto simp: named_registry_def update_fresh)
qed (use assms(2) in simp)

lemma reach_registry:
  "reg_reach rx fs s \<Longrightarrow>
     wf_registry (fst s) \<and> named_registry (fst s) \<and> reg_factories (fst s) = fs"
proof (induction rule: reg_reach.induct)
  case (reg_init w)
  then show ?case by (simp add: wf_registry_def named_registry_def NewRegistry_def)
next
  case (reg_next s t)
  have "named_registry (fst t)"
    using reg_next.hyps(2) reg_next.IH
  proof (cases rule: reg_step.cases)
    case (reg_create cfg r w e r' w')
    then show ?thesis using named_CreateInstance [of r] reg_next.IH by simp
  next
    case (reg_close r w e r' w')
    then show ?thesis using named_Close by simp
  qed (simp_all add: named_Remove named_set_dynamic_target named_SetInstanceID)
  then show ?case
    using reg_next wf_reg_step factories_reg_step by metis
qed

lemma reach_names:
  assumes "reg_reach rx fs (r, w)"
  shows "distinct (map Name (All r))" and "Get r n = find (\<lambda>i. Name i = n) (All r)"
proof -
  have wf: "wf_registry r" "named_registry r" using reach_registry [OF assms] by simp_all
  then show "distinct (map Name (All r))" using named_distinct by (simp add: All_def)
  show "Get r n = find (\<lambda>i. Name i = n) (All r)"
  proof (cases "find (\<lambda>i. Name i = n) (All r)")
    case None
    then have "\<not> (\<exists>i. Get r n = Some i)" unfolding named_Get [OF wf] by (auto simp: find_None_iff All_def)
    then show ?thesis using None by (cases "Get r n") auto
  next
    case (Some i)
    then have "i \<in> set (reg_instances r) \<and> Name i = n" by (auto simp: find_Some_iff All_def)
    then show ?thesis using Some named_Get [OF wf] by simp
  qed
qed

end

subsection \<open>First match and colliding backends\<close>

lemma FirstMatchingProvider_hd:
  "FirstMatchingProvider r h =
     (case MatchingProviders r h of [] \<Rightarrow> None | i # _ \<Rightarrow> Some i)"
proof -
  have "find P is = (case filter P is of [] \<Rightarrow> None | i # _ \<Rightarrow> Some i)" for P and "is" :: "'a ProviderInstance list"
    by (induction "is") auto
  then show ?thesis by (simp add: FirstMatchingProvider_def MatchingProviders_def)
qed

lemma identity_groups_invariant:
  assumes "identity_groups is g ord = (g', ord')"
    and "set ord = fst ` set g" and "distinct ord"
  shows "(\<forall>k. map_get [] g' k = map_get [] g k @ map Name (filter (\<lambda>i. identity_key i = k) is)) \<and>
    set ord' = set ord \<union> identity_key ` set is \<and> distinct ord'"
  using assms
proof (induction "is" arbitrary: g ord)
  case (Cons i "is")
  let ?k = "identity_key i"
  let ?g = "AList.update ?k (map_get [] g ?k @ [Name i]) g"
  let ?ord = "if has_key g ?k then ord else ord @ [?k]"
  have st: "identity_groups is ?g ?ord = (g', ord')" using Cons.prems(1) by (simp add: Let_def)
  have ord: "set ?ord = fst ` set ?g" "distinct ?ord"
    unfolding keys_update using Cons.prems(2,3) has_key_iff [of g ?k] by (cases "has_key g ?k"; simp add: insert_absorb)+
  have "map_get [] ?g k = (if k = ?k then map_get [] g k @ [Name i] else map_get [] g k)" for k
    by (simp add: map_get_def)
  moreover have "set ?ord = insert ?k (set ord)"
    using Cons.prems(2) has_key_iff [of g ?k] by (cases "has_key g ?k"; simp add: insert_absorb)
  ultimately show ?case using Cons.IH [OF st ord] by auto
qed auto

lemma WarnDuplicateIdentities_set:
  "set (WarnDuplicateIdentities r) =
     {(k, names, winner). names = map Name (filter (\<lambda>i. identity_key i = k) (reg_instances r)) \<and>
        length names \<ge> 2 \<and> winner = hd names}"
proof -
  obtain g ord where go: "identity_groups (reg_instances r) [] [] = (g, ord)" by fastforce
  have "(\<forall>k. map_get [] g k = map_get [] [] k @ map Name (filter (\<lambda>i. identity_key i = k) (reg_instances r))) \<and>
      set ord = set [] \<union> identity_key ` set (reg_instances r) \<and> distinct ord"
    by (rule identity_groups_invariant [OF go]) simp_all
  then have names: "\<And>k. map_get [] g k = map Name (filter (\<lambda>i. identity_key i = k) (reg_instances r))"
    and ord: "set ord = identity_key ` set (reg_instances r)"
    by (simp_all only: map_get_def map_of.simps option.case append_Nil) simp
  have member: "k \<in> set ord" if "2 \<le> length (filter (\<lambda>i. identity_key i = k) (reg_instances r))" for k
  proof -
    from that obtain i where "i \<in> set (filter (\<lambda>i. identity_key i = k) (reg_instances r))"
      by (cases "filter (\<lambda>i. identity_key i = k) (reg_instances r)") auto
    then show ?thesis by (auto simp: ord)
  qed
  have first: "xs ! 0 = hd xs" if "\<not> length xs < 2" for xs :: "string list"
    using that by (cases xs) auto
  show ?thesis
    using member by (auto simp: WarnDuplicateIdentities_def go names Let_def first split: if_splits)
qed

end
