(* ===== verification/RecordCache.thy ===== *)
theory RecordCache
  imports ProviderRegistry
begin

text \<open>
  \<^verbatim>\<open>internal/reconciler/cache.go\<close>: the snapshot of the records of every provider taken at the
  start of a reconciliation, indexed by provider and normalized hostname. A provider whose
  listing failed has a nil map, \<open>None\<close> here. A lookup is shown to be the filter of the listing.
\<close>

type_synonym recordCache = "(string, (string, Record list) gomap option) gomap"

definition index_hostnames :: "Record list \<Rightarrow> (string, Record list) gomap" where
  "index_hostnames rs =
     foldl (\<lambda>m r. let normalized = NormalizeHostname (r_Hostname r) in
              AList.update normalized (map_get [] m normalized @ [r]) m) [] rs"

fun cache_providers :: "'w ProviderInstance list \<Rightarrow> recordCache \<Rightarrow> 'w \<Rightarrow> recordCache \<times> 'w" where
  "cache_providers [] cache w = (cache, w)"
| "cache_providers (inst # insts) cache w =
     (case p_List (pi_Provider inst) w of
        (Inl _, w') \<Rightarrow> cache_providers insts (AList.update (Name inst) None cache) w'
      | (Inr rs, w') \<Rightarrow>
          cache_providers insts (AList.update (Name inst) (Some (index_hostnames rs)) cache) w')"

definition newRecordCache :: "'w Registry \<Rightarrow> 'w \<Rightarrow> recordCache \<times> 'w" where
  "newRecordCache providers w = cache_providers (All providers) [] w"

definition provider_records :: "recordCache \<Rightarrow> string \<Rightarrow> (string, Record list) gomap option" where
  "provider_records c providerName =
     (case map_of c providerName of None \<Rightarrow> None | Some None \<Rightarrow> None | Some (Some m) \<Rightarrow> Some m)"

definition getExistingRecords :: "recordCache \<Rightarrow> string \<Rightarrow> string \<Rightarrow> Record list option" where
  "getExistingRecords c providerName hostname =
     (case provider_records c providerName of
        None \<Rightarrow> None
      | Some byHostname \<Rightarrow>
          Some (filter (\<lambda>r. is_data_type (r_Type r)) (map_get [] byHostname (NormalizeHostname hostname))))"

definition getAllRecordsForHostname :: "recordCache \<Rightarrow> string \<Rightarrow> string \<Rightarrow> Record list option" where
  "getAllRecordsForHostname c providerName hostname =
     (case provider_records c providerName of
        None \<Rightarrow> None
      | Some byHostname \<Rightarrow>
          Some (filter (\<lambda>r. is_data_type (r_Type r)) (map_get [] byHostname (NormalizeHostname hostname))))"

definition hasOwnershipRecord :: "recordCache \<Rightarrow> string \<Rightarrow> string \<Rightarrow> string \<Rightarrow> bool" where
  "hasOwnershipRecord c providerName hostname instanceID =
     (case provider_records c providerName of
        None \<Rightarrow> False
      | Some byHostname \<Rightarrow>
          list_ex (\<lambda>r. r_Type r = RecordTypeTXT \<and> MatchesOwnership (r_Target r) instanceID)
            (map_get [] byHostname (NormalizeHostname (OwnershipRecordName hostname))))"

subsection \<open>A lookup filters the listing\<close>

lemma index_hostnames_lookup:
  "map_get [] (index_hostnames rs) n = filter (\<lambda>r. NormalizeHostname (r_Hostname r) = n) rs"
proof (induction rs rule: rev_induct)
  case (snoc r rs)
  then show ?case by (simp add: index_hostnames_def Let_def map_get_def)
qed (simp add: index_hostnames_def map_get_def)

text \<open>The listing of each provider, taken one after another.\<close>

fun listings :: "'w ProviderInstance list \<Rightarrow> 'w \<Rightarrow> (string \<times> (err + Record list)) list" where
  "listings [] w = []"
| "listings (inst # insts) w =
     (let (l, w') = p_List (pi_Provider inst) w in (Name inst, l) # listings insts w')"

definition cached_listing :: "err + Record list \<Rightarrow> (string, Record list) gomap option" where
  "cached_listing l = (case l of Inl _ \<Rightarrow> None | Inr rs \<Rightarrow> Some (index_hostnames rs))"

lemma listings_names: "map fst (listings insts w) = map Name insts"
  by (induction insts arbitrary: w) (auto simp: Let_def split: prod.splits)

lemma cache_providers_lookup:
  "distinct (map Name insts) \<Longrightarrow>
   map_of (fst (cache_providers insts c w)) n =
     (case map_of (listings insts w) n of None \<Rightarrow> map_of c n | Some l \<Rightarrow> Some (cached_listing l))"
proof (induction insts arbitrary: c w)
  case (Cons i insts)
  have "map_of (listings insts w') (Name i) = None" for w'
    using Cons.prems listings_names [of insts w'] by (metis distinct.simps(2) list.simps(9) map_of_eq_None_iff set_map)
  then show ?case
    using Cons by (auto simp: cached_listing_def split: prod.splits sum.splits option.splits)
qed simp

lemma newRecordCache_lookup:
  assumes "distinct (map Name (All reg))"
  shows "provider_records (fst (newRecordCache reg w)) n =
    (case map_of (listings (All reg) w) n of None \<Rightarrow> None | Some l \<Rightarrow> cached_listing l)"
  using cache_providers_lookup [OF assms, of "[]" w n]
  by (auto simp: newRecordCache_def provider_records_def split: option.splits)

lemma cache_getExistingRecords:
  assumes "distinct (map Name (All reg))" and "map_of (listings (All reg) w) n = Some (Inr rs)"
  shows "getExistingRecords (fst (newRecordCache reg w)) n h =
    Some (filter (\<lambda>r. NormalizeHostname (r_Hostname r) = NormalizeHostname h \<and> is_data_type (r_Type r)) rs)"
  using assms(2)
  by (simp add: getExistingRecords_def newRecordCache_lookup [OF assms(1)] cached_listing_def
      index_hostnames_lookup conj_commute)

lemma cache_hasOwnershipRecord:
  assumes "distinct (map Name (All reg))" and "map_of (listings (All reg) w) n = Some (Inr rs)"
  shows "hasOwnershipRecord (fst (newRecordCache reg w)) n h iid \<longleftrightarrow>
    (\<exists>r \<in> set rs. NormalizeHostname (r_Hostname r) = NormalizeHostname (OwnershipRecordName h) \<and>
       r_Type r = RecordTypeTXT \<and> MatchesOwnership (r_Target r) iid)"
  using assms(2)
  by (auto simp: hasOwnershipRecord_def newRecordCache_lookup [OF assms(1)] cached_listing_def
      index_hostnames_lookup list_ex_iff)

lemma cache_failed:
  assumes "distinct (map Name (All reg))" and "map_of (listings (All reg) w) n = Some (Inl e)"
  shows "getExistingRecords (fst (newRecordCache reg w)) n h = None"
    "\<not> hasOwnershipRecord (fst (newRecordCache reg w)) n h iid"
  using assms(2)
  by (simp_all add: getExistingRecords_def hasOwnershipRecord_def newRecordCache_lookup [OF assms(1)]
      cached_listing_def)

text \<open>Everything a lookup returns has the normalized name that was asked for.\<close>

definition wf_cache :: "recordCache \<Rightarrow> bool" where
  "wf_cache c \<longleftrightarrow> (\<forall>p m n. provider_records c p = Some m \<longrightarrow>
     (\<forall>r \<in> set (map_get [] m n). NormalizeHostname (r_Hostname r) = n))"

lemma wf_cache_providers:
  "wf_cache c \<Longrightarrow> wf_cache (fst (cache_providers insts c w))"
proof (induction insts arbitrary: c w)
  case (Cons i insts)
  have "wf_cache (AList.update k None c)" "wf_cache (AList.update k (Some (index_hostnames rs)) c)" for k rs
    using Cons.prems
    by (auto simp: wf_cache_def provider_records_def index_hostnames_lookup split: if_splits)
  then show ?case using Cons.IH by (auto split: prod.splits sum.splits)
qed simp

lemma wf_newRecordCache: "wf_cache (fst (newRecordCache reg w))"
  unfolding newRecordCache_def by (rule wf_cache_providers) (simp add: wf_cache_def provider_records_def)

lemma getExistingRecords_name:
  assumes "wf_cache c" and "getExistingRecords c p h = Some rs" and "r \<in> set rs"
  shows "NormalizeHostname (r_Hostname r) = NormalizeHostname h \<and> is_data_type (r_Type r)"
  using assms unfolding wf_cache_def by (auto simp: getExistingRecords_def split: option.splits)

lemma getAll_eq_getExisting: "getAllRecordsForHostname c p h = getExistingRecords c p h"
  by (simp add: getAllRecordsForHostname_def getExistingRecords_def)

context world_order
begin

lemma R_cache_providers:
  "(\<And>i. i \<in> set insts \<Longrightarrow> safe (pi_Provider i) CList) \<Longrightarrow> R w (snd (cache_providers insts c w))"
proof (induction insts arbitrary: c w)
  case (Cons i insts)
  obtain l w' where l: "p_List (pi_Provider i) w = (l, w')" by fastforce
  then have "R w w'" using Cons.prems R_List by fastforce
  then show ?case using l Cons by (auto split: sum.splits intro: R_trans)
qed (simp add: R_refl)

lemma R_newRecordCache:
  "(\<And>i. i \<in> set (All reg) \<Longrightarrow> safe (pi_Provider i) CList) \<Longrightarrow> newRecordCache reg w = (c, w') \<Longrightarrow> R w w'"
  using R_cache_providers [of "All reg" w "[]"] by (simp add: newRecordCache_def)

end

end
