(* ===== verification/Comparison.thy ===== *)
theory Comparison
  imports DnsRecord
begin

text \<open>
  \<^verbatim>\<open>internal/reconciler/comparison.go\<close>: the diff of two record sets and the helpers that
  classify the records of one hostname. Both sets are indexed by \<open>recordKey\<close> in Go maps (the last
  record of a key wins); the two loops over the maps take their iteration order as an argument.
  The main result is that applying a diff turns the existing set into the desired one, up to
  the fields that do not require an update.
\<close>

definition srvDataEquals :: "SRVData option \<Rightarrow> SRVData option \<Rightarrow> bool" where
  "srvDataEquals a b =
     (case (a, b) of
        (None, None) \<Rightarrow> True
      | (Some x, Some y) \<Rightarrow> srv_Priority x = srv_Priority y \<and> srv_Weight x = srv_Weight y
          \<and> srv_Port x = srv_Port y
      | _ \<Rightarrow> False)"

record RecordPair =
  Existing :: Record
  Desired :: Record

record RecordDiff =
  ToCreate :: "Record list"
  ToUpdate :: "RecordPair list"
  ToDelete :: "Record list"
  Unchanged :: "Record list"

definition HasChanges :: "RecordDiff \<Rightarrow> bool" where
  "HasChanges d \<longleftrightarrow> length (ToCreate d) > 0 \<or> length (ToUpdate d) > 0 \<or> length (ToDelete d) > 0"

definition TotalChanges :: "RecordDiff \<Rightarrow> nat" where
  "TotalChanges d = length (ToCreate d) + length (ToUpdate d) + length (ToDelete d)"

definition formatSRVKey :: "SRVData option \<Rightarrow> string" where
  "formatSRVKey srv =
     (case srv of
        None \<Rightarrow> []
      | Some s \<Rightarrow> Itoa (unat (srv_Priority s)) @ '':'' @ Itoa (unat (srv_Weight s)) @ '':'' @
          Itoa (unat (srv_Port s)))"

definition recordKey :: "Record \<Rightarrow> string" where
  "recordKey r =
     (let key = NormalizeHostname (r_Hostname r) @ ''|'' @ r_Type r @ ''|'' @ r_Target r in
      if r_Type r = RecordTypeSRV \<and> r_SRV r \<noteq> None then key @ ''|'' @ formatSRVKey (r_SRV r) else key)"

definition recordNeedsUpdate :: "Record \<Rightarrow> Record \<Rightarrow> bool" where
  "recordNeedsUpdate existing desired =
     (if r_TTL existing \<noteq> r_TTL desired then True
      else if r_Type existing = RecordTypeSRV \<and> \<not> srvDataEquals (r_SRV existing) (r_SRV desired)
        then True
      else False)"

type_synonym record_index = "(string, Record) gomap"

definition index_records :: "Record list \<Rightarrow> record_index" where
  "index_records rs = foldl (\<lambda>m r. AList.update (recordKey r) r m) [] rs"

fun compare_desired :: "record_index \<Rightarrow> record_index \<Rightarrow> string list \<Rightarrow> RecordDiff \<Rightarrow> RecordDiff" where
  "compare_desired existingMap desiredMap [] diff = diff"
| "compare_desired existingMap desiredMap (key # keys) diff =
     (let desiredRecord = the (map_of desiredMap key) in
      compare_desired existingMap desiredMap keys
        (case map_of existingMap key of
           Some existingRecord \<Rightarrow>
             if recordNeedsUpdate existingRecord desiredRecord
             then diff\<lparr>ToUpdate := ToUpdate diff @ [\<lparr>Existing = existingRecord, Desired = desiredRecord\<rparr>]\<rparr>
             else diff\<lparr>Unchanged := Unchanged diff @ [existingRecord]\<rparr>
         | None \<Rightarrow> diff\<lparr>ToCreate := ToCreate diff @ [desiredRecord]\<rparr>))"

fun compare_existing :: "record_index \<Rightarrow> record_index \<Rightarrow> string list \<Rightarrow> RecordDiff \<Rightarrow> RecordDiff" where
  "compare_existing existingMap desiredMap [] diff = diff"
| "compare_existing existingMap desiredMap (key # keys) diff =
     compare_existing existingMap desiredMap keys
       (if has_key desiredMap key then diff
        else diff\<lparr>ToDelete := ToDelete diff @ [the (map_of existingMap key)]\<rparr>)"

definition CompareRecordSets ::
  "string iteration \<Rightarrow> string iteration \<Rightarrow> Record list \<Rightarrow> Record list \<Rightarrow> RecordDiff" where
  "CompareRecordSets orderD orderE existing desired =
     (let existingMap = index_records existing; desiredMap = index_records desired;
          diff = \<lparr>ToCreate = [], ToUpdate = [], ToDelete = [], Unchanged = []\<rparr>
      in compare_existing existingMap desiredMap (orderE (map fst existingMap))
           (compare_desired existingMap desiredMap (orderD (map fst desiredMap)) diff))"

definition CompareForHostname ::
  "string iteration \<Rightarrow> string iteration \<Rightarrow> Record list \<Rightarrow> Record list \<Rightarrow> string \<Rightarrow> RecordDiff" where
  "CompareForHostname orderD orderE existing desired hostname =
     (let normalizedHostname = NormalizeHostname hostname;
          same = (\<lambda>r. NormalizeHostname (r_Hostname r) = normalizedHostname)
      in CompareRecordSets orderD orderE (filter same existing) (filter same desired))"

definition categorizeSameHostnameRecords ::
  "Record list \<Rightarrow> RecordType \<Rightarrow> Record list \<times> Record list" where
  "categorizeSameHostnameRecords records desiredType =
     (filter (\<lambda>r. r_Type r = desiredType) records, filter (\<lambda>r. r_Type r \<noteq> desiredType) records)"

fun findExactMatch ::
  "Record list \<Rightarrow> string \<Rightarrow> RecordType \<Rightarrow> SRVData option \<Rightarrow> Record option" where
  "findExactMatch [] target recordType srvData = None"
| "findExactMatch (r # rs) target recordType srvData =
     (if r_Type r \<noteq> recordType then findExactMatch rs target recordType srvData
      else if r_Target r \<noteq> target then findExactMatch rs target recordType srvData
      else if recordType = RecordTypeSRV then
        (if srvDataEquals (r_SRV r) srvData then Some r
         else findExactMatch rs target recordType srvData)
      else Some r)"

definition findStaleSRVRecords :: "Record list \<Rightarrow> string \<Rightarrow> SRVData option \<Rightarrow> Record list" where
  "findStaleSRVRecords records target desiredSRV =
     filter (\<lambda>r. r_Type r = RecordTypeSRV \<and> r_Target r = target \<and> \<not> srvDataEquals (r_SRV r) desiredSRV)
       records"

subsection \<open>The index of a record list\<close>

lemma srvDataEquals_eq: "srvDataEquals a b \<longleftrightarrow> a = b"
  by (cases a; cases b) (auto simp: srvDataEquals_def)

lemma index_snoc: "index_records (rs @ [r]) = AList.update (recordKey r) r (index_records rs)"
  by (simp add: index_records_def)

lemma index_Nil [simp]: "index_records [] = []"
  by (simp add: index_records_def)

lemma wf_index [simp]: "wf_map (index_records rs)"
  by (induction rs rule: rev_induct) (simp_all add: index_snoc wf_map_update)

text \<open>A key is bound to the last record of the list that has it.\<close>

lemma index_lookup: "map_of (index_records rs) k = find (\<lambda>r. recordKey r = k) (rev rs)"
  by (induction rs rule: rev_induct) (auto simp: index_snoc)

lemma index_SomeD: "map_of (index_records rs) k = Some r \<Longrightarrow> r \<in> set rs \<and> recordKey r = k"
  by (induction rs rule: rev_induct) (auto simp: index_snoc split: if_splits)

lemma index_None: "map_of (index_records rs) k = None \<longleftrightarrow> k \<notin> recordKey ` set rs"
  by (auto simp: index_lookup find_None_iff)

subsection \<open>The four classes\<close>

lemma compare_desired_classes:
  "ToCreate (compare_desired E D ks d) =
     ToCreate d @ map (\<lambda>k. the (map_of D k)) (filter (\<lambda>k. map_of E k = None) ks)"
  "ToDelete (compare_desired E D ks d) = ToDelete d"
  "ToUpdate (compare_desired E D ks d) =
     ToUpdate d @ map (\<lambda>k. \<lparr>Existing = the (map_of E k), Desired = the (map_of D k)\<rparr>)
       (filter (\<lambda>k. map_of E k \<noteq> None \<and> recordNeedsUpdate (the (map_of E k)) (the (map_of D k))) ks)"
  "Unchanged (compare_desired E D ks d) =
     Unchanged d @ map (\<lambda>k. the (map_of E k))
       (filter (\<lambda>k. map_of E k \<noteq> None \<and> \<not> recordNeedsUpdate (the (map_of E k)) (the (map_of D k))) ks)"
  by (induction ks arbitrary: d) (auto simp: Let_def split: option.splits)

lemma compare_existing_classes:
  "ToDelete (compare_existing E D ks d) =
     ToDelete d @ map (\<lambda>k. the (map_of E k)) (filter (\<lambda>k. \<not> has_key D k) ks)"
  "ToCreate (compare_existing E D ks d) = ToCreate d"
  "ToUpdate (compare_existing E D ks d) = ToUpdate d"
  "Unchanged (compare_existing E D ks d) = Unchanged d"
  by (induction ks arbitrary: d) auto

lemma iteration_keys:
  "is_iteration order \<Longrightarrow> set (order (map fst (index_records rs))) = dom (map_of (index_records rs))"
  using is_iteration_set [of order "map fst (index_records rs)"] wf_index [of rs]
  by (simp add: wf_map_def dom_map_of_conv_image_fst)

lemma Compare_sets:
  fixes existing desired :: "Record list"
  assumes "is_iteration od" and "is_iteration oe"
  defines "E \<equiv> map_of (index_records existing)" and "D \<equiv> map_of (index_records desired)"
  shows "set (ToCreate (CompareRecordSets od oe existing desired)) = {r. \<exists>k. D k = Some r \<and> E k = None}"
    and "set (ToDelete (CompareRecordSets od oe existing desired)) = {r. \<exists>k. E k = Some r \<and> D k = None}"
    and "set (ToUpdate (CompareRecordSets od oe existing desired)) =
      {p. \<exists>k. E k = Some (Existing p) \<and> D k = Some (Desired p) \<and>
          recordNeedsUpdate (Existing p) (Desired p)}"
    and "set (Unchanged (CompareRecordSets od oe existing desired)) =
      {r. \<exists>k r'. E k = Some r \<and> D k = Some r' \<and> \<not> recordNeedsUpdate r r'}"
proof -
  have keys: "set (od (map fst (index_records desired))) = dom D"
      "set (oe (map fst (index_records existing))) = dom E"
    using iteration_keys assms(1,2) by (simp_all add: D_def E_def)
  note cls = CompareRecordSets_def Let_def compare_existing_classes compare_desired_classes
    has_key_def keys
  show "set (ToCreate (CompareRecordSets od oe existing desired)) = {r. \<exists>k. D k = Some r \<and> E k = None}"
    by (force simp: cls simp flip: D_def E_def)
  show "set (ToDelete (CompareRecordSets od oe existing desired)) = {r. \<exists>k. E k = Some r \<and> D k = None}"
    by (force simp: cls simp flip: D_def E_def)
  show "set (ToUpdate (CompareRecordSets od oe existing desired)) =
      {p. \<exists>k. E k = Some (Existing p) \<and> D k = Some (Desired p) \<and>
          recordNeedsUpdate (Existing p) (Desired p)}"
    by (force simp: cls simp flip: D_def E_def)
  show "set (Unchanged (CompareRecordSets od oe existing desired)) =
      {r. \<exists>k r'. E k = Some r \<and> D k = Some r' \<and> \<not> recordNeedsUpdate r r'}"
    by (force simp: cls simp flip: D_def E_def)
qed

subsection \<open>Applying a diff\<close>

text \<open>What the store holds under each key after the deletions, updates and creations of a diff.\<close>

definition apply_diff :: "RecordDiff \<Rightarrow> record_index \<Rightarrow> record_index" where
  "apply_diff d m =
     fold (\<lambda>r. AList.update (recordKey r) r) (ToCreate d)
       (fold (\<lambda>p. AList.update (recordKey (Desired p)) (Desired p)) (ToUpdate d)
         (fold (\<lambda>r. AList.delete (recordKey r)) (ToDelete d) m))"

lemma fold_delete_lookup:
  "map_of (fold (\<lambda>r. AList.delete (f r)) rs m) k = (if k \<in> f ` set rs then None else map_of m k)"
  by (induction rs arbitrary: m) auto

lemma fold_update_lookup:
  assumes "\<forall>r \<in> set rs. h (f r) = Some (g r)"
  shows "map_of (fold (\<lambda>r. AList.update (f r) (g r)) rs m) k =
    (if k \<in> f ` set rs then h k else map_of m k)"
  using assms by (induction rs arbitrary: m) auto

lemma keys_of_index:
  "recordKey ` {r. \<exists>k. map_of (index_records rs) k = Some r \<and> P k} =
     {k. map_of (index_records rs) k \<noteq> None \<and> P k}"
proof -
  have "recordKey r = k" if "map_of (index_records rs) k = Some r" for k r
    using index_SomeD [OF that] by simp
  then show ?thesis by (auto simp: image_iff)
qed

lemma Compare_apply:
  fixes existing desired :: "Record list"
  assumes "is_iteration od" and "is_iteration oe"
  defines "d \<equiv> CompareRecordSets od oe existing desired"
  shows "rel_option (\<lambda>r r'. recordKey r = recordKey r' \<and> \<not> recordNeedsUpdate r r')
    (map_of (apply_diff d (index_records existing)) k) (map_of (index_records desired) k)"
proof -
  let ?E = "map_of (index_records existing)" and ?D = "map_of (index_records desired)"
  note sets = Compare_sets [OF assms(1,2), of existing desired, folded d_def]
  have c: "\<forall>r \<in> set (ToCreate d). ?D (recordKey r) = Some r"
    unfolding sets by (auto dest: index_SomeD)
  have u: "\<forall>p \<in> set (ToUpdate d). ?D (recordKey (Desired p)) = Some (Desired p)"
    unfolding sets by (auto dest: index_SomeD)
  have kc: "k \<in> recordKey ` set (ToCreate d) \<longleftrightarrow> ?D k \<noteq> None \<and> ?E k = None"
    unfolding sets keys_of_index by simp
  have kd: "k \<in> recordKey ` set (ToDelete d) \<longleftrightarrow> ?E k \<noteq> None \<and> ?D k = None"
    unfolding sets keys_of_index by simp
  have ku: "k \<in> (\<lambda>p. recordKey (Desired p)) ` set (ToUpdate d) \<longleftrightarrow>
      (\<exists>r r'. ?E k = Some r \<and> ?D k = Some r' \<and> recordNeedsUpdate r r')"
  proof
    assume "\<exists>r r'. ?E k = Some r \<and> ?D k = Some r' \<and> recordNeedsUpdate r r'"
    then obtain r r' where "?E k = Some r" "?D k = Some r'" "recordNeedsUpdate r r'" by blast
    then have "\<lparr>Existing = r, Desired = r'\<rparr> \<in> set (ToUpdate d)" "recordKey r' = k"
      unfolding sets by (auto dest: index_SomeD)
    then show "k \<in> (\<lambda>p. recordKey (Desired p)) ` set (ToUpdate d)" by force
  qed (auto simp: sets dest: index_SomeD)
  have look: "map_of (apply_diff d (index_records existing)) k =
    (if k \<in> recordKey ` set (ToCreate d) then ?D k
     else if k \<in> (\<lambda>p. recordKey (Desired p)) ` set (ToUpdate d) then ?D k
     else if k \<in> recordKey ` set (ToDelete d) then None else ?E k)"
    unfolding apply_diff_def fold_update_lookup [of _ ?D recordKey "\<lambda>r. r", OF c]
      fold_update_lookup [of _ ?D "\<lambda>p. recordKey (Desired p)" Desired, OF u] fold_delete_lookup ..
  have refl: "\<not> recordNeedsUpdate r r" for r
    by (simp add: recordNeedsUpdate_def srvDataEquals_eq)
  show ?thesis
    unfolding look kc kd ku
    by (cases "?E k"; cases "?D k") (auto simp: refl dest: index_SomeD)
qed

text \<open>An update never changes the key, in particular not the target: such a change is a delete and a create.\<close>

lemma Compare_update_key:
  assumes "is_iteration od" "is_iteration oe" "p \<in> set (ToUpdate (CompareRecordSets od oe existing desired))"
  shows "recordKey (Existing p) = recordKey (Desired p)" "recordNeedsUpdate (Existing p) (Desired p)"
  using assms(3) unfolding Compare_sets [OF assms(1,2)] by (auto dest!: index_SomeD)

lemma HasChanges_iff:
  assumes "is_iteration od" "is_iteration oe"
  shows "HasChanges (CompareRecordSets od oe existing desired) \<longleftrightarrow>
    \<not> (\<forall>k. rel_option (\<lambda>r r'. \<not> recordNeedsUpdate r r')
        (map_of (index_records existing) k) (map_of (index_records desired) k))"
proof -
  let ?E = "map_of (index_records existing)" and ?D = "map_of (index_records desired)"
  let ?d = "CompareRecordSets od oe existing desired"
  have "HasChanges ?d \<longleftrightarrow> set (ToCreate ?d) \<noteq> {} \<or> set (ToUpdate ?d) \<noteq> {} \<or> set (ToDelete ?d) \<noteq> {}"
    by (simp add: HasChanges_def)
  moreover have "(set (ToUpdate ?d) \<noteq> {}) \<longleftrightarrow>
      (\<exists>k a b. ?E k = Some a \<and> ?D k = Some b \<and> recordNeedsUpdate a b)"
    unfolding Compare_sets [OF assms] by simp (metis RecordPair.select_convs(1,2))
  moreover have "\<not> rel_option (\<lambda>r r'. \<not> recordNeedsUpdate r r') x y \<longleftrightarrow>
      (\<exists>r. y = Some r \<and> x = None) \<or> (\<exists>r. x = Some r \<and> y = None) \<or>
      (\<exists>a b. x = Some a \<and> y = Some b \<and> recordNeedsUpdate a b)" for x y
    by (cases x; cases y) auto
  ultimately show ?thesis
    unfolding Compare_sets(1,2) [OF assms] by (simp only: not_all ex_disj_distrib) blast
qed

lemma findExactMatch_Some:
  "findExactMatch rs target t srv = Some r \<Longrightarrow>
    r \<in> set rs \<and> r_Type r = t \<and> r_Target r = target \<and> (t = RecordTypeSRV \<longrightarrow> r_SRV r = srv)"
  by (induction rs) (auto simp: srvDataEquals_eq split: if_splits)

subsection \<open>Properties\<close>

text \<open>C11: Applying a diff to the existing records yields the desired set: for every record key, the
  key is present afterwards iff it is desired, with a record that needs no update.\<close>
theorem diff_reaches_desired:
  assumes "is_iteration od" and "is_iteration oe"
  shows "rel_option (\<lambda>r r'. recordKey r = recordKey r' \<and> \<not> recordNeedsUpdate r r')
    (map_of (apply_diff (CompareRecordSets od oe existing desired) (index_records existing)) k)
    (map_of (index_records desired) k)"
  using Compare_apply [OF assms] .

theorem diff_reaches_desired_witness:
  "map_of (apply_diff (CompareRecordSets id rev
     [record_literal ''a.b'' ''A'' ''1.1.1.1''] [record_literal ''a.b'' ''A'' ''2.2.2.2''])
     (index_records [record_literal ''a.b'' ''A'' ''1.1.1.1''])) (recordKey (record_literal ''a.b'' ''A'' ''1.1.1.1'')) = None"
proof -
  have "map_of (index_records [record_literal ''a.b'' ''A'' ''2.2.2.2'']) (recordKey (record_literal ''a.b'' ''A'' ''1.1.1.1'')) = None"
    by code_simp
  then show ?thesis
    using diff_reaches_desired [of id rev "[record_literal ''a.b'' ''A'' ''1.1.1.1'']" "[record_literal ''a.b'' ''A'' ''2.2.2.2'']"
        "recordKey (record_literal ''a.b'' ''A'' ''1.1.1.1'')"]
    by simp
qed

text \<open>A diff has no changes exactly when the two sets agree key by key up to fields that need no
  update; comparing a set with itself therefore never reports work.\<close>
theorem diff_empty_iff:
  assumes "is_iteration od" "is_iteration oe"
  shows "HasChanges (CompareRecordSets od oe existing desired) \<longleftrightarrow>
    \<not> (\<forall>k. rel_option (\<lambda>r r'. \<not> recordNeedsUpdate r r')
        (map_of (index_records existing) k) (map_of (index_records desired) k))"
  using assms by (rule HasChanges_iff)

theorem diff_empty_iff_witness:
  "\<not> HasChanges (CompareRecordSets id id [record_literal ''a.b'' ''A'' ''1.1.1.1''] [record_literal ''A.b.'' ''A'' ''1.1.1.1''])"
proof -
  have i: "index_records [record_literal ''a.b'' ''A'' ''1.1.1.1''] = [(''a.b|A|1.1.1.1'', record_literal ''a.b'' ''A'' ''1.1.1.1'')]"
    "index_records [record_literal ''A.b.'' ''A'' ''1.1.1.1''] = [(''a.b|A|1.1.1.1'', record_literal ''A.b.'' ''A'' ''1.1.1.1'')]"
    "\<not> recordNeedsUpdate (record_literal ''a.b'' ''A'' ''1.1.1.1'') (record_literal ''A.b.'' ''A'' ''1.1.1.1'')" by code_simp+
  show ?thesis using i(3) diff_empty_iff [of id id "[record_literal ''a.b'' ''A'' ''1.1.1.1'']" "[record_literal ''A.b.'' ''A'' ''1.1.1.1'']"]
    unfolding i(1,2) by simp
qed

end
