(* ===== verification/ProviderManager.thy ===== *)
theory ProviderManager
  imports Complex_Main ProviderRegistry
begin

text \<open>
  \<^verbatim>\<open>pkg/provider/manager.go\<close>: initialization of the providers with a connectivity check, the
  list of pending providers and their retries with exponential backoff. Times and durations
  are nanoseconds as integers; each operation takes the readings of the clock it makes. The
  backoff multiplier is a \<^verbatim>\<open>float64\<close>, modelled by its exact value, a rational: the product
  \<^verbatim>\<open>float64(interval) * multiplier\<close> is the exact one as long as it has at most 53
  significant bits, which is the case for the default multiplier 2 on every interval up to
  the five-minute cap. An operation that panics returns \<open>None\<close>. The gauges of the metrics are left
  out.
\<close>

type_synonym time = int

record 'w ManagerConfig =
  mc_InitialRetryInterval :: time
  mc_MaxRetryInterval :: time
  mc_RetryBackoffMultiplier :: rat
  mc_OnProviderReady :: "(string \<Rightarrow> 'w ProviderInstance \<Rightarrow> 'w \<Rightarrow> 'w) option"

definition second :: time where "second = 1000000000"

definition DefaultManagerConfig :: "'w ManagerConfig" where
  "DefaultManagerConfig = \<lparr>mc_InitialRetryInterval = 5 * second, mc_MaxRetryInterval = 300 * second,
     mc_RetryBackoffMultiplier = 2, mc_OnProviderReady = None\<rparr>"

record PendingProvider =
  pp_Config :: ProviderInstanceConfig
  pp_LastError :: "err option"
  pp_LastAttempt :: time
  pp_AttemptCount :: int
  pp_NextRetryAt :: time
  pp_RetryInterval :: time

record 'w Manager =
  mgr_registry :: "'w Registry"
  mgr_config :: "'w ManagerConfig"
  mgr_pending :: "(string, PendingProvider) gomap"
  mgr_running :: bool
  mgr_loop :: bool   \<comment> \<open>the retry goroutine is alive\<close>

definition NewManager :: "'w Registry \<Rightarrow> 'w ManagerConfig \<Rightarrow> 'w Manager" where
  "NewManager registry config = \<lparr>mgr_registry = registry, mgr_config = config, mgr_pending = [],
     mgr_running = False, mgr_loop = False\<rparr>"

definition SetOnProviderReady ::
  "(string \<Rightarrow> 'w ProviderInstance \<Rightarrow> 'w \<Rightarrow> 'w) \<Rightarrow> 'w Manager \<Rightarrow> 'w Manager" where
  "SetOnProviderReady fn m = m\<lparr>mgr_config := (mgr_config m)\<lparr>mc_OnProviderReady := Some fn\<rparr>\<rparr>"

text \<open>
  Creation and connectivity check, the common part of the first attempt and of a retry: on a
  failed ping the new instance is removed again. The last component is whether \<^verbatim>\<open>Get\<close> found
  the instance.
\<close>

definition create_and_ping ::
  "engine \<Rightarrow> ProviderInstanceConfig \<Rightarrow> 'w Registry \<times> 'w \<Rightarrow> err option \<times> bool \<times> 'w Registry \<times> 'w" where
  "create_and_ping rx cfg st =
     (case CreateInstance rx cfg st of
        (Some e, r, w) \<Rightarrow> (Some e, False, r, w)
      | (None, r, w) \<Rightarrow>
          (case Get r (cfg_Name cfg) of
             None \<Rightarrow> (None, False, r, w)
           | Some inst \<Rightarrow>
               (case p_Ping (pi_Provider inst) w of
                  (Some pingErr, w') \<Rightarrow>
                    (Some (Errorf ''connectivity check failed: '' pingErr), True,
                     snd (Remove (cfg_Name cfg) r), w')
                | (None, w') \<Rightarrow> (None, True, r, w'))))"

definition InitializeProvider ::
  "engine \<Rightarrow> time \<times> time \<Rightarrow> ProviderInstanceConfig \<Rightarrow> 'w Manager \<times> 'w \<Rightarrow>
   (err option \<times> 'w Manager \<times> 'w) option" where
  "InitializeProvider rx now cfg st =
     (let (m, w) = st in
      case cfg_Validate cfg of
        Some e \<Rightarrow> Some (Some (Errorf (''invalid provider config '' @ Quote (cfg_Name cfg) @ '': '') e), m, w)
      | None \<Rightarrow>
          (case create_and_ping rx cfg (mgr_registry m, w) of
             (None, True, r, w') \<Rightarrow> Some (None, m\<lparr>mgr_registry := r\<rparr>, w')
           | (e, _, r, w') \<Rightarrow>
               if e = None then None   \<comment> \<open>\<^verbatim>\<open>err.Error()\<close> on a nil error\<close>
               else Some (None,
                 m\<lparr>mgr_registry := r,
                   mgr_pending := AList.update (cfg_Name cfg)
                     \<lparr>pp_Config = cfg, pp_LastError = e, pp_LastAttempt = fst now, pp_AttemptCount = 1,
                      pp_NextRetryAt = snd now + mc_InitialRetryInterval (mgr_config m),
                      pp_RetryInterval = mc_InitialRetryInterval (mgr_config m)\<rparr> (mgr_pending m)\<rparr>,
                 w')))"

definition Manager_Start :: "'w Manager \<Rightarrow> err option \<times> 'w Manager" where
  "Manager_Start m =
     (if mgr_running m then (Some (ErrorNew ''provider manager already running''), m)
      else (None, m\<lparr>mgr_running := True, mgr_loop := True\<rparr>))"

text \<open>\<^verbatim>\<open>Stop\<close> returns once the retry goroutine has closed its done channel.\<close>

definition Manager_Stop :: "'w Manager \<Rightarrow> 'w Manager" where
  "Manager_Stop m = (if \<not> mgr_running m then m else m\<lparr>mgr_running := False, mgr_loop := False\<rparr>)"

text \<open>\<^verbatim>\<open>time.Duration(f)\<close> of a float truncates toward zero.\<close>

definition to_duration :: "rat \<Rightarrow> time" where
  "to_duration x = (if 0 \<le> x then \<lfloor>x\<rfloor> else \<lceil>x\<rceil>)"

definition next_interval :: "'w ManagerConfig \<Rightarrow> time \<Rightarrow> time" where
  "next_interval c interval =
     (let newInterval = to_duration (of_int interval * mc_RetryBackoffMultiplier c) in
      if newInterval > mc_MaxRetryInterval c then mc_MaxRetryInterval c else newInterval)"

text \<open>The pending entry is reached through its pointer; it is still the one of the map.\<close>

definition retryProvider ::
  "engine \<Rightarrow> time \<times> time \<Rightarrow> PendingProvider \<Rightarrow> 'w Manager \<times> 'w \<Rightarrow> 'w Manager \<times> 'w" where
  "retryProvider rx now pending st =
     (let (m, w) = st; cfg = pp_Config pending in
      case create_and_ping rx cfg (mgr_registry m, w) of
        (None, _, r, w') \<Rightarrow>
          (m\<lparr>mgr_registry := r, mgr_pending := AList.delete (cfg_Name cfg) (mgr_pending m)\<rparr>,
           (case mc_OnProviderReady (mgr_config m) of
              None \<Rightarrow> w'
            | Some callback \<Rightarrow>
                (case Get r (cfg_Name cfg) of None \<Rightarrow> w' | Some inst \<Rightarrow> callback (cfg_Name cfg) inst w')))
      | (Some e, _, r, w') \<Rightarrow>
          let newInterval = next_interval (mgr_config m) (pp_RetryInterval pending);
              pending' = pending\<lparr>pp_LastError := Some e, pp_LastAttempt := fst now,
                            pp_AttemptCount := pp_AttemptCount pending + 1,
                            pp_RetryInterval := newInterval, pp_NextRetryAt := snd now + newInterval\<rparr>
          in (m\<lparr>mgr_registry := r,
                mgr_pending := AList.update (cfg_Name cfg) pending' (mgr_pending m)\<rparr>, w'))"

definition due :: "time \<Rightarrow> (string, PendingProvider) gomap \<Rightarrow> string iteration \<Rightarrow> PendingProvider list" where
  "due now pending order =
     filter (\<lambda>p. pp_NextRetryAt p \<le> now) (map (\<lambda>n. the (map_of pending n)) (order (map fst pending)))"

text \<open>\<open>clock n\<close> are the readings made while provider \<open>n\<close> is retried.\<close>

definition retryPendingProviders ::
  "engine \<Rightarrow> string iteration \<Rightarrow> time \<Rightarrow> (string \<Rightarrow> time \<times> time) \<Rightarrow> 'w Manager \<times> 'w \<Rightarrow> 'w Manager \<times> 'w" where
  "retryPendingProviders rx order now clock st =
     foldl (\<lambda>st p. retryProvider rx (clock (cfg_Name (pp_Config p))) p st) st
       (due now (mgr_pending (fst st)) order)"

definition PendingCount :: "'w Manager \<Rightarrow> nat" where
  "PendingCount m = length (mgr_pending m)"

definition ReadyCount :: "'w Manager \<Rightarrow> nat" where
  "ReadyCount m = Count (mgr_registry m)"

definition TotalCount :: "'w Manager \<Rightarrow> nat" where
  "TotalCount m = ReadyCount m + PendingCount m"

definition IsFullyReady :: "'w Manager \<Rightarrow> bool" where
  "IsFullyReady m \<longleftrightarrow> PendingCount m = 0"

record PendingProviderStatus =
  ps_Name :: string
  ps_Type :: string
  ps_LastError :: string
  ps_LastAttempt :: time
  ps_AttemptCount :: int
  ps_NextRetryAt :: time

text \<open>A nil \<^verbatim>\<open>LastError\<close> would panic.\<close>

definition pending_status :: "PendingProvider \<Rightarrow> PendingProviderStatus option" where
  "pending_status p =
     map_option (\<lambda>e. \<lparr>ps_Name = cfg_Name (pp_Config p), ps_Type = cfg_TypeName (pp_Config p),
        ps_LastError = Error e, ps_LastAttempt = pp_LastAttempt p,
        ps_AttemptCount = pp_AttemptCount p, ps_NextRetryAt = pp_NextRetryAt p\<rparr>) (pp_LastError p)"

definition PendingProviders :: "string iteration \<Rightarrow> 'w Manager \<Rightarrow> PendingProviderStatus list option" where
  "PendingProviders order m =
     those (map (\<lambda>n. pending_status (the (map_of (mgr_pending m) n))) (order (map fst (mgr_pending m))))"

record ProviderStatus =
  st_Name :: string
  st_Type :: string
  st_Available :: bool
  st_Error :: string

definition AllProviderStatuses :: "string iteration \<Rightarrow> 'w Manager \<Rightarrow> ProviderStatus list option" where
  "AllProviderStatuses order m =
     (let ready = map (\<lambda>i. \<lparr>st_Name = Name i, st_Type = Type i, st_Available = True, st_Error = []\<rparr>)
                    (All (mgr_registry m)) in
      map_option (\<lambda>ps. ready @ map (\<lambda>s. \<lparr>st_Name = ps_Name s, st_Type = ps_Type s,
                                         st_Available = False, st_Error = ps_LastError s\<rparr>) ps)
        (PendingProviders order m))"

subsection \<open>One attempt\<close>

lemma create_and_ping_cases:
  assumes "wf_registry r" and "create_and_ping rx cfg (r, w) = (e, found, r', w')"
  obtains (failed) x where "e = Some x" "reg_instances r' = reg_instances r" "reg_byName r' = reg_byName r"
      "wf_registry r'"
  | (ready) i where "e = None" "found" "reg_instances r' = reg_instances r @ [i]"
      "Get r' (cfg_Name cfg) = Some i" "\<not> has_key (reg_byName r) (cfg_Name cfg)"
      "\<And>n. has_key (reg_byName r') n \<longleftrightarrow> n = cfg_Name cfg \<or> has_key (reg_byName r) n"
      "wf_registry r'" "cfg_Validate cfg = None"
proof (cases "CreateInstance rx cfg (r, w)")
  case (fields ce cr cw)
  show thesis
  proof (cases ce)
    case (Some x)
    from fields show thesis
    proof (cases rule: CreateInstance_cases)
      case failed': failed
      then show thesis using assms fields Some by (intro failed [of x]) (auto simp: create_and_ping_def)
    qed (simp add: Some)
  next
    case None
    note ci = fields [unfolded None]
    have wf: "wf_registry cr" using assms(1) ci by (rule wf_CreateInstance)
    obtain i where i: "Get cr (cfg_Name cfg) = Some i" "reg_instances cr = reg_instances r @ [i]"
      using Get_CreateInstance [OF assms(1) ci] by metis
    have keys: "\<not> has_key (reg_byName r) (cfg_Name cfg)" "cfg_Validate cfg = None"
      "has_key (reg_byName cr) n \<longleftrightarrow> n = cfg_Name cfg \<or> has_key (reg_byName r) n" for n
      using ci by (cases rule: CreateInstance_cases; auto)+
    show thesis
    proof (cases "p_Ping (pi_Provider i) cw")
      case (Pair pe pw)
      show thesis
      proof (cases pe)
        case (Some x)
        then show thesis
          using assms(2) ci i Pair Remove_CreateInstance [OF assms(1) ci] wf_Remove [OF wf]
          by (intro failed [of "Errorf ''connectivity check failed: '' x"]) (auto simp: create_and_ping_def)
      next
        case None
        then show thesis
          using assms(2) ci i Pair keys wf by (intro ready [of i]) (auto simp: create_and_ping_def)
      qed
    qed
  qed
qed

subsection \<open>Invariant of the manager\<close>

definition interval_cap :: "'w ManagerConfig \<Rightarrow> time" where
  "interval_cap c = max (mc_InitialRetryInterval c) (mc_MaxRetryInterval c)"

text \<open>A pending entry: filed under its name, valid, with its last error, a capped interval, not ready.\<close>

definition wf_entry :: "'w Manager \<Rightarrow> string \<Rightarrow> PendingProvider \<Rightarrow> bool" where
  "wf_entry m n p \<longleftrightarrow> cfg_Name (pp_Config p) = n \<and> cfg_Validate (pp_Config p) = None \<and>
     pp_LastError p \<noteq> None \<and> 1 \<le> pp_AttemptCount p \<and>
     pp_RetryInterval p \<le> interval_cap (mgr_config m) \<and> \<not> has_key (reg_byName (mgr_registry m)) n"

definition wf_manager :: "'w Manager \<Rightarrow> bool" where
  "wf_manager m \<longleftrightarrow> wf_registry (mgr_registry m) \<and> wf_map (mgr_pending m) \<and>
     (\<forall>n p. map_of (mgr_pending m) n = Some p \<longrightarrow> wf_entry m n p)"

definition configured :: "'w Manager \<Rightarrow> string set" where
  "configured m = {n. has_key (reg_byName (mgr_registry m)) n \<or> has_key (mgr_pending m) n}"

lemma wf_managerD:
  "wf_manager m \<Longrightarrow> wf_registry (mgr_registry m)" "wf_manager m \<Longrightarrow> wf_map (mgr_pending m)"
  "wf_manager m \<Longrightarrow> map_of (mgr_pending m) n = Some p \<Longrightarrow> wf_entry m n p"
  by (auto simp: wf_manager_def)

lemma wf_managerI:
  assumes "wf_registry (mgr_registry m)" "wf_map (mgr_pending m)"
    and "\<And>n p. map_of (mgr_pending m) n = Some p \<Longrightarrow> wf_entry m n p"
  shows "wf_manager m"
  using assms by (simp add: wf_manager_def)

text \<open>Another state keeps an entry when the provider has not become ready there.\<close>

lemma wf_entry_mono:
  "wf_entry m n p \<Longrightarrow> mgr_config m' = mgr_config m \<Longrightarrow> \<not> has_key (reg_byName (mgr_registry m')) n \<Longrightarrow>
    wf_entry m' n p"
  by (simp add: wf_entry_def)

lemma wf_manager_update:
  assumes "wf_manager m" and "wf_registry r" and "reg_byName r = reg_byName (mgr_registry m)"
    and m': "m' = m\<lparr>mgr_registry := r, mgr_pending := AList.update k p (mgr_pending m)\<rparr>"
    and "wf_entry m' k p"
  shows "wf_manager m'"
proof (rule wf_managerI)
  fix n q assume q: "map_of (mgr_pending m') n = Some q"
  show "wf_entry m' n q"
  proof (cases "n = k")
    case False
    then have e: "wf_entry m n q" using q assms(1) m' by (auto intro: wf_managerD)
    then have "\<not> has_key (reg_byName (mgr_registry m')) n" using m' assms(3) by (simp add: wf_entry_def)
    with e show ?thesis using m' by (auto intro: wf_entry_mono)
  qed (use q assms(5) m' in simp)
qed (use assms(1,2) m' in \<open>simp_all add: wf_managerD wf_map_update\<close>)

lemma next_interval_cap: "next_interval c i \<le> mc_MaxRetryInterval c"
  by (simp add: next_interval_def Let_def)

lemma InitializeProvider_cases:
  assumes "wf_registry (mgr_registry m)" and "InitializeProvider rx now cfg (m, w) = res"
  obtains (invalid) e where "res = Some (Some e, m, w)" "cfg_Validate cfg \<noteq> None"
  | (ready) r i w' where "res = Some (None, m\<lparr>mgr_registry := r\<rparr>, w')" "wf_registry r"
      "cfg_Validate cfg = None" "\<not> has_key (reg_byName (mgr_registry m)) (cfg_Name cfg)"
      "\<And>n. has_key (reg_byName r) n \<longleftrightarrow> n = cfg_Name cfg \<or> has_key (reg_byName (mgr_registry m)) n"
      "reg_instances r = reg_instances (mgr_registry m) @ [i]" "Get r (cfg_Name cfg) = Some i"
  | (pending) r e w' p where
      "res = Some (None, m\<lparr>mgr_registry := r,
                           mgr_pending := AList.update (cfg_Name cfg) p (mgr_pending m)\<rparr>, w')"
      "wf_registry r" "cfg_Validate cfg = None" "reg_byName r = reg_byName (mgr_registry m)"
      "p = \<lparr>pp_Config = cfg, pp_LastError = Some e, pp_LastAttempt = fst now, pp_AttemptCount = 1,
            pp_NextRetryAt = snd now + mc_InitialRetryInterval (mgr_config m),
            pp_RetryInterval = mc_InitialRetryInterval (mgr_config m)\<rparr>"
      "reg_instances r = reg_instances (mgr_registry m)"
proof (cases "cfg_Validate cfg")
  case (Some e)
  then have "res = Some (Some (Errorf (''invalid provider config '' @ Quote (cfg_Name cfg) @ '': '') e), m, w)"
    using assms(2) by (simp add: InitializeProvider_def)
  with Some show thesis by (intro invalid) auto
next
  case None
  obtain e found r w' where cp: "create_and_ping rx cfg (mgr_registry m, w) = (e, found, r, w')"
    by (metis prod_cases4)
  from assms(1) cp show thesis
  proof (cases rule: create_and_ping_cases)
    case (failed x)
    then show thesis
      using assms(2) None cp by (intro pending [where r = r and w' = w' and e = x]) (auto simp: InitializeProvider_def)
  next
    case (ready i)
    then show thesis
      using assms(2) None cp by (intro that(2) [where r = r and w' = w' and i = i]) (auto simp: InitializeProvider_def)
  qed
qed

lemma retryProvider_cases:
  assumes "wf_registry (mgr_registry m)" and "retryProvider rx now p (m, w) = (m', w')"
  obtains (ready) r i where
      "m' = m\<lparr>mgr_registry := r, mgr_pending := AList.delete (cfg_Name (pp_Config p)) (mgr_pending m)\<rparr>"
      "wf_registry r" "reg_instances r = reg_instances (mgr_registry m) @ [i]"
      "Get r (cfg_Name (pp_Config p)) = Some i"
      "\<And>n. has_key (reg_byName r) n \<longleftrightarrow> n = cfg_Name (pp_Config p) \<or> has_key (reg_byName (mgr_registry m)) n"
  | (pending) r e where
      "m' = m\<lparr>mgr_registry := r, mgr_pending := AList.update (cfg_Name (pp_Config p))
               (p\<lparr>pp_LastError := Some e, pp_LastAttempt := fst now,
                  pp_AttemptCount := pp_AttemptCount p + 1,
                  pp_RetryInterval := next_interval (mgr_config m) (pp_RetryInterval p),
                  pp_NextRetryAt := snd now + next_interval (mgr_config m) (pp_RetryInterval p)\<rparr>)
               (mgr_pending m)\<rparr>"
      "wf_registry r" "reg_byName r = reg_byName (mgr_registry m)"
      "reg_instances r = reg_instances (mgr_registry m)"
proof -
  obtain e found r w1 where cp:
      "create_and_ping rx (pp_Config p) (mgr_registry m, w) = (e, found, r, w1)"
    by (metis prod_cases4)
  from assms(1) cp show thesis
  proof (cases rule: create_and_ping_cases)
    case (failed x)
    then show thesis
      using assms(2) cp by (intro pending [where r = r and e = x]) (auto simp: retryProvider_def Let_def)
  next
    case (ready i)
    then show thesis
      using assms(2) cp by (intro that(1) [where r = r and i = i]) (auto simp: retryProvider_def Let_def)
  qed
qed

lemma wf_InitializeProvider:
  assumes "wf_manager m" and "\<not> has_key (mgr_pending m) (cfg_Name cfg)"
    and "\<not> has_key (reg_byName (mgr_registry m)) (cfg_Name cfg)"
    and "InitializeProvider rx now cfg (m, w) = Some (e, m', w')"
  shows "wf_manager m'"
proof -
  note entry = wf_managerD(3) [OF assms(1)]
  have nk: "\<not> has_key (reg_byName (mgr_registry m)) n" if "map_of (mgr_pending m) n = Some p" for n p
    using entry [OF that] by (simp add: wf_entry_def)
  show ?thesis
    using wf_managerD(1) [OF assms(1)] assms(4)
  proof (cases rule: InitializeProvider_cases)
    case (ready r i w2)
    have "n \<noteq> cfg_Name cfg" if "map_of (mgr_pending m) n = Some p" for n p
      using that assms(2) by (auto simp: has_key_def)
    then show ?thesis
      using ready wf_managerD(2) [OF assms(1)] nk
      by (auto intro!: wf_managerI intro: wf_entry_mono [OF entry])
  next
    case (pending r x w2 p)
    have "wf_entry m' (cfg_Name cfg) p"
      using pending assms(3) by (simp add: wf_entry_def interval_cap_def)
    then show ?thesis
      using pending by (intro wf_manager_update [OF assms(1) pending(2,4)]) auto
  qed (use assms(1) in simp)
qed

lemma wf_retryProvider:
  assumes "wf_manager m" and "map_of (mgr_pending m) (cfg_Name (pp_Config p)) = Some p"
    and "retryProvider rx now p (m, w) = (m', w')"
  shows "wf_manager m' \<and> configured m' = configured m \<and>
    (\<forall>n. n \<noteq> cfg_Name (pp_Config p) \<longrightarrow> map_of (mgr_pending m') n = map_of (mgr_pending m) n)"
proof -
  note entry = wf_managerD(3) [OF assms(1)]
  have nk: "\<not> has_key (reg_byName (mgr_registry m)) n" if "map_of (mgr_pending m) n = Some q" for n q
    using entry [OF that] by (simp add: wf_entry_def)
  show ?thesis
    using wf_managerD(1) [OF assms(1)] assms(3)
  proof (cases rule: retryProvider_cases)
    case (ready r i)
    have "wf_manager m'"
      using ready wf_managerD(2) [OF assms(1)] nk
      by (auto intro!: wf_managerI wf_map_delete intro: wf_entry_mono [OF entry] split: if_splits)
    then show ?thesis
      using ready(1,5) assms(2) by (auto simp: configured_def has_key_def)
  next
    case (pending r e)
    then have "wf_manager m'"
      using entry [OF assms(2)] next_interval_cap [of "mgr_config m" "pp_RetryInterval p"]
      by (intro wf_manager_update [OF assms(1) pending(2,3,1)])
        (simp add: wf_entry_def interval_cap_def le_max_iff_disj)
    then show ?thesis
      using pending(1,3) assms(2) by (auto simp: configured_def has_key_def)
  qed
qed

lemma wf_retry_list:
  assumes "wf_manager m" and "distinct (map (\<lambda>p. cfg_Name (pp_Config p)) ps)"
    and "\<forall>p \<in> set ps. map_of (mgr_pending m) (cfg_Name (pp_Config p)) = Some p"
    and "foldl (\<lambda>st p. retryProvider rx (clock (cfg_Name (pp_Config p))) p st) (m, w) ps = (m', w')"
  shows "wf_manager m' \<and> configured m' = configured m"
  using assms
proof (induction ps arbitrary: m w)
  case (Cons p ps)
  obtain m1 w1 where r: "retryProvider rx (clock (cfg_Name (pp_Config p))) p (m, w) = (m1, w1)"
    by fastforce
  note st = wf_retryProvider [OF Cons.prems(1) _ r]
  have "\<forall>q \<in> set ps. map_of (mgr_pending m1) (cfg_Name (pp_Config q)) = Some q"
    using st Cons.prems(2,3) by auto (metis (no_types, lifting) imageI)
  then show ?case using Cons.IH [of m1 w1] st Cons.prems r by simp
qed simp

lemma due_entries:
  assumes "wf_manager m" and "is_iteration order"
  shows "distinct (map (\<lambda>p. cfg_Name (pp_Config p)) (due now (mgr_pending m) order))"
    and "p \<in> set (due now (mgr_pending m) order) \<longleftrightarrow>
      map_of (mgr_pending m) (cfg_Name (pp_Config p)) = Some p \<and> pp_NextRetryAt p \<le> now"
proof -
  let ?ks = "order (map fst (mgr_pending m))"
  have d: "distinct ?ks" "set ?ks = fst ` set (mgr_pending m)"
    using assms by (auto simp: is_iteration_def wf_manager_def wf_map_def)
  have name: "\<exists>p. map_of (mgr_pending m) n = Some p \<and> cfg_Name (pp_Config p) = n" if "n \<in> set ?ks" for n
  proof -
    from that d(2) obtain p where "map_of (mgr_pending m) n = Some p"
      by (metis map_of_eq_None_iff not_Some_eq)
    then show ?thesis using wf_managerD(3) [OF assms(1)] by (auto simp: wf_entry_def)
  qed
  have "map (\<lambda>p. cfg_Name (pp_Config p)) (map (\<lambda>n. the (map_of (mgr_pending m) n)) ?ks) = map id ?ks"
    unfolding map_map by (rule map_cong) (use name in fastforce)+
  then show "distinct (map (\<lambda>p. cfg_Name (pp_Config p)) (due now (mgr_pending m) order))"
    unfolding due_def by (intro distinct_map_filter) (simp add: d(1))
  show "p \<in> set (due now (mgr_pending m) order) \<longleftrightarrow>
      map_of (mgr_pending m) (cfg_Name (pp_Config p)) = Some p \<and> pp_NextRetryAt p \<le> now" (is "?l \<longleftrightarrow> ?r")
  proof
    assume ?l
    then obtain n where "n \<in> set ?ks" "p = the (map_of (mgr_pending m) n)" "pp_NextRetryAt p \<le> now"
      by (auto simp: due_def)
    then show ?r using name [of n] by auto
  next
    assume r: ?r
    then have "cfg_Name (pp_Config p) \<in> set ?ks" using d(2) by (force dest: map_of_SomeD)
    with r show ?l by (force simp: due_def)
  qed
qed

lemma wf_retryPendingProviders:
  assumes "wf_manager m" and "is_iteration order"
    and "retryPendingProviders rx order now clock (m, w) = (m', w')"
  shows "wf_manager m' \<and> configured m' = configured m"
  using assms(3) due_entries [OF assms(1,2)]
  by (intro wf_retry_list [OF assms(1)]) (auto simp: retryPendingProviders_def)

subsection \<open>Runs of the manager\<close>

text \<open>
  Each configured provider is initialized once (\<^verbatim>\<open>internal/config\<close> rejects duplicate instance
  names); the retry loop ticks while its goroutine is alive; the world moves on its own.
\<close>

inductive mgr_step :: "engine \<Rightarrow> 'w Manager \<times> 'w \<Rightarrow> 'w Manager \<times> 'w \<Rightarrow> bool" for rx where
  mgr_init: "cfg_Name cfg \<notin> configured m \<Longrightarrow> InitializeProvider rx now cfg (m, w) = Some (e, m', w') \<Longrightarrow>
    mgr_step rx (m, w) (m', w')"
| mgr_tick: "mgr_loop m \<Longrightarrow> is_iteration order \<Longrightarrow>
    retryPendingProviders rx order now clock (m, w) = (m', w') \<Longrightarrow> mgr_step rx (m, w) (m', w')"
| mgr_start: "mgr_step rx (m, w) (snd (Manager_Start m), w)"
| mgr_stop: "mgr_step rx (m, w) (Manager_Stop m, w)"
| mgr_done: "mgr_step rx (m, w) (m\<lparr>mgr_loop := False\<rparr>, w)"
| mgr_callback: "mgr_step rx (m, w) (SetOnProviderReady fn m, w)"
| mgr_world: "mgr_step rx (m, w) (m, w')"

inductive mgr_reach :: "engine \<Rightarrow> 'w Registry \<Rightarrow> 'w ManagerConfig \<Rightarrow> 'w Manager \<times> 'w \<Rightarrow> bool"
  for rx r c where
  mgr_new: "mgr_reach rx r c (NewManager r c, w)"
| mgr_next: "mgr_reach rx r c s \<Longrightarrow> mgr_step rx s t \<Longrightarrow> mgr_reach rx r c t"

lemma wf_manager_config:
  "mgr_registry m' = mgr_registry m \<Longrightarrow> mgr_pending m' = mgr_pending m \<Longrightarrow>
   interval_cap (mgr_config m') = interval_cap (mgr_config m) \<Longrightarrow> wf_manager m' = wf_manager m"
  by (simp add: wf_manager_def wf_entry_def)

lemma wf_mgr_step: "mgr_step rx s t \<Longrightarrow> wf_manager (fst s) \<Longrightarrow> wf_manager (fst t)"
proof (induction rule: mgr_step.induct)
  case (mgr_init cfg m now w e m' w')
  then show ?case using wf_InitializeProvider [of m cfg rx now w e m' w'] by (simp add: configured_def)
next
  case (mgr_tick m order now clock w m' w')
  then show ?case using wf_retryPendingProviders by fastforce
qed (auto simp: Manager_Start_def Manager_Stop_def SetOnProviderReady_def interval_cap_def
     elim!: wf_manager_config [THEN iffD2, rotated 3])

lemma mgr_reach_wf:
  "mgr_reach rx r c s \<Longrightarrow> wf_registry r \<Longrightarrow> wf_manager (fst s)"
proof (induction rule: mgr_reach.induct)
  case (mgr_new w)
  then show ?case by (simp add: wf_manager_def NewManager_def)
next
  case (mgr_next s t)
  then show ?case using wf_mgr_step by blast
qed

lemma Initialize_total:
  "wf_manager m \<Longrightarrow> \<exists>e m' w'. InitializeProvider rx now cfg (m, w) = Some (e, m', w')"
  by (rule InitializeProvider_cases [OF wf_managerD(1) refl]) auto

lemma those_total: "(\<And>x. x \<in> set xs \<Longrightarrow> f x \<noteq> None) \<Longrightarrow> \<exists>ys. those (map f xs) = Some ys"
proof (induction xs)
  case (Cons a xs)
  then obtain y ys where "f a = Some y" "those (map f xs) = Some ys" by fastforce
  then show ?case by simp
qed simp

lemma statuses_total:
  assumes "wf_manager m" and "is_iteration order"
  shows "\<exists>xs. AllProviderStatuses order m = Some xs"
proof -
  have "set (order (map fst (mgr_pending m))) = fst ` set (mgr_pending m)"
    using is_iteration_set [OF assms(2)] wf_managerD(2) [OF assms(1)] by (simp add: wf_map_def)
  moreover have "pending_status (the (map_of (mgr_pending m) n)) \<noteq> None"
    if n: "n \<in> fst ` set (mgr_pending m)" for n
  proof -
    obtain p where p: "map_of (mgr_pending m) n = Some p"
      using key_lookup [OF n] by blast
    then have "wf_entry m n p" by (rule wf_managerD(3) [OF assms(1)])
    then have "pp_LastError p \<noteq> None" by (simp add: wf_entry_def)
    then show ?thesis using p by (simp add: pending_status_def)
  qed
  ultimately have "\<exists>ys. PendingProviders order m = Some ys"
    unfolding PendingProviders_def by (intro those_total) auto
  then show ?thesis by (auto simp: AllProviderStatuses_def Let_def)
qed

subsection \<open>Backoff\<close>

lemma next_interval_double:
  "mc_RetryBackoffMultiplier c = 2 \<Longrightarrow> 0 \<le> i \<Longrightarrow> next_interval c i = min (2 * i) (mc_MaxRetryInterval c)"
proof -
  assume a: "mc_RetryBackoffMultiplier c = 2" "0 \<le> i"
  have "of_int i * (2 :: rat) = of_int (2 * i)" by simp
  then have "to_duration (of_int i * 2) = 2 * i"
    unfolding to_duration_def using a(2) by (simp only: floor_of_int) simp
  then show ?thesis using a by (simp add: next_interval_def Let_def min_def)
qed

lemma backoff_sequence:
  assumes "mc_RetryBackoffMultiplier c = 2" and "0 \<le> mc_InitialRetryInterval c"
    and "mc_InitialRetryInterval c \<le> mc_MaxRetryInterval c"
  shows "(next_interval c ^^ k) (mc_InitialRetryInterval c) =
    min (mc_InitialRetryInterval c * 2 ^ k) (mc_MaxRetryInterval c)"
proof (induction k)
  case (Suc k)
  let ?i = "min (mc_InitialRetryInterval c * 2 ^ k) (mc_MaxRetryInterval c)"
  have "0 \<le> ?i" using assms(2,3) by simp
  then have "next_interval c ?i = min (2 * ?i) (mc_MaxRetryInterval c)"
    by (rule next_interval_double [OF assms(1)])
  also have "\<dots> = min (mc_InitialRetryInterval c * 2 ^ Suc k) (mc_MaxRetryInterval c)"
    using assms(2,3) by (auto simp: min_def)
  finally show ?case using Suc by simp
qed (use assms in simp)

subsection \<open>Properties\<close>


definition ex_provider_config :: ProviderInstanceConfig where
  "ex_provider_config = \<lparr>cfg_Name = ''p'', cfg_TypeName = ''none'', cfg_RecordType = ''A'', cfg_Target = ''10.0.0.1'',
     cfg_TTL = 300, cfg_Mode = [], cfg_Domains = [''*.x''], cfg_ExcludeDomains = [], cfg_DomainsRegex = [],
     cfg_ExcludeDomainsRegex = [], cfg_MetadataFilters = [], cfg_ProviderConfig = []\<rparr>"

definition ex_init :: "(err option \<times> nat Manager \<times> nat) option" where
  "ex_init = InitializeProvider fragment_engine (5, 6) ex_provider_config (NewManager NewRegistry DefaultManagerConfig, 0)"


text \<open>C13: A retry tick loses no provider: whatever the backends answer, the configured names, ready or
  pending, are the same after it, and the invariant is kept.\<close>
theorem retry_tick_loses_nothing:
  assumes "wf_manager m" and "is_iteration order"
    and "retryPendingProviders rx order now clock (m, w) = (m', w')"
  shows "wf_manager m' \<and> configured m' = configured m"
  using assms by (rule wf_retryPendingProviders)

definition ex_pending :: PendingProvider where
  "ex_pending = \<lparr>pp_Config = ex_provider_config, pp_LastError = Some (ErrorNew ''down''), pp_LastAttempt = 0,
     pp_AttemptCount = 1, pp_NextRetryAt = 5, pp_RetryInterval = 5\<rparr>"

definition ex_manager :: "nat Manager" where
  "ex_manager = (NewManager NewRegistry DefaultManagerConfig)\<lparr>mgr_pending := [(''p'', ex_pending)]\<rparr>"

theorem retry_tick_loses_nothing_witness:
  "configured (fst (retryPendingProviders fragment_engine id 5 (\<lambda>_. (6, 7)) (ex_manager, 0))) = {''p''} \<and>
   map (pp_AttemptCount \<circ> snd) (mgr_pending (fst (retryPendingProviders fragment_engine id 5 (\<lambda>_. (6, 7)) (ex_manager, 0)))) = [2]"
proof -
  have "cfg_Validate ex_provider_config = None" "cfg_Name ex_provider_config = ''p''"
    "reg_byName (NewRegistry :: nat Registry) = []" by code_simp+
  then have wf: "wf_manager ex_manager"
    by (auto simp: wf_manager_def ex_manager_def wf_entry_def NewManager_def ex_pending_def interval_cap_def
        DefaultManagerConfig_def second_def wf_map_def split: if_splits)
  obtain m' w' where t: "retryPendingProviders fragment_engine id 5 (\<lambda>_. (6, 7)) (ex_manager, 0) = (m', w')"
    by fastforce
  have "configured m' = configured ex_manager"
    using retry_tick_loses_nothing [OF wf _ t] by simp
  moreover have "configured ex_manager = {''p''}"
    by (auto simp: configured_def ex_manager_def NewManager_def NewRegistry_def has_key_def split: if_splits)
  moreover have "map (pp_AttemptCount \<circ> snd) (mgr_pending (fst (retryPendingProviders fragment_engine id 5 (\<lambda>_. (6, 7)) (ex_manager, 0)))) = [2]"
    by code_simp
  ultimately show ?thesis using t by simp
qed

text \<open>With a doubling multiplier the interval after \<open>k\<close> failures is the initial interval times
  \<open>2 ^ k\<close>, up to the maximum: the backoff is exponential and bounded.\<close>
lemma backoff_exponential_capped:
  assumes "mc_RetryBackoffMultiplier c = 2" and "0 \<le> mc_InitialRetryInterval c"
    and "mc_InitialRetryInterval c \<le> mc_MaxRetryInterval c"
  shows "(next_interval c ^^ k) (mc_InitialRetryInterval c) =
    min (mc_InitialRetryInterval c * 2 ^ k) (mc_MaxRetryInterval c)"
  using assms by (rule backoff_sequence)

theorem backoff_exponential_capped_witness:
  "(next_interval DefaultManagerConfig ^^ 7) (5 * second) = 300 * second \<and>
   (next_interval DefaultManagerConfig ^^ 2) (5 * second) = 20 * second"
  using backoff_exponential_capped [of DefaultManagerConfig 7] backoff_exponential_capped [of DefaultManagerConfig 2]
  by (simp add: DefaultManagerConfig_def second_def)

end
