(* ===== verification/Result.thy ===== *)
theory Result
  imports ProviderManager
begin

text \<open>
  \<^verbatim>\<open>internal/reconciler/result.go\<close>: the actions of a reconciliation and the counters over
  them. A zero \<^verbatim>\<open>EndTime\<close> is \<open>None\<close>. The text of \<^verbatim>\<open>Summary\<close> is left out (formatting of
  durations).
\<close>

type_synonym ActionType = string
type_synonym ActionStatus = string

definition ActionCreate :: ActionType where "ActionCreate = ''create''"
definition ActionUpdate :: ActionType where "ActionUpdate = ''update''"
definition ActionDelete :: ActionType where "ActionDelete = ''delete''"
definition ActionSkip :: ActionType where "ActionSkip = ''skip''"

definition StatusPending :: ActionStatus where "StatusPending = ''pending''"
definition StatusSuccess :: ActionStatus where "StatusSuccess = ''success''"
definition StatusFailed :: ActionStatus where "StatusFailed = ''failed''"
definition StatusSkipped :: ActionStatus where "StatusSkipped = ''skipped''"

lemmas Action_defs = ActionCreate_def ActionUpdate_def ActionDelete_def ActionSkip_def
lemmas Status_defs = StatusPending_def StatusSuccess_def StatusFailed_def StatusSkipped_def

lemma action_neq [simp]:
  "ActionCreate \<noteq> ActionUpdate" "ActionCreate \<noteq> ActionDelete" "ActionCreate \<noteq> ActionSkip"
  "ActionUpdate \<noteq> ActionCreate" "ActionUpdate \<noteq> ActionDelete" "ActionUpdate \<noteq> ActionSkip"
  "ActionDelete \<noteq> ActionCreate" "ActionDelete \<noteq> ActionUpdate" "ActionDelete \<noteq> ActionSkip"
  "ActionSkip \<noteq> ActionCreate" "ActionSkip \<noteq> ActionUpdate" "ActionSkip \<noteq> ActionDelete"
  by (simp_all add: Action_defs)

lemma status_neq [simp]:
  "StatusSuccess \<noteq> StatusFailed" "StatusSuccess \<noteq> StatusSkipped" "StatusFailed \<noteq> StatusSuccess"
  "StatusFailed \<noteq> StatusSkipped" "StatusSkipped \<noteq> StatusSuccess" "StatusSkipped \<noteq> StatusFailed"
  by (simp_all add: Status_defs)

record Action =
  a_Type :: ActionType
  a_Status :: ActionStatus
  a_Provider :: string
  a_Hostname :: string
  a_RecordType :: string
  a_Target :: string
  a_Error :: string
  a_DryRun :: bool

definition Action_String :: "Action \<Rightarrow> string" where
  "Action_String a =
     (let status = (if a_DryRun a \<and> a_Status a = StatusSuccess then ''dry-run'' else a_Status a);
          text = ''['' @ status @ ''] '' @ a_Type a @ '' '' @ a_Hostname a @ '' -> '' @ a_Target a @
            '' ('' @ a_RecordType a @ '' '' @ a_Provider a @ '')''
      in if a_Error a \<noteq> [] then text @ '': '' @ a_Error a else text)"

record Result =
  res_StartTime :: time
  res_EndTime :: "time option"
  res_WorkloadsScanned :: nat
  res_HostnamesDiscovered :: nat
  res_HostnamesInvalid :: nat
  res_HostnamesDuplicate :: nat
  res_Actions :: "Action list"
  res_DryRun :: bool

definition NewResult :: "time \<Rightarrow> bool \<Rightarrow> Result" where
  "NewResult now dryRun = \<lparr>res_StartTime = now, res_EndTime = None, res_WorkloadsScanned = 0,
     res_HostnamesDiscovered = 0, res_HostnamesInvalid = 0, res_HostnamesDuplicate = 0,
     res_Actions = [], res_DryRun = dryRun\<rparr>"

definition Complete :: "time \<Rightarrow> Result \<Rightarrow> Result" where
  "Complete now r = r\<lparr>res_EndTime := Some now\<rparr>"

definition Duration :: "time \<Rightarrow> Result \<Rightarrow> time" where
  "Duration now r =
     (case res_EndTime r of None \<Rightarrow> now - res_StartTime r | Some e \<Rightarrow> e - res_StartTime r)"

definition AddAction :: "Action \<Rightarrow> Result \<Rightarrow> Result" where
  "AddAction action r = r\<lparr>res_Actions := res_Actions r @ [action\<lparr>a_DryRun := res_DryRun r\<rparr>]\<rparr>"

definition filterActions :: "ActionType \<Rightarrow> ActionStatus \<Rightarrow> Result \<Rightarrow> Action list" where
  "filterActions actionType status r =
     filter (\<lambda>a. a_Type a = actionType \<and> a_Status a = status) (res_Actions r)"

definition Created :: "Result \<Rightarrow> Action list" where
  "Created r = filterActions ActionCreate StatusSuccess r"

definition Updated :: "Result \<Rightarrow> Action list" where
  "Updated r = filterActions ActionUpdate StatusSuccess r"

definition Deleted :: "Result \<Rightarrow> Action list" where
  "Deleted r = filterActions ActionDelete StatusSuccess r"

definition Failed :: "Result \<Rightarrow> Action list" where
  "Failed r = filter (\<lambda>a. a_Status a = StatusFailed) (res_Actions r)"

definition Skipped :: "Result \<Rightarrow> Action list" where
  "Skipped r = filter (\<lambda>a. a_Status a = StatusSkipped \<or> a_Type a = ActionSkip) (res_Actions r)"

definition CreatedCount :: "Result \<Rightarrow> nat" where "CreatedCount r = length (Created r)"
definition UpdatedCount :: "Result \<Rightarrow> nat" where "UpdatedCount r = length (Updated r)"
definition DeletedCount :: "Result \<Rightarrow> nat" where "DeletedCount r = length (Deleted r)"
definition FailedCount :: "Result \<Rightarrow> nat" where "FailedCount r = length (Failed r)"

definition HasErrors :: "Result \<Rightarrow> bool" where
  "HasErrors r \<longleftrightarrow> FailedCount r > 0"

text \<open>The shape of the actions the reconciler adds; the four counters and the skips then split them.\<close>

definition wf_action :: "Action \<Rightarrow> bool" where
  "wf_action a \<longleftrightarrow>
     a_Type a \<in> {ActionCreate, ActionUpdate, ActionDelete} \<and> a_Status a \<in> {StatusSuccess, StatusFailed} \<or>
     a_Type a = ActionSkip \<and> a_Status a = StatusSkipped"

lemma wf_action_cases:
  assumes "wf_action a"
  obtains "a_Type a = ActionCreate" "a_Status a = StatusSuccess"
  | "a_Type a = ActionUpdate" "a_Status a = StatusSuccess"
  | "a_Type a = ActionDelete" "a_Status a = StatusSuccess"
  | "a_Type a \<noteq> ActionSkip" "a_Status a = StatusFailed"
  | "a_Type a = ActionSkip" "a_Status a = StatusSkipped"
  using assms unfolding wf_action_def by auto

lemma wf_action_AddAction:
  "(\<forall>a \<in> set (res_Actions (AddAction a r)). wf_action a) \<longleftrightarrow>
    wf_action a \<and> (\<forall>a \<in> set (res_Actions r). wf_action a)"
  by (auto simp: AddAction_def wf_action_def)

lemma counts_partition:
  assumes "\<forall>a \<in> set (res_Actions r). wf_action a"
  shows "length (res_Actions r) =
    CreatedCount r + UpdatedCount r + DeletedCount r + FailedCount r + length (Skipped r)"
proof -
  have split: "length as = length (filter (\<lambda>a. a_Type a = ActionCreate \<and> a_Status a = StatusSuccess) as) +
      length (filter (\<lambda>a. a_Type a = ActionUpdate \<and> a_Status a = StatusSuccess) as) +
      length (filter (\<lambda>a. a_Type a = ActionDelete \<and> a_Status a = StatusSuccess) as) +
      length (filter (\<lambda>a. a_Status a = StatusFailed) as) +
      length (filter (\<lambda>a. a_Status a = StatusSkipped \<or> a_Type a = ActionSkip) as)"
    if "\<forall>a \<in> set as. wf_action a" for as
    using that
  proof (induction as)
    case (Cons a as)
    have ih: "length as = length (filter (\<lambda>a. a_Type a = ActionCreate \<and> a_Status a = StatusSuccess) as) +
      length (filter (\<lambda>a. a_Type a = ActionUpdate \<and> a_Status a = StatusSuccess) as) +
      length (filter (\<lambda>a. a_Type a = ActionDelete \<and> a_Status a = StatusSuccess) as) +
      length (filter (\<lambda>a. a_Status a = StatusFailed) as) +
      length (filter (\<lambda>a. a_Status a = StatusSkipped \<or> a_Type a = ActionSkip) as)"
      using Cons by simp
    from Cons.prems have "wf_action a" by simp
    then show ?case by (cases rule: wf_action_cases) (simp_all add: ih)
  qed simp
  show ?thesis
    unfolding CreatedCount_def UpdatedCount_def DeletedCount_def FailedCount_def Created_def
      Updated_def Deleted_def Failed_def Skipped_def filterActions_def
    by (rule split [OF assms])
qed

end
