(* ===== verification/Actions.thy ===== *)
theory Actions
  imports SourceRegistry RecordCache Comparison Result
begin

text \<open>
  The state of the reconciler (\<^verbatim>\<open>internal/reconciler/reconciler.go\<close>) and
  \<^verbatim>\<open>internal/reconciler/actions.go\<close>: ensuring the records of one hostname in every provider
  that writes it. The operations pass the reconciler and the world along. \<open>None\<close> as the result of
  an operation is a panic: logging the priority of a stale SRV record dereferences its SRV data.
\<close>

subsection \<open>State of the reconciler\<close>

record Config =
  rc_DryRun :: bool
  rc_CleanupOrphans :: bool
  rc_OwnershipTracking :: bool
  rc_AdoptExisting :: bool
  rc_ReconcileInterval :: time
  rc_Enabled :: bool
  rc_InstanceID :: string

definition DefaultConfig :: Config where
  "DefaultConfig = \<lparr>rc_DryRun = False, rc_CleanupOrphans = True, rc_OwnershipTracking = True,
     rc_AdoptExisting = False, rc_ReconcileInterval = 60 * second, rc_Enabled = True,
     rc_InstanceID = []\<rparr>"

record 'w Reconciler =
  rn_listers :: "'w Lister list"
  rn_sources :: "'w SourceRegistry"
  rn_providers :: "'w Registry"
  rn_config :: Config
  rn_enabled :: bool
  rn_dryRun :: bool
  rn_knownHostnames :: "string list"   \<comment> \<open>\<^verbatim>\<open>map[string]struct{}\<close>, without repetitions\<close>
  rn_hostnameProviders :: "(string, string list) gomap"
  rn_recoveredMetadata :: "(string, metadata) gomap option"

definition syncAtomics :: "'w Reconciler \<Rightarrow> 'w Reconciler" where
  "syncAtomics r = r\<lparr>rn_enabled := rc_Enabled (rn_config r), rn_dryRun := rc_DryRun (rn_config r)\<rparr>"

definition New ::
  "'w Lister list \<Rightarrow> 'w SourceRegistry \<Rightarrow> 'w Registry \<Rightarrow> Config \<Rightarrow> 'w Reconciler" where
  "New listers sources providers config =
     syncAtomics \<lparr>rn_listers = listers, rn_sources = sources, rn_providers = providers,
       rn_config = config, rn_enabled = False, rn_dryRun = False, rn_knownHostnames = [],
       rn_hostnameProviders = [], rn_recoveredMetadata = None\<rparr>"

definition SetEnabled :: "bool \<Rightarrow> 'w Reconciler \<Rightarrow> 'w Reconciler" where
  "SetEnabled e r = r\<lparr>rn_enabled := e\<rparr>"

definition SetDryRun :: "bool \<Rightarrow> 'w Reconciler \<Rightarrow> 'w Reconciler" where
  "SetDryRun d r = r\<lparr>rn_dryRun := d\<rparr>"

definition getRecoveredMetadata :: "string \<Rightarrow> 'w Reconciler \<Rightarrow> metadata \<times> 'w Reconciler" where
  "getRecoveredMetadata hostname r =
     (case rn_recoveredMetadata r of
        None \<Rightarrow> ([], r)
      | Some recovered \<Rightarrow>
          let normalized = NormalizeHostname hostname in
          (case map_of recovered normalized of
             None \<Rightarrow> ([], r)
           | Some meta \<Rightarrow> (meta, r\<lparr>rn_recoveredMetadata := Some (AList.delete normalized recovered)\<rparr>)))"

definition errRecordAlreadyExists :: string where "errRecordAlreadyExists = ''record already exists''"
definition errRecordTypeConflict :: string where "errRecordTypeConflict = ''record type conflict''"
definition errNoMatchingProvider :: string where "errNoMatchingProvider = ''no matching provider''"

text \<open>An action literal; the fields that are not set have the zero value.\<close>

definition action_literal :: "ActionType \<Rightarrow> string \<Rightarrow> string \<Rightarrow> string \<Rightarrow> string \<Rightarrow> Action" where
  "action_literal ty p h rt tgt = \<lparr>a_Type = ty, a_Status = [], a_Provider = p, a_Hostname = h,
     a_RecordType = rt, a_Target = tgt, a_Error = [], a_DryRun = False\<rparr>"

subsection \<open>One provider\<close>

definition srv_of_hints :: "SRVHints \<Rightarrow> SRVData" where
  "srv_of_hints h =
     \<lparr>srv_Priority = hint_Priority h, srv_Weight = hint_Weight h, srv_Port = hint_Port h\<rparr>"

text \<open>The effective type, target, TTL, SRV data and metadata: hints override the instance.\<close>

definition effective_values ::
  "Hostname \<Rightarrow> 'w ProviderInstance \<Rightarrow> RecordType \<times> string \<times> int \<times> SRVData option \<times> metadata" where
  "effective_values hostname inst =
     (case h_RecordHints hostname of
        None \<Rightarrow> (pi_RecordType inst, EffectiveTarget inst, pi_TTL inst, None, [])
      | Some hints \<Rightarrow>
          (if rh_Type hints \<noteq> [] then rh_Type hints else pi_RecordType inst,
           if rh_Target hints \<noteq> [] then rh_Target hints else EffectiveTarget inst,
           if rh_TTL hints > 0 then rh_TTL hints else pi_TTL inst,
           map_option srv_of_hints (rh_SRV hints),
           if length (rh_Metadata hints) > 0 then rh_Metadata hints else []))"

definition ensureOwnershipRecord ::
  "'w Reconciler \<Rightarrow> string \<Rightarrow> 'w ProviderInstance \<Rightarrow> metadata \<Rightarrow> recordCache option \<Rightarrow> 'w \<Rightarrow> 'w" where
  "ensureOwnershipRecord r hostname inst m cache w =
     (if \<not> rc_OwnershipTracking (rn_config r) then w
      else if (case cache of None \<Rightarrow> False
               | Some c \<Rightarrow> hasOwnershipRecord c (Name inst) hostname (rc_InstanceID (rn_config r)))
        then w
      else snd (CreateOwnershipRecord inst hostname m w))"

text \<open>Step 1: the existing records, from the cache or, when the cache has no listing, from the provider.\<close>

definition existing_records ::
  "recordCache option \<Rightarrow> 'w ProviderInstance \<Rightarrow> string \<Rightarrow> 'w \<Rightarrow> Record list \<times> 'w" where
  "existing_records cache inst hostname w =
     (case cache of
        None \<Rightarrow> ([], w)
      | Some c \<Rightarrow>
          (case getExistingRecords c (Name inst) hostname of
             Some rs \<Rightarrow> (rs, w)
           | None \<Rightarrow>
               (case GetExistingRecords inst hostname w of
                  (Inl _, w') \<Rightarrow> ([], w')
                | (Inr rs, w') \<Rightarrow> (rs, w'))))"

text \<open>Step 4: an exact match, and the SRV records with the right target and stale data.\<close>

definition exact_match :: "RecordType \<Rightarrow> string \<Rightarrow> SRVData option \<Rightarrow> Record list \<Rightarrow> bool" where
  "exact_match recordType target srvData sameType =
     list_ex (\<lambda>e. r_Target e = target \<and> (recordType = RecordTypeSRV \<longrightarrow> srvDataEquals (r_SRV e) srvData))
       sameType"

definition stale_srv :: "RecordType \<Rightarrow> string \<Rightarrow> SRVData option \<Rightarrow> Record list \<Rightarrow> Record list" where
  "stale_srv recordType target srvData sameType =
     filter (\<lambda>e. r_Target e = target \<and> recordType = RecordTypeSRV \<and> \<not> srvDataEquals (r_SRV e) srvData)
       sameType"

text \<open>Step 4a; the log line reads \<^verbatim>\<open>stale.SRV.Priority\<close>.\<close>

fun delete_stale :: "'w ProviderInstance \<Rightarrow> string \<Rightarrow> Record list \<Rightarrow> 'w \<Rightarrow> 'w option" where
  "delete_stale inst hostname [] w = Some w"
| "delete_stale inst hostname (s # ss) w =
     (case r_SRV s of
        None \<Rightarrow> None
      | Some _ \<Rightarrow> delete_stale inst hostname ss (snd (DeleteSRVRecord inst hostname (r_Target s) (r_SRV s) w)))"

text \<open>Step 4b: the record is there already.\<close>

definition keep_existing ::
  "'w Reconciler \<Rightarrow> Action \<Rightarrow> string \<Rightarrow> 'w ProviderInstance \<Rightarrow> metadata \<Rightarrow> recordCache option \<Rightarrow> 'w \<Rightarrow>
   Action \<times> 'w" where
  "keep_existing r action hostname inst m cache w =
     (let action = action\<lparr>a_Type := ActionSkip, a_Status := StatusSkipped, a_Error := errRecordAlreadyExists\<rparr>;
          hasOwnership = (case cache of None \<Rightarrow> False
            | Some c \<Rightarrow> hasOwnershipRecord c (Name inst) hostname (rc_InstanceID (rn_config r)))
      in if hasOwnership then (action, ensureOwnershipRecord r hostname inst m cache w)
         else if rc_AdoptExisting (rn_config r) then (action, ensureOwnershipRecord r hostname inst m cache w)
         else (action, w))"

text \<open>Step 5: update the first record of the type in place.\<close>

definition update_existing ::
  "'w Reconciler \<Rightarrow> Action \<Rightarrow> string \<Rightarrow> 'w ProviderInstance \<Rightarrow> Record \<Rightarrow> Record \<Rightarrow> metadata \<Rightarrow>
   recordCache option \<Rightarrow> 'w \<Rightarrow> Action \<times> 'w" where
  "update_existing r action hostname inst existing desired m cache w =
     (case UpdateRecord inst existing desired w of
        (Some e, w') \<Rightarrow> (action\<lparr>a_Status := StatusFailed, a_Error := Error e\<rparr>, w')
      | (None, w') \<Rightarrow>
          (action\<lparr>a_Type := ActionUpdate, a_Status := StatusSuccess\<rparr>,
           ensureOwnershipRecord r hostname inst m cache w'))"

text \<open>Step 6: create the record.\<close>

definition create_record ::
  "'w Reconciler \<Rightarrow> Action \<Rightarrow> string \<Rightarrow> 'w ProviderInstance \<Rightarrow> RecordType \<Rightarrow> string \<Rightarrow> int \<Rightarrow>
   SRVData option \<Rightarrow> metadata \<Rightarrow> recordCache option \<Rightarrow> 'w \<Rightarrow> Action \<times> 'w" where
  "create_record r action hostname inst recordType target ttl srvData m cache w =
     (case CreateRecordWithValues inst hostname recordType target ttl srvData m w of
        (Some e, w') \<Rightarrow>
          if IsConflict e then
            (action\<lparr>a_Type := ActionSkip, a_Status := StatusSkipped, a_Error := errRecordAlreadyExists\<rparr>,
             ensureOwnershipRecord r hostname inst m cache w')
          else if IsTypeConflict e then
            (action\<lparr>a_Type := ActionSkip, a_Status := StatusSkipped, a_Error := errRecordTypeConflict\<rparr>, w')
          else (action\<lparr>a_Status := StatusFailed, a_Error := Error e\<rparr>, w')
      | (None, w') \<Rightarrow>
          (action\<lparr>a_Status := StatusSuccess\<rparr>, ensureOwnershipRecord r hostname inst m cache w'))"

definition apply_values ::
  "'w Reconciler \<Rightarrow> Action \<Rightarrow> string \<Rightarrow> 'w ProviderInstance \<Rightarrow> RecordType \<Rightarrow> string \<Rightarrow> int \<Rightarrow>
   SRVData option \<Rightarrow> metadata \<Rightarrow> recordCache option \<Rightarrow> 'w \<Rightarrow> (Action \<times> 'w) option" where
  "apply_values r action name inst recordType target ttl srvData m cache w =
     (let (existingRecords, w1) = existing_records cache inst name w;
          sameType = filter (\<lambda>e. r_Type e = recordType) existingRecords;
          conflicting = filter (\<lambda>e. r_Type e \<noteq> recordType) existingRecords
      in if length conflicting > 0 then
           Some (action\<lparr>a_Type := ActionSkip, a_Status := StatusSkipped,
                   a_Error := ''type conflict: existing '' @ show_slice (map r_Type conflicting) @
                     '' record(s) conflict with '' @ recordType\<rparr>, w1)
         else case delete_stale inst name (stale_srv recordType target srvData sameType) w1 of
           None \<Rightarrow> None
         | Some w2 \<Rightarrow>
             Some (if exact_match recordType target srvData sameType
               then keep_existing r action name inst m cache w2
               else case sameType of
                 existing # _ \<Rightarrow>
                   update_existing r action name inst existing
                     ((record_literal name recordType target)\<lparr>r_TTL := ttl, r_SRV := srvData\<rparr>) m cache w2
               | [] \<Rightarrow> create_record r action name inst recordType target ttl srvData m cache w2))"

definition ensureRecordForProvider ::
  "Hostname \<Rightarrow> 'w ProviderInstance \<Rightarrow> recordCache option \<Rightarrow> 'w Reconciler \<times> 'w \<Rightarrow>
   (Action \<times> 'w Reconciler \<times> 'w) option" where
  "ensureRecordForProvider hostname inst cache st =
     (let (r, w) = st;
          (recordType, target, ttl, srvData, m0) = effective_values hostname inst;
          (m, r') = (if length m0 = 0 then getRecoveredMetadata (h_Name hostname) r else (m0, r));
          action = action_literal ActionCreate (Name inst) (h_Name hostname) recordType target
      in if rn_dryRun r' then Some (action\<lparr>a_Status := StatusSuccess\<rparr>, r', w)
         else map_option (\<lambda>(a, w'). (a, r', w'))
                (apply_values r' action (h_Name hostname) inst recordType target ttl srvData m cache w))"

subsection \<open>All providers of a hostname\<close>

text \<open>Per-identity first-match-wins: the first matching instance of each backend and record type.\<close>

definition writers :: "'w ProviderInstance list \<Rightarrow> 'w ProviderInstance list" where
  "writers matchingProviders = first_by identity_key [] matchingProviders"

fun ensure_each ::
  "Hostname \<Rightarrow> 'w ProviderInstance list \<Rightarrow> recordCache option \<Rightarrow> 'w Reconciler \<times> 'w \<Rightarrow>
   (Action list \<times> 'w Reconciler \<times> 'w) option" where
  "ensure_each hostname [] cache st = Some ([], st)"
| "ensure_each hostname (inst # insts) cache st =
     (case ensureRecordForProvider hostname inst cache st of
        None \<Rightarrow> None
      | Some (a, st') \<Rightarrow>
          map_option (\<lambda>(as, st''). (a # as, st'')) (ensure_each hostname insts cache st'))"

definition ensureRecord ::
  "Hostname \<Rightarrow> recordCache option \<Rightarrow> 'w Reconciler \<times> 'w \<Rightarrow> (Action list \<times> 'w Reconciler \<times> 'w) option" where
  "ensureRecord hostname cache st =
     (let r = fst st;
          skip = (\<lambda>e. (action_literal ActionSkip [] (h_Name hostname) [] [])
                    \<lparr>a_Status := StatusSkipped, a_Error := e\<rparr>);
          matched = (let matchingProviders =
                MatchingProvidersForHostname (rn_providers r) (h_Name hostname) (h_Metadata hostname)
            in if matchingProviders = [] then Some ([skip errNoMatchingProvider], st)
               else ensure_each hostname (writers matchingProviders) cache st)
      in case h_RecordHints hostname of
           Some hints \<Rightarrow>
             if rh_Provider hints \<noteq> [] then
               (case Get (rn_providers r) (rh_Provider hints) of
                  None \<Rightarrow> Some ([skip (''explicit provider '' @ Quote (rh_Provider hints) @ '' not found'')], st)
                | Some inst \<Rightarrow>
                    map_option (\<lambda>(a, st'). ([a], st')) (ensureRecordForProvider hostname inst cache st))
             else matched
         | None \<Rightarrow> matched)"

subsection \<open>First match wins\<close>

lemma writers_first:
  shows "distinct (map identity_key (writers ms))"
    and "identity_key ` set (writers ms) = identity_key ` set ms"
    and "subseq (writers ms) ms"
    and "i \<in> set (writers ms) \<Longrightarrow> \<exists>as bs. ms = as @ i # bs \<and> identity_key i \<notin> identity_key ` set as"
  using distinct_first_by [of identity_key "[]" ms] first_by_keys [of identity_key "[]" ms]
    subseq_first_by [of identity_key "[]" ms] first_by_first [of i identity_key "[]" ms]
  by (auto simp: writers_def)

subsection \<open>What the operations leave alone\<close>

lemma getRecoveredMetadata_frame:
  assumes "getRecoveredMetadata h r = (m, r')"
  shows "rn_providers r' = rn_providers r" "rn_config r' = rn_config r" "rn_dryRun r' = rn_dryRun r"
    "rn_knownHostnames r' = rn_knownHostnames r" "rn_hostnameProviders r' = rn_hostnameProviders r"
    "rn_listers r' = rn_listers r" "rn_sources r' = rn_sources r" "rn_enabled r' = rn_enabled r"
  using assms by (auto simp: getRecoveredMetadata_def Let_def split: option.splits)

text \<open>Only the recovered metadata changes.\<close>

definition same_reconciler :: "'w Reconciler \<Rightarrow> 'w Reconciler \<Rightarrow> bool" where
  "same_reconciler r r' \<longleftrightarrow> (\<exists>m. r' = r\<lparr>rn_recoveredMetadata := m\<rparr>)"

lemma same_reconciler_refl [simp]: "same_reconciler r r"
  unfolding same_reconciler_def by (rule exI [of _ "rn_recoveredMetadata r"]) simp

lemma same_reconciler_trans: "same_reconciler r s \<Longrightarrow> same_reconciler s t \<Longrightarrow> same_reconciler r t"
  by (auto simp: same_reconciler_def)

lemma same_reconcilerD:
  assumes "same_reconciler r r'"
  shows "rn_providers r' = rn_providers r" "rn_config r' = rn_config r" "rn_dryRun r' = rn_dryRun r"
    "rn_knownHostnames r' = rn_knownHostnames r" "rn_hostnameProviders r' = rn_hostnameProviders r"
    "rn_listers r' = rn_listers r" "rn_sources r' = rn_sources r" "rn_enabled r' = rn_enabled r"
  using assms by (auto simp: same_reconciler_def)

lemma same_getRecoveredMetadata: "getRecoveredMetadata h r = (m, r') \<Longrightarrow> same_reconciler r r'"
  by (auto simp: getRecoveredMetadata_def same_reconciler_def Let_def split: option.splits
      intro: exI [of _ "rn_recoveredMetadata r"])

lemma ensureRecordForProvider_cases:
  assumes "ensureRecordForProvider h inst cache (r, w) = res"
  obtains rt tgt ttl srv m0 m r' where "effective_values h inst = (rt, tgt, ttl, srv, m0)"
    "same_reconciler r r'"
    "(if length m0 = 0 then getRecoveredMetadata (h_Name h) r else (m0, r)) = (m, r')"
    "res = (if rn_dryRun r
        then Some ((action_literal ActionCreate (Name inst) (h_Name h) rt tgt)\<lparr>a_Status := StatusSuccess\<rparr>, r', w)
        else map_option (\<lambda>(a, w'). (a, r', w'))
          (apply_values r' (action_literal ActionCreate (Name inst) (h_Name h) rt tgt)
            (h_Name h) inst rt tgt ttl srv m cache w))"
proof -
  obtain rt tgt ttl srv m0 where ev: "effective_values h inst = (rt, tgt, ttl, srv, m0)"
    by (metis prod_cases5)
  obtain m r' where g: "(if length m0 = 0 then getRecoveredMetadata (h_Name h) r else (m0, r)) = (m, r')"
    by fastforce
  then have same: "same_reconciler r r'" by (auto dest: same_getRecoveredMetadata split: if_splits)
  have "res = (if rn_dryRun r
      then Some ((action_literal ActionCreate (Name inst) (h_Name h) rt tgt)\<lparr>a_Status := StatusSuccess\<rparr>, r', w)
      else map_option (\<lambda>(a, w'). (a, r', w'))
        (apply_values r' (action_literal ActionCreate (Name inst) (h_Name h) rt tgt)
          (h_Name h) inst rt tgt ttl srv m cache w))"
    unfolding assms [symmetric] ensureRecordForProvider_def
    by (simp only: Let_def prod.case ev g same_reconcilerD(3) [OF same])
  with ev same g show thesis by (rule that)
qed

lemma ensureRecordForProvider_Some:
  assumes "ensureRecordForProvider h inst cache (r, w) = Some (a, r', w')"
  shows "same_reconciler r r'"
    and "rn_dryRun r \<Longrightarrow> w' = w"
    and "\<not> rn_dryRun r \<Longrightarrow> \<exists>ac rt tgt ttl srv m. effective_values h inst = (rt, tgt, ttl, srv, m) \<and>
      (\<exists>m. apply_values r' ac (h_Name h) inst rt tgt ttl srv m cache w = Some (a, w'))"
proof -
  obtain rt tgt ttl srv m0 m r2 where st: "effective_values h inst = (rt, tgt, ttl, srv, m0)"
    "same_reconciler r r2"
    "Some (a, r', w') = (if rn_dryRun r
        then Some ((action_literal ActionCreate (Name inst) (h_Name h) rt tgt)\<lparr>a_Status := StatusSuccess\<rparr>, r2, w)
        else map_option (\<lambda>(a, w'). (a, r2, w'))
          (apply_values r2 (action_literal ActionCreate (Name inst) (h_Name h) rt tgt)
            (h_Name h) inst rt tgt ttl srv m cache w))"
    using ensureRecordForProvider_cases [OF assms] by metis
  show "same_reconciler r r'" "rn_dryRun r \<Longrightarrow> w' = w"
    using st(2,3) by (auto split: if_splits dest!: sym [of "Some _"])
  assume "\<not> rn_dryRun r"
  then have "apply_values r' (action_literal ActionCreate (Name inst) (h_Name h) rt tgt)
      (h_Name h) inst rt tgt ttl srv m cache w = Some (a, w')"
    using st(3) by (auto dest!: sym [of "Some _"])
  with st(1) show "\<exists>ac rt tgt ttl srv m. effective_values h inst = (rt, tgt, ttl, srv, m) \<and>
      (\<exists>m. apply_values r' ac (h_Name h) inst rt tgt ttl srv m cache w = Some (a, w'))" by blast
qed

subsection \<open>Which calls are made\<close>

lemma ToLower_TrimSuffix_dot: "ToLower (TrimSuffix s ''.'') = TrimSuffix (ToLower s) ''.''"
  by (cases s rule: rev_cases) (auto simp: TrimSuffix_def HasSuffix_def)

lemma EqualFold_Normalize: "EqualFold s t \<Longrightarrow> NormalizeHostname s = NormalizeHostname t"
  by (simp add: EqualFold_def NormalizeHostname_def ToLower_TrimSuffix_dot)

definition wf_cache_opt :: "recordCache option \<Rightarrow> bool" where
  "wf_cache_opt c \<longleftrightarrow> (case c of None \<Rightarrow> True | Some c \<Rightarrow> wf_cache c)"

lemma existing_records_name:
  assumes "wf_cache_opt cache" and "existing_records cache inst h w = (rs, w')" and "x \<in> set rs"
  shows "NormalizeHostname (r_Hostname x) = NormalizeHostname h"
  using assms
  by (auto simp: existing_records_def wf_cache_opt_def GetExistingRecords_def EqualFold_Normalize
      split: option.splits prod.splits sum.splits dest: getExistingRecords_name)

lemma own_names_self [simp]:
  "NormalizeHostname h \<in> own_names h" "NormalizeHostname (OwnershipRecordName h) \<in> own_names h"
  by (simp_all add: own_names_def)

lemma OwnershipRecord_name [simp]: "r_Hostname (OwnershipRecord h t i m) = OwnershipRecordName h"
  by (simp add: OwnershipRecord_def)

text \<open>The last three steps once the existing records have the desired type.\<close>

definition settle ::
  "'w Reconciler \<Rightarrow> Action \<Rightarrow> string \<Rightarrow> 'w ProviderInstance \<Rightarrow> RecordType \<Rightarrow> string \<Rightarrow> int \<Rightarrow>
   SRVData option \<Rightarrow> metadata \<Rightarrow> recordCache option \<Rightarrow> Record list \<Rightarrow> 'w \<Rightarrow> Action \<times> 'w" where
  "settle r a h inst rt tgt ttl srv m cache rs w =
     (if exact_match rt tgt srv rs then keep_existing r a h inst m cache w
      else case rs of
        x # _ \<Rightarrow> update_existing r a h inst x
          ((record_literal h rt tgt)\<lparr>r_TTL := ttl, r_SRV := srv\<rparr>) m cache w
      | [] \<Rightarrow> create_record r a h inst rt tgt ttl srv m cache w)"

lemma apply_values_conflict:
  assumes "existing_records cache inst h w = (rs, w1)" and "\<exists>x \<in> set rs. r_Type x \<noteq> rt"
  shows "apply_values r a h inst rt tgt ttl srv m cache w =
    Some (a\<lparr>a_Type := ActionSkip, a_Status := StatusSkipped,
        a_Error := ''type conflict: existing '' @ show_slice (map r_Type (filter (\<lambda>e. r_Type e \<noteq> rt) rs)) @
          '' record(s) conflict with '' @ rt\<rparr>, w1)"
proof -
  have "filter (\<lambda>e. r_Type e \<noteq> rt) rs \<noteq> []" using assms(2) by (auto simp: filter_empty_conv)
  then show ?thesis using assms(1) by (simp add: apply_values_def Let_def)
qed

lemma apply_values_same:
  assumes "existing_records cache inst h w = (rs, w1)" and "\<forall>x \<in> set rs. r_Type x = rt"
  shows "apply_values r a h inst rt tgt ttl srv m cache w =
    (case delete_stale inst h (stale_srv rt tgt srv rs) w1 of
       None \<Rightarrow> None
     | Some w2 \<Rightarrow> Some (settle r a h inst rt tgt ttl srv m cache rs w2))"
proof -
  have "filter (\<lambda>e. r_Type e \<noteq> rt) rs = []" "filter (\<lambda>e. r_Type e = rt) rs = rs"
    using assms(2) by (auto simp: filter_empty_conv filter_id_conv)
  then show ?thesis
    unfolding apply_values_def settle_def Let_def assms(1) prod.case by (simp only: list.size less_irrefl if_False)
qed

lemma ensureRecord_cases:
  assumes "ensureRecord h cache (r, w) = res"
  obtains (skip) a where "res = Some ([a], r, w)" "a_Type a = ActionSkip" "a_Status a = StatusSkipped" "a_Provider a = []"
  | (explicit) inst where "inst \<in> set (All (rn_providers r))"
      "res = map_option (\<lambda>(a, st'). ([a], st')) (ensureRecordForProvider h inst cache (r, w))"
  | (matched) ms where "ms = MatchingProvidersForHostname (rn_providers r) (h_Name h) (h_Metadata h)"
      "ms \<noteq> []" "res = ensure_each h (writers ms) cache (r, w)"
proof -
  have get: "i \<in> set (All (rn_providers r))" if "Get (rn_providers r) n = Some i" for i n
    using that by (auto simp: Get_def All_def find_Some_iff split: option.splits)
  let ?ms = "MatchingProvidersForHostname (rn_providers r) (h_Name h) (h_Metadata h)"
  let ?skip = "\<lambda>e. (action_literal ActionSkip [] (h_Name h) [] [])\<lparr>a_Status := StatusSkipped, a_Error := e\<rparr>"
  have sk: "a_Type (?skip e) = ActionSkip" "a_Status (?skip e) = StatusSkipped" "a_Provider (?skip e) = []" for e
    by (simp_all add: action_literal_def)
  show thesis
  proof (cases "\<exists>hints. h_RecordHints h = Some hints \<and> rh_Provider hints \<noteq> []")
    case True
    then obtain hints where h: "h_RecordHints h = Some hints" "rh_Provider hints \<noteq> []" by blast
    show thesis
    proof (cases "Get (rn_providers r) (rh_Provider hints)")
      case None
      with assms h have "res =
          Some ([?skip (''explicit provider '' @ Quote (rh_Provider hints) @ '' not found'')], r, w)"
        by (simp add: ensureRecord_def Let_def)
      with sk show thesis by (intro skip)
    next
      case (Some inst)
      with assms h have "res = map_option (\<lambda>(a, st'). ([a], st')) (ensureRecordForProvider h inst cache (r, w))"
        by (simp add: ensureRecord_def Let_def)
      with get [OF Some] show thesis by (rule explicit)
    qed
  next
    case False
    then have res: "res = (if ?ms = [] then Some ([?skip errNoMatchingProvider], r, w)
        else ensure_each h (writers ?ms) cache (r, w))"
      using assms by (auto simp: ensureRecord_def Let_def split: option.splits)
    show thesis
    proof (cases "?ms = []")
      case True
      with res have "res = Some ([?skip errNoMatchingProvider], r, w)" by simp
      with sk show thesis by (intro skip)
    next
      case False
      with res show thesis by (intro matched) simp_all
    qed
  qed
qed

context world_order
begin

lemma R_ensureOwnershipRecord:
  assumes "safe_on (pi_Provider inst) (own_names h)"
  shows "R w (ensureOwnershipRecord r h inst m cache w)"
proof -
  obtain e w' where c: "CreateOwnershipRecord inst h m w = (e, w')" by fastforce
  have "R w w'" using R_CreateOwnershipRecord [OF safe_on_Create [OF assms] c] by simp
  then show ?thesis using c by (simp add: ensureOwnershipRecord_def R_refl)
qed

lemma R_existing_records:
  assumes "safe_on (pi_Provider inst) N" and "existing_records cache inst h w = (rs, w')"
  shows "R w w'"
  using assms(2) R_GetExistingRecords [OF safe_on_List [OF assms(1)]]
  by (fastforce simp: existing_records_def R_refl split: option.splits prod.splits sum.splits)

lemma R_delete_stale:
  assumes "safe_on (pi_Provider inst) (own_names h)"
  shows "delete_stale inst h ss w = Some w' \<Longrightarrow> R w w'"
proof (induction ss arbitrary: w)
  case (Cons s ss)
  obtain e w1 where d: "DeleteSRVRecord inst h (r_Target s) (r_SRV s) w = (e, w1)" by fastforce
  have "R w w1"
    using R_DeleteRecord_on(1) [OF assms, of h w "r_Target s" "r_SRV s"] d by simp
  then show ?case using Cons d by (auto split: option.splits intro: R_trans)
qed (simp add: R_refl)

lemma R_keep_existing:
  "safe_on (pi_Provider inst) (own_names h) \<Longrightarrow> R w (snd (keep_existing r a h inst m cache w))"
  by (simp add: keep_existing_def Let_def R_ensureOwnershipRecord R_refl)

lemma R_update_existing:
  assumes "safe_on (pi_Provider inst) (own_names h)"
    and "NormalizeHostname (r_Hostname x) \<in> own_names h" "NormalizeHostname (r_Hostname y) \<in> own_names h"
  shows "R w (snd (update_existing r a h inst x y m cache w))"
proof -
  obtain e w1 where u: "UpdateRecord inst x y w = (e, w1)" by fastforce
  have "R w w1" using R_UpdateRecord [OF _ u] safe_on_update_calls [OF assms] by blast
  moreover have "R w (ensureOwnershipRecord r h inst m cache w1)"
    using R_trans [OF \<open>R w w1\<close> R_ensureOwnershipRecord [OF assms(1)]] .
  ultimately show ?thesis
    using u by (auto simp: update_existing_def split: option.splits)
qed

lemma R_create_record:
  assumes "safe_on (pi_Provider inst) (own_names h)"
  shows "R w (snd (create_record r a h inst rt tgt ttl srv m cache w))"
proof -
  obtain e w1 where c: "CreateRecordWithValues inst h rt tgt ttl srv m w = (e, w1)" by fastforce
  have "R w w1"
    using R_CreateRecordWithValues_on [OF assms, of h w rt tgt ttl srv m] c by simp
  moreover have "R w (ensureOwnershipRecord r h inst m cache w1)"
    using R_trans [OF \<open>R w w1\<close> R_ensureOwnershipRecord [OF assms]] .
  ultimately show ?thesis
    using c by (auto simp: create_record_def split: option.splits)
qed

lemma R_apply_values:
  assumes "safe_on (pi_Provider inst) (own_names h)" and "wf_cache_opt cache"
    and "apply_values r a h inst rt tgt ttl srv m cache w = Some (a', w')"
  shows "R w w'"
proof -
  obtain rs w1 where ex: "existing_records cache inst h w = (rs, w1)" by fastforce
  have 1: "R w w1" using R_existing_records [OF assms(1) ex] .
  show ?thesis
  proof (cases "\<exists>x \<in> set rs. r_Type x \<noteq> rt")
    case True
    then show ?thesis using assms(3) 1 by (simp add: apply_values_conflict [OF ex])
  next
    case False
    then have "\<forall>x \<in> set rs. r_Type x = rt" by blast
    note av = assms(3) [unfolded apply_values_same [OF ex this]]
    then obtain w2 where d: "delete_stale inst h (stale_srv rt tgt srv rs) w1 = Some w2"
      and res: "settle r a h inst rt tgt ttl srv m cache rs w2 = (a', w')"
      by (auto split: option.splits)
    have 2: "R w w2" using R_trans [OF 1 R_delete_stale [OF assms(1) d]] .
    have "R w2 (snd (settle r a h inst rt tgt ttl srv m cache rs w2))"
    proof (cases rs)
      case (Cons x xs)
      then have "NormalizeHostname (r_Hostname x) \<in> own_names h"
        using existing_records_name [OF assms(2) ex, of x] by simp
      then show ?thesis
        using Cons by (simp add: settle_def R_keep_existing [OF assms(1)] R_update_existing [OF assms(1)])
    qed (simp add: settle_def R_keep_existing [OF assms(1)] R_create_record [OF assms(1)])
    then show ?thesis using R_trans [OF 2] res by simp
  qed
qed

lemma R_ensureRecordForProvider:
  assumes "safe_on (pi_Provider inst) (own_names (h_Name h))" and "wf_cache_opt cache"
    and "ensureRecordForProvider h inst cache (r, w) = Some (a, r', w')"
  shows "R w w'"
  using ensureRecordForProvider_Some(2,3) [OF assms(3)] R_apply_values [OF assms(1,2)] R_refl
  by (metis (full_types))

lemma R_ensure_each:
  assumes "\<And>i. i \<in> set insts \<Longrightarrow> safe_on (pi_Provider i) (own_names (h_Name h))" and "wf_cache_opt cache"
    and "ensure_each h insts cache (r, w) = Some (as, r', w')"
  shows "same_reconciler r r' \<and> R w w'"
  using assms
proof (induction insts arbitrary: r w as)
  case Nil
  then show ?case by (simp add: R_refl)
next
  case (Cons i insts)
  obtain a r1 w1 as' where e: "ensureRecordForProvider h i cache (r, w) = Some (a, r1, w1)"
    and f: "ensure_each h insts cache (r1, w1) = Some (as', r', w')"
    using Cons.prems(3) by (auto split: option.splits)
  have "R w w1" using R_ensureRecordForProvider [OF _ Cons.prems(2) e] Cons.prems(1) by simp
  moreover have "same_reconciler r r1" using ensureRecordForProvider_Some(1) [OF e] .
  moreover have "same_reconciler r1 r' \<and> R w1 w'"
    using Cons.IH [OF _ Cons.prems(2) f] Cons.prems(1) by simp
  ultimately show ?case using R_trans same_reconciler_trans by blast
qed

lemma R_ensureRecord:
  assumes "\<And>i. i \<in> set (All (rn_providers r)) \<Longrightarrow> safe_on (pi_Provider i) (own_names (h_Name h))"
    and "wf_cache_opt cache" and "ensureRecord h cache (r, w) = Some (as, r', w')"
  shows "same_reconciler r r' \<and> R w w'"
  using assms(3)
proof (cases rule: ensureRecord_cases)
  case (skip a)
  then show ?thesis by (simp add: R_refl)
next
  case (explicit inst)
  obtain a where e: "ensureRecordForProvider h inst cache (r, w) = Some (a, r', w')"
    using explicit(2) [symmetric] by (auto simp: map_option_eq_Some)
  show ?thesis
    using ensureRecordForProvider_Some(1) [OF e]
      R_ensureRecordForProvider [OF assms(1) [OF explicit(1)] assms(2) e] by simp
next
  case (matched ms)
  have "set (writers ms) \<subseteq> set (All (rn_providers r))"
    using first_by_subset [of identity_key "[]" ms] matched(1)
    by (auto simp: writers_def MatchingProvidersForHostname_def All_def)
  then show ?thesis
    using R_ensure_each [of "writers ms" h cache r w as r' w'] assms(1,2) matched(3) by auto
qed

end

subsection \<open>Panic freedom\<close>

text \<open>SRV records carry their SRV data: in a listing, and in the cache made of listings.\<close>

definition srv_complete :: "Record list \<Rightarrow> bool" where
  "srv_complete rs \<longleftrightarrow> (\<forall>r \<in> set rs. r_Type r = RecordTypeSRV \<longrightarrow> r_SRV r \<noteq> None)"

definition complete_provider :: "'w Provider \<Rightarrow> bool" where
  "complete_provider P \<longleftrightarrow> (\<forall>w rs w'. p_List P w = (Inr rs, w') \<longrightarrow> srv_complete rs)"

definition complete_cache :: "recordCache option \<Rightarrow> bool" where
  "complete_cache cache \<longleftrightarrow>
     (\<forall>c p m n. cache = Some c \<longrightarrow> provider_records c p = Some m \<longrightarrow> srv_complete (map_get [] m n))"

lemma srv_complete_filter: "srv_complete rs \<Longrightarrow> srv_complete (filter P rs)"
  by (simp add: srv_complete_def)

lemma complete_existing_records:
  assumes "complete_cache cache" and "complete_provider (pi_Provider inst)"
    and "existing_records cache inst h w = (rs, w')"
  shows "srv_complete rs"
proof -
  have nil: "srv_complete []" by (simp add: srv_complete_def)
  have lst: "srv_complete xs" if "GetExistingRecords inst h w = (Inr xs, w1)" for xs w1
    using that assms(2)
    by (auto simp: GetExistingRecords_def complete_provider_def intro!: srv_complete_filter
        split: prod.splits sum.splits)
  have cch: "srv_complete xs" if "cache = Some c" "getExistingRecords c p h = Some xs" for c p xs
    using that assms(1)
    by (auto simp: getExistingRecords_def complete_cache_def intro!: srv_complete_filter split: option.splits)
  show ?thesis
    using assms(3) nil lst cch
    by (auto simp: existing_records_def split: option.splits prod.splits sum.splits)
qed

lemma delete_stale_total:
  "\<forall>s \<in> set ss. r_SRV s \<noteq> None \<Longrightarrow> \<exists>w'. delete_stale inst h ss w = Some w'"
  by (induction ss arbitrary: w) (auto split: option.splits)

lemma apply_values_total:
  assumes "complete_cache cache" and "complete_provider (pi_Provider inst)"
  shows "\<exists>a' w'. apply_values r a h inst rt tgt ttl srv m cache w = Some (a', w')"
proof -
  obtain rs w1 where ex: "existing_records cache inst h w = (rs, w1)" by fastforce
  show ?thesis
  proof (cases "\<exists>x \<in> set rs. r_Type x \<noteq> rt")
    case True
    then show ?thesis by (simp add: apply_values_conflict [OF ex])
  next
    case False
    then have same: "\<forall>x \<in> set rs. r_Type x = rt" by blast
    have "\<forall>s \<in> set (stale_srv rt tgt srv rs). r_SRV s \<noteq> None"
      using complete_existing_records [OF assms ex] same unfolding srv_complete_def stale_srv_def by auto
    then obtain w2 where "delete_stale inst h (stale_srv rt tgt srv rs) w1 = Some w2"
      using delete_stale_total [of "stale_srv rt tgt srv rs" inst h w1] by blast
    then have "apply_values r a h inst rt tgt ttl srv m cache w =
        Some (settle r a h inst rt tgt ttl srv m cache rs w2)"
      by (simp only: apply_values_same [OF ex same] option.case)
    then show ?thesis by (metis prod.collapse)
  qed
qed

lemma ensureRecordForProvider_total:
  assumes "complete_cache cache" and "complete_provider (pi_Provider inst)"
  shows "\<exists>a r' w'. ensureRecordForProvider h inst cache (r, w) = Some (a, r', w')"
proof (rule ensureRecordForProvider_cases [OF refl])
  fix rt tgt ttl srv m0 m r'
  assume st: "ensureRecordForProvider h inst cache (r, w) = (if rn_dryRun r
        then Some ((action_literal ActionCreate (Name inst) (h_Name h) rt tgt)\<lparr>a_Status := StatusSuccess\<rparr>, r', w)
        else map_option (\<lambda>(a, w'). (a, r', w'))
          (apply_values r' (action_literal ActionCreate (Name inst) (h_Name h) rt tgt)
            (h_Name h) inst rt tgt ttl srv m cache w))"
  obtain a w' where "apply_values r' (action_literal ActionCreate (Name inst) (h_Name h) rt tgt)
      (h_Name h) inst rt tgt ttl srv m cache w = Some (a, w')"
    using apply_values_total [OF assms] by blast
  then show ?thesis unfolding st by simp
qed

lemma ensure_each_total:
  assumes "complete_cache cache" and "\<And>i. i \<in> set insts \<Longrightarrow> complete_provider (pi_Provider i)"
  shows "\<exists>as st'. ensure_each h insts cache st = Some (as, st')"
  using assms(2)
proof (induction insts arbitrary: st)
  case (Cons i insts)
  obtain r w where st: "st = (r, w)" by fastforce
  obtain a r' w' where e: "ensureRecordForProvider h i cache (r, w) = Some (a, r', w')"
    using ensureRecordForProvider_total [OF assms(1)] Cons.prems by (metis list.set_intros(1))
  obtain as st' where "ensure_each h insts cache (r', w') = Some (as, st')"
    using Cons.IH Cons.prems by (metis list.set_intros(2))
  then show ?case using e st by simp
qed simp

lemma set_writers: "set (writers (MatchingProvidersForHostname reg n m)) \<subseteq> set (All reg)"
  using first_by_subset [of identity_key "[]" "MatchingProvidersForHostname reg n m"]
  by (auto simp: writers_def MatchingProvidersForHostname_def All_def)

lemma ensureRecord_total:
  assumes "complete_cache cache"
    and "\<And>i. i \<in> set (All (rn_providers r)) \<Longrightarrow> complete_provider (pi_Provider i)"
  shows "\<exists>as r' w'. ensureRecord h cache (r, w) = Some (as, r', w')"
proof -
  obtain res where res: "ensureRecord h cache (r, w) = res" by simp
  then show ?thesis
  proof (cases rule: ensureRecord_cases)
    case (explicit inst)
    then show ?thesis
      using ensureRecordForProvider_total [OF assms(1) assms(2), of inst h r w] res by auto
  next
    case (matched ms)
    have "\<And>i. i \<in> set (writers ms) \<Longrightarrow> complete_provider (pi_Provider i)"
      using matched(1) set_writers assms(2) by blast
    then show ?thesis
      using ensure_each_total [OF assms(1), of "writers ms" h "(r, w)"] matched(3) res by auto
  qed (use res in simp)
qed

subsection \<open>Shape of the actions\<close>

lemma wf_settle:
  "a_Type a = ActionCreate \<Longrightarrow> wf_action (fst (settle r a h inst rt tgt ttl srv m cache rs w))"
  by (auto simp: settle_def keep_existing_def update_existing_def create_record_def wf_action_def Let_def
      split: list.splits prod.splits option.splits)

lemma wf_apply_values:
  assumes "a_Type a = ActionCreate" and "apply_values r a h inst rt tgt ttl srv m cache w = Some (a', w')"
  shows "wf_action a'"
proof -
  obtain rs w1 where ex: "existing_records cache inst h w = (rs, w1)" by fastforce
  show ?thesis
  proof (cases "\<exists>x \<in> set rs. r_Type x \<noteq> rt")
    case True
    then show ?thesis using assms(2) by (auto simp: apply_values_conflict [OF ex] wf_action_def)
  next
    case False
    then have same: "\<forall>x \<in> set rs. r_Type x = rt" by blast
    show ?thesis
      using assms(2) wf_settle [OF assms(1)] unfolding apply_values_same [OF ex same]
      by (metis (no_types, lifting) fst_conv option.case_eq_if option.distinct(1) option.inject)
  qed
qed

lemma wf_ensureRecordForProvider:
  assumes "ensureRecordForProvider h inst cache (r, w) = Some (a, st')"
  shows "wf_action a"
proof (rule ensureRecordForProvider_cases [OF assms])
  fix rt tgt ttl srv m0 m r'
  assume st: "Some (a, st') = (if rn_dryRun r
        then Some ((action_literal ActionCreate (Name inst) (h_Name h) rt tgt)\<lparr>a_Status := StatusSuccess\<rparr>, r', w)
        else map_option (\<lambda>(a, w'). (a, r', w'))
          (apply_values r' (action_literal ActionCreate (Name inst) (h_Name h) rt tgt)
            (h_Name h) inst rt tgt ttl srv m cache w))"
  have lit: "a_Type (action_literal ActionCreate (Name inst) (h_Name h) rt tgt) = ActionCreate"
    by (simp add: action_literal_def)
  have ok: "wf_action ((action_literal ActionCreate (Name inst) (h_Name h) rt tgt)\<lparr>a_Status := StatusSuccess\<rparr>)"
    by (simp add: wf_action_def action_literal_def)
  show ?thesis
  proof (cases "rn_dryRun r")
    case False
    with st obtain w' where "apply_values r' (action_literal ActionCreate (Name inst) (h_Name h) rt tgt)
        (h_Name h) inst rt tgt ttl srv m cache w = Some (a, w')"
      by (auto dest!: sym [of "Some _"])
    then show ?thesis by (rule wf_apply_values [OF lit])
  qed (use st ok in simp)
qed

lemma wf_ensure_each:
  "ensure_each h insts cache st = Some (as, st') \<Longrightarrow> a \<in> set as \<Longrightarrow> wf_action a"
proof (induction insts arbitrary: st as)
  case (Cons i insts)
  obtain r w where st: "st = (r, w)" by fastforce
  then show ?case
    using Cons wf_ensureRecordForProvider by (auto split: option.splits)
qed simp

lemma wf_ensureRecord:
  assumes "ensureRecord h cache (r, w) = Some (as, st')" and "a \<in> set as"
  shows "wf_action a"
  using assms(1)
proof (cases rule: ensureRecord_cases)
  case (skip b)
  then show ?thesis using assms(2) by (simp add: wf_action_def)
next
  case (explicit inst)
  then show ?thesis
    using assms(2) wf_ensureRecordForProvider by (auto simp: map_option_eq_Some dest!: sym [of "Some _"])
next
  case (matched ms)
  then show ?thesis using assms(2) wf_ensure_each by metis
qed

subsection \<open>Dry run\<close>

lemma dry_ensure_each:
  "rn_dryRun r \<Longrightarrow> ensure_each h insts cache (r, w) = Some (as, r', w') \<Longrightarrow> w' = w \<and> same_reconciler r r'"
proof (induction insts arbitrary: r w as)
  case (Cons i insts)
  obtain a r1 w1 as' where e: "ensureRecordForProvider h i cache (r, w) = Some (a, r1, w1)"
    and f: "ensure_each h insts cache (r1, w1) = Some (as', r', w')"
    using Cons.prems(2) by (auto split: option.splits)
  have "w1 = w" "same_reconciler r r1" using ensureRecordForProvider_Some(1,2) [OF e] Cons.prems(1) by auto
  moreover have "rn_dryRun r1" using same_reconcilerD(3) [OF \<open>same_reconciler r r1\<close>] Cons.prems(1) by simp
  ultimately show ?case using Cons.IH [OF _ f] same_reconciler_trans by blast
qed simp

lemma dry_ensureRecord:
  assumes "rn_dryRun r" and "ensureRecord h cache (r, w) = Some (as, r', w')"
  shows "w' = w \<and> same_reconciler r r'"
  using assms(2)
proof (cases rule: ensureRecord_cases)
  case (explicit inst)
  obtain a where e: "ensureRecordForProvider h inst cache (r, w) = Some (a, r', w')"
    using explicit(2) [symmetric] by (auto simp: map_option_eq_Some)
  show ?thesis using ensureRecordForProvider_Some(1,2) [OF e] assms(1) by simp
next
  case (matched ms)
  then show ?thesis using dry_ensure_each [OF assms(1)] by metis
qed simp

subsection \<open>Properties\<close>


end
