(* ===== verification/Orphan.thy ===== *)
theory Orphan
  imports Actions
begin

text \<open>
  \<^verbatim>\<open>internal/reconciler/orphan.go\<close>: removal of the records of hostnames that have disappeared,
  per provider and operational mode, with the circuit breaker against mass deletion. The
  deletions only change the world. The ratio test of the breaker,
  \<^verbatim>\<open>float64(orphans) / float64(previous) > 0.5\<close>, is the comparison of twice the orphans with
  the previous count, which agrees with it below \<open>2 ^ 53\<close> hostnames.
\<close>

text \<open>The cached records of a hostname if there are any, and otherwise those of a fresh listing.\<close>

definition cached_or_listed ::
  "(Record \<Rightarrow> bool) \<Rightarrow> string \<Rightarrow> 'w ProviderInstance \<Rightarrow> recordCache option \<Rightarrow> 'w \<Rightarrow>
   (err + Record list) \<times> 'w" where
  "cached_or_listed keep hostname inst cache w =
     (let cached = (case cache of
            None \<Rightarrow> []
          | Some c \<Rightarrow> (case getAllRecordsForHostname c (Name inst) hostname of None \<Rightarrow> [] | Some rs \<Rightarrow> rs))
      in if length cached > 0 then (Inr cached, w)
         else case p_List (pi_Provider inst) w of
           (Inl e, w') \<Rightarrow> (Inl e, w')
         | (Inr allRecords, w') \<Rightarrow>
             (Inr (filter (\<lambda>rec. NormalizeHostname (r_Hostname rec) = hostname \<and> keep rec) allRecords), w'))"

definition list_failed :: "string \<Rightarrow> 'w ProviderInstance \<Rightarrow> err \<Rightarrow> Action" where
  "list_failed hostname inst e =
     (action_literal ActionDelete (Name inst) hostname (pi_RecordType inst) (EffectiveTarget inst))
       \<lparr>a_Status := StatusFailed, a_Error := ''failed to list records: '' @ Error e\<rparr>"

definition skip_orphan :: "string \<Rightarrow> 'w ProviderInstance \<Rightarrow> string \<Rightarrow> Action" where
  "skip_orphan hostname inst reason =
     (action_literal ActionSkip (Name inst) hostname (pi_RecordType inst) (EffectiveTarget inst))
       \<lparr>a_Status := StatusSkipped, a_Error := reason\<rparr>"

definition delete_by_type ::
  "'w ProviderInstance \<Rightarrow> string \<Rightarrow> Record \<Rightarrow> 'w \<Rightarrow> err option \<times> 'w" where
  "delete_by_type inst hostname rec w =
     (if r_Type rec = RecordTypeSRV then DeleteSRVRecord inst hostname (r_Target rec) (r_SRV rec) w
      else DeleteRecordByTarget inst hostname (r_Type rec) (r_Target rec) w)"

definition delete_action :: "'w ProviderInstance \<Rightarrow> string \<Rightarrow> Record \<Rightarrow> err option \<Rightarrow> Action" where
  "delete_action inst hostname rec e =
     (let action = action_literal ActionDelete (Name inst) hostname (r_Type rec) (r_Target rec)
      in case e of None \<Rightarrow> action\<lparr>a_Status := StatusSuccess\<rparr>
         | Some x \<Rightarrow> action\<lparr>a_Status := StatusFailed, a_Error := Error x\<rparr>)"

text \<open>The loop over the records, with the deletion as an argument; a dry run only reports.\<close>

fun delete_loop ::
  "bool \<Rightarrow> (Record \<Rightarrow> 'w \<Rightarrow> err option \<times> 'w) \<Rightarrow> 'w ProviderInstance \<Rightarrow> string \<Rightarrow> Record list \<Rightarrow> 'w \<Rightarrow>
   Action list \<times> 'w" where
  "delete_loop dryRun del inst hostname [] w = ([], w)"
| "delete_loop dryRun del inst hostname (rec # recs) w =
     (if dryRun then
        let (as, w') = delete_loop dryRun del inst hostname recs w
        in (delete_action inst hostname rec None # as, w')
      else
        let (e, w1) = del rec w; (as, w2) = delete_loop dryRun del inst hostname recs w1
        in (delete_action inst hostname rec e # as, w2))"

definition deleteAuthoritativeForProvider ::
  "'w Reconciler \<Rightarrow> string \<Rightarrow> 'w ProviderInstance \<Rightarrow> recordCache option \<Rightarrow> 'w \<Rightarrow> Action list \<times> 'w" where
  "deleteAuthoritativeForProvider r hostname inst cache w =
     (let caps = p_Capabilities (pi_Provider inst) in
      case cached_or_listed (\<lambda>_. True) hostname inst cache w of
        (Inl e, w1) \<Rightarrow> ([list_failed hostname inst e], w1)
      | (Inr recordsToDelete, w1) \<Rightarrow>
          let (actions, w2) = delete_loop (rn_dryRun r) (delete_by_type inst hostname) inst hostname
                (filter (\<lambda>rec. SupportsRecordType caps (r_Type rec) \<and> r_Type rec \<noteq> RecordTypeTXT)
                   recordsToDelete) w1
          in if rc_OwnershipTracking (rn_config r) then
               (if rn_dryRun r then (actions, w2)
                else (actions, snd (DeleteOwnershipRecord inst hostname w2)))
             else (actions, w2))"

definition deleteManagedForProvider ::
  "'w Reconciler \<Rightarrow> string \<Rightarrow> 'w ProviderInstance \<Rightarrow> recordCache option \<Rightarrow> 'w \<Rightarrow> Action list \<times> 'w" where
  "deleteManagedForProvider r hostname inst cache w =
     (case (case cache of
              Some c \<Rightarrow> (Inr (hasOwnershipRecord c (Name inst) hostname (rc_InstanceID (rn_config r))), w)
            | None \<Rightarrow> HasOwnershipRecord inst hostname w) of
        (Inl e, w1) \<Rightarrow> ([skip_orphan hostname inst (''failed to check ownership: '' @ Error e)], w1)
      | (Inr hasOwnership, w1) \<Rightarrow>
          if \<not> hasOwnership then
            ([skip_orphan hostname inst ''no ownership record - may be manually created''], w1)
          else case cached_or_listed (\<lambda>rec. is_data_type (r_Type rec)) hostname inst cache w1 of
            (Inl e, w2) \<Rightarrow> ([list_failed hostname inst e], w2)
          | (Inr recordsToDelete, w2) \<Rightarrow>
              let (actions, w3) = delete_loop (rn_dryRun r) (delete_by_type inst hostname) inst hostname
                    recordsToDelete w2
              in if rn_dryRun r then (actions, w3)
                 else (actions, snd (DeleteOwnershipRecord inst hostname w3)))"

definition deleteTargetMatchForProvider ::
  "'w Reconciler \<Rightarrow> string \<Rightarrow> 'w ProviderInstance \<Rightarrow> recordCache option \<Rightarrow> 'w \<Rightarrow> Action list \<times> 'w" where
  "deleteTargetMatchForProvider r hostname inst cache w =
     (let effTarget = EffectiveTarget inst in
      case cached_or_listed (\<lambda>_. True) hostname inst cache w of
        (Inl e, w1) \<Rightarrow> ([list_failed hostname inst e], w1)
      | (Inr allRecords, w1) \<Rightarrow>
          let matched = filter (\<lambda>rec. r_Type rec = pi_RecordType inst \<and> r_Target rec = effTarget) allRecords
          in if length matched = 0
             then ([skip_orphan hostname inst ''no target-matched records found''], w1)
             else delete_loop (rn_dryRun r)
                    (\<lambda>rec. DeleteRecordByTarget inst hostname (r_Type rec) (r_Target rec)) inst hostname
                    matched w1)"

text \<open>Here the deletion comes first; dry-run is consulted only when it has failed.\<close>

fun delete_cached ::
  "bool \<Rightarrow> 'w ProviderInstance \<Rightarrow> string \<Rightarrow> Record list \<Rightarrow> 'w \<Rightarrow> Action list \<times> 'w" where
  "delete_cached dryRun inst hostname [] w = ([], w)"
| "delete_cached dryRun inst hostname (rec # recs) w =
     (let (e, w1) = delete_by_type inst hostname rec w;
          action = delete_action inst hostname rec e;
          action = (if e \<noteq> None \<and> dryRun then action\<lparr>a_Status := StatusSuccess\<rparr> else action);
          (as, w2) = delete_cached dryRun inst hostname recs w1
      in (action # as, w2))"

definition deleteCacheOnlyForProvider ::
  "'w Reconciler \<Rightarrow> string \<Rightarrow> 'w ProviderInstance \<Rightarrow> recordCache option \<Rightarrow> 'w \<Rightarrow> Action list \<times> 'w" where
  "deleteCacheOnlyForProvider r hostname inst cache w =
     (case cached_or_listed (\<lambda>rec. is_data_type (r_Type rec)) hostname inst cache w of
        (Inl e, w1) \<Rightarrow> ([list_failed hostname inst e], w1)
      | (Inr recordsToDelete, w1) \<Rightarrow> delete_cached (rn_dryRun r) inst hostname recordsToDelete w1)"

definition deleteOrphanForProvider ::
  "'w Reconciler \<Rightarrow> string \<Rightarrow> 'w ProviderInstance \<Rightarrow> recordCache option \<Rightarrow> 'w \<Rightarrow> Action list \<times> 'w" where
  "deleteOrphanForProvider r hostname inst cache w =
     (let mode = (if pi_Mode inst = [] then ModeManaged else pi_Mode inst) in
      if \<not> AllowsDelete mode then
        ([skip_orphan hostname inst ''additive mode - deletions disabled''], w)
      else if \<not> RequiresOwnership mode then deleteAuthoritativeForProvider r hostname inst cache w
      else if rc_OwnershipTracking (rn_config r) then
        (if SupportsOwnershipTXT (p_Capabilities (pi_Provider inst))
         then deleteManagedForProvider r hostname inst cache w
         else deleteTargetMatchForProvider r hostname inst cache w)
      else deleteCacheOnlyForProvider r hostname inst cache w)"

definition getOrphanProviders :: "'w Reconciler \<Rightarrow> string \<Rightarrow> 'w ProviderInstance list" where
  "getOrphanProviders r hostname =
     (let previousProviders = map_get [] (rn_hostnameProviders r) hostname in
      if length previousProviders > 0 then List.map_filter (Get (rn_providers r)) previousProviders
      else MatchingProviders (rn_providers r) hostname)"

fun delete_orphan ::
  "'w Reconciler \<Rightarrow> string \<Rightarrow> 'w ProviderInstance list \<Rightarrow> recordCache option \<Rightarrow> 'w \<Rightarrow> Action list \<times> 'w" where
  "delete_orphan r hostname [] cache w = ([], w)"
| "delete_orphan r hostname (inst # insts) cache w =
     (let (as, w1) = deleteOrphanForProvider r hostname inst cache w;
          (bs, w2) = delete_orphan r hostname insts cache w1
      in (as @ bs, w2))"

fun cleanup_loop ::
  "'w Reconciler \<Rightarrow> string list \<Rightarrow> recordCache option \<Rightarrow> 'w \<Rightarrow> Action list \<times> 'w" where
  "cleanup_loop r [] cache w = ([], w)"
| "cleanup_loop r (hostname # hs) cache w =
     (let (as, w1) = delete_orphan r hostname (getOrphanProviders r hostname) cache w;
          (bs, w2) = cleanup_loop r hs cache w1
      in (as @ bs, w2))"

text \<open>The orphans: previously known hostnames that are not current.\<close>

definition orphans :: "'w Reconciler \<Rightarrow> (string, Hostname) gomap \<Rightarrow> string list \<Rightarrow> string list" where
  "orphans r currentHostnames names = filter (\<lambda>h. \<not> has_key currentHostnames h) names"

definition breaker :: "nat \<Rightarrow> nat \<Rightarrow> bool" where
  "breaker orphanCount previous \<longleftrightarrow>
     previous > 0 \<and> orphanCount > 0 \<and> 2 * orphanCount > previous \<and> orphanCount > 1"

definition cleanupOrphans ::
  "string iteration \<Rightarrow> 'w Reconciler \<Rightarrow> (string, Hostname) gomap \<Rightarrow> recordCache option \<Rightarrow> 'w \<Rightarrow>
   Action list \<times> 'w" where
  "cleanupOrphans order r currentHostnames cache w =
     (let previousHostnames = rn_knownHostnames r;
          orphanCount = length (orphans r currentHostnames previousHostnames)
      in if breaker orphanCount (length previousHostnames) then ([], w)
         else cleanup_loop r (orphans r currentHostnames (order previousHostnames)) cache w)"

fun delete_matching ::
  "'w Reconciler \<Rightarrow> string \<Rightarrow> 'w ProviderInstance list \<Rightarrow> 'w \<Rightarrow> Action list \<times> 'w" where
  "delete_matching r hostname [] w = ([], w)"
| "delete_matching r hostname (inst # insts) w =
     (let action = action_literal ActionDelete (Name inst) hostname (pi_RecordType inst) (EffectiveTarget inst);
          (a, w1) =
            (if rn_dryRun r then (action\<lparr>a_Status := StatusSuccess\<rparr>, w)
             else case DeleteRecord inst hostname w of
               (Some e, w') \<Rightarrow> (action\<lparr>a_Status := StatusFailed, a_Error := Error e\<rparr>, w')
             | (None, w') \<Rightarrow>
                 (action\<lparr>a_Status := StatusSuccess\<rparr>,
                  if rc_OwnershipTracking (rn_config r) then snd (DeleteOwnershipRecord inst hostname w')
                  else w'));
          (as, w2) = delete_matching r hostname insts w1
      in (a # as, w2))"

definition deleteRecord :: "'w Reconciler \<Rightarrow> string \<Rightarrow> 'w \<Rightarrow> Action list \<times> 'w" where
  "deleteRecord r hostname w = delete_matching r hostname (MatchingProviders (rn_providers r) hostname) w"

subsection \<open>What orphan cleanup may touch\<close>

lemma delete_loop_dry: "snd (delete_loop True del inst h recs w) = w"
  by (induction recs arbitrary: w) (simp_all add: Let_def case_prod_unfold)

text \<open>The mode after the default has been filled in.\<close>

definition mode_of :: "'w ProviderInstance \<Rightarrow> OperationalMode" where
  "mode_of inst = (if pi_Mode inst = [] then ModeManaged else pi_Mode inst)"

lemma deleteOrphan_additive:
  "mode_of inst = ModeAdditive \<Longrightarrow>
    deleteOrphanForProvider r h inst cache w =
      ([skip_orphan h inst ''additive mode - deletions disabled''], w)"
  by (simp add: deleteOrphanForProvider_def mode_of_def AllowsDelete_def)

lemma deleteManaged_unowned:
  "\<not> hasOwnershipRecord c (Name inst) h (rc_InstanceID (rn_config r)) \<Longrightarrow>
    deleteManagedForProvider r h inst (Some c) w =
      ([skip_orphan h inst ''no ownership record - may be manually created''], w)"
  by (simp add: deleteManagedForProvider_def)

lemma getOrphanProviders_subset: "set (getOrphanProviders r h) \<subseteq> set (All (rn_providers r))"
proof -
  have "i \<in> set (All (rn_providers r))" if "Get (rn_providers r) n = Some i" for i n
    using that by (auto simp: Get_def All_def find_Some_iff split: option.splits)
  then show ?thesis
    by (auto simp: getOrphanProviders_def Let_def MatchingProviders_def All_def List.map_filter_def)
qed

lemma delete_cached_world: "snd (delete_cached d inst h recs w) = snd (delete_cached d' inst h recs w)"
  by (induction recs arbitrary: w) (simp_all add: Let_def case_prod_unfold)

context world_order
begin

lemma R_cached_or_listed:
  "safe (pi_Provider inst) CList \<Longrightarrow> cached_or_listed keep h inst cache w = (x, w') \<Longrightarrow> R w w'"
  by (auto simp: cached_or_listed_def Let_def R_refl split: if_splits prod.splits sum.splits intro: R_List)

lemma R_delete_loop:
  assumes "\<And>rec w. R w (snd (del rec w))"
  shows "R w (snd (delete_loop dry del inst h recs w))"
proof (induction recs arbitrary: w)
  case (Cons rec recs)
  show ?case
  proof (cases dry)
    case True
    then show ?thesis using delete_loop_dry [of del inst h "rec # recs" w] by (simp add: R_refl)
  next
    case False
    obtain e w1 where d: "del rec w = (e, w1)" by fastforce
    have "R w w1" using assms [of w rec] d by simp
    then have "R w (snd (delete_loop dry del inst h recs w1))" using Cons.IH by (rule R_trans)
    then show ?thesis using False d by (simp add: Let_def case_prod_unfold)
  qed
qed (simp add: R_refl)

lemma R_delete_by_type:
  "safe_on (pi_Provider inst) N \<Longrightarrow> NormalizeHostname h \<in> N \<Longrightarrow> R w (snd (delete_by_type inst h rec w))"
  by (simp add: delete_by_type_def R_DeleteRecord_on)

lemma R_delete_cached:
  assumes "safe_on (pi_Provider inst) N" "NormalizeHostname h \<in> N"
  shows "R w (snd (delete_cached dry inst h recs w))"
proof (induction recs arbitrary: w)
  case (Cons rec recs)
  obtain e w1 where d: "delete_by_type inst h rec w = (e, w1)" by fastforce
  have "R w w1" using R_delete_by_type [OF assms, of w rec] d by simp
  then have "R w (snd (delete_cached dry inst h recs w1))" using Cons.IH by (rule R_trans)
  then show ?case using d by (simp add: Let_def case_prod_unfold)
qed (simp add: R_refl)

text \<open>
  A cleanup step reads by listing. Apart from that it deletes records under the orphan's name and
  its ownership name, and in a dry run nothing, the cache-only path excepted.
\<close>

lemma R_delete_step:
  assumes "safe (pi_Provider inst) CList"
    and "\<not> dry \<Longrightarrow> safe_on (pi_Provider inst) (own_names h)"
    and "\<And>rec. del rec = delete_by_type inst h rec \<or>
      del rec = DeleteRecordByTarget inst h (r_Type rec) (r_Target rec)"
  shows "R w (snd (delete_loop dry del inst h recs w))"
proof (cases dry)
  case True
  then show ?thesis by (simp add: delete_loop_dry R_refl)
next
  case False
  then have "R w (snd (del rec w))" for rec w
    using assms(2,3) R_delete_by_type [of inst "own_names h" h] R_DeleteRecord_on(2) [of inst "own_names h" h]
    by (metis own_names_self(1))
  then show ?thesis by (rule R_delete_loop)
qed

lemma R_DeleteOwnership:
  "safe_on (pi_Provider inst) (own_names h) \<Longrightarrow> R w (snd (DeleteOwnershipRecord inst h w))"
  by (erule R_DeleteOwnershipRecord_on) (rule own_names_self)

lemma R_deleteAuthoritative:
  assumes "safe (pi_Provider inst) CList"
    and "\<not> rn_dryRun r \<Longrightarrow> safe_on (pi_Provider inst) (own_names h)"
  shows "R w (snd (deleteAuthoritativeForProvider r h inst cache w))"
proof -
  obtain x w1 where c: "cached_or_listed (\<lambda>_. True) h inst cache w = (x, w1)" by fastforce
  have 1: "R w w1" using R_cached_or_listed [OF assms(1) c] .
  show ?thesis
  proof (cases x)
    case (Inr recs)
    obtain as w2 where d: "delete_loop (rn_dryRun r) (delete_by_type inst h) inst h
        (filter (\<lambda>rec. SupportsRecordType (p_Capabilities (pi_Provider inst)) (r_Type rec) \<and>
           r_Type rec \<noteq> RecordTypeTXT) recs) w1 = (as, w2)" by fastforce
    have 2: "R w w2"
      using R_trans [OF 1 R_delete_step [OF assms]] d by (metis snd_conv)
    have "R w (snd (DeleteOwnershipRecord inst h w2))" if "\<not> rn_dryRun r"
      using R_trans [OF 2 R_DeleteOwnership [OF assms(2) [OF that]]] .
    then show ?thesis using c Inr d 2 by (simp add: deleteAuthoritativeForProvider_def Let_def)
  qed (use c 1 in \<open>simp add: deleteAuthoritativeForProvider_def Let_def\<close>)
qed

lemma R_deleteManaged:
  assumes "safe (pi_Provider inst) CList"
    and "\<not> rn_dryRun r \<Longrightarrow> safe_on (pi_Provider inst) (own_names h)"
  shows "R w (snd (deleteManagedForProvider r h inst cache w))"
proof -
  obtain o' w0 where o: "(case cache of
      Some c \<Rightarrow> (Inr (hasOwnershipRecord c (Name inst) h (rc_InstanceID (rn_config r))), w)
    | None \<Rightarrow> HasOwnershipRecord inst h w) = (o', w0)" by fastforce
  have 0: "R w w0"
    using o R_HasOwnershipRecord [OF assms(1)] by (auto simp: R_refl split: option.splits)
  obtain x w1 where c: "cached_or_listed (\<lambda>rec. is_data_type (r_Type rec)) h inst cache w0 = (x, w1)"
    by fastforce
  have 1: "R w w1" using R_trans [OF 0 R_cached_or_listed [OF assms(1) c]] .
  have 2: "R w (snd (delete_loop (rn_dryRun r) (delete_by_type inst h) inst h recs w1))" for recs
    by (rule R_trans [OF 1], rule R_delete_step [OF assms]) simp_all
  have 3: "R w (snd (DeleteOwnershipRecord inst h w2))" if "\<not> rn_dryRun r" "R w w2" for w2
    using R_trans [OF that(2) R_DeleteOwnership [OF assms(2) [OF that(1)]]] .
  show ?thesis
    unfolding deleteManagedForProvider_def o
    using 0 1 2 3 by (auto simp: c Let_def case_prod_unfold split: sum.splits)
qed

lemma R_deleteTargetMatch:
  assumes "safe (pi_Provider inst) CList"
    and "\<not> rn_dryRun r \<Longrightarrow> safe_on (pi_Provider inst) (own_names h)"
  shows "R w (snd (deleteTargetMatchForProvider r h inst cache w))"
proof -
  obtain x w1 where c: "cached_or_listed (\<lambda>_. True) h inst cache w = (x, w1)" by fastforce
  have 1: "R w w1" using R_cached_or_listed [OF assms(1) c] .
  have "R w (snd (delete_loop (rn_dryRun r)
      (\<lambda>rec. DeleteRecordByTarget inst h (r_Type rec) (r_Target rec)) inst h recs w1))" for recs
    by (rule R_trans [OF 1], rule R_delete_step [OF assms]) auto
  then show ?thesis using c 1 by (simp add: deleteTargetMatchForProvider_def Let_def split: sum.splits)
qed

lemma R_deleteCacheOnly:
  assumes "safe_on (pi_Provider inst) (own_names h)"
  shows "R w (snd (deleteCacheOnlyForProvider r h inst cache w))"
proof -
  obtain x w1 where c: "cached_or_listed (\<lambda>rec. is_data_type (r_Type rec)) h inst cache w = (x, w1)"
    by fastforce
  have 1: "R w w1" using R_cached_or_listed [OF safe_on_List [OF assms] c] .
  have "R w (snd (delete_cached d inst h recs w1))" for d recs
    by (rule R_trans [OF 1 R_delete_cached [OF assms]]) simp
  then show ?thesis using c 1 by (simp add: deleteCacheOnlyForProvider_def split: sum.splits)
qed

end

text \<open>When a provider is on the cache-only path.\<close>

definition cache_only :: "'w Reconciler \<Rightarrow> 'w ProviderInstance \<Rightarrow> bool" where
  "cache_only r inst \<longleftrightarrow> RequiresOwnership (mode_of inst) \<and> \<not> rc_OwnershipTracking (rn_config r)"

context world_order
begin

lemma R_deleteOrphan:
  assumes "safe (pi_Provider inst) CList"
    and "\<not> rn_dryRun r \<or> cache_only r inst \<Longrightarrow> mode_of inst \<noteq> ModeAdditive \<Longrightarrow>
      safe_on (pi_Provider inst) (own_names h)"
  shows "R w (snd (deleteOrphanForProvider r h inst cache w))"
proof (cases "mode_of inst = ModeAdditive")
  case True
  then show ?thesis by (simp add: deleteOrphan_additive R_refl)
next
  case False
  have s: "\<not> rn_dryRun r \<Longrightarrow> safe_on (pi_Provider inst) (own_names h)" using assms(2) False by blast
  have "cache_only r inst \<Longrightarrow> R w (snd (deleteCacheOnlyForProvider r h inst cache w))"
    using R_deleteCacheOnly assms(2) False by blast
  then show ?thesis
    using R_deleteAuthoritative [OF assms(1) s] R_deleteManaged [OF assms(1) s]
      R_deleteTargetMatch [OF assms(1) s] False
    by (simp add: deleteOrphanForProvider_def Let_def cache_only_def AllowsDelete_def flip: mode_of_def)
qed

lemma R_delete_orphan:
  assumes "\<And>i. i \<in> set insts \<Longrightarrow> safe (pi_Provider i) CList"
    and "\<And>i. i \<in> set insts \<Longrightarrow> \<not> rn_dryRun r \<or> cache_only r i \<Longrightarrow> mode_of i \<noteq> ModeAdditive \<Longrightarrow>
      safe_on (pi_Provider i) (own_names h)"
  shows "R w (snd (delete_orphan r h insts cache w))"
  using assms
proof (induction insts arbitrary: w)
  case (Cons i insts)
  obtain as w1 where d: "deleteOrphanForProvider r h i cache w = (as, w1)" by fastforce
  have "R w w1" using R_deleteOrphan [of i r h w cache] Cons.prems d by simp
  moreover have "R w1 (snd (delete_orphan r h insts cache w1))" using Cons by simp
  ultimately have "R w (snd (delete_orphan r h insts cache w1))" by (rule R_trans)
  then show ?case using d by (simp add: Let_def case_prod_unfold)
qed (simp add: R_refl)

lemma R_cleanup_loop:
  assumes "\<And>i. i \<in> set (All (rn_providers r)) \<Longrightarrow> safe (pi_Provider i) CList"
    and "\<And>i h. i \<in> set (All (rn_providers r)) \<Longrightarrow> h \<in> set hs \<Longrightarrow> \<not> rn_dryRun r \<or> cache_only r i \<Longrightarrow>
      mode_of i \<noteq> ModeAdditive \<Longrightarrow> safe_on (pi_Provider i) (own_names h)"
  shows "R w (snd (cleanup_loop r hs cache w))"
  using assms(2)
proof (induction hs arbitrary: w)
  case (Cons h hs)
  obtain as w1 where d: "delete_orphan r h (getOrphanProviders r h) cache w = (as, w1)" by fastforce
  have "set (getOrphanProviders r h) \<subseteq> set (All (rn_providers r))"
    by (rule getOrphanProviders_subset)
  then have "R w w1"
    using R_delete_orphan [of "getOrphanProviders r h" r h w cache] assms(1) Cons.prems d by auto
  moreover have "R w1 (snd (cleanup_loop r hs cache w1))" using Cons by simp
  ultimately have "R w (snd (cleanup_loop r hs cache w1))" by (rule R_trans)
  then show ?case using d by (simp add: Let_def case_prod_unfold)
qed (simp add: R_refl)

lemma R_cleanupOrphans:
  assumes "\<And>i. i \<in> set (All (rn_providers r)) \<Longrightarrow> safe (pi_Provider i) CList"
    and "\<And>i h. i \<in> set (All (rn_providers r)) \<Longrightarrow> h \<in> set (rn_knownHostnames r) \<Longrightarrow>
      \<not> has_key current h \<Longrightarrow> \<not> rn_dryRun r \<or> cache_only r i \<Longrightarrow> mode_of i \<noteq> ModeAdditive \<Longrightarrow>
      safe_on (pi_Provider i) (own_names h)"
    and "is_iteration order" and "distinct (rn_knownHostnames r)"
  shows "R w (snd (cleanupOrphans order r current cache w))"
proof -
  have "set (order (rn_knownHostnames r)) = set (rn_knownHostnames r)"
    using assms(3,4) by (rule is_iteration_set)
  then have "R w (snd (cleanup_loop r (orphans r current (order (rn_knownHostnames r))) cache w))"
    using assms(1,2) by (intro R_cleanup_loop) (auto simp: orphans_def)
  then show ?thesis by (simp add: cleanupOrphans_def Let_def R_refl)
qed

lemma R_delete_matching:
  assumes "\<And>i. i \<in> set insts \<Longrightarrow> safe_on (pi_Provider i) (own_names h)"
  shows "R w (snd (delete_matching r h insts w))"
  using assms
proof (induction insts arbitrary: w)
  case (Cons i insts)
  have s: "safe_on (pi_Provider i) (own_names h)" using Cons.prems by simp
  obtain e w1 where d: "DeleteRecord i h w = (e, w1)" by fastforce
  have 1: "R w w1" using R_DeleteRecord_on(3) [OF s, of h w] d by simp
  have 2: "R w (snd (DeleteOwnershipRecord i h w1))" using R_trans [OF 1 R_DeleteOwnership [OF s]] .
  have rest: "R v (snd (delete_matching r h insts v))" for v using Cons by simp
  show ?case
    using d R_trans [OF 1 rest] R_trans [OF 2 rest] rest [of w]
    by (auto simp: Let_def case_prod_unfold split: option.splits)
qed (simp add: R_refl)

end

subsection \<open>Shape of the actions\<close>

lemma wf_delete_action [simp]: "wf_action (delete_action inst h rec e)"
  by (simp add: delete_action_def wf_action_def action_literal_def Let_def split: option.splits)

lemma wf_list_failed [simp]: "wf_action (list_failed h inst e)"
  by (simp add: list_failed_def wf_action_def action_literal_def)

lemma wf_skip_orphan [simp]: "wf_action (skip_orphan h inst e)"
  by (simp add: skip_orphan_def wf_action_def action_literal_def)

lemma wf_delete_loop: "a \<in> set (fst (delete_loop dry del inst h recs w)) \<Longrightarrow> wf_action a"
  by (induction recs arbitrary: w) (auto simp: Let_def case_prod_unfold split: if_splits)

lemma wf_delete_cached: "a \<in> set (fst (delete_cached dry inst h recs w)) \<Longrightarrow> wf_action a"
proof (induction recs arbitrary: w)
  case (Cons rec recs)
  have "wf_action ((delete_action inst h rec e)\<lparr>a_Status := StatusSuccess\<rparr>)" for e
    by (simp add: delete_action_def wf_action_def action_literal_def Let_def split: option.splits)
  then show ?case using Cons by (auto simp: Let_def case_prod_unfold split: if_splits)
qed simp

lemma wf_deleteOrphanForProvider:
  assumes "a \<in> set (fst (deleteOrphanForProvider r h inst cache w))"
  shows "wf_action a"
proof -
  have "wf_action a" if "a \<in> set (fst (deleteAuthoritativeForProvider r h inst cache w))"
    using that wf_delete_loop
    by (auto simp: deleteAuthoritativeForProvider_def Let_def case_prod_unfold split: sum.splits if_splits)
  moreover have "wf_action a" if "a \<in> set (fst (deleteManagedForProvider r h inst cache w))"
    using that wf_delete_loop
    by (auto simp: deleteManagedForProvider_def Let_def case_prod_unfold split: sum.splits if_splits)
  moreover have "wf_action a" if "a \<in> set (fst (deleteTargetMatchForProvider r h inst cache w))"
    using that wf_delete_loop
    by (auto simp: deleteTargetMatchForProvider_def Let_def case_prod_unfold split: sum.splits if_splits)
  moreover have "wf_action a" if "a \<in> set (fst (deleteCacheOnlyForProvider r h inst cache w))"
    using that wf_delete_cached
    by (auto simp: deleteCacheOnlyForProvider_def Let_def case_prod_unfold split: sum.splits if_splits)
  ultimately show ?thesis
    using assms by (auto simp: deleteOrphanForProvider_def Let_def split: if_splits)
qed

lemma wf_delete_orphan: "a \<in> set (fst (delete_orphan r h insts cache w)) \<Longrightarrow> wf_action a"
  by (induction insts arbitrary: w) (auto simp: Let_def case_prod_unfold dest: wf_deleteOrphanForProvider)

lemma wf_cleanupOrphans:
  assumes "a \<in> set (fst (cleanupOrphans order r current cache w))" shows "wf_action a"
proof -
  have "wf_action a" if "a \<in> set (fst (cleanup_loop r hs cache w))" for hs w
    using that by (induction hs arbitrary: w) (auto simp: Let_def case_prod_unfold dest: wf_delete_orphan)
  then show ?thesis using assms by (auto simp: cleanupOrphans_def Let_def split: if_splits)
qed

subsection \<open>Circuit breaker\<close>

lemma breaker_iff: "breaker n p \<longleftrightarrow> n > 1 \<and> 2 * n > p \<and> p > 0"
  by (auto simp: breaker_def)

end
