(* ===== verification/Reconciler.thy ===== *)
theory Reconciler
  imports Orphan
begin

text \<open>
  \<^verbatim>\<open>internal/reconciler/reconciler.go\<close>: the reconciliation cycle, the operations on single
  hostnames and the recovery of ownership at startup. Full cycles are serialized by a mutex;
  the model takes every operation as one step. The order of a \<^verbatim>\<open>range\<close> loop over a Go map
  and the readings of the clock are arguments. \<open>None\<close> is a panic, an \<open>Inl\<close> an error return.
\<close>

subsection \<open>Hostname extraction\<close>

type_synonym origins = "(string, string) gomap"
type_synonym discovered = "(string, Hostname) gomap"

fun collect_names ::
  "string \<Rightarrow> Hostnames \<Rightarrow> origins \<times> discovered \<times> Result \<Rightarrow> origins \<times> discovered \<times> Result" where
  "collect_names workload [] st = st"
| "collect_names workload (hostname # hostnames) (orig, disc, result) =
     (let normalizedName = NormalizedName hostname in
      if has_key orig normalizedName then
        collect_names workload hostnames
          (orig, disc, result\<lparr>res_HostnamesDuplicate := res_HostnamesDuplicate result + 1\<rparr>)
      else
        collect_names workload hostnames
          (AList.update normalizedName workload orig, AList.update normalizedName hostname disc, result))"

fun collect_workloads ::
  "'w SourceRegistry \<Rightarrow> Workload list \<Rightarrow> origins \<times> discovered \<times> Result \<Rightarrow> origins \<times> discovered \<times> Result" where
  "collect_workloads sources [] st = st"
| "collect_workloads sources (wl # wls) (orig, disc, result) =
     (let validation = ValidateAll (ExtractAll sources wl) in
      collect_workloads sources wls
        (collect_names (wl_Name wl) (vr_Valid validation)
          (orig, disc, result\<lparr>res_HostnamesInvalid :=
             res_HostnamesInvalid result + length (vr_Invalid validation)\<rparr>)))"

fun collect_files :: "Hostnames \<Rightarrow> discovered \<Rightarrow> discovered" where
  "collect_files [] disc = disc"
| "collect_files (hostname # hostnames) disc =
     (let normalizedName = NormalizedName hostname in
      collect_files hostnames
        (if has_key disc normalizedName then disc else AList.update normalizedName hostname disc))"

definition extractHostnames ::
  "'w Reconciler \<Rightarrow> Workload list \<Rightarrow> Result \<Rightarrow> 'w \<Rightarrow> discovered \<times> Result" where
  "extractHostnames r workloads result w =
     (let (orig, disc, result) = collect_workloads (rn_sources r) workloads ([], [], result);
          fileHostnames = DiscoverAll (rn_sources r) w
      in if length fileHostnames > 0 then
           let validation = ValidateAll fileHostnames in
           (collect_files (vr_Valid validation) disc,
            result\<lparr>res_HostnamesInvalid := res_HostnamesInvalid result + length (vr_Invalid validation)\<rparr>)
         else (disc, result))"

subsection \<open>The reconciliation cycle\<close>

fun list_all_workloads :: "'w Lister list \<Rightarrow> Workload list \<Rightarrow> 'w \<Rightarrow> err + Workload list" where
  "list_all_workloads [] allWorkloads w = Inr allWorkloads"
| "list_all_workloads (lister # listers) allWorkloads w =
     (case l_ListWorkloads lister w of
        Inl e \<Rightarrow> Inl (Errorf (''listing workloads from '' @ l_Platform lister @ '': '') e)
      | Inr workloads \<Rightarrow> list_all_workloads listers (allWorkloads @ workloads) w)"

definition appendUnique :: "string list \<Rightarrow> string \<Rightarrow> string list" where
  "appendUnique xs v = (if list_ex (\<lambda>x. x = v) xs then xs else xs @ [v])"

type_synonym mapping = "(string, string list) gomap"

text \<open>Adds the actions of one hostname to the result and to the provider mapping.\<close>

fun record_actions :: "string \<Rightarrow> Action list \<Rightarrow> Result \<times> mapping \<Rightarrow> Result \<times> mapping" where
  "record_actions name [] st = st"
| "record_actions name (action # actions) (result, providerMapping) =
     record_actions name actions
       (AddAction action result,
        if a_Provider action \<noteq> [] \<and> a_Type action \<noteq> ActionSkip
        then AList.update name (appendUnique (map_get [] providerMapping name) (a_Provider action)) providerMapping
        else providerMapping)"

fun ensure_all ::
  "discovered \<Rightarrow> string list \<Rightarrow> recordCache \<Rightarrow> Result \<times> mapping \<Rightarrow> 'w Reconciler \<times> 'w \<Rightarrow>
   ((Result \<times> mapping) \<times> 'w Reconciler \<times> 'w) option" where
  "ensure_all disc [] cache acc st = Some (acc, st)"
| "ensure_all disc (key # keys) cache acc st =
     (let hostname = the (map_of disc key) in
      case ensureRecord hostname (Some cache) st of
        None \<Rightarrow> None
      | Some (actions, st') \<Rightarrow> ensure_all disc keys cache (record_actions (h_Name hostname) actions acc) st')"

definition Reconcile ::
  "string iteration \<Rightarrow> string iteration \<Rightarrow> time \<times> time \<Rightarrow> 'w Reconciler \<times> 'w \<Rightarrow>
   ((err + Result) \<times> 'w Reconciler \<times> 'w) option" where
  "Reconcile orderH orderO now st =
     (let (r, w) = st in
      if \<not> rn_enabled r then Some (Inr (Complete (snd now) (NewResult (fst now) (rn_dryRun r))), r, w)
      else
        let result = NewResult (fst now) (rn_dryRun r) in
        case list_all_workloads (rn_listers r) [] w of
          Inl e \<Rightarrow> Some (Inl e, r, w)
        | Inr allWorkloads \<Rightarrow>
            let result = result\<lparr>res_WorkloadsScanned := length allWorkloads\<rparr>;
                (disc, result) = extractHostnames r allWorkloads result w;
                result = result\<lparr>res_HostnamesDiscovered := length disc\<rparr>;
                (cache, w1) = newRecordCache (rn_providers r) w
            in case ensure_all disc (orderH (map fst disc)) cache (result, []) (r, w1) of
                 None \<Rightarrow> None
               | Some ((result, currentProviderMapping), r2, w2) \<Rightarrow>
                   let (result, w3) =
                         (if rc_CleanupOrphans (rn_config r2) then
                            let (orphanActions, w3) = cleanupOrphans orderO r2 disc (Some cache) w2
                            in (fold AddAction orphanActions result, w3)
                          else (result, w2));
                       r3 = r2\<lparr>rn_knownHostnames := map fst disc,
                               rn_hostnameProviders := currentProviderMapping\<rparr>
                   in Some (Inr (Complete (snd now) result), r3, w3))"

subsection \<open>Single hostnames\<close>

definition set_insert :: "string \<Rightarrow> string list \<Rightarrow> string list" where
  "set_insert x xs = (if x \<in> set xs then xs else xs @ [x])"

definition ReconcileHostname ::
  "time \<times> time \<Rightarrow> string \<Rightarrow> 'w Reconciler \<times> 'w \<Rightarrow> (Result \<times> 'w Reconciler \<times> 'w) option" where
  "ReconcileHostname now hostnameStr st =
     (let (r, w) = st; result = NewResult (fst now) (rn_dryRun r) in
      if \<not> rn_enabled r then Some (Complete (snd now) result, r, w)
      else
        let hostname = \<lparr>h_Name = hostnameStr, h_Source = ''api'', h_Router = [], h_RecordHints = None,
                        h_Metadata = []\<rparr>
        in case ensureRecord hostname None (r, w) of
             None \<Rightarrow> None
           | Some (actions, r1, w1) \<Rightarrow>
               Some (Complete (snd now) (fold AddAction actions (result\<lparr>res_HostnamesDiscovered := 1\<rparr>)),
                     r1\<lparr>rn_knownHostnames := set_insert (NormalizeHostname hostnameStr) (rn_knownHostnames r1)\<rparr>,
                     w1))"

definition RemoveHostname ::
  "time \<times> time \<Rightarrow> string \<Rightarrow> 'w Reconciler \<times> 'w \<Rightarrow> Result \<times> 'w Reconciler \<times> 'w" where
  "RemoveHostname now hostname0 st =
     (let (r, w) = st; result = NewResult (fst now) (rn_dryRun r) in
      if \<not> rn_enabled r then (Complete (snd now) result, r, w)
      else
        let hostname = NormalizeHostname hostname0;
            (actions, w1) = deleteRecord r hostname w
        in (Complete (snd now) (fold AddAction actions result),
            r\<lparr>rn_knownHostnames := filter (\<lambda>h. h \<noteq> hostname) (rn_knownHostnames r)\<rparr>, w1))"

definition KnownHostnames :: "string iteration \<Rightarrow> 'w Reconciler \<Rightarrow> string list" where
  "KnownHostnames order r = order (rn_knownHostnames r)"

definition RecoveredMetadata :: "'w Reconciler \<Rightarrow> (string, metadata) gomap option" where
  "RecoveredMetadata r = rn_recoveredMetadata r"

subsection \<open>Recovery at startup\<close>

fun recover_names ::
  "string \<Rightarrow> RecoveredHostname list \<Rightarrow> 'w Reconciler \<times> (string, metadata) gomap \<Rightarrow>
   'w Reconciler \<times> (string, metadata) gomap" where
  "recover_names provider [] st = st"
| "recover_names provider (rh # rhs) (r, meta) =
     (let normalized = NormalizeHostname (rec_Hostname rh) in
      recover_names provider rhs
        (r\<lparr>rn_knownHostnames := set_insert normalized (rn_knownHostnames r),
           rn_hostnameProviders := AList.update normalized
             (appendUnique (map_get [] (rn_hostnameProviders r) normalized) provider)
             (rn_hostnameProviders r)\<rparr>,
         if length (rec_Metadata rh) > 0 then AList.update normalized (rec_Metadata rh) meta else meta))"

fun recover_providers ::
  "'w ProviderInstance list \<Rightarrow> ('w Reconciler \<times> (string, metadata) gomap) \<times> string list \<Rightarrow> 'w \<Rightarrow>
   (('w Reconciler \<times> (string, metadata) gomap) \<times> string list) \<times> 'w" where
  "recover_providers [] acc w = (acc, w)"
| "recover_providers (inst # insts) (st, failed) w =
     (case RecoverOwnedHostnames inst w of
        (Inl _, w') \<Rightarrow> recover_providers insts (st, failed @ [Name inst]) w'
      | (Inr recovered, w') \<Rightarrow>
          recover_providers insts (recover_names (Name inst) recovered st, failed) w')"

definition RecoverOwnership :: "'w Reconciler \<times> 'w \<Rightarrow> err option \<times> 'w Reconciler \<times> 'w" where
  "RecoverOwnership st =
     (let (r, w) = st in
      if \<not> rc_CleanupOrphans (rn_config r) \<or> \<not> rc_OwnershipTracking (rn_config r) then (None, r, w)
      else
        let (((r1, recoveredMeta), failedProviders), w1) =
              recover_providers (All (rn_providers r)) ((r, []), []) w;
            r2 = r1\<lparr>rn_recoveredMetadata := Some recoveredMeta\<rparr>
        in (if length failedProviders > 0
            then Some (ErrorNew (''ownership recovery failed for '' @ Itoa (length failedProviders) @
                   '' provider(s): '' @ show_slice failedProviders))
            else None, r2, w1))"

subsection \<open>Metrics of a cycle\<close>

datatype metric =
    ReconciliationsTotal string | ReconciliationDuration time
  | WorkloadsScanned nat | HostnamesDiscovered nat
  | RecordsCreatedTotal string | RecordsDeletedTotal string
  | RecordsFailedTotal string string | RecordsSkippedTotal string

definition action_metrics :: "Action \<Rightarrow> metric list" where
  "action_metrics a =
     (if a_Type a = ActionCreate then
        (if a_Status a = StatusSuccess then [RecordsCreatedTotal (a_Provider a)]
         else if a_Status a = StatusFailed then [RecordsFailedTotal (a_Provider a) ''create''] else [])
      else if a_Type a = ActionDelete then
        (if a_Status a = StatusSuccess then [RecordsDeletedTotal (a_Provider a)]
         else if a_Status a = StatusFailed then [RecordsFailedTotal (a_Provider a) ''delete''] else [])
      else if a_Type a = ActionUpdate then
        (if a_Status a = StatusFailed then [RecordsFailedTotal (a_Provider a) ''update''] else [])
      else if a_Type a = ActionSkip then
        (let reason = (if a_Error a \<noteq> [] then a_Error a else ''unknown'');
             reason = (if reason = errNoMatchingProvider then ''no_provider'' else reason)
         in [RecordsSkippedTotal reason])
      else [])"

definition recordMetrics :: "time \<Rightarrow> Result \<Rightarrow> metric list" where
  "recordMetrics now result =
     [ReconciliationsTotal (if HasErrors result then ''error'' else ''success''),
      ReconciliationDuration (Duration now result),
      WorkloadsScanned (res_WorkloadsScanned result), HostnamesDiscovered (res_HostnamesDiscovered result)] @
     concat (map action_metrics (res_Actions result))"

subsection \<open>First workload wins\<close>

text \<open>The valid hostnames in the order they are met: workload after workload, then the files.\<close>

definition declared :: "'w Reconciler \<Rightarrow> Workload list \<Rightarrow> 'w \<Rightarrow> Hostnames" where
  "declared r wls w =
     concat (map (\<lambda>wl. ValidHostnames (ExtractAll (rn_sources r) wl)) wls) @
     ValidHostnames (DiscoverAll (rn_sources r) w)"

definition first_named :: "Hostnames \<Rightarrow> string \<Rightarrow> Hostname option" where
  "first_named hs n = find (\<lambda>h. NormalizedName h = n) hs"

lemma first_named_Cons:
  "first_named (h # hs) n = (if NormalizedName h = n then Some h else first_named hs n)"
  by (simp add: first_named_def)

lemma collect_names_spec:
  assumes "collect_names wl hs (orig, disc, res) = (orig', disc', res')"
    and "\<forall>n. has_key orig n = has_key disc n" and "wf_map disc"
  shows "(\<forall>n. map_of disc' n = (case map_of disc n of Some h \<Rightarrow> Some h | None \<Rightarrow> first_named hs n)) \<and>
    (\<forall>n. has_key orig' n = has_key disc' n) \<and> wf_map disc'"
  using assms
proof (induction hs arbitrary: orig disc res)
  case (Cons h hs)
  show ?case
  proof (cases "has_key orig (NormalizedName h)")
    case True
    then have k: "map_of disc (NormalizedName h) \<noteq> None" using Cons.prems(2) by (metis has_key_def)
    have "collect_names wl hs (orig, disc, res\<lparr>res_HostnamesDuplicate := res_HostnamesDuplicate res + 1\<rparr>) =
        (orig', disc', res')"
      using Cons.prems(1) True by (simp add: Let_def)
    from Cons.IH [OF this Cons.prems(2,3)] show ?thesis
      using k by (auto simp: first_named_Cons split: option.splits)
  next
    case False
    then have k: "map_of disc (NormalizedName h) = None" using Cons.prems(2) by (metis has_key_def)
    let ?d = "AList.update (NormalizedName h) h disc" and ?o = "AList.update (NormalizedName h) wl orig"
    have "collect_names wl hs (?o, ?d, res) = (orig', disc', res')"
      using Cons.prems(1) False by (simp add: Let_def)
    moreover have "\<forall>n. has_key ?o n = has_key ?d n" "wf_map ?d"
      using Cons.prems(2,3) by (simp_all add: wf_map_update)
    ultimately show ?thesis
      using Cons.IH [of ?o ?d res] k by (simp add: first_named_Cons split: option.splits)
  qed
qed (simp add: first_named_def split: option.splits)

lemma collect_workloads_spec:
  assumes "collect_workloads src wls (orig, disc, res) = (orig', disc', res')"
    and "\<forall>n. has_key orig n = has_key disc n" and "wf_map disc"
  shows "(\<forall>n. map_of disc' n = (case map_of disc n of Some h \<Rightarrow> Some h
      | None \<Rightarrow> first_named (concat (map (\<lambda>wl. ValidHostnames (ExtractAll src wl)) wls)) n)) \<and> wf_map disc'"
  using assms
proof (induction wls arbitrary: orig disc res)
  case (Cons wl wls)
  obtain o1 d1 r1 where c: "collect_names (wl_Name wl) (ValidHostnames (ExtractAll src wl))
      (orig, disc, res\<lparr>res_HostnamesInvalid :=
         res_HostnamesInvalid res + length (vr_Invalid (ValidateAll (ExtractAll src wl)))\<rparr>) = (o1, d1, r1)"
    by (metis prod_cases3)
  note st = collect_names_spec [OF c Cons.prems(2,3)]
  have "collect_workloads src wls (o1, d1, r1) = (orig', disc', res')"
    using Cons.prems(1) c by (simp add: Let_def)
  then show ?case
    using Cons.IH [of o1 d1 r1] st by (simp add: first_named_def find_append split: option.splits)
qed (simp add: first_named_def split: option.splits)

lemma collect_files_spec:
  "(\<forall>n. map_of (collect_files hs disc) n =
      (case map_of disc n of Some h \<Rightarrow> Some h | None \<Rightarrow> first_named hs n)) \<and>
    (wf_map disc \<longrightarrow> wf_map (collect_files hs disc))"
  by (induction hs arbitrary: disc)
    (auto simp: first_named_def Let_def has_key_def wf_map_update split: option.splits)

lemma extractHostnames_spec:
  assumes "extractHostnames r wls res w = (disc, res')"
  shows "map_of disc n = first_named (declared r wls w) n" and "wf_map disc"
proof -
  obtain o1 d1 r1 where c: "collect_workloads (rn_sources r) wls ([], [], res) = (o1, d1, r1)"
    by (metis prod_cases3)
  have st: "(\<forall>n. map_of d1 n = (case map_of [] n of Some h \<Rightarrow> Some h
      | None \<Rightarrow> first_named (concat (map (\<lambda>wl. ValidHostnames (ExtractAll (rn_sources r) wl)) wls)) n)) \<and> wf_map d1"
    by (rule collect_workloads_spec [OF c]) simp_all
  have "disc = collect_files (ValidHostnames (DiscoverAll (rn_sources r) w)) d1"
    using assms c by (auto simp: extractHostnames_def Let_def ValidHostnames_def Filter_def split: if_splits)
  then show "map_of disc n = first_named (declared r wls w) n" "wf_map disc"
    using st collect_files_spec [of "ValidHostnames (DiscoverAll (rn_sources r) w)" d1]
    by (auto simp: declared_def first_named_def find_append split: option.splits)
qed

lemma extractHostnames_keys:
  assumes "extractHostnames r wls res w = (disc, res')" and "map_of disc n = Some h"
  shows "NormalizedName h = n" "h \<in> set (declared r wls w)" "IsValid h"
proof -
  have "find (\<lambda>h. NormalizedName h = n) (declared r wls w) = Some h"
    using extractHostnames_spec(1) [OF assms(1)] assms(2) by (simp add: first_named_def)
  then show "NormalizedName h = n" "h \<in> set (declared r wls w)" by (auto simp: find_Some_iff)
  then show "IsValid h" by (auto simp: declared_def ValidHostnames_def Filter_def)
qed

subsection \<open>The cycle in stages\<close>

lemma ensure_all_Cons_Some:
  assumes "ensure_all disc (k # ks) cache acc st = Some res"
  obtains actions st' where "ensureRecord (the (map_of disc k)) (Some cache) st = Some (actions, st')"
    "ensure_all disc ks cache (record_actions (h_Name (the (map_of disc k))) actions acc) st' = Some res"
  using assms by (auto simp: Let_def split: option.splits)

text \<open>A cycle that gets past the listers.\<close>

lemma Reconcile_cases:
  assumes "Reconcile oH oO now (r, w) = Some (out, r', w')"
  obtains (disabled) "\<not> rn_enabled r" "out = Inr (Complete (snd now) (NewResult (fst now) (rn_dryRun r)))"
      "r' = r" "w' = w"
  | (failed) e where "rn_enabled r" "out = Inl e" "r' = r" "w' = w"
      "list_all_workloads (rn_listers r) [] w = Inl e"
  | (cycle) wls disc res0 res cache w1 res2 m r2 w2 where "rn_enabled r"
      "list_all_workloads (rn_listers r) [] w = Inr wls"
      "extractHostnames r wls res0 w = (disc, res)"
      "res0 = (NewResult (fst now) (rn_dryRun r))\<lparr>res_WorkloadsScanned := length wls\<rparr>"
      "newRecordCache (rn_providers r) w = (cache, w1)"
      "ensure_all disc (oH (map fst disc)) cache (res\<lparr>res_HostnamesDiscovered := length disc\<rparr>, []) (r, w1) =
        Some ((res2, m), r2, w2)"
      "r' = r2\<lparr>rn_knownHostnames := map fst disc, rn_hostnameProviders := m\<rparr>"
      "w' = (if rc_CleanupOrphans (rn_config r2)
         then snd (cleanupOrphans oO r2 disc (Some cache) w2) else w2)"
      "out = Inr (Complete (snd now) (if rc_CleanupOrphans (rn_config r2)
         then fold AddAction (fst (cleanupOrphans oO r2 disc (Some cache) w2)) res2 else res2))"
proof (cases "rn_enabled r")
  case False
  then show thesis using assms by (intro disabled) (auto simp: Reconcile_def)
next
  case True
  show thesis
  proof (cases "list_all_workloads (rn_listers r) [] w")
    case (Inl e)
    then show thesis using assms True by (intro failed [of e]) (auto simp: Reconcile_def Let_def)
  next
    case (Inr wls)
    let ?res0 = "(NewResult (fst now) (rn_dryRun r))\<lparr>res_WorkloadsScanned := length wls\<rparr>"
    obtain disc res where x: "extractHostnames r wls ?res0 w = (disc, res)" by fastforce
    obtain cache w1 where c: "newRecordCache (rn_providers r) w = (cache, w1)" by fastforce
    let ?e = "ensure_all disc (oH (map fst disc)) cache (res\<lparr>res_HostnamesDiscovered := length disc\<rparr>, []) (r, w1)"
    have nn: "?e \<noteq> None"
      using assms True Inr x c by (cases ?e) (auto simp: Reconcile_def Let_def)
    obtain res2 m r2 w2 where e: "?e = Some ((res2, m), r2, w2)"
      using nn by (cases ?e) auto
    show thesis
      using assms True Inr x c e
      by (intro cycle [OF True Inr x refl c e]) (auto simp: Reconcile_def Let_def case_prod_unfold split: if_splits)
  qed
qed

definition wf_reconciler :: "'w Reconciler \<Rightarrow> bool" where
  "wf_reconciler r \<longleftrightarrow> distinct (rn_knownHostnames r) \<and>
     (\<forall>h \<in> set (rn_knownHostnames r). h \<in> range NormalizeHostname)"

lemma ensure_all_frame:
  assumes "ensure_all disc ks cache acc (r, w) = Some (acc', r', w')"
    and step: "\<And>h r w as r' w'. h \<in> ran (map_of disc) \<Longrightarrow> P r w \<Longrightarrow>
      ensureRecord h (Some cache) (r, w) = Some (as, r', w') \<Longrightarrow> P r' w'"
    and "set ks \<subseteq> dom (map_of disc)" and "P r w"
  shows "P r' w'"
  using assms(1,3,4)
proof (induction ks arbitrary: acc r w)
  case (Cons k ks)
  obtain as r1 w1 where e: "ensureRecord (the (map_of disc k)) (Some cache) (r, w) = Some (as, r1, w1)"
    and f: "ensure_all disc ks cache (record_actions (h_Name (the (map_of disc k))) as acc) (r1, w1) =
      Some (acc', r', w')"
    using ensure_all_Cons_Some [OF Cons.prems(1)] by (metis prod.collapse)
  have "the (map_of disc k) \<in> ran (map_of disc)" using Cons.prems(2) by (auto simp: ran_def)
  then have "P r1 w1" using step e Cons.prems(3) by blast
  then show ?case using Cons.IH [OF f] Cons.prems(2) by simp
qed simp

lemma iteration_dom:
  "is_iteration order \<Longrightarrow> wf_map m \<Longrightarrow> set (order (map fst m)) = dom (map_of m)"
  using is_iteration_set [of order "map fst m"] by (simp add: wf_map_def dom_map_of_conv_image_fst)

context world_order
begin

lemma R_Reconcile:
  assumes run: "Reconcile oH oO now (r, w) = Some (out, r', w')"
    and iter: "is_iteration oH" "is_iteration oO" and known: "distinct (rn_knownHostnames r)"
    and lists: "\<And>i. i \<in> set (All (rn_providers r)) \<Longrightarrow> safe (pi_Provider i) CList"
    and ensure: "\<And>i h wls. i \<in> set (All (rn_providers r)) \<Longrightarrow> \<not> rn_dryRun r \<Longrightarrow>
      list_all_workloads (rn_listers r) [] w = Inr wls \<Longrightarrow> h \<in> set (declared r wls w) \<Longrightarrow>
      safe_on (pi_Provider i) (own_names (h_Name h))"
    and clean: "\<And>i h. i \<in> set (All (rn_providers r)) \<Longrightarrow> h \<in> set (rn_knownHostnames r) \<Longrightarrow>
      \<not> rn_dryRun r \<or> cache_only r i \<Longrightarrow> mode_of i \<noteq> ModeAdditive \<Longrightarrow>
      rc_CleanupOrphans (rn_config r) \<Longrightarrow> safe_on (pi_Provider i) (own_names h)"
  shows "R w w'"
  using run
proof (cases rule: Reconcile_cases)
  case (cycle wls disc res0 res cache w1 res2 m r2 w2)
  note ext = extractHostnames_keys [OF cycle(3)]
  have 1: "R w w1" using R_newRecordCache [OF lists cycle(5)] .
  have wfc: "wf_cache_opt (Some cache)"
    using wf_newRecordCache [of "rn_providers r" w] cycle(5) by (simp add: wf_cache_opt_def)
  have keys: "set (oH (map fst disc)) \<subseteq> dom (map_of disc)"
    using iteration_dom [OF iter(1) extractHostnames_spec(2) [OF cycle(3)]] by simp
  have 2: "same_reconciler r r2 \<and> R w w2"
  proof (rule ensure_all_frame [OF cycle(6), where P = "\<lambda>r2 w2. same_reconciler r r2 \<and> R w w2"])
    fix h ra wa as rb wb
    assume h: "h \<in> ran (map_of disc)" and p: "same_reconciler r ra \<and> R w wa"
      and e: "ensureRecord h (Some cache) (ra, wa) = Some (as, rb, wb)"
    note same = same_reconcilerD [OF p [THEN conjunct1]]
    show "same_reconciler r rb \<and> R w wb"
    proof (cases "rn_dryRun r")
      case True
      then show ?thesis
        using dry_ensureRecord [OF _ e] p same(3) same_reconciler_trans by metis
    next
      case False
      have "h \<in> set (declared r wls w)" using h ext(2) by (auto simp: ran_def)
      then have "\<And>i. i \<in> set (All (rn_providers ra)) \<Longrightarrow> safe_on (pi_Provider i) (own_names (h_Name h))"
        using ensure [OF _ False cycle(2)] same(1) by simp
      from R_ensureRecord [OF this wfc e] p show ?thesis
        using R_trans same_reconciler_trans by blast
    qed
  qed (use keys 1 in simp_all)
  note same2 = same_reconcilerD [OF 2 [THEN conjunct1]]
  have "R w2 (snd (cleanupOrphans oO r2 disc (Some cache) w2))" if co: "rc_CleanupOrphans (rn_config r2)"
    using lists clean iter(2) known same2 co
    by (intro R_cleanupOrphans) (simp_all add: cache_only_def)
  then show ?thesis using 2 cycle(8) R_trans by auto
qed (simp_all add: R_refl)

end

subsection \<open>A cycle returns\<close>

lemma ensureRecord_same:
  assumes "ensureRecord h cache (r, w) = Some (as, r', w')"
  shows "same_reconciler r r'"
proof -
  have each: "same_reconciler r r'" if "ensure_each h insts cache (r, w) = Some (as, r', w')" for insts as r w
    using that
  proof (induction insts arbitrary: r w as)
    case (Cons i insts)
    obtain a r1 w1 as' where e: "ensureRecordForProvider h i cache (r, w) = Some (a, r1, w1)"
      and f: "ensure_each h insts cache (r1, w1) = Some (as', r', w')"
      using Cons.prems by (auto split: option.splits)
    show ?case using same_reconciler_trans [OF ensureRecordForProvider_Some(1) [OF e] Cons.IH [OF f]] .
  qed simp
  show ?thesis
    using assms
  proof (cases rule: ensureRecord_cases)
    case (explicit inst)
    obtain a where e: "ensureRecordForProvider h inst cache (r, w) = Some (a, r', w')"
      using explicit(2) [symmetric] by (auto simp: map_option_eq_Some)
    show ?thesis using ensureRecordForProvider_Some(1) [OF e] .
  next
    case (matched ms)
    then show ?thesis using each by metis
  qed simp
qed

lemma complete_cache_providers:
  assumes "\<And>i. i \<in> set insts \<Longrightarrow> complete_provider (pi_Provider i)" and "complete_cache (Some c)"
  shows "complete_cache (Some (fst (cache_providers insts c w)))"
  using assms
proof (induction insts arbitrary: c w)
  case (Cons i insts)
  have upd: "complete_cache (Some (AList.update k v c))"
    if "\<And>m n. v = Some m \<Longrightarrow> srv_complete (map_get [] m n)" for k v
    using Cons.prems(2) that
    by (cases v) (auto simp: complete_cache_def provider_records_def split: if_splits)
  have ok: "srv_complete (map_get [] (index_hostnames rs) n)" if "p_List (pi_Provider i) w = (Inr rs, w1)" for rs w1 n
    using Cons.prems(1) [of i] that
    by (auto simp: index_hostnames_lookup complete_provider_def intro!: srv_complete_filter)
  have ih: "complete_cache (Some c') \<Longrightarrow> complete_cache (Some (fst (cache_providers insts c' w')))" for c' w'
    using Cons.IH Cons.prems(1) by simp
  show ?case
    by (auto intro!: ih upd simp: ok split: prod.splits sum.splits)
qed simp

lemma ensure_all_total:
  assumes "complete_cache (Some cache)"
    and "\<And>i. i \<in> set (All (rn_providers r)) \<Longrightarrow> complete_provider (pi_Provider i)"
  shows "\<exists>res. ensure_all disc ks cache acc (r, w) = Some res"
  using assms(2)
proof (induction ks arbitrary: acc r w)
  case (Cons k ks)
  let ?h = "the (map_of disc k)"
  obtain as r1 w1 where e: "ensureRecord ?h (Some cache) (r, w) = Some (as, r1, w1)"
    using ensureRecord_total [OF assms(1) Cons.prems] by blast
  have "rn_providers r1 = rn_providers r" using ensureRecord_same [OF e] by (rule same_reconcilerD)
  then obtain res where "ensure_all disc ks cache (record_actions (h_Name ?h) as acc) (r1, w1) = Some res"
    using Cons by metis
  then have "ensure_all disc (k # ks) cache acc (r, w) = Some res" using e by (simp add: Let_def)
  then show ?case by blast
qed auto

lemma Reconcile_total:
  assumes "\<And>i. i \<in> set (All (rn_providers r)) \<Longrightarrow> complete_provider (pi_Provider i)"
  shows "\<exists>out r' w'. Reconcile oH oO now (r, w) = Some (out, r', w')"
proof (cases "rn_enabled r")
  case True
  show ?thesis
  proof (cases "list_all_workloads (rn_listers r) [] w")
    case (Inr wls)
    let ?res0 = "(NewResult (fst now) (rn_dryRun r))\<lparr>res_WorkloadsScanned := length wls\<rparr>"
    obtain disc res where x: "extractHostnames r wls ?res0 w = (disc, res)" by fastforce
    obtain cache w1 where c: "newRecordCache (rn_providers r) w = (cache, w1)" by fastforce
    have "complete_cache (Some [])" by (simp add: complete_cache_def provider_records_def)
    then have "complete_cache (Some cache)"
      using complete_cache_providers [of "All (rn_providers r)" "[]" w, OF assms] c
      by (simp add: newRecordCache_def)
    then have "\<exists>res2. ensure_all disc (oH (map fst disc)) cache
        (res\<lparr>res_HostnamesDiscovered := length disc\<rparr>, []) (r, w1) = Some res2"
      by (rule ensure_all_total) (rule assms)
    then obtain res2 where "ensure_all disc (oH (map fst disc)) cache
        (res\<lparr>res_HostnamesDiscovered := length disc\<rparr>, []) (r, w1) = Some res2" by (rule exE)
    then show ?thesis
      using True Inr x c by (auto simp: Reconcile_def Let_def case_prod_unfold)
  qed (use True in \<open>simp add: Reconcile_def Let_def\<close>)
qed (simp add: Reconcile_def Let_def)

subsection \<open>The result of a cycle\<close>

definition wf_result :: "Result \<Rightarrow> bool" where
  "wf_result res \<longleftrightarrow> (\<forall>a \<in> set (res_Actions res). wf_action a \<and> a_DryRun a = res_DryRun res)"

lemma wf_result_AddAction: "wf_result res \<Longrightarrow> wf_action a \<Longrightarrow> wf_result (AddAction a res)"
  by (auto simp: wf_result_def AddAction_def wf_action_def)

lemma wf_result_fold: "wf_result res \<Longrightarrow> \<forall>a \<in> set as. wf_action a \<Longrightarrow> wf_result (fold AddAction as res)"
  by (induction as arbitrary: res) (auto simp: wf_result_AddAction)

lemma wf_record_actions:
  "wf_result (fst acc) \<Longrightarrow> \<forall>a \<in> set as. wf_action a \<Longrightarrow> wf_result (fst (record_actions n as acc))"
  by (induction n as acc rule: record_actions.induct) (auto simp: wf_result_AddAction)

lemma wf_ensure_all:
  "ensure_all disc ks cache acc st = Some (acc', st') \<Longrightarrow> wf_result (fst acc) \<Longrightarrow> wf_result (fst acc')"
proof (induction ks arbitrary: acc st)
  case (Cons k ks)
  obtain as st1 where e: "ensureRecord (the (map_of disc k)) (Some cache) st = Some (as, st1)"
    and f: "ensure_all disc ks cache (record_actions (h_Name (the (map_of disc k))) as acc) st1 = Some (acc', st')"
    using ensure_all_Cons_Some [OF Cons.prems(1)] by metis
  obtain r w where "st = (r, w)" by fastforce
  then have "\<forall>a \<in> set as. wf_action a" using wf_ensureRecord e by metis
  then show ?case using Cons.IH [OF f] wf_record_actions Cons.prems(2) by blast
qed simp

lemma extract_actions:
  assumes "extractHostnames r wls res w = (disc, res')"
  shows "res_Actions res' = res_Actions res" "res_DryRun res' = res_DryRun res"
    "res_WorkloadsScanned res' = res_WorkloadsScanned res"
proof -
  have 1: "collect_names n hs (x, d, q) = (x', d', q') \<Longrightarrow>
      res_Actions q' = res_Actions q \<and> res_DryRun q' = res_DryRun q \<and>
      res_WorkloadsScanned q' = res_WorkloadsScanned q" for n hs x d q x' d' q'
    by (induction hs arbitrary: x d q) (auto simp: Let_def split: if_splits)
  have 2: "collect_workloads s ws (x, d, q) = (x', d', q') \<Longrightarrow>
      res_Actions q' = res_Actions q \<and> res_DryRun q' = res_DryRun q \<and>
      res_WorkloadsScanned q' = res_WorkloadsScanned q" for s ws x d q x' d' q'
  proof (induction ws arbitrary: x d q)
    case (Cons wl ws)
    obtain x1 d1 q1 where c: "collect_names (wl_Name wl) (ValidHostnames (ExtractAll s wl))
        (x, d, q\<lparr>res_HostnamesInvalid :=
           res_HostnamesInvalid q + length (vr_Invalid (ValidateAll (ExtractAll s wl)))\<rparr>) = (x1, d1, q1)"
      by (metis prod_cases3)
    then show ?case using Cons 1 [OF c] by (simp add: Let_def)
  qed simp
  obtain o1 d1 q1 where c: "collect_workloads (rn_sources r) wls ([], [], res) = (o1, d1, q1)"
    by (metis prod_cases3)
  show "res_Actions res' = res_Actions res" "res_DryRun res' = res_DryRun res"
    "res_WorkloadsScanned res' = res_WorkloadsScanned res"
    using assms c 2 [OF c] by (auto simp: extractHostnames_def Let_def split: if_splits)
qed

lemma wf_Reconcile:
  assumes "Reconcile oH oO now (r, w) = Some (Inr res, r', w')"
  shows "wf_result res"
  using assms
proof (cases rule: Reconcile_cases)
  case disabled
  then show ?thesis by (simp add: wf_result_def Complete_def NewResult_def)
next
  case (cycle wls disc res0 res1 cache w1 res2 m r2 w2)
  have "wf_result (res1\<lparr>res_HostnamesDiscovered := length disc\<rparr>)"
    using extract_actions [OF cycle(3)] cycle(4) by (simp add: wf_result_def NewResult_def)
  then have "wf_result res2" using wf_ensure_all [OF cycle(6)] by simp
  then have "wf_result (if rc_CleanupOrphans (rn_config r2)
      then fold AddAction (fst (cleanupOrphans oO r2 disc (Some cache) w2)) res2 else res2)"
    using wf_cleanupOrphans by (auto intro!: wf_result_fold)
  then show ?thesis using cycle(9) by (simp add: wf_result_def Complete_def)
qed simp

lemma Reconcile_known:
  assumes "Reconcile oH oO now (r, w) = Some (Inr res, r', w')" and "rn_enabled r"
  obtains wls where "list_all_workloads (rn_listers r) [] w = Inr wls"
    "distinct (rn_knownHostnames r')" "set (rn_knownHostnames r') = NormalizedName ` set (declared r wls w)"
  using assms(1)
proof (cases rule: Reconcile_cases)
  case (cycle wls disc res0 res1 cache w1 res2 m r2 w2)
  note ext = extractHostnames_spec [OF cycle(3)]
  have "n \<in> fst ` set disc \<longleftrightarrow> n \<in> NormalizedName ` set (declared r wls w)" for n
  proof -
    have "n \<in> fst ` set disc \<longleftrightarrow> first_named (declared r wls w) n \<noteq> None"
      using ext(1) [of n] map_of_eq_None_iff [of disc n] by metis
    then show ?thesis by (auto simp: first_named_def find_None_iff)
  qed
  then show thesis
    using that [OF cycle(2)] cycle(7) ext(2) by (auto simp: wf_map_def)
qed (use assms(2) in simp_all)

subsection \<open>Runs of the reconciler\<close>

inductive rec_step :: "'w Reconciler \<times> 'w \<Rightarrow> 'w Reconciler \<times> 'w \<Rightarrow> bool" where
  rec_cycle: "Reconcile oH oO now (r, w) = Some (out, r', w') \<Longrightarrow> rec_step (r, w) (r', w')"
| rec_hostname: "ReconcileHostname now h (r, w) = Some (res, r', w') \<Longrightarrow> rec_step (r, w) (r', w')"
| rec_remove: "RemoveHostname now h (r, w) = (res, r', w') \<Longrightarrow> rec_step (r, w) (r', w')"
| rec_recover: "RecoverOwnership (r, w) = (e, r', w') \<Longrightarrow> rec_step (r, w) (r', w')"
| rec_enabled: "rec_step (r, w) (SetEnabled b r, w)"
| rec_dryrun: "rec_step (r, w) (SetDryRun b r, w)"
| rec_world: "rec_step (r, w) (r\<lparr>rn_providers := reg\<rparr>, w')"  \<comment> \<open>providers and backends change on their own\<close>

inductive rec_reach :: "'w Lister list \<Rightarrow> 'w SourceRegistry \<Rightarrow> Config \<Rightarrow> 'w Reconciler \<times> 'w \<Rightarrow> bool"
  for ls ss c where
  rec_new: "rec_reach ls ss c (New ls ss reg c, w)"
| rec_next: "rec_reach ls ss c s \<Longrightarrow> rec_step s t \<Longrightarrow> rec_reach ls ss c t"

lemma set_insert_simps [simp]: "set (set_insert x xs) = insert x (set xs)"
  "distinct (set_insert x xs) = distinct xs"
  by (auto simp: set_insert_def)

lemma wf_known_update:
  "wf_reconciler r \<Longrightarrow> rn_knownHostnames r' = set_insert (NormalizeHostname h) (rn_knownHostnames r) \<Longrightarrow>
    wf_reconciler r'"
  by (simp add: wf_reconciler_def)

lemma wf_Reconcile_state:
  assumes "Reconcile oH oO now (r, w) = Some (out, r', w')" and "wf_reconciler r"
  shows "wf_reconciler r'"
proof (cases "rn_enabled r \<and> (\<exists>res. out = Inr res)")
  case True
  then obtain res where "Reconcile oH oO now (r, w) = Some (Inr res, r', w')" "rn_enabled r"
    using assms(1) by blast
  then obtain wls where "distinct (rn_knownHostnames r')"
      "set (rn_knownHostnames r') = NormalizedName ` set (declared r wls w)"
    by (rule Reconcile_known)
  then show ?thesis by (auto simp: wf_reconciler_def NormalizedName_def)
next
  case False
  from assms(1) have "r' = r" by (cases rule: Reconcile_cases) (use False in auto)
  then show ?thesis using assms(2) by simp
qed

lemma recover_names_wf:
  "wf_reconciler (fst st) \<Longrightarrow> wf_reconciler (fst (recover_names p rhs st))"
proof (induction p rhs st rule: recover_names.induct)
  case (2 p rh rhs r meta)
  have "wf_reconciler (r\<lparr>rn_knownHostnames := set_insert (NormalizeHostname (rec_Hostname rh)) (rn_knownHostnames r),
      rn_hostnameProviders := X\<rparr>)" for X
    using "2.prems" by (simp add: wf_reconciler_def)
  then show ?case using 2 by (simp add: Let_def)
qed simp

lemma recover_providers_wf:
  "wf_reconciler (fst (fst acc)) \<Longrightarrow> wf_reconciler (fst (fst (fst (recover_providers insts acc w))))"
proof (induction insts acc w rule: recover_providers.induct)
  case (2 inst insts st failed w)
  then show ?case by (auto simp: recover_names_wf split: prod.splits sum.splits)
qed simp

lemma wf_rec_step: "rec_step s t \<Longrightarrow> wf_reconciler (fst s) \<Longrightarrow> wf_reconciler (fst t)"
proof (induction rule: rec_step.induct)
  case (rec_cycle oH oO now r w out r' w')
  then show ?case using wf_Reconcile_state by simp
next
  case (rec_hostname now h r w res r' w')
  let ?h = "\<lparr>h_Name = h, h_Source = ''api'', h_Router = [], h_RecordHints = None, h_Metadata = []\<rparr>"
  show ?case
  proof (cases "rn_enabled r")
    case True
    then obtain as r1 w1 where e: "ensureRecord ?h None (r, w) = Some (as, r1, w1)"
        and r': "r' = r1\<lparr>rn_knownHostnames := set_insert (NormalizeHostname h) (rn_knownHostnames r1)\<rparr>"
      using rec_hostname.hyps by (auto simp: ReconcileHostname_def Let_def split: option.splits)
    have "rn_knownHostnames r1 = rn_knownHostnames r" using ensureRecord_same [OF e] by (rule same_reconcilerD)
    then have "rn_knownHostnames r' = set_insert (NormalizeHostname h) (rn_knownHostnames r)" using r' by simp
    then show ?thesis using wf_known_update rec_hostname.prems by fastforce
  qed (use rec_hostname in \<open>simp add: ReconcileHostname_def Let_def\<close>)
next
  case (rec_remove now h r w res r' w')
  then show ?case
    by (auto simp: RemoveHostname_def Let_def wf_reconciler_def split: prod.splits if_splits)
next
  case (rec_recover r w e r' w')
  obtain r1 meta failed w1 where p:
      "recover_providers (All (rn_providers r)) ((r, []), []) w = (((r1, meta), failed), w1)"
    by (metis prod.collapse)
  have "wf_reconciler r1"
    using recover_providers_wf [of "((r, []), [])" "All (rn_providers r)" w] rec_recover.prems p by simp
  then show ?case
    using rec_recover p by (auto simp: RecoverOwnership_def Let_def wf_reconciler_def split: if_splits)
qed (auto simp: SetEnabled_def SetDryRun_def wf_reconciler_def)

lemma rec_reach_wf: "rec_reach ls ss c s \<Longrightarrow> wf_reconciler (fst s)"
proof (induction rule: rec_reach.induct)
  case (rec_next s t)
  then show ?case using wf_rec_step by blast
qed (simp add: New_def syncAtomics_def wf_reconciler_def)

subsection \<open>Recovery\<close>

text \<open>The hostnames whose ownership records a listing holds for this instance.\<close>

definition owned_in :: "string \<Rightarrow> Record list \<Rightarrow> string set" where
  "owned_in iid rs = {ExtractHostnameFromOwnership (r_Hostname r) | r. r \<in> set rs \<and>
     r_Type r = RecordTypeTXT \<and> IsOwnershipRecord (r_Hostname r) \<and> MatchesOwnership (r_Target r) iid}"

lemma recover_from_Cons:
  "rec_Hostname ` set (recover_from iid (r # rs)) =
    (if r_Type r = RecordTypeTXT \<and> IsOwnershipRecord (r_Hostname r) \<and> MatchesOwnership (r_Target r) iid \<and>
        ExtractHostnameFromOwnership (r_Hostname r) \<noteq> []
     then insert (ExtractHostnameFromOwnership (r_Hostname r)) (rec_Hostname ` set (recover_from iid rs))
     else rec_Hostname ` set (recover_from iid rs))"
  by (cases "ParseOwnershipValue (r_Target r)")
    (simp add: Let_def MatchesOwnership_def split: if_splits)

lemma recover_from_set: "rec_Hostname ` set (recover_from iid rs) = owned_in iid rs - {[]}"
proof (induction rs)
  case (Cons r rs)
  have "owned_in iid (r # rs) = (if r_Type r = RecordTypeTXT \<and> IsOwnershipRecord (r_Hostname r) \<and>
      MatchesOwnership (r_Target r) iid then insert (ExtractHostnameFromOwnership (r_Hostname r)) (owned_in iid rs)
      else owned_in iid rs)"
    by (auto simp: owned_in_def)
  then show ?case using Cons unfolding recover_from_Cons by auto
qed (simp add: owned_in_def)

lemma recover_names_known:
  "set (rn_knownHostnames (fst (recover_names p rhs st))) =
    set (rn_knownHostnames (fst st)) \<union> (NormalizeHostname \<circ> rec_Hostname) ` set rhs"
  by (induction p rhs st rule: recover_names.induct) (auto simp: Let_def)

end
