(* ===== verification/RecordStore.thy ===== *)
theory RecordStore
  imports ProviderInstance
begin

text \<open>
  What a backend promises beyond the \<^verbatim>\<open>provider.Provider\<close> interface, as contracts over an
  observation \<open>contents\<close> of the world. A \<open>frame_store\<close> changes no record under a name that a
  call does not mention; a \<open>record_store\<close> lists exactly its contents. The reconciler's
  frame theorem needs the first; the providers of this development are shown to keep them.
\<close>

text \<open>The records under names outside a set.\<close>

definition outside :: "string set \<Rightarrow> Record list \<Rightarrow> Record list" where
  "outside N rs = filter (\<lambda>r. NormalizeHostname (r_Hostname r) \<notin> N) rs"

lemma outside_append [simp]: "outside N (xs @ ys) = outside N xs @ outside N ys"
  by (simp add: outside_def)

lemma outside_Cons [simp]: "NormalizeHostname (r_Hostname r) \<in> N \<Longrightarrow> outside N (r # rs) = outside N rs"
  by (simp add: outside_def)

lemma outside_filter:
  "(\<And>r. r \<in> set rs \<Longrightarrow> \<not> Q r \<Longrightarrow> NormalizeHostname (r_Hostname r) \<in> N) \<Longrightarrow> outside N (filter Q rs) = outside N rs"
  unfolding outside_def by (induction rs) auto

lemma outside_Nil [simp]: "outside N [] = []"
  by (simp add: outside_def)

locale frame_store =
  fixes P :: "'w Provider" and contents :: "'w \<Rightarrow> Record list"
  assumes call_frame: "call_names c \<subseteq> N \<Longrightarrow> outside N (contents (exec P c w)) = outside N (contents w)"
begin

lemma safe_outside: "M \<subseteq> N \<Longrightarrow> world_order.safe_on (\<lambda>w w'. outside N (contents w) = outside N (contents w')) P M"
  by (auto simp: view.safe_on_def view.safe_def call_frame)

lemma safe_list: "world_order.safe (\<lambda>w w'. outside N (contents w) = outside N (contents w')) P CList"
  using call_frame [of CList N] by (simp add: view.safe_def)

end

locale record_store = frame_store +
  assumes list_reads: "p_List P w = (Inr rs, w') \<Longrightarrow> rs = contents w"

end
