(* ===== verification/MockBackend.thy ===== *)
theory MockBackend
  imports Reconciler RecordStore
begin

text \<open>
  \<^verbatim>\<open>internal/testutil\<close>: the in-memory provider, source and lister the repository tests its
  reconciler with. They are ordinary implementations of the three interfaces, so they serve
  here as the reference backend: the contracts that the reconciler's theorems rely on are
  discharged for them. A mock is a Go pointer; the world is the heap of mocks by name.
\<close>

subsection \<open>The mock provider\<close>

record MockProvider =
  mk_name :: string
  mk_typeName :: string
  mk_caps :: Capabilities
  mk_records :: "Record list"
  mk_created :: "Record list"
  mk_deleted :: "Record list"
  mk_updated :: "(Record \<times> Record) list"
  mk_pingErr :: "err option"
  mk_listErr :: "err option"
  mk_createFn :: "(Record \<Rightarrow> err option) option"
  mk_deleteFn :: "(Record \<Rightarrow> err option) option"
  mk_updateFn :: "(Record \<Rightarrow> Record \<Rightarrow> err option) option"

definition NewMockProvider :: "string \<Rightarrow> MockProvider" where
  "NewMockProvider name =
     \<lparr>mk_name = name, mk_typeName = ''mock'',
      mk_caps = \<lparr>SupportsOwnershipTXT = True, SupportsNativeUpdate = True,
        SupportedRecordTypes = [RecordTypeA, RecordTypeAAAA, RecordTypeCNAME, RecordTypeSRV, RecordTypeTXT]\<rparr>,
      mk_records = [], mk_created = [], mk_deleted = [], mk_updated = [], mk_pingErr = None,
      mk_listErr = None, mk_createFn = None, mk_deleteFn = None, mk_updateFn = None\<rparr>"

definition mk_List :: "MockProvider \<Rightarrow> err + Record list" where
  "mk_List m = (case mk_listErr m of Some e \<Rightarrow> Inl e | None \<Rightarrow> Inr (mk_records m))"

definition mk_Create :: "Record \<Rightarrow> MockProvider \<Rightarrow> err option \<times> MockProvider" where
  "mk_Create r m =
     (case (case mk_createFn m of None \<Rightarrow> None | Some fn \<Rightarrow> fn r) of
        Some e \<Rightarrow> (Some e, m)
      | None \<Rightarrow> (None, m\<lparr>mk_created := mk_created m @ [r], mk_records := mk_records m @ [r]\<rparr>))"

definition mk_same :: "Record \<Rightarrow> Record \<Rightarrow> bool" where
  "mk_same r rec \<longleftrightarrow> r_Hostname rec = r_Hostname r \<and> r_Type rec = r_Type r \<and> r_Target rec = r_Target r"

definition mk_Delete :: "Record \<Rightarrow> MockProvider \<Rightarrow> err option \<times> MockProvider" where
  "mk_Delete r m =
     (case (case mk_deleteFn m of None \<Rightarrow> None | Some fn \<Rightarrow> fn r) of
        Some e \<Rightarrow> (Some e, m)
      | None \<Rightarrow> (None, m\<lparr>mk_deleted := mk_deleted m @ [r],
                         mk_records := filter (\<lambda>rec. \<not> mk_same r rec) (mk_records m)\<rparr>))"

fun replace_first :: "Record \<Rightarrow> Record \<Rightarrow> Record list \<Rightarrow> Record list" where
  "replace_first existing desired [] = []"
| "replace_first existing desired (rec # recs) =
     (if mk_same existing rec then desired # recs
      else rec # replace_first existing desired recs)"

definition mk_Update :: "Record \<Rightarrow> Record \<Rightarrow> MockProvider \<Rightarrow> err option \<times> MockProvider" where
  "mk_Update existing desired m =
     (case (case mk_updateFn m of None \<Rightarrow> None | Some fn \<Rightarrow> fn existing desired) of
        Some e \<Rightarrow> (Some e, m)
      | None \<Rightarrow> (None, m\<lparr>mk_updated := mk_updated m @ [(existing, desired)],
                         mk_records := replace_first existing desired (mk_records m)\<rparr>))"

definition SetRecords :: "Record list \<Rightarrow> MockProvider \<Rightarrow> MockProvider" where
  "SetRecords rs m = m\<lparr>mk_records := rs\<rparr>"

definition AddRecord :: "Record \<Rightarrow> MockProvider \<Rightarrow> MockProvider" where
  "AddRecord r m = m\<lparr>mk_records := mk_records m @ [r]\<rparr>"

definition CreatedDNSRecords :: "MockProvider \<Rightarrow> Record list" where
  "CreatedDNSRecords m = filter (\<lambda>r. r_Type r \<noteq> RecordTypeTXT) (mk_created m)"

definition CreatedOwnershipRecords :: "MockProvider \<Rightarrow> Record list" where
  "CreatedOwnershipRecords m = filter (\<lambda>r. r_Type r = RecordTypeTXT) (mk_created m)"

definition mk_Reset :: "MockProvider \<Rightarrow> MockProvider" where
  "mk_Reset m = m\<lparr>mk_records := [], mk_created := [], mk_deleted := [], mk_updated := []\<rparr>"

subsection \<open>Mocks behind the interfaces\<close>

type_synonym mocks = "(string, MockProvider) gomap"

definition the_mock :: "string \<Rightarrow> mocks \<Rightarrow> MockProvider" where
  "the_mock name w = map_get (NewMockProvider name) w name"

definition on_mock ::
  "string \<Rightarrow> (MockProvider \<Rightarrow> err option \<times> MockProvider) \<Rightarrow> mocks \<Rightarrow> err option \<times> mocks" where
  "on_mock name f w = (let (e, m) = f (the_mock name w) in (e, AList.update name m w))"

text \<open>The mock as a \<^verbatim>\<open>provider.Provider\<close> and \<^verbatim>\<open>provider.Updater\<close>; it has no \<^verbatim>\<open>Identity\<close> and no \<^verbatim>\<open>Close\<close>.\<close>

definition mock_provider :: "MockProvider \<Rightarrow> mocks Provider" where
  "mock_provider m =
     (let name = mk_name m in
      \<lparr>p_Name = name, p_Type = mk_typeName m,
       p_Ping = (\<lambda>w. (mk_pingErr (the_mock name w), w)),
       p_Capabilities = mk_caps m,
       p_List = (\<lambda>w. (mk_List (the_mock name w), w)),
       p_Create = (\<lambda>r. on_mock name (mk_Create r)),
       p_Delete = (\<lambda>r. on_mock name (mk_Delete r)),
       p_Update = Some (\<lambda>a b. on_mock name (mk_Update a b)),
       p_Identity = None, p_Close = None\<rparr>)"

definition mock_factory :: "MockProvider list \<Rightarrow> mocks Factory" where
  "mock_factory ms cfg w =
     (case find (\<lambda>m. mk_name m = fc_Name cfg) ms of
        Some m \<Rightarrow> (Inr (mock_provider m), w)
      | None \<Rightarrow> (Inr (mock_provider (NewMockProvider (fc_Name cfg))),
                 AList.update (fc_Name cfg) (NewMockProvider (fc_Name cfg)) w))"

definition MockProviderRegistry :: "MockProvider list \<Rightarrow> mocks Registry" where
  "MockProviderRegistry ms = RegisterFactory ''mock'' (mock_factory ms) NewRegistry"

definition NewMockSource :: "string \<Rightarrow> Hostnames \<Rightarrow> 'w Source" where
  "NewMockSource name hostnames =
     \<lparr>s_Name = name, s_Extract = (\<lambda>_. Inr hostnames), s_Discover = (\<lambda>_. Inr []),
      s_SupportsDiscovery = False, s_SupportedPlatforms = []\<rparr>"

definition MockSourceRegistry :: "'w Source list \<Rightarrow> 'w SourceRegistry" where
  "MockSourceRegistry srcs = fold (\<lambda>s r. snd (Register s r)) srcs NewSourceRegistry"

definition NewMockWorkloadLister :: "Platform \<Rightarrow> Workload list \<Rightarrow> 'w Lister" where
  "NewMockWorkloadLister platform wls = \<lparr>l_ListWorkloads = (\<lambda>_. Inr wls), l_Platform = platform\<rparr>"

definition DockerWorkload :: "string \<Rightarrow> (string, string) gomap \<Rightarrow> Workload" where
  "DockerWorkload name labels =
     \<lparr>wl_ID = ''docker-'' @ name, wl_Name = name, wl_Namespace = [], wl_Labels = labels,
      wl_Annotations = [], wl_Platform = PlatformDocker, wl_Kind = KindService, wl_Hostnames = [],
      wl_Metadata = []\<rparr>"

subsection \<open>The mock keeps the contracts\<close>

lemma outside_replace_first:
  assumes "NormalizeHostname (r_Hostname a) \<in> N" "NormalizeHostname (r_Hostname b) \<in> N"
  shows "outside N (replace_first a b rs) = outside N rs"
  using assms by (induction rs) (auto simp: outside_def mk_same_def)

lemma mk_frame:
  "NormalizeHostname (r_Hostname r) \<in> N \<Longrightarrow> outside N (mk_records (snd (mk_Create r m))) = outside N (mk_records m)"
  "NormalizeHostname (r_Hostname r) \<in> N \<Longrightarrow> outside N (mk_records (snd (mk_Delete r m))) = outside N (mk_records m)"
  "NormalizeHostname (r_Hostname r) \<in> N \<Longrightarrow> NormalizeHostname (r_Hostname s) \<in> N \<Longrightarrow>
     outside N (mk_records (snd (mk_Update r s m))) = outside N (mk_records m)"
  by (auto simp: mk_Create_def mk_Delete_def mk_Update_def outside_replace_first mk_same_def
      intro!: outside_filter split: option.splits)

lemma the_mock_on_mock:
  "the_mock n (snd (on_mock k f w)) = (if n = k then snd (f (the_mock k w)) else the_mock n w)"
  by (simp add: the_mock_def on_mock_def map_get_def case_prod_unfold Let_def)

interpretation mock_frame: frame_store "mock_provider m" "\<lambda>w. mk_records (the_mock n w)" for m n
proof
  fix c N w assume "call_names c \<subseteq> N"
  then show "outside N (mk_records (the_mock n (exec (mock_provider m) c w))) =
      outside N (mk_records (the_mock n w))"
    by (cases c) (simp_all add: mock_provider_def Let_def the_mock_on_mock mk_frame)
qed

interpretation mock: record_store "mock_provider m" "\<lambda>w. mk_records (the_mock (mk_name m) w)" for m
  by unfold_locales (auto simp: mock_provider_def mk_List_def Let_def split: option.splits)

interpretation mocks: named_factories "[(''mock'', mock_factory ms)]" for ms
  by unfold_locales
    (auto simp: mock_factory_def mock_provider_def NewMockProvider_def Let_def find_Some_iff split: option.splits if_splits)

subsection \<open>A small deployment\<close>

text \<open>
  One mock instance for \<^verbatim>\<open>*.ex.com\<close> whose backend holds a record that dnsweaver did not write, one
  source that reports one hostname, one workload. The witnesses run the reconciler on it.
\<close>

definition ex_cfg :: "OperationalMode \<Rightarrow> ProviderInstanceConfig" where
  "ex_cfg mode = \<lparr>cfg_Name = ''m'', cfg_TypeName = ''mock'', cfg_RecordType = ''A'', cfg_Target = ''10.0.0.1'',
     cfg_TTL = 300, cfg_Mode = mode, cfg_Domains = [''*.ex.com''], cfg_ExcludeDomains = [],
     cfg_DomainsRegex = [], cfg_ExcludeDomainsRegex = [], cfg_MetadataFilters = [], cfg_ProviderConfig = []\<rparr>"

definition ex_mock :: MockProvider where
  "ex_mock = SetRecords [record_literal ''b.ex.com'' ''A'' ''10.0.0.9''] (NewMockProvider ''m'')"

definition ex_world :: mocks where
  "ex_world = [(''m'', ex_mock)]"

definition ex_registry :: "OperationalMode \<Rightarrow> mocks Registry" where
  "ex_registry mode = fst (snd (CreateInstance fragment_engine (ex_cfg mode)
     (MockProviderRegistry [ex_mock], ex_world)))"

definition ex_host :: Hostname where
  "ex_host = \<lparr>h_Name = ''a.ex.com'', h_Source = ''s'', h_Router = [], h_RecordHints = None, h_Metadata = []\<rparr>"

definition ex_reconciler :: "OperationalMode \<Rightarrow> Config \<Rightarrow> string list \<Rightarrow> mocks Reconciler" where
  "ex_reconciler mode cfg known =
     (New [NewMockWorkloadLister PlatformDocker [DockerWorkload ''web'' []]]
        (MockSourceRegistry [NewMockSource ''s'' [ex_host]]) (ex_registry mode) cfg)
       \<lparr>rn_knownHostnames := known\<rparr>"

definition ex_inst :: "OperationalMode \<Rightarrow> mocks ProviderInstance" where
  "ex_inst mode = hd (All (ex_registry mode))"

lemma ex_registry_created:
  assumes "mode \<in> {ModeManaged, ModeAdditive, ModeAuthoritative}"
  shows "\<exists>m. All (ex_registry mode) = [new_instance 0 [] (ex_cfg mode) (mock_provider ex_mock) m]"
proof -
  have v: "cfg_Validate (ex_cfg mode) = None" using assms
    by (auto simp: ex_cfg_def cfg_Validate_def RecordType_defs Let_def) code_simp+
  obtain m where m: "NewDomainMatcher fragment_engine
      \<lparr>Includes = [''*.ex.com''], Excludes = [], UseRegex = False\<rparr> = Inr m"
  proof -
    have "\<exists>m. NewDomainMatcher fragment_engine \<lparr>Includes = [''*.ex.com''], Excludes = [], UseRegex = False\<rparr> = Inr m"
      using fe.NewDomainMatcher_glob [of "\<lparr>Includes = [''*.ex.com''], Excludes = [], UseRegex = False\<rparr>"]
        glob_ok_literal(2) [of "''.ex.com''"] by (force simp: glob_literal_def)
    then show ?thesis using that by blast
  qed
  show ?thesis using v m
    by (intro exI [of _ m])
      (simp add: ex_registry_def CreateInstance_def MockProviderRegistry_def RegisterFactory_def NewRegistry_def
        mock_factory_def factory_config_def Let_def ex_cfg_def GetIncludes_def GetExcludes_def cfg_UseRegex_def
        All_def ex_mock_def SetRecords_def NewMockProvider_def)
qed

lemma ex_instances:
  assumes "mode \<in> {ModeManaged, ModeAdditive, ModeAuthoritative}"
  shows "All (ex_registry mode) = [ex_inst mode]" "pi_Provider (ex_inst mode) = mock_provider ex_mock"
    "pi_Mode (ex_inst mode) = mode" "Name (ex_inst mode) = ''m''"
  using ex_registry_created [OF assms] assms
  by (auto simp: ex_inst_def new_instance_def ex_cfg_def Mode_defs Let_def Name_def mock_provider_def ex_mock_def
      NewMockProvider_def SetRecords_def)

lemma ex_modes [simp]:
  "ModeManaged \<in> {ModeManaged, ModeAdditive, ModeAuthoritative}"
  "ModeAdditive \<in> {ModeManaged, ModeAdditive, ModeAuthoritative}"
  "ModeAuthoritative \<in> {ModeManaged, ModeAdditive, ModeAuthoritative}"
  by simp_all

end
