(* ===== verification/GoStd.thy ===== *)
theory GoStd
  imports GoErrors NetIP "HOL-Library.Word"
begin

text \<open>
  More of Go's standard library, as far as the sources and providers use it: \<^verbatim>\<open>strconv.Atoi\<close>,
  upper case, replacement of a byte, \<^verbatim>\<open>strings.FieldsFunc\<close>, \<^verbatim>\<open>path/filepath\<close> on Unix
  paths and \<^verbatim>\<open>bufio.Scanner\<close> over lines.
\<close>

subsection \<open>Numbers and letters\<close>

definition decimal_value :: "string \<Rightarrow> int" where
  "decimal_value ds = foldl (\<lambda>n c. 10 * n + (int (byte c) - 48)) 0 ds"

definition Atoi :: "string \<Rightarrow> err + int" where
  "Atoi s =
     (let sign = s \<noteq> [] \<and> (hd s = CHR ''-'' \<or> hd s = CHR ''+'');
          ds = (if sign then tl s else s);
          v = (if sign \<and> hd s = CHR ''-'' then - decimal_value ds else decimal_value ds)
      in if ds = [] \<or> \<not> list_all is_digit ds
         then Inl (ErrorNew (''strconv.Atoi: parsing '' @ Quote s @ '': invalid syntax''))
         else if v < - (2 ^ 63) \<or> v \<ge> 2 ^ 63
         then Inl (ErrorNew (''strconv.Atoi: parsing '' @ Quote s @ '': value out of range''))
         else Inr v)"

text \<open>The \<^verbatim>\<open>%d\<close> verb.\<close>

definition show_int :: "int \<Rightarrow> string" where
  "show_int n = (if n < 0 then CHR ''-'' # Itoa (nat (- n)) else Itoa (nat n))"

definition upper_char :: "char \<Rightarrow> char" where
  "upper_char c = (if is_lower c then char_of (byte c - 32) else c)"

definition ToUpper :: "string \<Rightarrow> string" where
  "ToUpper s = map upper_char s"

lemma ToUpper_eq_Nil [simp]: "ToUpper s = [] \<longleftrightarrow> s = []" "[] = ToUpper s \<longleftrightarrow> s = []"
  by (simp_all add: ToUpper_def)

text \<open>\<^verbatim>\<open>strings.ReplaceAll\<close> for one-byte patterns.\<close>

definition ReplaceAll1 :: "char \<Rightarrow> char \<Rightarrow> string \<Rightarrow> string" where
  "ReplaceAll1 a b s = map (\<lambda>c. if c = a then b else c) s"

text \<open>\<^verbatim>\<open>strings.FieldsFunc\<close>: the maximal runs of bytes that are no separators.\<close>

fun fields_acc :: "(char \<Rightarrow> bool) \<Rightarrow> string \<Rightarrow> string \<Rightarrow> string list" where
  "fields_acc P cur [] = (if cur = [] then [] else [rev cur])"
| "fields_acc P cur (c # s) =
     (if P c then (if cur = [] then fields_acc P [] s else rev cur # fields_acc P [] s)
      else fields_acc P (c # cur) s)"

definition FieldsFunc :: "string \<Rightarrow> (char \<Rightarrow> bool) \<Rightarrow> string list" where
  "FieldsFunc s P = fields_acc P [] s"

text \<open>\<^verbatim>\<open>strconv.ParseUint(s, 10, 16)\<close>.\<close>

definition ParseUint16 :: "string \<Rightarrow> err + 16 word" where
  "ParseUint16 s =
     (if s = [] \<or> \<not> list_all is_digit s
      then Inl (ErrorNew (''strconv.ParseUint: parsing '' @ Quote s @ '': invalid syntax''))
      else if decimal_value s \<ge> 65536
      then Inl (ErrorNew (''strconv.ParseUint: parsing '' @ Quote s @ '': value out of range''))
      else Inr (word_of_int (decimal_value s)))"

text \<open>\<^verbatim>\<open>strconv.ParseUint(s, 10, 8)\<close>, and \<^verbatim>\<open>strings.SplitN(s, sep, 3)\<close> for a one-byte separator.\<close>

definition ParseUint8 :: "string \<Rightarrow> err + 8 word" where
  "ParseUint8 s =
     (if s = [] \<or> \<not> list_all is_digit s
      then Inl (ErrorNew (''strconv.ParseUint: parsing '' @ Quote s @ '': invalid syntax''))
      else if decimal_value s \<ge> 256
      then Inl (ErrorNew (''strconv.ParseUint: parsing '' @ Quote s @ '': value out of range''))
      else Inr (word_of_int (decimal_value s)))"

definition SplitN3 :: "string \<Rightarrow> char \<Rightarrow> string list" where
  "SplitN3 s sep = (case SplitN2 s sep of [a, b] \<Rightarrow> a # SplitN2 b sep | xs \<Rightarrow> xs)"

text \<open>Whether \<^verbatim>\<open>net.SplitHostPort\<close> succeeds.\<close>

definition SplitHostPort_ok :: "string \<Rightarrow> bool" where
  "SplitHostPort_ok hp \<longleftrightarrow>
     CHR '':'' \<in> set hp \<and>
     (if hd hp = CHR ''['' then
        CHR '']'' \<in> set hp \<and>
        (let after = tl (dropWhile (\<lambda>c. c \<noteq> CHR '']'') hp)
         in after \<noteq> [] \<and> hd after = CHR '':'' \<and> CHR '':'' \<notin> set (tl after) \<and>
            CHR ''['' \<notin> set (tl hp) \<and> CHR '']'' \<notin> set after)
      else CHR '':'' \<notin> set (tl (dropWhile (\<lambda>c. c \<noteq> CHR '':'') hp)) \<and> CHR ''['' \<notin> set hp \<and> CHR '']'' \<notin> set hp)"

lemma fields_acc_parts:
  "list_all (\<lambda>c. \<not> P c) cur \<Longrightarrow> w \<in> set (fields_acc P cur s) \<Longrightarrow> w \<noteq> [] \<and> list_all (\<lambda>c. \<not> P c) w"
  by (induction P cur s rule: fields_acc.induct) (auto split: if_splits)

lemma FieldsFunc_parts: "w \<in> set (FieldsFunc s P) \<Longrightarrow> w \<noteq> [] \<and> list_all (\<lambda>c. \<not> P c) w"
  by (rule fields_acc_parts [where cur = "[]"]) (simp_all add: FieldsFunc_def)

lemma fields_acc_run:
  "list_all (\<lambda>c. \<not> P c) w \<Longrightarrow> fields_acc P cur (w @ s) = fields_acc P (rev w @ cur) s"
  by (induction w arbitrary: cur) auto

text \<open>Words joined by a separator are split again.\<close>

lemma FieldsFunc_Join:
  assumes "\<forall>w \<in> set ws. w \<noteq> [] \<and> list_all (\<lambda>c. \<not> P c) w" and "P sep"
  shows "FieldsFunc (Join ws [sep]) P = ws"
  using assms(1)
proof (induction ws)
  case (Cons w ws)
  then have w: "w \<noteq> []" "list_all (\<lambda>c. \<not> P c) w" by simp_all
  show ?case
  proof (cases "ws = []")
    case True
    then show ?thesis using w fields_acc_run [OF w(2), of "[]" "[]"] by (simp add: FieldsFunc_def)
  next
    case False
    then show ?thesis using w Cons assms(2) by (simp add: FieldsFunc_def Join_Cons fields_acc_run)
  qed
qed (simp add: FieldsFunc_def)

lemma ParseUint16_value: "ParseUint16 s = Inr v \<Longrightarrow> list_all is_digit s \<and> decimal_value s < 65536 \<and> v = word_of_int (decimal_value s)"
  by (auto simp: ParseUint16_def split: if_splits)

lemma decimal_value_snoc: "decimal_value (ds @ [c]) = 10 * decimal_value ds + (int (byte c) - 48)"
  by (simp add: decimal_value_def)

lemma decimal_value_Itoa: "decimal_value (Itoa n) = int n"
proof (induction n rule: less_induct)
  case (less n)
  have d: "int (byte (digit_char k)) - 48 = int k" if "k < 10" for k
    using that by (simp add: digit_char_def)
  show ?case
  proof (cases "n < 10")
    case True
    then show ?thesis using d [of n] by (simp add: Itoa_digit decimal_value_def)
  next
    case False
    have "int n = 10 * int (n div 10) + int (n mod 10)" by presburger
    then show ?thesis using False less [of "n div 10"] d [of "n mod 10"]
      by (subst Itoa_step) (simp_all add: decimal_value_snoc)
  qed
qed

lemma ParseUint8_Itoa: "ParseUint8 (Itoa (unat f)) = Inr f"
proof -
  have "uint f < 2 ^ LENGTH(8)" by (rule unsigned_less)
  then show ?thesis by (simp add: ParseUint8_def Itoa_digits decimal_value_Itoa)
qed

lemma ParseUint16_Itoa: "ParseUint16 (Itoa (unat f)) = Inr f"
proof -
  have "uint f < 2 ^ LENGTH(16)" by (rule unsigned_less)
  then show ?thesis by (simp add: ParseUint16_def Itoa_digits decimal_value_Itoa)
qed

lemma Atoi_range: "Atoi s = Inr v \<Longrightarrow> - (2 ^ 63) \<le> v \<and> v < 2 ^ 63"
  by (auto simp: Atoi_def Let_def split: if_splits)

subsection \<open>Durations\<close>

text \<open>
  \<^verbatim>\<open>time.ParseDuration\<close> in nanoseconds: an optional sign and numbers with units. Go scales a fraction with
  floating point; here it is exact and cut off, which agrees for fractions that are whole nanoseconds.
\<close>

definition duration_unit :: "string \<Rightarrow> int option" where
  "duration_unit u =
     (if u = ''ns'' then Some 1 else if u = ''us'' then Some 1000 else if u = ''ms'' then Some 1000000
      else if u = ''s'' then Some 1000000000 else if u = ''m'' then Some 60000000000
      else if u = ''h'' then Some 3600000000000 else None)"

lemma dropWhile_shorter: "takeWhile P xs \<noteq> [] \<Longrightarrow> length (dropWhile P xs) < length xs"
  by (cases xs) (simp_all add: length_dropWhile_le le_imp_less_Suc split: if_splits)

function duration_parts :: "int \<Rightarrow> string \<Rightarrow> int option" where
  "duration_parts acc s =
     (if s = [] then Some acc
      else let whole = takeWhile is_digit s; r1 = dropWhile is_digit s;
               dot = r1 \<noteq> [] \<and> hd r1 = CHR ''.'';
               frac = (if dot then takeWhile is_digit (tl r1) else []);
               r2 = (if dot then dropWhile is_digit (tl r1) else r1);
               u = takeWhile (\<lambda>c. c \<noteq> CHR ''.'' \<and> \<not> is_digit c) r2;
               r3 = dropWhile (\<lambda>c. c \<noteq> CHR ''.'' \<and> \<not> is_digit c) r2
           in if whole = [] \<and> frac = [] then None
              else case duration_unit u of None \<Rightarrow> None
              | Some n \<Rightarrow>
                  let v = decimal_value whole * n + decimal_value frac * n div 10 ^ length frac
                  in if decimal_value whole > 2 ^ 63 \<or> acc + v > 2 ^ 63 then None else duration_parts (acc + v) r3)"
  by pat_completeness auto

termination duration_parts
proof (relation "measure (\<lambda>(acc, s). length s)")
  fix acc :: int and s whole r1 dot frac r2 u r3 n v
  assume s: "s \<noteq> []" and d: "whole = takeWhile is_digit s" "r1 = dropWhile is_digit s" "dot = (r1 \<noteq> [] \<and> hd r1 = CHR ''.'')"
    "frac = (if dot then takeWhile is_digit (tl r1) else [])" "r2 = (if dot then dropWhile is_digit (tl r1) else r1)"
    "r3 = dropWhile (\<lambda>c. c \<noteq> CHR ''.'' \<and> \<not> is_digit c) r2" and ne: "\<not> (whole = [] \<and> frac = [])"
  have "length r3 \<le> length r2" by (simp add: d length_dropWhile_le)
  moreover have "length r2 \<le> length r1 \<and> (dot \<longrightarrow> length r2 < length r1)"
  proof (cases dot)
    case True
    have "length r2 \<le> length (tl r1)" using True length_dropWhile_le [of is_digit "tl r1"] by (simp add: d(5))
    moreover have "r1 \<noteq> []" using True d(3) by simp
    ultimately show ?thesis by (cases r1) simp_all
  qed (simp add: d(5))
  moreover have "length r1 \<le> length s \<and> (whole \<noteq> [] \<longrightarrow> length r1 < length s)"
    unfolding d(1,2) using dropWhile_shorter length_dropWhile_le by blast
  ultimately have "length r3 < length s" using ne d(4) by (auto split: if_splits)
  then show "((acc + v, r3), acc, s) \<in> measure (\<lambda>(acc, s). length s)" by simp
qed simp

declare duration_parts.simps [simp del]

definition ParseDuration :: "string \<Rightarrow> err + int" where
  "ParseDuration s0 =
     (let neg = s0 \<noteq> [] \<and> hd s0 = CHR ''-''; s = (if s0 \<noteq> [] \<and> (hd s0 = CHR ''-'' \<or> hd s0 = CHR ''+'') then tl s0 else s0)
      in if s = ''0'' then Inr 0
         else case (if s = [] then None else duration_parts 0 s) of
           None \<Rightarrow> Inl (ErrorNew (''time: invalid duration '' @ Quote s0))
         | Some d \<Rightarrow>
             if neg then Inr (- d)
             else if d > 2 ^ 63 - 1 then Inl (ErrorNew (''time: invalid duration '' @ Quote s0)) else Inr d)"

subsection \<open>Lines\<close>

abbreviation newline :: char where "newline \<equiv> CHR 0x0A"

text \<open>The lines of a text: what follows the last newline counts unless it is empty.\<close>

definition raw_lines :: "string \<Rightarrow> string list" where
  "raw_lines s = (let ls = Split s newline in if last ls = [] then butlast ls else ls)"

definition drop_cr :: "string \<Rightarrow> string" where
  "drop_cr l = TrimSuffix l [CHR 0x0D]"

text \<open>
  \<^verbatim>\<open>bufio.Scanner\<close> with the default split function and buffer: every line without its end,
  or \<^verbatim>\<open>bufio.ErrTooLong\<close> when a line does not fit the 64 KiB buffer.
\<close>

definition scan_lines :: "string \<Rightarrow> err + string list" where
  "scan_lines s =
     (if list_ex (\<lambda>l. length l > 65535) (raw_lines s)
      then Inl (ErrorNew ''bufio.Scanner: token too long'')
      else Inr (map drop_cr (raw_lines s)))"

text \<open>The bound is evaluated on integers, whose numerals are binary.\<close>

lemma scan_lines_code [code]:
  "scan_lines content =
     (if list_ex (\<lambda>l. 65535 < int (length l)) (raw_lines content)
      then Inl (ErrorNew ''bufio.Scanner: token too long'') else Inr (map drop_cr (raw_lines content)))"
proof -
  have "65535 < int n \<longleftrightarrow> 65535 < n" for n by linarith
  then show ?thesis by (simp only: scan_lines_def)
qed

lemma raw_lines_Nil [simp]: "raw_lines [] = []"
  by (simp add: raw_lines_def)

lemma Split_append_Cons: "Split (a @ c # b) c = Split a c @ Split b c"
  by (induction a) (auto split: list.splits)

lemma raw_lines_terminated [simp]: "raw_lines (s @ [newline]) = Split s newline"
  using Split_append_Cons [of s newline "[]"] by (simp add: raw_lines_def Let_def)

lemma raw_lines_snoc_line:
  "newline \<notin> set l \<Longrightarrow> raw_lines (s @ newline # l @ [newline]) = raw_lines (s @ [newline]) @ [l]"
  using raw_lines_terminated [of "s @ newline # l"] by (simp add: Split_append_Cons Split_no_sep)

lemma raw_lines_unterminated:
  assumes "\<not> HasSuffix s [newline]" "s \<noteq> []"
  shows "raw_lines (s @ [newline]) = raw_lines s"
proof -
  have "last (Split s newline) \<noteq> []"
  proof
    assume e: "last (Split s newline) = []"
    have "s = Join (Split s newline) [newline]" by (simp add: Join_Split)
    also have "\<dots> = Join (butlast (Split s newline) @ [[]]) [newline]"
      using e by (metis Split_neq_Nil append_butlast_last_id)
    finally have s: "s = Join (butlast (Split s newline) @ [[]]) [newline]" .
    have j: "ws \<noteq> [] \<Longrightarrow> HasSuffix (Join (ws @ [[]]) [newline]) [newline]" for ws :: "string list"
    proof (induction ws)
      case (Cons w ws)
      then show ?case
        by (cases "ws = []") (auto simp: Join_Cons HasSuffix_iff)
    qed simp
    have "butlast (Split s newline) \<noteq> []" using s assms(2) by auto
    then show False using j s assms(1) by metis
  qed
  then show ?thesis by (simp add: raw_lines_def [of s] Let_def)
qed

lemma raw_lines_no_newline: "l \<in> set (raw_lines s) \<Longrightarrow> newline \<notin> set l"
  by (auto simp: raw_lines_def Let_def split: if_splits dest: Split_parts_no_sep in_set_butlastD)

text \<open>Lines joined by newlines and terminated are read back.\<close>

lemma raw_lines_Join:
  assumes "ls \<noteq> []" and "\<forall>l \<in> set ls. newline \<notin> set l"
  shows "raw_lines (Join ls [newline] @ [newline]) = ls"
  using Split_Join [OF assms] by simp

subsection \<open>Paths\<close>

fun clean_parts :: "bool \<Rightarrow> string list \<Rightarrow> string list \<Rightarrow> string list" where
  "clean_parts rooted out [] = rev out"
| "clean_parts rooted out (p # ps) =
     (if p = [] \<or> p = ''.'' then clean_parts rooted out ps
      else if p = ''..'' then
        (if out = [] then clean_parts rooted (if rooted then [] else [''..'']) ps
         else if hd out = ''..'' then clean_parts rooted (''..'' # out) ps
         else clean_parts rooted (tl out) ps)
      else clean_parts rooted (p # out) ps)"

definition Clean :: "string \<Rightarrow> string" where
  "Clean path =
     (if path = [] then ''.''
      else let rooted = (hd path = CHR ''/'');
               out = Join (clean_parts rooted [] (Split path (CHR ''/''))) ''/''
           in if rooted then CHR ''/'' # out else if out = [] then ''.'' else out)"

definition path_Join :: "string list \<Rightarrow> string" where
  "path_Join elems =
     (let es = filter (\<lambda>e. e \<noteq> []) elems in if es = [] then [] else Clean (Join es ''/''))"

text \<open>A component that goes nowhere but down.\<close>

definition proper_part :: "string \<Rightarrow> bool" where
  "proper_part p \<longleftrightarrow> p \<noteq> [] \<and> p \<noteq> ''.'' \<and> p \<noteq> ''..'' \<and> CHR ''/'' \<notin> set p"

lemma clean_parts_proper:
  assumes "list_all proper_part out" and "\<forall>p \<in> set ps. CHR ''/'' \<notin> set p"
  shows "list_all proper_part (clean_parts True out ps)"
  using assms
proof (induction ps arbitrary: out)
  case (Cons p ps)
  note IH = Cons.IH and out = Cons.prems(1)
  have ps: "\<forall>p \<in> set ps. CHR ''/'' \<notin> set p" using Cons.prems(2) by simp
  have tl: "list_all proper_part (tl out)" using out by (cases out) simp_all
  consider "p = [] \<or> p = ''.''" | "p = ''..''" | "proper_part p" "p \<noteq> ''..''"
    using Cons.prems(2) by (auto simp: proper_part_def)
  then show ?case
  proof cases
    case 2
    then have "out = [] \<or> hd out \<noteq> ''..''" using out by (cases out) (auto simp: proper_part_def)
    with 2 show ?thesis using IH [OF tl ps] IH [of "[]", OF _ ps] by auto
  next
    case 3
    then have "clean_parts True out (p # ps) = clean_parts True (p # out) ps"
      by (simp add: proper_part_def)
    with 3 show ?thesis using IH [of "p # out", OF _ ps] out by simp
  qed (use IH [OF out ps] in auto)
qed simp

lemma Clean_rooted:
  assumes "hd path = CHR ''/''" "path \<noteq> []"
  obtains ps where "Clean path = CHR ''/'' # Join ps ''/''" "list_all proper_part ps"
proof
  show "Clean path = CHR ''/'' # Join (clean_parts True [] (Split path (CHR ''/''))) ''/''"
    using assms by (simp add: Clean_def Let_def)
  show "list_all proper_part (clean_parts True [] (Split path (CHR ''/'')))"
    by (rule clean_parts_proper) (auto dest: Split_parts_no_sep)
qed

lemma Join_proper_Split:
  assumes "list_all proper_part ps" "ps \<noteq> []"
  shows "Split (Join ps ''/'') (CHR ''/'') = ps"
  using Split_Join [of ps "CHR ''/''"] assms by (auto simp: list_all_iff proper_part_def)

text \<open>
  A cleaned absolute path that continues another cleaned absolute path by a slash goes down from
  it: the components after the common prefix are all proper.
\<close>

lemma Clean_descends:
  assumes "list_all proper_part ps" and "CHR ''/'' # Join ps ''/'' = d @ CHR ''/'' # rest" and "d \<noteq> []"
  shows "list_all proper_part (Split rest (CHR ''/''))"
proof -
  have "ps \<noteq> []"
  proof
    assume "ps = []"
    then have "[CHR ''/''] = d @ CHR ''/'' # rest" using assms(2) by simp
    then show False using assms(3) by (cases d) auto
  qed
  obtain d' where d': "d = CHR ''/'' # d'" using assms(2,3) by (cases d) auto
  then have j: "Join ps ''/'' = d' @ CHR ''/'' # rest" using assms(2) by simp
  have "ps = Split d' (CHR ''/'') @ Split rest (CHR ''/'')"
    using Join_proper_Split [OF assms(1) \<open>ps \<noteq> []\<close>] by (simp add: j Split_append_Cons)
  then show ?thesis using assms(1) by simp
qed

text \<open>\<^verbatim>\<open>filepath.Base\<close> and \<^verbatim>\<open>filepath.Ext\<close>.\<close>

definition path_Base :: "string \<Rightarrow> string" where
  "path_Base path =
     (if path = [] then ''.''
      else let p = rev (dropWhile (\<lambda>c. c = CHR ''/'') (rev path)) in
           if p = [] then ''/'' else rev (takeWhile (\<lambda>c. c \<noteq> CHR ''/'') (rev p)))"

definition path_Ext :: "string \<Rightarrow> string" where
  "path_Ext path =
     (let elem = rev (takeWhile (\<lambda>c. c \<noteq> CHR ''/'') (rev path)) in
      if CHR ''.'' \<in> set elem then CHR ''.'' # rev (takeWhile (\<lambda>c. c \<noteq> CHR ''.'') (rev elem)) else [])"

text \<open>A call of \<^verbatim>\<open>os\<close> fails because the file does not exist or otherwise.\<close>

datatype fs_error = NotExist string | FsFailure err

fun fs_err :: "fs_error \<Rightarrow> err" where
  "fs_err (NotExist t) = ErrorNew t"
| "fs_err (FsFailure e) = e"

subsection \<open>Shell patterns\<close>

text \<open>
  \<^verbatim>\<open>filepath.Match\<close> of a file name: stars, question marks, classes and escapes. A malformed pattern
  never matches; Go reports it as \<^verbatim>\<open>ErrBadPattern\<close>, which is \<^const>\<open>None\<close> of the parser here.
\<close>

datatype path_item = PStar | PAny | PChar char | PSet bool "(char \<times> char) list"

fun path_esc :: "string \<Rightarrow> (char \<times> string) option" where
  "path_esc [] = None"
| "path_esc (c # s) =
     (if c = CHR ''-'' \<or> c = CHR '']'' then None
      else if c = CHR 0x5C then (case s of d # e # t \<Rightarrow> Some (d, e # t) | _ \<Rightarrow> None)
      else if s = [] then None else Some (c, s))"

lemma path_esc_length: "path_esc s = Some (c, t) \<Longrightarrow> length t < length s"
  by (cases s) (auto split: if_splits list.splits)

function path_ranges :: "(char \<times> char) list \<Rightarrow> string \<Rightarrow> ((char \<times> char) list \<times> string) option" where
  "path_ranges rs s =
     (if s \<noteq> [] \<and> hd s = CHR '']'' \<and> rs \<noteq> [] then Some (rev rs, tl s)
      else case path_esc s of None \<Rightarrow> None
        | Some (lo, t) \<Rightarrow>
            if hd t = CHR ''-''
            then (case path_esc (tl t) of None \<Rightarrow> None | Some (hi, u) \<Rightarrow> path_ranges ((lo, hi) # rs) u)
            else path_ranges ((lo, lo) # rs) t)"
  by pat_completeness auto

termination path_ranges
proof (relation "measure (\<lambda>(rs, s). length s)")
  fix rs s x lo t y hi u
  assume "path_esc s = Some x" "(lo, t) = x" "path_esc (tl t) = Some y" "(hi, u) = y"
  then have "length u < length (tl t)" "length t < length s" by (auto dest: path_esc_length)
  then show "(((lo, hi) # rs, u), rs, s) \<in> measure (\<lambda>(rs, s). length s)" by simp
qed (auto dest: path_esc_length)

declare path_ranges.simps [simp del]

lemma path_ranges_length: "path_ranges rs s = Some (qs, t) \<Longrightarrow> length t < length s"
proof (induction rs s rule: path_ranges.induct)
  case (1 rs s)
  show ?case
  proof (cases "s \<noteq> [] \<and> hd s = CHR '']'' \<and> rs \<noteq> []")
    case True
    then show ?thesis using "1.prems" by (auto simp: path_ranges.simps [of rs s])
  next
    case False
    have "path_esc s \<noteq> None" using "1.prems" False
      by (cases "path_esc s") (auto simp: path_ranges.simps [of rs s])
    then obtain lo u where u: "path_esc s = Some (lo, u)" by auto
    then have len: "length u < length s" by (rule path_esc_length)
    show ?thesis
    proof (cases "hd u = CHR ''-''")
      case True
      then obtain hi v where v: "path_esc (tl u) = Some (hi, v)"
        using "1.prems" False u by (auto simp: path_ranges.simps [of rs s] split: option.splits)
      then have "path_ranges ((lo, hi) # rs) v = Some (qs, t)"
        using "1.prems" False u True by (simp add: path_ranges.simps [of rs s])
      then have "length t < length v" using "1.IH"(1) [OF False u refl True v refl] by simp
      then show ?thesis using path_esc_length [OF v] len by simp
    next
      case hd: False
      then have "path_ranges ((lo, lo) # rs) u = Some (qs, t)"
        using "1.prems" False u by (simp add: path_ranges.simps [of rs s])
      then show ?thesis using "1.IH"(2) [OF False u refl hd] len by simp
    qed
  qed
qed

function path_items :: "string \<Rightarrow> path_item list option" where
  "path_items [] = Some []"
| "path_items (c # s) =
     (if c = CHR ''*'' then map_option (Cons PStar) (path_items s)
      else if c = CHR ''?'' then map_option (Cons PAny) (path_items s)
      else if c = CHR ''['' then
        (let neg = s \<noteq> [] \<and> hd s = CHR 0x5E; body = (if neg then tl s else s)
         in case path_ranges [] body of None \<Rightarrow> None
          | Some (rs, t) \<Rightarrow> map_option (Cons (PSet neg rs)) (path_items t))
      else if c = CHR 0x5C then
        (case s of [] \<Rightarrow> None | d # t \<Rightarrow> map_option (Cons (PChar d)) (path_items t))
      else map_option (Cons (PChar c)) (path_items s))"
  by pat_completeness auto

termination path_items
  by (relation "measure length") (auto dest!: path_ranges_length split: if_splits)

fun path_match_items :: "path_item list \<Rightarrow> string \<Rightarrow> bool" where
  "path_match_items [] s \<longleftrightarrow> s = []"
| "path_match_items (PStar # is) [] \<longleftrightarrow> path_match_items is []"
| "path_match_items (PStar # is) (c # s) \<longleftrightarrow>
     path_match_items is (c # s) \<or> c \<noteq> CHR ''/'' \<and> path_match_items (PStar # is) s"
| "path_match_items (i # is) [] \<longleftrightarrow> False"
| "path_match_items (PAny # is) (c # s) \<longleftrightarrow> c \<noteq> CHR ''/'' \<and> path_match_items is s"
| "path_match_items (PChar d # is) (c # s) \<longleftrightarrow> c = d \<and> path_match_items is s"
| "path_match_items (PSet neg rs # is) (c # s) \<longleftrightarrow>
     (list_ex (\<lambda>(lo, hi). byte lo \<le> byte c \<and> byte c \<le> byte hi) rs \<noteq> neg) \<and> path_match_items is s"

definition path_Match :: "string \<Rightarrow> string \<Rightarrow> err + bool" where
  "path_Match pattern name =
     (case path_items pattern of
        None \<Rightarrow> Inl (ErrorNew ''syntax error in pattern'')
      | Some is \<Rightarrow> Inr (path_match_items is name))"

text \<open>The common form, a star and an extension.\<close>

lemma path_match_star: "CHR ''/'' \<notin> set s \<Longrightarrow> path_match_items (PStar # map PChar ext) s \<longleftrightarrow> HasSuffix s ext"
proof (induction s)
  case Nil
  show ?case by (cases ext) (auto simp: HasSuffix_def)
next
  case (Cons c s)
  have lit: "path_match_items (map PChar e) t \<longleftrightarrow> t = e" for e t
    by (induction e arbitrary: t; case_tac t) auto
  show ?case using Cons by (auto simp: lit HasSuffix_iff Cons_eq_append_conv)
qed

end
