(* ===== verification/Dnsmasq.thy ===== *)
theory Dnsmasq
  imports Reconciler RecordStore GoStd
begin

text \<open>
  \<^verbatim>\<open>providers/dnsmasq\<close>: records as lines of a dnsmasq configuration file. The Go interfaces
  \<^verbatim>\<open>FileSystem\<close> and \<^verbatim>\<open>CommandRunner\<close> are records of functions over the world, so the local
  and the SFTP-backed client are both instances; the transport constructor, which opens an SSH
  session, is an argument of \<open>dm_New\<close>. Reading is pure. Log lines are left out.
\<close>

subsection \<open>Configuration\<close>

record dnsmasq_Config =
  dc_ConfigDir :: string
  dc_ConfigFile :: string
  dc_ReloadCommand :: string
  dc_Zone :: string
  dc_TTL :: int
  dc_SSHHost :: string
  dc_SSHPort :: int
  dc_SSHUser :: string
  dc_SSHKeyFile :: string
  dc_SSHPassword :: string
  dc_SSHKnownHostsFile :: string
  dc_SSHStrictHostKey :: bool

definition dm_DefaultTTL :: int where "dm_DefaultTTL = 300"
definition DefaultConfigDir :: string where "DefaultConfigDir = ''/etc/dnsmasq.d''"
definition DefaultConfigFile :: string where "DefaultConfigFile = ''dnsweaver.conf''"
definition DefaultReloadCommand :: string where "DefaultReloadCommand = ''systemctl reload dnsmasq''"
definition DefaultSSHStrictHostKey :: bool where "DefaultSSHStrictHostKey = True"

definition IsSSHEnabled :: "dnsmasq_Config \<Rightarrow> bool" where
  "IsSSHEnabled c \<longleftrightarrow> dc_SSHHost c \<noteq> [] \<or> dc_SSHUser c \<noteq> [] \<or> dc_SSHKeyFile c \<noteq> [] \<or> dc_SSHPassword c \<noteq> []"

definition dm_config_errors :: "dnsmasq_Config \<Rightarrow> string list" where
  "dm_config_errors c =
     (if dc_ConfigDir c = [] then [''CONFIG_DIR is required''] else []) @
     (if dc_ConfigFile c = [] then [''CONFIG_FILE is required''] else []) @
     (if dc_ReloadCommand c = [] then [''RELOAD_COMMAND is required''] else []) @
     (if dc_TTL c < 0 then [''TTL must be non-negative''] else []) @
     (if IsSSHEnabled c then
        (if dc_SSHHost c = [] then [''SSH_HOST is required when SSH is enabled''] else []) @
        (if dc_SSHUser c = [] then [''SSH_USER is required when SSH is enabled''] else []) @
        (if dc_SSHKeyFile c = [] \<and> dc_SSHPassword c = []
         then [''SSH_KEY_FILE or SSH_PASSWORD is required when SSH is enabled''] else []) @
        (if dc_SSHStrictHostKey c \<and> dc_SSHKnownHostsFile c = []
         then [''SSH host key verification is enabled by default: set SSH_KNOWN_HOSTS_FILE to a known_hosts file, or set SSH_STRICT_HOST_KEY_CHECKING=false to disable verification (insecure)'']
         else [])
      else [])"

definition dm_Validate :: "dnsmasq_Config \<Rightarrow> err option" where
  "dm_Validate c =
     (let errs = dm_config_errors c in
      if length errs > 0
      then Some (ErrorNew (''dnsmasq config validation failed: '' @ Join errs ''; '')) else None)"

definition getMapWithDefault :: "(string, string) gomap \<Rightarrow> string \<Rightarrow> string \<Rightarrow> string" where
  "getMapWithDefault m key defaultValue =
     (case map_of m key of Some v \<Rightarrow> if v \<noteq> [] then v else defaultValue | None \<Rightarrow> defaultValue)"

definition parseBoolValueDefault :: "string \<Rightarrow> bool \<Rightarrow> bool" where
  "parseBoolValueDefault v d =
     (let t = ToLower (TrimSpace v) in if t = ''true'' then True else if t = ''false'' then False else d)"

definition dm_LoadConfigFromMap :: "string \<Rightarrow> (string, string) gomap \<Rightarrow> err + dnsmasq_Config" where
  "dm_LoadConfigFromMap instanceName m =
     (let config = \<lparr>dc_ConfigDir = getMapWithDefault m ''CONFIG_DIR'' DefaultConfigDir,
            dc_ConfigFile = getMapWithDefault m ''CONFIG_FILE'' DefaultConfigFile,
            dc_ReloadCommand = getMapWithDefault m ''RELOAD_COMMAND'' DefaultReloadCommand,
            dc_Zone = map_get [] m ''ZONE'', dc_TTL = dm_DefaultTTL,
            dc_SSHHost = map_get [] m ''SSH_HOST'', dc_SSHPort = 0, dc_SSHUser = map_get [] m ''SSH_USER'',
            dc_SSHKeyFile = map_get [] m ''SSH_KEY_FILE'', dc_SSHPassword = map_get [] m ''SSH_PASSWORD'',
            dc_SSHKnownHostsFile = map_get [] m ''SSH_KNOWN_HOSTS_FILE'',
            dc_SSHStrictHostKey = parseBoolValueDefault (map_get [] m ''SSH_STRICT_HOST_KEY_CHECKING'') DefaultSSHStrictHostKey\<rparr>;
          ttlStr = map_get [] m ''TTL''; portStr = map_get [] m ''SSH_PORT''
      in case (if ttlStr \<noteq> [] then map_sum id Some (Atoi ttlStr) else Inr None) of
           Inl e \<Rightarrow> Inl (Errorf (''invalid TTL value '' @ Quote ttlStr @ '': '') e)
         | Inr ttl \<Rightarrow>
             let config = (case ttl of None \<Rightarrow> config | Some t \<Rightarrow> config\<lparr>dc_TTL := t\<rparr>) in
             (case (if portStr \<noteq> [] then map_sum id Some (Atoi portStr) else Inr None) of
                Inl e \<Rightarrow> Inl (Errorf (''invalid SSH_PORT value '' @ Quote portStr @ '': '') e)
              | Inr port \<Rightarrow>
                  let config = (case port of
                        Some p \<Rightarrow> config\<lparr>dc_SSHPort := p\<rparr>
                      | None \<Rightarrow> if dc_SSHHost config \<noteq> [] then config\<lparr>dc_SSHPort := 22\<rparr> else config)
                  in (case dm_Validate config of
                        Some e \<Rightarrow> Inl (Errorf (''configuration for '' @ instanceName @ '': '') e)
                      | None \<Rightarrow> Inr config)))"

subsection \<open>The file system and the command runner\<close>

record 'w FileSystem =
  fs_ReadFile :: "string \<Rightarrow> 'w \<Rightarrow> fs_error + string"
  fs_WriteFile :: "string \<Rightarrow> string \<Rightarrow> 'w \<Rightarrow> err option \<times> 'w"
  fs_Stat :: "string \<Rightarrow> 'w \<Rightarrow> fs_error + bool"   \<comment> \<open>whether the path is a directory\<close>
  fs_MkdirAll :: "string \<Rightarrow> 'w \<Rightarrow> err option \<times> 'w"

record 'w dnsmasq_Client =
  cl_configDir :: string
  cl_configFile :: string
  cl_reloadCommand :: string
  cl_zone :: string
  cl_fs :: "'w FileSystem"
  cl_runner :: "string \<Rightarrow> 'w \<Rightarrow> err option \<times> 'w"

record dnsmasqRecord =
  dm_Hostname :: string
  dm_Type :: RecordType
  dm_Target :: string

definition dm_ConfigFilePath :: "'w dnsmasq_Client \<Rightarrow> string" where
  "dm_ConfigFilePath c =
     (let fullPath = path_Join [cl_configDir c, cl_configFile c];
          cleanPath = Clean fullPath; cleanDir = Clean (cl_configDir c)
      in if \<not> HasPrefix cleanPath (cleanDir @ ''/'') \<and> cleanPath \<noteq> cleanDir
         then path_Join [cleanDir, ''dnsweaver.conf''] else cleanPath)"

definition dm_Ping :: "'w dnsmasq_Client \<Rightarrow> 'w \<Rightarrow> err option" where
  "dm_Ping c w =
     (case fs_Stat (cl_fs c) (cl_configDir c) w of
        Inl (NotExist _) \<Rightarrow> Some (ErrorNew (''config directory does not exist: '' @ cl_configDir c))
      | Inl (FsFailure e) \<Rightarrow> Some (Errorf ''checking config directory: '' e)
      | Inr isDir \<Rightarrow> if \<not> isDir then Some (ErrorNew (''config path is not a directory: '' @ cl_configDir c)) else None)"

subsection \<open>Lines and records\<close>

text \<open>The two regular expressions: a captured part up to the separator, then anything nonempty.\<close>

definition directive :: "string \<Rightarrow> char \<Rightarrow> string \<Rightarrow> (string \<times> string) option" where
  "directive pre sep line =
     (if \<not> HasPrefix line pre then None
      else case SplitN2 (drop (length pre) line) sep of
        [a, b] \<Rightarrow> if a \<noteq> [] \<and> b \<noteq> [] \<and> newline \<notin> set b then Some (a, b) else None
      | _ \<Rightarrow> None)"

definition addressPattern :: "string \<Rightarrow> (string \<times> string) option" where
  "addressPattern line = directive ''address=/'' (CHR ''/'') line"

definition cnamePattern :: "string \<Rightarrow> (string \<times> string) option" where
  "cnamePattern line = directive ''cname='' (CHR '','') line"

definition parseLine :: "string \<Rightarrow> err + dnsmasqRecord option" where
  "parseLine line =
     (case addressPattern line of
        Some (hostname, target) \<Rightarrow>
          (case ParseIP target of
             None \<Rightarrow> Inl (ErrorNew (''invalid IP address: '' @ target))
           | Some ip \<Rightarrow>
               let recordType = (if To4 ip = None then RecordTypeAAAA else RecordTypeA)
               in Inr (Some \<lparr>dm_Hostname = hostname, dm_Type = recordType, dm_Target = target\<rparr>))
      | None \<Rightarrow>
          (case cnamePattern line of
             Some (a, b) \<Rightarrow> Inr (Some \<lparr>dm_Hostname = a, dm_Type = RecordTypeCNAME, dm_Target = b\<rparr>)
           | None \<Rightarrow> Inr None))"

definition in_zone :: "string \<Rightarrow> string \<Rightarrow> bool" where
  "in_zone zone h \<longleftrightarrow> \<not> (zone \<noteq> [] \<and> \<not> HasSuffix h (''.'' @ zone) \<and> h \<noteq> zone)"

fun parse_lines :: "string \<Rightarrow> string list \<Rightarrow> dnsmasqRecord list" where
  "parse_lines zone [] = []"
| "parse_lines zone (text # ls) =
     (let line = TrimSpace text in
      if line = [] \<or> HasPrefix line ''#'' then parse_lines zone ls
      else case parseLine line of
        Inl _ \<Rightarrow> parse_lines zone ls
      | Inr None \<Rightarrow> parse_lines zone ls
      | Inr (Some r) \<Rightarrow> if \<not> in_zone zone (dm_Hostname r) then parse_lines zone ls else r # parse_lines zone ls)"

definition parseConfigContent :: "string \<Rightarrow> string \<Rightarrow> err + dnsmasqRecord list" where
  "parseConfigContent zone content =
     (case scan_lines content of
        Inl e \<Rightarrow> Inl (Errorf ''scanning config content: '' e)
      | Inr ls \<Rightarrow> Inr (parse_lines zone ls))"

definition dm_client_List :: "'w dnsmasq_Client \<Rightarrow> 'w \<Rightarrow> err + dnsmasqRecord list" where
  "dm_client_List c w =
     (case fs_ReadFile (cl_fs c) (dm_ConfigFilePath c) w of
        Inl (NotExist _) \<Rightarrow> Inr []
      | Inl (FsFailure e) \<Rightarrow> Inl (Errorf ''reading config file: '' e)
      | Inr content \<Rightarrow> parseConfigContent (cl_zone c) content)"

definition formatRecord :: "dnsmasqRecord \<Rightarrow> err + string" where
  "formatRecord r =
     (if dm_Type r = RecordTypeA \<or> dm_Type r = RecordTypeAAAA
      then Inr (''address=/'' @ dm_Hostname r @ ''/'' @ dm_Target r)
      else if dm_Type r = RecordTypeCNAME then Inr (''cname='' @ dm_Hostname r @ '','' @ dm_Target r)
      else Inl (ErrorNew (''unsupported record type: '' @ dm_Type r)))"

definition fileHeader :: string where
  "fileHeader =
     ''# Managed by dnsweaver - DO NOT EDIT MANUALLY'' @ [newline] @
     ''# This file is automatically generated and any manual changes will be overwritten.'' @ [newline] @
     ''# See https://github.com/maxfield-allison/dnsweaver for more information.'' @ [newline] @ [newline]"

text \<open>The content after a record line has been added.\<close>

definition append_line :: "string \<Rightarrow> string \<Rightarrow> string" where
  "append_line existing newLine =
     (if length existing > 0
      then (if \<not> HasSuffix existing [newline] then existing @ [newline] else existing) @ newLine @ [newline]
      else fileHeader @ newLine @ [newline])"

definition dm_client_Create :: "'w dnsmasq_Client \<Rightarrow> dnsmasqRecord \<Rightarrow> 'w \<Rightarrow> err option \<times> 'w" where
  "dm_client_Create c r w =
     (let configPath = dm_ConfigFilePath c in
      case fs_ReadFile (cl_fs c) configPath w of
        Inl (FsFailure e) \<Rightarrow> (Some (Errorf ''reading config file: '' e), w)
      | res \<Rightarrow>
          let existing = (case res of Inr content \<Rightarrow> content | Inl _ \<Rightarrow> []) in
          (case formatRecord r of
             Inl e \<Rightarrow> (Some (Errorf ''formatting record: '' e), w)
           | Inr newLine \<Rightarrow>
               if Contains existing newLine then (None, w)
               else case fs_MkdirAll (cl_fs c) (cl_configDir c) w of
                 (Some e, w1) \<Rightarrow> (Some (Errorf ''creating config directory: '' e), w1)
               | (None, w1) \<Rightarrow>
                   (case fs_WriteFile (cl_fs c) configPath (append_line existing newLine) w1 of
                      (Some e, w2) \<Rightarrow> (Some (Errorf ''writing config file: '' e), w2)
                    | (None, w2) \<Rightarrow> (None, w2))))"

definition join_lines :: "string list \<Rightarrow> string" where
  "join_lines newLines =
     (let newContent = Join newLines [newline] in
      if length newLines > 0 \<and> \<not> HasSuffix newContent [newline] then newContent @ [newline] else newContent)"

definition dm_client_Delete :: "'w dnsmasq_Client \<Rightarrow> dnsmasqRecord \<Rightarrow> 'w \<Rightarrow> err option \<times> 'w" where
  "dm_client_Delete c r w =
     (let configPath = dm_ConfigFilePath c in
      case fs_ReadFile (cl_fs c) configPath w of
        Inl (NotExist _) \<Rightarrow> (None, w)
      | Inl (FsFailure e) \<Rightarrow> (Some (Errorf ''reading config file: '' e), w)
      | Inr content \<Rightarrow>
          (case formatRecord r of
             Inl e \<Rightarrow> (Some (Errorf ''formatting record: '' e), w)
           | Inr targetLine \<Rightarrow>
               (case scan_lines content of
                  Inl e \<Rightarrow> (Some (Errorf ''scanning config content: '' e), w)
                | Inr ls \<Rightarrow>
                    let newLines = filter (\<lambda>line. TrimSpace line \<noteq> targetLine) ls;
                        removed = list_ex (\<lambda>line. TrimSpace line = targetLine) ls
                    in if \<not> removed then (None, w)
                       else case fs_WriteFile (cl_fs c) configPath (join_lines newLines) w of
                         (Some e, w') \<Rightarrow> (Some (Errorf ''writing config file: '' e), w')
                       | (None, w') \<Rightarrow> (None, w'))))"

definition dm_Reload :: "'w dnsmasq_Client \<Rightarrow> 'w \<Rightarrow> err option \<times> 'w" where
  "dm_Reload c w = cl_runner c (cl_reloadCommand c) w"

fun format_all :: "dnsmasqRecord list \<Rightarrow> err + string list" where
  "format_all [] = Inr []"
| "format_all (r # rs) =
     (case formatRecord r of
        Inl e \<Rightarrow> Inl (Errorf (''formatting record '' @ dm_Hostname r @ '': '') e)
      | Inr line \<Rightarrow> map_sum id (\<lambda>ls. line # ls) (format_all rs))"

definition dm_WriteRecords :: "'w dnsmasq_Client \<Rightarrow> dnsmasqRecord list \<Rightarrow> 'w \<Rightarrow> err option \<times> 'w" where
  "dm_WriteRecords c rs w =
     (case format_all rs of
        Inl e \<Rightarrow> (Some e, w)
      | Inr ls \<Rightarrow>
          let content = fileHeader @ Join ls [newline] @ (if length ls > 0 then [newline] else []) in
          (case fs_MkdirAll (cl_fs c) (cl_configDir c) w of
             (Some e, w1) \<Rightarrow> (Some (Errorf ''creating config directory: '' e), w1)
           | (None, w1) \<Rightarrow>
               (case fs_WriteFile (cl_fs c) (dm_ConfigFilePath c) content w1 of
                  (Some e, w2) \<Rightarrow> (Some (Errorf ''writing config file: '' e), w2)
                | (None, w2) \<Rightarrow> (None, w2))))"

subsection \<open>The provider\<close>

definition dm_record :: "int \<Rightarrow> dnsmasqRecord \<Rightarrow> Record" where
  "dm_record ttl r =
     (record_literal (dm_Hostname r) (dm_Type r) (dm_Target r))
       \<lparr>r_TTL := ttl, r_ProviderID := dm_Hostname r @ '':'' @ dm_Type r @ '':'' @ dm_Target r\<rparr>"

definition dm_List :: "int \<Rightarrow> 'w dnsmasq_Client \<Rightarrow> 'w \<Rightarrow> err + Record list" where
  "dm_List ttl c w =
     (case dm_client_List c w of
        Inl e \<Rightarrow> Inl (Errorf ''listing records: '' e)
      | Inr rs \<Rightarrow> Inr (map (dm_record ttl) rs))"

text \<open>A failed reload is logged and otherwise ignored.\<close>

definition reload_after :: "bool \<Rightarrow> 'w dnsmasq_Client \<Rightarrow> 'w \<Rightarrow> 'w" where
  "reload_after reloadOnWrite c w = (if reloadOnWrite then snd (dm_Reload c w) else w)"

definition dm_Create :: "bool \<Rightarrow> 'w dnsmasq_Client \<Rightarrow> Record \<Rightarrow> 'w \<Rightarrow> err option \<times> 'w" where
  "dm_Create reloadOnWrite c r w =
     (if r_Type r = RecordTypeTXT then (None, w)
      else if r_Type r = RecordTypeSRV
        then (Some (ErrorNew ''SRV records not yet supported by dnsmasq provider''), w)
      else if r_Type r \<noteq> RecordTypeA \<and> r_Type r \<noteq> RecordTypeAAAA \<and> r_Type r \<noteq> RecordTypeCNAME
        then (Some (ErrorNew (''unsupported record type: '' @ r_Type r)), w)
      else case dm_client_Create c \<lparr>dm_Hostname = r_Hostname r, dm_Type = r_Type r, dm_Target = r_Target r\<rparr> w of
        (Some e, w') \<Rightarrow> (Some (Errorf (''creating '' @ r_Type r @ '' record: '') e), w')
      | (None, w') \<Rightarrow> (None, reload_after reloadOnWrite c w'))"

definition dm_Delete :: "bool \<Rightarrow> 'w dnsmasq_Client \<Rightarrow> Record \<Rightarrow> 'w \<Rightarrow> err option \<times> 'w" where
  "dm_Delete reloadOnWrite c r w =
     (if r_Type r = RecordTypeTXT then (None, w)
      else case dm_client_Delete c \<lparr>dm_Hostname = r_Hostname r, dm_Type = r_Type r, dm_Target = r_Target r\<rparr> w of
        (Some e, w') \<Rightarrow> (Some (Errorf (''deleting '' @ r_Type r @ '' record: '') e), w')
      | (None, w') \<Rightarrow> (None, reload_after reloadOnWrite c w'))"

definition dm_Capabilities :: Capabilities where
  "dm_Capabilities = \<lparr>SupportsOwnershipTXT = False, SupportsNativeUpdate = False,
     SupportedRecordTypes = [RecordTypeA, RecordTypeCNAME]\<rparr>"

definition dm_Identity :: "dnsmasq_Config \<Rightarrow> ProviderIdentity" where
  "dm_Identity config =
     (let host = (if dc_SSHHost config = [] then ''local'' else dc_SSHHost config) in
      \<lparr>id_Type = ''dnsmasq'',
       id_Endpoint = host @ '':'' @ dc_ConfigDir config @ ''/'' @ dc_ConfigFile config,
       id_Zone = dc_Zone config\<rparr>)"

text \<open>The transport of SSH mode: a file system, a command runner and what closes them.\<close>

type_synonym 'w transport =
  "'w FileSystem \<times> (string \<Rightarrow> 'w \<Rightarrow> err option \<times> 'w) \<times> ('w \<Rightarrow> err option \<times> 'w)"

definition dm_client :: "'w FileSystem \<Rightarrow> (string \<Rightarrow> 'w \<Rightarrow> err option \<times> 'w) \<Rightarrow> dnsmasq_Config \<Rightarrow> 'w dnsmasq_Client" where
  "dm_client fs runner config =
     \<lparr>cl_configDir = dc_ConfigDir config, cl_configFile = dc_ConfigFile config,
      cl_reloadCommand = dc_ReloadCommand config, cl_zone = dc_Zone config, cl_fs = fs, cl_runner = runner\<rparr>"

definition dm_provider ::
  "string \<Rightarrow> dnsmasq_Config \<Rightarrow> 'w dnsmasq_Client \<Rightarrow> ('w \<Rightarrow> err option \<times> 'w) option \<Rightarrow> 'w Provider" where
  "dm_provider name config c transport =
     \<lparr>p_Name = name, p_Type = ''dnsmasq'', p_Ping = (\<lambda>w. (dm_Ping c w, w)), p_Capabilities = dm_Capabilities,
      p_List = (\<lambda>w. (dm_List (dc_TTL config) c w, w)), p_Create = dm_Create True c, p_Delete = dm_Delete True c,
      p_Update = None, p_Identity = Some (dm_Identity config),
      p_Close = Some (case transport of Some close \<Rightarrow> close | None \<Rightarrow> (\<lambda>w. (None, w)))\<rparr>"

definition dm_New ::
  "'w FileSystem \<Rightarrow> (string \<Rightarrow> 'w \<Rightarrow> err option \<times> 'w) \<Rightarrow> (dnsmasq_Config \<Rightarrow> 'w \<Rightarrow> (err + 'w transport) \<times> 'w) \<Rightarrow>
   string \<Rightarrow> dnsmasq_Config \<Rightarrow> 'w \<Rightarrow> (err + 'w Provider) \<times> 'w" where
  "dm_New os_fs os_runner newSSHTransport name config w =
     (case dm_Validate config of
        Some e \<Rightarrow> (Inl e, w)
      | None \<Rightarrow>
          if IsSSHEnabled config then
            (case newSSHTransport config w of
               (Inl e, w') \<Rightarrow>
                 (Inl (Errorf (''dnsmasq provider '' @ Quote name @
                    '': SSH mode is configured but the transport could not be established: '') e), w')
             | (Inr (fs, runner, close), w') \<Rightarrow>
                 (Inr (dm_provider name config (dm_client fs runner config) (Some close)), w'))
          else (Inr (dm_provider name config (dm_client os_fs os_runner config) None), w))"

definition dm_NewFromMap ::
  "'w FileSystem \<Rightarrow> (string \<Rightarrow> 'w \<Rightarrow> err option \<times> 'w) \<Rightarrow> (dnsmasq_Config \<Rightarrow> 'w \<Rightarrow> (err + 'w transport) \<times> 'w) \<Rightarrow>
   string \<Rightarrow> (string, string) gomap \<Rightarrow> 'w \<Rightarrow> (err + 'w Provider) \<times> 'w" where
  "dm_NewFromMap os_fs os_runner newSSHTransport name m w =
     (case dm_LoadConfigFromMap name m of
        Inl e \<Rightarrow> (Inl e, w)
      | Inr config \<Rightarrow> dm_New os_fs os_runner newSSHTransport name config w)"

definition dm_Factory ::
  "'w FileSystem \<Rightarrow> (string \<Rightarrow> 'w \<Rightarrow> err option \<times> 'w) \<Rightarrow> (dnsmasq_Config \<Rightarrow> 'w \<Rightarrow> (err + 'w transport) \<times> 'w) \<Rightarrow> 'w Factory" where
  "dm_Factory os_fs os_runner newSSHTransport cfg w =
     dm_NewFromMap os_fs os_runner newSSHTransport (fc_Name cfg) (fc_ProviderConfig cfg) w"

interpretation dm: named_factories "[(''dnsmasq'', dm_Factory os_fs os_runner ssh)]" for os_fs os_runner ssh
  by unfold_locales
    (auto simp: dm_Factory_def dm_NewFromMap_def dm_New_def dm_provider_def
      split: sum.splits option.splits if_splits prod.splits)

subsection \<open>Lines and records correspond\<close>

text \<open>Records whose fields do not interfere with the line syntax.\<close>

definition plain_record :: "dnsmasqRecord \<Rightarrow> bool" where
  "plain_record r \<longleftrightarrow>
     dm_Hostname r \<noteq> [] \<and> newline \<notin> set (dm_Hostname r) \<and> dm_Target r \<noteq> [] \<and> newline \<notin> set (dm_Target r) \<and>
     \<not> is_space (last (dm_Target r)) \<and>
     (dm_Type r = RecordTypeCNAME \<and> CHR '','' \<notin> set (dm_Hostname r) \<or>
      CHR ''/'' \<notin> set (dm_Hostname r) \<and>
      (\<exists>ip. ParseIP (dm_Target r) = Some ip \<and>
         dm_Type r = (if To4 ip = None then RecordTypeAAAA else RecordTypeA)))"

lemma directive_Some:
  "directive pre sep line = Some (a, b) \<longleftrightarrow>
    line = pre @ a @ sep # b \<and> sep \<notin> set a \<and> a \<noteq> [] \<and> b \<noteq> [] \<and> newline \<notin> set b"
proof
  assume "directive pre sep line = Some (a, b)"
  then have p: "HasPrefix line pre" and s: "SplitN2 (drop (length pre) line) sep = [a, b]"
    and n: "a \<noteq> [] \<and> b \<noteq> [] \<and> newline \<notin> set b"
    by (auto simp: directive_def split: if_splits list.splits)
  from s have "drop (length pre) line = a @ sep # b \<and> sep \<notin> set a" using SplitN2_two by blast
  with p n show "line = pre @ a @ sep # b \<and> sep \<notin> set a \<and> a \<noteq> [] \<and> b \<noteq> [] \<and> newline \<notin> set b"
    by (metis HasPrefix_def append_take_drop_id)
next
  assume r: "line = pre @ a @ sep # b \<and> sep \<notin> set a \<and> a \<noteq> [] \<and> b \<noteq> [] \<and> newline \<notin> set b"
  then have "SplitN2 (drop (length pre) line) sep = [a, b]" by (simp add: SplitN2_Cons del: SplitN2.simps)
  with r show "directive pre sep line = Some (a, b)" by (simp add: directive_def del: SplitN2.simps)
qed

lemma cname_not_address: "addressPattern (''cname='' @ s) = None"
  by (simp add: addressPattern_def directive_def HasPrefix_def)

lemma formatRecord_types:
  "dm_Type r = RecordTypeCNAME \<Longrightarrow> formatRecord r = Inr (''cname='' @ dm_Hostname r @ '','' @ dm_Target r)"
  "dm_Type r = (if b then RecordTypeAAAA else RecordTypeA) \<Longrightarrow>
     formatRecord r = Inr (''address=/'' @ dm_Hostname r @ ''/'' @ dm_Target r)"
  by (auto simp: formatRecord_def RecordType_defs)

lemma parseLine_cname:
  assumes "addressPattern line = None"
  shows "parseLine line = Inr (Some r) \<longleftrightarrow>
    dm_Type r = RecordTypeCNAME \<and> cnamePattern line = Some (dm_Hostname r, dm_Target r)"
  using assms by (cases r) (auto simp: parseLine_def split: option.splits)

lemma parseLine_address:
  assumes "addressPattern line = Some (a, b)"
  shows "parseLine line = Inr (Some r) \<longleftrightarrow> dm_Hostname r = a \<and> dm_Target r = b \<and>
    (\<exists>ip. ParseIP b = Some ip \<and> dm_Type r = (if To4 ip = None then RecordTypeAAAA else RecordTypeA))"
  using assms by (cases r) (auto simp: parseLine_def Let_def split: option.splits)

text \<open>What the parser returns is printed back as the line it came from.\<close>

lemma format_parseLine:
  assumes "parseLine line = Inr (Some r)" shows "formatRecord r = Inr line"
proof (cases "addressPattern line")
  case None
  then show ?thesis using assms
    by (simp add: parseLine_cname formatRecord_types(1) cnamePattern_def directive_Some)
next
  case (Some ab)
  obtain a b where ab: "ab = (a, b)" by fastforce
  with Some assms obtain ip where "dm_Hostname r = a" "dm_Target r = b"
    "dm_Type r = (if To4 ip = None then RecordTypeAAAA else RecordTypeA)"
    using parseLine_address by blast
  moreover from Some ab have "line = ''address=/'' @ a @ ''/'' @ b" by (simp add: addressPattern_def directive_Some)
  ultimately show ?thesis using formatRecord_types(2) by simp
qed

text \<open>A plain record is read back from its line.\<close>

lemma parse_formatRecord:
  assumes "plain_record r" shows "\<exists>line. formatRecord r = Inr line \<and> parseLine line = Inr (Some r)"
proof (cases "dm_Type r = RecordTypeCNAME")
  case True
  let ?line = "''cname='' @ dm_Hostname r @ '','' @ dm_Target r"
  have "cnamePattern ?line = Some (dm_Hostname r, dm_Target r)"
    using assms True by (auto simp: plain_record_def cnamePattern_def directive_Some RecordType_defs split: if_splits)
  then show ?thesis using True formatRecord_types(1) [OF True] parseLine_cname [OF cname_not_address] by blast
next
  case False
  let ?line = "''address=/'' @ dm_Hostname r @ ''/'' @ dm_Target r"
  from False assms obtain ip where ip: "ParseIP (dm_Target r) = Some ip" "CHR ''/'' \<notin> set (dm_Hostname r)"
    "dm_Type r = (if To4 ip = None then RecordTypeAAAA else RecordTypeA)" by (auto simp: plain_record_def)
  have "addressPattern ?line = Some (dm_Hostname r, dm_Target r)"
    using assms ip(2) by (simp add: plain_record_def addressPattern_def directive_Some)
  then show ?thesis using ip formatRecord_types(2) [OF ip(3)] parseLine_address by blast
qed

lemma parsed_type:
  "parseLine line = Inr (Some r) \<Longrightarrow> dm_Type r \<in> {RecordTypeA, RecordTypeAAAA, RecordTypeCNAME}"
  by (cases "addressPattern line") (auto simp: parseLine_cname parseLine_address)

lemma parse_lines_member: "r \<in> set (parse_lines zone ls) \<Longrightarrow> \<exists>line. parseLine line = Inr (Some r)"
  by (induction ls) (auto simp: Let_def split: if_splits sum.splits option.splits)

lemma dm_client_List_member: "dm_client_List c w = Inr rs \<Longrightarrow> r \<in> set rs \<Longrightarrow> \<exists>line. parseLine line = Inr (Some r)"
  by (auto simp: dm_client_List_def parseConfigContent_def split: sum.splits fs_error.splits dest: parse_lines_member)

lemma dm_provider_complete: "complete_provider (dm_provider name config c t)"
proof -
  have "dm_Type r \<noteq> RecordTypeSRV" if "dm_client_List c w = Inr rs" "r \<in> set rs" for rs r w
    using dm_client_List_member [OF that] parsed_type by (fastforce simp: RecordType_defs)
  then show ?thesis
    by (auto simp: complete_provider_def srv_complete_def dm_provider_def dm_List_def dm_record_def split: sum.splits)
qed

subsection \<open>The contents of the file\<close>

text \<open>The records of one line; the parser concatenates them.\<close>

definition line_records :: "string \<Rightarrow> string \<Rightarrow> dnsmasqRecord list" where
  "line_records zone text = parse_lines zone [text]"

lemma parse_lines_concat: "parse_lines zone ls = concat (map (line_records zone) ls)"
  by (induction ls) (auto simp: line_records_def Let_def split: sum.splits option.splits)

lemma TrimSpace_snoc_space: "is_space c \<Longrightarrow> TrimSpace (l @ [c]) = TrimSpace l"
  by (cases "\<forall>x \<in> set l. is_space x") (auto simp: TrimSpace_def dropWhile_append dest: set_dropWhileD)

lemma TrimSpace_drop_cr [simp]: "TrimSpace (drop_cr l) = TrimSpace l"
proof -
  have "is_space (CHR 0x0D)" by (simp add: is_space_def)
  then show ?thesis unfolding drop_cr_def
    by (metis HasSuffix_iff TrimSpace_snoc_space TrimSuffix_append TrimSuffix_id)
qed

lemma line_records_cong: "TrimSpace s = TrimSpace t \<Longrightarrow> line_records zone s = line_records zone t"
  by (simp add: line_records_def)

lemma line_records_drop_cr [simp]: "line_records zone (drop_cr l) = line_records zone l"
  by (rule line_records_cong) simp

lemma line_records_Nil [simp]: "line_records zone [] = []"
  by (simp add: line_records_def TrimSpace_def)

lemma dropWhile_id: "xs = [] \<or> \<not> P (hd xs) \<Longrightarrow> dropWhile P xs = xs"
  by (cases xs) auto

lemma TrimSpace_id: "l = [] \<or> \<not> is_space (hd l) \<and> \<not> is_space (last l) \<Longrightarrow> TrimSpace l = l"
  by (cases "l = []") (simp_all add: TrimSpace_def dropWhile_id hd_rev)

lemma line_records_format: "x \<in> set (line_records zone t) \<Longrightarrow> formatRecord x = Inr (TrimSpace t)"
  by (auto simp: line_records_def Let_def format_parseLine split: if_splits sum.splits option.splits)

lemma plain_line:
  assumes "plain_record r" "formatRecord r = Inr l"
  shows "newline \<notin> set l" "TrimSpace l = l" "line_records zone l = (if in_zone zone (dm_Hostname r) then [r] else [])"
proof -
  from assms have l: "l = ''address=/'' @ dm_Hostname r @ ''/'' @ dm_Target r \<or> l = ''cname='' @ dm_Hostname r @ '','' @ dm_Target r"
    by (auto simp: formatRecord_def split: if_splits)
  with assms(1) show nl: "newline \<notin> set l" by (auto simp: plain_record_def)
  from l assms(1) show t: "TrimSpace l = l"
    by (intro TrimSpace_id) (auto simp: plain_record_def is_space_def)
  have "parseLine l = Inr (Some r)" using parse_formatRecord [OF assms(1)] assms(2) by auto
  moreover have "l \<noteq> []" "\<not> HasPrefix l ''#''" using l by (auto simp: HasPrefix_def)
  ultimately show "line_records zone l = (if in_zone zone (dm_Hostname r) then [r] else [])"
    by (simp add: line_records_def t Let_def)
qed

lemma parseConfigContent_lines:
  "parseConfigContent zone content = Inr rs \<longleftrightarrow>
     list_all (\<lambda>l. length l \<le> 65535) (raw_lines content) \<and> rs = concat (map (line_records zone) (raw_lines content))"
proof (cases "list_ex (\<lambda>l. length l > 65535) (raw_lines content)")
  case True
  then have "\<not> list_all (\<lambda>l. length l \<le> 65535) (raw_lines content)"
    by (simp add: list_ex_iff list_all_iff not_le)
  with True show ?thesis by (simp add: parseConfigContent_def scan_lines_def)
next
  case False
  then have "list_all (\<lambda>l. length l \<le> 65535) (raw_lines content)"
    by (simp add: list_ex_iff list_all_iff not_less)
  with False show ?thesis by (auto simp: parseConfigContent_def scan_lines_def parse_lines_concat comp_def)
qed

lemma raw_lines_append_line:
  assumes "newline \<notin> set l" "existing \<noteq> []"
  shows "raw_lines (append_line existing l) = raw_lines existing @ [l]"
proof (cases "HasSuffix existing [newline]")
  case True
  then obtain e where "existing = e @ [newline]" by (auto simp: HasSuffix_iff)
  then show ?thesis using raw_lines_snoc_line [OF assms(1), of e] by (simp add: append_line_def)
next
  case False
  then show ?thesis using raw_lines_snoc_line [OF assms(1), of existing] raw_lines_unterminated [OF False assms(2)] assms(2)
    by (simp add: append_line_def)
qed

lemma header_lines: "parseConfigContent zone fileHeader = Inr []"
proof -
  have "list_all (\<lambda>l. length l \<le> 100) (raw_lines fileHeader)" by code_simp
  then have "list_all (\<lambda>l. length l \<le> 65535) (raw_lines fileHeader)" by (auto simp: list_all_iff)
  moreover have "list_all (\<lambda>l. TrimSpace l = [] \<or> HasPrefix (TrimSpace l) ''#'') (raw_lines fileHeader)" by code_simp
  then have "concat (map (line_records zone) (raw_lines fileHeader)) = []"
    by (auto simp: list_all_iff line_records_def)
  ultimately show ?thesis by (simp add: parseConfigContent_lines)
qed

lemma append_line_header: "append_line [] l = append_line fileHeader l" "fileHeader \<noteq> []"
  by (simp_all add: append_line_def fileHeader_def HasSuffix_def)

lemma create_content:
  assumes "plain_record r" "formatRecord r = Inr l" "length l \<le> 65535"
    and "parseConfigContent zone existing = Inr rs"
  shows "parseConfigContent zone (append_line existing l) =
    Inr (rs @ (if in_zone zone (dm_Hostname r) then [r] else []))"
proof -
  note pl = plain_line [OF assms(1,2)]
  have *: "parseConfigContent zone (append_line e l) = Inr (rs' @ line_records zone l)"
    if "e \<noteq> []" "parseConfigContent zone e = Inr rs'" for e rs'
    using that assms(3) by (simp add: parseConfigContent_lines raw_lines_append_line [OF pl(1)])
  show ?thesis
  proof (cases "existing = []")
    case True
    then have "rs = []" using assms(4) by (simp add: parseConfigContent_lines)
    then show ?thesis using * [OF append_line_header(2) header_lines] True append_line_header(1) by (simp add: pl)
  qed (use * assms(4) in \<open>simp add: pl\<close>)
qed

lemma Join_snoc: "ws \<noteq> [] \<Longrightarrow> Join (ws @ [w]) sep = Join ws sep @ sep @ w"
  by (induction ws rule: induct_list012) auto

text \<open>Rewriting the lines loses at most a blank one at the end.\<close>

lemma raw_lines_join_lines:
  assumes "\<forall>l \<in> set ls. newline \<notin> set l"
  shows "raw_lines (join_lines ls) = ls \<or> (ls \<noteq> [] \<and> last ls = [] \<and> raw_lines (join_lines ls) = butlast ls)"
proof (cases ls rule: rev_cases)
  case Nil
  then show ?thesis by (simp add: join_lines_def)
next
  case (snoc ws w)
  have nl: "raw_lines (Join ls [newline] @ [newline]) = ls" using raw_lines_Join [OF _ assms] snoc by simp
  show ?thesis
  proof (cases "HasSuffix (Join ls [newline]) [newline]")
    case False
    then show ?thesis using nl snoc by (simp add: join_lines_def Let_def)
  next
    case True
    then have "ws \<noteq> []" using snoc assms by (auto simp: HasSuffix_iff)
    then have j: "Join ls [newline] = Join ws [newline] @ newline # w" using snoc Join_snoc by simp
    have "w = []"
    proof (rule ccontr)
      assume "w \<noteq> []"
      then have "last (Join ls [newline]) = last w" using j by simp
      moreover have "last (Join ls [newline]) = newline" using True by (auto simp: HasSuffix_iff)
      ultimately show False using assms snoc \<open>w \<noteq> []\<close> by (metis last_in_set in_set_conv_decomp)
    qed
    then show ?thesis using True j snoc raw_lines_Join [OF \<open>ws \<noteq> []\<close>] assms by (simp add: join_lines_def Let_def)
  qed
qed

lemma delete_content:
  assumes "scan_lines content = Inr ls" and "parseConfigContent zone content = Inr rs"
  shows "parseConfigContent zone (join_lines (filter (\<lambda>l. TrimSpace l \<noteq> target) ls)) =
    Inr (filter (\<lambda>x. formatRecord x \<noteq> Inr target) rs)"
proof -
  let ?new = "filter (\<lambda>l. TrimSpace l \<noteq> target) ls"
  have ls: "ls = map drop_cr (raw_lines content)" and short: "\<forall>l \<in> set (raw_lines content). length l \<le> 65535"
    using assms(1) by (auto simp: scan_lines_def list_ex_iff split: if_splits)
  have cr: "length (drop_cr l) \<le> length l" "set (drop_cr l) \<subseteq> set l" for l
    by (auto simp: drop_cr_def TrimSuffix_def dest: in_set_takeD)
  have nl: "\<forall>l \<in> set ?new. newline \<notin> set l" using raw_lines_no_newline cr(2) by (fastforce simp: ls)
  have len: "\<forall>l \<in> set ?new. length l \<le> 65535" using short cr(1) by (fastforce simp: ls intro: order_trans)
  have raw: "raw_lines (join_lines ?new) = ?new \<or> (?new \<noteq> [] \<and> last ?new = [] \<and> raw_lines (join_lines ?new) = butlast ?new)"
    using raw_lines_join_lines [OF nl] .
  have recs: "concat (map (line_records zone) (raw_lines (join_lines ?new))) = concat (map (line_records zone) ?new)"
    using raw
  proof
    assume b: "?new \<noteq> [] \<and> last ?new = [] \<and> raw_lines (join_lines ?new) = butlast ?new"
    then have "?new = butlast ?new @ [[]]" by (metis append_butlast_last_id)
    then have "concat (map (line_records zone) ?new) = concat (map (line_records zone) (butlast ?new @ [[]]))" by metis
    then show ?thesis using b by simp
  qed simp
  have short': "list_all (\<lambda>l. length l \<le> 65535) (raw_lines (join_lines ?new))"
  proof -
    have "set (raw_lines (join_lines ?new)) \<subseteq> set ?new"
      using raw by (metis in_set_butlastD order_refl subsetI)
    then show ?thesis using len by (force simp only: list_all_iff)
  qed
  have "rs = concat (map (line_records zone) ls)"
    using assms(2) by (simp add: parseConfigContent_lines ls comp_def)
  moreover have "concat (map (line_records zone) (filter (\<lambda>l. TrimSpace l \<noteq> target) xs)) =
      filter (\<lambda>x. formatRecord x \<noteq> Inr target) (concat (map (line_records zone) xs))" for xs
  proof (induction xs)
    case (Cons x xs)
    have "filter (\<lambda>y. formatRecord y \<noteq> Inr target) (line_records zone x) =
        (if TrimSpace x \<noteq> target then line_records zone x else [])"
      using line_records_format [of _ zone x] by (auto simp: filter_empty_conv intro!: filter_True)
    then show ?case using Cons by simp
  qed simp
  ultimately show ?thesis using recs short' by (simp add: parseConfigContent_lines)
qed

subsection \<open>The client over a file system\<close>

text \<open>What the client relies on: a file that was written is read back, and no other file has changed.\<close>

locale file_system =
  fixes fs :: "'w FileSystem"
  assumes write_read: "fs_WriteFile fs p content w = (None, w') \<Longrightarrow>
    fs_ReadFile fs q w' = (if q = p then Inr content else fs_ReadFile fs q w)"
begin

lemma client_Create:
  assumes c: "cl_fs c = fs" and run: "dm_client_Create c r w = (None, w')"
    and r: "plain_record r" "formatRecord r = Inr l" "length l \<le> 65535" "in_zone (cl_zone c) (dm_Hostname r)"
    and list: "dm_client_List c w = Inr rs"
    and fresh: "\<And>content. fs_ReadFile fs (dm_ConfigFilePath c) w = Inr content \<Longrightarrow> \<not> Contains content l"
  shows "dm_client_List c w' = Inr (rs @ [r])"
proof -
  obtain existing where e: "parseConfigContent (cl_zone c) existing = Inr rs"
    and w: "fs_ReadFile fs (dm_ConfigFilePath c) w' = Inr (append_line existing l)"
  proof (cases "fs_ReadFile fs (dm_ConfigFilePath c) w")
    case (Inl err)
    then obtain t where t: "err = NotExist t" "rs = []" using list c
      by (cases err) (auto simp: dm_client_List_def)
    have "\<not> Contains [] l" using plain_line(1) r by (auto simp: formatRecord_def split: if_splits)
    then obtain w1 w2 where "fs_WriteFile fs (dm_ConfigFilePath c) (append_line [] l) w1 = (None, w2)" "w' = w2"
      using run Inl t r(2) c
      by (auto simp: dm_client_Create_def Let_def split: prod.splits option.splits if_splits)
    with write_read t(2) that [of "[]"] show thesis by (auto simp: parseConfigContent_lines)
  next
    case (Inr content)
    then obtain w1 w2 where "fs_WriteFile fs (dm_ConfigFilePath c) (append_line content l) w1 = (None, w2)" "w' = w2"
      using run fresh r(2) c
      by (auto simp: dm_client_Create_def Let_def split: prod.splits option.splits if_splits)
    with write_read list Inr c that [of content] show thesis by (auto simp: dm_client_List_def)
  qed
  show ?thesis using create_content [OF r(1,2,3) e] w r(4) c by (simp add: dm_client_List_def)
qed

lemma client_Delete:
  assumes c: "cl_fs c = fs" and run: "dm_client_Delete c r w = (None, w')"
    and l: "formatRecord r = Inr l" and list: "dm_client_List c w = Inr rs"
  shows "dm_client_List c w' = Inr (filter (\<lambda>x. formatRecord x \<noteq> Inr l) rs)"
proof (cases "fs_ReadFile fs (dm_ConfigFilePath c) w")
  case (Inl err)
  then show ?thesis using run list c by (cases err) (auto simp: dm_client_Delete_def dm_client_List_def)
next
  case (Inr content)
  then have pc: "parseConfigContent (cl_zone c) content = Inr rs" using list c by (simp add: dm_client_List_def)
  then obtain ls where ls: "scan_lines content = Inr ls"
    by (auto simp: parseConfigContent_def split: sum.splits)
  note del = delete_content [OF ls pc, of l]
  show ?thesis
  proof (cases "list_ex (\<lambda>line. TrimSpace line = l) ls")
    case True
    then have "fs_ReadFile fs (dm_ConfigFilePath c) w' = Inr (join_lines (filter (\<lambda>line. TrimSpace line \<noteq> l) ls))"
      using run Inr l ls c write_read
      by (auto simp: dm_client_Delete_def Let_def split: prod.splits option.splits)
    then show ?thesis using del c by (simp add: dm_client_List_def)
  next
    case False
    then have "w' = w" using run Inr l ls c by (auto simp: dm_client_Delete_def Let_def)
    moreover have "formatRecord x \<noteq> Inr l" if x: "x \<in> set rs" for x
    proof -
      have "rs = concat (map (line_records (cl_zone c)) ls)"
        using pc ls by (auto simp: parseConfigContent_def parse_lines_concat)
      then obtain t where "t \<in> set ls" "x \<in> set (line_records (cl_zone c) t)" using x by auto
      then show ?thesis using line_records_format False by (auto simp: list_ex_iff)
    qed
    ultimately show ?thesis using list by (auto intro!: arg_cong [of _ _ Inr] filter_True [symmetric])
  qed
qed

end

text \<open>The local file system with the files as the world; its calls succeed.\<close>

type_synonym files = "(string, string) gomap"

definition osFileSystem :: "files FileSystem" where
  "osFileSystem =
     \<lparr>fs_ReadFile = (\<lambda>p w. case map_of w p of None \<Rightarrow> Inl (NotExist (''open '' @ p @ '': no such file or directory''))
                          | Some content \<Rightarrow> Inr content),
      fs_WriteFile = (\<lambda>p content w. (None, AList.update p content w)),
      fs_Stat = (\<lambda>p w. Inr (p \<notin> fst ` set w)),
      fs_MkdirAll = (\<lambda>p w. (None, w))\<rparr>"

interpretation os: file_system osFileSystem
  by unfold_locales (auto simp: osFileSystem_def)

subsection \<open>The path of the file\<close>

text \<open>The components of a path in its cleaned, absolute form.\<close>

definition path_parts :: "string \<Rightarrow> string list" where
  "path_parts p = clean_parts True [] (Split p (CHR ''/''))"

lemma path_parts_proper: "list_all proper_part (path_parts p)"
  unfolding path_parts_def by (rule clean_parts_proper) (auto dest: Split_parts_no_sep)

lemma Clean_parts: "p \<noteq> [] \<Longrightarrow> hd p = CHR ''/'' \<Longrightarrow> Clean p = CHR ''/'' # Join (path_parts p) ''/''"
  by (simp add: Clean_def path_parts_def Let_def)

lemma clean_parts_append:
  "list_all proper_part ps \<Longrightarrow> clean_parts True out (ps @ qs) = clean_parts True (rev ps @ out) qs"
  by (induction ps arbitrary: out) (auto simp: proper_part_def)

lemma path_parts_below:
  assumes "list_all proper_part ds"
  shows "path_parts (CHR ''/'' # Join ds ''/'' @ CHR ''/'' # s) = clean_parts True (rev ds) (Split s (CHR ''/''))"
proof -
  have "clean_parts True [] (Split (Join ds ''/'') (CHR ''/'') @ qs) = clean_parts True (rev ds) qs" for qs
    using clean_parts_append [OF assms, of "[]"] Join_proper_Split [OF assms] by (cases "ds = []") auto
  then show ?thesis by (simp add: path_parts_def Split_append_Cons)
qed

lemma Join_proper_inject:
  assumes "list_all proper_part ps" "list_all proper_part qs" "Join ps ''/'' = Join qs ''/''"
  shows "ps = qs"
proof -
  have "rs = []" if "list_all proper_part rs" "Join rs ''/'' = []" for rs
    using Join_proper_Split [OF that(1)] that by (cases rs) (auto simp: proper_part_def)
  then show ?thesis using assms Join_proper_Split by (metis Join.simps(1))
qed

text \<open>
  The configuration file never leaves an absolute configuration directory: its components extend
  those of the directory, and none of them climbs.
\<close>

lemma config_path_below:
  assumes "hd (cl_configDir c) = CHR ''/''" "cl_configDir c \<noteq> []"
  shows "\<exists>rest. dm_ConfigFilePath c = CHR ''/'' # Join (path_parts (cl_configDir c) @ rest) ''/'' \<and>
    list_all proper_part rest"
proof -
  let ?full = "path_Join [cl_configDir c, cl_configFile c]" and ?ds = "path_parts (cl_configDir c)"
  have dir: "Clean (cl_configDir c) = CHR ''/'' # Join ?ds ''/''" using Clean_parts assms by blast
  show ?thesis
  proof (cases "\<not> HasPrefix (Clean ?full) (Clean (cl_configDir c) @ ''/'') \<and> Clean ?full \<noteq> Clean (cl_configDir c)")
    case True
    then have "dm_ConfigFilePath c = path_Join [Clean (cl_configDir c), ''dnsweaver.conf'']"
      by (simp add: dm_ConfigFilePath_def Let_def)
    also have "\<dots> = Clean (CHR ''/'' # Join ?ds ''/'' @ CHR ''/'' # ''dnsweaver.conf'')"
      by (simp add: path_Join_def dir)
    also have "\<dots> = CHR ''/'' # Join (?ds @ [''dnsweaver.conf'']) ''/''"
      by (simp add: Clean_parts path_parts_below [OF path_parts_proper])
    finally show ?thesis by (intro exI [of _ "[''dnsweaver.conf'']"]) (simp add: proper_part_def)
  next
    case False
    then have path: "dm_ConfigFilePath c = Clean ?full"
      unfolding dm_ConfigFilePath_def Let_def by (rule if_not_P)
    have "?full \<noteq> []" "hd ?full = CHR ''/''"
      using assms by (auto simp: path_Join_def Clean_def Let_def split: if_splits)
    then have full: "Clean ?full = CHR ''/'' # Join (path_parts ?full) ''/''" by (rule Clean_parts)
    let ?qs = "path_parts ?full"
    from False consider (eq) "Join ?qs ''/'' = Join ?ds ''/''"
      | (below) rest where "Join ?qs ''/'' = Join ?ds ''/'' @ CHR ''/'' # rest"
      unfolding full dir HasPrefix_iff by auto
    then show ?thesis
    proof cases
      case eq
      then have "?qs = ?ds" by (intro Join_proper_inject path_parts_proper)
      then show ?thesis using path full by (intro exI [of _ "[]"]) simp
    next
      case below
      have q: "?qs \<noteq> []" using below by auto
      have "?qs = Split (Join ?ds ''/'') (CHR ''/'') @ Split rest (CHR ''/'')"
        using Join_proper_Split [OF path_parts_proper q] by (simp add: below Split_append_Cons)
      moreover have "?ds \<noteq> []"
      proof
        assume "?ds = []"
        then have "[] \<in> set ?qs" using calculation by simp
        then show False using path_parts_proper [of ?full] by (auto simp: list_all_iff proper_part_def)
      qed
      ultimately have "?qs = ?ds @ Split rest (CHR ''/'')"
        using Join_proper_Split [OF path_parts_proper] by metis
      then show ?thesis using path full path_parts_proper [of ?full]
        by (intro exI [of _ "Split rest (CHR ''/'')"]) simp
    qed
  qed
qed

subsection \<open>Properties\<close>

text \<open>A loaded configuration is valid, and a rejected TTL is reported by name.\<close>

lemma loaded_config_valid: "dm_LoadConfigFromMap name m = Inr config \<Longrightarrow> dm_Validate config = None"
  by (auto simp: dm_LoadConfigFromMap_def Let_def split: sum.splits option.splits if_splits)

lemma Validate_None: "dm_Validate c = None \<longleftrightarrow> dm_config_errors c = []"
  by (simp add: dm_Validate_def Let_def)

text \<open>
  The duplicate test of \<^verbatim>\<open>Create\<close> looks for the line anywhere in the file, so the address 10.0.0.1 counts as
  present when 10.0.0.12 is.
\<close>

definition ex_dm_client :: "files dnsmasq_Client" where
  "ex_dm_client = \<lparr>cl_configDir = ''/etc/dnsmasq.d'', cl_configFile = ''dnsweaver.conf'',
     cl_reloadCommand = ''reload'', cl_zone = [], cl_fs = osFileSystem, cl_runner = (\<lambda>_ w. (None, w))\<rparr>"

definition ex_dm_record :: "string \<Rightarrow> dnsmasqRecord" where
  "ex_dm_record ip = \<lparr>dm_Hostname = ''app.lan'', dm_Type = RecordTypeA, dm_Target = ip\<rparr>"

definition ex_dm_files :: files where
  "ex_dm_files = [(''/etc/dnsmasq.d/dnsweaver.conf'', ''address=/app.lan/10.0.0.12'' @ [newline])]"

lemma create_skips_prefix:
  "dm_client_Create ex_dm_client (ex_dm_record ''10.0.0.1'') ex_dm_files = (None, ex_dm_files) \<and>
   dm_client_List ex_dm_client ex_dm_files = Inr [ex_dm_record ''10.0.0.12'']"
  by code_simp



text \<open>On a file system that reads back what it has written, a successful creation of a well-formed record of
  the zone, whose line is not already part of the file, adds exactly that record at the end of what listing
  returns, whether the file existed or is created with its header.\<close>
theorem dnsmasq_create_listed:
  assumes "file_system (cl_fs c)"
    and "dm_client_Create c r w = (None, w')"
    and "plain_record r" "formatRecord r = Inr l" "length l \<le> 65535" "in_zone (cl_zone c) (dm_Hostname r)"
    and "dm_client_List c w = Inr rs"
    and "\<And>content. fs_ReadFile (cl_fs c) (dm_ConfigFilePath c) w = Inr content \<Longrightarrow> \<not> Contains content l"
  shows "dm_client_List c w' = Inr (rs @ [r])"
  by (rule file_system.client_Create [OF assms(1) refl assms(2-8)])

lemma ex_dm_plain: "plain_record (ex_dm_record ''10.0.0.5'')"
proof -
  have "ParseIP ''10.0.0.5'' \<noteq> None \<and> To4 (the (ParseIP ''10.0.0.5'')) \<noteq> None" by code_simp
  then show ?thesis by (auto simp: plain_record_def ex_dm_record_def is_space_def)
qed

theorem dnsmasq_create_listed_witness:
  "dm_client_List ex_dm_client (snd (dm_client_Create ex_dm_client (ex_dm_record ''10.0.0.5'') ex_dm_files)) =
    Inr ([ex_dm_record ''10.0.0.12''] @ [ex_dm_record ''10.0.0.5''])"
proof (rule dnsmasq_create_listed)
  show "file_system (cl_fs ex_dm_client)" using os.file_system_axioms by (simp add: ex_dm_client_def)
  have "fst (dm_client_Create ex_dm_client (ex_dm_record ''10.0.0.5'') ex_dm_files) = None" by code_simp
  then show "dm_client_Create ex_dm_client (ex_dm_record ''10.0.0.5'') ex_dm_files =
      (None, snd (dm_client_Create ex_dm_client (ex_dm_record ''10.0.0.5'') ex_dm_files))"
    by (metis prod.collapse)
  show "plain_record (ex_dm_record ''10.0.0.5'')" by (rule ex_dm_plain)
  show "formatRecord (ex_dm_record ''10.0.0.5'') = Inr ''address=/app.lan/10.0.0.5''" by code_simp
  show "length ''address=/app.lan/10.0.0.5'' \<le> 65535" by simp
  show "in_zone (cl_zone ex_dm_client) (dm_Hostname (ex_dm_record ''10.0.0.5''))"
    by (simp add: in_zone_def ex_dm_client_def)
  show "dm_client_List ex_dm_client ex_dm_files = Inr [ex_dm_record ''10.0.0.12'']"
    by code_simp
  have "fs_ReadFile (cl_fs ex_dm_client) (dm_ConfigFilePath ex_dm_client) ex_dm_files =
      Inr (''address=/app.lan/10.0.0.12'' @ [newline]) \<and>
      \<not> Contains (''address=/app.lan/10.0.0.12'' @ [newline]) ''address=/app.lan/10.0.0.5''" by code_simp
  then show "\<not> Contains content ''address=/app.lan/10.0.0.5''"
    if "fs_ReadFile (cl_fs ex_dm_client) (dm_ConfigFilePath ex_dm_client) ex_dm_files = Inr content" for content
    using that by auto
qed

text \<open>On such a file system a successful deletion removes from what listing returns exactly the records
  written as the deleted one, and keeps the others in their order.\<close>
lemma dnsmasq_delete_listed:
  assumes "file_system (cl_fs c)" "dm_client_Delete c r w = (None, w')"
    and "formatRecord r = Inr l" "dm_client_List c w = Inr rs"
  shows "dm_client_List c w' = Inr (filter (\<lambda>x. formatRecord x \<noteq> Inr l) rs)"
  by (rule file_system.client_Delete [OF assms(1) refl assms(2-4)])

theorem dnsmasq_delete_listed_witness:
  "dm_client_List ex_dm_client (snd (dm_client_Delete ex_dm_client (ex_dm_record ''10.0.0.12'') ex_dm_files)) =
    Inr (filter (\<lambda>x. formatRecord x \<noteq> Inr ''address=/app.lan/10.0.0.12'') [ex_dm_record ''10.0.0.12''])"
proof (rule dnsmasq_delete_listed)
  show "file_system (cl_fs ex_dm_client)" using os.file_system_axioms by (simp add: ex_dm_client_def)
  have "fst (dm_client_Delete ex_dm_client (ex_dm_record ''10.0.0.12'') ex_dm_files) = None" by code_simp
  then show "dm_client_Delete ex_dm_client (ex_dm_record ''10.0.0.12'') ex_dm_files =
      (None, snd (dm_client_Delete ex_dm_client (ex_dm_record ''10.0.0.12'') ex_dm_files))"
    by (metis prod.collapse)
  show "formatRecord (ex_dm_record ''10.0.0.12'') = Inr ''address=/app.lan/10.0.0.12''" by code_simp
  show "dm_client_List ex_dm_client ex_dm_files = Inr [ex_dm_record ''10.0.0.12'']"
    by code_simp
qed

text \<open>C26: For an absolute configuration directory the file written lies in that directory, whatever the file
  name: the components of its path extend those of the directory and none of them climbs.\<close>
theorem dnsmasq_path_contained:
  assumes "hd (cl_configDir c) = CHR ''/''" "cl_configDir c \<noteq> []"
  shows "\<exists>rest. dm_ConfigFilePath c = CHR ''/'' # Join (path_parts (cl_configDir c) @ rest) ''/'' \<and>
    list_all proper_part rest"
  using assms by (rule config_path_below)

theorem dnsmasq_path_contained_witness:
  "\<exists>rest. dm_ConfigFilePath (ex_dm_client\<lparr>cl_configFile := ''../../passwd''\<rparr>) =
      CHR ''/'' # Join (path_parts ''/etc/dnsmasq.d'' @ rest) ''/'' \<and> list_all proper_part rest"
  using dnsmasq_path_contained [of "ex_dm_client\<lparr>cl_configFile := ''../../passwd''\<rparr>"]
  by (simp add: ex_dm_client_def)

end
