(* ===== verification/TargetResolver.thy ===== *)
theory TargetResolver
  imports ProviderInstance GoStd
begin

text \<open>
  \<^verbatim>\<open>internal/target\<close> (\<^verbatim>\<open>target.go\<close>, \<^verbatim>\<open>public.go\<close>, \<^verbatim>\<open>iface.go\<close>): resolvers that find a record's target at
  runtime. The network is an environment with two operations over a world: an HTTP GET pinned to one address
  family, and the addresses of a named interface.
\<close>

datatype Family = FamilyIPv4 | FamilyIPv6

definition Family_String :: "Family \<Rightarrow> string" where
  "Family_String f = (if f = FamilyIPv6 then ''ipv6'' else ''ipv4'')"

definition family_matches :: "Family \<Rightarrow> nat list option \<Rightarrow> bool" where
  "family_matches f ip0 =
     (case ip0 of None \<Rightarrow> False
      | Some ip \<Rightarrow> if f = FamilyIPv6 then To4 ip = None else To4 ip \<noteq> None)"

record PublicResolver =
  pr_family :: Family
  pr_endpoints :: "string list"

record InterfaceResolver =
  ir_name :: string
  ir_family :: Family

datatype target_resolver = Public PublicResolver | Interface InterfaceResolver

text \<open>
  A response has a status and a body; the body may end in a read error. An interface address is an
  \<^verbatim>\<open>*net.IPNet\<close>, an \<^verbatim>\<open>*net.IPAddr\<close> or another implementation of \<^verbatim>\<open>net.Addr\<close>.
\<close>

record http_response =
  hr_StatusCode :: nat
  hr_Body :: string
  hr_ReadError :: "err option"

datatype net_addr = IPNet "nat list" | IPAddr "nat list" | OtherAddr

record 'w network =
  net_Get :: "Family \<Rightarrow> string \<Rightarrow> 'w \<Rightarrow> (err + http_response) \<times> 'w"
  net_InterfaceAddrs :: "string \<Rightarrow> 'w \<Rightarrow> (err + net_addr list) \<times> 'w"

definition DefaultPublicEndpoints :: "string list" where
  "DefaultPublicEndpoints =
     [''https://checkip.amazonaws.com'', ''https://api.ipify.org'', ''https://ipinfo.io/ip'', ''https://ifconfig.me/ip'']"

definition NewPublicResolver :: "Family \<Rightarrow> string list \<Rightarrow> PublicResolver" where
  "NewPublicResolver family endpoints =
     \<lparr>pr_family = family, pr_endpoints = (if length endpoints = 0 then DefaultPublicEndpoints else endpoints)\<rparr>"

definition NewInterfaceResolver :: "string \<Rightarrow> Family \<Rightarrow> InterfaceResolver" where
  "NewInterfaceResolver name family = \<lparr>ir_name = name, ir_family = family\<rparr>"

definition target_Parse :: "string \<Rightarrow> Family \<Rightarrow> err + target_resolver option" where
  "target_Parse mode family =
     (let m = TrimSpace mode in
      if m = [] then Inr None
      else if EqualFold m ''public'' then Inr (Some (Public (NewPublicResolver family [])))
      else if HasPrefix (ToLower m) ''interface:'' then
        (let name = TrimSpace (drop (length ''interface:'') m) in
         if name = [] then Inl (ErrorNew (''target mode '' @ Quote mode @ '': interface name is required (e.g. interface:eth0)''))
         else Inr (Some (Interface (NewInterfaceResolver name family))))
      else Inl (ErrorNew (''invalid target mode '' @ Quote mode @ '' (must be one of: public, interface:<name>)'')))"

subsection \<open>Public address\<close>

text \<open>The read stops after 128 bytes, so a read error counts only when it comes before.\<close>

definition limited_body :: "http_response \<Rightarrow> err + string" where
  "limited_body resp =
     (case hr_ReadError resp of
        Some e \<Rightarrow> if length (hr_Body resp) < 128 then Inl e else Inr (take 128 (hr_Body resp))
      | None \<Rightarrow> Inr (take 128 (hr_Body resp)))"

definition public_query :: "'w network \<Rightarrow> PublicResolver \<Rightarrow> string \<Rightarrow> 'w \<Rightarrow> (err + string) \<times> 'w" where
  "public_query net r endpoint w =
     (case net_Get net (pr_family r) endpoint w of
        (Inl e, w') \<Rightarrow> (Inl e, w')
      | (Inr resp, w') \<Rightarrow>
          if hr_StatusCode resp \<noteq> 200 then (Inl (ErrorNew (''status '' @ Itoa (hr_StatusCode resp))), w')
          else case limited_body resp of
            Inl e \<Rightarrow> (Inl e, w')
          | Inr body \<Rightarrow>
              let got = TrimSpace body; ip = ParseIP got in
              (case ip of
                 None \<Rightarrow> (Inl (ErrorNew (''response '' @ Quote got @ '' is not an IP'')), w')
               | Some i \<Rightarrow>
                   if \<not> family_matches (pr_family r) ip
                   then (Inl (ErrorNew (''response '' @ Quote got @ '' is not '' @ Family_String (pr_family r))), w')
                   else (Inr (IP_String i), w')))"

fun public_try :: "'w network \<Rightarrow> PublicResolver \<Rightarrow> string list \<Rightarrow> string list \<Rightarrow> 'w \<Rightarrow> (err + string) \<times> 'w" where
  "public_try net r [] errs w = (Inl (ErrorNew (''all public IP endpoints failed: '' @ Join errs ''; '')), w)"
| "public_try net r (ep # eps) errs w =
     (case public_query net r ep w of
        (Inl e, w') \<Rightarrow> public_try net r eps (errs @ [ep @ '': '' @ Error e]) w'
      | (Inr ip, w') \<Rightarrow> (Inr ip, w'))"

definition public_Resolve :: "'w network \<Rightarrow> PublicResolver \<Rightarrow> 'w \<Rightarrow> (err + string) \<times> 'w" where
  "public_Resolve net r w = public_try net r (pr_endpoints r) [] w"

definition public_Describe :: "PublicResolver \<Rightarrow> string" where
  "public_Describe r = ''public '' @ Family_String (pr_family r)"

subsection \<open>Interface address\<close>

fun addr_ip :: "net_addr \<Rightarrow> nat list option" where
  "addr_ip (IPNet ip) = Some ip"
| "addr_ip (IPAddr ip) = Some ip"
| "addr_ip OtherAddr = None"

fun pick_address :: "Family \<Rightarrow> net_addr list \<Rightarrow> string option" where
  "pick_address family [] = None"
| "pick_address family (addr # addrs) =
     (case addr_ip addr of
        None \<Rightarrow> pick_address family addrs
      | Some ip \<Rightarrow>
          if \<not> ip_is_global ip \<or> ip_is_link_local ip then pick_address family addrs
          else if family_matches family (Some ip) then Some (IP_String ip)
          else pick_address family addrs)"

definition interface_Resolve :: "'w network \<Rightarrow> InterfaceResolver \<Rightarrow> 'w \<Rightarrow> (err + string) \<times> 'w" where
  "interface_Resolve net r w =
     (case net_InterfaceAddrs net (ir_name r) w of
        (Inl e, w') \<Rightarrow> (Inl (Errorf (''interface '' @ Quote (ir_name r) @ '': '') e), w')
      | (Inr addrs, w') \<Rightarrow>
          (case pick_address (ir_family r) addrs of
             Some s \<Rightarrow> (Inr s, w')
           | None \<Rightarrow> (Inl (ErrorNew (''interface '' @ Quote (ir_name r) @ '' has no global '' @
               Family_String (ir_family r) @ '' address'')), w')))"

definition interface_Describe :: "InterfaceResolver \<Rightarrow> string" where
  "interface_Describe r = ''interface '' @ ir_name r @ '' ('' @ Family_String (ir_family r) @ '')''"

subsection \<open>The resolver interface\<close>

fun Resolve :: "'w network \<Rightarrow> target_resolver \<Rightarrow> 'w \<Rightarrow> (err + string) \<times> 'w" where
  "Resolve net (Public r) w = public_Resolve net r w"
| "Resolve net (Interface r) w = interface_Resolve net r w"

fun Describe :: "target_resolver \<Rightarrow> string" where
  "Describe (Public r) = public_Describe r"
| "Describe (Interface r) = interface_Describe r"

fun resolver_family :: "target_resolver \<Rightarrow> Family" where
  "resolver_family (Public r) = pr_family r"
| "resolver_family (Interface r) = ir_family r"

lemma target_Parse_family: "target_Parse mode family = Inr (Some r) \<Longrightarrow> resolver_family r = family"
  by (auto simp: target_Parse_def NewPublicResolver_def NewInterfaceResolver_def Let_def split: if_splits)

lemma target_Parse_nil: "target_Parse mode family = Inr None \<longleftrightarrow> TrimSpace mode = []"
  by (auto simp: target_Parse_def Let_def)

text \<open>Which modes are accepted does not depend on the family.\<close>

lemma target_Parse_family_irrelevant:
  "(\<exists>e. target_Parse mode f = Inl e) \<longleftrightarrow> (\<exists>e. target_Parse mode g = Inl e)"
  by (auto simp: target_Parse_def Let_def)

subsection \<open>A resolved target fits the record type\<close>

text \<open>What a validation of the record type asks of a literal target.\<close>

definition target_of_family :: "Family \<Rightarrow> string \<Rightarrow> bool" where
  "target_of_family f v \<longleftrightarrow> (if f = FamilyIPv6 then isIPv6Address v else isIPv4Address v)"

definition sane_addresses :: "'w network \<Rightarrow> bool" where
  "sane_addresses net \<longleftrightarrow> (\<forall>name w addrs w' a ip. net_InterfaceAddrs net name w = (Inr addrs, w') \<longrightarrow>
     a \<in> set addrs \<longrightarrow> addr_ip a = Some ip \<longrightarrow> ip_bytes ip)"

lemma printed_family: "ip_bytes ip \<Longrightarrow> family_matches f (Some ip) \<Longrightarrow> target_of_family f (IP_String ip)"
  by (auto simp: target_of_family_def isIPv4Address_def isIPv6Address_def ParseIP_IP_String family_matches_def)

lemma target_of_family_neq_Nil: "target_of_family f v \<Longrightarrow> v \<noteq> []"
  by (auto simp: target_of_family_def isIPv4Address_def isIPv6Address_def ParseIP_def split: if_splits)

lemma public_query_family: "public_query net r ep w = (Inr v, w') \<Longrightarrow> target_of_family (pr_family r) v"
  by (auto simp: public_query_def Let_def split: prod.splits sum.splits option.splits if_splits
      intro!: printed_family dest: ParseIP_bytes)

lemma public_try_family: "public_try net r eps errs w = (Inr v, w') \<Longrightarrow> target_of_family (pr_family r) v"
  by (induction eps arbitrary: errs w) (auto split: prod.splits sum.splits dest: public_query_family)

lemma pick_address_family:
  "pick_address f addrs = Some v \<Longrightarrow> (\<And>a ip. a \<in> set addrs \<Longrightarrow> addr_ip a = Some ip \<Longrightarrow> ip_bytes ip) \<Longrightarrow>
    target_of_family f v"
proof (induction addrs)
  case (Cons a addrs)
  then show ?case by (cases "addr_ip a") (auto split: if_splits intro: printed_family)
qed simp

lemma Resolve_family:
  assumes "Resolve net r w = (Inr v, w')" "sane_addresses net"
  shows "target_of_family (resolver_family r) v"
proof (cases r)
  case (Public p)
  then show ?thesis using assms public_try_family by (auto simp: public_Resolve_def)
next
  case (Interface i)
  then obtain addrs where "net_InterfaceAddrs net (ir_name i) w = (Inr addrs, w')" "pick_address (ir_family i) addrs = Some v"
    using assms(1) by (auto simp: interface_Resolve_def split: prod.splits sum.splits option.splits)
  moreover from this(1) have "ip_bytes ip" if "a \<in> set addrs" "addr_ip a = Some ip" for a ip
    using assms(2) that unfolding sane_addresses_def by blast
  ultimately show ?thesis using Interface pick_address_family by simp
qed

text \<open>The public resolver succeeds when one of its endpoints always answers.\<close>

lemma public_try_succeeds:
  "ep \<in> set eps \<Longrightarrow> (\<And>w. \<exists>v w'. public_query net r ep w = (Inr v, w')) \<Longrightarrow> \<exists>v w'. public_try net r eps errs w = (Inr v, w')"
proof (induction eps arbitrary: errs w)
  case (Cons e eps)
  then show ?case by (cases "public_query net r e w"; cases "fst (public_query net r e w)") (auto, metis Inl_Inr_False prod.inject)
qed simp

end
