(* ===== verification/InstanceConfig.thy ===== *)
theory InstanceConfig
  imports TargetResolver
begin

text \<open>
  \<^verbatim>\<open>internal/config\<close>, the part about provider instances: \<^verbatim>\<open>errors.go\<close>, \<^verbatim>\<open>secrets.go\<close>,
  \<^verbatim>\<open>instance.go\<close> and the instance checks of \<^verbatim>\<open>validate.go\<close>. The process environment and the files
  that hold secrets are arguments, and so is Go's regular expression engine. Log lines are left out.
\<close>

subsection \<open>Errors\<close>

record conf_error =
  ce_Field :: string
  ce_Message :: string
  ce_Help :: string
  ce_Example :: string

definition conf_error_Error :: "conf_error \<Rightarrow> string" where
  "conf_error_Error e =
     ce_Field e @ '': '' @ ce_Message e @
     (if ce_Help e \<noteq> [] then [newline] @ ''  '' @ ce_Help e else []) @
     (if ce_Example e \<noteq> [] then [newline] @ ''  Example: '' @ ce_Example e else [])"

definition configErr :: "string \<Rightarrow> string \<Rightarrow> conf_error" where
  "configErr field message = \<lparr>ce_Field = field, ce_Message = message, ce_Help = [], ce_Example = []\<rparr>"

definition configErrHelp :: "string \<Rightarrow> string \<Rightarrow> string \<Rightarrow> conf_error" where
  "configErrHelp field message help = \<lparr>ce_Field = field, ce_Message = message, ce_Help = help, ce_Example = []\<rparr>"

definition configErrFull :: "string \<Rightarrow> string \<Rightarrow> string \<Rightarrow> string \<Rightarrow> conf_error" where
  "configErrFull field message help example =
     \<lparr>ce_Field = field, ce_Message = message, ce_Help = help, ce_Example = example\<rparr>"

fun number_errors :: "nat \<Rightarrow> conf_error list \<Rightarrow> string" where
  "number_errors i [] = []"
| "number_errors i (e # es) = [newline] @ ''  '' @ Itoa (i + 1) @ '') '' @ conf_error_Error e @ number_errors (i + 1) es"

definition ValidationError_Error :: "conf_error list \<Rightarrow> string" where
  "ValidationError_Error errs =
     (if length errs = 1 then ''configuration error:'' @ [newline] @ ''  '' @ conf_error_Error (hd errs)
      else Itoa (length errs) @ '' configuration errors:'' @ number_errors 0 errs)"

subsection \<open>The environment\<close>

record environment =
  ev_Lookup :: "string \<Rightarrow> string option"        \<comment> \<open>\<^verbatim>\<open>os.LookupEnv\<close>\<close>
  ev_ReadFile :: "string \<Rightarrow> err + string"       \<comment> \<open>\<^verbatim>\<open>os.ReadFile\<close>\<close>

definition getEnv :: "environment \<Rightarrow> string \<Rightarrow> string" where
  "getEnv E key = (case ev_Lookup E key of None \<Rightarrow> [] | Some v \<Rightarrow> v)"

definition getEnvOrFile :: "environment \<Rightarrow> string \<Rightarrow> string \<Rightarrow> string" where
  "getEnvOrFile E directKey fileKey =
     (let filePath = getEnv E fileKey in
      if filePath \<noteq> [] then (case ev_ReadFile E filePath of Inr content \<Rightarrow> TrimSpace content | Inl _ \<Rightarrow> [])
      else getEnv E directKey)"

definition getEnvWithFileFallback :: "environment \<Rightarrow> string \<Rightarrow> string \<Rightarrow> string" where
  "getEnvWithFileFallback E pre key = getEnvOrFile E (pre @ key) (pre @ key @ ''_FILE'')"

definition conf_parseBool :: "string \<Rightarrow> bool \<Rightarrow> bool" where
  "conf_parseBool s0 defaultValue =
     (let s = ToLower (TrimSpace s0) in
      if s \<in> {''true'', ''1'', ''yes'', ''on''} then True
      else if s \<in> {''false'', ''0'', ''no'', ''off''} then False
      else defaultValue)"

definition splitCommaList :: "string \<Rightarrow> string list" where
  "splitCommaList s = filter (\<lambda>p. p \<noteq> []) (map TrimSpace (Split s (CHR '','')))"

definition normalizeInstanceName :: "string \<Rightarrow> string" where
  "normalizeInstanceName name = ReplaceAll1 (CHR ''-'') (CHR ''_'') (ToUpper name)"

definition envPrefix :: "string \<Rightarrow> string" where
  "envPrefix instanceName = ''DNSWEAVER_'' @ normalizeInstanceName instanceName @ ''_''"

definition splitPatterns :: "string \<Rightarrow> string list" where
  "splitPatterns s = filter (\<lambda>p. p \<noteq> []) (map TrimSpace (Split s (CHR '','')))"

definition parseInstances :: "environment \<Rightarrow> string list" where
  "parseInstances E =
     (let s = getEnv E ''DNSWEAVER_INSTANCES'';
          instancesStr = (if s = [] then getEnv E ''DNSWEAVER_PROVIDERS'' else s)
      in if instancesStr = [] then []
         else filter (\<lambda>p. p \<noteq> []) (map TrimSpace (Split instancesStr (CHR '',''))))"

lemma parseInstances_neq_Nil: "n \<in> set (parseInstances E) \<Longrightarrow> n \<noteq> []"
  by (auto simp: parseInstances_def Let_def split: if_splits)

lemma getEnvOrFile_file [simp]:
  "getEnv E fileKey = f \<Longrightarrow> f \<noteq> [] \<Longrightarrow> getEnvOrFile E d fileKey = (case ev_ReadFile E f of Inr c \<Rightarrow> TrimSpace c | Inl _ \<Rightarrow> [])"
  "getEnv E fileKey = [] \<Longrightarrow> getEnvOrFile E d fileKey = getEnv E d"
  by (simp_all add: getEnvOrFile_def)

subsection \<open>An instance\<close>

record conf_instance =
  ic_Name :: string
  ic_TypeName :: string
  ic_RecordType :: RecordType
  ic_Target :: string
  ic_TargetMode :: string
  ic_TargetRefreshInterval :: int
  ic_TargetPublicEndpoints :: "string list"
  ic_TTL :: int
  ic_Mode :: OperationalMode
  ic_Domains :: "string list"
  ic_DomainsRegex :: "string list"
  ic_ExcludeDomains :: "string list"
  ic_ExcludeDomainsRegex :: "string list"
  ic_MetadataFilters :: "(string, string list) gomap"
  ic_ProviderConfig :: "(string, string) gomap"

definition ToProviderConfig :: "conf_instance \<Rightarrow> ProviderInstanceConfig" where
  "ToProviderConfig c =
     \<lparr>cfg_Name = ic_Name c, cfg_TypeName = ic_TypeName c, cfg_RecordType = ic_RecordType c, cfg_Target = ic_Target c,
      cfg_TTL = ic_TTL c, cfg_Mode = ic_Mode c, cfg_Domains = ic_Domains c, cfg_ExcludeDomains = ic_ExcludeDomains c,
      cfg_DomainsRegex = ic_DomainsRegex c, cfg_ExcludeDomainsRegex = ic_ExcludeDomainsRegex c,
      cfg_MetadataFilters = ic_MetadataFilters c, cfg_ProviderConfig = ic_ProviderConfig c\<rparr>"

definition providerConfigFields :: "(string \<times> bool) list" where
  "providerConfigFields =
     [(''URL'', False), (''TOKEN'', True), (''ZONE'', False), (''ZONE_ID'', False), (''API_KEY'', True), (''API_EMAIL'', False),
      (''PROXIED'', False), (''AUTH_HEADER'', False), (''AUTH_TOKEN'', True), (''TIMEOUT'', False), (''RETRIES'', False),
      (''RETRY_DELAY'', False), (''HOST_FILE'', False), (''BACKUP'', False), (''INCLUDE_MARKER'', False),
      (''RELOAD_COMMAND'', False), (''ACCESS_MODE'', False), (''USERNAME'', False), (''PASSWORD'', True), (''API_SECRET'', True),
      (''ENGINE'', False), (''RECONFIGURE_MODE'', False), (''INSECURE_SKIP_VERIFY'', False), (''TLS_CA_FILE'', False),
      (''TLS_CERT_FILE'', False), (''TLS_KEY_FILE'', False), (''TLS_SERVER_NAME'', False), (''TLS_SKIP_VERIFY'', False),
      (''TLS_MIN_VERSION'', False), (''AUTO_HTTPS_RECORDS'', False), (''AUTO_HTTPS_ALPN'', False), (''SERVER'', False),
      (''TSIG_KEY_NAME'', False), (''TSIG_SECRET'', True), (''TSIG_ALGORITHM'', False), (''USE_TCP'', False),
      (''APPLICATION_KEY'', True), (''APPLICATION_SECRET'', True), (''CONSUMER_KEY'', True), (''ENDPOINT'', False),
      (''SERVER_ID'', False)]"

text \<open>The value of one field: a secret may come from a file.\<close>

definition field_value :: "environment \<Rightarrow> string \<Rightarrow> string \<times> bool \<Rightarrow> string" where
  "field_value E pre f = (if snd f then getEnvWithFileFallback E pre (fst f) else getEnv E (pre @ fst f))"

fun load_fields :: "environment \<Rightarrow> string \<Rightarrow> (string \<times> bool) list \<Rightarrow> (string, string) gomap \<Rightarrow> (string, string) gomap" where
  "load_fields E pre [] m = m"
| "load_fields E pre (f # fs) m =
     (let v = field_value E pre f in load_fields E pre fs (if v \<noteq> [] then AList.update (fst f) v m else m))"

definition resolveLegacyTLSSkipVerify :: "(string, string) gomap \<Rightarrow> (string, string) gomap" where
  "resolveLegacyTLSSkipVerify m =
     (case map_of m ''INSECURE_SKIP_VERIFY'' of
        None \<Rightarrow> m
      | Some legacyVal \<Rightarrow>
          if has_key m ''TLS_SKIP_VERIFY'' then AList.delete ''INSECURE_SKIP_VERIFY'' m
          else AList.delete ''INSECURE_SKIP_VERIFY'' (AList.update ''TLS_SKIP_VERIFY'' legacyVal m))"

subsection \<open>Loading an instance from the environment\<close>

text \<open>Each piece gives the setting and the errors it adds, in the order of the code.\<close>

definition load_type :: "environment \<Rightarrow> string \<Rightarrow> string \<Rightarrow> string \<times> conf_error list" where
  "load_type E pre instanceName =
     (let t = ToLower (getEnv E (pre @ ''TYPE'')) in
      (t, if t = [] then [configErrFull (pre @ ''TYPE'') ''required but not set''
            (''Provider '' @ Quote instanceName @ '' needs a type (e.g., technitium, cloudflare, pihole)'') (pre @ ''TYPE=technitium'')]
          else []))"

definition load_record_type :: "environment \<Rightarrow> string \<Rightarrow> RecordType \<times> conf_error list" where
  "load_record_type E pre =
     (let recordTypeStr = ToUpper (getEnv E (pre @ ''RECORD_TYPE'')) in
      if recordTypeStr = [] \<or> recordTypeStr = ''A'' then (RecordTypeA, [])
      else if recordTypeStr = ''AAAA'' then (RecordTypeAAAA, [])
      else if recordTypeStr = ''CNAME'' then (RecordTypeCNAME, [])
      else ([], [configErrFull (pre @ ''RECORD_TYPE'') (''invalid value '' @ Quote recordTypeStr)
              ''Must be one of: A, AAAA, CNAME'' (pre @ ''RECORD_TYPE=A'')]))"

definition load_target :: "environment \<Rightarrow> string \<Rightarrow> string \<Rightarrow> string \<Rightarrow> string \<times> conf_error list" where
  "load_target E pre instanceName targetMode =
     (let t = getEnv E (pre @ ''TARGET'') in
      (t, if t = [] \<and> targetMode = [] then [configErrFull (pre @ ''TARGET'') ''required but not set''
            (''Provider '' @ Quote instanceName @ '' needs a target IP or hostname for DNS records (or set '' @ pre @
              ''TARGET_MODE for dynamic resolution)'') (pre @ ''TARGET=10.0.0.1'')]
          else []))"

definition one_second :: int where "one_second = 1000000000"

definition load_refresh_interval :: "environment \<Rightarrow> string \<Rightarrow> int \<times> conf_error list" where
  "load_refresh_interval E pre =
     (let refreshStr = getEnv E (pre @ ''TARGET_REFRESH_INTERVAL'') in
      if refreshStr = [] then (0, [])
      else case ParseDuration refreshStr of
        Inl _ \<Rightarrow> (0, [configErrFull (pre @ ''TARGET_REFRESH_INTERVAL'') (''invalid duration '' @ Quote refreshStr)
          ''Use a Go duration such as 5m, 30s, or 1h'' (pre @ ''TARGET_REFRESH_INTERVAL=5m'')])
      | Inr d \<Rightarrow>
          if d < one_second then (0, [configErrFull (pre @ ''TARGET_REFRESH_INTERVAL'') ''must be at least 1s''
            ''Refreshing more than once per second is not useful'' (pre @ ''TARGET_REFRESH_INTERVAL=5m'')])
          else (d, []))"

definition load_endpoints :: "environment \<Rightarrow> string \<Rightarrow> string list" where
  "load_endpoints E pre =
     (let eps = getEnv E (pre @ ''TARGET_PUBLIC_ENDPOINTS'') in if eps \<noteq> [] then splitPatterns eps else [])"

definition load_ttl :: "environment \<Rightarrow> string \<Rightarrow> int \<Rightarrow> int \<times> conf_error list" where
  "load_ttl E pre defaultTTL =
     (let ttlStr = getEnv E (pre @ ''TTL'') in
      if ttlStr = [] then (defaultTTL, [])
      else case Atoi ttlStr of
        Inl _ \<Rightarrow> (0, [configErrFull (pre @ ''TTL'') (''invalid integer '' @ Quote ttlStr)
          ''Must be a positive integer (seconds)'' (pre @ ''TTL=300'')])
      | Inr ttl \<Rightarrow>
          if ttl < 1 then (0, [configErrFull (pre @ ''TTL'') ''must be at least 1''
            ''TTL is in seconds; typical values are 60-3600'' (pre @ ''TTL=300'')])
          else (ttl, []))"

definition load_mode :: "environment \<Rightarrow> string \<Rightarrow> OperationalMode \<times> conf_error list" where
  "load_mode E pre =
     (let modeStr = getEnv E (pre @ ''MODE'') in
      if modeStr = [] then (ModeManaged, [])
      else case ParseOperationalMode modeStr of
        Inl e \<Rightarrow> ([], [configErrFull (pre @ ''MODE'') (Error e)
          ''Must be one of: managed, authoritative, additive'' (pre @ ''MODE=managed'')])
      | Inr mode \<Rightarrow> (mode, []))"

definition load_domains :: "environment \<Rightarrow> string \<Rightarrow> string \<Rightarrow> (string list \<times> string list) \<times> conf_error list" where
  "load_domains E pre instanceName =
     (let domainsStr = getEnv E (pre @ ''DOMAINS''); domainsRegexStr = getEnv E (pre @ ''DOMAINS_REGEX'') in
      if domainsStr \<noteq> [] \<and> domainsRegexStr \<noteq> [] then
        (([], []), [configErrHelp (butlast pre) ''cannot set both DOMAINS and DOMAINS_REGEX''
          ''Use either glob patterns (DOMAINS) or regex patterns (DOMAINS_REGEX), not both''])
      else if domainsStr = [] \<and> domainsRegexStr = [] then
        (([], []), [configErrFull (pre @ ''DOMAINS'') ''required but not set''
          (''Provider '' @ Quote instanceName @ '' needs at least one domain pattern to match'') (pre @ ''DOMAINS=*.example.com'')])
      else if domainsStr \<noteq> [] then ((splitPatterns domainsStr, []), [])
      else (([], splitPatterns domainsRegexStr), []))"

definition load_excludes :: "environment \<Rightarrow> string \<Rightarrow> (string list \<times> string list) \<times> conf_error list" where
  "load_excludes E pre =
     (let excludeDomainsStr = getEnv E (pre @ ''EXCLUDE_DOMAINS'');
          excludeDomainsRegexStr = getEnv E (pre @ ''EXCLUDE_DOMAINS_REGEX'') in
      if excludeDomainsStr \<noteq> [] \<and> excludeDomainsRegexStr \<noteq> [] then
        (([], []), [configErrHelp (butlast pre) ''cannot set both EXCLUDE_DOMAINS and EXCLUDE_DOMAINS_REGEX''
          ''Use either glob patterns or regex patterns for exclusions, not both''])
      else if excludeDomainsStr \<noteq> [] then ((splitPatterns excludeDomainsStr, []), [])
      else if excludeDomainsRegexStr \<noteq> [] then (([], splitPatterns excludeDomainsRegexStr), [])
      else (([], []), []))"

definition load_filters :: "environment \<Rightarrow> string \<Rightarrow> (string, string list) gomap" where
  "load_filters E pre =
     (let entrypointsStr = getEnv E (pre @ ''ENTRYPOINTS'') in
      if entrypointsStr = [] then []
      else let eps = splitPatterns entrypointsStr in if eps \<noteq> [] then [(''traefik.entrypoint'', eps)] else [])"

definition loadInstanceConfig :: "environment \<Rightarrow> string \<Rightarrow> int \<Rightarrow> conf_instance \<times> conf_error list" where
  "loadInstanceConfig E instanceName defaultTTL =
     (let pre = envPrefix instanceName;
          (typeName, e1) = load_type E pre instanceName;
          (recordType, e2) = load_record_type E pre;
          targetMode = TrimSpace (getEnv E (pre @ ''TARGET_MODE''));
          (target, e3) = load_target E pre instanceName targetMode;
          (refresh, e4) = load_refresh_interval E pre;
          (ttl, e5) = load_ttl E pre defaultTTL;
          (mode, e6) = load_mode E pre;
          ((domains, domainsRegex), e7) = load_domains E pre instanceName;
          ((excludes, excludesRegex), e8) = load_excludes E pre
      in (\<lparr>ic_Name = instanceName, ic_TypeName = typeName, ic_RecordType = recordType, ic_Target = target,
            ic_TargetMode = targetMode, ic_TargetRefreshInterval = refresh, ic_TargetPublicEndpoints = load_endpoints E pre,
            ic_TTL = ttl, ic_Mode = mode, ic_Domains = domains, ic_DomainsRegex = domainsRegex,
            ic_ExcludeDomains = excludes, ic_ExcludeDomainsRegex = excludesRegex, ic_MetadataFilters = load_filters E pre,
            ic_ProviderConfig = resolveLegacyTLSSkipVerify (load_fields E pre providerConfigFields [])\<rparr>,
          e1 @ e2 @ e3 @ e4 @ e5 @ e6 @ e7 @ e8))"

subsection \<open>Overrides of an instance from a file\<close>

definition override_target :: "environment \<Rightarrow> string \<Rightarrow> conf_instance \<Rightarrow> conf_instance" where
  "override_target E pre c = (let target = getEnv E (pre @ ''TARGET'') in if target \<noteq> [] then c\<lparr>ic_Target := target\<rparr> else c)"

definition override_ttl :: "environment \<Rightarrow> string \<Rightarrow> conf_instance \<Rightarrow> conf_instance" where
  "override_ttl E pre c =
     (let ttlStr = getEnv E (pre @ ''TTL'') in
      if ttlStr = [] then c
      else case Atoi ttlStr of Inr ttl \<Rightarrow> if ttl \<ge> 1 then c\<lparr>ic_TTL := ttl\<rparr> else c | Inl _ \<Rightarrow> c)"

definition override_mode :: "environment \<Rightarrow> string \<Rightarrow> conf_instance \<Rightarrow> conf_instance" where
  "override_mode E pre c =
     (let modeStr = getEnv E (pre @ ''MODE'') in
      if modeStr = [] then c
      else case ParseOperationalMode modeStr of Inr mode \<Rightarrow> c\<lparr>ic_Mode := mode\<rparr> | Inl _ \<Rightarrow> c)"

definition mergeProviderEnvOverrides :: "environment \<Rightarrow> conf_instance \<Rightarrow> conf_instance" where
  "mergeProviderEnvOverrides E cfg =
     (let pre = envPrefix (ic_Name cfg);
          c1 = cfg\<lparr>ic_ProviderConfig := load_fields E pre providerConfigFields (ic_ProviderConfig cfg)\<rparr>;
          c2 = override_mode E pre (override_ttl E pre (override_target E pre c1))
      in c2\<lparr>ic_ProviderConfig := resolveLegacyTLSSkipVerify (ic_ProviderConfig c2)\<rparr>)"

subsection \<open>Validation of an instance\<close>

definition validateTargetRecordType :: "conf_instance \<Rightarrow> conf_error list" where
  "validateTargetRecordType inst =
     (let pre = envPrefix (ic_Name inst); field = pre @ ''TARGET''; mode = ic_TargetMode inst; target = ic_Target inst;
          mode_errs =
            (if mode = [] then []
             else (case target_Parse mode FamilyIPv4 of
                     Inl e \<Rightarrow> [configErrFull (pre @ ''TARGET_MODE'') (Error e)
                       ''Use 'public' or 'interface:<name>' (e.g. interface:eth0)'' (pre @ ''TARGET_MODE=public'')]
                   | Inr _ \<Rightarrow> []) @
                  (if ic_RecordType inst = RecordTypeCNAME then
                     [configErrFull (pre @ ''TARGET_MODE'') (''TARGET_MODE '' @ Quote mode @ '' cannot be used with CNAME records'')
                       ''Dynamic target modes resolve IP addresses; use an A or AAAA record type'' (pre @ ''RECORD_TYPE=A'')]
                   else []))
      in if mode \<noteq> [] \<and> target = [] then mode_errs
         else mode_errs @
           (if ic_RecordType inst = RecordTypeA then
              (case ParseIP target of
                 None \<Rightarrow> [configErrFull field (''A records must point to an IP address, got '' @ Quote target)
                   ''Set TARGET to a valid IPv4 address for A records'' (pre @ ''TARGET=10.0.0.1'')]
               | Some ip \<Rightarrow>
                   if To4 ip = None then [configErrFull field (''A records must point to an IPv4 address, got IPv6 '' @ Quote target)
                     ''Use AAAA record type for IPv6 addresses'' (pre @ ''RECORD_TYPE=AAAA'')]
                   else [])
            else if ic_RecordType inst = RecordTypeAAAA then
              (let ip = ParseIP target in
               if ip = None \<or> To4 (the ip) \<noteq> None then
                 [configErrFull field (''AAAA records must point to an IPv6 address, got '' @ Quote target)
                   ''Set TARGET to a valid IPv6 address for AAAA records'' (pre @ ''TARGET=2001:db8::1'')]
               else [])
            else if ic_RecordType inst = RecordTypeCNAME then
              (if ParseIP target \<noteq> None then
                 [configErrFull field (''CNAME records cannot point to IP addresses, got '' @ Quote target)
                   ''Use a hostname for CNAME targets, or change to an A/AAAA record type'' (pre @ ''TARGET=host.example.com'')]
               else [])
            else []))"

definition validateGlobPattern :: "string \<Rightarrow> err option" where
  "validateGlobPattern pattern =
     (if pattern = [] then Some (ErrorNew ''empty pattern'')
      else if Contains pattern ''*.*'' then
        Some (ErrorNew ''double wildcard (*.*..) is not supported; use a single * per label'')
      else case filter (\<lambda>label. Contains label ''*'' \<and> label \<noteq> ''*'' \<and> \<not> HasPrefix label ''*'') (Split pattern (CHR ''.'')) of
        [] \<Rightarrow> None
      | label # _ \<Rightarrow> Some (ErrorNew (''wildcard must be at the start of a label, got '' @ Quote label)))"

abbreviation backslash :: char where "backslash \<equiv> CHR 0x5C"

definition pattern_errors :: "(string \<Rightarrow> err option) \<Rightarrow> (string \<Rightarrow> err \<Rightarrow> conf_error) \<Rightarrow> string list \<Rightarrow> conf_error list" where
  "pattern_errors check report patterns =
     concat (map (\<lambda>p. case check p of None \<Rightarrow> [] | Some e \<Rightarrow> [report p e]) patterns)"

definition compile_error :: "engine \<Rightarrow> string \<Rightarrow> err option" where
  "compile_error rx p = (case rx p of Inl e \<Rightarrow> Some e | Inr _ \<Rightarrow> None)"

definition validateDomainPatterns :: "engine \<Rightarrow> conf_instance \<Rightarrow> conf_error list" where
  "validateDomainPatterns rx inst =
     (let pre = envPrefix (ic_Name inst) in
      pattern_errors validateGlobPattern
        (\<lambda>p e. configErrFull (pre @ ''DOMAINS'') (''invalid domain pattern '' @ Quote p @ '': '' @ Error e)
          ''Domain patterns use glob syntax: * matches any characters within a label''
          (pre @ ''DOMAINS=*.example.com,internal.example.com''))
        (ic_Domains inst) @
      pattern_errors validateGlobPattern
        (\<lambda>p e. configErrFull (pre @ ''EXCLUDE_DOMAINS'') (''invalid exclude pattern '' @ Quote p @ '': '' @ Error e)
          ''Exclude patterns use the same glob syntax as DOMAINS'' (pre @ ''EXCLUDE_DOMAINS=test.*.example.com''))
        (ic_ExcludeDomains inst) @
      pattern_errors (compile_error rx)
        (\<lambda>p e. configErrFull (pre @ ''DOMAINS_REGEX'') (''invalid regex pattern '' @ Quote p @ '': '' @ Error e)
          ''Regex patterns must be valid Go regular expressions'' (pre @ ''DOMAINS_REGEX=^.*'' @ [backslash] @ ''.example'' @ [backslash] @ ''.com$''))
        (ic_DomainsRegex inst) @
      pattern_errors (compile_error rx)
        (\<lambda>p e. configErrFull (pre @ ''EXCLUDE_DOMAINS_REGEX'') (''invalid exclude regex '' @ Quote p @ '': '' @ Error e)
          ''Regex patterns must be valid Go regular expressions'' (pre @ ''EXCLUDE_DOMAINS_REGEX=^test'' @ [backslash] @ ''..*$''))
        (ic_ExcludeDomainsRegex inst))"

definition validateProviderType :: "string \<Rightarrow> string list \<Rightarrow> err option" where
  "validateProviderType typeName knownTypes =
     (if typeName \<in> set knownTypes then None
      else Some (ErrorNew (''unknown provider type: '' @ Quote typeName @ '' (known types: '' @ Join knownTypes '', '' @ '')'')))"

lemma pattern_errors_Nil: "pattern_errors check report ps = [] \<longleftrightarrow> (\<forall>p \<in> set ps. check p = None)"
  by (auto simp: pattern_errors_def split: option.splits)

text \<open>What the validation of the target asks.\<close>

lemma validateTargetRecordType_Nil:
  assumes "ic_RecordType c \<in> {RecordTypeA, RecordTypeAAAA, RecordTypeCNAME}"
  shows "validateTargetRecordType c = [] \<longleftrightarrow>
    (ic_TargetMode c \<noteq> [] \<longrightarrow> (\<exists>r. target_Parse (ic_TargetMode c) FamilyIPv4 = Inr r) \<and> ic_RecordType c \<noteq> RecordTypeCNAME) \<and>
    (ic_TargetMode c \<noteq> [] \<and> ic_Target c = [] \<or>
     ic_RecordType c = RecordTypeA \<and> isIPv4Address (ic_Target c) \<or>
     ic_RecordType c = RecordTypeAAAA \<and> isIPv6Address (ic_Target c) \<or>
     ic_RecordType c = RecordTypeCNAME \<and> \<not> isIPAddress (ic_Target c))"
  using assms
  by (auto simp: validateTargetRecordType_def Let_def RecordType_defs isIPv4Address_def isIPv6Address_def isIPAddress_def
      split: sum.splits option.splits)

subsection \<open>The two validations compared\<close>

lemma loadInstanceConfig_wf:
  assumes "loadInstanceConfig E name defaultTTL = (c, [])" and "1 \<le> defaultTTL"
  shows "ic_Name c = name" "ic_TypeName c \<noteq> []" "1 \<le> ic_TTL c"
    "ic_RecordType c \<in> {RecordTypeA, RecordTypeAAAA, RecordTypeCNAME}"
    "ic_Domains c = [] \<or> ic_DomainsRegex c = []" "ic_Target c = [] \<Longrightarrow> ic_TargetMode c \<noteq> []"
    "ic_Mode c \<in> {ModeManaged, ModeAuthoritative, ModeAdditive}"
proof -
  let ?pre = "envPrefix name"
  have c: "ic_Name c = name" "load_type E ?pre name = (ic_TypeName c, [])" "load_record_type E ?pre = (ic_RecordType c, [])"
    "load_target E ?pre name (ic_TargetMode c) = (ic_Target c, [])" "load_ttl E ?pre defaultTTL = (ic_TTL c, [])"
    "load_mode E ?pre = (ic_Mode c, [])" "load_domains E ?pre name = ((ic_Domains c, ic_DomainsRegex c), [])"
    using assms(1) by (auto simp: loadInstanceConfig_def Let_def split: prod.splits)
  show "ic_Name c = name" by (rule c)
  show "ic_TypeName c \<noteq> []" using c(2) by (auto simp: load_type_def Let_def split: if_splits)
  show "1 \<le> ic_TTL c" using c(5) assms(2) by (auto simp: load_ttl_def Let_def split: if_splits sum.splits)
  show "ic_RecordType c \<in> {RecordTypeA, RecordTypeAAAA, RecordTypeCNAME}"
    using c(3) by (auto simp: load_record_type_def Let_def split: if_splits)
  show "ic_Domains c = [] \<or> ic_DomainsRegex c = []" using c(7) by (auto simp: load_domains_def Let_def split: if_splits)
  show "ic_Target c = [] \<Longrightarrow> ic_TargetMode c \<noteq> []" using c(4) by (auto simp: load_target_def Let_def split: if_splits)
  show "ic_Mode c \<in> {ModeManaged, ModeAuthoritative, ModeAdditive}"
    using c(6) by (auto simp: load_mode_def ParseOperationalMode_def Let_def split: if_splits sum.splits)
qed

text \<open>
  \<^verbatim>\<open>DOMAINS\<close> with \<^verbatim>\<open>EXCLUDE_DOMAINS_REGEX\<close> is accepted, but the exclusions are read only together with
  regular expression includes: they have no effect.
\<close>

lemma regex_excludes_dropped: "ic_DomainsRegex c = [] \<Longrightarrow> GetExcludes (ToProviderConfig c) = ic_ExcludeDomains c"
  by (simp add: GetExcludes_def cfg_UseRegex_def ToProviderConfig_def)

end
