(* ===== verification/DnsUpdate.thy ===== *)
theory DnsUpdate
  imports InstanceConfig
begin

text \<open>
  \<^verbatim>\<open>pkg/dnsupdate\<close>: \<^verbatim>\<open>record.go\<close>, \<^verbatim>\<open>config.go\<close>, \<^verbatim>\<open>tsig.go\<close> and \<^verbatim>\<open>client.go\<close>, the RFC 2136 client. The package
  \<^verbatim>\<open>github.com/miekg/dns\<close> is third-party code: its name tables are the argument \<open>dns_library\<close>, and sending a
  message to the server and receiving the response is the argument \<open>exchange\<close> over a world. A message is the data
  that the code puts into it: a question, or the operations of an update with its signature. Cancellation of the
  context, which makes an exchange fail, the time of the last update and log lines are left out.
\<close>

subsection \<open>Resource records\<close>

record dns_library =
  dl_TypeToString :: "uint16 \<Rightarrow> string option"
  dl_StringToType :: "string \<Rightarrow> uint16 option"
  dl_RcodeToString :: "nat \<Rightarrow> string"

definition TypeA :: uint16 where "TypeA = 1"
definition TypeNS :: uint16 where "TypeNS = 2"
definition TypeCNAME :: uint16 where "TypeCNAME = 5"
definition TypeSOA :: uint16 where "TypeSOA = 6"
definition TypePTR :: uint16 where "TypePTR = 12"
definition TypeMX :: uint16 where "TypeMX = 15"
definition TypeTXT :: uint16 where "TypeTXT = 16"
definition TypeAAAA :: uint16 where "TypeAAAA = 28"
definition TypeSRV :: uint16 where "TypeSRV = 33"
definition TypeCAA :: uint16 where "TypeCAA = 257"

lemmas dns_types = TypeA_def TypeNS_def TypeCNAME_def TypeSOA_def TypePTR_def TypeMX_def TypeTXT_def TypeAAAA_def
  TypeSRV_def TypeCAA_def

record du_Record =
  du_Name :: string
  du_Type :: uint16
  du_TTL :: "32 word"
  du_RData :: string
  du_Priority :: uint16
  du_Weight :: uint16
  du_Port :: uint16

text \<open>The typed data of a \<^verbatim>\<open>dns.RR\<close>; an IPv4 address has four bytes.\<close>

datatype rr_data =
    RR_A "nat list" | RR_AAAA "nat list" | RR_CNAME string | RR_TXT "string list" | RR_MX uint16 string
  | RR_SRV uint16 uint16 uint16 string | RR_PTR string | RR_NS string | RR_CAA "8 word" string string | RR_Other

record RR =
  rr_Name :: string
  rr_Rrtype :: uint16
  rr_Ttl :: "32 word"
  rr_Data :: rr_data

definition TypeString :: "dns_library \<Rightarrow> uint16 \<Rightarrow> string" where
  "TypeString D t = (case dl_TypeToString D t of Some name \<Rightarrow> name | None \<Rightarrow> ''TYPE'' @ Itoa (unat t))"

text \<open>A name with its final dot.\<close>

definition dotted :: "string \<Rightarrow> string" where
  "dotted s = (if HasSuffix s ''.'' then s else s @ ''.'')"

definition caa_data :: "string \<Rightarrow> err + rr_data" where
  "caa_data rdata =
     (case SplitN3 rdata (CHR '' '') of
        [a, b, c] \<Rightarrow>
          (case ParseUint8 a of
             Inl e \<Rightarrow> Inl (Errorf ''invalid CAA flag: '' e)
           | Inr flag \<Rightarrow> Inr (RR_CAA flag b c))
      | _ \<Rightarrow> Inl (ErrorNew (''invalid CAA format: expected 'flag tag value', got: '' @ rdata)))"

definition rr_data_of :: "dns_library \<Rightarrow> du_Record \<Rightarrow> err + rr_data" where
  "rr_data_of D r =
     (if du_Type r = TypeA then
        (case ParseIP (du_RData r) of
           None \<Rightarrow> Inl (ErrorNew (''invalid IPv4 address: '' @ du_RData r))
         | Some ip \<Rightarrow> (case To4 ip of None \<Rightarrow> Inl (ErrorNew (''invalid IPv4 address: '' @ du_RData r)) | Some b \<Rightarrow> Inr (RR_A b)))
      else if du_Type r = TypeAAAA then
        (case ParseIP (du_RData r) of
           None \<Rightarrow> Inl (ErrorNew (''invalid IPv6 address: '' @ du_RData r))
         | Some ip \<Rightarrow> if To4 ip \<noteq> None then Inl (ErrorNew (''invalid IPv6 address: '' @ du_RData r)) else Inr (RR_AAAA ip))
      else if du_Type r = TypeCNAME then Inr (RR_CNAME (dotted (du_RData r)))
      else if du_Type r = TypeTXT then Inr (RR_TXT [du_RData r])
      else if du_Type r = TypeMX then Inr (RR_MX (du_Priority r) (dotted (du_RData r)))
      else if du_Type r = TypeSRV then Inr (RR_SRV (du_Priority r) (du_Weight r) (du_Port r) (dotted (du_RData r)))
      else if du_Type r = TypePTR then Inr (RR_PTR (dotted (du_RData r)))
      else if du_Type r = TypeNS then Inr (RR_NS (dotted (du_RData r)))
      else if du_Type r = TypeCAA then caa_data (du_RData r)
      else Inl (ErrorNew (''unsupported record type: '' @ TypeString D (du_Type r))))"

definition ToRR :: "dns_library \<Rightarrow> du_Record \<Rightarrow> err + RR" where
  "ToRR D r =
     (case rr_data_of D r of
        Inl e \<Rightarrow> Inl e
      | Inr d \<Rightarrow> Inr \<lparr>rr_Name = dotted (du_Name r), rr_Rrtype = du_Type r, rr_Ttl = du_TTL r, rr_Data = d\<rparr>)"

definition RecordFromRR :: "dns_library \<Rightarrow> RR \<Rightarrow> err + du_Record" where
  "RecordFromRR D rr =
     (let r = \<lparr>du_Name = rr_Name rr, du_Type = rr_Rrtype rr, du_TTL = rr_Ttl rr, du_RData = [], du_Priority = 0,
               du_Weight = 0, du_Port = 0\<rparr>
      in case rr_Data rr of
           RR_A ip \<Rightarrow> Inr (r\<lparr>du_RData := IP_String (v4_mapped_prefix @ ip)\<rparr>)
         | RR_AAAA ip \<Rightarrow> Inr (r\<lparr>du_RData := IP_String ip\<rparr>)
         | RR_CNAME target \<Rightarrow> Inr (r\<lparr>du_RData := target\<rparr>)
         | RR_TXT txt \<Rightarrow> Inr (r\<lparr>du_RData := Join txt '' ''\<rparr>)
         | RR_MX pref mx \<Rightarrow> Inr (r\<lparr>du_RData := mx, du_Priority := pref\<rparr>)
         | RR_SRV p w port target \<Rightarrow> Inr (r\<lparr>du_RData := target, du_Priority := p, du_Weight := w, du_Port := port\<rparr>)
         | RR_PTR ptr \<Rightarrow> Inr (r\<lparr>du_RData := ptr\<rparr>)
         | RR_NS ns \<Rightarrow> Inr (r\<lparr>du_RData := ns\<rparr>)
         | RR_CAA flag tag v \<Rightarrow> Inr (r\<lparr>du_RData := Itoa (unat flag) @ '' '' @ tag @ '' '' @ v\<rparr>)
         | RR_Other \<Rightarrow> Inl (ErrorNew (''unsupported record type: '' @
             (case dl_TypeToString D (rr_Rrtype rr) of Some n \<Rightarrow> n | None \<Rightarrow> []))))"

definition du_record :: "string \<Rightarrow> uint16 \<Rightarrow> 32 word \<Rightarrow> string \<Rightarrow> du_Record" where
  "du_record name t ttl rdata = \<lparr>du_Name = name, du_Type = t, du_TTL = ttl, du_RData = rdata, du_Priority = 0,
     du_Weight = 0, du_Port = 0\<rparr>"

definition NewARecord :: "string \<Rightarrow> string \<Rightarrow> 32 word \<Rightarrow> du_Record" where
  "NewARecord name ip ttl = du_record name TypeA ttl ip"
definition NewAAAARecord :: "string \<Rightarrow> string \<Rightarrow> 32 word \<Rightarrow> du_Record" where
  "NewAAAARecord name ip ttl = du_record name TypeAAAA ttl ip"
definition NewCNAMERecord :: "string \<Rightarrow> string \<Rightarrow> 32 word \<Rightarrow> du_Record" where
  "NewCNAMERecord name target ttl = du_record name TypeCNAME ttl target"
definition NewTXTRecord :: "string \<Rightarrow> string \<Rightarrow> 32 word \<Rightarrow> du_Record" where
  "NewTXTRecord name txt ttl = du_record name TypeTXT ttl txt"
definition NewMXRecord :: "string \<Rightarrow> string \<Rightarrow> uint16 \<Rightarrow> 32 word \<Rightarrow> du_Record" where
  "NewMXRecord name mailserver priority ttl = (du_record name TypeMX ttl mailserver)\<lparr>du_Priority := priority\<rparr>"
definition NewSRVRecord :: "string \<Rightarrow> string \<Rightarrow> uint16 \<Rightarrow> uint16 \<Rightarrow> uint16 \<Rightarrow> 32 word \<Rightarrow> du_Record" where
  "NewSRVRecord name target priority weight port ttl =
     (du_record name TypeSRV ttl target)\<lparr>du_Priority := priority, du_Weight := weight, du_Port := port\<rparr>"
definition NewPTRRecord :: "string \<Rightarrow> string \<Rightarrow> 32 word \<Rightarrow> du_Record" where
  "NewPTRRecord name target ttl = du_record name TypePTR ttl target"
definition NewNSRecord :: "string \<Rightarrow> string \<Rightarrow> 32 word \<Rightarrow> du_Record" where
  "NewNSRecord name nameserver ttl = du_record name TypeNS ttl nameserver"

definition StringToType :: "dns_library \<Rightarrow> string \<Rightarrow> err + uint16" where
  "StringToType D s0 =
     (let s = ToUpper (TrimSpace s0) in
      case dl_StringToType D s of Some t \<Rightarrow> Inr t | None \<Rightarrow> Inl (ErrorNew (''unknown record type: '' @ s)))"

definition SupportedTypes :: "uint16 list" where
  "SupportedTypes = [TypeA, TypeAAAA, TypeCNAME, TypeTXT, TypeMX, TypeSRV, TypePTR, TypeNS, TypeCAA]"

definition SupportedTypeStrings :: "dns_library \<Rightarrow> string list" where
  "SupportedTypeStrings D = map (\<lambda>t. case dl_TypeToString D t of Some n \<Rightarrow> n | None \<Rightarrow> []) SupportedTypes"

definition IsTypeSupported :: "uint16 \<Rightarrow> bool" where
  "IsTypeSupported t \<longleftrightarrow> list_ex (\<lambda>s. s = t) SupportedTypes"

subsection \<open>Records and resource records correspond\<close>

lemma dotted_dotted [simp]: "dotted (dotted s) = dotted s"
  by (simp add: dotted_def HasSuffix_def)

lemma SplitN3_parts: "SplitN3 s sep = [a, b, c] \<longleftrightarrow> s = a @ sep # b @ sep # c \<and> sep \<notin> set a \<and> sep \<notin> set b"
proof
  assume "SplitN3 s sep = [a, b, c]"
  moreover have "SplitN2 s sep \<noteq> [a, b, c]" by (simp add: SplitN2.simps split: list.split)
  ultimately obtain t where "SplitN2 s sep = [a, t]" "SplitN2 t sep = [b, c]"
    by (auto simp: SplitN3_def split: list.splits)
  then show "s = a @ sep # b @ sep # c \<and> sep \<notin> set a \<and> sep \<notin> set b" by (simp add: SplitN2_two)
next
  assume s: "s = a @ sep # b @ sep # c \<and> sep \<notin> set a \<and> sep \<notin> set b"
  then have "SplitN2 s sep = [a, b @ sep # c]" "SplitN2 (b @ sep # c) sep = [b, c]"
    by (simp_all add: SplitN2_Cons del: SplitN2.simps)
  then show "SplitN3 s sep = [a, b, c]" by (simp add: SplitN3_def)
qed

definition rr_record :: "du_Record \<Rightarrow> rr_data \<Rightarrow> RR" where
  "rr_record r d = \<lparr>rr_Name = dotted (du_Name r), rr_Rrtype = du_Type r, rr_Ttl = du_TTL r, rr_Data = d\<rparr>"

lemma ToRR_rr_record: "ToRR D r = Inr rr \<longleftrightarrow> (\<exists>d. rr_data_of D r = Inr d \<and> rr = rr_record r d)"
  by (auto simp: ToRR_def rr_record_def split: sum.split)

text \<open>Reading a record of a given type gives back its header, so only the data matters.\<close>

lemma rr_read:
  assumes "RecordFromRR D (rr_record r d) = Inr r'" and "rr_data_of D r' = Inr d"
  shows "\<exists>r'. RecordFromRR D (rr_record r d) = Inr r' \<and> ToRR D r' = Inr (rr_record r d)"
proof -
  have "du_Name r' = dotted (du_Name r)" "du_Type r' = du_Type r" "du_TTL r' = du_TTL r"
    using assms(1) by (auto simp: RecordFromRR_def rr_record_def Let_def split: rr_data.splits)
  then have "rr_record r' d = rr_record r d" by (simp add: rr_record_def)
  then show ?thesis using assms by (auto simp: ToRR_rr_record)
qed

lemma To4_IP:
  assumes "ParseIP s = Some ip" "To4 ip = Some b"
  shows "ip = v4_mapped_prefix @ b" "ParseIP (IP_String (v4_mapped_prefix @ b)) = Some (v4_mapped_prefix @ b)"
proof -
  show "ip = v4_mapped_prefix @ b" using assms(2) by (auto simp: To4_def split: if_splits) (metis append_take_drop_id)
  then show "ParseIP (IP_String (v4_mapped_prefix @ b)) = Some (v4_mapped_prefix @ b)"
    using ParseIP_IP_String ParseIP_bytes assms(1) by blast
qed

lemma caa_read:
  assumes "caa_data s = Inr (RR_CAA flag tag v)"
  shows "caa_data (Itoa (unat flag) @ CHR '' '' # tag @ CHR '' '' # v) = Inr (RR_CAA flag tag v)"
proof -
  obtain a where "SplitN3 s (CHR '' '') = [a, tag, v]"
    using assms by (auto simp: caa_data_def split: list.splits sum.splits)
  then have "CHR '' '' \<notin> set tag" by (simp add: SplitN3_parts)
  moreover have "CHR '' '' \<notin> set (Itoa (unat flag))" using Itoa_digits [of "unat flag"] by (auto simp: list_all_iff is_digit_def)
  ultimately have "SplitN3 (Itoa (unat flag) @ CHR '' '' # tag @ CHR '' '' # v) (CHR '' '') = [Itoa (unat flag), tag, v]"
    by (simp add: SplitN3_parts)
  then show ?thesis by (simp add: caa_data_def ParseUint8_Itoa)
qed

lemma caa_form: "caa_data s = Inr d \<Longrightarrow> \<exists>f t v. d = RR_CAA f t v"
  by (auto simp: caa_data_def split: list.splits sum.splits)

text \<open>A record that is written as a resource record and read back denotes the same resource record: reading never
fails on what was written, addresses are printed in a form that parses to the same bytes, targets keep their final dot,
and flag, tag and value of a CAA record are recovered.\<close>
theorem rr_roundtrip:
  assumes "ToRR D r = Inr rr"
  shows "\<exists>r'. RecordFromRR D rr = Inr r' \<and> ToRR D r' = Inr rr"
proof -
  obtain d where d: "rr_data_of D r = Inr d" and rr: "rr = rr_record r d" using assms by (auto simp: ToRR_rr_record)
  let ?r = "\<lambda>rdata p w port. \<lparr>du_Name = dotted (du_Name r), du_Type = du_Type r, du_TTL = du_TTL r, du_RData = rdata,
    du_Priority = p, du_Weight = w, du_Port = port\<rparr>"
  have "\<exists>r'. RecordFromRR D (rr_record r d) = Inr r' \<and> rr_data_of D r' = Inr d"
  proof (cases "du_Type r = TypeA \<or> du_Type r = TypeAAAA \<or> du_Type r = TypeCAA")
    case True
    then consider (a) ip b where "du_Type r = TypeA" "ParseIP (du_RData r) = Some ip" "To4 ip = Some b" "d = RR_A b"
      | (aaaa) ip where "du_Type r = TypeAAAA" "ParseIP (du_RData r) = Some ip" "To4 ip = None" "d = RR_AAAA ip"
      | (caa) f t v where "du_Type r = TypeCAA" "d = RR_CAA f t v" "caa_data (du_RData r) = Inr d"
      using d by (auto simp: rr_data_of_def dns_types dest: caa_form split: if_splits option.splits)
    then show ?thesis
    proof cases
      case a
      then show ?thesis using To4_IP [OF a(2,3)] by (auto simp: RecordFromRR_def rr_record_def rr_data_of_def Let_def)
    next
      case aaaa
      then show ?thesis using ParseIP_IP_String [OF ParseIP_bytes [OF aaaa(2)]]
        by (auto simp: RecordFromRR_def rr_record_def rr_data_of_def Let_def dns_types)
    next
      case caa
      then show ?thesis using caa_read [of "du_RData r" f t v] by (auto simp: RecordFromRR_def rr_record_def rr_data_of_def Let_def dns_types)
    qed
  next
    case False
    then have "du_Type r = TypeCNAME \<and> d = RR_CNAME (dotted (du_RData r)) \<or> du_Type r = TypeTXT \<and> d = RR_TXT [du_RData r] \<or>
      du_Type r = TypeMX \<and> d = RR_MX (du_Priority r) (dotted (du_RData r)) \<or>
      du_Type r = TypeSRV \<and> d = RR_SRV (du_Priority r) (du_Weight r) (du_Port r) (dotted (du_RData r)) \<or>
      du_Type r = TypePTR \<and> d = RR_PTR (dotted (du_RData r)) \<or> du_Type r = TypeNS \<and> d = RR_NS (dotted (du_RData r))"
      using d unfolding rr_data_of_def by (simp split: if_splits)
    then show ?thesis
      by (elim disjE conjE; simp add: RecordFromRR_def rr_record_def rr_data_of_def Let_def dns_types)
  qed
  then show ?thesis using rr_read unfolding rr by blast
qed

definition demo_library :: dns_library where
  "demo_library = \<lparr>dl_TypeToString = \<lambda>_. None, dl_StringToType = \<lambda>_. None, dl_RcodeToString = \<lambda>_. []\<rparr>"

theorem rr_roundtrip_witness:
  "\<exists>rr r'. ToRR demo_library (du_record ''example.com'' TypeCAA 300 ''0 issue letsencrypt.org'') = Inr rr \<and>
     RecordFromRR demo_library rr = Inr r' \<and> ToRR demo_library r' = Inr rr"
proof -
  have "ToRR demo_library (du_record ''example.com'' TypeCAA 300 ''0 issue letsencrypt.org'') =
      Inr \<lparr>rr_Name = ''example.com.'', rr_Rrtype = 257, rr_Ttl = 300, rr_Data = RR_CAA 0 ''issue'' ''letsencrypt.org''\<rparr>"
    by code_simp
  from this rr_roundtrip [OF this] show ?thesis by (elim exE conjE, intro exI conjI)
qed

subsection \<open>Configuration\<close>

definition HmacMD5 :: string where "HmacMD5 = ''hmac-md5.sig-alg.reg.int.''"
definition HmacSHA256 :: string where "HmacSHA256 = ''hmac-sha256.''"
definition HmacSHA512 :: string where "HmacSHA512 = ''hmac-sha512.''"

record du_Config =
  dcf_Server :: string
  dcf_Zone :: string
  dcf_TSIGKeyName :: string
  dcf_TSIGSecret :: string
  dcf_TSIGAlgorithm :: string
  dcf_Timeout :: int
  dcf_UseTCP :: bool

definition GetTSIGAlgorithm :: "du_Config \<Rightarrow> string" where
  "GetTSIGAlgorithm c =
     (if dcf_TSIGAlgorithm c = [] then HmacSHA256
      else let alg = ToLower (TrimSpace (dcf_TSIGAlgorithm c)) in
        if alg \<in> {''hmac-md5'', ''md5'', ''hmac-md5.sig-alg.reg.int.''} then HmacMD5
        else if alg \<in> {''hmac-sha256'', ''sha256''} then HmacSHA256
        else if alg \<in> {''hmac-sha512'', ''sha512''} then HmacSHA512
        else alg)"

definition du_Validate :: "du_Config \<Rightarrow> err option" where
  "du_Validate c =
     (let server = (if dcf_Server c = [] then [''server is required''] else []);
          zone = (if dcf_Zone c = [] then [''zone is required'']
                  else if \<not> HasSuffix (dcf_Zone c) ''.'' then [''zone must end with a dot (e.g., 'example.com.')''] else []);
          tsig = (if dcf_TSIGKeyName c \<noteq> [] \<or> dcf_TSIGSecret c \<noteq> [] \<or> dcf_TSIGAlgorithm c \<noteq> [] then
            (if dcf_TSIGKeyName c = [] then [''tsig_key_name is required when using TSIG authentication'']
             else if \<not> HasSuffix (dcf_TSIGKeyName c) ''.'' then [''tsig_key_name must end with a dot (e.g., 'dnsweaver.')''] else []) @
            (if dcf_TSIGSecret c = [] then [''tsig_secret is required when using TSIG authentication''] else []) @
            (if dcf_TSIGAlgorithm c \<noteq> [] \<and> GetTSIGAlgorithm c \<notin> {HmacMD5, HmacSHA256, HmacSHA512} then
               [''unsupported tsig_algorithm: '' @ dcf_TSIGAlgorithm c @ '' (supported: hmac-md5, hmac-sha256, hmac-sha512)''] else [])
            else []);
          timeout = (if dcf_Timeout c < 0 then [''timeout must be non-negative''] else []);
          errs = server @ zone @ tsig @ timeout
      in if errs \<noteq> [] then Some (ErrorNew (''dnsupdate config validation failed: '' @ Join errs ''; '')) else None)"

definition GetServer :: "du_Config \<Rightarrow> string" where
  "GetServer c =
     (let s = dcf_Server c in
      if s = [] then []
      else if SplitHostPort_ok s then s
      else if CHR '':'' \<in> set s then ''['' @ s @ '']:53''
      else s @ '':53'')"

definition GetTimeout :: "du_Config \<Rightarrow> int" where
  "GetTimeout c = (if dcf_Timeout c > 0 then dcf_Timeout c else 10 * one_second)"

definition HasTSIG :: "du_Config \<Rightarrow> bool" where
  "HasTSIG c \<longleftrightarrow> dcf_TSIGKeyName c \<noteq> [] \<and> dcf_TSIGSecret c \<noteq> []"

text \<open>Both loaders share everything but where the values come from; \<^verbatim>\<open>time.Duration(n) * time.Second\<close> wraps at 64 bits.\<close>

definition seconds :: "int \<Rightarrow> int" where
  "seconds n = sint (word_of_int (n * one_second) :: 64 word)"

definition du_config_of ::
  "string \<Rightarrow> string \<Rightarrow> string \<Rightarrow> string \<Rightarrow> string \<Rightarrow> string \<Rightarrow> string \<Rightarrow> err + du_Config" where
  "du_config_of server zone keyName secret alg timeoutStr tcpStr =
     (let c = \<lparr>dcf_Server = server, dcf_Zone = zone, dcf_TSIGKeyName = keyName, dcf_TSIGSecret = secret, dcf_TSIGAlgorithm = alg,
               dcf_Timeout = 0, dcf_UseTCP = tcpStr \<noteq> [] \<and> (EqualFold tcpStr ''true'' \<or> tcpStr = ''1'')\<rparr>;
          finish = (\<lambda>c. case du_Validate c of Some e \<Rightarrow> Inl e | None \<Rightarrow> Inr c)
      in if timeoutStr \<noteq> [] then
           (case Atoi timeoutStr of
              Inl e \<Rightarrow> Inl (Errorf (''invalid TIMEOUT value '' @ Quote timeoutStr @ '': '') e)
            | Inr t \<Rightarrow> finish (c\<lparr>dcf_Timeout := seconds t\<rparr>))
         else finish c)"

text \<open>A secret file that cannot be read falls back to the variable here.\<close>

definition du_getEnvOrFile :: "environment \<Rightarrow> string \<Rightarrow> string \<Rightarrow> string" where
  "du_getEnvOrFile E directKey fileKey =
     (let filePath = getEnv E fileKey in
      if filePath \<noteq> [] then (case ev_ReadFile E filePath of Inr content \<Rightarrow> TrimSpace content | Inl _ \<Rightarrow> getEnv E directKey)
      else getEnv E directKey)"

definition du_LoadConfig :: "environment \<Rightarrow> string \<Rightarrow> err + du_Config" where
  "du_LoadConfig E pre =
     du_config_of (getEnv E (pre @ ''SERVER'')) (getEnv E (pre @ ''ZONE'')) (getEnv E (pre @ ''TSIG_KEY_NAME''))
       (du_getEnvOrFile E (pre @ ''TSIG_SECRET'') (pre @ ''TSIG_SECRET_FILE'')) (getEnv E (pre @ ''TSIG_ALGORITHM''))
       (getEnv E (pre @ ''TIMEOUT'')) (getEnv E (pre @ ''USE_TCP''))"

definition du_LoadConfigFromMap :: "(string, string) gomap \<Rightarrow> err + du_Config" where
  "du_LoadConfigFromMap m =
     du_config_of (map_get [] m ''SERVER'') (map_get [] m ''ZONE'') (map_get [] m ''TSIG_KEY_NAME'')
       (map_get [] m ''TSIG_SECRET'') (map_get [] m ''TSIG_ALGORITHM'') (map_get [] m ''TIMEOUT'') (map_get [] m ''USE_TCP'')"

subsection \<open>Transaction signatures\<close>

record TSIG =
  ts_Name :: string
  ts_Secret :: string
  ts_Algorithm :: string

definition normalizeAlgorithm :: "string \<Rightarrow> string" where
  "normalizeAlgorithm alg =
     (if alg = [] then HmacSHA256
      else let n = ToLower (TrimSpace alg) in
        if n \<in> {''hmac-md5'', ''md5''} then HmacMD5
        else if n \<in> {''hmac-sha256'', ''sha256''} then HmacSHA256
        else if n \<in> {''hmac-sha512'', ''sha512''} then HmacSHA512
        else alg)"

definition isValidAlgorithm :: "string \<Rightarrow> bool" where
  "isValidAlgorithm alg \<longleftrightarrow> alg \<in> {HmacMD5, HmacSHA256, HmacSHA512}"

text \<open>\<open>b64\<close> is the error of decoding standard base64, if any.\<close>

definition NewTSIG :: "(string \<Rightarrow> err option) \<Rightarrow> string \<Rightarrow> string \<Rightarrow> string \<Rightarrow> err + TSIG" where
  "NewTSIG b64 name secret algorithm =
     (case b64 secret of
        Some e \<Rightarrow> Inl (Errorf ''tsig secret is not valid base64: '' e)
      | None \<Rightarrow>
          let alg = normalizeAlgorithm algorithm in
          if \<not> isValidAlgorithm alg then Inl (ErrorNew (''unsupported tsig algorithm: '' @ algorithm))
          else Inr \<lparr>ts_Name = dotted name, ts_Secret = secret, ts_Algorithm = alg\<rparr>)"

definition TSIGFromConfig :: "(string \<Rightarrow> err option) \<Rightarrow> du_Config \<Rightarrow> err + TSIG option" where
  "TSIGFromConfig b64 c =
     (if \<not> HasTSIG c then Inr None
      else case NewTSIG b64 (dcf_TSIGKeyName c) (dcf_TSIGSecret c) (GetTSIGAlgorithm c) of
        Inl e \<Rightarrow> Inl e
      | Inr t \<Rightarrow> Inr (Some t))"

definition SupportedAlgorithms :: "string list" where
  "SupportedAlgorithms = [''hmac-sha256 (recommended)'', ''hmac-sha512'', ''hmac-md5 (legacy)'']"

definition AlgorithmName :: "string \<Rightarrow> string" where
  "AlgorithmName alg =
     (if alg = HmacMD5 then ''HMAC-MD5'' else if alg = HmacSHA256 then ''HMAC-SHA256''
      else if alg = HmacSHA512 then ''HMAC-SHA512'' else alg)"

subsection \<open>The client\<close>

definition ErrUpdateFailed :: err where "ErrUpdateFailed = ErrorNew ''dns update failed''"
definition ErrRecordNotFound :: err where "ErrRecordNotFound = ErrorNew ''record not found''"
definition ErrRecordExists :: err where "ErrRecordExists = ErrorNew ''record already exists''"
definition ErrAuthenticationFailed :: err where "ErrAuthenticationFailed = ErrorNew ''tsig authentication failed''"
definition ErrConnectionFailed :: err where "ErrConnectionFailed = ErrorNew ''connection to dns server failed''"
definition ErrZoneMismatch :: err where "ErrZoneMismatch = ErrorNew ''record name does not match configured zone''"
definition ErrAXFRFailed :: err where "ErrAXFRFailed = ErrorNew ''zone transfer (AXFR) failed''"

lemmas du_errors = ErrUpdateFailed_def ErrRecordNotFound_def ErrRecordExists_def ErrAuthenticationFailed_def
  ErrConnectionFailed_def ErrZoneMismatch_def ErrAXFRFailed_def

text \<open>
  An update adds a resource record, removes one, or removes all of a name and type; the last argument of a message is
  its signature (name and algorithm).
\<close>

datatype update_op = InsertRR RR | RemoveRR RR | DeleteRRset string uint16

datatype dns_msg =
    Question string uint16
  | Update string "update_op list" "(string \<times> string) option"
  | Axfr string "(string \<times> string) option"

record dns_response =
  rs_Rcode :: nat
  rs_Answer :: "RR list"
  rs_Tsig :: bool

definition RcodeSuccess :: nat where "RcodeSuccess = 0"
definition RcodeNameError :: nat where "RcodeNameError = 3"
definition RcodeRefused :: nat where "RcodeRefused = 5"
definition RcodeYXRrset :: nat where "RcodeYXRrset = 7"
definition RcodeNXRrset :: nat where "RcodeNXRrset = 8"
definition RcodeNotAuth :: nat where "RcodeNotAuth = 9"
definition RcodeNotZone :: nat where "RcodeNotZone = 10"

lemmas dns_rcodes = RcodeSuccess_def RcodeNameError_def RcodeRefused_def RcodeYXRrset_def RcodeNXRrset_def
  RcodeNotAuth_def RcodeNotZone_def

text \<open>\<open>cn_exchange\<close> sends a message to the configured server; \<open>cn_transfer\<close> gives the envelopes of a zone transfer.\<close>

record 'w du_Client =
  cn_config :: du_Config
  cn_tsig :: "TSIG option"
  cn_library :: dns_library
  cn_exchange :: "dns_msg \<Rightarrow> 'w \<Rightarrow> (err + dns_response) \<times> 'w"
  cn_transfer :: "dns_msg \<Rightarrow> 'w \<Rightarrow> (err + (err + RR list) list) \<times> 'w"

definition NewClient ::
  "(string \<Rightarrow> err option) \<Rightarrow> dns_library \<Rightarrow> (du_Config \<Rightarrow> dns_msg \<Rightarrow> 'w \<Rightarrow> (err + dns_response) \<times> 'w) \<Rightarrow>
   (du_Config \<Rightarrow> dns_msg \<Rightarrow> 'w \<Rightarrow> (err + (err + RR list) list) \<times> 'w) \<Rightarrow> du_Config option \<Rightarrow> err + 'w du_Client" where
  "NewClient b64 D exchange transfer config0 =
     (case config0 of
        None \<Rightarrow> Inl (ErrorNew ''config is required'')
      | Some config \<Rightarrow>
          (case du_Validate config of
             Some e \<Rightarrow> Inl (Errorf ''invalid config: '' e)
           | None \<Rightarrow>
               (case TSIGFromConfig b64 config of
                  Inl e \<Rightarrow> Inl (Errorf ''invalid TSIG configuration: '' e)
                | Inr tsig \<Rightarrow> Inr \<lparr>cn_config = config, cn_tsig = tsig, cn_library = D, cn_exchange = exchange config,
                                    cn_transfer = transfer config\<rparr>)))"

definition signature :: "'w du_Client \<Rightarrow> (string \<times> string) option" where
  "signature c = map_option (\<lambda>t. (ts_Name t, ts_Algorithm t)) (cn_tsig c)"

definition du_zone :: "'w du_Client \<Rightarrow> string" where
  "du_zone c = dcf_Zone (cn_config c)"

definition isInZone :: "'w du_Client \<Rightarrow> string \<Rightarrow> bool" where
  "isInZone c fqdn \<longleftrightarrow> HasSuffix (ToLower fqdn) (ToLower (dotted (du_zone c)))"

definition zone_mismatch :: "'w du_Client \<Rightarrow> string \<Rightarrow> err" where
  "zone_mismatch c fqdn = ErrorfAfter ErrZoneMismatch (fqdn @ '' not in zone '' @ du_zone c)"

definition validateRecord :: "'w du_Client \<Rightarrow> du_Record \<Rightarrow> err option" where
  "validateRecord c r =
     (if du_Name r = [] then Some (ErrorNew ''record name is required'')
      else let fqdn = dotted (du_Name r) in if \<not> isInZone c fqdn then Some (zone_mismatch c fqdn) else None)"

definition checkResponse :: "dns_library \<Rightarrow> dns_response option \<Rightarrow> err option" where
  "checkResponse D resp0 =
     (case resp0 of
        None \<Rightarrow> Some (ErrorfAfter ErrUpdateFailed ''no response from server'')
      | Some resp \<Rightarrow>
          let rcode = rs_Rcode resp in
          if rcode = RcodeSuccess then None
          else if rcode = RcodeYXRrset then Some ErrRecordExists
          else if rcode = RcodeNXRrset then Some ErrRecordNotFound
          else if rcode = RcodeNotAuth then
            (if rs_Tsig resp then Some (ErrorfAfter ErrAuthenticationFailed (dl_RcodeToString D rcode))
             else Some (ErrorfAfter ErrUpdateFailed ''server not authoritative for zone''))
          else if rcode = RcodeRefused then
            Some (ErrorfAfter ErrUpdateFailed ''update refused (check server policy or TSIG configuration)'')
          else if rcode = RcodeNotZone then Some ErrZoneMismatch
          else Some (ErrorfAfter ErrUpdateFailed (dl_RcodeToString D rcode)))"

text \<open>The end that the update operations share: sign, send, check; \<open>wrap\<close> is the error around a failed exchange.\<close>

definition send_update :: "(err \<Rightarrow> err) \<Rightarrow> 'w du_Client \<Rightarrow> update_op list \<Rightarrow> 'w \<Rightarrow> err option \<times> 'w" where
  "send_update wrap c ops w =
     (case cn_exchange c (Update (du_zone c) ops (signature c)) w of
        (Inl e, w') \<Rightarrow> (Some (wrap e), w')
      | (Inr resp, w') \<Rightarrow> (checkResponse (cn_library c) (Some resp), w'))"

definition du_Ping :: "'w du_Client \<Rightarrow> 'w \<Rightarrow> err option \<times> 'w" where
  "du_Ping c w =
     (case cn_exchange c (Question (du_zone c) TypeSOA) w of
        (Inl e, w') \<Rightarrow> (Some (ErrorfTwo ErrConnectionFailed e), w')
      | (Inr resp, w') \<Rightarrow>
          if rs_Rcode resp \<noteq> RcodeSuccess then
            (Some (ErrorfAfter ErrConnectionFailed (''server returned '' @ dl_RcodeToString (cn_library c) (rs_Rcode resp))), w')
          else (None, w'))"

definition du_Create :: "'w du_Client \<Rightarrow> du_Record \<Rightarrow> 'w \<Rightarrow> err option \<times> 'w" where
  "du_Create c r w =
     (case validateRecord c r of
        Some e \<Rightarrow> (Some e, w)
      | None \<Rightarrow>
          (case ToRR (cn_library c) r of
             Inl e \<Rightarrow> (Some (Errorf ''invalid record: '' e), w)
           | Inr rr \<Rightarrow> send_update (ErrorfTwo ErrUpdateFailed) c [InsertRR rr] w))"

definition du_Update :: "'w du_Client \<Rightarrow> du_Record \<Rightarrow> du_Record \<Rightarrow> 'w \<Rightarrow> err option \<times> 'w" where
  "du_Update c old new w =
     (case validateRecord c old of
        Some e \<Rightarrow> (Some (Errorf ''invalid old record: '' e), w)
      | None \<Rightarrow>
          (case validateRecord c new of
             Some e \<Rightarrow> (Some (Errorf ''invalid new record: '' e), w)
           | None \<Rightarrow>
               (case ToRR (cn_library c) old of
                  Inl e \<Rightarrow> (Some (Errorf ''invalid old record: '' e), w)
                | Inr oldRR \<Rightarrow>
                    (case ToRR (cn_library c) new of
                       Inl e \<Rightarrow> (Some (Errorf ''invalid new record: '' e), w)
                     | Inr newRR \<Rightarrow> send_update (ErrorfTwo ErrUpdateFailed) c [RemoveRR oldRR, InsertRR newRR] w))))"

definition du_Delete :: "'w du_Client \<Rightarrow> du_Record \<Rightarrow> 'w \<Rightarrow> err option \<times> 'w" where
  "du_Delete c r w =
     (case validateRecord c r of
        Some e \<Rightarrow> (Some e, w)
      | None \<Rightarrow>
          (case ToRR (cn_library c) r of
             Inl e \<Rightarrow> (Some (Errorf ''invalid record: '' e), w)
           | Inr rr \<Rightarrow> send_update (ErrorfTwo ErrUpdateFailed) c [RemoveRR rr] w))"

definition du_DeleteAll :: "'w du_Client \<Rightarrow> string \<Rightarrow> uint16 \<Rightarrow> 'w \<Rightarrow> err option \<times> 'w" where
  "du_DeleteAll c name t w =
     (let fqdn = dotted name in
      if \<not> isInZone c fqdn then (Some (zone_mismatch c fqdn), w)
      else send_update (ErrorfTwo ErrUpdateFailed) c [DeleteRRset fqdn t] w)"

text \<open>Answers of an unsupported type are skipped with a warning.\<close>

definition parsed_records :: "dns_library \<Rightarrow> RR list \<Rightarrow> du_Record list" where
  "parsed_records D rrs = concat (map (\<lambda>rr. case RecordFromRR D rr of Inr r \<Rightarrow> [r] | Inl _ \<Rightarrow> []) rrs)"

definition du_Query :: "'w du_Client \<Rightarrow> string \<Rightarrow> uint16 \<Rightarrow> 'w \<Rightarrow> (err + du_Record list) \<times> 'w" where
  "du_Query c name t w =
     (case cn_exchange c (Question (dotted name) t) w of
        (Inl e, w') \<Rightarrow> (Inl (Errorf ''dns query failed: '' e), w')
      | (Inr resp, w') \<Rightarrow>
          if rs_Rcode resp = RcodeNameError then (Inr [], w')
          else if rs_Rcode resp \<noteq> RcodeSuccess then
            (Inl (ErrorNew (''dns query returned '' @ dl_RcodeToString (cn_library c) (rs_Rcode resp))), w')
          else (Inr (parsed_records (cn_library c) (rs_Answer resp)), w'))"

text \<open>Envelopes with an error and SOA and NS records are skipped.\<close>

definition ListByAXFR :: "'w du_Client \<Rightarrow> 'w \<Rightarrow> (err + du_Record list) \<times> 'w" where
  "ListByAXFR c w =
     (case cn_transfer c (Axfr (du_zone c) (signature c)) w of
        (Inl e, w') \<Rightarrow> (Inl (ErrorfTwo ErrAXFRFailed e), w')
      | (Inr envs, w') \<Rightarrow>
          (Inr (concat (map (\<lambda>env. case env of
              Inl _ \<Rightarrow> []
            | Inr rrs \<Rightarrow> parsed_records (cn_library c) (filter (\<lambda>rr. rr_Rrtype rr \<noteq> TypeSOA \<and> rr_Rrtype rr \<noteq> TypeNS) rrs)) envs)), w'))"

definition RcodeToError :: "dns_library \<Rightarrow> nat \<Rightarrow> err option" where
  "RcodeToError D rcode =
     (if rcode = RcodeSuccess then None
      else if rcode = RcodeYXRrset then Some ErrRecordExists
      else if rcode = RcodeNXRrset then Some ErrRecordNotFound
      else if rcode = RcodeNotAuth then Some ErrAuthenticationFailed
      else Some (ErrorfAfter ErrUpdateFailed (dl_RcodeToString D rcode)))"

definition IsAuthError :: "err option \<Rightarrow> bool" where
  "IsAuthError e = (case e of None \<Rightarrow> False | Some x \<Rightarrow> errors_Is x ErrAuthenticationFailed)"

subsection \<open>What the operations send\<close>

text \<open>An operation that fails its checks sends nothing; a rejected update is never reported as success.\<close>

lemma send_update_ok:
  "send_update wrap c ops w = (None, w') \<longleftrightarrow>
     (\<exists>resp. cn_exchange c (Update (du_zone c) ops (signature c)) w = (Inr resp, w') \<and> rs_Rcode resp = RcodeSuccess)"
  by (auto simp: send_update_def checkResponse_def Let_def split: prod.splits sum.splits if_splits)

lemma du_Create_ok:
  "du_Create c r w = (None, w') \<longleftrightarrow>
     validateRecord c r = None \<and> (\<exists>rr. ToRR (cn_library c) r = Inr rr \<and> send_update (ErrorfTwo ErrUpdateFailed) c [InsertRR rr] w = (None, w'))"
  by (auto simp: du_Create_def split: option.splits sum.splits)

lemma du_Delete_ok:
  "du_Delete c r w = (None, w') \<longleftrightarrow>
     validateRecord c r = None \<and> (\<exists>rr. ToRR (cn_library c) r = Inr rr \<and> send_update (ErrorfTwo ErrUpdateFailed) c [RemoveRR rr] w = (None, w'))"
  by (auto simp: du_Delete_def split: option.splits sum.splits)

text \<open>Authentication failures are recognised exactly when the server signs its rejection.\<close>

lemma checkResponse_auth:
  "rs_Rcode resp = RcodeNotAuth \<Longrightarrow> IsAuthError (checkResponse D (Some resp)) \<longleftrightarrow> rs_Tsig resp"
  by (simp add: checkResponse_def IsAuthError_def dns_rcodes du_errors errors_Is_step)

end
