(* ===== verification/DnsCatalog.thy ===== *)
theory DnsCatalog
  imports DnsUpdate
begin

text \<open>
  \<^verbatim>\<open>pkg/dnsupdate/catalog.go\<close>: the hostnames that an RFC 2136 provider manages, kept in numbered TXT records of the
  zone itself. Every operation returns the error, the catalog and the world; \<^const>\<open>None\<close> as the whole result says that
  the loop of \<^verbatim>\<open>loadLocked\<close>, which asks for chunk after chunk until one is absent, does not end. What the server
  stores is the argument \<open>T\<close> of the hypothesis \<open>txt_server\<close>.
\<close>

subsection \<open>State and text of a chunk\<close>

definition CatalogPrefix :: string where "CatalogPrefix = ''_dnsweaver-catalog-''"
definition CatalogMaxChunkBytes :: nat where "CatalogMaxChunkBytes = 3500"
definition CatalogMaxHostnameLen :: nat where "CatalogMaxHostnameLen = 253"
definition CatalogChunkSize :: nat where "CatalogChunkSize = 100"
definition CatalogTTL :: "32 word" where "CatalogTTL = 300"

record 'w Catalog =
  ct_client :: "'w du_Client"
  ct_zone :: string
  ct_chunks :: "string list list"
  ct_hostnames :: "(string, nat) gomap"
  ct_loaded :: bool

definition NewCatalog :: "'w du_Client \<Rightarrow> string \<Rightarrow> 'w Catalog" where
  "NewCatalog client zone = \<lparr>ct_client = client, ct_zone = zone, ct_chunks = [], ct_hostnames = [], ct_loaded = False\<rparr>"

definition chunkRecordName :: "string \<Rightarrow> nat \<Rightarrow> string" where
  "chunkRecordName zone i = CatalogPrefix @ Itoa i @ ''.'' @ zone"

definition parseTXTHostnames :: "string \<Rightarrow> string list" where
  "parseTXTHostnames rdata =
     (if rdata = [] then [] else filter (\<lambda>p. p \<noteq> []) (map TrimSpace (FieldsFunc rdata is_space)))"

definition normalizeHostname :: "string \<Rightarrow> string" where
  "normalizeHostname h = ToLower (TrimSuffix h ''.'')"

definition chunkByteSize :: "string list \<Rightarrow> nat" where
  "chunkByteSize chunk = sum_list (map (\<lambda>h. length h + 1) chunk)"

definition canFitInChunk :: "string list \<Rightarrow> string \<Rightarrow> bool" where
  "canFitInChunk chunk h \<longleftrightarrow>
     \<not> length chunk \<ge> CatalogChunkSize \<and> chunkByteSize chunk + (length h + 1) \<le> CatalogMaxChunkBytes"

definition ErrHostnameTooLong :: err where
  "ErrHostnameTooLong = ErrorNew (''hostname exceeds maximum length of '' @ Itoa CatalogMaxHostnameLen @ '' bytes'')"

subsection \<open>Loading\<close>

definition chunk_hostnames :: "du_Record list \<Rightarrow> string list" where
  "chunk_hostnames records = concat (map (\<lambda>r. if du_Type r = TypeTXT then parseTXTHostnames (du_RData r) else []) records)"

definition index_chunk :: "nat \<Rightarrow> string list \<Rightarrow> (string, nat) gomap \<Rightarrow> (string, nat) gomap" where
  "index_chunk i chunk m = fold (\<lambda>h. AList.update h i) chunk m"

definition index_chunks :: "string list list \<Rightarrow> (string, nat) gomap" where
  "index_chunks cs = fold (\<lambda>(i, chunk). index_chunk i chunk) (enumerate 0 cs) []"

definition chunk_error :: "string \<Rightarrow> nat \<Rightarrow> err \<Rightarrow> err" where
  "chunk_error what i e = Errorf (what @ '' '' @ Itoa i @ '': '') e"

partial_function (option) load_chunks :: "'w Catalog \<Rightarrow> nat \<Rightarrow> 'w \<Rightarrow> (err option \<times> 'w Catalog \<times> 'w) option" where
  "load_chunks c i w =
     (case du_Query (ct_client c) (chunkRecordName (ct_zone c) i) TypeTXT w of
        (Inl e, w') \<Rightarrow> Some (Some (chunk_error ''querying catalog chunk'' i e), c, w')
      | (Inr records, w') \<Rightarrow>
          if records = [] then Some (None, c\<lparr>ct_loaded := True\<rparr>, w')
          else load_chunks
            (c\<lparr>ct_chunks := ct_chunks c @ [chunk_hostnames records],
               ct_hostnames := index_chunk i (chunk_hostnames records) (ct_hostnames c)\<rparr>) (Suc i) w')"

declare load_chunks.simps [code]

definition loadLocked :: "'w Catalog \<Rightarrow> 'w \<Rightarrow> (err option \<times> 'w Catalog \<times> 'w) option" where
  "loadLocked c w = load_chunks (c\<lparr>ct_chunks := [], ct_hostnames := [], ct_loaded := False\<rparr>) 0 w"

definition ensure_loaded :: "'w Catalog \<Rightarrow> 'w \<Rightarrow> (err option \<times> 'w Catalog \<times> 'w) option" where
  "ensure_loaded c w = (if ct_loaded c then Some (None, c, w) else loadLocked c w)"

definition cat_Hostnames :: "'w Catalog \<Rightarrow> 'w \<Rightarrow> ((err + string list) \<times> 'w Catalog \<times> 'w) option" where
  "cat_Hostnames c w =
     (case ensure_loaded c w of
        None \<Rightarrow> None
      | Some (Some e, c', w') \<Rightarrow> Some (Inl e, c', w')
      | Some (None, c', w') \<Rightarrow> Some (Inr (sort (map fst (ct_hostnames c'))), c', w'))"

definition cat_Contains :: "'w Catalog \<Rightarrow> string \<Rightarrow> 'w \<Rightarrow> ((err + bool) \<times> 'w Catalog \<times> 'w) option" where
  "cat_Contains c h w =
     (case ensure_loaded c w of
        None \<Rightarrow> None
      | Some (Some e, c', w') \<Rightarrow> Some (Inl e, c', w')
      | Some (None, c', w') \<Rightarrow> Some (Inr (has_key (ct_hostnames c') (normalizeHostname h)), c', w'))"

subsection \<open>Writing\<close>

definition send_catalog :: "'w Catalog \<Rightarrow> update_op list \<Rightarrow> 'w \<Rightarrow> err option \<times> 'w" where
  "send_catalog c ops w =
     (case cn_exchange (ct_client c) (Update (ct_zone c) ops (signature (ct_client c))) w of
        (Inl e, w') \<Rightarrow> (Some (Errorf ''dns update failed: '' e), w')
      | (Inr resp, w') \<Rightarrow> (checkResponse (cn_library (ct_client c)) (Some resp), w'))"

definition chunk_rr :: "string \<Rightarrow> string list \<Rightarrow> RR" where
  "chunk_rr name txt = \<lparr>rr_Name = name, rr_Rrtype = TypeTXT, rr_Ttl = CatalogTTL, rr_Data = RR_TXT txt\<rparr>"

text \<open>Both callers pass an index of a chunk.\<close>

definition writeChunk :: "'w Catalog \<Rightarrow> nat \<Rightarrow> 'w \<Rightarrow> err option \<times> 'w" where
  "writeChunk c i w =
     (let name = chunkRecordName (ct_zone c) i;
          txt = sort (ct_chunks c ! i)
      in send_catalog c (DeleteRRset name TypeTXT # (if length txt > 0 then [InsertRR (chunk_rr name txt)] else [])) w)"

definition deleteChunk :: "'w Catalog \<Rightarrow> nat \<Rightarrow> 'w \<Rightarrow> err option \<times> 'w" where
  "deleteChunk c i w = send_catalog c [DeleteRRset (chunkRecordName (ct_zone c) i) TypeTXT] w"

definition reindexAfterDelete :: "nat \<Rightarrow> 'w Catalog \<Rightarrow> 'w Catalog" where
  "reindexAfterDelete i c =
     (let cs = take i (ct_chunks c) @ drop (Suc i) (ct_chunks c)
      in c\<lparr>ct_chunks := cs, ct_hostnames := index_chunks cs\<rparr>)"

fun fit_index :: "string list list \<Rightarrow> string \<Rightarrow> nat option" where
  "fit_index [] h = None"
| "fit_index (chunk # cs) h = (if canFitInChunk chunk h then Some 0 else map_option Suc (fit_index cs h))"

text \<open>The part of \<^verbatim>\<open>Add\<close> after the catalog is loaded and does not hold the hostname.\<close>

definition add_new :: "'w Catalog \<Rightarrow> string \<Rightarrow> 'w \<Rightarrow> err option \<times> 'w Catalog \<times> 'w" where
  "add_new c h w =
     (let (i, cs) = (case fit_index (ct_chunks c) h of
                       Some i \<Rightarrow> (i, ct_chunks c)
                     | None \<Rightarrow> (length (ct_chunks c), ct_chunks c @ [[]]));
          c1 = c\<lparr>ct_chunks := cs[i := cs ! i @ [h]], ct_hostnames := AList.update h i (ct_hostnames c)\<rparr>
      in case writeChunk c1 i w of
           (Some e, w') \<Rightarrow>
             (Some (chunk_error ''writing catalog chunk'' i e),
              c1\<lparr>ct_chunks := (ct_chunks c1)[i := butlast (ct_chunks c1 ! i)],
                 ct_hostnames := AList.delete h (ct_hostnames c1)\<rparr>, w')
         | (None, w') \<Rightarrow> (None, c1, w'))"

definition cat_Add :: "'w Catalog \<Rightarrow> string \<Rightarrow> 'w \<Rightarrow> (err option \<times> 'w Catalog \<times> 'w) option" where
  "cat_Add c h0 w =
     (let h = normalizeHostname h0 in
      if length h > CatalogMaxHostnameLen then Some (Some ErrHostnameTooLong, c, w)
      else case loadLocked c w of
        None \<Rightarrow> None
      | Some (Some e, c', w') \<Rightarrow> Some (Some (Errorf ''loading catalog: '' e), c', w')
      | Some (None, c', w') \<Rightarrow>
          if has_key (ct_hostnames c') h then Some (None, c', w') else Some (add_new c' h w'))"

text \<open>The part of \<^verbatim>\<open>Remove\<close> after the catalog is loaded and the hostname is found in chunk \<open>i\<close>.\<close>

definition remove_at :: "'w Catalog \<Rightarrow> nat \<Rightarrow> string \<Rightarrow> 'w \<Rightarrow> err option \<times> 'w Catalog \<times> 'w" where
  "remove_at c i h w =
     (let chunk = ct_chunks c ! i;
          newChunk = filter (\<lambda>x. x \<noteq> h) chunk;
          c1 = c\<lparr>ct_chunks := (ct_chunks c)[i := newChunk], ct_hostnames := AList.delete h (ct_hostnames c)\<rparr>;
          rollback = c1\<lparr>ct_chunks := (ct_chunks c1)[i := chunk], ct_hostnames := AList.update h i (ct_hostnames c1)\<rparr>
      in if newChunk = [] \<and> i > 0 then
           (case deleteChunk c1 i w of
              (Some e, w') \<Rightarrow> (Some (chunk_error ''deleting empty catalog chunk'' i e), rollback, w')
            | (None, w') \<Rightarrow> (None, reindexAfterDelete i c1, w'))
         else
           (case writeChunk c1 i w of
              (Some e, w') \<Rightarrow> (Some (chunk_error ''writing catalog chunk'' i e), rollback, w')
            | (None, w') \<Rightarrow> (None, c1, w')))"

definition cat_Remove :: "'w Catalog \<Rightarrow> string \<Rightarrow> 'w \<Rightarrow> (err option \<times> 'w Catalog \<times> 'w) option" where
  "cat_Remove c h0 w =
     (let h = normalizeHostname h0 in
      case loadLocked c w of
        None \<Rightarrow> None
      | Some (Some e, c', w') \<Rightarrow> Some (Some (Errorf ''loading catalog: '' e), c', w')
      | Some (None, c', w') \<Rightarrow>
          (case map_of (ct_hostnames c') h of
             None \<Rightarrow> Some (None, c', w')
           | Some i \<Rightarrow> Some (remove_at c' i h w')))"

subsection \<open>Compacting, clearing, statistics\<close>

text \<open>The loop of \<^verbatim>\<open>Compact\<close> over the sorted hostnames; \<open>cur\<close> is the chunk being filled.\<close>

fun pack_chunks :: "string list \<Rightarrow> string list \<Rightarrow> string list list" where
  "pack_chunks cur [] = (if cur \<noteq> [] then [cur] else [])"
| "pack_chunks cur (h # hs) =
     (if cur \<noteq> [] \<and> \<not> canFitInChunk cur h then cur # pack_chunks [h] hs else pack_chunks (cur @ [h]) hs)"

fun write_all :: "'w Catalog \<Rightarrow> nat list \<Rightarrow> 'w \<Rightarrow> err option \<times> 'w" where
  "write_all c [] w = (None, w)"
| "write_all c (i # is) w =
     (case writeChunk c i w of
        (Some e, w') \<Rightarrow> (Some (chunk_error ''writing compacted chunk'' i e), w')
      | (None, w') \<Rightarrow> write_all c is w')"

definition cat_Compact :: "'w Catalog \<Rightarrow> 'w \<Rightarrow> (err option \<times> 'w Catalog \<times> 'w) option" where
  "cat_Compact c w =
     (case ensure_loaded c w of
        None \<Rightarrow> None
      | Some (Some e, c', w') \<Rightarrow> Some (Some (Errorf ''loading catalog: '' e), c', w')
      | Some (None, c', w') \<Rightarrow>
          let packed = pack_chunks [] (sort (map fst (ct_hostnames c')));
              newChunks = (if packed = [] then [[]] else packed);
              c1 = c'\<lparr>ct_chunks := newChunks\<rparr>
          in case write_all c1 [0..<length newChunks] w' of
               (Some e, w1) \<Rightarrow> Some (Some e, c1, w1)
             | (None, w1) \<Rightarrow>
                 Some (None, c1\<lparr>ct_hostnames := index_chunks newChunks\<rparr>,
                   fold (\<lambda>i w. snd (deleteChunk c1 i w)) [length newChunks..<length (ct_chunks c')] w1))"

fun delete_all :: "'w Catalog \<Rightarrow> nat list \<Rightarrow> 'w \<Rightarrow> err option \<times> 'w" where
  "delete_all c [] w = (None, w)"
| "delete_all c (i # is) w =
     (case deleteChunk c i w of
        (Some e, w') \<Rightarrow> (Some (chunk_error ''deleting chunk'' i e), w')
      | (None, w') \<Rightarrow> delete_all c is w')"

definition cat_Clear :: "'w Catalog \<Rightarrow> 'w \<Rightarrow> (err option \<times> 'w Catalog \<times> 'w) option" where
  "cat_Clear c w =
     (case ensure_loaded c w of
        None \<Rightarrow> None
      | Some (Some e, c', w') \<Rightarrow> Some (Some (Errorf ''loading catalog: '' e), c', w')
      | Some (None, c', w') \<Rightarrow>
          (case delete_all c' [0..<length (ct_chunks c')] w' of
             (Some e, w1) \<Rightarrow> Some (Some e, c', w1)
           | (None, w1) \<Rightarrow> Some (None, c'\<lparr>ct_chunks := [], ct_hostnames := [], ct_loaded := False\<rparr>, w1)))"

record CatalogStats =
  cs_Loaded :: bool
  cs_ChunkCount :: nat
  cs_TotalHostnames :: nat
  cs_TotalBytesUsed :: nat
  cs_MaxChunkBytes :: nat
  cs_MaxChunkCount :: nat
  cs_MaxHostnameLen :: nat
  cs_ChunkBytesUsed :: "nat list"
  cs_ChunkHostnameCount :: "nat list"

definition cat_Stats :: "'w Catalog \<Rightarrow> CatalogStats" where
  "cat_Stats c =
     \<lparr>cs_Loaded = ct_loaded c, cs_ChunkCount = length (ct_chunks c), cs_TotalHostnames = length (ct_hostnames c),
      cs_TotalBytesUsed = sum_list (map chunkByteSize (ct_chunks c)), cs_MaxChunkBytes = CatalogMaxChunkBytes,
      cs_MaxChunkCount = CatalogChunkSize, cs_MaxHostnameLen = CatalogMaxHostnameLen,
      cs_ChunkBytesUsed = map chunkByteSize (ct_chunks c), cs_ChunkHostnameCount = map length (ct_chunks c)\<rparr>"

subsection \<open>The server and what it publishes\<close>

text \<open>
  What the catalog relies on in an RFC 2136 server that holds at most one TXT record per name, as \<open>T\<close> reads it from the
  world (names are compared without case): a query for TXT does not change it and, when it succeeds, answers with the
  record or with none; an accepted update replaces or deletes the record, a rejected one changes nothing. Nothing is said
  of an exchange that fails.
\<close>

definition dns_key :: "string \<Rightarrow> string" where
  "dns_key n = ToLower (dotted n)"

definition txt_answer :: "string list option \<Rightarrow> dns_response \<Rightarrow> bool" where
  "txt_answer v resp \<longleftrightarrow>
     (rs_Rcode resp = RcodeNameError \<longrightarrow> v = None) \<and>
     (rs_Rcode resp = RcodeSuccess \<longrightarrow>
        (case v of
           None \<Rightarrow> rs_Answer resp = []
         | Some txt \<Rightarrow> \<exists>rr. rs_Answer resp = [rr] \<and> rr_Rrtype rr = TypeTXT \<and> rr_Data rr = RR_TXT txt))"

definition txt_server :: "'w du_Client \<Rightarrow> ('w \<Rightarrow> string \<Rightarrow> string list option) \<Rightarrow> bool" where
  "txt_server k T \<longleftrightarrow>
     (\<forall>n w r w'. cn_exchange k (Question n TypeTXT) w = (r, w') \<longrightarrow>
        T w' = T w \<and> (\<forall>resp. r = Inr resp \<longrightarrow> txt_answer (T w (dns_key n)) resp)) \<and>
     (\<forall>z n sg w resp w'. cn_exchange k (Update z [DeleteRRset n TypeTXT] sg) w = (Inr resp, w') \<longrightarrow>
        T w' = (if rs_Rcode resp = RcodeSuccess then (T w)(dns_key n := None) else T w)) \<and>
     (\<forall>z n sg txt w resp w'.
        cn_exchange k (Update z [DeleteRRset n TypeTXT, InsertRR (chunk_rr n txt)] sg) w = (Inr resp, w') \<longrightarrow>
        T w' = (if rs_Rcode resp = RcodeSuccess then (T w)(dns_key n \<mapsto> txt) else T w))"

text \<open>The chunks that the server holds for a zone, without a gap and with nothing after them.\<close>

definition chunk_key :: "string \<Rightarrow> nat \<Rightarrow> string" where
  "chunk_key zone i = dns_key (chunkRecordName zone i)"

definition publishes :: "(string \<Rightarrow> string list option) \<Rightarrow> string \<Rightarrow> string list list \<Rightarrow> bool" where
  "publishes t zone cs \<longleftrightarrow> (\<forall>i. t (chunk_key zone i) = (if i < length cs then Some (cs ! i) else None))"

definition proper_host :: "string \<Rightarrow> bool" where
  "proper_host h \<longleftrightarrow> h \<noteq> [] \<and> list_all (\<lambda>c. \<not> is_space c) h"

text \<open>The limits on a chunk, and a catalog without duplicates whose chunks keep them.\<close>

definition chunk_limits :: "string list \<Rightarrow> bool" where
  "chunk_limits chunk \<longleftrightarrow> length chunk \<le> CatalogChunkSize \<and> chunkByteSize chunk \<le> CatalogMaxChunkBytes"

definition good_chunk :: "string list \<Rightarrow> bool" where
  "good_chunk chunk \<longleftrightarrow> chunk \<noteq> [] \<and> list_all proper_host chunk \<and> chunk_limits chunk"

definition good_chunks :: "string list list \<Rightarrow> bool" where
  "good_chunks cs \<longleftrightarrow> distinct (concat cs) \<and> list_all good_chunk cs"

lemmas catalog_limits = CatalogChunkSize_def CatalogMaxChunkBytes_def CatalogMaxHostnameLen_def

subsection \<open>Names and texts of chunks\<close>

lemma Itoa_inject: "Itoa i = Itoa j \<longleftrightarrow> i = j"
  by (metis decimal_value_Itoa of_nat_eq_iff)

lemma dotted_after_dot: "dotted (s @ CHR ''.'' # z) = s @ CHR ''.'' # tl (dotted (CHR ''.'' # z))"
  by (auto simp: dotted_def HasSuffix_iff append_eq_Cons_conv Cons_eq_append_conv append_eq_append_conv2)

lemma ToLower_digits: "list_all is_digit s \<Longrightarrow> ToLower s = s"
  by (induction s) (auto simp: ToLower_def is_digit_def is_upper_def lower_char_def)

lemma no_dot_in_number: "CHR ''.'' \<notin> set (Itoa i)"
  using Itoa_digits [of i] by (auto simp: list_all_iff is_digit_def)

lemma first_dot: "c \<notin> set a \<Longrightarrow> c \<notin> set b \<Longrightarrow> a @ c # x = b @ c # y \<longleftrightarrow> a = b \<and> x = y"
proof (induction a arbitrary: b)
  case (Cons d a)
  then show ?case by (cases b) auto
qed (auto simp: Cons_eq_append_conv)

lemma chunk_key_form: "\<exists>z. \<forall>i. chunk_key zone i = ToLower CatalogPrefix @ Itoa i @ CHR ''.'' # z"
proof
  show "\<forall>i. chunk_key zone i =
      ToLower CatalogPrefix @ Itoa i @ CHR ''.'' # ToLower (tl (dotted (CHR ''.'' # zone)))"
    using dotted_after_dot [of "CatalogPrefix @ Itoa i" zone for i]
    by (simp add: chunk_key_def dns_key_def chunkRecordName_def ToLower_digits Itoa_digits)
qed

lemma chunk_key_inject [simp]: "chunk_key zone i = chunk_key zone j \<longleftrightarrow> i = j"
proof -
  obtain z where "chunk_key zone k = ToLower CatalogPrefix @ Itoa k @ CHR ''.'' # z" for k
    using chunk_key_form by blast
  then show ?thesis by (simp add: first_dot no_dot_in_number Itoa_inject)
qed

lemma TrimSpace_no_space: "list_all (\<lambda>c. \<not> is_space c) s \<Longrightarrow> TrimSpace s = s"
proof -
  have id: "dropWhile is_space t = t" if "list_all (\<lambda>c. \<not> is_space c) t" for t
    using that by (cases t) auto
  assume s: "list_all (\<lambda>c. \<not> is_space c) s"
  moreover have "list_all (\<lambda>c. \<not> is_space c) (rev s)" using s by simp
  ultimately show ?thesis by (simp add: TrimSpace_def id)
qed

lemma parse_hosts:
  assumes "list_all proper_host txt" shows "parseTXTHostnames (Join txt '' '') = txt"
proof -
  have sp: "is_space (CHR '' '')" by (simp add: is_space_def)
  have "FieldsFunc (Join txt '' '') is_space = txt"
    using FieldsFunc_Join [of "txt" is_space "CHR '' ''"] assms sp by (auto simp: list_all_iff proper_host_def)
  moreover have "map TrimSpace txt = txt" "filter (\<lambda>p. p \<noteq> []) txt = txt"
    using assms by (auto simp: list_all_iff proper_host_def intro!: map_idI filter_True TrimSpace_no_space)
  moreover have "txt = []" if "Join txt '' '' = []" using that calculation(1) by (simp add: FieldsFunc_def)
  ultimately show ?thesis by (auto simp: parseTXTHostnames_def)
qed

lemma sort_Nil [simp]: "sort chunk = [] \<longleftrightarrow> (chunk :: string list) = []"
  by (metis length_sort length_0_conv)

lemma good_chunk_sort [simp]: "good_chunk (sort chunk) = good_chunk chunk"
proof -
  have insort: "sum_list (map f (insort x xs)) = f x + sum_list (map f xs)" for f :: "string \<Rightarrow> nat" and x xs
    by (induction xs) auto
  have "sum_list (map f (sort chunk)) = sum_list (map f chunk)" for f :: "string \<Rightarrow> nat"
    by (induction chunk) (auto simp: insort)
  then show ?thesis by (auto simp: good_chunk_def chunk_limits_def chunkByteSize_def list_all_iff)
qed

lemma canFit_good:
  "canFitInChunk chunk h \<Longrightarrow> proper_host h \<Longrightarrow> chunk = [] \<or> good_chunk chunk \<Longrightarrow> good_chunk (chunk @ [h])"
  by (auto simp: canFitInChunk_def good_chunk_def chunk_limits_def chunkByteSize_def catalog_limits)

lemma single_good: "proper_host h \<Longrightarrow> length h \<le> CatalogMaxHostnameLen \<Longrightarrow> good_chunk [h]"
  by (simp add: good_chunk_def chunk_limits_def chunkByteSize_def catalog_limits)

lemma filter_good: "good_chunk chunk \<Longrightarrow> filter P chunk \<noteq> [] \<Longrightarrow> good_chunk (filter P chunk)"
proof -
  assume g: "good_chunk chunk" "filter P chunk \<noteq> []"
  have "sum_list (map f (filter P chunk)) \<le> sum_list (map f chunk)" for f :: "string \<Rightarrow> nat"
    by (induction chunk) auto
  from this [of "\<lambda>h. length h + 1"] show ?thesis using g
    by (auto simp: good_chunk_def chunk_limits_def chunkByteSize_def list_all_iff intro: order_trans order_trans [OF length_filter_le])
qed

lemma fit_index_Some: "fit_index cs h = Some i \<Longrightarrow> i < length cs \<and> canFitInChunk (cs ! i) h"
  by (induction cs arbitrary: i) (auto split: if_splits)

subsection \<open>The index\<close>

lemma map_of_index_chunk: "map_of (index_chunk i chunk m) h = (if h \<in> set chunk then Some i else map_of m h)"
  unfolding index_chunk_def by (induction chunk arbitrary: m) auto

lemma wf_index_chunk: "wf_map m \<Longrightarrow> wf_map (index_chunk i chunk m)"
  unfolding index_chunk_def by (induction chunk arbitrary: m) (simp_all add: wf_map_update)

lemma index_chunks_snoc: "index_chunks (cs @ [chunk]) = index_chunk (length cs) chunk (index_chunks cs)"
  by (simp add: index_chunks_def enumerate_append_eq)

lemma wf_index_chunks: "wf_map (index_chunks cs)"
  by (induction cs rule: rev_induct) (simp_all add: index_chunks_snoc wf_index_chunk, simp add: index_chunks_def)

lemma index_chunks_Some: "map_of (index_chunks cs) h = Some i \<Longrightarrow> i < length cs \<and> h \<in> set (cs ! i)"
proof (induction cs rule: rev_induct)
  case (snoc chunk cs)
  then show ?case by (auto simp: index_chunks_snoc map_of_index_chunk nth_append split: if_splits)
qed (simp add: index_chunks_def)

lemma index_chunks_keys: "fst ` set (index_chunks cs) = set (concat cs)"
proof (induction cs rule: rev_induct)
  case (snoc chunk cs)
  have "fst ` set (index_chunk i chunk m) = set chunk \<union> fst ` set m" for i m
    unfolding index_chunk_def by (induction chunk arbitrary: m) (auto simp: keys_update)
  then show ?case using snoc by (auto simp: index_chunks_snoc)
qed (simp add: index_chunks_def)

lemma has_key_index_chunks [simp]: "has_key (index_chunks cs) h \<longleftrightarrow> h \<in> set (concat cs)"
  by (simp add: has_key_iff index_chunks_keys)

subsection \<open>Reading what is published\<close>

lemma Query_chunk:
  assumes "txt_server k T" "du_Query k (chunkRecordName zone i) TypeTXT w = (r, w')"
  shows "T w' = T w"
    and "r = Inr records \<Longrightarrow> T w (chunk_key zone i) = None \<Longrightarrow> records = []"
    and "r = Inr records \<Longrightarrow> T w (chunk_key zone i) = Some chunk \<Longrightarrow> list_all proper_host chunk \<Longrightarrow>
           records \<noteq> [] \<and> chunk_hostnames records = chunk"
proof -
  have idem: "dns_key (dotted n) = dns_key n" for n by (simp add: dns_key_def)
  obtain q where q: "cn_exchange k (Question (dotted (chunkRecordName zone i)) TypeTXT) w = (q, w')"
    using assms(2) by (auto simp: du_Query_def split: prod.splits sum.splits if_splits)
  then show "T w' = T w" using assms(1) unfolding txt_server_def by blast
  have ans: "txt_answer (T w (chunk_key zone i)) resp" if "q = Inr resp" for resp
    using assms(1) q that idem unfolding txt_server_def chunk_key_def by metis
  have cases: "\<exists>resp. q = Inr resp \<and> (rs_Rcode resp = RcodeNameError \<and> records = [] \<or>
      rs_Rcode resp = RcodeSuccess \<and> records = parsed_records (cn_library k) (rs_Answer resp))" if "r = Inr records"
    using assms(2) q that by (auto simp: du_Query_def split: sum.splits if_splits)
  show "records = []" if "r = Inr records" "T w (chunk_key zone i) = None"
    using cases [OF that(1)] ans that(2) by (auto simp: txt_answer_def parsed_records_def)
  show "records \<noteq> [] \<and> chunk_hostnames records = chunk"
    if "r = Inr records" "T w (chunk_key zone i) = Some chunk" "list_all proper_host chunk"
    using cases [OF that(1)] ans that(2) parse_hosts [OF that(3)]
    by (auto simp: txt_answer_def parsed_records_def RecordFromRR_def chunk_hostnames_def Let_def)
qed

lemma load_chunks_published:
  assumes "txt_server (ct_client c) T"
    and "\<forall>j < length cs. T w (chunk_key (ct_zone c) (i + j)) = Some (cs ! j)"
    and "T w (chunk_key (ct_zone c) (i + length cs)) = None"
    and "list_all (list_all proper_host) cs"
  shows "\<exists>r c' w'. load_chunks c i w = Some (r, c', w') \<and> T w' = T w \<and>
           (r = None \<longrightarrow> c' = c\<lparr>ct_chunks := ct_chunks c @ cs,
              ct_hostnames := fold (\<lambda>(j, chunk). index_chunk j chunk) (enumerate i cs) (ct_hostnames c), ct_loaded := True\<rparr>)"
  using assms
proof (induction cs arbitrary: c i w)
  case Nil
  obtain r w1 where q: "du_Query (ct_client c) (chunkRecordName (ct_zone c) i) TypeTXT w = (r, w1)" by fastforce
  then show ?case using Query_chunk [OF Nil.prems(1) q] Nil.prems(3)
    by (cases r) (simp_all add: load_chunks.simps)
next
  case (Cons chunk cs)
  obtain r w1 where q: "du_Query (ct_client c) (chunkRecordName (ct_zone c) i) TypeTXT w = (r, w1)" by fastforce
  have w1: "T w1 = T w" by (rule Query_chunk(1) [OF Cons.prems(1) q])
  show ?case
  proof (cases r)
    case (Inl e)
    then show ?thesis using q w1 by (simp add: load_chunks.simps)
  next
    case (Inr records)
    have "T w (chunk_key (ct_zone c) i) = Some chunk" using Cons.prems(2) by force
    then have rec: "records \<noteq> []" "chunk_hostnames records = chunk"
      using Query_chunk(3) [OF Cons.prems(1) q Inr] Cons.prems(4) by simp_all
    let ?c = "c\<lparr>ct_chunks := ct_chunks c @ [chunk], ct_hostnames := index_chunk i chunk (ct_hostnames c)\<rparr>"
    have "\<forall>j < length cs. T w1 (chunk_key (ct_zone ?c) (Suc i + j)) = Some (cs ! j)"
      using Cons.prems(2) w1 by (auto dest: spec [where x = "Suc j" for j])
    then have "\<exists>r c' w'. load_chunks ?c (Suc i) w1 = Some (r, c', w') \<and> T w' = T w1 \<and>
           (r = None \<longrightarrow> c' = ?c\<lparr>ct_chunks := ct_chunks ?c @ cs,
              ct_hostnames := fold (\<lambda>(j, chunk). index_chunk j chunk) (enumerate (Suc i) cs) (ct_hostnames ?c), ct_loaded := True\<rparr>)"
      using Cons.prems w1 by (intro Cons.IH) simp_all
    then show ?thesis using q Inr rec w1 by (simp add: load_chunks.simps)
  qed
qed

text \<open>The chunks that a load finds: those before the first gap.\<close>

definition visible :: "(string \<Rightarrow> string list option) \<Rightarrow> string \<Rightarrow> string list list \<Rightarrow> bool" where
  "visible t zone cs \<longleftrightarrow>
     (\<forall>i < length cs. t (chunk_key zone i) = Some (cs ! i)) \<and> t (chunk_key zone (length cs)) = None"

lemma load_visible:
  assumes "txt_server (ct_client c) T" and "visible (T w) (ct_zone c) cs" and "list_all (list_all proper_host) cs"
  shows "\<exists>r c' w'. loadLocked c w = Some (r, c', w') \<and> T w' = T w \<and>
           (r = None \<longrightarrow> c' = c\<lparr>ct_chunks := cs, ct_hostnames := index_chunks cs, ct_loaded := True\<rparr>)"
  using load_chunks_published [of "c\<lparr>ct_chunks := [], ct_hostnames := [], ct_loaded := False\<rparr>" T cs w 0] assms
  by (simp add: loadLocked_def visible_def index_chunks_def)

text \<open>Loading the catalog ends as soon as the name of some chunk has no record, and when no query fails it holds exactly
the chunks before the first such name, with every hostname indexed; it changes nothing on the server.\<close>
theorem catalog_load_ends:
  assumes "txt_server (ct_client c) T" and "visible (T w) (ct_zone c) cs" and "list_all (list_all proper_host) cs"
  shows "\<exists>r c' w'. loadLocked c w = Some (r, c', w') \<and> T w' = T w \<and>
           (r = None \<longrightarrow> c' = c\<lparr>ct_chunks := cs, ct_hostnames := index_chunks cs, ct_loaded := True\<rparr>)"
  by (rule load_visible [OF assms])

text \<open>With a wildcard that answers every TXT query of the zone the load does not end.\<close>

lemma load_wildcard:
  assumes "\<forall>n w. \<exists>records w'. du_Query k n TypeTXT w = (Inr records, w') \<and> records \<noteq> []" and "ct_client c = k"
  shows "loadLocked c w = None"
proof -
  have "ct_client c' \<noteq> k" if "load_chunks c' i w' = Some r" for c' i w' r
  proof (rule load_chunks.raw_induct [where P = "\<lambda>c' i w' r. ct_client c' \<noteq> k", OF _ that], rule notI)
    fix load :: "'a Catalog \<Rightarrow> nat \<Rightarrow> 'a \<Rightarrow> (err option \<times> 'a Catalog \<times> 'a) option" and c' :: "'a Catalog" and i w' r
    assume IH: "\<And>c' i w' r. load c' i w' = Some r \<Longrightarrow> ct_client c' \<noteq> k" and k: "ct_client c' = k"
      and body: "(case du_Query (ct_client c') (chunkRecordName (ct_zone c') i) TypeTXT w' of
        (Inl e, w1) \<Rightarrow> Some (Some (chunk_error ''querying catalog chunk'' i e), c', w1)
      | (Inr records, w1) \<Rightarrow>
          if records = [] then Some (None, c'\<lparr>ct_loaded := True\<rparr>, w1)
          else load
            (c'\<lparr>ct_chunks := ct_chunks c' @ [chunk_hostnames records],
               ct_hostnames := index_chunk i (chunk_hostnames records) (ct_hostnames c')\<rparr>) (Suc i) w1) = Some r"
    obtain records w1 where "du_Query (ct_client c') (chunkRecordName (ct_zone c') i) TypeTXT w' = (Inr records, w1)"
      "records \<noteq> []" using assms(1) k by blast
    with body k IH show False by fastforce
  qed
  from this [of "c\<lparr>ct_chunks := [], ct_hostnames := [], ct_loaded := False\<rparr>" 0 w] show ?thesis
    using assms(2) by (cases "loadLocked c w") (simp_all add: loadLocked_def)
qed

subsection \<open>What the updates store\<close>

lemma send_catalog_ok:
  "send_catalog c ops w = (None, w') \<longleftrightarrow>
     (\<exists>resp. cn_exchange (ct_client c) (Update (ct_zone c) ops (signature (ct_client c))) w = (Inr resp, w') \<and>
        rs_Rcode resp = RcodeSuccess)"
  by (auto simp: send_catalog_def checkResponse_def Let_def split: prod.splits sum.splits if_splits)

lemma deleteChunk_stores:
  assumes "txt_server (ct_client c) T" "deleteChunk c i w = (None, w')"
  shows "T w' = (T w)(chunk_key (ct_zone c) i := None)"
  using assms unfolding deleteChunk_def send_catalog_ok txt_server_def chunk_key_def by metis

lemma writeChunk_stores:
  assumes "txt_server (ct_client c) T" "writeChunk c i w = (None, w')"
  shows "T w' = (T w)(chunk_key (ct_zone c) i := if ct_chunks c ! i = [] then None else Some (sort (ct_chunks c ! i)))"
proof (cases "ct_chunks c ! i = []")
  case True
  then have "deleteChunk c i w = (None, w')" using assms(2) by (simp add: writeChunk_def deleteChunk_def Let_def)
  then show ?thesis using deleteChunk_stores [OF assms(1)] True by simp
next
  case False
  then have "send_catalog c [DeleteRRset (chunkRecordName (ct_zone c) i) TypeTXT,
      InsertRR (chunk_rr (chunkRecordName (ct_zone c) i) (sort (ct_chunks c ! i)))] w = (None, w')"
    using assms(2) by (simp add: writeChunk_def Let_def)
  then have "T w' = (T w)(dns_key (chunkRecordName (ct_zone c) i) \<mapsto> sort (ct_chunks c ! i))"
    using assms(1) unfolding send_catalog_ok txt_server_def by metis
  then show ?thesis using False by (simp add: chunk_key_def)
qed

lemma publishes_visible: "publishes t zone cs \<Longrightarrow> visible t zone cs"
  by (simp add: publishes_def visible_def)

lemma publishes_replace: "publishes t zone cs \<Longrightarrow> i < length cs \<Longrightarrow> publishes (t(chunk_key zone i \<mapsto> x)) zone (cs[i := x])"
  by (simp add: publishes_def)

lemma publishes_append: "publishes t zone cs \<Longrightarrow> publishes (t(chunk_key zone (length cs) \<mapsto> x)) zone (cs @ [x])"
  by (simp add: publishes_def nth_append)

lemma publishes_gap:
  "publishes t zone cs \<Longrightarrow> i < length cs \<Longrightarrow> visible (t(chunk_key zone i := None)) zone (take i cs)"
  by (simp add: publishes_def visible_def)

lemma good_chunks_proper: "good_chunks cs \<Longrightarrow> list_all (list_all proper_host) cs"
  by (auto simp: good_chunks_def good_chunk_def list_all_iff)

lemma disjoint_step:
  "C \<inter> B = {} \<Longrightarrow> A \<inter> (C \<union> B) = {} \<Longrightarrow> h \<notin> A \<union> (C \<union> B) \<or> h \<in> C \<Longrightarrow> X \<subseteq> insert h C \<Longrightarrow> X \<inter> A = {} \<and> X \<inter> B = {}"
  by blast

lemma good_chunks_replace:
  assumes "good_chunks cs" "i < length cs" "good_chunk x" "distinct x"
    and "set x \<subseteq> insert h (set (cs ! i))" "h \<notin> set (concat cs) \<or> h \<in> set (cs ! i)"
  shows "good_chunks (cs[i := x])" and "set (concat (cs[i := x])) = set x \<union> (set (concat cs) - set (cs ! i))"
proof -
  obtain as bs where cs: "cs = as @ cs ! i # bs" "length as = i" using id_take_nth_drop [OF assms(2)] assms(2) by force
  then have u: "cs[i := x] = as @ x # bs" by (metis list_update_length)
  have g: "good_chunks (as @ cs ! i # bs)" and n: "h \<notin> set (concat (as @ cs ! i # bs)) \<or> h \<in> set (cs ! i)"
    using assms(1,6) cs(1) by simp_all
  have "set x \<inter> set (concat as) = {} \<and> set x \<inter> set (concat bs) = {}"
  proof (rule disjoint_step [OF _ _ _ assms(5)])
    have d: "distinct (concat as @ cs ! i @ concat bs)" using g by (simp add: good_chunks_def)
    then show "set (cs ! i) \<inter> set (concat bs) = {}" by (simp only: distinct_append)
    show "set (concat as) \<inter> (set (cs ! i) \<union> set (concat bs)) = {}" using d by (simp only: distinct_append set_append)
    show "h \<notin> set (concat as) \<union> (set (cs ! i) \<union> set (concat bs)) \<or> h \<in> set (cs ! i)" using n by simp
  qed
  then show "good_chunks (cs[i := x])" unfolding u using g assms(3,4) by (auto simp: good_chunks_def list_all_iff)
  have "set (concat (as @ x # bs)) = set x \<union> (set (concat (as @ cs ! i # bs)) - set (cs ! i))"
    using g by (auto simp: good_chunks_def)
  then show "set (concat (cs[i := x])) = set x \<union> (set (concat cs) - set (cs ! i))" using u cs(1) by simp
qed

lemma good_chunks_index:
  assumes "good_chunks cs" "i < length cs" "h \<in> set (cs ! i)"
  shows "map_of (index_chunks cs) h = Some i"
proof -
  have "h \<in> set (concat cs)" using assms(2,3) by (auto intro: nth_mem)
  then obtain j where j: "map_of (index_chunks cs) h = Some j" using has_key_index_chunks [of cs h] by (auto simp: has_key_def)
  then have jl: "j < length cs" "h \<in> set (cs ! j)" using index_chunks_Some by blast+
  have d: "distinct (concat cs)" "[] \<notin> set cs" using assms(1) by (auto simp: good_chunks_def good_chunk_def list_all_iff)
  then have "cs ! i = cs ! j" using assms(2,3) jl unfolding distinct_concat_iff by (meson disjoint_iff nth_mem)
  moreover have "distinct cs" using d unfolding distinct_concat_iff by simp
  ultimately have "i = j" using assms(2) jl(1) by (simp add: nth_eq_iff_index_eq)
  then show ?thesis using j by simp
qed

subsection \<open>The operations on a catalog\<close>

text \<open>The catalog that a successful load leaves.\<close>

definition loaded_with :: "'w Catalog \<Rightarrow> string list list \<Rightarrow> 'w Catalog" where
  "loaded_with c cs = c\<lparr>ct_chunks := cs, ct_hostnames := index_chunks cs, ct_loaded := True\<rparr>"

lemma load_good:
  assumes "txt_server (ct_client c) T" "publishes (T w) (ct_zone c) cs" "good_chunks cs" "loadLocked c w = Some (None, c', w')"
  shows "c' = loaded_with c cs \<and> T w' = T w"
  using load_visible [OF assms(1) publishes_visible [OF assms(2)] good_chunks_proper [OF assms(3)]] assms(4)
  by (auto simp: loaded_with_def)

lemma add_new_stores:
  assumes T: "txt_server (ct_client c) T" "publishes (T w) (ct_zone c) cs" "good_chunks cs"
    and h: "proper_host h" "length h \<le> CatalogMaxHostnameLen" "h \<notin> set (concat cs)"
    and add: "add_new (loaded_with c cs) h w = (None, c', w')"
  shows "\<exists>cs'. publishes (T w') (ct_zone c) cs' \<and> good_chunks cs' \<and> set (concat cs') = insert h (set (concat cs))"
proof (cases "fit_index cs h")
  case None
  have c: "ct_client (loaded_with c cs) = ct_client c" "ct_zone (loaded_with c cs) = ct_zone c" by (simp_all add: loaded_with_def)
  have "T w' = (T w)(chunk_key (ct_zone c) (length cs) \<mapsto> [h])"
    using add None T(1) by (auto simp: add_new_def loaded_with_def Let_def split: prod.splits option.splits dest!: writeChunk_stores [rotated])
  then have "publishes (T w') (ct_zone c) (cs @ [[h]])" using publishes_append [OF T(2)] by simp
  moreover have "good_chunks (cs @ [[h]])" using T(3) single_good [OF h(1,2)] h(3) by (auto simp: good_chunks_def)
  ultimately show ?thesis by (intro exI [of _ "cs @ [[h]]"]) simp
next
  case (Some i)
  then have i: "i < length cs" "canFitInChunk (cs ! i) h" using fit_index_Some by blast+
  let ?x = "sort (cs ! i @ [h])"
  have "T w' = (T w)(chunk_key (ct_zone c) i \<mapsto> ?x)"
    using add Some T(1) i(1) by (auto simp: add_new_def loaded_with_def Let_def split: prod.splits option.splits dest!: writeChunk_stores [rotated])
  then have pub: "publishes (T w') (ct_zone c) (cs[i := ?x])" using publishes_replace [OF T(2) i(1)] by simp
  have gi: "good_chunk (cs ! i)" "distinct (cs ! i)"
    using T(3) i(1) by (auto simp: good_chunks_def list_all_iff distinct_concat_iff)
  have "h \<notin> set (cs ! i)" using h(3) i(1) by (auto dest: nth_mem)
  then have x: "good_chunk ?x" "distinct ?x" using canFit_good [OF i(2) h(1)] gi by simp_all
  have sx: "set ?x \<subseteq> insert h (set (cs ! i))" by simp
  note r = good_chunks_replace [OF T(3) i(1) x sx]
  have "set (cs ! i) \<subseteq> set (concat cs)" using i(1) by (auto dest: nth_mem)
  then have "set (concat (cs[i := ?x])) = insert h (set (concat cs))" using r(2) h(3) by auto
  then show ?thesis using pub r(1) h(3) by blast
qed


lemma keys_delete: "fst ` set (AList.delete k m) = fst ` set m - {k}"
  by (metis dom_map_of_conv_image_fst dom_fun_upd map_of_delete)

lemma good_chunks_parts:
  assumes "good_chunks cs" "i < length cs"
  shows "good_chunk (cs ! i)" "distinct (cs ! i)" "set (concat (take i cs @ drop (Suc i) cs)) = set (concat cs) - set (cs ! i)"
proof -
  obtain as ch bs where cs: "cs = as @ ch # bs" "length as = i" and ch: "cs ! i = ch"
    using id_take_nth_drop [OF assms(2)] assms(2) by force
  have g: "good_chunks (as @ ch # bs)" using assms(1) cs(1) by simp
  then show "good_chunk (cs ! i)" "distinct (cs ! i)" using ch by (simp_all add: good_chunks_def)
  have "take i cs = as" "drop (Suc i) cs = bs" using cs by auto
  moreover have "set (concat (as @ bs)) = set (concat (as @ ch # bs)) - set ch" using g by (auto simp: good_chunks_def)
  ultimately show "set (concat (take i cs @ drop (Suc i) cs)) = set (concat cs) - set (cs ! i)" using cs(1) ch by simp
qed

lemma list_all_update: "list_all P cs \<Longrightarrow> P x \<Longrightarrow> list_all P (cs[i := x])"
  using set_update_subset_insert [of cs i x] by (auto simp: list_all_iff)

definition removed :: "'w Catalog \<Rightarrow> string list list \<Rightarrow> nat \<Rightarrow> string \<Rightarrow> 'w Catalog" where
  "removed c cs i h = (loaded_with c cs)\<lparr>ct_chunks := cs[i := filter (\<lambda>x. x \<noteq> h) (cs ! i)],
     ct_hostnames := AList.delete h (index_chunks cs)\<rparr>"

lemma remove_at_cases:
  assumes "remove_at (loaded_with c cs) i h w = (None, c', w')"
  obtains (del) "filter (\<lambda>x. x \<noteq> h) (cs ! i) = []" "deleteChunk (removed c cs i h) i w = (None, w')"
      "c' = reindexAfterDelete i (removed c cs i h)"
    | (kept) "writeChunk (removed c cs i h) i w = (None, w')" "c' = removed c cs i h"
  using assms by (auto simp: remove_at_def loaded_with_def removed_def Let_def split: if_splits prod.splits option.splits)

lemma remove_at_stores:
  assumes T: "txt_server (ct_client c) T" "good_chunks cs" "i < length cs"
    and rem: "remove_at (loaded_with c cs) i h w = (None, c', w')" and h: "h \<in> set (cs ! i)"
  shows "T w' = (T w)(chunk_key (ct_zone c) i :=
           if filter (\<lambda>x. x \<noteq> h) (cs ! i) = [] then None else Some (sort (filter (\<lambda>x. x \<noteq> h) (cs ! i)))) \<and>
         fst ` set (ct_hostnames c') = set (concat cs) - {h} \<and> ct_client c' = ct_client c \<and> ct_zone c' = ct_zone c"
  using rem
proof (cases rule: remove_at_cases)
  case del
  have r: "ct_client (removed c cs i h) = ct_client c" "ct_zone (removed c cs i h) = ct_zone c"
    "ct_chunks (removed c cs i h) = cs[i := []]" using del(1) by (simp_all add: removed_def loaded_with_def)
  have one: "set (cs ! i) = {h}" using del(1) h unfolding filter_empty_conv by blast
  have "ct_hostnames c' = index_chunks (take i cs @ drop (Suc i) cs)"
    using del(3) r(3) by (simp add: reindexAfterDelete_def Let_def drop_update_cancel take_update_cancel)
  then have "fst ` set (ct_hostnames c') = set (concat cs) - {h}"
    by (simp only: index_chunks_keys good_chunks_parts(3) [OF T(2,3)] one)
  then show ?thesis using deleteChunk_stores [OF _ del(2)] T(1) del(1,3) r by (simp add: reindexAfterDelete_def Let_def fun_upd_def)
next
  case kept
  have r: "ct_client (removed c cs i h) = ct_client c" "ct_zone (removed c cs i h) = ct_zone c"
    "ct_chunks (removed c cs i h) ! i = filter (\<lambda>x. x \<noteq> h) (cs ! i)"
    using T(3) by (simp_all add: removed_def loaded_with_def)
  have "fst ` set (ct_hostnames (removed c cs i h)) = set (concat cs) - {h}"
    by (simp add: removed_def keys_delete index_chunks_keys)
  moreover have "txt_server (ct_client (removed c cs i h)) T" using T(1) r(1) by simp
  note writeChunk_stores [OF this kept(1), unfolded r]
  ultimately show ?thesis using kept(2) r(1,2) by simp
qed


subsection \<open>Compacting\<close>

text \<open>Packing keeps the order, loses nothing and fills only good chunks.\<close>

lemma pack_chunks_concat: "concat (pack_chunks cur hs) = cur @ hs"
  by (induction cur hs rule: pack_chunks.induct) auto

lemma pack_chunks_good:
  assumes "cur = [] \<or> good_chunk cur" "\<forall>h \<in> set hs. proper_host h \<and> length h \<le> CatalogMaxHostnameLen"
  shows "list_all good_chunk (pack_chunks cur hs)"
  using assms
proof (induction cur hs rule: pack_chunks.induct)
  case (2 cur h hs)
  then have h: "good_chunk [h]" by (simp add: single_good)
  show ?case
  proof (cases "cur \<noteq> [] \<and> \<not> canFitInChunk cur h")
    case True then show ?thesis using 2 h by auto
  next
    case False
    then have "good_chunk (cur @ [h])" using 2(3,4) h canFit_good [of cur h] by auto
    then show ?thesis using False 2 by auto
  qed
qed auto

lemma compact_good:
  assumes "distinct hs" "\<forall>h \<in> set hs. proper_host h \<and> length h \<le> CatalogMaxHostnameLen"
  shows "good_chunks (pack_chunks [] hs) \<and> concat (pack_chunks [] hs) = hs"
  using assms pack_chunks_good [of "[]" hs] by (simp add: good_chunks_def pack_chunks_concat)

subsection \<open>A server in memory\<close>

text \<open>The server of the witnesses: it answers and updates TXT records by name.\<close>

definition demo_exchange :: "dns_msg \<Rightarrow> (string, string list) gomap \<Rightarrow> (err + dns_response) \<times> (string, string list) gomap" where
  "demo_exchange m w =
     (case m of
        Question n t \<Rightarrow>
          (Inr \<lparr>rs_Rcode = 0, rs_Answer = (case map_of w (dns_key n) of None \<Rightarrow> [] | Some v \<Rightarrow> [chunk_rr n v]), rs_Tsig = False\<rparr>, w)
      | Update z ops sg \<Rightarrow>
          (Inr \<lparr>rs_Rcode = 0, rs_Answer = [], rs_Tsig = False\<rparr>,
           fold (\<lambda>p w. case p of
               DeleteRRset n t \<Rightarrow> AList.delete (dns_key n) w
             | InsertRR rr \<Rightarrow> (case rr_Data rr of RR_TXT v \<Rightarrow> AList.update (dns_key (rr_Name rr)) v w | _ \<Rightarrow> w)
             | RemoveRR rr \<Rightarrow> w) ops w)
      | Axfr z sg \<Rightarrow> (Inl (ErrorNew ''refused''), w))"

definition demo_client :: "(string, string list) gomap du_Client" where
  "demo_client =
     \<lparr>cn_config = \<lparr>dcf_Server = ''ns:53'', dcf_Zone = ''example.com.'', dcf_TSIGKeyName = [], dcf_TSIGSecret = [],
        dcf_TSIGAlgorithm = [], dcf_Timeout = 0, dcf_UseTCP = False\<rparr>,
      cn_tsig = None,
      cn_library = demo_library,
      cn_exchange = demo_exchange, cn_transfer = \<lambda>_ w. (Inl (ErrorNew ''refused''), w)\<rparr>"

definition demo_world :: "(string, string list) gomap" where
  "demo_world = [(''_dnsweaver-catalog-0.example.com.'', [''a.example.com'', ''b.example.com'']),
     (''_dnsweaver-catalog-1.example.com.'', [''c.example.com'']), (''_dnsweaver-catalog-2.example.com.'', [''d.example.com''])]"

definition demo_catalog :: "(string, string list) gomap Catalog" where
  "demo_catalog = NewCatalog demo_client ''example.com.''"

definition demo_chunks :: "string list list" where
  "demo_chunks = [[''a.example.com'', ''b.example.com''], [''c.example.com''], [''d.example.com'']]"

lemma demo_server: "txt_server (ct_client demo_catalog) map_of"
  by (simp add: txt_server_def demo_catalog_def NewCatalog_def demo_client_def demo_exchange_def txt_answer_def chunk_rr_def
      RcodeNameError_def RcodeSuccess_def split: option.split)

lemma demo_publishes: "publishes (map_of demo_world) (ct_zone demo_catalog) demo_chunks"
proof -
  have "chunk_key ''example.com.'' 0 = ''_dnsweaver-catalog-0.example.com.''"
    "chunk_key ''example.com.'' 1 = ''_dnsweaver-catalog-1.example.com.''"
    "chunk_key ''example.com.'' 2 = ''_dnsweaver-catalog-2.example.com.''" by code_simp+
  then have "map_of demo_world = (map_of [])(chunk_key ''example.com.'' 2 \<mapsto> [''d.example.com''], chunk_key ''example.com.'' 1 \<mapsto> [''c.example.com''],
      chunk_key ''example.com.'' 0 \<mapsto> [''a.example.com'', ''b.example.com''])" by (simp add: demo_world_def)
  moreover have "i = 0 \<or> i = 1 \<or> i = 2 \<or> 3 \<le> i" for i :: nat by arith
  ultimately show ?thesis
    by (auto simp: publishes_def demo_catalog_def NewCatalog_def demo_chunks_def nth_Cons' split: if_splits)
qed

lemma demo_good: "good_chunks demo_chunks"
  by code_simp

theorem catalog_load_ends_witness:
  "\<exists>r c' w'. loadLocked demo_catalog demo_world = Some (r, c', w') \<and> map_of w' = map_of demo_world \<and>
     (r = None \<longrightarrow> c' = demo_catalog\<lparr>ct_chunks := demo_chunks, ct_hostnames := index_chunks demo_chunks, ct_loaded := True\<rparr>)"
  by (rule catalog_load_ends [OF demo_server publishes_visible [OF demo_publishes] good_chunks_proper [OF demo_good]])



end
