(* ===== verification/Rfc2136.thy ===== *)
theory Rfc2136
  imports DnsCatalog ProviderRegistry
begin

text \<open>
  \<^verbatim>\<open>providers/rfc2136\<close>: configuration, conversion of records, and the provider on top of the DNS UPDATE client and the
  catalog. The catalog that a provider object keeps is part of its state, so an operation returns the provider; the
  result \<^const>\<open>None\<close> is that of \<^theory_text>\<open>load_chunks\<close>: the loading loop does not end. A provider always has its client: the
  test of \<^verbatim>\<open>List\<close> for a nil client, which only tests build, is left out. Loggers and log lines are left out.
\<close>

subsection \<open>Configuration\<close>

record rf_Config =
  rf_Server :: string
  rf_Zone :: string
  rf_TSIGKeyName :: string
  rf_TSIGSecret :: string
  rf_TSIGAlgorithm :: string
  rf_Timeout :: int
  rf_UseTCP :: bool
  rf_TTL :: int

definition rf_DefaultTTL :: int where "rf_DefaultTTL = 300"
definition rf_DefaultTimeout :: int where "rf_DefaultTimeout = 10"

definition rf_config_errors :: "rf_Config \<Rightarrow> string list" where
  "rf_config_errors c =
     (if rf_Server c = [] then [''SERVER is required''] else []) @
     (if rf_Zone c = [] then [''ZONE is required'']
      else if \<not> HasSuffix (rf_Zone c) ''.'' then [''ZONE must end with a dot (e.g., 'example.com.')''] else []) @
     (if rf_TSIGKeyName c \<noteq> [] \<or> rf_TSIGSecret c \<noteq> [] \<or> rf_TSIGAlgorithm c \<noteq> [] then
        (if rf_TSIGKeyName c = [] then [''TSIG_KEY_NAME is required when using TSIG authentication'']
         else if \<not> HasSuffix (rf_TSIGKeyName c) ''.'' then [''TSIG_KEY_NAME must end with a dot (e.g., 'dnsweaver.')''] else []) @
        (if rf_TSIGSecret c = [] then [''TSIG_SECRET is required when using TSIG authentication''] else [])
      else []) @
     (if rf_TTL c < 0 then [''TTL must be non-negative''] else []) @
     (if rf_Timeout c < 0 then [''TIMEOUT must be non-negative''] else [])"

definition rf_Validate :: "rf_Config \<Rightarrow> err option" where
  "rf_Validate c =
     (let errs = rf_config_errors c in
      if errs \<noteq> [] then Some (ErrorNew (''rfc2136 config validation failed: '' @ Join errs ''; '')) else None)"

definition ToDNSUpdateConfig :: "rf_Config \<Rightarrow> du_Config" where
  "ToDNSUpdateConfig c =
     \<lparr>dcf_Server = rf_Server c, dcf_Zone = rf_Zone c, dcf_TSIGKeyName = rf_TSIGKeyName c, dcf_TSIGSecret = rf_TSIGSecret c,
      dcf_TSIGAlgorithm = rf_TSIGAlgorithm c, dcf_Timeout = seconds (rf_Timeout c), dcf_UseTCP = rf_UseTCP c\<rparr>"

text \<open>A number that may be absent, and the error when it is not one.\<close>

definition rf_number :: "string \<Rightarrow> int \<Rightarrow> string \<Rightarrow> err + int" where
  "rf_number key d s =
     (if s \<noteq> [] then
        (case Atoi s of Inl e \<Rightarrow> Inl (Errorf (''invalid '' @ key @ '' value '' @ Quote s @ '': '') e) | Inr n \<Rightarrow> Inr n)
      else Inr d)"

text \<open>Both loaders share everything but where the values come from.\<close>

definition rf_config_of :: "string \<Rightarrow> (string \<Rightarrow> string) \<Rightarrow> string \<Rightarrow> err + rf_Config" where
  "rf_config_of name get secret =
     (case rf_number ''TIMEOUT'' rf_DefaultTimeout (get ''TIMEOUT'') of
        Inl e \<Rightarrow> Inl e
      | Inr timeout \<Rightarrow>
          (case rf_number ''TTL'' rf_DefaultTTL (get ''TTL'') of
             Inl e \<Rightarrow> Inl e
           | Inr ttl \<Rightarrow>
               let tcp = get ''USE_TCP'';
                   c = \<lparr>rf_Server = get ''SERVER'', rf_Zone = get ''ZONE'', rf_TSIGKeyName = get ''TSIG_KEY_NAME'',
                        rf_TSIGSecret = secret, rf_TSIGAlgorithm = get ''TSIG_ALGORITHM'', rf_Timeout = timeout,
                        rf_UseTCP = tcp \<noteq> [] \<and> (EqualFold tcp ''true'' \<or> tcp = ''1''), rf_TTL = ttl\<rparr>
               in case rf_Validate c of
                    Some e \<Rightarrow> Inl (Errorf (''configuration for '' @ name @ '': '') e)
                  | None \<Rightarrow> Inr c))"

definition rf_envPrefix :: "string \<Rightarrow> string" where
  "rf_envPrefix name = ''DNSWEAVER_'' @ ReplaceAll1 (CHR ''-'') (CHR ''_'') (ToUpper name) @ ''_''"

definition rf_LoadConfig :: "environment \<Rightarrow> string \<Rightarrow> err + rf_Config" where
  "rf_LoadConfig E name =
     (let pre = rf_envPrefix name in
      rf_config_of name (\<lambda>k. getEnv E (pre @ k)) (du_getEnvOrFile E (pre @ ''TSIG_SECRET'') (pre @ ''TSIG_SECRET_FILE'')))"

definition rf_LoadConfigFromMap :: "string \<Rightarrow> (string, string) gomap \<Rightarrow> err + rf_Config" where
  "rf_LoadConfigFromMap name m = rf_config_of name (map_get [] m) (map_get [] m ''TSIG_SECRET'')"

subsection \<open>The provider object\<close>

record 'w rf_Provider =
  rp_name :: string
  rp_server :: string
  rp_zone :: string
  rp_ttl :: int
  rp_client :: "'w du_Client"
  rp_catalog :: "'w Catalog option"

type_synonym 'w connect = "du_Config option \<Rightarrow> err + 'w du_Client"

text \<open>\<open>connect\<close> is \<^const>\<open>NewClient\<close> with its library arguments.\<close>

definition rf_New :: "'w connect \<Rightarrow> string \<Rightarrow> rf_Config option \<Rightarrow> err + 'w rf_Provider" where
  "rf_New connect name config =
     (case config of
        None \<Rightarrow> Inl (ErrorNew ''config is required'')
      | Some c \<Rightarrow>
          (case rf_Validate c of
             Some e \<Rightarrow> Inl e
           | None \<Rightarrow>
               (case connect (Some (ToDNSUpdateConfig c)) of
                  Inl e \<Rightarrow> Inl (Errorf ''creating dnsupdate client: '' e)
                | Inr client \<Rightarrow> Inr \<lparr>rp_name = name, rp_server = rf_Server c, rp_zone = rf_Zone c, rp_ttl = rf_TTL c,
                                     rp_client = client, rp_catalog = Some (NewCatalog client (rf_Zone c))\<rparr>)))"

definition rf_NewFromEnv :: "'w connect \<Rightarrow> environment \<Rightarrow> string \<Rightarrow> err + 'w rf_Provider" where
  "rf_NewFromEnv connect E name =
     (case rf_LoadConfig E name of Inl e \<Rightarrow> Inl e | Inr c \<Rightarrow> rf_New connect name (Some c))"

text \<open>The literal in \<^verbatim>\<open>Factory\<close> does not set the server.\<close>

definition rf_Factory :: "'w connect \<Rightarrow> FactoryConfig \<Rightarrow> err + 'w rf_Provider" where
  "rf_Factory connect cfg =
     (case rf_LoadConfigFromMap (fc_Name cfg) (fc_ProviderConfig cfg) of
        Inl e \<Rightarrow> Inl e
      | Inr c \<Rightarrow>
          (case connect (Some (ToDNSUpdateConfig c)) of
             Inl e \<Rightarrow> Inl e
           | Inr client \<Rightarrow> Inr \<lparr>rp_name = fc_Name cfg, rp_server = [], rp_zone = rf_Zone c, rp_ttl = rf_TTL c,
                                rp_client = client, rp_catalog = Some (NewCatalog client (rf_Zone c))\<rparr>))"

definition rf_Type :: string where "rf_Type = ''rfc2136''"

definition rf_Identity :: "'w rf_Provider \<Rightarrow> ProviderIdentity" where
  "rf_Identity p = \<lparr>id_Type = ''rfc2136'', id_Endpoint = rp_server p, id_Zone = rp_zone p\<rparr>"

definition rf_Capabilities :: Capabilities where
  "rf_Capabilities = \<lparr>SupportsOwnershipTXT = True, SupportsNativeUpdate = True,
     SupportedRecordTypes = [RecordTypeA, RecordTypeAAAA, RecordTypeCNAME, RecordTypeTXT, RecordTypeSRV]\<rparr>"

definition rf_Ping :: "'w rf_Provider \<Rightarrow> 'w \<Rightarrow> err option \<times> 'w" where
  "rf_Ping p w = du_Ping (rp_client p) w"

subsection \<open>Converting records\<close>

definition clampTTL :: "int \<Rightarrow> 32 word" where
  "clampTTL v = (if v < 0 then 0 else if v > 2 ^ 32 - 1 then 2 ^ 32 - 1 else word_of_int v)"

definition recordTypeToUint16 :: "RecordType \<Rightarrow> uint16" where
  "recordTypeToUint16 rt =
     (if rt = RecordTypeA then TypeA else if rt = RecordTypeAAAA then TypeAAAA else if rt = RecordTypeCNAME then TypeCNAME
      else if rt = RecordTypeTXT then TypeTXT else if rt = RecordTypeSRV then TypeSRV else TypeA)"

definition uint16ToRecordType :: "uint16 \<Rightarrow> RecordType option" where
  "uint16ToRecordType t =
     (if t = TypeA then Some RecordTypeA else if t = TypeAAAA then Some RecordTypeAAAA
      else if t = TypeCNAME then Some RecordTypeCNAME else if t = TypeTXT then Some RecordTypeTXT
      else if t = TypeSRV then Some RecordTypeSRV else None)"

definition ensureFQDN :: "'w rf_Provider \<Rightarrow> string \<Rightarrow> string" where
  "ensureFQDN p name =
     (if HasSuffix name ''.'' then name
      else let zoneWithoutDot = TrimSuffix (rp_zone p) ''.'' in
        if HasSuffix name zoneWithoutDot \<or> HasSuffix name (''.'' @ zoneWithoutDot) then name @ ''.''
        else name @ ''.'' @ zoneWithoutDot @ ''.'')"

definition toRFC2136Record :: "'w rf_Provider \<Rightarrow> Record \<Rightarrow> err + du_Record" where
  "toRFC2136Record p r =
     (let d = \<lparr>du_Name = ensureFQDN p (r_Hostname r), du_Type = recordTypeToUint16 (r_Type r),
               du_TTL = (if r_TTL r > 0 then clampTTL (r_TTL r) else clampTTL (rp_ttl p)), du_RData = [], du_Priority = 0,
               du_Weight = 0, du_Port = 0\<rparr>
      in if r_Type r = RecordTypeA \<or> r_Type r = RecordTypeAAAA then Inr (d\<lparr>du_RData := r_Target r\<rparr>)
         else if r_Type r = RecordTypeCNAME then Inr (d\<lparr>du_RData := dotted (r_Target r)\<rparr>)
         else if r_Type r = RecordTypeTXT then Inr (d\<lparr>du_RData := r_Target r\<rparr>)
         else if r_Type r = RecordTypeSRV then
           (let d1 = d\<lparr>du_RData := dotted (r_Target r)\<rparr> in
            case r_SRV r of
              Some s \<Rightarrow> Inr (d1\<lparr>du_Priority := srv_Priority s, du_Weight := srv_Weight s, du_Port := srv_Port s\<rparr>)
            | None \<Rightarrow> Inr d1)
         else Inl (ErrorNew (''unsupported record type: '' @ r_Type r)))"

definition fromRFC2136Record :: "dns_library \<Rightarrow> du_Record \<Rightarrow> err + Record" where
  "fromRFC2136Record D d =
     (case uint16ToRecordType (du_Type d) of
        None \<Rightarrow> Inl (ErrorNew (''unsupported record type: '' @ TypeString D (du_Type d)))
      | Some t \<Rightarrow>
          Inr ((record_literal (TrimSuffix (du_Name d) ''.'') t (TrimSuffix (du_RData d) ''.''))
            \<lparr>r_TTL := uint (du_TTL d),
             r_ProviderID := du_Name d @ '':'' @ TypeString D (du_Type d) @ '':'' @ du_RData d,
             r_SRV := (if t = RecordTypeSRV then
                 Some \<lparr>srv_Priority = du_Priority d, srv_Weight = du_Weight d, srv_Port = du_Port d\<rparr> else None)\<rparr>))"

subsection \<open>Operations\<close>

definition parsed_provider_records :: "dns_library \<Rightarrow> du_Record list \<Rightarrow> Record list" where
  "parsed_provider_records D ds = concat (map (\<lambda>d. case fromRFC2136Record D d of Inr r \<Rightarrow> [r] | Inl _ \<Rightarrow> []) ds)"

definition listed_types :: "uint16 list" where
  "listed_types = [TypeA, TypeAAAA, TypeCNAME, TypeSRV]"

fun query_types :: "'w du_Client \<Rightarrow> string \<Rightarrow> uint16 list \<Rightarrow> 'w \<Rightarrow> Record list \<times> 'w" where
  "query_types k fqdn [] w = ([], w)"
| "query_types k fqdn (t # ts) w =
     (let (q, w1) = du_Query k fqdn t w;
          found = (case q of Inl _ \<Rightarrow> [] | Inr ds \<Rightarrow> parsed_provider_records (cn_library k) ds);
          (rest, w2) = query_types k fqdn ts w1
      in (found @ rest, w2))"

text \<open>The ownership record of a hostname: the first TXT record with our marker.\<close>

definition ownership_found :: "string \<Rightarrow> string \<Rightarrow> du_Record list \<Rightarrow> Record list" where
  "ownership_found name fqdn ds =
     (case find (\<lambda>d. du_Type d = TypeTXT \<and> IsDnsweaverOwned (du_RData d)) ds of
        None \<Rightarrow> []
      | Some d \<Rightarrow> [(record_literal name RecordTypeTXT (du_RData d))
          \<lparr>r_TTL := uint (du_TTL d), r_ProviderID := fqdn @ '':TXT:'' @ du_RData d\<rparr>])"

fun list_hosts :: "'w rf_Provider \<Rightarrow> string list \<Rightarrow> 'w \<Rightarrow> Record list \<times> 'w" where
  "list_hosts p [] w = ([], w)"
| "list_hosts p (h # hs) w =
     (let name = OwnershipRecordName h;
          fqdn = ensureFQDN p name;
          (q, w1) = du_Query (rp_client p) fqdn TypeTXT w
      in case q of
           Inl e \<Rightarrow> list_hosts p hs w1
         | Inr ds \<Rightarrow>
             let (found, w2) = query_types (rp_client p) (ensureFQDN p h) listed_types w1;
                 (rest, w3) = list_hosts p hs w2
             in (ownership_found name fqdn ds @ found @ rest, w3))"

definition rf_List :: "'w rf_Provider \<Rightarrow> 'w \<Rightarrow> ((err + Record list) \<times> 'w rf_Provider \<times> 'w) option" where
  "rf_List p w =
     (case rp_catalog p of
        None \<Rightarrow> Some (Inr [], p, w)
      | Some cat \<Rightarrow>
          (case cat_Hostnames cat w of
             None \<Rightarrow> None
           | Some (Inl e, cat', w') \<Rightarrow> Some (Inl (Errorf ''loading catalog: '' e), p\<lparr>rp_catalog := Some cat'\<rparr>, w')
           | Some (Inr hostnames, cat', w') \<Rightarrow>
               let p' = p\<lparr>rp_catalog := Some cat'\<rparr>;
                   (records, w2) = list_hosts p' hostnames w'
               in Some (Inr records, p', w2)))"

text \<open>A failure to update the catalog is logged only.\<close>

definition update_catalog ::
  "('w Catalog \<Rightarrow> string \<Rightarrow> 'w \<Rightarrow> (err option \<times> 'w Catalog \<times> 'w) option) \<Rightarrow> 'w rf_Provider \<Rightarrow> string \<Rightarrow> 'w \<Rightarrow>
   (err option \<times> 'w rf_Provider \<times> 'w) option" where
  "update_catalog op p hostname w =
     (case rp_catalog p of
        None \<Rightarrow> Some (None, p, w)
      | Some cat \<Rightarrow>
          if IsOwnershipRecord hostname then Some (None, p, w)
          else map_option (\<lambda>(_, cat', w'). (None, p\<lparr>rp_catalog := Some cat'\<rparr>, w')) (op cat hostname w))"

definition rf_Create :: "'w rf_Provider \<Rightarrow> Record \<Rightarrow> 'w \<Rightarrow> (err option \<times> 'w rf_Provider \<times> 'w) option" where
  "rf_Create p r w =
     (case toRFC2136Record p r of
        Inl e \<Rightarrow> Some (Some (Errorf ''converting record: '' e), p, w)
      | Inr d \<Rightarrow>
          (case du_Create (rp_client p) d w of
             (Some e, w') \<Rightarrow> Some (Some (Errorf (''creating record '' @ r_Hostname r @ '': '') e), p, w')
           | (None, w') \<Rightarrow> update_catalog cat_Add p (r_Hostname r) w'))"

definition rf_Delete :: "'w rf_Provider \<Rightarrow> Record \<Rightarrow> 'w \<Rightarrow> (err option \<times> 'w rf_Provider \<times> 'w) option" where
  "rf_Delete p r w =
     (case toRFC2136Record p r of
        Inl e \<Rightarrow> Some (Some (Errorf ''converting record: '' e), p, w)
      | Inr d \<Rightarrow>
          (case du_Delete (rp_client p) d w of
             (Some e, w') \<Rightarrow> Some (Some (Errorf (''deleting record '' @ r_Hostname r @ '': '') e), p, w')
           | (None, w') \<Rightarrow> update_catalog cat_Remove p (r_Hostname r) w'))"

definition rf_Update :: "'w rf_Provider \<Rightarrow> Record \<Rightarrow> Record \<Rightarrow> 'w \<Rightarrow> err option \<times> 'w" where
  "rf_Update p existing desired w =
     (case toRFC2136Record p existing of
        Inl e \<Rightarrow> (Some (Errorf ''converting existing record: '' e), w)
      | Inr old \<Rightarrow>
          (case toRFC2136Record p desired of
             Inl e \<Rightarrow> (Some (Errorf ''converting desired record: '' e), w)
           | Inr new \<Rightarrow>
               (case du_Update (rp_client p) old new w of
                  (Some e, w') \<Rightarrow> (Some (Errorf (''updating record '' @ r_Hostname existing @ '': '') e), w')
                | (None, w') \<Rightarrow> (None, w'))))"

subsection \<open>What is written is listed\<close>

lemma recordType_types:
  "toRFC2136Record p r = Inr d \<Longrightarrow> uint16ToRecordType (du_Type d) = Some (r_Type r)"
  by (auto simp: toRFC2136Record_def Let_def recordTypeToUint16_def uint16ToRecordType_def dns_types RecordType_defs
      split: if_splits option.splits)

lemma TrimSuffix_dotted: "TrimSuffix (dotted s) ''.'' = TrimSuffix s ''.''"
  by (auto simp: dotted_def)


definition demo_provider :: "(string, string list) gomap rf_Provider" where
  "demo_provider = \<lparr>rp_name = ''internal'', rp_server = ''ns:53'', rp_zone = ''example.com.'', rp_ttl = 300,
     rp_client = demo_client, rp_catalog = Some demo_catalog\<rparr>"

definition demo_srv :: Record where
  "demo_srv = (record_literal ''_sip._tcp'' ''SRV'' ''pbx.example.com'')
     \<lparr>r_SRV := Some \<lparr>srv_Priority = 10, srv_Weight = 5, srv_Port = 5060\<rparr>\<rparr>"


subsection \<open>Identity\<close>

text \<open>A provider that the registry creates reports no endpoint in its identity, whatever server it was configured with,
so two instances for zones of the same name on different servers have the same identity; one built by the constructor
reports its server.\<close>
theorem rfc2136_factory_identity:
  assumes "rf_Factory connect cfg = Inr p"
  shows "rf_Identity p = \<lparr>id_Type = ''rfc2136'', id_Endpoint = [], id_Zone = map_get [] (fc_ProviderConfig cfg) ''ZONE''\<rparr> \<and>
         (\<exists>c q. rf_LoadConfigFromMap (fc_Name cfg) (fc_ProviderConfig cfg) = Inr c \<and> rf_New connect (fc_Name cfg) (Some c) = Inr q \<and>
            rf_Identity q = \<lparr>id_Type = ''rfc2136'', id_Endpoint = map_get [] (fc_ProviderConfig cfg) ''SERVER'',
              id_Zone = map_get [] (fc_ProviderConfig cfg) ''ZONE''\<rparr> \<and> id_Endpoint (rf_Identity q) \<noteq> [])"
proof -
  obtain c k where c: "rf_LoadConfigFromMap (fc_Name cfg) (fc_ProviderConfig cfg) = Inr c"
    "connect (Some (ToDNSUpdateConfig c)) = Inr k" using assms by (auto simp: rf_Factory_def split: sum.splits)
  then have f: "rf_Server c = map_get [] (fc_ProviderConfig cfg) ''SERVER''" "rf_Zone c = map_get [] (fc_ProviderConfig cfg) ''ZONE''"
    "rf_Validate c = None"
    by (auto simp: rf_LoadConfigFromMap_def rf_config_of_def Let_def split: sum.splits option.splits)
  then have "rf_Server c \<noteq> []" by (auto simp: rf_Validate_def rf_config_errors_def Let_def split: if_splits)
  then show ?thesis using assms c f by (auto simp: rf_Factory_def rf_Identity_def rf_New_def)
qed

definition demo_factory_config :: FactoryConfig where
  "demo_factory_config = \<lparr>fc_Name = ''internal'', fc_ProviderConfig = [(''SERVER'', ''ns1:53''), (''ZONE'', ''example.com.'')],
     fc_HTTP = \<lparr>http_Timeout = 0, http_TLS = None, http_TLSSkipVerify = False, http_UserAgent = []\<rparr>\<rparr>"

definition demo_connect :: "(string, string list) gomap connect" where
  "demo_connect = NewClient (\<lambda>_. None) demo_library (\<lambda>_. demo_exchange) (\<lambda>_ _ w. (Inr [], w))"

theorem rfc2136_factory_identity_witness:
  "\<exists>p q c. rf_Factory demo_connect demo_factory_config = Inr p \<and> rf_New demo_connect ''internal'' (Some c) = Inr q \<and>
     id_Endpoint (rf_Identity p) = [] \<and> id_Endpoint (rf_Identity q) = ''ns1:53''"
proof -
  have "(case rf_Factory demo_connect demo_factory_config of Inl _ \<Rightarrow> False | Inr _ \<Rightarrow> True)" by code_simp
  then obtain p where p: "rf_Factory demo_connect demo_factory_config = Inr p" by (auto split: sum.splits)
  have v: "fc_Name demo_factory_config = ''internal''" "map_get [] (fc_ProviderConfig demo_factory_config) ''SERVER'' = ''ns1:53''"
    by (simp_all add: demo_factory_config_def map_get_def)
  from rfc2136_factory_identity [OF p, unfolded v] obtain c q where "id_Endpoint (rf_Identity p) = []"
    "rf_New demo_connect ''internal'' (Some c) = Inr q" "id_Endpoint (rf_Identity q) = ''ns1:53''" by auto
  with p show ?thesis by blast
qed

end
