(* ===== verification/HttpApi.thy ===== *)
theory HttpApi
  imports InstanceConfig ProviderRegistry
begin

text \<open>
  What the HTTP providers share: JSON documents and how \<^verbatim>\<open>encoding/json\<close> stores one into a struct, requests and
  responses, \<^verbatim>\<open>ReadBody\<close> of \<^verbatim>\<open>pkg/httputil\<close>, and the escaping of \<^verbatim>\<open>net/url\<close>. Sending a request is an
  argument over a world. A response has its text and the document that the text denotes, if it is JSON; the body of a
  request is a document. The texts of decoding errors are shortened.
\<close>

subsection \<open>JSON\<close>

text \<open>A number is an integer literal or another literal; the keys of an object stand in order and may repeat.\<close>

datatype json =
    JNull | JBool bool | JInt int | JFrac string | JStr string | JArr "json list" | JObj "(string \<times> json) list"

text \<open>
  A decoder stores a document into a Go variable: \<^verbatim>\<open>null\<close> leaves the variable as it is, keys without a field are skipped,
  a field that no key names keeps its value, and a key names a field exactly or else up to case.
\<close>

type_synonym 'a decoder = "json \<Rightarrow> 'a \<Rightarrow> err + 'a"

definition type_error :: "string \<Rightarrow> err" where
  "type_error t = ErrorNew (''json: cannot unmarshal into Go value of type '' @ t)"

definition dec_string :: "string decoder" where
  "dec_string j s = (case j of JNull \<Rightarrow> Inr s | JStr t \<Rightarrow> Inr t | _ \<Rightarrow> Inl (type_error ''string''))"

definition dec_bool :: "bool decoder" where
  "dec_bool j b = (case j of JNull \<Rightarrow> Inr b | JBool c \<Rightarrow> Inr c | _ \<Rightarrow> Inl (type_error ''bool''))"

definition dec_int :: "int decoder" where
  "dec_int j n =
     (case j of
        JNull \<Rightarrow> Inr n
      | JInt i \<Rightarrow> if - (2 ^ 63) \<le> i \<and> i < 2 ^ 63 then Inr i else Inl (type_error ''int'')
      | _ \<Rightarrow> Inl (type_error ''int''))"

definition dec_uint16 :: "uint16 decoder" where
  "dec_uint16 j n =
     (case j of
        JNull \<Rightarrow> Inr n
      | JInt i \<Rightarrow> if 0 \<le> i \<and> i < 2 ^ 16 then Inr (word_of_int i) else Inl (type_error ''uint16'')
      | _ \<Rightarrow> Inl (type_error ''uint16''))"

fun dec_items :: "'a \<Rightarrow> 'a decoder \<Rightarrow> json list \<Rightarrow> err + 'a list" where
  "dec_items zero d [] = Inr []"
| "dec_items zero d (j # js) =
     (case d j zero of
        Inl e \<Rightarrow> Inl e
      | Inr x \<Rightarrow> (case dec_items zero d js of Inl e \<Rightarrow> Inl e | Inr xs \<Rightarrow> Inr (x # xs)))"

definition dec_list :: "'a \<Rightarrow> 'a decoder \<Rightarrow> 'a list decoder" where
  "dec_list zero d j xs =
     (case j of JNull \<Rightarrow> Inr [] | JArr js \<Rightarrow> dec_items zero d js | _ \<Rightarrow> Inl (type_error ''slice''))"

text \<open>A field of pointer type.\<close>

definition dec_pointer :: "'a \<Rightarrow> 'a decoder \<Rightarrow> 'a option decoder" where
  "dec_pointer zero d j x =
     (if j = JNull then Inr None
      else case d j (case x of None \<Rightarrow> zero | Some y \<Rightarrow> y) of Inl e \<Rightarrow> Inl e | Inr y \<Rightarrow> Inr (Some y))"

definition on_field :: "('a \<Rightarrow> 'b) \<Rightarrow> ('b \<Rightarrow> 'a \<Rightarrow> 'a) \<Rightarrow> 'b decoder \<Rightarrow> 'a decoder" where
  "on_field rd upd d j x = (case d j (rd x) of Inl e \<Rightarrow> Inl e | Inr b \<Rightarrow> Inr (upd b x))"

definition find_field :: "(string \<times> 'a) list \<Rightarrow> string \<Rightarrow> 'a option" where
  "find_field fs k =
     (case map_of fs k of Some d \<Rightarrow> Some d | None \<Rightarrow> map_option snd (find (\<lambda>(n, _). EqualFold n k) fs))"

fun dec_pairs :: "(string \<times> 'a decoder) list \<Rightarrow> (string \<times> json) list \<Rightarrow> 'a \<Rightarrow> err + 'a" where
  "dec_pairs fs [] x = Inr x"
| "dec_pairs fs ((k, v) # kvs) x =
     (case find_field fs k of
        None \<Rightarrow> dec_pairs fs kvs x
      | Some d \<Rightarrow> (case d v x of Inl e \<Rightarrow> Inl e | Inr y \<Rightarrow> dec_pairs fs kvs y))"

definition dec_struct :: "(string \<times> 'a decoder) list \<Rightarrow> 'a decoder" where
  "dec_struct fs j x =
     (case j of JNull \<Rightarrow> Inr x | JObj kvs \<Rightarrow> dec_pairs fs kvs x | _ \<Rightarrow> Inl (type_error ''struct''))"

text \<open>A map with strings as keys; a key that repeats has its last value.\<close>

fun dec_map_items :: "'a \<Rightarrow> 'a decoder \<Rightarrow> (string \<times> json) list \<Rightarrow> (string, 'a) gomap \<Rightarrow> err + (string, 'a) gomap" where
  "dec_map_items zero d [] m = Inr m"
| "dec_map_items zero d ((k, v) # kvs) m =
     (case d v zero of Inl e \<Rightarrow> Inl e | Inr x \<Rightarrow> dec_map_items zero d kvs (AList.update k x m))"

definition dec_map :: "'a \<Rightarrow> 'a decoder \<Rightarrow> (string, 'a) gomap decoder" where
  "dec_map zero d j m = (case j of JNull \<Rightarrow> Inr [] | JObj kvs \<Rightarrow> dec_map_items zero d kvs m | _ \<Rightarrow> Inl (type_error ''map''))"

definition dec_string_map :: "(string, string) gomap decoder" where
  "dec_string_map = dec_map [] dec_string"

text \<open>Fields with \<^verbatim>\<open>omitempty\<close>.\<close>

definition omit_empty :: "bool \<Rightarrow> string \<Rightarrow> json \<Rightarrow> (string \<times> json) list" where
  "omit_empty is_zero k j = (if is_zero then [] else [(k, j)])"

subsection \<open>HTTP\<close>

datatype http_body = NoBody | JsonBody json

record http_request =
  hq_Method :: string
  hq_URL :: string
  hq_Header :: "(string \<times> string) list"
  hq_Body :: http_body

record api_response = http_response +
  hr_Json :: "json option"

text \<open>\<^verbatim>\<open>http.NewRequestWithContext\<close> fails on a URL it cannot parse; \<open>ht_Do\<close> sends.\<close>

record 'w http =
  ht_NewRequest :: "string \<Rightarrow> string \<Rightarrow> err option"
  ht_Do :: "http_request \<Rightarrow> 'w \<Rightarrow> (err + api_response) \<times> 'w"

definition MaxResponseSize :: nat where
  "MaxResponseSize = 10 * 1024 * 1024"

text \<open>\<^verbatim>\<open>ReadBody\<close> reads one byte more than it accepts; a read error after that point is not seen.\<close>

definition ReadBody :: "api_response \<Rightarrow> nat \<Rightarrow> err + string" where
  "ReadBody resp maxBytes0 =
     (let maxBytes = (if maxBytes0 = 0 then MaxResponseSize else maxBytes0);
          data = take (maxBytes + 1) (hr_Body resp)
      in case (if length data \<le> maxBytes then hr_ReadError resp else None) of
           Some e \<Rightarrow> Inl (Errorf ''reading response body: '' e)
         | None \<Rightarrow>
             if length data > maxBytes
             then Inl (ErrorNew (''response body exceeds maximum size of '' @ Itoa maxBytes @ '' bytes''))
             else Inr data)"

definition Unmarshal :: "'a decoder \<Rightarrow> 'a \<Rightarrow> api_response \<Rightarrow> err + 'a" where
  "Unmarshal d zero resp =
     (case hr_Json resp of None \<Rightarrow> Inl (ErrorNew ''invalid JSON'') | Some j \<Rightarrow> d j zero)"

definition MethodGet :: string where "MethodGet = ''GET''"
definition MethodPost :: string where "MethodPost = ''POST''"
definition MethodPut :: string where "MethodPut = ''PUT''"
definition MethodPatch :: string where "MethodPatch = ''PATCH''"
definition MethodDelete :: string where "MethodDelete = ''DELETE''"

lemmas http_methods = MethodGet_def MethodPost_def MethodPut_def MethodPatch_def MethodDelete_def

definition status_2xx :: "api_response \<Rightarrow> bool" where
  "status_2xx resp \<longleftrightarrow> 200 \<le> hr_StatusCode resp \<and> hr_StatusCode resp < 300"

text \<open>\<^verbatim>\<open>strings.Cut\<close> at a character.\<close>

definition Cut1 :: "string \<Rightarrow> char \<Rightarrow> string \<times> string \<times> bool" where
  "Cut1 s c = (let before = takeWhile (\<lambda>d. d \<noteq> c) s in (before, drop (length before + 1) s, c \<in> set s))"

subsection \<open>URLs\<close>

definition TrimRight1 :: "string \<Rightarrow> char \<Rightarrow> string" where
  "TrimRight1 s c = rev (dropWhile (\<lambda>d. d = c) (rev s))"

definition upper_hex :: "nat \<Rightarrow> char" where
  "upper_hex d = (if d < 10 then char_of (48 + d) else char_of (55 + d))"

definition percent :: "char \<Rightarrow> string" where
  "percent c = [CHR ''%'', upper_hex (byte c div 16), upper_hex (byte c mod 16)]"

definition unreserved :: "char \<Rightarrow> bool" where
  "unreserved c \<longleftrightarrow> is_digit c \<or> is_upper c \<or> is_lower c \<or> c \<in> set ''-_.~''"

definition PathEscape :: "string \<Rightarrow> string" where
  "PathEscape s = concat (map (\<lambda>c. if unreserved c \<or> c \<in> set ''$&+:=@'' then [c] else percent c) s)"

definition QueryEscape :: "string \<Rightarrow> string" where
  "QueryEscape s = concat (map (\<lambda>c. if unreserved c then [c] else if c = CHR '' '' then ''+'' else percent c) s)"

text \<open>\<^verbatim>\<open>url.Values\<close> with one value for every key, as the providers build them, and its \<^verbatim>\<open>Encode\<close>.\<close>

type_synonym url_values = "(string, string) gomap"

definition Values_Encode :: "url_values \<Rightarrow> string" where
  "Values_Encode vs =
     Join (map (\<lambda>k. QueryEscape k @ ''='' @ QueryEscape (map_get [] vs k)) (sort (map fst vs))) ''&''"

text \<open>
  What the configurations read of \<^verbatim>\<open>url.Parse\<close>: the scheme and whether the authority has user information. The
  function \<open>malformed\<close> decides which texts are rejected for their escapes, host or port, and with what error.
\<close>

record parsed_url =
  u_Scheme :: string
  u_User :: bool

definition scheme_char :: "char \<Rightarrow> bool" where
  "scheme_char c \<longleftrightarrow> is_upper c \<or> is_lower c \<or> is_digit c \<or> c \<in> set ''+-.''"

definition url_getScheme :: "string \<Rightarrow> (string \<times> string) option" where
  "url_getScheme s =
     (let p = takeWhile scheme_char s; rest = dropWhile scheme_char s in
      if p \<noteq> [] \<and> \<not> is_upper (hd p) \<and> \<not> is_lower (hd p) then Some ([], s)
      else if rest \<noteq> [] \<and> hd rest = CHR '':'' then (if p = [] then None else Some (p, tl rest))
      else Some ([], s))"

definition url_Parse :: "(string \<Rightarrow> err option) \<Rightarrow> string \<Rightarrow> err + parsed_url" where
  "url_Parse malformed raw =
     (case malformed raw of
        Some e \<Rightarrow> Inl e
      | None \<Rightarrow>
          (case url_getScheme (takeWhile (\<lambda>c. c \<noteq> CHR ''#'') raw) of
             None \<Rightarrow> Inl (ErrorNew (''parse '' @ Quote raw @ '': missing protocol scheme''))
           | Some (scheme, rest0) \<Rightarrow>
               let rest = takeWhile (\<lambda>c. c \<noteq> CHR ''?'') rest0;
                   authority = (if HasPrefix rest ''//'' \<and> (scheme \<noteq> [] \<or> \<not> HasPrefix rest ''///'')
                                then takeWhile (\<lambda>c. c \<noteq> CHR ''/'') (drop 2 rest) else [])
               in Inr \<lparr>u_Scheme = ToLower scheme, u_User = (CHR ''@'' \<in> set authority)\<rparr>))"

text \<open>The checks of a URL that most configurations make.\<close>

definition http_url_errors :: "(string \<Rightarrow> err option) \<Rightarrow> string \<Rightarrow> string list" where
  "http_url_errors malformed u =
     (if u = [] then [''URL is required'']
      else case url_Parse malformed u of
        Inl e \<Rightarrow> [''invalid URL: '' @ Error e]
      | Inr parsed \<Rightarrow>
          if u_Scheme parsed \<noteq> ''http'' \<and> u_Scheme parsed \<noteq> ''https'' then [''URL must start with http:// or https://'']
          else if u_User parsed then [''URL must not contain embedded credentials''] else [])"

text \<open>\<^verbatim>\<open>fmt.Sscanf(s, "%d", &n)\<close> reads a number after white space and ignores what follows it.\<close>

definition Sscanf_d :: "string \<Rightarrow> err + int" where
  "Sscanf_d s =
     (let t = dropWhile (\<lambda>c. is_space c \<and> c \<noteq> newline) s;
          sign = (if t \<noteq> [] \<and> (hd t = CHR ''+'' \<or> hd t = CHR ''-'') then [hd t] else []);
          digits = takeWhile is_digit (drop (length sign) t)
      in if t = [] then Inl (ErrorNew ''EOF'')
         else if digits = [] then Inl (ErrorNew ''expected integer'')
         else Atoi (sign @ digits))"

text \<open>\<^verbatim>\<open>base64.StdEncoding\<close>, which basic authentication uses.\<close>

definition b64_digit :: "nat \<Rightarrow> char" where
  "b64_digit d = ''ABCDEFGHIJKLMNOPQRSTUVWXYZabcdefghijklmnopqrstuvwxyz0123456789+/'' ! d"

fun base64 :: "string \<Rightarrow> string" where
  "base64 [] = []"
| "base64 [a] = [b64_digit (byte a div 4), b64_digit (byte a mod 4 * 16), CHR ''='', CHR ''='']"
| "base64 [a, b] =
     [b64_digit (byte a div 4), b64_digit (byte a mod 4 * 16 + byte b div 16), b64_digit (byte b mod 16 * 4), CHR ''='']"
| "base64 (a # b # c # s) =
     [b64_digit (byte a div 4), b64_digit (byte a mod 4 * 16 + byte b div 16), b64_digit (byte b mod 16 * 4 + byte c div 64),
      b64_digit (byte c mod 64)] @ base64 s"

text \<open>Signed arithmetic of 64 bits wraps around.\<close>

definition int64 :: "int \<Rightarrow> int" where "int64 n = sint (word_of_int n :: 64 word)"

text \<open>The fields that an object keeps between calls are a cell of the world.\<close>

record ('s, 'w) cell =
  cell_get :: "'w \<Rightarrow> 's"
  cell_set :: "'s \<Rightarrow> 'w \<Rightarrow> 'w"

definition cell_ok :: "('s, 'w) cell \<Rightarrow> bool" where
  "cell_ok c \<longleftrightarrow> (\<forall>s w. cell_get c (cell_set c s w) = s)"

subsection \<open>Conversations\<close>

text \<open>
  \<open>sends h Q w w'\<close>: from the world \<open>w\<close> a run of requests, each of which satisfies \<open>Q\<close>, leads to \<open>w'\<close>. What a server
  promises of every request in \<open>Q\<close> carries over to the run.
\<close>

inductive sends :: "'w http \<Rightarrow> (http_request \<Rightarrow> bool) \<Rightarrow> 'w \<Rightarrow> 'w \<Rightarrow> bool" for h Q where
  sends_refl [intro, simp]: "sends h Q w w"
| sends_step: "sends h Q w w' \<Longrightarrow> Q req \<Longrightarrow> sends h Q w (snd (ht_Do h req w'))"

lemma sends_one: "ht_Do h req w = (r, w') \<Longrightarrow> Q req \<Longrightarrow> sends h Q w w'"
  using sends_step [of h Q w w req] by simp

lemma sends_trans [trans]: "sends h Q w w' \<Longrightarrow> sends h Q w' w2 \<Longrightarrow> sends h Q w w2"
  by (rotate_tac, induction rule: sends.induct) (auto intro: sends_step)

lemma sends_mono: "sends h Q w w' \<Longrightarrow> (\<And>req. Q req \<Longrightarrow> R req) \<Longrightarrow> sends h R w w'"
  by (induction rule: sends.induct) (auto intro: sends_step)

lemma sends_invariant:
  assumes "sends h Q w w'" "\<And>req w. Q req \<Longrightarrow> V (snd (ht_Do h req w)) = V w"
  shows "V w' = V w"
  using assms by (induction rule: sends.induct) auto

interpretation conversation: world_order "sends h Q" for h Q
  by unfold_locales (auto intro: sends_trans)

text \<open>A world that records the requests and answers them by a function of the request and what came before.\<close>

definition logged :: "(http_request \<Rightarrow> http_request list \<Rightarrow> err + api_response) \<Rightarrow> http_request list http" where
  "logged srv = \<lparr>ht_NewRequest = (\<lambda>_ _. None), ht_Do = (\<lambda>req w. (srv req w, w @ [req]))\<rparr>"

lemma logged_Do [simp]: "ht_Do (logged srv) req w = (srv req w, w @ [req])"
  "ht_NewRequest (logged srv) m u = None"
  by (simp_all add: logged_def)

lemma logged_sends: "sends (logged srv) Q w w' \<Longrightarrow> \<exists>reqs. w' = w @ reqs \<and> list_all Q reqs"
  by (induction rule: sends.induct) auto

subsection \<open>Lemmas\<close>

lemma find_field_exact: "map_of fs k = Some d \<Longrightarrow> find_field fs k = Some d"
  by (simp add: find_field_def)

lemma dec_items_map:
  assumes "\<And>x. x \<in> set xs \<Longrightarrow> d (f x) zero = Inr x"
  shows "dec_items zero d (map f xs) = Inr xs"
  using assms by (induction xs) auto

text \<open>An empty body needs no limit; evaluation starts with this case.\<close>

lemma ReadBody_code [code]:
  "ReadBody resp n =
     (if hr_Body resp = [] \<and> hr_ReadError resp = None then Inr []
      else
        (let maxBytes = (if n = 0 then MaxResponseSize else n);
             data = take (maxBytes + 1) (hr_Body resp)
         in case (if length data \<le> maxBytes then hr_ReadError resp else None) of
              Some e \<Rightarrow> Inl (Errorf ''reading response body: '' e)
            | None \<Rightarrow>
                if length data > maxBytes
                then Inl (ErrorNew (''response body exceeds maximum size of '' @ Itoa maxBytes @ '' bytes''))
                else Inr data))"
  by (simp add: ReadBody_def)

lemma TrimRight1_idem [simp]: "TrimRight1 (TrimRight1 s c) c = TrimRight1 s c"
proof -
  have "dropWhile P (dropWhile P xs) = dropWhile P xs" for P and xs :: string
    by (induction xs) auto
  then show ?thesis by (simp add: TrimRight1_def)
qed

end
