(* ===== verification/PowerDns.thy ===== *)
theory PowerDns
  imports HttpApi RecordStore
begin

text \<open>
  \<^verbatim>\<open>providers/powerdns\<close>: configuration, the codec of record contents, the API client and the provider, which reads the
  record set of a name and type, changes it and writes it back whole. Log lines and the construction of the HTTP client
  are left out.
\<close>

subsection \<open>Configuration\<close>

record pd_Config =
  pdc_URL :: string
  pdc_APIKey :: string
  pdc_Zone :: string
  pdc_ServerID :: string
  pdc_TTL :: int

definition pd_DefaultTTL :: int where "pd_DefaultTTL = 300"
definition DefaultServerID :: string where "DefaultServerID = ''localhost''"

definition pd_Validate :: "pd_Config \<Rightarrow> err option" where
  "pd_Validate c =
     (let errs = (if pdc_URL c = [] then [''URL is required''] else []) @
                 (if pdc_APIKey c = [] then [''API_KEY is required''] else []) @
                 (if pdc_Zone c = [] then [''ZONE is required''] else []) @
                 (if pdc_TTL c < 0 then [''TTL must be non-negative''] else [])
      in if errs \<noteq> [] then Some (ErrorNew (''powerdns config validation failed: '' @ Join errs ''; '')) else None)"

text \<open>Both loaders share everything but where the values come from.\<close>

definition pd_config_of :: "string \<Rightarrow> (string \<Rightarrow> string) \<Rightarrow> string \<Rightarrow> err + pd_Config" where
  "pd_config_of name get apiKey =
     (let c = \<lparr>pdc_URL = TrimRight1 (get ''URL'') (CHR ''/''), pdc_APIKey = apiKey, pdc_Zone = get ''ZONE'',
               pdc_ServerID = (if get ''SERVER_ID'' = [] then DefaultServerID else get ''SERVER_ID''), pdc_TTL = pd_DefaultTTL\<rparr>;
          ttlStr = get ''TTL'';
          finish = (\<lambda>c. case pd_Validate c of
                      Some e \<Rightarrow> Inl (Errorf (''configuration for '' @ name @ '': '') e) | None \<Rightarrow> Inr c)
      in if ttlStr \<noteq> [] then
           (case Atoi ttlStr of
              Inl e \<Rightarrow> Inl (Errorf (''invalid TTL value '' @ Quote ttlStr @ '': '') e)
            | Inr ttl \<Rightarrow> finish (c\<lparr>pdc_TTL := ttl\<rparr>))
         else finish c)"

definition pd_LoadConfigFromMap :: "string \<Rightarrow> (string, string) gomap \<Rightarrow> err + pd_Config" where
  "pd_LoadConfigFromMap name m = pd_config_of name (map_get [] m) (map_get [] m ''API_KEY'')"

text \<open>A secret file that cannot be read falls back to the variable.\<close>

definition pd_getEnvOrFile :: "environment \<Rightarrow> string \<Rightarrow> string \<Rightarrow> string" where
  "pd_getEnvOrFile E directKey fileKey =
     (let filePath = getEnv E fileKey in
      if filePath \<noteq> [] then (case ev_ReadFile E filePath of Inr content \<Rightarrow> TrimSpace content | Inl _ \<Rightarrow> getEnv E directKey)
      else getEnv E directKey)"

definition pd_envPrefix :: "string \<Rightarrow> string" where
  "pd_envPrefix name = ''DNSWEAVER_'' @ ReplaceAll1 (CHR ''-'') (CHR ''_'') (ToUpper name) @ ''_''"

definition pd_LoadConfig :: "environment \<Rightarrow> string \<Rightarrow> err + pd_Config" where
  "pd_LoadConfig E name =
     (let pre = pd_envPrefix name in
      pd_config_of name (\<lambda>k. getEnv E (pre @ k)) (pd_getEnvOrFile E (pre @ ''API_KEY'') (pre @ ''API_KEY_FILE'')))"

subsection \<open>Names and contents\<close>

definition canonicalize :: "string \<Rightarrow> string" where
  "canonicalize name = (if name = [] then ''.'' else if HasSuffix name ''.'' then name else name @ ''.'')"

definition stripDot :: "string \<Rightarrow> string" where
  "stripDot name = TrimSuffix name ''.''"

definition backslash :: char where "backslash = CHR 0x5C"
definition dquote :: char where "dquote = CHR 0x22"

definition quoteTXT :: "string \<Rightarrow> string" where
  "quoteTXT s = dquote # concat (map (\<lambda>c. if c = dquote \<or> c = backslash then [backslash, c] else [c]) s) @ [dquote]"

fun unescape :: "bool \<Rightarrow> string \<Rightarrow> string" where
  "unescape escaped [] = []"
| "unescape escaped (c # s) =
     (if escaped then c # unescape False s else if c = backslash then unescape True s else c # unescape False s)"

definition unquoteTXT :: "string \<Rightarrow> string" where
  "unquoteTXT s =
     (if length s < 2 \<or> \<not> HasPrefix s [dquote] \<or> \<not> HasSuffix s [dquote] then s
      else unescape False (butlast (tl s)))"

definition encodeSRVContent :: "SRVData \<Rightarrow> string \<Rightarrow> string" where
  "encodeSRVContent srv target =
     Itoa (unat (srv_Priority srv)) @ '' '' @ Itoa (unat (srv_Weight srv)) @ '' '' @ Itoa (unat (srv_Port srv)) @ '' '' @
     canonicalize target"

definition parseSRVContent :: "string \<Rightarrow> err + SRVData \<times> string" where
  "parseSRVContent content =
     (case FieldsFunc content is_space of
        [a, b, c, d] \<Rightarrow>
          (case ParseUint16 a of
             Inl e \<Rightarrow> Inl (Errorf (''invalid SRV priority '' @ Quote a @ '': '') e)
           | Inr prio \<Rightarrow>
               (case ParseUint16 b of
                  Inl e \<Rightarrow> Inl (Errorf (''invalid SRV weight '' @ Quote b @ '': '') e)
                | Inr weight \<Rightarrow>
                    (case ParseUint16 c of
                       Inl e \<Rightarrow> Inl (Errorf (''invalid SRV port '' @ Quote c @ '': '') e)
                     | Inr port \<Rightarrow> Inr (\<lparr>srv_Priority = prio, srv_Weight = weight, srv_Port = port\<rparr>, stripDot d))))
      | _ \<Rightarrow> Inl (ErrorNew (''invalid SRV content '' @ Quote content @ '': expected 4 fields'')))"

definition recordContent :: "Record \<Rightarrow> err + string" where
  "recordContent r =
     (if r_Type r = RecordTypeA \<or> r_Type r = RecordTypeAAAA then Inr (r_Target r)
      else if r_Type r = RecordTypeCNAME then Inr (canonicalize (r_Target r))
      else if r_Type r = RecordTypeTXT then Inr (quoteTXT (r_Target r))
      else if r_Type r = RecordTypeSRV then
        (case r_SRV r of
           None \<Rightarrow> Inl (ErrorNew ''SRV record requires SRV data'')
         | Some srv \<Rightarrow> Inr (encodeSRVContent srv (r_Target r)))
      else Inl (ErrorNew (''unsupported record type '' @ r_Type r)))"

definition decodeContent :: "RecordType \<Rightarrow> string \<Rightarrow> err + string \<times> SRVData option" where
  "decodeContent rt content =
     (if rt = RecordTypeA \<or> rt = RecordTypeAAAA then Inr (content, None)
      else if rt = RecordTypeCNAME then Inr (stripDot content, None)
      else if rt = RecordTypeTXT then Inr (unquoteTXT content, None)
      else if rt = RecordTypeSRV then
        (case parseSRVContent content of Inl e \<Rightarrow> Inl e | Inr (srv, target) \<Rightarrow> Inr (target, Some srv))
      else Inl (ErrorNew (''unsupported record type '' @ rt)))"

subsection \<open>The API client\<close>

record apiRecord =
  ar_Content :: string
  ar_Disabled :: bool

record rrset =
  rs_Name :: string
  rs_Type :: string
  rs_TTL :: int
  rs_ChangeType :: string
  rs_Records :: "apiRecord list"

definition dec_apiRecord :: "apiRecord decoder" where
  "dec_apiRecord = dec_struct
     [(''content'', on_field ar_Content (\<lambda>v r. r\<lparr>ar_Content := v\<rparr>) dec_string),
      (''disabled'', on_field ar_Disabled (\<lambda>v r. r\<lparr>ar_Disabled := v\<rparr>) dec_bool)]"

definition no_apiRecord :: apiRecord where "no_apiRecord = \<lparr>ar_Content = [], ar_Disabled = False\<rparr>"
definition no_rrset :: rrset where
  "no_rrset = \<lparr>rs_Name = [], rs_Type = [], rs_TTL = 0, rs_ChangeType = [], rs_Records = []\<rparr>"

definition dec_rrset :: "rrset decoder" where
  "dec_rrset = dec_struct
     [(''name'', on_field rs_Name (\<lambda>v r. r\<lparr>rs_Name := v\<rparr>) dec_string),
      (''type'', on_field rs_Type (\<lambda>v r. r\<lparr>rs_Type := v\<rparr>) dec_string),
      (''ttl'', on_field rs_TTL (\<lambda>v r. r\<lparr>rs_TTL := v\<rparr>) dec_int),
      (''changetype'', on_field rs_ChangeType (\<lambda>v r. r\<lparr>rs_ChangeType := v\<rparr>) dec_string),
      (''records'', on_field rs_Records (\<lambda>v r. r\<lparr>rs_Records := v\<rparr>) (dec_list no_apiRecord dec_apiRecord))]"

record zoneResponse =
  zr_Name :: string
  zr_RRsets :: "rrset list"

definition dec_zoneResponse :: "zoneResponse decoder" where
  "dec_zoneResponse = dec_struct
     [(''name'', on_field zr_Name (\<lambda>v r. r\<lparr>zr_Name := v\<rparr>) dec_string),
      (''rrsets'', on_field zr_RRsets (\<lambda>v r. r\<lparr>zr_RRsets := v\<rparr>) (dec_list no_rrset dec_rrset))]"

definition apiRecord_json :: "apiRecord \<Rightarrow> json" where
  "apiRecord_json r = JObj [(''content'', JStr (ar_Content r)), (''disabled'', JBool (ar_Disabled r))]"

definition rrset_json :: "rrset \<Rightarrow> json" where
  "rrset_json r = JObj
     ([(''name'', JStr (rs_Name r)), (''type'', JStr (rs_Type r))] @
      omit_empty (rs_TTL r = 0) ''ttl'' (JInt (rs_TTL r)) @
      omit_empty (rs_ChangeType r = []) ''changetype'' (JStr (rs_ChangeType r)) @
      omit_empty (rs_Records r = []) ''records'' (JArr (map apiRecord_json (rs_Records r))))"

definition patch_json :: "rrset list \<Rightarrow> json" where
  "patch_json rs = JObj [(''rrsets'', JArr (map rrset_json rs))]"

definition errZoneNotFound :: err where "errZoneNotFound = ErrorNew ''zone not found''"

record 'w pd_Client =
  pdk_baseURL :: string
  pdk_apiKey :: string
  pdk_serverID :: string
  pdk_http :: "'w http"

definition pd_NewClient :: "'w http \<Rightarrow> string \<Rightarrow> string \<Rightarrow> string \<Rightarrow> 'w pd_Client" where
  "pd_NewClient h baseURL apiKey serverID =
     \<lparr>pdk_baseURL = TrimRight1 baseURL (CHR ''/''), pdk_apiKey = apiKey, pdk_serverID = serverID, pdk_http = h\<rparr>"

definition zonePath :: "'w pd_Client \<Rightarrow> string \<Rightarrow> string" where
  "zonePath c zone = ''/api/v1/servers/'' @ PathEscape (pdk_serverID c) @ ''/zones/'' @ PathEscape (canonicalize zone)"

definition error_body :: "api_response \<Rightarrow> string option" where
  "error_body resp =
     (case Unmarshal (dec_struct [(''error'', dec_string)]) [] resp of Inl _ \<Rightarrow> None | Inr m \<Rightarrow> if m \<noteq> [] then Some m else None)"

definition pd_mapError :: "api_response \<Rightarrow> string \<Rightarrow> err" where
  "pd_mapError resp body =
     (let status = hr_StatusCode resp;
          msg = (case error_body resp of Some m \<Rightarrow> m | None \<Rightarrow> TrimSpace body)
      in if status = 401 \<or> status = 403 then ErrorfAfter ErrUnauthorized msg
         else if status = 404 then errZoneNotFound
         else if status = 422 then ErrorNew (''powerdns rejected request (422): '' @ msg)
         else if status \<ge> 500 then
           ErrorfAfter ErrProviderUnavailable (''server returned '' @ Itoa status @ '': '' @ msg)
         else ErrorNew (''powerdns API error (status '' @ Itoa status @ ''): '' @ msg))"

definition pd_request :: "'w pd_Client \<Rightarrow> string \<Rightarrow> string \<Rightarrow> http_body \<Rightarrow> http_request" where
  "pd_request c method path body =
     \<lparr>hq_Method = method, hq_URL = pdk_baseURL c @ path,
      hq_Header = [(''X-API-Key'', pdk_apiKey c), (''Accept'', ''application/json'')] @
        (if body \<noteq> NoBody then [(''Content-Type'', ''application/json'')] else []),
      hq_Body = body\<rparr>"

definition pd_doRequest :: "'w pd_Client \<Rightarrow> string \<Rightarrow> string \<Rightarrow> http_body \<Rightarrow> 'w \<Rightarrow> (err + api_response) \<times> 'w" where
  "pd_doRequest c method path body w =
     (case ht_NewRequest (pdk_http c) method (pdk_baseURL c @ path) of
        Some e \<Rightarrow> (Inl (Errorf ''creating request: '' e), w)
      | None \<Rightarrow>
          (case ht_Do (pdk_http c) (pd_request c method path body) w of
             (Inl e, w') \<Rightarrow> (Inl (ErrorfTwo ErrProviderUnavailable e), w')
           | (Inr resp, w') \<Rightarrow>
               (case ReadBody resp 0 of
                  Inl e \<Rightarrow> (Inl (Errorf ''reading response body: '' e), w')
                | Inr respBody \<Rightarrow>
                    if \<not> status_2xx resp then (Inl (pd_mapError resp respBody), w') else (Inr resp, w'))))"

definition pd_client_Ping :: "'w pd_Client \<Rightarrow> 'w \<Rightarrow> err option \<times> 'w" where
  "pd_client_Ping c w =
     (case pd_doRequest c MethodGet ''/api/v1/servers'' NoBody w of (Inl e, w') \<Rightarrow> (Some e, w') | (Inr _, w') \<Rightarrow> (None, w'))"

definition GetZone :: "'w pd_Client \<Rightarrow> string \<Rightarrow> 'w \<Rightarrow> (err + zoneResponse) \<times> 'w" where
  "GetZone c zone w =
     (case pd_doRequest c MethodGet (zonePath c zone) NoBody w of
        (Inl e, w') \<Rightarrow> (Inl e, w')
      | (Inr resp, w') \<Rightarrow>
          (case Unmarshal dec_zoneResponse \<lparr>zr_Name = [], zr_RRsets = []\<rparr> resp of
             Inl e \<Rightarrow> (Inl (Errorf ''parsing zone response: '' e), w')
           | Inr z \<Rightarrow> (Inr z, w')))"

definition PatchRRsets :: "'w pd_Client \<Rightarrow> string \<Rightarrow> rrset list \<Rightarrow> 'w \<Rightarrow> err option \<times> 'w" where
  "PatchRRsets c zone rrsets w =
     (case pd_doRequest c MethodPatch (zonePath c zone) (JsonBody (patch_json rrsets)) w of
        (Inl e, w') \<Rightarrow> (Some e, w') | (Inr _, w') \<Rightarrow> (None, w'))"

subsection \<open>The provider\<close>

record 'w pd_Provider =
  pdp_name :: string
  pdp_zone :: string
  pdp_serverID :: string
  pdp_ttl :: int
  pdp_client :: "'w pd_Client"

definition pd_New :: "'w http \<Rightarrow> string \<Rightarrow> pd_Config option \<Rightarrow> err + 'w pd_Provider" where
  "pd_New h name config =
     (case config of
        None \<Rightarrow> Inl (ErrorNew ''config is required'')
      | Some c \<Rightarrow>
          (case pd_Validate c of
             Some e \<Rightarrow> Inl e
           | None \<Rightarrow> Inr \<lparr>pdp_name = name, pdp_zone = pdc_Zone c, pdp_serverID = pdc_ServerID c, pdp_ttl = pdc_TTL c,
                          pdp_client = pd_NewClient h (pdc_URL c) (pdc_APIKey c) (pdc_ServerID c)\<rparr>))"

definition pd_NewFromEnv :: "'w http \<Rightarrow> environment \<Rightarrow> string \<Rightarrow> err + 'w pd_Provider" where
  "pd_NewFromEnv h E name = (case pd_LoadConfig E name of Inl e \<Rightarrow> Inl e | Inr c \<Rightarrow> pd_New h name (Some c))"

definition pd_NewFromMap :: "'w http \<Rightarrow> string \<Rightarrow> (string, string) gomap \<Rightarrow> err + 'w pd_Provider" where
  "pd_NewFromMap h name m = (case pd_LoadConfigFromMap name m of Inl e \<Rightarrow> Inl e | Inr c \<Rightarrow> pd_New h name (Some c))"

definition pd_Capabilities :: Capabilities where
  "pd_Capabilities = \<lparr>SupportsOwnershipTXT = True, SupportsNativeUpdate = True,
     SupportedRecordTypes = [RecordTypeA, RecordTypeAAAA, RecordTypeCNAME, RecordTypeSRV, RecordTypeTXT]\<rparr>"

definition pd_Identity :: "'w pd_Provider \<Rightarrow> ProviderIdentity" where
  "pd_Identity p = \<lparr>id_Type = ''powerdns'', id_Endpoint = pdk_baseURL (pdp_client p), id_Zone = pdp_zone p\<rparr>"

definition pd_Ping :: "'w pd_Provider \<Rightarrow> 'w \<Rightarrow> err option \<times> 'w" where
  "pd_Ping p w =
     (case pd_client_Ping (pdp_client p) w of
        (Some e, w') \<Rightarrow> (Some (Errorf ''ping failed: '' e), w')
      | (None, w') \<Rightarrow>
          (case GetZone (pdp_client p) (pdp_zone p) w' of
             (Inl e, w2) \<Rightarrow>
               if errors_Is e errZoneNotFound then
                 (Some (ErrorNew (''zone '' @ Quote (pdp_zone p) @ '' not found on PowerDNS server '' @ Quote (pdp_serverID p) @
                    ''; create the zone before using it with dnsweaver'')), w2)
               else (Some (Errorf ''ping failed: '' e), w2)
           | (Inr _, w2) \<Rightarrow> (None, w2)))"

definition listed_record :: "rrset \<Rightarrow> apiRecord \<Rightarrow> Record list" where
  "listed_record rs ar =
     (if ar_Disabled ar then []
      else case decodeContent (rs_Type rs) (ar_Content ar) of
        Inl e \<Rightarrow> []
      | Inr (target, srv) \<Rightarrow>
          [(record_literal (stripDot (rs_Name rs)) (rs_Type rs) target)
             \<lparr>r_TTL := rs_TTL rs, r_SRV := srv, r_ProviderID := stripDot (rs_Name rs) @ ''|'' @ rs_Type rs\<rparr>])"

definition zone_records :: "rrset list \<Rightarrow> Record list" where
  "zone_records rrsets =
     concat (map (\<lambda>rs. if SupportsRecordType pd_Capabilities (rs_Type rs) then concat (map (listed_record rs) (rs_Records rs)) else [])
       rrsets)"

definition pd_List :: "'w pd_Provider \<Rightarrow> 'w \<Rightarrow> (err + Record list) \<times> 'w" where
  "pd_List p w =
     (case GetZone (pdp_client p) (pdp_zone p) w of
        (Inl e, w') \<Rightarrow> (Inl (Errorf ''listing records: '' e), w')
      | (Inr zone, w') \<Rightarrow> (Inr (zone_records (zr_RRsets zone)), w'))"

definition currentRRset :: "'w pd_Provider \<Rightarrow> string \<Rightarrow> RecordType \<Rightarrow> 'w \<Rightarrow> (err + rrset option) \<times> 'w" where
  "currentRRset p hostname rt w =
     (case GetZone (pdp_client p) (pdp_zone p) w of
        (Inl e, w') \<Rightarrow> (Inl e, w')
      | (Inr zone, w') \<Rightarrow> (Inr (find (\<lambda>s. rs_Name s = canonicalize hostname \<and> rs_Type s = rt) (zr_RRsets zone)), w'))"

text \<open>The record set that \<^verbatim>\<open>Create\<close> writes, if it has to write.\<close>

fun enable :: "string \<Rightarrow> apiRecord list \<Rightarrow> apiRecord list option" where
  "enable content [] = Some [\<lparr>ar_Content = content, ar_Disabled = False\<rparr>]"
| "enable content (ar # ars) =
     (if ar_Content ar = content then (if \<not> ar_Disabled ar then None else Some (ar\<lparr>ar_Disabled := False\<rparr> # ars))
      else map_option ((#) ar) (enable content ars))"

definition the_records :: "rrset option \<Rightarrow> apiRecord list" where
  "the_records rs = (case rs of None \<Rightarrow> [] | Some r \<Rightarrow> rs_Records r)"

definition pd_Create :: "'w pd_Provider \<Rightarrow> Record \<Rightarrow> 'w \<Rightarrow> err option \<times> 'w" where
  "pd_Create p r w =
     (case recordContent r of
        Inl e \<Rightarrow> (Some (Errorf (''encoding '' @ r_Type r @ '' record: '') e), w)
      | Inr content \<Rightarrow>
          let ttl = (if r_TTL r \<le> 0 then pdp_ttl p else r_TTL r) in
          (case currentRRset p (r_Hostname r) (r_Type r) w of
             (Inl e, w') \<Rightarrow> (Some (Errorf ''reading existing rrset: '' e), w')
           | (Inr rs, w') \<Rightarrow>
               (case enable content (the_records rs) of
                  None \<Rightarrow> (None, w')
                | Some merged \<Rightarrow>
                    (case PatchRRsets (pdp_client p) (pdp_zone p)
                       [\<lparr>rs_Name = canonicalize (r_Hostname r), rs_Type = r_Type r, rs_TTL = ttl, rs_ChangeType = ''REPLACE'',
                         rs_Records = merged\<rparr>] w' of
                       (Some e, w2) \<Rightarrow> (Some (Errorf (''creating '' @ r_Type r @ '' record: '') e), w2)
                     | (None, w2) \<Rightarrow> (None, w2)))))"

definition pd_Delete :: "'w pd_Provider \<Rightarrow> Record \<Rightarrow> 'w \<Rightarrow> err option \<times> 'w" where
  "pd_Delete p r w =
     (case recordContent r of
        Inl e \<Rightarrow> (Some (Errorf (''encoding '' @ r_Type r @ '' record: '') e), w)
      | Inr content \<Rightarrow>
          (case currentRRset p (r_Hostname r) (r_Type r) w of
             (Inl e, w') \<Rightarrow> (Some (Errorf ''reading existing rrset: '' e), w')
           | (Inr None, w') \<Rightarrow> (None, w')
           | (Inr (Some rs), w') \<Rightarrow>
               let remaining = filter (\<lambda>ar. ar_Content ar \<noteq> content) (rs_Records rs) in
               if rs_Records rs = [] then (None, w')
               else if \<not> list_ex (\<lambda>ar. ar_Content ar = content) (rs_Records rs) then (None, w')
               else
                 let out = (if remaining = [] then
                     \<lparr>rs_Name = canonicalize (r_Hostname r), rs_Type = r_Type r, rs_TTL = 0, rs_ChangeType = ''DELETE'', rs_Records = []\<rparr>
                   else \<lparr>rs_Name = canonicalize (r_Hostname r), rs_Type = r_Type r, rs_TTL = rs_TTL rs,
                          rs_ChangeType = ''REPLACE'', rs_Records = remaining\<rparr>)
                 in (case PatchRRsets (pdp_client p) (pdp_zone p) [out] w' of
                       (Some e, w2) \<Rightarrow> (Some (Errorf (''deleting '' @ r_Type r @ '' record: '') e), w2)
                     | (None, w2) \<Rightarrow> (None, w2))))"

text \<open>Both contents collapse into one enabled record at the first of them.\<close>

fun swap_content :: "string \<Rightarrow> string \<Rightarrow> bool \<Rightarrow> apiRecord list \<Rightarrow> apiRecord list" where
  "swap_content old new written [] = []"
| "swap_content old new written (ar # ars) =
     (if ar_Content ar = old \<or> ar_Content ar = new then
        (if \<not> written then \<lparr>ar_Content = new, ar_Disabled = False\<rparr> # swap_content old new True ars
         else swap_content old new written ars)
      else ar # swap_content old new written ars)"

definition pd_Update :: "'w pd_Provider \<Rightarrow> Record \<Rightarrow> Record \<Rightarrow> 'w \<Rightarrow> err option \<times> 'w" where
  "pd_Update p existing desired w =
     (case recordContent desired of
        Inl e \<Rightarrow> (Some (Errorf (''encoding desired '' @ r_Type desired @ '' record: '') e), w)
      | Inr desiredContent \<Rightarrow>
          (case recordContent existing of
             Inl e \<Rightarrow> (Some (Errorf (''encoding existing '' @ r_Type existing @ '' record: '') e), w)
           | Inr existingContent \<Rightarrow>
               let ttl = (if r_TTL desired \<le> 0 then pdp_ttl p else r_TTL desired) in
               (case currentRRset p (r_Hostname desired) (r_Type desired) w of
                  (Inl e, w') \<Rightarrow> (Some (Errorf ''reading existing rrset: '' e), w')
                | (Inr None, w') \<Rightarrow> (Some ErrNotFound, w')
                | (Inr (Some rs), w') \<Rightarrow>
                    if \<not> list_ex (\<lambda>ar. ar_Content ar = existingContent) (rs_Records rs) then (Some ErrNotFound, w')
                    else
                      (case PatchRRsets (pdp_client p) (pdp_zone p)
                         [\<lparr>rs_Name = canonicalize (r_Hostname desired), rs_Type = r_Type desired, rs_TTL = ttl,
                           rs_ChangeType = ''REPLACE'',
                           rs_Records = swap_content existingContent desiredContent False (rs_Records rs)\<rparr>] w' of
                         (Some e, w2) \<Rightarrow> (Some (Errorf (''updating '' @ r_Type desired @ '' record: '') e), w2)
                       | (None, w2) \<Rightarrow> (None, w2)))))"

definition pd_provider :: "'w pd_Provider \<Rightarrow> 'w Provider" where
  "pd_provider p =
     \<lparr>p_Name = pdp_name p, p_Type = ''powerdns'', p_Ping = pd_Ping p, p_Capabilities = pd_Capabilities, p_List = pd_List p,
      p_Create = pd_Create p, p_Delete = pd_Delete p, p_Update = Some (pd_Update p), p_Identity = Some (pd_Identity p),
      p_Close = None\<rparr>"

text \<open>\<open>new_http\<close> builds the shared HTTP client from the settings of the instance.\<close>

definition pd_Factory :: "(HTTPConfig \<Rightarrow> 'w http) \<Rightarrow> 'w Factory" where
  "pd_Factory new_http cfg w =
     (case pd_LoadConfigFromMap (fc_Name cfg) (fc_ProviderConfig cfg) of
        Inl e \<Rightarrow> (Inl e, w)
      | Inr c \<Rightarrow> (map_sum id pd_provider (pd_New (new_http (fc_HTTP cfg)) (fc_Name cfg) (Some c)), w))"

interpretation pd: named_factories "[(''powerdns'', pd_Factory new_http)]" for new_http
  by unfold_locales (auto simp: pd_Factory_def pd_New_def pd_provider_def split: sum.splits option.splits if_splits)

subsection \<open>The server\<close>

text \<open>
  What the provider relies on in the API, for the record sets \<open>Z\<close> of its zone: reading changes nothing and, when it
  succeeds, answers with all record sets, one for each name and type; an accepted patch replaces or deletes the one
  record set it names and touches no other, a rejected one changes nothing, and one whose answer is lost did either; a
  name with an empty label at its end is not stored.
\<close>

definition rrset_key :: "rrset \<Rightarrow> string \<times> string" where
  "rrset_key s = (rs_Name s, rs_Type s)"

definition patched :: "rrset \<Rightarrow> rrset list \<Rightarrow> rrset list \<Rightarrow> bool" where
  "patched rs zs zs' \<longleftrightarrow>
     filter (\<lambda>s. rrset_key s \<noteq> rrset_key rs) zs' = filter (\<lambda>s. rrset_key s \<noteq> rrset_key rs) zs \<and>
     find (\<lambda>s. rrset_key s = rrset_key rs) zs' =
       (if rs_ChangeType rs = ''DELETE'' then None else Some (rs\<lparr>rs_ChangeType := []\<rparr>))"

definition pd_server :: "'w pd_Client \<Rightarrow> string \<Rightarrow> ('w \<Rightarrow> rrset list) \<Rightarrow> bool" where
  "pd_server c zone Z \<longleftrightarrow>
     (\<forall>w. distinct (map rrset_key (Z w))) \<and>
     (\<forall>path w r w'. ht_Do (pdk_http c) (pd_request c MethodGet path NoBody) w = (r, w') \<longrightarrow> Z w' = Z w) \<and>
     (\<forall>w resp w'. ht_Do (pdk_http c) (pd_request c MethodGet (zonePath c zone) NoBody) w = (Inr resp, w') \<longrightarrow> status_2xx resp \<longrightarrow>
        (\<exists>name. Unmarshal dec_zoneResponse \<lparr>zr_Name = [], zr_RRsets = []\<rparr> resp = Inr \<lparr>zr_Name = name, zr_RRsets = Z w\<rparr>)) \<and>
     (\<forall>rs w r w'.
        ht_Do (pdk_http c) (pd_request c MethodPatch (zonePath c zone) (JsonBody (patch_json [rs]))) w = (r, w') \<longrightarrow>
        (Z w' = Z w \<or> patched rs (Z w) (Z w')) \<and> (HasSuffix (rs_Name rs) ''..'' \<longrightarrow> Z w' = Z w) \<and>
        (\<forall>resp. r = Inr resp \<longrightarrow> status_2xx resp \<longrightarrow> patched rs (Z w) (Z w')) \<and>
        (\<forall>resp. r = Inr resp \<longrightarrow> \<not> status_2xx resp \<longrightarrow> Z w' = Z w))"

lemma pd_serverD:
  assumes "pd_server c zone Z"
  shows "distinct (map rrset_key (Z w))"
    and "ht_Do (pdk_http c) (pd_request c MethodGet path NoBody) w = (r, w') \<Longrightarrow> Z w' = Z w"
    and "ht_Do (pdk_http c) (pd_request c MethodGet (zonePath c zone) NoBody) w = (Inr resp, w') \<Longrightarrow> status_2xx resp \<Longrightarrow>
        \<exists>name. Unmarshal dec_zoneResponse \<lparr>zr_Name = [], zr_RRsets = []\<rparr> resp = Inr \<lparr>zr_Name = name, zr_RRsets = Z w\<rparr>"
    and "ht_Do (pdk_http c) (pd_request c MethodPatch (zonePath c zone) (JsonBody (patch_json [rs]))) w = (r, w') \<Longrightarrow>
        (Z w' = Z w \<or> patched rs (Z w) (Z w')) \<and> (HasSuffix (rs_Name rs) ''..'' \<longrightarrow> Z w' = Z w)"
    and "ht_Do (pdk_http c) (pd_request c MethodPatch (zonePath c zone) (JsonBody (patch_json [rs]))) w = (Inr resp, w') \<Longrightarrow>
        status_2xx resp \<Longrightarrow> patched rs (Z w) (Z w')"
proof -
  note s = assms [unfolded pd_server_def]
  show "distinct (map rrset_key (Z w))" using s [THEN conjunct1] by blast
  show "ht_Do (pdk_http c) (pd_request c MethodGet path NoBody) w = (r, w') \<Longrightarrow> Z w' = Z w"
    using s [THEN conjunct2, THEN conjunct1] by blast
  show "ht_Do (pdk_http c) (pd_request c MethodGet (zonePath c zone) NoBody) w = (Inr resp, w') \<Longrightarrow> status_2xx resp \<Longrightarrow>
        \<exists>name. Unmarshal dec_zoneResponse \<lparr>zr_Name = [], zr_RRsets = []\<rparr> resp = Inr \<lparr>zr_Name = name, zr_RRsets = Z w\<rparr>"
    using s [THEN conjunct2, THEN conjunct2, THEN conjunct1] by blast
  note P = s [THEN conjunct2, THEN conjunct2, THEN conjunct2, rule_format]
  show "(Z w' = Z w \<or> patched rs (Z w) (Z w')) \<and> (HasSuffix (rs_Name rs) ''..'' \<longrightarrow> Z w' = Z w)"
    if "ht_Do (pdk_http c) (pd_request c MethodPatch (zonePath c zone) (JsonBody (patch_json [rs]))) w = (r, w')"
    using P [OF that] by blast
  show "patched rs (Z w) (Z w')"
    if "ht_Do (pdk_http c) (pd_request c MethodPatch (zonePath c zone) (JsonBody (patch_json [rs]))) w = (Inr resp, w')"
      "status_2xx resp"
    using P [OF that(1)] that(2) by blast
qed

text \<open>A request that is sent reaches the server once, and an answer that is accepted is the server's.\<close>

lemma doRequest_cases:
  assumes "pd_doRequest c method path body w = (r, w')"
  obtains (failed) e where "r = Inl e" "w' = w"
    | (sent) q where "ht_Do (pdk_http c) (pd_request c method path body) w = (q, w')"
        "\<And>resp. r = Inr resp \<Longrightarrow> q = Inr resp \<and> status_2xx resp"
proof (cases "ht_NewRequest (pdk_http c) method (pdk_baseURL c @ path)")
  case None
  obtain q w1 where q: "ht_Do (pdk_http c) (pd_request c method path body) w = (q, w1)" by (rule prod.exhaust)
  have "w1 = w'" "\<And>resp. r = Inr resp \<Longrightarrow> q = Inr resp \<and> status_2xx resp"
    using assms None q by (auto simp: pd_doRequest_def split: sum.splits if_splits)
  then show thesis using sent q by blast
next
  case (Some e)
  then show thesis using assms failed by (auto simp: pd_doRequest_def)
qed

lemma GetZone_server:
  assumes "pd_server c zone Z" "GetZone c zone w = (r, w')"
  shows "Z w' = Z w \<and> (\<forall>z. r = Inr z \<longrightarrow> zr_RRsets z = Z w)"
proof -
  obtain q w1 where q1: "pd_doRequest c MethodGet (zonePath c zone) NoBody w = (q, w1)" by (rule prod.exhaust)
  have q: "pd_doRequest c MethodGet (zonePath c zone) NoBody w = (q, w')"
    and r: "\<And>z. r = Inr z \<Longrightarrow> \<exists>resp. q = Inr resp \<and> Unmarshal dec_zoneResponse \<lparr>zr_Name = [], zr_RRsets = []\<rparr> resp = Inr z"
    using assms(2) q1 by (auto simp: GetZone_def split: sum.splits)
  from q show ?thesis
  proof (cases rule: doRequest_cases)
    case (failed e)
    then show ?thesis using r by fastforce
  next
    case (sent s)
    have "zr_RRsets z = Z w" if z: "r = Inr z" for z
    proof -
      obtain resp where resp: "q = Inr resp" "Unmarshal dec_zoneResponse \<lparr>zr_Name = [], zr_RRsets = []\<rparr> resp = Inr z"
        using r [OF z] by blast
      then show ?thesis using pd_serverD(3) [OF assms(1), of w resp w'] sent by auto
    qed
    then show ?thesis using pd_serverD(2) [OF assms(1) sent(1)] by blast
  qed
qed

lemma client_Ping_server:
  assumes "pd_server c zone Z" "pd_client_Ping c w = (e, w')"
  shows "Z w' = Z w"
proof -
  obtain q w1 where q: "pd_doRequest c MethodGet ''/api/v1/servers'' NoBody w = (q, w1)" by (rule prod.exhaust)
  then have "w1 = w'" using assms(2) by (auto simp: pd_client_Ping_def split: sum.splits)
  with q show ?thesis by (cases rule: doRequest_cases) (use pd_serverD(2) [OF assms(1)] in auto)
qed

lemma PatchRRsets_server:
  assumes "pd_server c zone Z" "PatchRRsets c zone [rs] w = (e, w')"
  shows "(Z w' = Z w \<or> patched rs (Z w) (Z w') \<and> \<not> HasSuffix (rs_Name rs) ''..'') \<and> (e = None \<longrightarrow> patched rs (Z w) (Z w'))"
proof -
  obtain q w1 where q1: "pd_doRequest c MethodPatch (zonePath c zone) (JsonBody (patch_json [rs])) w = (q, w1)" by (rule prod.exhaust)
  have q: "pd_doRequest c MethodPatch (zonePath c zone) (JsonBody (patch_json [rs])) w = (q, w')" and e: "e = None \<Longrightarrow> \<exists>resp. q = Inr resp"
    using assms(2) q1 by (auto simp: PatchRRsets_def split: sum.splits)
  from q show ?thesis
  proof (cases rule: doRequest_cases)
    case (failed e')
    then show ?thesis using e by auto
  next
    case (sent s)
    have "patched rs (Z w) (Z w')" if "e = None"
      using e [OF that] sent pd_serverD(5) [OF assms(1), of rs w] by blast
    then show ?thesis using pd_serverD(4) [OF assms(1) sent(1)] by blast
  qed
qed

subsection \<open>What the operations do to a zone\<close>

text \<open>
  The record set of a hostname and a type, and a change that keeps every other one and every record of another content,
  and that leaves the zone alone for a name with an empty label at its end.
\<close>

definition rrset_at :: "rrset list \<Rightarrow> string \<Rightarrow> RecordType \<Rightarrow> apiRecord list" where
  "rrset_at zs h t = the_records (find (\<lambda>s. rs_Name s = canonicalize h \<and> rs_Type s = t) zs)"

definition keeps_rest :: "string set \<Rightarrow> string \<Rightarrow> RecordType \<Rightarrow> rrset list \<Rightarrow> rrset list \<Rightarrow> bool" where
  "keeps_rest contents h t zs zs' \<longleftrightarrow>
     filter (\<lambda>s. rrset_key s \<noteq> (canonicalize h, t)) zs' = filter (\<lambda>s. rrset_key s \<noteq> (canonicalize h, t)) zs \<and>
     filter (\<lambda>ar. ar_Content ar \<notin> contents) (rrset_at zs' h t) = filter (\<lambda>ar. ar_Content ar \<notin> contents) (rrset_at zs h t) \<and>
     (zs' = zs \<or> \<not> HasSuffix (canonicalize h) ''..'')"

lemma keeps_rest_refl [simp]: "keeps_rest cs h t zs zs"
  by (simp add: keeps_rest_def)

lemma key_pair: "rrset_key s = (n, t) \<longleftrightarrow> rs_Name s = n \<and> rs_Type s = t"
  by (auto simp: rrset_key_def)

lemma patched_at:
  assumes "patched rs zs zs'" "rs_Name rs = canonicalize h" "rs_Type rs = t" "rs_ChangeType rs = ''DELETE'' \<longrightarrow> rs_Records rs = []"
  shows "rrset_at zs' h t = rs_Records rs"
    and "filter (\<lambda>s. rrset_key s \<noteq> (canonicalize h, t)) zs' = filter (\<lambda>s. rrset_key s \<noteq> (canonicalize h, t)) zs"
proof -
  have key: "rrset_key rs = (canonicalize h, t)" using assms(2,3) by (simp add: key_pair)
  show "rrset_at zs' h t = rs_Records rs"
    using assms(1,4) unfolding patched_def key key_pair rrset_at_def by (auto simp: the_records_def)
  show "filter (\<lambda>s. rrset_key s \<noteq> (canonicalize h, t)) zs' = filter (\<lambda>s. rrset_key s \<noteq> (canonicalize h, t)) zs"
    using assms(1) unfolding patched_def key by blast
qed

lemma currentRRset_server:
  assumes "pd_server (pdp_client p) (pdp_zone p) Z" "currentRRset p h t w = (r, w')"
  shows "Z w' = Z w" and "r = Inr rs \<Longrightarrow> the_records rs = rrset_at (Z w) h t"
proof -
  obtain q w1 where q: "GetZone (pdp_client p) (pdp_zone p) w = (q, w1)" by (rule prod.exhaust)
  then have w1: "w1 = w'" using assms(2) by (auto simp: currentRRset_def split: sum.splits)
  show "Z w' = Z w" using GetZone_server [OF assms(1) q] w1 by blast
  show "the_records rs = rrset_at (Z w) h t" if "r = Inr rs"
    using GetZone_server [OF assms(1) q] assms(2) that q by (auto simp: rrset_at_def currentRRset_def split: sum.splits)
qed

lemma enable_None: "enable c ars = None \<Longrightarrow> \<lparr>ar_Content = c, ar_Disabled = False\<rparr> \<in> set ars"
proof (induction ars)
  case (Cons ar ars)
  then show ?case by (cases ar) (auto split: if_splits)
qed simp

lemma enable_Some:
  "enable c ars = Some ars' \<Longrightarrow> \<lparr>ar_Content = c, ar_Disabled = False\<rparr> \<in> set ars' \<and>
     filter (\<lambda>ar. ar_Content ar \<notin> {c}) ars' = filter (\<lambda>ar. ar_Content ar \<notin> {c}) ars"
proof (induction ars arbitrary: ars')
  case (Cons ar ars)
  then show ?case by (cases ar) (auto split: if_splits)
qed auto

lemma swap_content_filter:
  "filter (\<lambda>ar. ar_Content ar \<notin> {old, new}) (swap_content old new b ars) = filter (\<lambda>ar. ar_Content ar \<notin> {old, new}) ars"
  by (induction old new b ars rule: swap_content.induct) auto

lemma swap_content_old: "old \<noteq> new \<Longrightarrow> ar \<in> set (swap_content old new b ars) \<Longrightarrow> ar_Content ar \<noteq> old"
  by (induction old new b ars rule: swap_content.induct) (auto split: if_splits)

lemma swap_content_new:
  "list_ex (\<lambda>ar. ar_Content ar = old) ars \<Longrightarrow> \<lparr>ar_Content = new, ar_Disabled = False\<rparr> \<in> set (swap_content old new False ars)"
proof (induction ars)
  case (Cons ar ars)
  then show ?case by auto
qed simp

text \<open>The end that the three writes share.\<close>

lemma write_server:
  assumes "pd_server (pdp_client p) (pdp_zone p) Z"
    and "PatchRRsets (pdp_client p) (pdp_zone p) [rs] w = (e, w')"
    and "rs_Name rs = canonicalize h" "rs_Type rs = t" "rs_ChangeType rs = ''DELETE'' \<longrightarrow> rs_Records rs = []"
    and "filter (\<lambda>ar. ar_Content ar \<notin> cs) (rs_Records rs) = filter (\<lambda>ar. ar_Content ar \<notin> cs) (rrset_at (Z w) h t)"
  shows "keeps_rest cs h t (Z w) (Z w') \<and> (e = None \<longrightarrow> rrset_at (Z w') h t = rs_Records rs)"
  using PatchRRsets_server [OF assms(1,2)] patched_at [OF _ assms(3,4,5)] assms(3,6) by (auto simp: keeps_rest_def)

lemma Create_server:
  assumes "pd_server (pdp_client p) (pdp_zone p) Z" "pd_Create p r w = (e, w')"
  shows "(\<exists>c. keeps_rest {c} (r_Hostname r) (r_Type r) (Z w) (Z w')) \<and>
    (e = None \<longrightarrow> (\<exists>c. recordContent r = Inr c \<and> keeps_rest {c} (r_Hostname r) (r_Type r) (Z w) (Z w') \<and>
       \<lparr>ar_Content = c, ar_Disabled = False\<rparr> \<in> set (rrset_at (Z w') (r_Hostname r) (r_Type r))))"
proof (cases "recordContent r")
  case (Inl x)
  then have "w' = w" "e \<noteq> None" using assms(2) by (auto simp: pd_Create_def)
  then show ?thesis by auto
next
  case (Inr c)
  obtain q w1 where q: "currentRRset p (r_Hostname r) (r_Type r) w = (q, w1)" by (rule prod.exhaust)
  note cur = currentRRset_server [OF assms(1) q]
  show ?thesis
  proof (cases q)
    case (Inl x)
    then have "w' = w1" "e \<noteq> None" using assms(2) Inr q by (auto simp: pd_Create_def Let_def)
    then show ?thesis using cur(1) by auto
  next
    case q': (Inr rs)
    show ?thesis
    proof (cases "enable c (the_records rs)")
      case None
      then have "w' = w1" using assms(2) Inr q q' by (simp add: pd_Create_def Let_def)
      then show ?thesis using cur(1) cur(2) [OF q'] enable_None [OF None] Inr by auto
    next
      case (Some merged)
      let ?rs = "\<lparr>rs_Name = canonicalize (r_Hostname r), rs_Type = r_Type r, rs_TTL = (if r_TTL r \<le> 0 then pdp_ttl p else r_TTL r),
        rs_ChangeType = ''REPLACE'', rs_Records = merged\<rparr>"
      obtain e2 w2 where pat: "PatchRRsets (pdp_client p) (pdp_zone p) [?rs] w1 = (e2, w2)" by (rule prod.exhaust)
      then have "w2 = w'" "e = None \<Longrightarrow> e2 = None" using assms(2) Inr q q' Some by (auto simp: pd_Create_def Let_def split: option.splits)
      then show ?thesis using write_server [OF assms(1) pat, of "r_Hostname r" "r_Type r" "{c}"]
        enable_Some [OF Some] cur(1) cur(2) [OF q'] Inr by auto
    qed
  qed
qed

lemma Delete_server:
  assumes "pd_server (pdp_client p) (pdp_zone p) Z" "pd_Delete p r w = (e, w')"
  shows "(\<exists>c. keeps_rest {c} (r_Hostname r) (r_Type r) (Z w) (Z w')) \<and>
    (e = None \<longrightarrow> (\<exists>c. recordContent r = Inr c \<and> keeps_rest {c} (r_Hostname r) (r_Type r) (Z w) (Z w') \<and>
       c \<notin> ar_Content ` set (rrset_at (Z w') (r_Hostname r) (r_Type r))))"
proof (cases "recordContent r")
  case (Inl x)
  then have "w' = w" "e \<noteq> None" using assms(2) by (auto simp: pd_Delete_def)
  then show ?thesis by auto
next
  case (Inr c)
  obtain q w1 where q: "currentRRset p (r_Hostname r) (r_Type r) w = (q, w1)" by (rule prod.exhaust)
  note cur = currentRRset_server [OF assms(1) q]
  show ?thesis
  proof (cases "\<exists>rs. q = Inr (Some rs) \<and> list_ex (\<lambda>ar. ar_Content ar = c) (rs_Records rs)")
    case False
    then have w: "w' = w1" using assms(2) Inr q by (auto simp: pd_Delete_def Let_def split: sum.splits option.splits if_splits)
    moreover have "c \<notin> ar_Content ` set (rrset_at (Z w) (r_Hostname r) (r_Type r))" if "e = None"
    proof -
      have "\<exists>rs. q = Inr rs" using assms(2) Inr q that by (cases q) (auto simp: pd_Delete_def)
      then obtain rs where rs: "q = Inr rs" ..
      then show ?thesis using cur(2) [OF rs] False by (cases rs) (auto simp: the_records_def list_ex_iff)
    qed
    ultimately show ?thesis using cur(1) Inr by auto
  next
    case True
    then obtain rs where rs: "q = Inr (Some rs)" "list_ex (\<lambda>ar. ar_Content ar = c) (rs_Records rs)" by blast
    let ?rem = "filter (\<lambda>ar. ar_Content ar \<noteq> c) (rs_Records rs)"
    let ?rs = "if ?rem = [] then \<lparr>rs_Name = canonicalize (r_Hostname r), rs_Type = r_Type r, rs_TTL = 0, rs_ChangeType = ''DELETE'', rs_Records = []\<rparr>
      else \<lparr>rs_Name = canonicalize (r_Hostname r), rs_Type = r_Type r, rs_TTL = rs_TTL rs, rs_ChangeType = ''REPLACE'', rs_Records = ?rem\<rparr>"
    have f: "rs_Name ?rs = canonicalize (r_Hostname r)" "rs_Type ?rs = r_Type r" "rs_Records ?rs = ?rem"
      "rs_ChangeType ?rs = ''DELETE'' \<longrightarrow> rs_Records ?rs = []" by auto
    obtain e2 w2 where pat: "PatchRRsets (pdp_client p) (pdp_zone p) [?rs] w1 = (e2, w2)" by (rule prod.exhaust)
    have "rs_Records rs \<noteq> []" using rs(2) by auto
    then have "w2 = w'" "e = None \<Longrightarrow> e2 = None"
      using assms(2) Inr q rs pat by (auto simp: pd_Delete_def Let_def split: option.splits if_splits)
    then show ?thesis using write_server [OF assms(1) pat f(1,2,4), of "{c}"] f(3) cur(1) cur(2) [OF rs(1)] Inr
      by (auto simp: the_records_def)
  qed
qed

lemma Update_server:
  assumes "pd_server (pdp_client p) (pdp_zone p) Z" "pd_Update p old new w = (e, w')"
  shows "(\<exists>cs. keeps_rest cs (r_Hostname new) (r_Type new) (Z w) (Z w')) \<and>
    (e = None \<longrightarrow> (\<exists>c d. recordContent old = Inr c \<and> recordContent new = Inr d \<and>
       keeps_rest {c, d} (r_Hostname new) (r_Type new) (Z w) (Z w') \<and>
       \<lparr>ar_Content = d, ar_Disabled = False\<rparr> \<in> set (rrset_at (Z w') (r_Hostname new) (r_Type new)) \<and>
       (c \<noteq> d \<longrightarrow> c \<notin> ar_Content ` set (rrset_at (Z w') (r_Hostname new) (r_Type new)))))"
proof (cases "\<exists>c d. recordContent old = Inr c \<and> recordContent new = Inr d")
  case False
  then have "w' = w" "e \<noteq> None" using assms(2) by (auto simp: pd_Update_def split: sum.splits)
  then show ?thesis by auto
next
  case True
  then obtain c d where cd: "recordContent old = Inr c" "recordContent new = Inr d" by blast
  obtain q w1 where q: "currentRRset p (r_Hostname new) (r_Type new) w = (q, w1)" by (rule prod.exhaust)
  note cur = currentRRset_server [OF assms(1) q]
  show ?thesis
  proof (cases "\<exists>rs. q = Inr (Some rs) \<and> list_ex (\<lambda>ar. ar_Content ar = c) (rs_Records rs)")
    case False
    then have "w' = w1" "e \<noteq> None"
      using assms(2) cd q by (auto simp: pd_Update_def Let_def split: sum.splits option.splits if_splits)
    then show ?thesis using cur(1) by auto
  next
    case True
    then obtain rs where rs: "q = Inr (Some rs)" "list_ex (\<lambda>ar. ar_Content ar = c) (rs_Records rs)" by blast
    let ?rs = "\<lparr>rs_Name = canonicalize (r_Hostname new), rs_Type = r_Type new, rs_TTL = (if r_TTL new \<le> 0 then pdp_ttl p else r_TTL new),
      rs_ChangeType = ''REPLACE'', rs_Records = swap_content c d False (rs_Records rs)\<rparr>"
    obtain e2 w2 where pat: "PatchRRsets (pdp_client p) (pdp_zone p) [?rs] w1 = (e2, w2)" by (rule prod.exhaust)
    have "w2 = w'" "e = None \<Longrightarrow> e2 = None"
      using assms(2) cd q rs pat by (auto simp: pd_Update_def Let_def split: option.splits)
    then show ?thesis using write_server [OF assms(1) pat, of "r_Hostname new" "r_Type new" "{c, d}"]
      swap_content_filter [of c d False "rs_Records rs"] swap_content_new [OF rs(2), of d] swap_content_old [of c d _ False "rs_Records rs"]
      cur(1) cur(2) [OF rs(1)] cd by (auto simp: the_records_def)
  qed
qed

subsection \<open>The contracts of a backend\<close>

lemma Normalize_canonical:
  assumes "\<not> HasSuffix (canonicalize h) ''..''"
  shows "NormalizeHostname (stripDot (canonicalize h)) = NormalizeHostname h"
proof (cases "HasSuffix h ''.''")
  case True
  then obtain t where h: "h = t @ ''.''" by (auto simp: HasSuffix_iff)
  then have "canonicalize h = t @ ''.''" by (auto simp: canonicalize_def)
  moreover have "\<not> HasSuffix t ''.''"
  proof
    assume "HasSuffix t ''.''"
    then have "HasSuffix (t @ ''.'') ''..''" by (auto simp: HasSuffix_iff)
    then show False using assms \<open>canonicalize h = t @ ''.''\<close> by simp
  qed
  ultimately show ?thesis using h by (simp add: stripDot_def NormalizeHostname_def)
next
  case False
  then have "stripDot (canonicalize h) = h"
    by (cases "h = []") (simp_all add: canonicalize_def stripDot_def TrimSuffix_append [of "[]", simplified])
  then show ?thesis by simp
qed

lemma listed_record_hostname: "x \<in> set (listed_record rs ar) \<Longrightarrow> r_Hostname x = stripDot (rs_Name rs)"
  by (auto simp: listed_record_def split: if_splits sum.splits prod.splits)

lemma zone_records_outside:
  assumes "filter (\<lambda>s. rrset_key s \<noteq> (n, t)) zs' = filter (\<lambda>s. rrset_key s \<noteq> (n, t)) zs" "NormalizeHostname (stripDot n) \<in> N"
  shows "outside N (zone_records zs') = outside N (zone_records zs)"
proof -
  let ?R = "\<lambda>rs. if SupportsRecordType pd_Capabilities (rs_Type rs) then concat (map (listed_record rs) (rs_Records rs)) else []"
  have none: "outside N (?R s) = []" if "rrset_key s = (n, t)" for s
    using assms(2) that by (auto simp: outside_def filter_empty_conv key_pair dest!: listed_record_hostname)
  have "outside N (zone_records xs) = outside N (zone_records (filter (\<lambda>s. rrset_key s \<noteq> (n, t)) xs))" for xs
  proof (induction xs)
    case (Cons s xs)
    then show ?case using none [of s] by (cases "rrset_key s = (n, t)") (simp_all add: zone_records_def)
  qed (simp add: zone_records_def)
  then show ?thesis using assms(1) by metis
qed


subsection \<open>Contents\<close>

lemma unescape_quote:
  "unescape False (concat (map (\<lambda>c. if c = dquote \<or> c = backslash then [backslash, c] else [c]) s)) = s"
  by (induction s) (auto simp: dquote_def backslash_def)

lemma unquote_quoteTXT: "unquoteTXT (quoteTXT s) = s"
proof -
  let ?e = "concat (map (\<lambda>c. if c = dquote \<or> c = backslash then [backslash, c] else [c]) s)"
  have "quoteTXT s = [dquote] @ ?e @ [dquote]" by (simp add: quoteTXT_def)
  moreover have "butlast (tl ([dquote] @ ?e @ [dquote])) = ?e" by (simp add: butlast_append)
  moreover have "HasSuffix ([dquote] @ ?e @ [dquote]) [dquote]" using HasSuffix_append [of "[dquote] @ ?e" "[dquote]"] by simp
  ultimately show ?thesis using unescape_quote [of s] by (simp add: unquoteTXT_def HasPrefix_def)
qed

lemma strip_canonicalize: "stripDot (canonicalize s) = TrimSuffix s ''.''"
proof (cases "HasSuffix s ''.''")
  case False
  then show ?thesis by (cases "s = []") (simp_all add: canonicalize_def stripDot_def TrimSuffix_append [of "[]", simplified] TrimSuffix_id)
next
  case True
  then show ?thesis by (auto simp: canonicalize_def stripDot_def HasSuffix_def)
qed

lemma parse_encodeSRV:
  assumes "list_all (\<lambda>c. \<not> is_space c) target"
  shows "parseSRVContent (encodeSRVContent srv target) = Inr (srv, TrimSuffix target ''.'')"
proof -
  let ?ws = "[Itoa (unat (srv_Priority srv)), Itoa (unat (srv_Weight srv)), Itoa (unat (srv_Port srv)), canonicalize target]"
  have digits: "list_all (\<lambda>c. \<not> is_space c) (Itoa n)" for n
    using Itoa_digits [of n] by (auto simp: list_all_iff is_digit_def is_space_def)
  have "canonicalize target \<noteq> []" "list_all (\<lambda>c. \<not> is_space c) (canonicalize target)"
    using assms by (auto simp: canonicalize_def is_space_def HasSuffix_def)
  then have "FieldsFunc (Join ?ws '' '') is_space = ?ws"
    using digits by (intro FieldsFunc_Join) (auto simp: is_space_def)
  moreover have "encodeSRVContent srv target = Join ?ws '' ''" by (simp add: encodeSRVContent_def)
  ultimately show ?thesis by (simp add: parseSRVContent_def ParseUint16_Itoa strip_canonicalize)
qed

text \<open>The content that the provider writes for a record decodes to the record's target and SRV data: text survives quoting
whatever bytes it holds, and targets of CNAME and SRV records lose a final dot only.\<close>
theorem pdns_content_roundtrip:
  assumes "recordContent r = Inr c" and "r_Type r = RecordTypeSRV \<Longrightarrow> list_all (\<lambda>c. \<not> is_space c) (r_Target r)"
  shows "decodeContent (r_Type r) c =
    Inr (if r_Type r = RecordTypeCNAME \<or> r_Type r = RecordTypeSRV then TrimSuffix (r_Target r) ''.'' else r_Target r,
         if r_Type r = RecordTypeSRV then r_SRV r else None)"
  using assms
  by (auto simp: recordContent_def decodeContent_def unquote_quoteTXT strip_canonicalize parse_encodeSRV RecordType_defs
      split: if_splits option.splits)

subsection \<open>Writes\<close>


subsection \<open>A server in memory\<close>

text \<open>The world is a list of record sets; the zone is its view with one set for each name and type and numbers of 64 bits.\<close>

definition fits_int :: "rrset \<Rightarrow> bool" where
  "fits_int s \<longleftrightarrow> - (2 ^ 63) \<le> rs_TTL s \<and> rs_TTL s < 2 ^ 63"

definition demo_zone :: "rrset list \<Rightarrow> rrset list" where
  "demo_zone w = first_by rrset_key [] (filter fits_int w)"

definition demo_response :: "nat \<Rightarrow> json \<Rightarrow> api_response" where
  "demo_response status j = \<lparr>hr_StatusCode = status, hr_Body = [], hr_ReadError = None, hr_Json = Some j\<rparr>"

definition dec_patch :: "rrset list decoder" where
  "dec_patch = dec_struct [(''rrsets'', dec_list no_rrset dec_rrset)]"

definition demo_patch :: "rrset \<Rightarrow> rrset list \<Rightarrow> rrset list" where
  "demo_patch rs zs = filter (\<lambda>s. rrset_key s \<noteq> rrset_key rs) zs @ (if rs_ChangeType rs = ''DELETE'' then [] else [rs\<lparr>rs_ChangeType := []\<rparr>])"

definition demo_pdns :: "http_request \<Rightarrow> rrset list \<Rightarrow> (err + api_response) \<times> rrset list" where
  "demo_pdns req w =
     (if hq_Method req = MethodGet then
        (Inr (demo_response 200 (JObj [(''name'', JStr ''example.com.''), (''rrsets'', JArr (map rrset_json (demo_zone w)))])), w)
      else case hq_Body req of
        JsonBody j \<Rightarrow>
          (case dec_patch j [] of
             Inr [rs] \<Rightarrow>
               if HasSuffix (rs_Name rs) ''..'' \<or> \<not> fits_int rs then (Inr (demo_response 422 JNull), w)
               else (Inr (demo_response 204 JNull), demo_patch rs (demo_zone w))
           | _ \<Rightarrow> (Inr (demo_response 422 JNull), w))
      | NoBody \<Rightarrow> (Inr (demo_response 422 JNull), w))"

lemma dec_apiRecord_json: "dec_apiRecord (apiRecord_json r) no_apiRecord = Inr r"
  by (cases r) (simp add: dec_apiRecord_def apiRecord_json_def dec_struct_def on_field_def dec_string_def dec_bool_def
      find_field_def no_apiRecord_def)

lemma dec_rrset_json: "fits_int rs \<Longrightarrow> dec_rrset (rrset_json rs) no_rrset = Inr rs"
proof -
  assume fit: "fits_int rs"
  have "dec_items no_apiRecord dec_apiRecord (map apiRecord_json (rs_Records rs)) = Inr (rs_Records rs)"
    by (intro dec_items_map dec_apiRecord_json)
  then show ?thesis using fit
    by (cases rs) (auto simp: fits_int_def dec_rrset_def rrset_json_def dec_struct_def on_field_def dec_string_def dec_int_def
      dec_list_def find_field_def no_rrset_def omit_empty_def)
qed

lemma demo_zone_distinct [simp]: "distinct (map rrset_key (demo_zone w))"
  unfolding demo_zone_def using distinct_first_by by blast

lemma demo_zone_fits: "s \<in> set (demo_zone w) \<Longrightarrow> fits_int s"
  unfolding demo_zone_def using first_by_subset by fastforce

lemma demo_patch_patched: "patched rs zs (demo_patch rs zs)"
proof -
  have "find (\<lambda>s. rrset_key s = rrset_key rs) (filter (\<lambda>s. rrset_key s \<noteq> rrset_key rs) zs) = None"
    by (auto simp: find_None_iff)
  then show ?thesis by (auto simp: patched_def demo_patch_def find_append rrset_key_def)
qed

lemma demo_patch_zone:
  assumes "fits_int rs"
  shows "demo_zone (demo_patch rs (demo_zone w)) = demo_patch rs (demo_zone w)"
proof -
  let ?z = "demo_patch rs (demo_zone w)"
  have "\<forall>s \<in> set ?z. fits_int s"
    using assms demo_zone_fits [of _ w] by (auto simp: demo_patch_def fits_int_def)
  then have "filter fits_int ?z = ?z" by (auto simp: filter_id_conv)
  moreover have "distinct (map rrset_key (filter P (demo_zone w)))" for P
    by (rule distinct_map_filter) simp
  then have "distinct (map rrset_key ?z)"
    by (auto simp: demo_patch_def rrset_key_def)
  ultimately show ?thesis unfolding demo_zone_def [of ?z] by (simp add: first_by_distinct)
qed

definition demo_client :: "rrset list pd_Client" where
  "demo_client = pd_NewClient \<lparr>ht_NewRequest = (\<lambda>_ _. None), ht_Do = demo_pdns\<rparr> ''http://pdns:8081/'' ''key'' ''localhost''"

lemma demo_Do: "ht_Do (pdk_http demo_client) = demo_pdns"
  by (simp add: demo_client_def pd_NewClient_def)

lemma demo_get:
  "demo_pdns (pd_request c MethodGet path NoBody) w =
     (Inr (demo_response 200 (JObj [(''name'', JStr ''example.com.''), (''rrsets'', JArr (map rrset_json (demo_zone w)))])), w)"
  by (simp add: demo_pdns_def pd_request_def)

lemma dec_patch_json:
  "dec_patch (patch_json [rs]) [] = (case dec_rrset (rrset_json rs) no_rrset of Inl e \<Rightarrow> Inl e | Inr r \<Rightarrow> Inr [r])"
  by (simp add: dec_patch_def patch_json_def dec_struct_def find_field_def dec_list_def split: sum.split)

lemma dec_rrset_unfit: "\<not> fits_int rs \<Longrightarrow> \<exists>e. dec_rrset (rrset_json rs) no_rrset = Inl e"
  by (auto simp: fits_int_def dec_rrset_def rrset_json_def dec_struct_def on_field_def dec_string_def dec_int_def
      find_field_def no_rrset_def omit_empty_def)

lemma demo_patch_step:
  "demo_pdns (pd_request c MethodPatch path (JsonBody (patch_json [rs]))) w =
     (if HasSuffix (rs_Name rs) ''..'' \<or> \<not> fits_int rs then (Inr (demo_response 422 JNull), w)
      else (Inr (demo_response 204 JNull), demo_patch rs (demo_zone w)))"
proof (cases "fits_int rs")
  case True
  then show ?thesis by (simp add: demo_pdns_def pd_request_def http_methods dec_patch_json dec_rrset_json)
next
  case False
  then obtain e where "dec_rrset (rrset_json rs) no_rrset = Inl e" using dec_rrset_unfit by blast
  then show ?thesis using False by (simp add: demo_pdns_def pd_request_def http_methods dec_patch_json)
qed

lemma demo_pd_server: "pd_server demo_client zone demo_zone"
proof -
  have "dec_items no_rrset dec_rrset (map rrset_json (demo_zone w)) = Inr (demo_zone w)" for w
    by (intro dec_items_map dec_rrset_json demo_zone_fits)
  then have dec: "dec_zoneResponse (JObj [(''name'', JStr ''example.com.''), (''rrsets'', JArr (map rrset_json (demo_zone w)))])
      \<lparr>zr_Name = [], zr_RRsets = []\<rparr> = Inr \<lparr>zr_Name = ''example.com.'', zr_RRsets = demo_zone w\<rparr>" for w
    by (simp add: dec_zoneResponse_def dec_struct_def find_field_def on_field_def dec_string_def dec_list_def)
  show ?thesis unfolding pd_server_def demo_Do
  proof (intro conjI allI impI)
    show "distinct (map rrset_key (demo_zone w))" for w by simp
    show "demo_zone w' = demo_zone w" if "demo_pdns (pd_request demo_client MethodGet path NoBody) w = (r, w')" for path w r w'
      using that by (simp add: demo_get)
    show "\<exists>name. Unmarshal dec_zoneResponse \<lparr>zr_Name = [], zr_RRsets = []\<rparr> resp = Inr \<lparr>zr_Name = name, zr_RRsets = demo_zone w\<rparr>"
      if "demo_pdns (pd_request demo_client MethodGet (zonePath demo_client zone) NoBody) w = (Inr resp, w')" for w resp w'
      using that dec by (auto simp: demo_get Unmarshal_def demo_response_def)
  next
    fix rs w r w'
    assume "demo_pdns (pd_request demo_client MethodPatch (zonePath demo_client zone) (JsonBody (patch_json [rs]))) w = (r, w')"
    then have step: "(if HasSuffix (rs_Name rs) ''..'' \<or> \<not> fits_int rs then (Inr (demo_response 422 JNull), w)
      else (Inr (demo_response 204 JNull), demo_patch rs (demo_zone w))) = (r, w')" by (simp only: demo_patch_step)
    then show "demo_zone w' = demo_zone w \<or> patched rs (demo_zone w) (demo_zone w')"
      using demo_patch_zone [of rs w] demo_patch_patched [of rs "demo_zone w"] by (auto split: if_splits)
    show "demo_zone w' = demo_zone w" if "HasSuffix (rs_Name rs) ''..''" using step that by simp
    show "patched rs (demo_zone w) (demo_zone w')" if "r = Inr resp" "status_2xx resp" for resp
      using step that demo_patch_zone [of rs w] demo_patch_patched [of rs "demo_zone w"]
      by (auto simp: status_2xx_def demo_response_def split: if_splits)
    show "demo_zone w' = demo_zone w" if "r = Inr resp" "\<not> status_2xx resp" for resp
      using step that by (auto simp: status_2xx_def demo_response_def split: if_splits)
  qed
qed

definition demo_powerdns :: "rrset list pd_Provider" where
  "demo_powerdns = \<lparr>pdp_name = ''pdns'', pdp_zone = ''example.com'', pdp_serverID = ''localhost'', pdp_ttl = 300,
     pdp_client = demo_client\<rparr>"

lemma demo_powerdns_server: "pd_server (pdp_client demo_powerdns) (pdp_zone demo_powerdns) demo_zone"
  by (simp add: demo_powerdns_def demo_pd_server)

text \<open>A zone with a text next to the marker, and a disabled address.\<close>

definition demo_world :: "rrset list" where
  "demo_world =
     [\<lparr>rs_Name = ''app.example.com.'', rs_Type = ''TXT'', rs_TTL = 60, rs_ChangeType = [],
       rs_Records = [\<lparr>ar_Content = quoteTXT ''v=spf1'', ar_Disabled = False\<rparr>, \<lparr>ar_Content = quoteTXT ''owned'', ar_Disabled = False\<rparr>]\<rparr>,
      \<lparr>rs_Name = ''app.example.com.'', rs_Type = ''A'', rs_TTL = 60, rs_ChangeType = [],
       rs_Records = [\<lparr>ar_Content = ''10.0.0.1'', ar_Disabled = True\<rparr>]\<rparr>]"

definition demo_txt :: Record where
  "demo_txt = record_literal ''app.example.com'' RecordTypeTXT ''owned''"


theorem pdns_content_roundtrip_witness:
  "decodeContent RecordTypeSRV ''10 5 8080 srv.example.com.'' =
     Inr (''srv.example.com'', Some \<lparr>srv_Priority = 10, srv_Weight = 5, srv_Port = 8080\<rparr>)"
proof -
  let ?r = "(record_literal ''h'' RecordTypeSRV ''srv.example.com'')\<lparr>r_SRV := Some \<lparr>srv_Priority = 10, srv_Weight = 5, srv_Port = 8080\<rparr>\<rparr>"
  have "canonicalize ''srv.example.com'' = ''srv.example.com.''" by code_simp
  moreover have "Itoa 10 = ''10''" "Itoa 5 = ''5''" "Itoa 8080 = ''8080''"
    by (simp_all add: Itoa_step Itoa_digit digit_char_def char_of_def bit_0)
  ultimately have "recordContent ?r = Inr ''10 5 8080 srv.example.com.''"
    by (simp add: recordContent_def encodeSRVContent_def RecordType_defs)
  moreover have "list_all (\<lambda>c. \<not> is_space c) ''srv.example.com''" by code_simp
  moreover have "TrimSuffix ''srv.example.com'' ''.'' = ''srv.example.com''" by code_simp
  ultimately show ?thesis using pdns_content_roundtrip [of ?r "''10 5 8080 srv.example.com.''"] by simp
qed


end
