(* ===== verification/AdGuard.thy ===== *)
theory AdGuard
  imports HttpApi RecordStore
begin

text \<open>
  \<^verbatim>\<open>providers/adguard\<close>: configuration, the client of the rewrite API and the provider. A rewrite has no type and no TTL:
  the type of a listed record is read off its answer. Log lines and functional options are left out.
\<close>

subsection \<open>Configuration\<close>

record ag_Config =
  agc_URL :: string
  agc_Username :: string
  agc_Password :: string
  agc_Zone :: string
  agc_TTL :: int

definition ag_DefaultTTL :: int where "ag_DefaultTTL = 300"

definition ag_Validate :: "(string \<Rightarrow> err option) \<Rightarrow> ag_Config \<Rightarrow> err option" where
  "ag_Validate malformed c =
     (let errs = http_url_errors malformed (agc_URL c) @
                 (if agc_Username c = [] then [''USERNAME is required''] else []) @
                 (if agc_Password c = [] then [''PASSWORD is required''] else []) @
                 (if agc_TTL c < 0 then [''TTL must be non-negative''] else [])
      in if errs \<noteq> [] then Some (ErrorNew (''adguard config validation failed: '' @ Join errs ''; '')) else None)"

text \<open>The end of both loaders.\<close>

definition ag_finish :: "(string \<Rightarrow> err option) \<Rightarrow> string \<Rightarrow> string \<Rightarrow> ag_Config \<Rightarrow> err + ag_Config" where
  "ag_finish malformed name ttlStr c =
     (let checked = (\<lambda>c. case ag_Validate malformed c of
                       Some e \<Rightarrow> Inl (Errorf (''configuration for '' @ name @ '': '') e) | None \<Rightarrow> Inr c)
      in if ttlStr \<noteq> [] then
           (case Atoi ttlStr of
              Inl e \<Rightarrow> Inl (Errorf (''invalid TTL value '' @ Quote ttlStr @ '': '') e)
            | Inr ttl \<Rightarrow> checked (c\<lparr>agc_TTL := ttl\<rparr>))
         else checked c)"

definition ag_envPrefix :: "string \<Rightarrow> string" where
  "ag_envPrefix name = ''DNSWEAVER_'' @ ToUpper (ReplaceAll1 (CHR ''-'') (CHR ''_'') name) @ ''_''"

text \<open>The variable comes before the file; a file that cannot be read gives the empty string.\<close>

definition ag_getEnvOrFile :: "environment \<Rightarrow> string \<Rightarrow> string \<Rightarrow> string" where
  "ag_getEnvOrFile E envKey fileKey =
     (if getEnv E envKey \<noteq> [] then getEnv E envKey
      else if getEnv E fileKey \<noteq> [] then
        (case ev_ReadFile E (getEnv E fileKey) of Inl _ \<Rightarrow> [] | Inr content \<Rightarrow> TrimSpace content)
      else [])"

definition ag_LoadConfig :: "(string \<Rightarrow> err option) \<Rightarrow> environment \<Rightarrow> string \<Rightarrow> err + ag_Config" where
  "ag_LoadConfig malformed E name =
     (let pre = ag_envPrefix name in
      ag_finish malformed name (getEnv E (pre @ ''TTL''))
        \<lparr>agc_URL = getEnv E (pre @ ''URL''), agc_Username = getEnv E (pre @ ''USERNAME''),
         agc_Password = ag_getEnvOrFile E (pre @ ''PASSWORD'') (pre @ ''PASSWORD_FILE''),
         agc_Zone = getEnv E (pre @ ''ZONE''), agc_TTL = ag_DefaultTTL\<rparr>)"

definition getMapValue :: "(string, string) gomap \<Rightarrow> string \<Rightarrow> string" where
  "getMapValue m key =
     (if has_key m key then map_get [] m key
      else if has_key m (ToUpper key) then map_get [] m (ToUpper key)
      else if has_key m (ToLower key) then map_get [] m (ToLower key) else [])"

definition ag_LoadConfigFromMap :: "(string \<Rightarrow> err option) \<Rightarrow> string \<Rightarrow> (string, string) gomap \<Rightarrow> err + ag_Config" where
  "ag_LoadConfigFromMap malformed name m =
     ag_finish malformed name (getMapValue m ''ttl'')
       \<lparr>agc_URL = getMapValue m ''url'', agc_Username = getMapValue m ''username'', agc_Password = getMapValue m ''password'',
        agc_Zone = getMapValue m ''zone'', agc_TTL = ag_DefaultTTL\<rparr>"

subsection \<open>The client\<close>

record rewriteEntry =
  re_Domain :: string
  re_Answer :: string
  re_Enabled :: "bool option"

definition rewrite :: "string \<Rightarrow> string \<Rightarrow> rewriteEntry" where
  "rewrite d a = \<lparr>re_Domain = d, re_Answer = a, re_Enabled = None\<rparr>"

definition dec_rewrite :: "rewriteEntry decoder" where
  "dec_rewrite = dec_struct
     [(''domain'', on_field re_Domain (\<lambda>v r. r\<lparr>re_Domain := v\<rparr>) dec_string),
      (''answer'', on_field re_Answer (\<lambda>v r. r\<lparr>re_Answer := v\<rparr>) dec_string),
      (''enabled'', on_field re_Enabled (\<lambda>v r. r\<lparr>re_Enabled := v\<rparr>) (dec_pointer False dec_bool))]"

definition rewrite_json :: "rewriteEntry \<Rightarrow> json" where
  "rewrite_json r = JObj
     ([(''domain'', JStr (re_Domain r)), (''answer'', JStr (re_Answer r))] @
      (case re_Enabled r of None \<Rightarrow> [] | Some b \<Rightarrow> [(''enabled'', JBool b)]))"

definition rewriteUpdate_json :: "rewriteEntry \<Rightarrow> rewriteEntry \<Rightarrow> json" where
  "rewriteUpdate_json target update = JObj [(''target'', rewrite_json target), (''update'', rewrite_json update)]"

record serverStatus =
  st_Version :: string
  st_Running :: bool
  st_ProtectionEnabled :: bool

definition dec_serverStatus :: "serverStatus decoder" where
  "dec_serverStatus = dec_struct
     [(''version'', on_field st_Version (\<lambda>v r. r\<lparr>st_Version := v\<rparr>) dec_string),
      (''running'', on_field st_Running (\<lambda>v r. r\<lparr>st_Running := v\<rparr>) dec_bool),
      (''protection_enabled'', on_field st_ProtectionEnabled (\<lambda>v r. r\<lparr>st_ProtectionEnabled := v\<rparr>) dec_bool)]"

record 'w ag_Client =
  agk_baseURL :: string
  agk_username :: string
  agk_password :: string
  agk_http :: "'w http"

definition ag_request :: "'w ag_Client \<Rightarrow> string \<Rightarrow> string \<Rightarrow> http_body \<Rightarrow> http_request" where
  "ag_request c method path body =
     \<lparr>hq_Method = method, hq_URL = agk_baseURL c @ ''/control'' @ path,
      hq_Header = [(''Authorization'', ''Basic '' @ base64 (agk_username c @ '':'' @ agk_password c)),
                   (''Content-Type'', ''application/json'')],
      hq_Body = body\<rparr>"

definition ag_doRequest :: "'w ag_Client \<Rightarrow> string \<Rightarrow> string \<Rightarrow> http_body \<Rightarrow> 'w \<Rightarrow> (err + api_response \<times> string) \<times> 'w" where
  "ag_doRequest c method path body w =
     (case ht_NewRequest (agk_http c) method (agk_baseURL c @ ''/control'' @ path) of
        Some e \<Rightarrow> (Inl (Errorf ''creating request: '' e), w)
      | None \<Rightarrow>
          (case ht_Do (agk_http c) (ag_request c method path body) w of
             (Inl e, w') \<Rightarrow> (Inl (Errorf ''executing request: '' e), w')
           | (Inr resp, w') \<Rightarrow>
               (case ReadBody resp 0 of
                  Inl e \<Rightarrow> (Inl (Errorf ''reading response body: '' e), w')
                | Inr respBody \<Rightarrow> (Inr (resp, respBody), w'))))"

text \<open>The statuses that every call rejects.\<close>

definition ag_status_error :: "api_response \<Rightarrow> string \<Rightarrow> err option" where
  "ag_status_error resp body =
     (if hr_StatusCode resp = 401 \<or> hr_StatusCode resp = 403 then Some ErrUnauthorized
      else if hr_StatusCode resp \<noteq> 200 then Some (ErrorNew (''unexpected status '' @ Itoa (hr_StatusCode resp) @ '': '' @ body))
      else None)"

definition ag_client_Ping :: "'w ag_Client \<Rightarrow> 'w \<Rightarrow> err option \<times> 'w" where
  "ag_client_Ping c w =
     (case ag_doRequest c MethodGet ''/status'' NoBody w of
        (Inl e, w') \<Rightarrow> (Some (Errorf ''ping failed: '' e), w')
      | (Inr (resp, body), w') \<Rightarrow>
          (case ag_status_error resp body of
             Some e \<Rightarrow> (Some e, w')
           | None \<Rightarrow>
               (case Unmarshal dec_serverStatus \<lparr>st_Version = [], st_Running = False, st_ProtectionEnabled = False\<rparr> resp of
                  Inl e \<Rightarrow> (Some (Errorf ''parsing status response: '' e), w')
                | Inr status \<Rightarrow> (if \<not> st_Running status then Some ErrProviderUnavailable else None, w'))))"

definition ag_client_List :: "'w ag_Client \<Rightarrow> 'w \<Rightarrow> (err + rewriteEntry list) \<times> 'w" where
  "ag_client_List c w =
     (case ag_doRequest c MethodGet ''/rewrite/list'' NoBody w of
        (Inl e, w') \<Rightarrow> (Inl (Errorf ''listing rewrites: '' e), w')
      | (Inr (resp, body), w') \<Rightarrow>
          (case ag_status_error resp body of
             Some e \<Rightarrow> (Inl e, w')
           | None \<Rightarrow>
               (case Unmarshal (dec_list (rewrite [] []) dec_rewrite) [] resp of
                  Inl e \<Rightarrow> (Inl (Errorf ''parsing rewrite list: '' e), w')
                | Inr entries \<Rightarrow> (Inr entries, w'))))"

text \<open>The three calls that write.\<close>

definition ag_write :: "'w ag_Client \<Rightarrow> string \<Rightarrow> string \<Rightarrow> json \<Rightarrow> string \<Rightarrow> 'w \<Rightarrow> err option \<times> 'w" where
  "ag_write c method path payload what w =
     (case ag_doRequest c method path (JsonBody payload) w of
        (Inl e, w') \<Rightarrow> (Some (Errorf (what @ '': '') e), w')
      | (Inr (resp, body), w') \<Rightarrow> (ag_status_error resp body, w'))"

definition ag_client_Create :: "'w ag_Client \<Rightarrow> rewriteEntry \<Rightarrow> 'w \<Rightarrow> err option \<times> 'w" where
  "ag_client_Create c entry = ag_write c MethodPost ''/rewrite/add'' (rewrite_json entry) ''creating rewrite''"

definition ag_client_Delete :: "'w ag_Client \<Rightarrow> rewriteEntry \<Rightarrow> 'w \<Rightarrow> err option \<times> 'w" where
  "ag_client_Delete c entry = ag_write c MethodPost ''/rewrite/delete'' (rewrite_json entry) ''deleting rewrite''"

definition ag_client_Update :: "'w ag_Client \<Rightarrow> rewriteEntry \<Rightarrow> rewriteEntry \<Rightarrow> 'w \<Rightarrow> err option \<times> 'w" where
  "ag_client_Update c target update =
     ag_write c MethodPut ''/rewrite/update'' (rewriteUpdate_json target update) ''updating rewrite''"

subsection \<open>The provider\<close>

record 'w ag_Provider =
  agp_name :: string
  agp_url :: string
  agp_zone :: string
  agp_ttl :: int
  agp_client :: "'w ag_Client"

definition ag_New :: "(string \<Rightarrow> err option) \<Rightarrow> 'w http \<Rightarrow> string \<Rightarrow> ag_Config option \<Rightarrow> err + 'w ag_Provider" where
  "ag_New malformed h name config =
     (case config of
        None \<Rightarrow> Inl (ErrorNew ''config is required'')
      | Some c \<Rightarrow>
          (case ag_Validate malformed c of
             Some e \<Rightarrow> Inl e
           | None \<Rightarrow> Inr \<lparr>agp_name = name, agp_url = agc_URL c, agp_zone = agc_Zone c, agp_ttl = agc_TTL c,
                          agp_client = \<lparr>agk_baseURL = agc_URL c, agk_username = agc_Username c, agk_password = agc_Password c,
                                        agk_http = h\<rparr>\<rparr>))"

definition ag_Identity :: "'w ag_Provider \<Rightarrow> ProviderIdentity" where
  "ag_Identity p = \<lparr>id_Type = ''adguard'', id_Endpoint = agp_url p, id_Zone = agp_zone p\<rparr>"

definition ag_Capabilities :: Capabilities where
  "ag_Capabilities = \<lparr>SupportsOwnershipTXT = False, SupportsNativeUpdate = True,
     SupportedRecordTypes = [RecordTypeA, RecordTypeAAAA, RecordTypeCNAME]\<rparr>"

definition ag_Ping :: "'w ag_Provider \<Rightarrow> 'w \<Rightarrow> err option \<times> 'w" where
  "ag_Ping p = ag_client_Ping (agp_client p)"

definition classifyAnswer :: "string \<Rightarrow> RecordType" where
  "classifyAnswer answer =
     (case ParseIP answer of
        Some ip \<Rightarrow> if To4 ip \<noteq> None then RecordTypeA else RecordTypeAAAA
      | None \<Rightarrow> if answer = [] then [] else RecordTypeCNAME)"

definition ag_in_zone :: "string \<Rightarrow> string \<Rightarrow> bool" where
  "ag_in_zone zone d \<longleftrightarrow> zone = [] \<or> HasSuffix d (''.'' @ zone) \<or> d = zone"

definition ag_record :: "int \<Rightarrow> rewriteEntry \<Rightarrow> Record" where
  "ag_record ttl e = (record_literal (re_Domain e) (classifyAnswer (re_Answer e)) (re_Answer e)) \<lparr>r_TTL := ttl,
     r_ProviderID := re_Domain e @ '':'' @ re_Answer e\<rparr>"

definition ag_records :: "string \<Rightarrow> int \<Rightarrow> rewriteEntry list \<Rightarrow> Record list" where
  "ag_records zone ttl entries =
     map (ag_record ttl)
       (filter (\<lambda>e. re_Enabled e \<noteq> Some False \<and> classifyAnswer (re_Answer e) \<noteq> [] \<and> ag_in_zone zone (re_Domain e)) entries)"

definition ag_List :: "'w ag_Provider \<Rightarrow> 'w \<Rightarrow> (err + Record list) \<times> 'w" where
  "ag_List p w =
     (case ag_client_List (agp_client p) w of
        (Inl e, w') \<Rightarrow> (Inl (Errorf ''listing records: '' e), w')
      | (Inr entries, w') \<Rightarrow> (Inr (ag_records (agp_zone p) (agp_ttl p) entries), w'))"

definition ag_supported :: "RecordType \<Rightarrow> bool" where
  "ag_supported t \<longleftrightarrow> t = RecordTypeA \<or> t = RecordTypeAAAA \<or> t = RecordTypeCNAME"

definition ag_Create :: "'w ag_Provider \<Rightarrow> Record \<Rightarrow> 'w \<Rightarrow> err option \<times> 'w" where
  "ag_Create p r w =
     (if ag_supported (r_Type r) then
        (case ag_client_Create (agp_client p) (rewrite (r_Hostname r) (r_Target r)) w of
           (Some e, w') \<Rightarrow> (Some (Errorf (''creating record '' @ r_Hostname r @ '' -> '' @ r_Target r @ '': '') e), w')
         | (None, w') \<Rightarrow> (None, w'))
      else if r_Type r = RecordTypeTXT then (None, w)
      else (Some (ErrorNew (r_Type r @ '' records not supported by AdGuard Home provider'')), w))"

definition ag_Delete :: "'w ag_Provider \<Rightarrow> Record \<Rightarrow> 'w \<Rightarrow> err option \<times> 'w" where
  "ag_Delete p r w =
     (if ag_supported (r_Type r) then
        (case ag_client_Delete (agp_client p) (rewrite (r_Hostname r) (r_Target r)) w of
           (Some e, w') \<Rightarrow> (Some (Errorf (''deleting record '' @ r_Hostname r @ '' -> '' @ r_Target r @ '': '') e), w')
         | (None, w') \<Rightarrow> (None, w'))
      else if r_Type r = RecordTypeTXT then (None, w)
      else (Some (ErrorNew (r_Type r @ '' records not supported by AdGuard Home provider'')), w))"

definition ag_Update :: "'w ag_Provider \<Rightarrow> Record \<Rightarrow> Record \<Rightarrow> 'w \<Rightarrow> err option \<times> 'w" where
  "ag_Update p existing desired w =
     (case ag_client_Update (agp_client p) (rewrite (r_Hostname existing) (r_Target existing))
             (rewrite (r_Hostname desired) (r_Target desired)) w of
        (Some e, w') \<Rightarrow> (Some (Errorf (''updating record '' @ r_Hostname desired @ '' -> '' @ r_Target desired @ '': '') e), w')
      | (None, w') \<Rightarrow> (None, w'))"

definition ag_provider :: "'w ag_Provider \<Rightarrow> 'w Provider" where
  "ag_provider p =
     \<lparr>p_Name = agp_name p, p_Type = ''adguard'', p_Ping = ag_Ping p, p_Capabilities = ag_Capabilities, p_List = ag_List p,
      p_Create = ag_Create p, p_Delete = ag_Delete p, p_Update = Some (ag_Update p), p_Identity = Some (ag_Identity p),
      p_Close = None\<rparr>"

definition ag_Factory :: "(string \<Rightarrow> err option) \<Rightarrow> (HTTPConfig \<Rightarrow> 'w http) \<Rightarrow> 'w Factory" where
  "ag_Factory malformed new_http cfg w =
     (case ag_LoadConfigFromMap malformed (fc_Name cfg) (fc_ProviderConfig cfg) of
        Inl e \<Rightarrow> (Inl e, w)
      | Inr c \<Rightarrow> (map_sum id ag_provider (ag_New malformed (new_http (fc_HTTP cfg)) (fc_Name cfg) (Some c)), w))"

interpretation ag: named_factories "[(''adguard'', ag_Factory malformed new_http)]" for malformed new_http
  by unfold_locales (auto simp: ag_Factory_def ag_New_def ag_provider_def split: sum.splits option.splits if_splits)

subsection \<open>The server\<close>

text \<open>
  What the provider relies on in the API, for the rewrites \<open>Z\<close> of the server: reading changes nothing and an accepted
  listing answers with all rewrites in order; an accepted addition appends an enabled rewrite, an accepted deletion removes
  every rewrite with the domain and the answer, an accepted update changes them in place; a request that is not accepted
  may still have been carried out.
\<close>

definition same_rewrite :: "rewriteEntry \<Rightarrow> rewriteEntry \<Rightarrow> bool" where
  "same_rewrite e x \<longleftrightarrow> re_Domain x = re_Domain e \<and> re_Answer x = re_Answer e"

definition added :: "rewriteEntry \<Rightarrow> rewriteEntry list \<Rightarrow> rewriteEntry list" where
  "added e zs = zs @ [e\<lparr>re_Enabled := Some True\<rparr>]"

definition removed :: "rewriteEntry \<Rightarrow> rewriteEntry list \<Rightarrow> rewriteEntry list" where
  "removed e zs = filter (\<lambda>x. \<not> same_rewrite e x) zs"

definition updated :: "rewriteEntry \<Rightarrow> rewriteEntry \<Rightarrow> rewriteEntry list \<Rightarrow> rewriteEntry list" where
  "updated e f zs = map (\<lambda>x. if same_rewrite e x then x\<lparr>re_Domain := re_Domain f, re_Answer := re_Answer f\<rparr> else x) zs"

definition carries_out ::
  "'w ag_Client \<Rightarrow> ('w \<Rightarrow> rewriteEntry list) \<Rightarrow> string \<Rightarrow> string \<Rightarrow> json \<Rightarrow> (rewriteEntry list \<Rightarrow> rewriteEntry list) \<Rightarrow> bool" where
  "carries_out c Z method path j op \<longleftrightarrow>
     (\<forall>w r w'. ht_Do (agk_http c) (ag_request c method path (JsonBody j)) w = (r, w') \<longrightarrow>
        (Z w' = Z w \<or> Z w' = op (Z w)) \<and> (\<forall>resp. r = Inr resp \<longrightarrow> hr_StatusCode resp = 200 \<longrightarrow> Z w' = op (Z w)))"

definition ag_server :: "'w ag_Client \<Rightarrow> ('w \<Rightarrow> rewriteEntry list) \<Rightarrow> bool" where
  "ag_server c Z \<longleftrightarrow>
     (\<forall>path w. Z (snd (ht_Do (agk_http c) (ag_request c MethodGet path NoBody) w)) = Z w) \<and>
     (\<forall>w resp w'. ht_Do (agk_http c) (ag_request c MethodGet ''/rewrite/list'' NoBody) w = (Inr resp, w') \<longrightarrow>
        hr_StatusCode resp = 200 \<longrightarrow> Unmarshal (dec_list (rewrite [] []) dec_rewrite) [] resp = Inr (Z w)) \<and>
     (\<forall>e. carries_out c Z MethodPost ''/rewrite/add'' (rewrite_json e) (added e)) \<and>
     (\<forall>e. carries_out c Z MethodPost ''/rewrite/delete'' (rewrite_json e) (removed e)) \<and>
     (\<forall>e f. carries_out c Z MethodPut ''/rewrite/update'' (rewriteUpdate_json e f) (updated e f))"

lemma ag_doRequest_cases:
  assumes "ag_doRequest c method path body w = (r, w')"
  obtains (failed) e where "r = Inl e" "w' = w"
    | (sent) q where "ht_Do (agk_http c) (ag_request c method path body) w = (q, w')"
        "\<And>resp text. r = Inr (resp, text) \<Longrightarrow> q = Inr resp"
proof (cases "ht_NewRequest (agk_http c) method (agk_baseURL c @ ''/control'' @ path)")
  case None
  obtain q w1 where q: "ht_Do (agk_http c) (ag_request c method path body) w = (q, w1)" by (rule prod.exhaust)
  then have "w1 = w'" "\<And>resp text. r = Inr (resp, text) \<Longrightarrow> q = Inr resp"
    using assms None by (auto simp: ag_doRequest_def split: sum.splits)
  then show thesis using sent q by blast
next
  case (Some e)
  then show thesis using assms failed by (auto simp: ag_doRequest_def)
qed

lemma ag_status_None: "ag_status_error resp body = None \<longleftrightarrow> hr_StatusCode resp = 200"
  by (simp add: ag_status_error_def)

lemma ag_get_server:
  assumes "ag_server c Z" "ag_doRequest c MethodGet path NoBody w = (r, w')"
  shows "Z w' = Z w"
proof -
  have get: "Z (snd (ht_Do (agk_http c) (ag_request c MethodGet path NoBody) w)) = Z w"
    using assms(1) by (simp add: ag_server_def)
  show ?thesis using assms(2) by (cases rule: ag_doRequest_cases) (use get in auto)
qed

lemma ag_List_server:
  assumes "ag_server (agp_client p) Z" "ag_List p w = (r, w')"
  shows "Z w' = Z w \<and> (\<forall>rs. r = Inr rs \<longrightarrow> rs = ag_records (agp_zone p) (agp_ttl p) (Z w))"
proof -
  obtain q w1 where q: "ag_doRequest (agp_client p) MethodGet ''/rewrite/list'' NoBody w = (q, w1)" by (rule prod.exhaust)
  have w1: "w1 = w'" using assms(2) q by (auto simp: ag_List_def ag_client_List_def split: sum.splits option.splits)
  have "rs = ag_records (agp_zone p) (agp_ttl p) (Z w)" if r: "r = Inr rs" for rs
  proof -
    obtain resp body es where *: "q = Inr (resp, body)" "hr_StatusCode resp = 200"
        "Unmarshal (dec_list (rewrite [] []) dec_rewrite) [] resp = Inr es" "rs = ag_records (agp_zone p) (agp_ttl p) es"
      using assms(2) q r by (auto simp: ag_List_def ag_client_List_def ag_status_None split: sum.splits option.splits)
    from q *(1) have "ht_Do (agk_http (agp_client p)) (ag_request (agp_client p) MethodGet ''/rewrite/list'' NoBody) w = (Inr resp, w1)"
      by (auto elim: ag_doRequest_cases)
    then have "es = Z w" using assms(1) *(2,3) by (fastforce simp: ag_server_def)
    then show ?thesis using * by simp
  qed
  then show ?thesis using ag_get_server [OF assms(1) q] w1 by blast
qed

lemma ag_write_server:
  assumes "carries_out c Z method path j op" "ag_write c method path j what w = (e, w')"
  shows "(Z w' = Z w \<or> Z w' = op (Z w)) \<and> (e = None \<longrightarrow> Z w' = op (Z w))"
proof -
  obtain q w1 where q: "ag_doRequest c method path (JsonBody j) w = (q, w1)" by (rule prod.exhaust)
  have w1: "w1 = w'" and ok: "e = None \<Longrightarrow> \<exists>resp body. q = Inr (resp, body) \<and> hr_StatusCode resp = 200"
    using assms(2) q by (auto simp: ag_write_def ag_status_None split: sum.splits)
  from q show ?thesis
  proof (cases rule: ag_doRequest_cases)
    case (failed f)
    then show ?thesis using ok w1 by auto
  next
    case (sent s)
    then show ?thesis using ok w1 assms(1) by (fastforce simp: carries_out_def)
  qed
qed

lemma ag_Create_server:
  assumes "ag_server (agp_client p) Z" "ag_Create p r w = (e, w')"
  shows "(Z w' = Z w \<or> Z w' = added (rewrite (r_Hostname r) (r_Target r)) (Z w)) \<and>
    (e = None \<longrightarrow> (if ag_supported (r_Type r) then Z w' = added (rewrite (r_Hostname r) (r_Target r)) (Z w)
                    else r_Type r = RecordTypeTXT \<and> w' = w))"
proof (cases "ag_supported (r_Type r)")
  case True
  obtain f w1 where f: "ag_client_Create (agp_client p) (rewrite (r_Hostname r) (r_Target r)) w = (f, w1)" by (rule prod.exhaust)
  have "w1 = w'" "e = None \<longleftrightarrow> f = None" using assms(2) f True by (auto simp: ag_Create_def split: option.splits)
  moreover have "carries_out (agp_client p) Z MethodPost ''/rewrite/add'' (rewrite_json (rewrite (r_Hostname r) (r_Target r)))
      (added (rewrite (r_Hostname r) (r_Target r)))"
    using assms(1) by (simp add: ag_server_def)
  ultimately show ?thesis using ag_write_server f True by (fastforce simp: ag_client_Create_def)
next
  case False
  then show ?thesis using assms(2) by (auto simp: ag_Create_def split: if_splits)
qed

lemma ag_Delete_server:
  assumes "ag_server (agp_client p) Z" "ag_Delete p r w = (e, w')"
  shows "(Z w' = Z w \<or> Z w' = removed (rewrite (r_Hostname r) (r_Target r)) (Z w)) \<and>
    (e = None \<longrightarrow> (if ag_supported (r_Type r) then Z w' = removed (rewrite (r_Hostname r) (r_Target r)) (Z w)
                    else r_Type r = RecordTypeTXT \<and> w' = w))"
proof (cases "ag_supported (r_Type r)")
  case True
  obtain f w1 where f: "ag_client_Delete (agp_client p) (rewrite (r_Hostname r) (r_Target r)) w = (f, w1)" by (rule prod.exhaust)
  have "w1 = w'" "e = None \<longleftrightarrow> f = None" using assms(2) f True by (auto simp: ag_Delete_def split: option.splits)
  moreover have "carries_out (agp_client p) Z MethodPost ''/rewrite/delete'' (rewrite_json (rewrite (r_Hostname r) (r_Target r)))
      (removed (rewrite (r_Hostname r) (r_Target r)))"
    using assms(1) by (simp add: ag_server_def)
  ultimately show ?thesis using ag_write_server f True by (fastforce simp: ag_client_Delete_def)
next
  case False
  then show ?thesis using assms(2) by (auto simp: ag_Delete_def split: if_splits)
qed

lemma ag_Update_server:
  assumes "ag_server (agp_client p) Z" "ag_Update p a b w = (e, w')"
  shows "(Z w' = Z w \<or> Z w' = updated (rewrite (r_Hostname a) (r_Target a)) (rewrite (r_Hostname b) (r_Target b)) (Z w)) \<and>
    (e = None \<longrightarrow> Z w' = updated (rewrite (r_Hostname a) (r_Target a)) (rewrite (r_Hostname b) (r_Target b)) (Z w))"
proof -
  obtain f w1 where f: "ag_client_Update (agp_client p) (rewrite (r_Hostname a) (r_Target a)) (rewrite (r_Hostname b) (r_Target b)) w = (f, w1)"
    by (rule prod.exhaust)
  have "w1 = w'" "e = None \<longleftrightarrow> f = None" using assms(2) f by (auto simp: ag_Update_def split: option.splits)
  moreover have "carries_out (agp_client p) Z MethodPut ''/rewrite/update''
      (rewriteUpdate_json (rewrite (r_Hostname a) (r_Target a)) (rewrite (r_Hostname b) (r_Target b)))
      (updated (rewrite (r_Hostname a) (r_Target a)) (rewrite (r_Hostname b) (r_Target b)))"
    using assms(1) by (simp add: ag_server_def)
  ultimately show ?thesis using ag_write_server f by (fastforce simp: ag_client_Update_def)
qed

subsection \<open>The contracts of a backend\<close>

lemma ag_records_append [simp]: "ag_records z t (xs @ ys) = ag_records z t xs @ ag_records z t ys"
  by (simp add: ag_records_def)

lemma ag_records_Nil [simp]: "ag_records z t [] = []"
  by (simp add: ag_records_def)

lemma ag_records_Cons:
  "ag_records z t (e # es) =
     (if re_Enabled e \<noteq> Some False \<and> classifyAnswer (re_Answer e) \<noteq> [] \<and> ag_in_zone z (re_Domain e) then [ag_record t e] else []) @
     ag_records z t es"
  by (simp add: ag_records_def)

lemma ag_record_sel [simp]: "r_Hostname (ag_record t e) = re_Domain e" "r_Target (ag_record t e) = re_Answer e"
  by (simp_all add: ag_record_def)

lemma ag_records_removed:
  "ag_records z t (removed e zs) = filter (\<lambda>x. \<not> (r_Hostname x = re_Domain e \<and> r_Target x = re_Answer e)) (ag_records z t zs)"
  by (induction zs) (auto simp: removed_def ag_records_Cons same_rewrite_def)

lemma outside_added: "NormalizeHostname (re_Domain e) \<in> N \<Longrightarrow> outside N (ag_records z t (added e zs)) = outside N (ag_records z t zs)"
  by (simp add: added_def ag_records_Cons)

lemma outside_removed: "NormalizeHostname (re_Domain e) \<in> N \<Longrightarrow> outside N (ag_records z t (removed e zs)) = outside N (ag_records z t zs)"
  unfolding ag_records_removed by (rule outside_filter) auto

lemma outside_updated:
  assumes "NormalizeHostname (re_Domain e) \<in> N" "NormalizeHostname (re_Domain f) \<in> N"
  shows "outside N (ag_records z t (updated e f zs)) = outside N (ag_records z t zs)"
  using assms by (induction zs) (auto simp: updated_def ag_records_Cons same_rewrite_def)

lemma ag_record_store:
  assumes "ag_server (agp_client p) Z"
  shows "record_store (ag_provider p) (\<lambda>w. ag_records (agp_zone p) (agp_ttl p) (Z w))"
proof
  fix c N w
  assume N: "call_names c \<subseteq> N"
  let ?L = "\<lambda>w. ag_records (agp_zone p) (agp_ttl p) (Z w)"
  show "outside N (?L (exec (ag_provider p) c w)) = outside N (?L w)"
  proof (cases c)
    case CList
    then show ?thesis using ag_List_server [OF assms, of w] by (cases "ag_List p w") (simp add: ag_provider_def)
  next
    case CPing
    obtain e w' where e: "ag_Ping p w = (e, w')" by (rule prod.exhaust)
    obtain q w1 where q: "ag_doRequest (agp_client p) MethodGet ''/status'' NoBody w = (q, w1)" by (rule prod.exhaust)
    have "w1 = w'" using e q by (auto simp: ag_Ping_def ag_client_Ping_def split: sum.splits option.splits)
    then show ?thesis using CPing e ag_get_server [OF assms q] by (simp add: ag_provider_def)
  next
    case (CCreate r)
    then show ?thesis using ag_Create_server [OF assms, of r w] N outside_added [of "rewrite (r_Hostname r) (r_Target r)" N]
      by (cases "ag_Create p r w") (auto simp: ag_provider_def rewrite_def)
  next
    case (CDelete r)
    then show ?thesis using ag_Delete_server [OF assms, of r w] N outside_removed [of "rewrite (r_Hostname r) (r_Target r)" N]
      by (cases "ag_Delete p r w") (auto simp: ag_provider_def rewrite_def)
  next
    case (CUpdate a b)
    then show ?thesis
      using ag_Update_server [OF assms, of a b w] N
        outside_updated [of "rewrite (r_Hostname a) (r_Target a)" N "rewrite (r_Hostname b) (r_Target b)"]
      by (cases "ag_Update p a b w") (auto simp: ag_provider_def rewrite_def)
  qed
next
  fix w rs w'
  assume "p_List (ag_provider p) w = (Inr rs, w')"
  then show "rs = ag_records (agp_zone p) (agp_ttl p) (Z w)" using ag_List_server [OF assms] by (simp add: ag_provider_def)
qed

subsection \<open>Writes\<close>

lemma classifyAnswer_empty: "classifyAnswer a = [] \<longleftrightarrow> a = []"
proof -
  have "ParseIP [] = None" by code_simp
  then show ?thesis by (auto simp: classifyAnswer_def RecordType_defs split: option.splits)
qed

lemma ag_records_added:
  "ag_records z t (added e zs) = ag_records z t zs @
     (if re_Answer e \<noteq> [] \<and> ag_in_zone z (re_Domain e) then [ag_record t e] else [])"
  by (simp add: added_def ag_records_Cons classifyAnswer_empty ag_record_def)

text \<open>On a server that keeps its promises, the writes of an AdGuard instance are the obvious operations on its listing. A
successful creation appends one record, whose type is read off the target and whose TTL is the instance's, unless the target
is empty or the name outside the zone; a successful deletion removes the records with that name and target, whatever their
type; text records are accepted and ignored.\<close>
theorem adguard_writes_listing:
  assumes "ag_server (agp_client p) Z"
  defines "L \<equiv> \<lambda>w. ag_records (agp_zone p) (agp_ttl p) (Z w)"
  shows "(ag_Create p r w = (None, w') \<longrightarrow>
           (if ag_supported (r_Type r) then
              L w' = L w @ (if r_Target r \<noteq> [] \<and> ag_in_zone (agp_zone p) (r_Hostname r)
                            then [ag_record (agp_ttl p) (rewrite (r_Hostname r) (r_Target r))] else [])
            else r_Type r = RecordTypeTXT \<and> w' = w)) \<and>
         (ag_Delete p r w = (None, w') \<longrightarrow>
           (if ag_supported (r_Type r) then
              L w' = filter (\<lambda>x. \<not> (r_Hostname x = r_Hostname r \<and> r_Target x = r_Target r)) (L w)
            else r_Type r = RecordTypeTXT \<and> w' = w))"
  using ag_Create_server [OF assms(1), of r w None w'] ag_Delete_server [OF assms(1), of r w None w']
  unfolding L_def by (auto simp: ag_records_added ag_records_removed rewrite_def)

subsection \<open>A server in memory\<close>

definition demo_answer :: "json \<Rightarrow> api_response" where
  "demo_answer j = \<lparr>hr_StatusCode = 200, hr_Body = [], hr_ReadError = None, hr_Json = Some j\<rparr>"

definition dec_update :: "(rewriteEntry \<times> rewriteEntry) decoder" where
  "dec_update = dec_struct
     [(''target'', on_field fst (\<lambda>v r. (v, snd r)) dec_rewrite), (''update'', on_field snd (\<lambda>v r. (fst r, v)) dec_rewrite)]"

definition demo_adguard :: "http_request \<Rightarrow> rewriteEntry list \<Rightarrow> (err + api_response) \<times> rewriteEntry list" where
  "demo_adguard req w =
     (let entry = (case hq_Body req of JsonBody j \<Rightarrow> dec_rewrite j (rewrite [] []) | NoBody \<Rightarrow> Inl ErrNotFound);
          change = (case hq_Body req of JsonBody j \<Rightarrow> dec_update j (rewrite [] [], rewrite [] []) | NoBody \<Rightarrow> Inl ErrNotFound)
      in if hq_Method req = MethodGet then (Inr (demo_answer (JArr (map rewrite_json w))), w)
         else if hq_Method req = MethodPut then
           (case change of Inr (e, f) \<Rightarrow> (Inr (demo_answer JNull), updated e f w) | Inl e \<Rightarrow> (Inl e, w))
         else case entry of
           Inl e \<Rightarrow> (Inl e, w)
         | Inr e \<Rightarrow> (Inr (demo_answer JNull), if HasSuffix (hq_URL req) ''/add'' then added e w else removed e w))"

definition demo_ag_client :: "rewriteEntry list ag_Client" where
  "demo_ag_client = \<lparr>agk_baseURL = ''http://adguard:3000'', agk_username = ''admin'', agk_password = ''pw'',
     agk_http = \<lparr>ht_NewRequest = (\<lambda>_ _. None), ht_Do = demo_adguard\<rparr>\<rparr>"

definition demo_ag :: "rewriteEntry list ag_Provider" where
  "demo_ag = \<lparr>agp_name = ''adguard'', agp_url = ''http://adguard:3000'', agp_zone = ''lan'', agp_ttl = 300, agp_client = demo_ag_client\<rparr>"

lemma dec_rewrite_json: "dec_rewrite (rewrite_json e) (rewrite [] []) = Inr e"
  by (cases e) (auto simp: dec_rewrite_def rewrite_json_def dec_struct_def on_field_def dec_string_def dec_bool_def dec_pointer_def
      find_field_def rewrite_def split: option.split)

lemma dec_update_json: "dec_update (rewriteUpdate_json e f) (rewrite [] [], rewrite [] []) = Inr (e, f)"
  by (simp add: dec_update_def rewriteUpdate_json_def dec_struct_def on_field_def find_field_def dec_rewrite_json)

lemma demo_ag_server: "ag_server demo_ag_client (\<lambda>w. w)"
proof -
  have url: "HasSuffix ''http://adguard:3000/control/rewrite/add'' ''/add''"
    "\<not> HasSuffix ''http://adguard:3000/control/rewrite/delete'' ''/add''" by code_simp+
  have "dec_items (rewrite [] []) dec_rewrite (map rewrite_json w) = Inr w" for w
    by (intro dec_items_map dec_rewrite_json)
  then show ?thesis using url
    by (simp add: ag_server_def carries_out_def demo_ag_client_def demo_adguard_def ag_request_def http_methods demo_answer_def
        Unmarshal_def dec_list_def dec_rewrite_json dec_update_json Let_def)
qed

definition demo_ag_world :: "rewriteEntry list" where
  "demo_ag_world = [rewrite ''app.lan'' ''10.0.0.1'', rewrite ''app.lan'' ''10.0.0.2'', rewrite ''ads.net'' ''0.0.0.0'']"

theorem adguard_writes_listing_witness:
  "map r_Target (ag_records ''lan'' 300 (snd (ag_Delete demo_ag (record_literal ''app.lan'' RecordTypeA ''10.0.0.1'') demo_ag_world)))
     = [''10.0.0.2'']"
proof -
  let ?r = "record_literal ''app.lan'' RecordTypeA ''10.0.0.1''"
  have server: "ag_server (agp_client demo_ag) (\<lambda>w. w)" by (simp add: demo_ag_def demo_ag_server)
  have "fst (ag_Delete demo_ag ?r demo_ag_world) = None" by code_simp
  then have "ag_Delete demo_ag ?r demo_ag_world = (None, snd (ag_Delete demo_ag ?r demo_ag_world))" by (metis prod.collapse)
  moreover have "ag_supported (r_Type ?r)" "agp_zone demo_ag = ''lan''" "agp_ttl demo_ag = 300" by code_simp+
  ultimately have "ag_records ''lan'' 300 (snd (ag_Delete demo_ag ?r demo_ag_world)) =
      filter (\<lambda>x. \<not> (r_Hostname x = ''app.lan'' \<and> r_Target x = ''10.0.0.1'')) (ag_records ''lan'' 300 demo_ag_world)"
    using adguard_writes_listing [OF server, of ?r demo_ag_world "snd (ag_Delete demo_ag ?r demo_ag_world)"] by auto
  moreover have "map r_Target (filter (\<lambda>x. \<not> (r_Hostname x = ''app.lan'' \<and> r_Target x = ''10.0.0.1'')) (ag_records ''lan'' 300 demo_ag_world))
      = [''10.0.0.2'']" by code_simp
  ultimately show ?thesis by simp
qed

end
