(* ===== verification/Technitium.thy ===== *)
theory Technitium
  imports HttpApi RecordStore
begin

text \<open>
  \<^verbatim>\<open>providers/technitium\<close>: configuration, the client, whose calls are GET requests with all parameters in the query, the
  provider, and the HTTPS records it keeps beside addresses and aliases. Log lines and functional options are left out.
\<close>

subsection \<open>Configuration\<close>

record tn_Config =
  tnc_URL :: string
  tnc_Token :: string
  tnc_Zone :: string
  tnc_TTL :: int
  tnc_AutoHTTPSRecords :: bool
  tnc_AutoHTTPSALPN :: string

definition tn_DefaultTTL :: int where "tn_DefaultTTL = 300"
definition DefaultHTTPSALPN :: string where "DefaultHTTPSALPN = ''h2''"

definition tn_Validate :: "(string \<Rightarrow> err option) \<Rightarrow> tn_Config \<Rightarrow> err option" where
  "tn_Validate malformed c =
     (let errs = http_url_errors malformed (tnc_URL c) @
                 (if tnc_Token c = [] then [''TOKEN is required''] else []) @
                 (if tnc_Zone c = [] then [''ZONE is required''] else []) @
                 (if tnc_TTL c < 0 then [''TTL must be non-negative''] else [])
      in if errs \<noteq> [] then Some (ErrorNew (''technitium config validation failed: '' @ Join errs ''; '')) else None)"

text \<open>Both loaders share everything but where the values come from.\<close>

definition tn_config_of :: "(string \<Rightarrow> err option) \<Rightarrow> string \<Rightarrow> (string \<Rightarrow> string) \<Rightarrow> string \<Rightarrow> err + tn_Config" where
  "tn_config_of malformed name get token =
     (let autoHTTPS = get ''AUTO_HTTPS_RECORDS''; alpn = get ''AUTO_HTTPS_ALPN''; ttlStr = get ''TTL'';
          c = \<lparr>tnc_URL = get ''URL'', tnc_Token = token, tnc_Zone = get ''ZONE'', tnc_TTL = tn_DefaultTTL,
               tnc_AutoHTTPSRecords = (if autoHTTPS \<noteq> [] then EqualFold autoHTTPS ''true'' \<or> autoHTTPS = ''1'' else True),
               tnc_AutoHTTPSALPN = (if alpn \<noteq> [] then alpn else DefaultHTTPSALPN)\<rparr>;
          checked = (\<lambda>c. case tn_Validate malformed c of
                       Some e \<Rightarrow> Inl (Errorf (''configuration for '' @ name @ '': '') e) | None \<Rightarrow> Inr c)
      in if ttlStr \<noteq> [] then
           (case Atoi ttlStr of
              Inl e \<Rightarrow> Inl (Errorf (''invalid TTL value '' @ Quote ttlStr @ '': '') e)
            | Inr ttl \<Rightarrow> checked (c\<lparr>tnc_TTL := ttl\<rparr>))
         else checked c)"

definition tn_LoadConfigFromMap :: "(string \<Rightarrow> err option) \<Rightarrow> string \<Rightarrow> (string, string) gomap \<Rightarrow> err + tn_Config" where
  "tn_LoadConfigFromMap malformed name m = tn_config_of malformed name (map_get [] m) (map_get [] m ''TOKEN'')"

definition tn_getEnvOrFile :: "environment \<Rightarrow> string \<Rightarrow> string \<Rightarrow> string" where
  "tn_getEnvOrFile E directKey fileKey =
     (let filePath = getEnv E fileKey in
      if filePath \<noteq> [] then (case ev_ReadFile E filePath of Inr content \<Rightarrow> TrimSpace content | Inl _ \<Rightarrow> getEnv E directKey)
      else getEnv E directKey)"

definition tn_envPrefix :: "string \<Rightarrow> string" where
  "tn_envPrefix name = ''DNSWEAVER_'' @ ReplaceAll1 (CHR ''-'') (CHR ''_'') (ToUpper name) @ ''_''"

definition tn_LoadConfig :: "(string \<Rightarrow> err option) \<Rightarrow> environment \<Rightarrow> string \<Rightarrow> err + tn_Config" where
  "tn_LoadConfig malformed E name =
     (let pre = tn_envPrefix name in
      tn_config_of malformed name (\<lambda>k. getEnv E (pre @ k)) (tn_getEnvOrFile E (pre @ ''TOKEN'') (pre @ ''TOKEN_FILE'')))"

subsection \<open>Records of the API\<close>

record tn_apiRData =
  rd_IPAddress :: string
  rd_CName :: string
  rd_Text :: string
  rd_Priority :: int
  rd_Weight :: int
  rd_Port :: int
  rd_SrvTarget :: string
  rd_SvcPriority :: int
  rd_SvcTargetName :: string
  rd_SvcParams :: string

record tn_apiRecord =
  ta_Name :: string
  ta_Type :: string
  ta_TTL :: int
  ta_RData :: tn_apiRData
  ta_Disabled :: bool

text \<open>
  \<^verbatim>\<open>svcParams\<close> is a string or an object whose values are strings or lists of strings; other values are dropped. Of a key
  that repeats, the last value counts.
\<close>

definition svc_part :: "string \<Rightarrow> json \<Rightarrow> string list" where
  "svc_part k v =
     (case dec_string v [] of
        Inr s \<Rightarrow> [k @ ''|'' @ s]
      | Inl _ \<Rightarrow> (case dec_list [] dec_string v [] of Inr vs \<Rightarrow> [k @ ''|'' @ Join vs '',''] | Inl _ \<Rightarrow> []))"

definition dec_svcParams :: "string decoder" where
  "dec_svcParams j old =
     (case dec_string j [] of
        Inr s \<Rightarrow> Inr s
      | Inl _ \<Rightarrow>
          (case j of
             JObj kvs \<Rightarrow>
               let obj = fold (\<lambda>(k, v) m. AList.update k v m) kvs [] in
               Inr (Join (concat (map (\<lambda>k. svc_part k (map_get JNull obj k)) (sort (map fst obj)))) '' '')
           | _ \<Rightarrow> Inl (ErrorNew ''svcParams: cannot parse as string or object'')))"

definition dec_tn_apiRData :: "tn_apiRData decoder" where
  "dec_tn_apiRData = dec_struct
     [(''ipAddress'', on_field rd_IPAddress (\<lambda>v r. r\<lparr>rd_IPAddress := v\<rparr>) dec_string),
      (''cname'', on_field rd_CName (\<lambda>v r. r\<lparr>rd_CName := v\<rparr>) dec_string),
      (''text'', on_field rd_Text (\<lambda>v r. r\<lparr>rd_Text := v\<rparr>) dec_string),
      (''priority'', on_field rd_Priority (\<lambda>v r. r\<lparr>rd_Priority := v\<rparr>) dec_int),
      (''weight'', on_field rd_Weight (\<lambda>v r. r\<lparr>rd_Weight := v\<rparr>) dec_int),
      (''port'', on_field rd_Port (\<lambda>v r. r\<lparr>rd_Port := v\<rparr>) dec_int),
      (''target'', on_field rd_SrvTarget (\<lambda>v r. r\<lparr>rd_SrvTarget := v\<rparr>) dec_string),
      (''svcPriority'', on_field rd_SvcPriority (\<lambda>v r. r\<lparr>rd_SvcPriority := v\<rparr>) dec_int),
      (''svcTargetName'', on_field rd_SvcTargetName (\<lambda>v r. r\<lparr>rd_SvcTargetName := v\<rparr>) dec_string),
      (''svcParams'', on_field rd_SvcParams (\<lambda>v r. r\<lparr>rd_SvcParams := v\<rparr>) dec_svcParams)]"

definition no_RData :: tn_apiRData where
  "no_RData = \<lparr>rd_IPAddress = [], rd_CName = [], rd_Text = [], rd_Priority = 0, rd_Weight = 0, rd_Port = 0, rd_SrvTarget = [],
     rd_SvcPriority = 0, rd_SvcTargetName = [], rd_SvcParams = []\<rparr>"

definition no_tn_apiRecord :: tn_apiRecord where
  "no_tn_apiRecord = \<lparr>ta_Name = [], ta_Type = [], ta_TTL = 0, ta_RData = no_RData, ta_Disabled = False\<rparr>"

definition dec_tn_apiRecord :: "tn_apiRecord decoder" where
  "dec_tn_apiRecord = dec_struct
     [(''name'', on_field ta_Name (\<lambda>v r. r\<lparr>ta_Name := v\<rparr>) dec_string),
      (''type'', on_field ta_Type (\<lambda>v r. r\<lparr>ta_Type := v\<rparr>) dec_string),
      (''ttl'', on_field ta_TTL (\<lambda>v r. r\<lparr>ta_TTL := v\<rparr>) dec_int),
      (''rData'', on_field ta_RData (\<lambda>v r. r\<lparr>ta_RData := v\<rparr>) dec_tn_apiRData),
      (''disabled'', on_field ta_Disabled (\<lambda>v r. r\<lparr>ta_Disabled := v\<rparr>) dec_bool)]"

text \<open>The answer around every result; \<^verbatim>\<open>json.RawMessage\<close> keeps the document as it is.\<close>

record tn_apiResponse =
  tr_Status :: string
  tr_ErrorMessage :: string
  tr_Response :: "json option"

definition dec_tn_apiResponse :: "tn_apiResponse decoder" where
  "dec_tn_apiResponse = dec_struct
     [(''status'', on_field tr_Status (\<lambda>v r. r\<lparr>tr_Status := v\<rparr>) dec_string),
      (''errorMessage'', on_field tr_ErrorMessage (\<lambda>v r. r\<lparr>tr_ErrorMessage := v\<rparr>) dec_string),
      (''response'', on_field tr_Response (\<lambda>v r. r\<lparr>tr_Response := v\<rparr>) (\<lambda>j _. Inr (Some j)))]"

record tn_zoneInfo =
  zi_Name :: string
  zi_Type :: string
  zi_Disabled :: bool

definition dec_tn_zoneInfo :: "tn_zoneInfo decoder" where
  "dec_tn_zoneInfo = dec_struct
     [(''name'', on_field zi_Name (\<lambda>v r. r\<lparr>zi_Name := v\<rparr>) dec_string),
      (''type'', on_field zi_Type (\<lambda>v r. r\<lparr>zi_Type := v\<rparr>) dec_string),
      (''disabled'', on_field zi_Disabled (\<lambda>v r. r\<lparr>zi_Disabled := v\<rparr>) dec_bool)]"

record tn_zoneRecords =
  zs_Zone :: tn_zoneInfo
  zs_Name :: string
  zs_Records :: "tn_apiRecord list"

definition no_zoneRecords :: tn_zoneRecords where
  "no_zoneRecords = \<lparr>zs_Zone = \<lparr>zi_Name = [], zi_Type = [], zi_Disabled = False\<rparr>, zs_Name = [], zs_Records = []\<rparr>"

text \<open>Listing a zone decodes into the same struct without the name.\<close>

definition dec_tn_zoneRecords :: "bool \<Rightarrow> tn_zoneRecords decoder" where
  "dec_tn_zoneRecords with_name = dec_struct
     ([(''zone'', on_field zs_Zone (\<lambda>v r. r\<lparr>zs_Zone := v\<rparr>) dec_tn_zoneInfo)] @
      (if with_name then [(''name'', on_field zs_Name (\<lambda>v r. r\<lparr>zs_Name := v\<rparr>) dec_string)] else []) @
      [(''records'', on_field zs_Records (\<lambda>v r. r\<lparr>zs_Records := v\<rparr>) (dec_list no_tn_apiRecord dec_tn_apiRecord))])"

subsection \<open>The client\<close>

record 'w tn_Client =
  tnk_baseURL :: string
  tnk_token :: string
  tnk_http :: "'w http"

definition tn_NewClient :: "'w http \<Rightarrow> string \<Rightarrow> string \<Rightarrow> 'w tn_Client" where
  "tn_NewClient h baseURL token = \<lparr>tnk_baseURL = baseURL, tnk_token = token, tnk_http = h\<rparr>"

definition tn_request :: "'w tn_Client \<Rightarrow> string \<Rightarrow> url_values \<Rightarrow> http_request" where
  "tn_request c endpoint params =
     \<lparr>hq_Method = MethodGet,
      hq_URL = tnk_baseURL c @ endpoint @ ''?'' @ Values_Encode (AList.update ''token'' (tnk_token c) params),
      hq_Header = [], hq_Body = NoBody\<rparr>"

definition tn_api_error :: "string \<Rightarrow> err" where
  "tn_api_error message =
     (let errLower = ToLower message in
      if Contains errLower ''record already exists'' \<or> Contains errLower ''identical record''
      then Errorf (''API error: '' @ message @ '': '') ErrConflict
      else if Contains errLower ''cname record cannot'' then Errorf (''API error: '' @ message @ '': '') ErrTypeConflict
      else ErrorNew (''API error: '' @ message))"

definition tn_doRequest :: "'w tn_Client \<Rightarrow> string \<Rightarrow> url_values \<Rightarrow> 'w \<Rightarrow> (err + tn_apiResponse) \<times> 'w" where
  "tn_doRequest c endpoint params w =
     (case ht_NewRequest (tnk_http c) MethodGet (hq_URL (tn_request c endpoint params)) of
        Some e \<Rightarrow> (Inl (Errorf ''creating request: '' e), w)
      | None \<Rightarrow>
          (case ht_Do (tnk_http c) (tn_request c endpoint params) w of
             (Inl e, w') \<Rightarrow> (Inl (Errorf ''executing request: '' e), w')
           | (Inr resp, w') \<Rightarrow>
               (case ReadBody resp 0 of
                  Inl e \<Rightarrow> (Inl (Errorf ''reading response body: '' e), w')
                | Inr body \<Rightarrow>
                    if hr_StatusCode resp \<noteq> 200 then
                      (Inl (ErrorNew (''unexpected status code '' @ Itoa (hr_StatusCode resp) @ '': '' @ body)), w')
                    else
                      (case Unmarshal dec_tn_apiResponse \<lparr>tr_Status = [], tr_ErrorMessage = [], tr_Response = None\<rparr> resp of
                         Inl e \<Rightarrow> (Inl (Errorf ''parsing response JSON: '' e), w')
                       | Inr apiResp \<Rightarrow>
                           if tr_Status apiResp = ''error'' then (Inl (tn_api_error (tr_ErrorMessage apiResp)), w')
                           else (Inr apiResp, w')))))"

definition tn_client_Ping :: "'w tn_Client \<Rightarrow> 'w \<Rightarrow> err option \<times> 'w" where
  "tn_client_Ping c w =
     (case tn_doRequest c ''/api/user/session/get'' [] w of
        (Inl e, w') \<Rightarrow> (Some (Errorf ''ping failed: '' e), w') | (Inr _, w') \<Rightarrow> (None, w'))"

definition ep_add :: string where "ep_add = ''/api/zones/records/add''"
definition ep_delete :: string where "ep_delete = ''/api/zones/records/delete''"
definition ep_update :: string where "ep_update = ''/api/zones/records/update''"
definition ep_get :: string where "ep_get = ''/api/zones/records/get''"

text \<open>The writing calls differ in the endpoint, the parameters and the text of their error.\<close>

definition tn_send :: "'w tn_Client \<Rightarrow> string \<Rightarrow> url_values \<Rightarrow> string \<Rightarrow> 'w \<Rightarrow> err option \<times> 'w" where
  "tn_send c endpoint params what w =
     (case tn_doRequest c endpoint params w of (Inl e, w') \<Rightarrow> (Some (Errorf (what @ '': '') e), w') | (Inr _, w') \<Rightarrow> (None, w'))"

definition tn_domain :: "string \<Rightarrow> string \<Rightarrow> RecordType \<Rightarrow> url_values" where
  "tn_domain zone hostname rt = [(''zone'', zone), (''domain'', hostname), (''type'', rt)]"

definition AddARecord :: "'w tn_Client \<Rightarrow> string \<Rightarrow> string \<Rightarrow> string \<Rightarrow> int \<Rightarrow> 'w \<Rightarrow> err option \<times> 'w" where
  "AddARecord c zone hostname ip ttl =
     tn_send c ep_add (tn_domain zone hostname ''A'' @ [(''ipAddress'', ip), (''ttl'', show_int ttl)])
       (''adding A record for '' @ hostname)"

definition AddAAAARecord :: "'w tn_Client \<Rightarrow> string \<Rightarrow> string \<Rightarrow> string \<Rightarrow> int \<Rightarrow> 'w \<Rightarrow> err option \<times> 'w" where
  "AddAAAARecord c zone hostname ip ttl =
     tn_send c ep_add (tn_domain zone hostname ''AAAA'' @ [(''ipAddress'', ip), (''ttl'', show_int ttl)])
       (''adding AAAA record for '' @ hostname)"

definition AddCNAMERecord :: "'w tn_Client \<Rightarrow> string \<Rightarrow> string \<Rightarrow> string \<Rightarrow> int \<Rightarrow> 'w \<Rightarrow> err option \<times> 'w" where
  "AddCNAMERecord c zone hostname target ttl =
     tn_send c ep_add (tn_domain zone hostname ''CNAME'' @ [(''cname'', target), (''ttl'', show_int ttl)])
       (''adding CNAME record for '' @ hostname)"

definition tn_DeleteARecord :: "'w tn_Client \<Rightarrow> string \<Rightarrow> string \<Rightarrow> string \<Rightarrow> 'w \<Rightarrow> err option \<times> 'w" where
  "tn_DeleteARecord c zone hostname ip =
     tn_send c ep_delete (tn_domain zone hostname ''A'' @ [(''ipAddress'', ip)]) (''deleting A record for '' @ hostname)"

definition tn_DeleteAAAARecord :: "'w tn_Client \<Rightarrow> string \<Rightarrow> string \<Rightarrow> string \<Rightarrow> 'w \<Rightarrow> err option \<times> 'w" where
  "tn_DeleteAAAARecord c zone hostname ip =
     tn_send c ep_delete (tn_domain zone hostname ''AAAA'' @ [(''ipAddress'', ip)]) (''deleting AAAA record for '' @ hostname)"

definition tn_DeleteCNAMERecord :: "'w tn_Client \<Rightarrow> string \<Rightarrow> string \<Rightarrow> string \<Rightarrow> 'w \<Rightarrow> err option \<times> 'w" where
  "tn_DeleteCNAMERecord c zone hostname target =
     tn_send c ep_delete (tn_domain zone hostname ''CNAME'' @ [(''cname'', target)]) (''deleting CNAME record for '' @ hostname)"

definition AddTXTRecord :: "'w tn_Client \<Rightarrow> string \<Rightarrow> string \<Rightarrow> string \<Rightarrow> int \<Rightarrow> 'w \<Rightarrow> err option \<times> 'w" where
  "AddTXTRecord c zone hostname t ttl =
     tn_send c ep_add (tn_domain zone hostname ''TXT'' @ [(''text'', t), (''ttl'', show_int ttl)])
       (''adding TXT record for '' @ hostname)"

definition tn_DeleteTXTRecord :: "'w tn_Client \<Rightarrow> string \<Rightarrow> string \<Rightarrow> string \<Rightarrow> 'w \<Rightarrow> err option \<times> 'w" where
  "tn_DeleteTXTRecord c zone hostname t =
     tn_send c ep_delete (tn_domain zone hostname ''TXT'' @ [(''text'', t)]) (''deleting TXT record for '' @ hostname)"

definition srv_params :: "int \<Rightarrow> int \<Rightarrow> int \<Rightarrow> string \<Rightarrow> url_values" where
  "srv_params priority weight port target =
     [(''priority'', show_int priority), (''weight'', show_int weight), (''port'', show_int port), (''target'', target)]"

definition AddSRVRecord :: "'w tn_Client \<Rightarrow> string \<Rightarrow> string \<Rightarrow> int \<Rightarrow> int \<Rightarrow> int \<Rightarrow> string \<Rightarrow> int \<Rightarrow> 'w \<Rightarrow> err option \<times> 'w" where
  "AddSRVRecord c zone hostname priority weight port target ttl =
     tn_send c ep_add (tn_domain zone hostname ''SRV'' @ srv_params priority weight port target @ [(''ttl'', show_int ttl)])
       (''adding SRV record for '' @ hostname)"

definition tn_DeleteSRVRecord :: "'w tn_Client \<Rightarrow> string \<Rightarrow> string \<Rightarrow> int \<Rightarrow> int \<Rightarrow> int \<Rightarrow> string \<Rightarrow> 'w \<Rightarrow> err option \<times> 'w" where
  "tn_DeleteSRVRecord c zone hostname priority weight port target =
     tn_send c ep_delete (tn_domain zone hostname ''SRV'' @ srv_params priority weight port target)
       (''deleting SRV record for '' @ hostname)"

definition svc_params :: "int \<Rightarrow> string \<Rightarrow> string \<Rightarrow> url_values" where
  "svc_params svcPriority svcTargetName svcParams =
     [(''svcPriority'', show_int svcPriority), (''svcTargetName'', svcTargetName), (''svcParams'', svcParams)]"

definition AddHTTPSRecord :: "'w tn_Client \<Rightarrow> string \<Rightarrow> string \<Rightarrow> int \<Rightarrow> string \<Rightarrow> string \<Rightarrow> int \<Rightarrow> 'w \<Rightarrow> err option \<times> 'w" where
  "AddHTTPSRecord c zone hostname svcPriority svcTargetName svcParams ttl =
     tn_send c ep_add (tn_domain zone hostname ''HTTPS'' @ svc_params svcPriority svcTargetName svcParams @ [(''ttl'', show_int ttl)])
       (''adding HTTPS record for '' @ hostname)"

definition tn_DeleteHTTPSRecord :: "'w tn_Client \<Rightarrow> string \<Rightarrow> string \<Rightarrow> int \<Rightarrow> string \<Rightarrow> string \<Rightarrow> 'w \<Rightarrow> err option \<times> 'w" where
  "tn_DeleteHTTPSRecord c zone hostname svcPriority svcTargetName svcParams =
     tn_send c ep_delete (tn_domain zone hostname ''HTTPS'' @ svc_params svcPriority svcTargetName svcParams)
       (''deleting HTTPS record for '' @ hostname)"

definition UpdateARecord :: "'w tn_Client \<Rightarrow> string \<Rightarrow> string \<Rightarrow> string \<Rightarrow> string \<Rightarrow> int \<Rightarrow> 'w \<Rightarrow> err option \<times> 'w" where
  "UpdateARecord c zone hostname oldIP newIP ttl =
     tn_send c ep_update (tn_domain zone hostname ''A'' @ [(''ipAddress'', oldIP), (''newIpAddress'', newIP), (''ttl'', show_int ttl)])
       (''updating A record for '' @ hostname)"

definition UpdateAAAARecord :: "'w tn_Client \<Rightarrow> string \<Rightarrow> string \<Rightarrow> string \<Rightarrow> string \<Rightarrow> int \<Rightarrow> 'w \<Rightarrow> err option \<times> 'w" where
  "UpdateAAAARecord c zone hostname oldIP newIP ttl =
     tn_send c ep_update (tn_domain zone hostname ''AAAA'' @ [(''ipAddress'', oldIP), (''newIpAddress'', newIP), (''ttl'', show_int ttl)])
       (''updating AAAA record for '' @ hostname)"

text \<open>The old target only appears in the log.\<close>

definition UpdateCNAMERecord :: "'w tn_Client \<Rightarrow> string \<Rightarrow> string \<Rightarrow> string \<Rightarrow> string \<Rightarrow> int \<Rightarrow> 'w \<Rightarrow> err option \<times> 'w" where
  "UpdateCNAMERecord c zone hostname oldTarget newTarget ttl =
     tn_send c ep_update (tn_domain zone hostname ''CNAME'' @ [(''cname'', newTarget), (''ttl'', show_int ttl)])
       (''updating CNAME record for '' @ hostname)"

text \<open>Reading records; a missing \<^verbatim>\<open>response\<close> is an error of the decoder.\<close>

definition tn_read :: "'w tn_Client \<Rightarrow> url_values \<Rightarrow> bool \<Rightarrow> string \<Rightarrow> string \<Rightarrow> 'w \<Rightarrow> (err + tn_apiRecord list) \<times> 'w" where
  "tn_read c params with_name what parsing w =
     (case tn_doRequest c ep_get params w of
        (Inl e, w') \<Rightarrow> (Inl (Errorf (what @ '': '') e), w')
      | (Inr apiResp, w') \<Rightarrow>
          (case (case tr_Response apiResp of
                   None \<Rightarrow> Inl (ErrorNew ''unexpected end of JSON input'')
                 | Some j \<Rightarrow> dec_tn_zoneRecords with_name j no_zoneRecords) of
             Inl e \<Rightarrow> (Inl (Errorf (parsing @ '': '') e), w')
           | Inr z \<Rightarrow> (Inr (zs_Records z), w')))"

definition GetRecords :: "'w tn_Client \<Rightarrow> string \<Rightarrow> string \<Rightarrow> 'w \<Rightarrow> (err + tn_apiRecord list) \<times> 'w" where
  "GetRecords c zone hostname =
     tn_read c [(''zone'', zone), (''domain'', hostname)] True (''getting records for '' @ hostname) ''parsing records response''"

definition ListZoneRecords :: "'w tn_Client \<Rightarrow> string \<Rightarrow> 'w \<Rightarrow> (err + tn_apiRecord list) \<times> 'w" where
  "ListZoneRecords c zone =
     tn_read c [(''zone'', zone), (''domain'', zone), (''listZone'', ''true'')] False (''listing zone '' @ zone)
       ''parsing zone records response''"

definition parseSvcParams :: "string \<Rightarrow> (string, string) gomap" where
  "parseSvcParams s =
     fold (\<lambda>part out. case SplitN2 part (CHR ''|'') of [k, v] \<Rightarrow> AList.update k v out | _ \<Rightarrow> out)
       (filter (\<lambda>part. part \<noteq> []) (Split s (CHR '' ''))) []"

subsection \<open>The provider\<close>

record 'w tn_Provider =
  tnp_name :: string
  tnp_url :: string
  tnp_zone :: string
  tnp_ttl :: int
  tnp_autoHTTPSRecords :: bool
  tnp_autoHTTPSALPN :: string
  tnp_client :: "'w tn_Client"

definition tn_New :: "(string \<Rightarrow> err option) \<Rightarrow> 'w http \<Rightarrow> string \<Rightarrow> tn_Config option \<Rightarrow> err + 'w tn_Provider" where
  "tn_New malformed h name config =
     (case config of
        None \<Rightarrow> Inl (ErrorNew ''config is required'')
      | Some c \<Rightarrow>
          (case tn_Validate malformed c of
             Some e \<Rightarrow> Inl e
           | None \<Rightarrow> Inr \<lparr>tnp_name = name, tnp_url = tnc_URL c, tnp_zone = tnc_Zone c, tnp_ttl = tnc_TTL c,
                          tnp_autoHTTPSRecords = tnc_AutoHTTPSRecords c, tnp_autoHTTPSALPN = tnc_AutoHTTPSALPN c,
                          tnp_client = tn_NewClient h (tnc_URL c) (tnc_Token c)\<rparr>))"

definition tn_NewFromEnv :: "(string \<Rightarrow> err option) \<Rightarrow> 'w http \<Rightarrow> environment \<Rightarrow> string \<Rightarrow> err + 'w tn_Provider" where
  "tn_NewFromEnv malformed h E name =
     (case tn_LoadConfig malformed E name of Inl e \<Rightarrow> Inl e | Inr c \<Rightarrow> tn_New malformed h name (Some c))"

text \<open>The constructor of the factory does not set the field \<^verbatim>\<open>url\<close>.\<close>

definition tn_NewWithHTTPClient :: "(string \<Rightarrow> err option) \<Rightarrow> 'w http \<Rightarrow> string \<Rightarrow> tn_Config option \<Rightarrow> err + 'w tn_Provider" where
  "tn_NewWithHTTPClient malformed h name config =
     (case config of
        None \<Rightarrow> Inl (ErrorNew ''config is required'')
      | Some c \<Rightarrow>
          (case tn_Validate malformed c of
             Some e \<Rightarrow> Inl e
           | None \<Rightarrow> Inr \<lparr>tnp_name = name, tnp_url = [], tnp_zone = tnc_Zone c, tnp_ttl = tnc_TTL c,
                          tnp_autoHTTPSRecords = tnc_AutoHTTPSRecords c, tnp_autoHTTPSALPN = tnc_AutoHTTPSALPN c,
                          tnp_client = tn_NewClient h (tnc_URL c) (tnc_Token c)\<rparr>))"

definition tn_Identity :: "'w tn_Provider \<Rightarrow> ProviderIdentity" where
  "tn_Identity p = \<lparr>id_Type = ''technitium'', id_Endpoint = tnp_url p, id_Zone = tnp_zone p\<rparr>"

definition tn_Capabilities :: Capabilities where
  "tn_Capabilities = \<lparr>SupportsOwnershipTXT = True, SupportsNativeUpdate = True,
     SupportedRecordTypes = [RecordTypeA, RecordTypeAAAA, RecordTypeCNAME, RecordTypeSRV, RecordTypeTXT, RecordTypeHTTPS]\<rparr>"

definition tn_Ping :: "'w tn_Provider \<Rightarrow> 'w \<Rightarrow> err option \<times> 'w" where
  "tn_Ping p = tn_client_Ping (tnp_client p)"

fun alpn_of :: "string list \<Rightarrow> string" where
  "alpn_of [] = []"
| "alpn_of (param # params) =
     (case SplitN2 param (CHR ''|'') of
        [k, v] \<Rightarrow> if k = ''alpn'' then v else alpn_of params
      | _ \<Rightarrow> alpn_of params)"

definition extractALPN :: "string \<Rightarrow> string" where
  "extractALPN svcParams = alpn_of (Split svcParams (CHR '' ''))"

definition buildSvcParams :: "string \<Rightarrow> string" where
  "buildSvcParams alpn = (if alpn = [] then [] else ''alpn|'' @ alpn)"

definition to_uint16 :: "int \<Rightarrow> uint16" where
  "to_uint16 n = word_of_int (min (max 0 n) 65535)"

definition tn_record :: "tn_apiRecord \<Rightarrow> string \<Rightarrow> string list \<Rightarrow> Record" where
  "tn_record r target parts = (record_literal (ta_Name r) (ta_Type r) target)
     \<lparr>r_TTL := ta_TTL r, r_ProviderID := Join (ta_Name r # ta_Type r # parts) '':''\<rparr>"

definition tn_listed :: "tn_apiRecord \<Rightarrow> Record list" where
  "tn_listed r =
     (let d = ta_RData r; ty = ta_Type r in
      if ty = ''A'' \<or> ty = ''AAAA'' then [tn_record r (rd_IPAddress d) [rd_IPAddress d]]
      else if ty = ''CNAME'' then [tn_record r (rd_CName d) [rd_CName d]]
      else if ty = ''TXT'' then [tn_record r (rd_Text d) [rd_Text d]]
      else if ty = ''SRV'' then
        [(tn_record r (rd_SrvTarget d) [show_int (rd_Priority d), show_int (rd_Weight d), show_int (rd_Port d), rd_SrvTarget d])
          \<lparr>r_SRV := Some \<lparr>srv_Priority = to_uint16 (rd_Priority d), srv_Weight = to_uint16 (rd_Weight d),
                           srv_Port = to_uint16 (rd_Port d)\<rparr>\<rparr>]
      else if ty = ''HTTPS'' then
        [(tn_record r (rd_SvcTargetName d) [show_int (rd_SvcPriority d), rd_SvcTargetName d, rd_SvcParams d])
          \<lparr>r_HTTPS := Some \<lparr>https_Priority = to_uint16 (rd_SvcPriority d), https_TargetName = rd_SvcTargetName d,
                             https_ALPN = extractALPN (rd_SvcParams d)\<rparr>\<rparr>]
      else [])"

definition tn_List :: "'w tn_Provider \<Rightarrow> 'w \<Rightarrow> (err + Record list) \<times> 'w" where
  "tn_List p w =
     (case ListZoneRecords (tnp_client p) (tnp_zone p) w of
        (Inl e, w') \<Rightarrow> (Inl (Errorf ''listing records: '' e), w')
      | (Inr rs, w') \<Rightarrow> (Inr (concat (map tn_listed rs)), w'))"

subsubsection \<open>Companions\<close>

definition needsCompanionHTTPS :: "RecordType \<Rightarrow> bool" where
  "needsCompanionHTTPS t \<longleftrightarrow> t = RecordTypeA \<or> t = RecordTypeAAAA \<or> t = RecordTypeCNAME"

definition companionHTTPSSvcPriority :: int where "companionHTTPSSvcPriority = 1"
definition companionHTTPSTargetName :: string where "companionHTTPSTargetName = ''.''"

definition hasHTTPSRecord :: "'w tn_Provider \<Rightarrow> string \<Rightarrow> 'w \<Rightarrow> (err + bool) \<times> 'w" where
  "hasHTTPSRecord p hostname w =
     (case GetRecords (tnp_client p) (tnp_zone p) hostname w of
        (Inl e, w') \<Rightarrow> (Inl (Errorf (''checking HTTPS records for '' @ hostname @ '': '') e), w')
      | (Inr rs, w') \<Rightarrow> (Inr (list_ex (\<lambda>r. ta_Type r = ''HTTPS'') rs), w'))"

definition createCompanionHTTPS :: "'w tn_Provider \<Rightarrow> string \<Rightarrow> RecordType \<Rightarrow> int \<Rightarrow> 'w \<Rightarrow> err option \<times> 'w" where
  "createCompanionHTTPS p hostname rt ttl w =
     (if \<not> tnp_autoHTTPSRecords p \<or> \<not> needsCompanionHTTPS rt then (None, w)
      else
        (case hasHTTPSRecord p hostname w of
           (Inl e, w') \<Rightarrow> (None, w')
         | (Inr exists, w') \<Rightarrow>
             if exists then (None, w')
             else
               (case AddHTTPSRecord (tnp_client p) (tnp_zone p) hostname companionHTTPSSvcPriority companionHTTPSTargetName
                       (buildSvcParams (tnp_autoHTTPSALPN p)) ttl w' of
                  (None, w2) \<Rightarrow> (None, w2)
                | (Some e, w2) \<Rightarrow>
                    if Contains (Error e) ''record already exists'' \<or> Contains (Error e) ''Identical record'' then (None, w2)
                    else (Some (Errorf (''creating companion HTTPS record for '' @ hostname @ '': '') e), w2))))"

definition deleteCompanionHTTPS :: "'w tn_Provider \<Rightarrow> string \<Rightarrow> RecordType \<Rightarrow> 'w \<Rightarrow> err option \<times> 'w" where
  "deleteCompanionHTTPS p hostname rt w =
     (if \<not> tnp_autoHTTPSRecords p \<or> \<not> needsCompanionHTTPS rt then (None, w)
      else
        (case tn_DeleteHTTPSRecord (tnp_client p) (tnp_zone p) hostname companionHTTPSSvcPriority companionHTTPSTargetName
                (buildSvcParams (tnp_autoHTTPSALPN p)) w of
           (None, w') \<Rightarrow> (None, w')
         | (Some e, w') \<Rightarrow> (Some (Errorf (''deleting companion HTTPS record for '' @ hostname @ '': '') e), w')))"

subsubsection \<open>Operations\<close>

text \<open>The call of the client that a record's type selects, with the text that wraps its error.\<close>

definition srv_int :: "uint16 \<Rightarrow> int" where "srv_int x = int (unat x)"

definition tn_add :: "'w tn_Provider \<Rightarrow> Record \<Rightarrow> int \<Rightarrow> 'w \<Rightarrow> err option \<times> 'w" where
  "tn_add p r ttl w =
     (let c = tnp_client p; zone = tnp_zone p; h = r_Hostname r; ty = r_Type r;
          wrap = (\<lambda>(e, w'). (map_option (Errorf (''creating '' @ ty @ '' record: '')) e, w'))
      in if ty = RecordTypeA then wrap (AddARecord c zone h (r_Target r) ttl w)
         else if ty = RecordTypeAAAA then wrap (AddAAAARecord c zone h (r_Target r) ttl w)
         else if ty = RecordTypeCNAME then wrap (AddCNAMERecord c zone h (r_Target r) ttl w)
         else if ty = RecordTypeTXT then wrap (AddTXTRecord c zone h (r_Target r) ttl w)
         else if ty = RecordTypeSRV then
           (case r_SRV r of
              None \<Rightarrow> (Some (ErrorNew ''creating SRV record: SRV data is required''), w)
            | Some s \<Rightarrow> wrap (AddSRVRecord c zone h (srv_int (srv_Priority s)) (srv_int (srv_Weight s)) (srv_int (srv_Port s))
                               (r_Target r) ttl w))
         else if ty = RecordTypeHTTPS then
           (case r_HTTPS r of
              None \<Rightarrow> (Some (ErrorNew ''creating HTTPS record: HTTPS data is required''), w)
            | Some d \<Rightarrow> wrap (AddHTTPSRecord c zone h (srv_int (https_Priority d)) (https_TargetName d)
                               (buildSvcParams (https_ALPN d)) ttl w))
         else (Some (ErrorNew (''unsupported record type: '' @ ty)), w))"

definition tn_remove :: "'w tn_Provider \<Rightarrow> Record \<Rightarrow> 'w \<Rightarrow> err option \<times> 'w" where
  "tn_remove p r w =
     (let c = tnp_client p; zone = tnp_zone p; h = r_Hostname r; ty = r_Type r;
          wrap = (\<lambda>(e, w'). (map_option (Errorf (''deleting '' @ ty @ '' record: '')) e, w'))
      in if ty = RecordTypeA then wrap (tn_DeleteARecord c zone h (r_Target r) w)
         else if ty = RecordTypeAAAA then wrap (tn_DeleteAAAARecord c zone h (r_Target r) w)
         else if ty = RecordTypeCNAME then wrap (tn_DeleteCNAMERecord c zone h (r_Target r) w)
         else if ty = RecordTypeTXT then wrap (tn_DeleteTXTRecord c zone h (r_Target r) w)
         else if ty = RecordTypeSRV then
           (case r_SRV r of
              None \<Rightarrow> (Some (ErrorNew ''deleting SRV record: SRV data is required''), w)
            | Some s \<Rightarrow> wrap (tn_DeleteSRVRecord c zone h (srv_int (srv_Priority s)) (srv_int (srv_Weight s)) (srv_int (srv_Port s))
                               (r_Target r) w))
         else if ty = RecordTypeHTTPS then
           (case r_HTTPS r of
              None \<Rightarrow> (Some (ErrorNew ''deleting HTTPS record: HTTPS data is required''), w)
            | Some d \<Rightarrow> wrap (tn_DeleteHTTPSRecord c zone h (srv_int (https_Priority d)) (https_TargetName d)
                               (buildSvcParams (https_ALPN d)) w))
         else (Some (ErrorNew (''unsupported record type: '' @ ty)), w))"

definition tn_ttl :: "'w tn_Provider \<Rightarrow> Record \<Rightarrow> int" where
  "tn_ttl p r = (if r_TTL r \<le> 0 then tnp_ttl p else r_TTL r)"

text \<open>An error of a companion is logged only.\<close>

definition tn_Create :: "'w tn_Provider \<Rightarrow> Record \<Rightarrow> 'w \<Rightarrow> err option \<times> 'w" where
  "tn_Create p r w =
     (case tn_add p r (tn_ttl p r) w of
        (Some e, w') \<Rightarrow> (Some e, w')
      | (None, w') \<Rightarrow> (None, snd (createCompanionHTTPS p (r_Hostname r) (r_Type r) (tn_ttl p r) w')))"

definition tn_Delete :: "'w tn_Provider \<Rightarrow> Record \<Rightarrow> 'w \<Rightarrow> err option \<times> 'w" where
  "tn_Delete p r w =
     (case tn_remove p r w of
        (Some e, w') \<Rightarrow> (Some e, w')
      | (None, w') \<Rightarrow> (None, snd (deleteCompanionHTTPS p (r_Hostname r) (r_Type r) w')))"

text \<open>SRV, HTTPS and text records are replaced by a deletion and an addition.\<close>

definition tn_replace ::
  "RecordType \<Rightarrow> ('w \<Rightarrow> err option \<times> 'w) \<Rightarrow> ('w \<Rightarrow> err option \<times> 'w) \<Rightarrow> 'w \<Rightarrow> err option \<times> 'w" where
  "tn_replace ty del add w =
     (case del w of
        (Some e, w') \<Rightarrow> (Some (Errorf (''deleting old '' @ ty @ '' record for update: '') e), w')
      | (None, w') \<Rightarrow>
          (case add w' of
             (Some e, w2) \<Rightarrow> (Some (Errorf (''creating new '' @ ty @ '' record for update: '') e), w2)
           | (None, w2) \<Rightarrow> (None, w2)))"

definition tn_Update :: "'w tn_Provider \<Rightarrow> Record \<Rightarrow> Record \<Rightarrow> 'w \<Rightarrow> err option \<times> 'w" where
  "tn_Update p a b w =
     (let c = tnp_client p; zone = tnp_zone p; ttl = tn_ttl p b; ty = r_Type b;
          wrap = (\<lambda>(e, w'). (map_option (Errorf (''updating '' @ ty @ '' record: '')) e, w'))
      in if ty = RecordTypeA then wrap (UpdateARecord c zone (r_Hostname a) (r_Target a) (r_Target b) ttl w)
         else if ty = RecordTypeAAAA then wrap (UpdateAAAARecord c zone (r_Hostname a) (r_Target a) (r_Target b) ttl w)
         else if ty = RecordTypeCNAME then wrap (UpdateCNAMERecord c zone (r_Hostname a) (r_Target a) (r_Target b) ttl w)
         else if ty = RecordTypeSRV then
           (case (r_SRV a, r_SRV b) of
              (Some s, Some t) \<Rightarrow>
                tn_replace ''SRV''
                  (tn_DeleteSRVRecord c zone (r_Hostname a) (srv_int (srv_Priority s)) (srv_int (srv_Weight s)) (srv_int (srv_Port s))
                     (r_Target a))
                  (AddSRVRecord c zone (r_Hostname b) (srv_int (srv_Priority t)) (srv_int (srv_Weight t)) (srv_int (srv_Port t))
                     (r_Target b) ttl) w
            | _ \<Rightarrow> (Some (ErrorNew ''updating SRV record: SRV data is required''), w))
         else if ty = RecordTypeHTTPS then
           (case (r_HTTPS a, r_HTTPS b) of
              (Some d, Some f) \<Rightarrow>
                tn_replace ''HTTPS''
                  (tn_DeleteHTTPSRecord c zone (r_Hostname a) (srv_int (https_Priority d)) (https_TargetName d)
                     (buildSvcParams (https_ALPN d)))
                  (AddHTTPSRecord c zone (r_Hostname b) (srv_int (https_Priority f)) (https_TargetName f)
                     (buildSvcParams (https_ALPN f)) ttl) w
            | _ \<Rightarrow> (Some (ErrorNew ''updating HTTPS record: HTTPS data is required''), w))
         else if ty = RecordTypeTXT then
           tn_replace ''TXT'' (tn_DeleteTXTRecord c zone (r_Hostname a) (r_Target a))
             (AddTXTRecord c zone (r_Hostname b) (r_Target b) ttl) w
         else (Some (ErrorNew (''unsupported record type: '' @ ty)), w))"

definition tn_provider :: "'w tn_Provider \<Rightarrow> 'w Provider" where
  "tn_provider p =
     \<lparr>p_Name = tnp_name p, p_Type = ''technitium'', p_Ping = tn_Ping p, p_Capabilities = tn_Capabilities, p_List = tn_List p,
      p_Create = tn_Create p, p_Delete = tn_Delete p, p_Update = Some (tn_Update p), p_Identity = Some (tn_Identity p),
      p_Close = None\<rparr>"

definition tn_Factory :: "(string \<Rightarrow> err option) \<Rightarrow> (HTTPConfig \<Rightarrow> 'w http) \<Rightarrow> 'w Factory" where
  "tn_Factory malformed new_http cfg w =
     (case tn_LoadConfigFromMap malformed (fc_Name cfg) (fc_ProviderConfig cfg) of
        Inl e \<Rightarrow> (Inl e, w)
      | Inr c \<Rightarrow> (map_sum id tn_provider (tn_NewWithHTTPClient malformed (new_http (fc_HTTP cfg)) (fc_Name cfg) (Some c)), w))"

interpretation tn: named_factories "[(''technitium'', tn_Factory malformed new_http)]" for malformed new_http
  by unfold_locales (auto simp: tn_Factory_def tn_NewWithHTTPClient_def tn_provider_def split: sum.splits option.splits if_splits)

subsection \<open>Requests\<close>

text \<open>
  What a call may send: a read, or a write in the instance's zone under one of the names \<open>N\<close>. Every request carries the
  client's token by construction.
\<close>

definition tn_allowed :: "'w tn_Provider \<Rightarrow> string set \<Rightarrow> http_request \<Rightarrow> bool" where
  "tn_allowed p N req \<longleftrightarrow>
     (\<exists>ep params. req = tn_request (tnp_client p) ep params \<and>
        (ep = ep_get \<or> ep = ''/api/user/session/get'' \<or>
         ep \<in> {ep_add, ep_delete, ep_update} \<and> map_of params ''zone'' = Some (tnp_zone p) \<and>
         (\<exists>h. map_of params ''domain'' = Some h \<and> NormalizeHostname h \<in> N)))"

lemma tn_doRequest_sends:
  assumes "Q (tn_request c ep params)"
  shows "sends (tnk_http c) Q w (snd (tn_doRequest c ep params w))"
proof -
  obtain r w' where "ht_Do (tnk_http c) (tn_request c ep params) w = (r, w')" by (rule prod.exhaust)
  moreover from this have "sends (tnk_http c) Q w w'" using assms by (rule sends_one)
  ultimately show ?thesis by (auto simp: tn_doRequest_def split: option.split sum.split)
qed

lemma tn_send_sends:
  assumes "ep \<in> {ep_add, ep_delete, ep_update}" "NormalizeHostname h \<in> N"
  shows "sends (tnk_http (tnp_client p)) (tn_allowed p N) w
    (snd (tn_send (tnp_client p) ep (tn_domain (tnp_zone p) h ty @ params) what w))"
proof -
  have "tn_allowed p N (tn_request (tnp_client p) ep (tn_domain (tnp_zone p) h ty @ params))"
    unfolding tn_allowed_def by (rule exI [of _ ep], rule exI) (use assms in \<open>auto simp: tn_domain_def\<close>)
  note sent = tn_doRequest_sends [where Q = "tn_allowed p N", OF this, of w]
  then show ?thesis
    by (cases "tn_doRequest (tnp_client p) ep (tn_domain (tnp_zone p) h ty @ params) w") (auto simp: tn_send_def split: sum.split)
qed

lemma tn_read_sends: "sends (tnk_http (tnp_client p)) (tn_allowed p N) w (snd (tn_read (tnp_client p) params b what parsing w))"
proof -
  have "tn_allowed p N (tn_request (tnp_client p) ep_get params)" by (auto simp: tn_allowed_def)
  then show ?thesis
    using tn_doRequest_sends [of "tn_allowed p N" "tnp_client p" ep_get params w]
    by (auto simp: tn_read_def split: prod.split sum.split)
qed

lemmas tn_client_defs = AddARecord_def AddAAAARecord_def AddCNAMERecord_def AddTXTRecord_def AddSRVRecord_def AddHTTPSRecord_def
  tn_DeleteARecord_def tn_DeleteAAAARecord_def tn_DeleteCNAMERecord_def tn_DeleteTXTRecord_def tn_DeleteSRVRecord_def
  tn_DeleteHTTPSRecord_def UpdateARecord_def UpdateAAAARecord_def UpdateCNAMERecord_def

lemma snd_wrap [simp]: "snd (case x of (e, w') \<Rightarrow> (f e, w')) = snd x"
  by (cases x) simp

lemma tn_add_sends:
  "NormalizeHostname (r_Hostname r) \<in> N \<Longrightarrow> sends (tnk_http (tnp_client p)) (tn_allowed p N) w (snd (tn_add p r ttl w))"
  by (auto simp: tn_add_def tn_client_defs Let_def intro!: tn_send_sends split: option.split)

lemma tn_remove_sends:
  "NormalizeHostname (r_Hostname r) \<in> N \<Longrightarrow> sends (tnk_http (tnp_client p)) (tn_allowed p N) w (snd (tn_remove p r w))"
  by (auto simp: tn_remove_def tn_client_defs Let_def intro!: tn_send_sends split: option.split)

lemma tn_companion_sends:
  assumes "NormalizeHostname h \<in> N"
  shows "sends (tnk_http (tnp_client p)) (tn_allowed p N) w (snd (createCompanionHTTPS p h rt ttl w))"
    and "sends (tnk_http (tnp_client p)) (tn_allowed p N) w (snd (deleteCompanionHTTPS p h rt w))"
proof -
  let ?s = "sends (tnk_http (tnp_client p)) (tn_allowed p N)"
  obtain q w1 where q: "GetRecords (tnp_client p) (tnp_zone p) h w = (q, w1)" by (rule prod.exhaust)
  moreover have "?s w (snd (GetRecords (tnp_client p) (tnp_zone p) h w))" unfolding GetRecords_def by (rule tn_read_sends)
  ultimately have w1: "?s w w1" by simp
  have add: "?s w1 (snd (AddHTTPSRecord (tnp_client p) (tnp_zone p) h i t ps ttl w1))" for i t ps
    unfolding AddHTTPSRecord_def by (rule tn_send_sends) (use assms in auto)
  have del: "?s w (snd (tn_DeleteHTTPSRecord (tnp_client p) (tnp_zone p) h i t ps w))" for i t ps
    unfolding tn_DeleteHTTPSRecord_def by (rule tn_send_sends) (use assms in auto)
  let ?add = "AddHTTPSRecord (tnp_client p) (tnp_zone p) h companionHTTPSSvcPriority companionHTTPSTargetName
      (buildSvcParams (tnp_autoHTTPSALPN p)) ttl w1"
  have "snd (createCompanionHTTPS p h rt ttl w) \<in> {w, w1, snd ?add}"
    using q by (cases ?add) (auto simp: createCompanionHTTPS_def hasHTTPSRecord_def split: sum.split option.split)
  then show "?s w (snd (createCompanionHTTPS p h rt ttl w))" using w1 sends_trans [OF w1 add] by auto
  show "?s w (snd (deleteCompanionHTTPS p h rt w))"
    using del [of companionHTTPSSvcPriority companionHTTPSTargetName "buildSvcParams (tnp_autoHTTPSALPN p)"]
    by (auto simp: deleteCompanionHTTPS_def split: prod.split option.split)
qed

lemma tn_replace_sends:
  assumes "\<And>w. sends h Q w (snd (del w))" "\<And>w. sends h Q w (snd (add w))"
  shows "sends h Q w (snd (tn_replace ty del add w))"
proof -
  obtain e w1 where d: "del w = (e, w1)" by (rule prod.exhaust)
  obtain f w2 where a: "add w1 = (f, w2)" by (rule prod.exhaust)
  have "sends h Q w w1" "sends h Q w1 w2" using assms(1) [of w] assms(2) [of w1] d a by simp_all
  then show ?thesis using d a sends_trans by (auto simp: tn_replace_def split: option.split)
qed

text \<open>Whatever a Technitium server answers, a call of an instance sends only reads and writes in the instance's zone under the
names of the call, also for the HTTPS records it adds and removes beside them.\<close>
theorem technitium_requests:
  "sends (tnk_http (tnp_client p)) (tn_allowed p (call_names c)) w (exec (tn_provider p) c w)"
proof (cases c)
  case CList
  have "sends (tnk_http (tnp_client p)) (tn_allowed p (call_names c)) w (snd (ListZoneRecords (tnp_client p) (tnp_zone p) w))"
    unfolding ListZoneRecords_def by (rule tn_read_sends)
  then show ?thesis using CList by (auto simp: tn_provider_def tn_List_def split: prod.split sum.split)
next
  case CPing
  have "tn_allowed p (call_names c) (tn_request (tnp_client p) ''/api/user/session/get'' [])" by (auto simp: tn_allowed_def)
  from tn_doRequest_sends [where Q = "tn_allowed p (call_names c)", OF this, of w] show ?thesis
    using CPing by (auto simp: tn_provider_def tn_Ping_def tn_client_Ping_def split: prod.split sum.split)
next
  case (CCreate r)
  obtain e w1 where e: "tn_add p r (tn_ttl p r) w = (e, w1)" by (rule prod.exhaust)
  have "sends (tnk_http (tnp_client p)) (tn_allowed p (call_names c)) w w1"
    using tn_add_sends [of r "call_names c" p w "tn_ttl p r"] e CCreate by simp
  then show ?thesis
    using CCreate e tn_companion_sends(1) [of "r_Hostname r" "call_names c" p w1 "r_Type r" "tn_ttl p r"]
    by (auto simp: tn_provider_def tn_Create_def intro: sends_trans split: option.split)
next
  case (CDelete r)
  obtain e w1 where e: "tn_remove p r w = (e, w1)" by (rule prod.exhaust)
  have "sends (tnk_http (tnp_client p)) (tn_allowed p (call_names c)) w w1"
    using tn_remove_sends [of r "call_names c" p w] e CDelete by simp
  then show ?thesis
    using CDelete e tn_companion_sends(2) [of "r_Hostname r" "call_names c" p w1 "r_Type r"]
    by (auto simp: tn_provider_def tn_Delete_def intro: sends_trans split: option.split)
next
  case (CUpdate a b)
  then show ?thesis
    by (auto simp: tn_provider_def tn_Update_def tn_client_defs Let_def intro!: tn_send_sends tn_replace_sends split: option.split)
qed

subsection \<open>Companions in the log\<close>

lemma tn_doRequest_logged:
  "tnk_http c = logged srv \<Longrightarrow> snd (tn_doRequest c ep params log) = log @ [tn_request c ep params]"
  by (auto simp: tn_doRequest_def split: sum.split)

lemma tn_send_logged:
  assumes "tnk_http c = logged srv"
  shows "snd (tn_send c ep params what log) = log @ [tn_request c ep params]"
  using tn_doRequest_logged [OF assms, of ep params log]
  by (cases "tn_doRequest c ep params log") (auto simp: tn_send_def split: sum.split)

lemma tn_read_logged:
  assumes "tnk_http c = logged srv"
  shows "snd (tn_read c params b what parsing log) = log @ [tn_request c ep_get params]"
  using tn_doRequest_logged [OF assms, of ep_get params log]
  by (cases "tn_doRequest c ep_get params log") (auto simp: tn_read_def split: sum.split)

definition companion_params :: "'w tn_Provider \<Rightarrow> string \<Rightarrow> url_values" where
  "companion_params p h = tn_domain (tnp_zone p) h ''HTTPS'' @ svc_params 1 ''.'' (buildSvcParams (tnp_autoHTTPSALPN p))"

lemma createCompanion_logged:
  assumes "tnk_http (tnp_client p) = logged srv" "tnp_autoHTTPSRecords p" "needsCompanionHTTPS t"
  shows "snd (createCompanionHTTPS p h t ttl log) =
    log @ [tn_request (tnp_client p) ep_get [(''zone'', tnp_zone p), (''domain'', h)]] @
      (case fst (GetRecords (tnp_client p) (tnp_zone p) h log) of
         Inl e \<Rightarrow> []
       | Inr rs \<Rightarrow> if list_ex (\<lambda>r. ta_Type r = ''HTTPS'') rs then []
                 else [tn_request (tnp_client p) ep_add (companion_params p h @ [(''ttl'', show_int ttl)])])"
proof -
  obtain q w1 where q: "GetRecords (tnp_client p) (tnp_zone p) h log = (q, w1)" by (rule prod.exhaust)
  then have w1: "w1 = log @ [tn_request (tnp_client p) ep_get [(''zone'', tnp_zone p), (''domain'', h)]]"
    using tn_read_logged [OF assms(1)] unfolding GetRecords_def by (metis snd_conv)
  let ?add = "AddHTTPSRecord (tnp_client p) (tnp_zone p) h companionHTTPSSvcPriority companionHTTPSTargetName
      (buildSvcParams (tnp_autoHTTPSALPN p)) ttl w1"
  obtain f w2 where a: "?add = (f, w2)" by (rule prod.exhaust)
  have "snd ?add = w1 @ [tn_request (tnp_client p) ep_add (companion_params p h @ [(''ttl'', show_int ttl)])]"
    by (simp add: AddHTTPSRecord_def tn_send_logged [OF assms(1)] companion_params_def companionHTTPSSvcPriority_def
        companionHTTPSTargetName_def)
  then show ?thesis using q a w1 assms(2,3)
    by (auto simp: createCompanionHTTPS_def hasHTTPSRecord_def split: sum.split option.split)
qed

lemma deleteCompanion_logged:
  assumes "tnk_http (tnp_client p) = logged srv" "tnp_autoHTTPSRecords p" "needsCompanionHTTPS t"
  shows "snd (deleteCompanionHTTPS p h t log) = log @ [tn_request (tnp_client p) ep_delete (companion_params p h)]"
proof -
  let ?del = "tn_DeleteHTTPSRecord (tnp_client p) (tnp_zone p) h companionHTTPSSvcPriority companionHTTPSTargetName
      (buildSvcParams (tnp_autoHTTPSALPN p)) log"
  obtain f w2 where d: "?del = (f, w2)" by (rule prod.exhaust)
  have "snd ?del = log @ [tn_request (tnp_client p) ep_delete (companion_params p h)]"
    by (simp add: tn_DeleteHTTPSRecord_def tn_send_logged [OF assms(1)] companion_params_def companionHTTPSSvcPriority_def
        companionHTTPSTargetName_def)
  then show ?thesis using d assms(2,3) by (auto simp: deleteCompanionHTTPS_def split: option.split)
qed

lemma tn_add_logged:
  assumes "tnk_http (tnp_client p) = logged srv" "needsCompanionHTTPS (r_Type r)"
  shows "\<exists>rest. snd (tn_add p r ttl log) = log @ [tn_request (tnp_client p) ep_add (tn_domain (tnp_zone p) (r_Hostname r) (r_Type r) @ rest)]"
  using assms by (auto simp: tn_add_def needsCompanionHTTPS_def tn_client_defs tn_send_logged [OF assms(1)] RecordType_defs Let_def)

lemma tn_remove_logged:
  assumes "tnk_http (tnp_client p) = logged srv" "needsCompanionHTTPS (r_Type r)"
  shows "\<exists>rest. snd (tn_remove p r log) = log @ [tn_request (tnp_client p) ep_delete (tn_domain (tnp_zone p) (r_Hostname r) (r_Type r) @ rest)]"
  using assms by (auto simp: tn_remove_def needsCompanionHTTPS_def tn_client_defs tn_send_logged [OF assms(1)] RecordType_defs Let_def)

text \<open>C32: With companions on, a successful creation of an address or alias is followed by a read of its name, and by the addition of
the companion exactly when the answer shows no HTTPS record there, so a record made by hand is not replaced. A successful
deletion is followed by the deletion of the companion and by no read: it goes also when other addresses of the name remain.\<close>
theorem technitium_companion:
  assumes "tnk_http (tnp_client p) = logged srv" "tnp_autoHTTPSRecords p" "needsCompanionHTTPS (r_Type r)"
  shows "(tn_Create p r log = (None, log') \<longrightarrow>
      (\<exists>rest. let h = r_Hostname r; c = tnp_client p; zone = tnp_zone p;
                  added = log @ [tn_request c ep_add (tn_domain zone h (r_Type r) @ rest)]
        in log' = added @ [tn_request c ep_get [(''zone'', zone), (''domain'', h)]] @
             (case fst (GetRecords c zone h added) of
                Inl e \<Rightarrow> []
              | Inr rs \<Rightarrow> if list_ex (\<lambda>x. ta_Type x = ''HTTPS'') rs then []
                        else [tn_request c ep_add (companion_params p h @ [(''ttl'', show_int (tn_ttl p r))])]))) \<and>
    (tn_Delete p r log = (None, log') \<longrightarrow>
      (\<exists>rest. log' = log @ [tn_request (tnp_client p) ep_delete (tn_domain (tnp_zone p) (r_Hostname r) (r_Type r) @ rest),
                             tn_request (tnp_client p) ep_delete (companion_params p (r_Hostname r))]))"
proof (intro conjI impI)
  assume c: "tn_Create p r log = (None, log')"
  obtain rest where rest: "snd (tn_add p r (tn_ttl p r) log) =
      log @ [tn_request (tnp_client p) ep_add (tn_domain (tnp_zone p) (r_Hostname r) (r_Type r) @ rest)]"
    using tn_add_logged [OF assms(1,3)] by blast
  let ?added = "log @ [tn_request (tnp_client p) ep_add (tn_domain (tnp_zone p) (r_Hostname r) (r_Type r) @ rest)]"
  have "log' = snd (createCompanionHTTPS p (r_Hostname r) (r_Type r) (tn_ttl p r) ?added)"
    using c rest by (cases "tn_add p r (tn_ttl p r) log") (auto simp: tn_Create_def split: option.splits)
  then show "\<exists>rest. let h = r_Hostname r; c = tnp_client p; zone = tnp_zone p;
                  added = log @ [tn_request c ep_add (tn_domain zone h (r_Type r) @ rest)]
        in log' = added @ [tn_request c ep_get [(''zone'', zone), (''domain'', h)]] @
             (case fst (GetRecords c zone h added) of
                Inl e \<Rightarrow> []
              | Inr rs \<Rightarrow> if list_ex (\<lambda>x. ta_Type x = ''HTTPS'') rs then []
                        else [tn_request c ep_add (companion_params p h @ [(''ttl'', show_int (tn_ttl p r))])])"
    by (intro exI [of _ rest]) (simp only: Let_def createCompanion_logged [OF assms])
next
  assume d: "tn_Delete p r log = (None, log')"
  obtain rest where rest: "snd (tn_remove p r log) =
      log @ [tn_request (tnp_client p) ep_delete (tn_domain (tnp_zone p) (r_Hostname r) (r_Type r) @ rest)]"
    using tn_remove_logged [OF assms(1,3)] by blast
  have "log' = snd (deleteCompanionHTTPS p (r_Hostname r) (r_Type r) (snd (tn_remove p r log)))"
    using d by (cases "tn_remove p r log") (auto simp: tn_Delete_def split: option.splits)
  then show "\<exists>rest. log' = log @ [tn_request (tnp_client p) ep_delete (tn_domain (tnp_zone p) (r_Hostname r) (r_Type r) @ rest),
                             tn_request (tnp_client p) ep_delete (companion_params p (r_Hostname r))]"
    by (intro exI [of _ rest]) (simp add: rest deleteCompanion_logged [OF assms])
qed

text \<open>A server that accepts everything and has no records.\<close>

definition ok_server :: "http_request \<Rightarrow> http_request list \<Rightarrow> err + api_response" where
  "ok_server req log = Inr \<lparr>hr_StatusCode = 200, hr_Body = [], hr_ReadError = None,
     hr_Json = Some (JObj [(''status'', JStr ''ok''), (''response'', JObj [(''records'', JArr [])])])\<rparr>"

definition demo_technitium :: "http_request list tn_Provider" where
  "demo_technitium = \<lparr>tnp_name = ''dns'', tnp_url = [], tnp_zone = ''lan'', tnp_ttl = 300, tnp_autoHTTPSRecords = True,
     tnp_autoHTTPSALPN = ''h2'', tnp_client = tn_NewClient (logged ok_server) ''http://dns:5380'' ''token''\<rparr>"

theorem technitium_companion_witness:
  "\<exists>rest. snd (tn_Delete demo_technitium (record_literal ''app.lan'' RecordTypeA ''10.0.0.1'') []) =
     [tn_request (tnp_client demo_technitium) ep_delete (tn_domain ''lan'' ''app.lan'' RecordTypeA @ rest),
      tn_request (tnp_client demo_technitium) ep_delete (companion_params demo_technitium ''app.lan'')]"
proof -
  let ?r = "record_literal ''app.lan'' RecordTypeA ''10.0.0.1''"
  have "fst (tn_Delete demo_technitium ?r []) = None" by code_simp
  then have d: "tn_Delete demo_technitium ?r [] = (None, snd (tn_Delete demo_technitium ?r []))" by (metis prod.collapse)
  have "tnk_http (tnp_client demo_technitium) = logged ok_server" "tnp_autoHTTPSRecords demo_technitium"
    "needsCompanionHTTPS (r_Type ?r)" "tnp_zone demo_technitium = ''lan''"
    by (simp_all add: demo_technitium_def tn_NewClient_def needsCompanionHTTPS_def)
  then show ?thesis using technitium_companion [of demo_technitium ok_server ?r "[]" "snd (tn_Delete demo_technitium ?r [])"] d by simp
qed

subsection \<open>Service parameters\<close>

lemma extract_build:
  assumes "CHR '' '' \<notin> set alpn"
  shows "extractALPN (buildSvcParams alpn) = alpn"
proof (cases "alpn = []")
  case True
  then show ?thesis by (simp add: extractALPN_def buildSvcParams_def SplitN2.simps)
next
  case False
  have "CHR '' '' \<notin> set (''alpn|'' @ alpn)" using assms by simp
  then have "Split (''alpn|'' @ alpn) (CHR '' '') = [''alpn|'' @ alpn]" by (rule Split_no_sep)
  then show ?thesis using False by (simp add: extractALPN_def buildSvcParams_def SplitN2.simps)
qed

end
