(* ===== verification/Cloudflare.thy ===== *)
theory Cloudflare
  imports HttpApi RecordStore
begin

text \<open>
  \<^verbatim>\<open>providers/cloudflare\<close>: configuration, the client of the v4 API, the lookup of the zone's identifier, which a provider
  makes once, and the provider. The fields that the lookup sets are a cell of the world. Log lines and functional options
  are left out.
\<close>

subsection \<open>Configuration\<close>

record cf_Config =
  cfc_Token :: string
  cfc_ZoneID :: string
  cfc_Zone :: string
  cfc_TTL :: int
  cfc_Proxied :: bool

definition cf_DefaultTTL :: int where "cf_DefaultTTL = 300"

definition cf_Validate :: "cf_Config \<Rightarrow> err option" where
  "cf_Validate c =
     (let errs = (if cfc_Token c = [] then [''TOKEN is required''] else []) @
                 (if cfc_ZoneID c = [] \<and> cfc_Zone c = [] then [''ZONE_ID or ZONE is required''] else []) @
                 (if cfc_TTL c < 0 then [''TTL must be non-negative''] else []) @
                 (if cfc_TTL c > 0 \<and> cfc_TTL c < 60 \<and> cfc_TTL c \<noteq> 1
                  then [''TTL must be at least 60 seconds (or 1 for automatic)''] else [])
      in if errs \<noteq> [] then Some (ErrorNew (''cloudflare config validation failed: '' @ Join errs ''; '')) else None)"

definition cf_parseBool :: "string \<Rightarrow> bool" where
  "cf_parseBool s = (ToLower (TrimSpace s) \<in> {''true'', ''1'', ''yes'', ''on''})"

text \<open>Both loaders share everything but where the values come from.\<close>

definition cf_config_of :: "string \<Rightarrow> (string \<Rightarrow> string) \<Rightarrow> string \<Rightarrow> err + cf_Config" where
  "cf_config_of name get token =
     (let ttlStr = get ''TTL''; proxiedStr = get ''PROXIED'';
          finish = (\<lambda>ttl.
            let c = \<lparr>cfc_Token = token, cfc_ZoneID = get ''ZONE_ID'', cfc_Zone = get ''ZONE'', cfc_TTL = ttl,
                     cfc_Proxied = (if proxiedStr \<noteq> [] then cf_parseBool proxiedStr else True)\<rparr>
            in case cf_Validate c of
                 Some e \<Rightarrow> Inl (Errorf (''configuration for '' @ name @ '': '') e) | None \<Rightarrow> Inr c)
      in if ttlStr \<noteq> [] then
           (case Atoi ttlStr of
              Inl e \<Rightarrow> Inl (Errorf (''invalid TTL value '' @ Quote ttlStr @ '': '') e)
            | Inr ttl \<Rightarrow> finish ttl)
         else finish cf_DefaultTTL)"

definition cf_LoadConfigFromMap :: "string \<Rightarrow> (string, string) gomap \<Rightarrow> err + cf_Config" where
  "cf_LoadConfigFromMap name m = cf_config_of name (map_get [] m) (map_get [] m ''TOKEN'')"

definition cf_getEnvOrFile :: "environment \<Rightarrow> string \<Rightarrow> string \<Rightarrow> string" where
  "cf_getEnvOrFile E directKey fileKey =
     (let filePath = getEnv E fileKey in
      if filePath \<noteq> [] then (case ev_ReadFile E filePath of Inr content \<Rightarrow> TrimSpace content | Inl _ \<Rightarrow> getEnv E directKey)
      else getEnv E directKey)"

definition cf_envPrefix :: "string \<Rightarrow> string" where
  "cf_envPrefix name = ''DNSWEAVER_'' @ ReplaceAll1 (CHR ''-'') (CHR ''_'') (ToUpper name) @ ''_''"

definition cf_LoadConfig :: "environment \<Rightarrow> string \<Rightarrow> err + cf_Config" where
  "cf_LoadConfig E name =
     (let pre = cf_envPrefix name in
      cf_config_of name (\<lambda>k. getEnv E (pre @ k)) (cf_getEnvOrFile E (pre @ ''TOKEN'') (pre @ ''TOKEN_FILE'')))"

subsection \<open>Documents of the API\<close>

record cf_apiError =
  ce_Code :: int
  ce_Message :: string

definition dec_cf_apiError :: "cf_apiError decoder" where
  "dec_cf_apiError = dec_struct
     [(''code'', on_field ce_Code (\<lambda>v r. r\<lparr>ce_Code := v\<rparr>) dec_int),
      (''message'', on_field ce_Message (\<lambda>v r. r\<lparr>ce_Message := v\<rparr>) dec_string)]"

record cf_apiResponse =
  cr_Success :: bool
  cr_Errors :: "cf_apiError list"
  cr_Messages :: "cf_apiError list"
  cr_Result :: "json option"

definition no_cf_apiError :: cf_apiError where "no_cf_apiError = \<lparr>ce_Code = 0, ce_Message = []\<rparr>"

definition no_cf_apiResponse :: cf_apiResponse where
  "no_cf_apiResponse = \<lparr>cr_Success = False, cr_Errors = [], cr_Messages = [], cr_Result = None\<rparr>"

definition dec_cf_apiResponse :: "cf_apiResponse decoder" where
  "dec_cf_apiResponse = dec_struct
     [(''success'', on_field cr_Success (\<lambda>v r. r\<lparr>cr_Success := v\<rparr>) dec_bool),
      (''errors'', on_field cr_Errors (\<lambda>v r. r\<lparr>cr_Errors := v\<rparr>) (dec_list no_cf_apiError dec_cf_apiError)),
      (''messages'', on_field cr_Messages (\<lambda>v r. r\<lparr>cr_Messages := v\<rparr>) (dec_list no_cf_apiError dec_cf_apiError)),
      (''result'', on_field cr_Result (\<lambda>v r. r\<lparr>cr_Result := v\<rparr>) (\<lambda>j _. Inr (Some j)))]"

record cf_zoneResult =
  cz_ID :: string
  cz_Name :: string
  cz_Status :: string

definition dec_cf_zoneResult :: "cf_zoneResult decoder" where
  "dec_cf_zoneResult = dec_struct
     [(''id'', on_field cz_ID (\<lambda>v r. r\<lparr>cz_ID := v\<rparr>) dec_string),
      (''name'', on_field cz_Name (\<lambda>v r. r\<lparr>cz_Name := v\<rparr>) dec_string),
      (''status'', on_field cz_Status (\<lambda>v r. r\<lparr>cz_Status := v\<rparr>) dec_string)]"

record srvRecordData =
  sd_Priority :: uint16
  sd_Weight :: uint16
  sd_Port :: uint16
  sd_Target :: string
  sd_Service :: string
  sd_Proto :: string
  sd_Name :: string

definition no_srvRecordData :: srvRecordData where
  "no_srvRecordData = \<lparr>sd_Priority = 0, sd_Weight = 0, sd_Port = 0, sd_Target = [], sd_Service = [], sd_Proto = [], sd_Name = []\<rparr>"

definition dec_srvRecordData :: "srvRecordData decoder" where
  "dec_srvRecordData = dec_struct
     [(''priority'', on_field sd_Priority (\<lambda>v r. r\<lparr>sd_Priority := v\<rparr>) dec_uint16),
      (''weight'', on_field sd_Weight (\<lambda>v r. r\<lparr>sd_Weight := v\<rparr>) dec_uint16),
      (''port'', on_field sd_Port (\<lambda>v r. r\<lparr>sd_Port := v\<rparr>) dec_uint16),
      (''target'', on_field sd_Target (\<lambda>v r. r\<lparr>sd_Target := v\<rparr>) dec_string),
      (''service'', on_field sd_Service (\<lambda>v r. r\<lparr>sd_Service := v\<rparr>) dec_string),
      (''proto'', on_field sd_Proto (\<lambda>v r. r\<lparr>sd_Proto := v\<rparr>) dec_string),
      (''name'', on_field sd_Name (\<lambda>v r. r\<lparr>sd_Name := v\<rparr>) dec_string)]"

definition uint16_json :: "uint16 \<Rightarrow> json" where "uint16_json x = JInt (int (unat x))"

definition srvRecordData_json :: "srvRecordData \<Rightarrow> json" where
  "srvRecordData_json d = JObj
     ([(''priority'', uint16_json (sd_Priority d)), (''weight'', uint16_json (sd_Weight d)), (''port'', uint16_json (sd_Port d)),
       (''target'', JStr (sd_Target d))] @
      omit_empty (sd_Service d = []) ''service'' (JStr (sd_Service d)) @
      omit_empty (sd_Proto d = []) ''proto'' (JStr (sd_Proto d)) @
      omit_empty (sd_Name d = []) ''name'' (JStr (sd_Name d)))"

record dnsRecord =
  dr_ID :: string
  dr_Type :: string
  dr_Name :: string
  dr_Content :: string
  dr_TTL :: int
  dr_Proxied :: bool
  dr_ZoneID :: string
  dr_Data :: "srvRecordData option"

definition no_dnsRecord :: dnsRecord where
  "no_dnsRecord = \<lparr>dr_ID = [], dr_Type = [], dr_Name = [], dr_Content = [], dr_TTL = 0, dr_Proxied = False, dr_ZoneID = [],
     dr_Data = None\<rparr>"

definition dec_dnsRecord :: "dnsRecord decoder" where
  "dec_dnsRecord = dec_struct
     [(''id'', on_field dr_ID (\<lambda>v r. r\<lparr>dr_ID := v\<rparr>) dec_string),
      (''type'', on_field dr_Type (\<lambda>v r. r\<lparr>dr_Type := v\<rparr>) dec_string),
      (''name'', on_field dr_Name (\<lambda>v r. r\<lparr>dr_Name := v\<rparr>) dec_string),
      (''content'', on_field dr_Content (\<lambda>v r. r\<lparr>dr_Content := v\<rparr>) dec_string),
      (''ttl'', on_field dr_TTL (\<lambda>v r. r\<lparr>dr_TTL := v\<rparr>) dec_int),
      (''proxied'', on_field dr_Proxied (\<lambda>v r. r\<lparr>dr_Proxied := v\<rparr>) dec_bool),
      (''zone_id'', on_field dr_ZoneID (\<lambda>v r. r\<lparr>dr_ZoneID := v\<rparr>) dec_string),
      (''data'', on_field dr_Data (\<lambda>v r. r\<lparr>dr_Data := v\<rparr>) (dec_pointer no_srvRecordData dec_srvRecordData))]"

definition createRecordRequest_json ::
  "string \<Rightarrow> string \<Rightarrow> string \<Rightarrow> int \<Rightarrow> bool \<Rightarrow> srvRecordData option \<Rightarrow> json" where
  "createRecordRequest_json ty name content ttl proxied data = JObj
     ([(''type'', JStr ty), (''name'', JStr name)] @ omit_empty (content = []) ''content'' (JStr content) @
      [(''ttl'', JInt ttl), (''proxied'', JBool proxied)] @
      (case data of None \<Rightarrow> [] | Some d \<Rightarrow> [(''data'', srvRecordData_json d)]))"

subsection \<open>The client\<close>

definition DefaultAPIEndpoint :: string where
  "DefaultAPIEndpoint = ''https://api.cloudflare.com/client/v4''"

record 'w cf_Client =
  cfk_apiEndpoint :: string
  cfk_token :: string
  cfk_http :: "'w http"

definition cf_NewClient :: "'w http \<Rightarrow> string \<Rightarrow> 'w cf_Client" where
  "cf_NewClient h token = \<lparr>cfk_apiEndpoint = DefaultAPIEndpoint, cfk_token = token, cfk_http = h\<rparr>"

definition cf_request :: "'w cf_Client \<Rightarrow> string \<Rightarrow> string \<Rightarrow> http_body \<Rightarrow> http_request" where
  "cf_request c method path body =
     \<lparr>hq_Method = method, hq_URL = cfk_apiEndpoint c @ path,
      hq_Header = [(''Authorization'', ''Bearer '' @ cfk_token c), (''Content-Type'', ''application/json'')], hq_Body = body\<rparr>"

definition cf_error_text :: "cf_apiError \<Rightarrow> err" where
  "cf_error_text e = ErrorNew (''API error: '' @ ce_Message e @ '' (code: '' @ show_int (ce_Code e) @ '')'')"

definition cf_status_error :: "api_response \<Rightarrow> string \<Rightarrow> err" where
  "cf_status_error resp body =
     (case (case Unmarshal dec_cf_apiResponse no_cf_apiResponse resp of Inl _ \<Rightarrow> [] | Inr r \<Rightarrow> cr_Errors r) of
        [] \<Rightarrow> ErrorNew (''unexpected status code '' @ Itoa (hr_StatusCode resp) @ '': '' @ body)
      | e # _ \<Rightarrow>
          if ce_Code e = 81053 \<or> ce_Code e = 81058 then ErrConflict
          else if ce_Code e = 81057 \<or> Contains (ToLower (ce_Message e)) ''cname'' \<and> Contains (ToLower (ce_Message e)) ''cannot''
          then ErrTypeConflict
          else cf_error_text e)"

definition cf_doRequest :: "'w cf_Client \<Rightarrow> string \<Rightarrow> string \<Rightarrow> http_body \<Rightarrow> 'w \<Rightarrow> (err + cf_apiResponse) \<times> 'w" where
  "cf_doRequest c method path body w =
     (case ht_NewRequest (cfk_http c) method (cfk_apiEndpoint c @ path) of
        Some e \<Rightarrow> (Inl (Errorf ''creating request: '' e), w)
      | None \<Rightarrow>
          (case ht_Do (cfk_http c) (cf_request c method path body) w of
             (Inl e, w') \<Rightarrow> (Inl (Errorf ''executing request: '' e), w')
           | (Inr resp, w') \<Rightarrow>
               (case ReadBody resp 0 of
                  Inl e \<Rightarrow> (Inl (Errorf ''reading response body: '' e), w')
                | Inr respBody \<Rightarrow>
                    if \<not> status_2xx resp then (Inl (cf_status_error resp respBody), w')
                    else
                      (case Unmarshal dec_cf_apiResponse no_cf_apiResponse resp of
                         Inl e \<Rightarrow> (Inl (Errorf ''parsing response JSON: '' e), w')
                       | Inr r \<Rightarrow>
                           if \<not> cr_Success r then
                             (Inl (case cr_Errors r of [] \<Rightarrow> ErrorNew ''API request failed with unknown error'' | e # _ \<Rightarrow> cf_error_text e), w')
                           else (Inr r, w')))))"

text \<open>Decoding the result of an accepted answer; without a result this is an error of the decoder.\<close>

definition cf_result :: "'a decoder \<Rightarrow> 'a \<Rightarrow> cf_apiResponse \<Rightarrow> err + 'a" where
  "cf_result d zero r = (case cr_Result r of None \<Rightarrow> Inl (ErrorNew ''unexpected end of JSON input'') | Some j \<Rightarrow> d j zero)"

definition cf_client_Ping :: "'w cf_Client \<Rightarrow> 'w \<Rightarrow> err option \<times> 'w" where
  "cf_client_Ping c w =
     (case cf_doRequest c MethodGet ''/user/tokens/verify'' NoBody w of
        (Inl e, w') \<Rightarrow> (Some (Errorf ''ping failed: '' e), w') | (Inr _, w') \<Rightarrow> (None, w'))"

definition no_cf_zoneResult :: cf_zoneResult where "no_cf_zoneResult = \<lparr>cz_ID = [], cz_Name = [], cz_Status = []\<rparr>"

text \<open>The domain and then its parents, down to two labels; an attempt that fails is passed over.\<close>

fun find_zone :: "'w cf_Client \<Rightarrow> string list \<Rightarrow> 'w \<Rightarrow> string option \<times> 'w" where
  "find_zone c (part # part2 # parts) w =
     (case cf_doRequest c MethodGet
             (''/zones?'' @ Values_Encode [(''name'', Join (part # part2 # parts) ''.''), (''status'', ''active'')]) NoBody w of
        (Inl e, w') \<Rightarrow> find_zone c (part2 # parts) w'
      | (Inr r, w') \<Rightarrow>
          (case cf_result (dec_list no_cf_zoneResult dec_cf_zoneResult) [] r of
             Inr (z # _) \<Rightarrow> (Some (cz_ID z), w')
           | _ \<Rightarrow> find_zone c (part2 # parts) w'))"
| "find_zone c _ w = (None, w)"

definition GetZoneID :: "'w cf_Client \<Rightarrow> string \<Rightarrow> 'w \<Rightarrow> (err + string) \<times> 'w" where
  "GetZoneID c domain w =
     (case find_zone c (Split domain (CHR ''.'')) w of
        (Some i, w') \<Rightarrow> (Inr i, w')
      | (None, w') \<Rightarrow> (Inl (ErrorNew (''no zone found for domain '' @ domain)), w'))"

definition cf_records_path :: "string \<Rightarrow> string" where
  "cf_records_path zoneID = ''/zones/'' @ zoneID @ ''/dns_records''"

definition cf_read_records :: "'w cf_Client \<Rightarrow> string \<Rightarrow> string \<Rightarrow> 'w \<Rightarrow> (err + dnsRecord list) \<times> 'w" where
  "cf_read_records c path what w =
     (case cf_doRequest c MethodGet path NoBody w of
        (Inl e, w') \<Rightarrow> (Inl (Errorf (what @ '': '') e), w')
      | (Inr r, w') \<Rightarrow>
          (case cf_result (dec_list no_dnsRecord dec_dnsRecord) [] r of
             Inl e \<Rightarrow> (Inl (Errorf ''parsing records response: '' e), w')
           | Inr rs \<Rightarrow> (Inr rs, w')))"

definition ListRecords :: "'w cf_Client \<Rightarrow> string \<Rightarrow> string \<Rightarrow> 'w \<Rightarrow> (err + dnsRecord list) \<times> 'w" where
  "ListRecords c zoneID recordType =
     cf_read_records c (cf_records_path zoneID @ ''?'' @ Values_Encode [(''type'', recordType), (''per_page'', ''100'')]) ''listing records''"

definition FindRecord :: "'w cf_Client \<Rightarrow> string \<Rightarrow> string \<Rightarrow> string \<Rightarrow> 'w \<Rightarrow> (err + dnsRecord option) \<times> 'w" where
  "FindRecord c zoneID recordType name w =
     (case cf_read_records c (cf_records_path zoneID @ ''?'' @ Values_Encode [(''type'', recordType), (''name'', name)])
             ''finding record'' w of
        (Inl e, w') \<Rightarrow> (Inl e, w')
      | (Inr [], w') \<Rightarrow> (Inr None, w')
      | (Inr (r # _), w') \<Rightarrow> (Inr (Some r), w'))"

definition cf_send :: "'w cf_Client \<Rightarrow> string \<Rightarrow> string \<Rightarrow> http_body \<Rightarrow> string \<Rightarrow> 'w \<Rightarrow> err option \<times> 'w" where
  "cf_send c method path body what w =
     (case cf_doRequest c method path body w of
        (Inl e, w') \<Rightarrow> (Some (Errorf (what @ '': '') e), w') | (Inr _, w') \<Rightarrow> (None, w'))"

definition cf_CreateRecord :: "'w cf_Client \<Rightarrow> string \<Rightarrow> string \<Rightarrow> string \<Rightarrow> string \<Rightarrow> int \<Rightarrow> bool \<Rightarrow> 'w \<Rightarrow> err option \<times> 'w" where
  "cf_CreateRecord c zoneID recordType name content ttl proxied =
     cf_send c MethodPost (cf_records_path zoneID) (JsonBody (createRecordRequest_json recordType name content ttl proxied None))
       ''creating record''"

definition cf_CreateSRVRecord :: "'w cf_Client \<Rightarrow> string \<Rightarrow> string \<Rightarrow> SRVData \<Rightarrow> string \<Rightarrow> int \<Rightarrow> 'w \<Rightarrow> err option \<times> 'w" where
  "cf_CreateSRVRecord c zoneID name srv target ttl =
     cf_send c MethodPost (cf_records_path zoneID)
       (JsonBody (createRecordRequest_json ''SRV'' name [] ttl False
          (Some (no_srvRecordData\<lparr>sd_Priority := srv_Priority srv, sd_Weight := srv_Weight srv, sd_Port := srv_Port srv,
                                  sd_Target := target\<rparr>)))) ''creating SRV record''"

definition cf_DeleteRecord :: "'w cf_Client \<Rightarrow> string \<Rightarrow> string \<Rightarrow> 'w \<Rightarrow> err option \<times> 'w" where
  "cf_DeleteRecord c zoneID recordID =
     cf_send c MethodDelete (cf_records_path zoneID @ ''/'' @ recordID) NoBody ''deleting record''"

definition cf_UpdateRecord ::
  "'w cf_Client \<Rightarrow> string \<Rightarrow> string \<Rightarrow> string \<Rightarrow> string \<Rightarrow> string \<Rightarrow> int \<Rightarrow> bool \<Rightarrow> 'w \<Rightarrow> err option \<times> 'w" where
  "cf_UpdateRecord c zoneID recordID recordType name content ttl proxied =
     cf_send c MethodPatch (cf_records_path zoneID @ ''/'' @ recordID)
       (JsonBody (createRecordRequest_json recordType name content ttl proxied None)) ''updating record''"

subsection \<open>The provider\<close>

text \<open>The fields of the provider that change: the identifier, whether the lookup has been made, and its error.\<close>

record cf_zone =
  zo_ID :: string
  zo_done :: bool
  zo_err :: "err option"

record 'w cf_Provider =
  cfp_name :: string
  cfp_zone :: string
  cfp_ttl :: int
  cfp_proxied :: bool
  cfp_configID :: string
  cfp_cell :: "(cf_zone, 'w) cell"
  cfp_client :: "'w cf_Client"

definition cf_New ::
  "(cf_zone, 'w) cell \<Rightarrow> 'w http \<Rightarrow> string \<Rightarrow> cf_Config option \<Rightarrow> 'w \<Rightarrow> (err + 'w cf_Provider) \<times> 'w" where
  "cf_New cl h name config w =
     (case config of
        None \<Rightarrow> (Inl (ErrorNew ''config is required''), w)
      | Some c \<Rightarrow>
          (case cf_Validate c of
             Some e \<Rightarrow> (Inl e, w)
           | None \<Rightarrow> (Inr \<lparr>cfp_name = name, cfp_zone = cfc_Zone c, cfp_ttl = cfc_TTL c, cfp_proxied = cfc_Proxied c,
                           cfp_configID = cfc_ZoneID c, cfp_cell = cl, cfp_client = cf_NewClient h (cfc_Token c)\<rparr>,
                      cell_set cl \<lparr>zo_ID = cfc_ZoneID c, zo_done = False, zo_err = None\<rparr> w)))"

definition cf_NewFromEnv ::
  "(cf_zone, 'w) cell \<Rightarrow> 'w http \<Rightarrow> environment \<Rightarrow> string \<Rightarrow> 'w \<Rightarrow> (err + 'w cf_Provider) \<times> 'w" where
  "cf_NewFromEnv cl h E name w =
     (case cf_LoadConfig E name of Inl e \<Rightarrow> (Inl e, w) | Inr c \<Rightarrow> cf_New cl h name (Some c) w)"

definition cf_NewFromMap ::
  "(cf_zone, 'w) cell \<Rightarrow> 'w http \<Rightarrow> string \<Rightarrow> (string, string) gomap \<Rightarrow> 'w \<Rightarrow> (err + 'w cf_Provider) \<times> 'w" where
  "cf_NewFromMap cl h name m =
     (let ttlStr = map_get [] m ''TTL''; proxiedStr = map_get [] m ''PROXIED'' in
      cf_New cl h name (Some
        \<lparr>cfc_Token = map_get [] m ''TOKEN'', cfc_ZoneID = map_get [] m ''ZONE_ID'', cfc_Zone = map_get [] m ''ZONE'',
         cfc_TTL = (if ttlStr \<noteq> [] then (case Sscanf_d ttlStr of Inr ttl \<Rightarrow> ttl | Inl _ \<Rightarrow> cf_DefaultTTL) else cf_DefaultTTL),
         cfc_Proxied = (if proxiedStr \<noteq> [] then cf_parseBool proxiedStr else True)\<rparr>))"

text \<open>The registry reads the identity when it creates the instance, before any lookup.\<close>

definition cf_Identity :: "'w cf_Provider \<Rightarrow> ProviderIdentity" where
  "cf_Identity p = \<lparr>id_Type = ''cloudflare'', id_Endpoint = [], id_Zone = (if cfp_configID p = [] then cfp_zone p else cfp_configID p)\<rparr>"

definition cf_Capabilities :: Capabilities where
  "cf_Capabilities = \<lparr>SupportsOwnershipTXT = True, SupportsNativeUpdate = True,
     SupportedRecordTypes = [RecordTypeA, RecordTypeAAAA, RecordTypeCNAME, RecordTypeSRV, RecordTypeTXT]\<rparr>"

text \<open>\<^verbatim>\<open>sync.Once\<close>: the lookup is made at most once, and its error stays.\<close>

definition cf_ZoneID :: "'w cf_Provider \<Rightarrow> 'w \<Rightarrow> (err + string) \<times> 'w" where
  "cf_ZoneID p w =
     (let z = cell_get (cfp_cell p) w in
      if zo_ID z \<noteq> [] then (Inr (zo_ID z), w)
      else
        let (z', w') =
          (if zo_done z then (z, w)
           else case GetZoneID (cfp_client p) (cfp_zone p) w of
             (Inl e, w') \<Rightarrow> let z' = \<lparr>zo_ID = [], zo_done = True, zo_err = Some e\<rparr> in (z', cell_set (cfp_cell p) z' w')
           | (Inr i, w') \<Rightarrow> let z' = \<lparr>zo_ID = i, zo_done = True, zo_err = None\<rparr> in (z', cell_set (cfp_cell p) z' w'))
        in case zo_err z' of Some e \<Rightarrow> (Inl e, w') | None \<Rightarrow> (Inr (zo_ID z'), w'))"

definition with_zone :: "'w cf_Provider \<Rightarrow> (string \<Rightarrow> 'w \<Rightarrow> err option \<times> 'w) \<Rightarrow> 'w \<Rightarrow> err option \<times> 'w" where
  "with_zone p f w =
     (case cf_ZoneID p w of
        (Inl e, w') \<Rightarrow> (Some (Errorf ''getting zone ID: '' e), w')
      | (Inr zoneID, w') \<Rightarrow> f zoneID w')"

definition cf_Ping :: "'w cf_Provider \<Rightarrow> 'w \<Rightarrow> err option \<times> 'w" where
  "cf_Ping p = cf_client_Ping (cfp_client p)"

definition proxiedMetadata :: "bool \<Rightarrow> metadata" where
  "proxiedMetadata proxied = [(''proxied'', if proxied then ''true'' else ''false'')]"

definition resolveProxied :: "'w cf_Provider \<Rightarrow> Record \<Rightarrow> bool" where
  "resolveProxied p r =
     (if r_Type r = RecordTypeTXT \<or> r_Type r = RecordTypeSRV then False
      else case map_of (r_Metadata r) ''proxied'' of Some v \<Rightarrow> cf_parseBool v | None \<Rightarrow> cfp_proxied p)"

text \<open>What a record of the API is listed as, by the type that was asked for.\<close>

definition cf_listed :: "RecordType \<Rightarrow> dnsRecord \<Rightarrow> Record" where
  "cf_listed t d =
     (let r = (record_literal (dr_Name d) t (dr_Content d))\<lparr>r_TTL := dr_TTL d, r_ProviderID := dr_ID d\<rparr> in
      if t = RecordTypeTXT then r
      else if t = RecordTypeSRV then
        (case dr_Data d of
           None \<Rightarrow> r
         | Some s \<Rightarrow> r\<lparr>r_Target := sd_Target s,
                       r_SRV := Some \<lparr>srv_Priority = sd_Priority s, srv_Weight = sd_Weight s, srv_Port = sd_Port s\<rparr>\<rparr>)
      else r\<lparr>r_Metadata := proxiedMetadata (dr_Proxied d)\<rparr>)"

fun cf_list_types :: "'w cf_Provider \<Rightarrow> string \<Rightarrow> RecordType list \<Rightarrow> 'w \<Rightarrow> (err + Record list) \<times> 'w" where
  "cf_list_types p zoneID [] w = (Inr [], w)"
| "cf_list_types p zoneID (t # ts) w =
     (case ListRecords (cfp_client p) zoneID t w of
        (Inl e, w') \<Rightarrow> (Inl (Errorf (''listing '' @ t @ '' records: '') e), w')
      | (Inr ds, w') \<Rightarrow>
          (case cf_list_types p zoneID ts w' of
             (Inl e, w2) \<Rightarrow> (Inl e, w2)
           | (Inr rs, w2) \<Rightarrow> (Inr (map (cf_listed t) ds @ rs), w2)))"

definition cf_List :: "'w cf_Provider \<Rightarrow> 'w \<Rightarrow> (err + Record list) \<times> 'w" where
  "cf_List p w =
     (case cf_ZoneID p w of
        (Inl e, w') \<Rightarrow> (Inl (Errorf ''getting zone ID: '' e), w')
      | (Inr zoneID, w') \<Rightarrow>
          cf_list_types p zoneID [RecordTypeA, RecordTypeAAAA, RecordTypeCNAME, RecordTypeTXT, RecordTypeSRV] w')"

definition cf_ttl :: "'w cf_Provider \<Rightarrow> Record \<Rightarrow> int" where
  "cf_ttl p r =
     (let ttl = (if r_TTL r \<le> 0 then cfp_ttl p else r_TTL r) in if resolveProxied p r \<and> ttl < 60 then 1 else ttl)"

definition cf_wrap :: "string \<Rightarrow> err option \<times> 'w \<Rightarrow> err option \<times> 'w" where
  "cf_wrap what x = (map_option (Errorf (what @ '': '')) (fst x), snd x)"

definition cf_Create :: "'w cf_Provider \<Rightarrow> Record \<Rightarrow> 'w \<Rightarrow> err option \<times> 'w" where
  "cf_Create p r = with_zone p (\<lambda>zoneID w.
     if r_Type r = RecordTypeSRV then
       (case r_SRV r of
          None \<Rightarrow> (Some (ErrorNew ''creating SRV record: SRV data is required''), w)
        | Some srv \<Rightarrow>
            cf_wrap ''creating SRV record'' (cf_CreateSRVRecord (cfp_client p) zoneID (r_Hostname r) srv (r_Target r) (cf_ttl p r) w))
     else
       cf_wrap (''creating '' @ r_Type r @ '' record'')
         (cf_CreateRecord (cfp_client p) zoneID (r_Type r) (r_Hostname r) (r_Target r) (cf_ttl p r) (resolveProxied p r) w))"

definition cf_Delete :: "'w cf_Provider \<Rightarrow> Record \<Rightarrow> 'w \<Rightarrow> err option \<times> 'w" where
  "cf_Delete p r = with_zone p (\<lambda>zoneID w.
     (case FindRecord (cfp_client p) zoneID (r_Type r) (r_Hostname r) w of
        (Inl e, w') \<Rightarrow> (Some (Errorf ''finding record: '' e), w')
      | (Inr None, w') \<Rightarrow> (None, w')
      | (Inr (Some d), w') \<Rightarrow>
          cf_wrap (''deleting '' @ r_Type r @ '' record'') (cf_DeleteRecord (cfp_client p) zoneID (dr_ID d) w')))"

definition cf_Update :: "'w cf_Provider \<Rightarrow> Record \<Rightarrow> Record \<Rightarrow> 'w \<Rightarrow> err option \<times> 'w" where
  "cf_Update p a b = with_zone p (\<lambda>zoneID w.
     (case FindRecord (cfp_client p) zoneID (r_Type a) (r_Hostname a) w of
        (Inl e, w') \<Rightarrow> (Some (Errorf ''finding record: '' e), w')
      | (Inr None, w') \<Rightarrow> (Some ErrNotFound, w')
      | (Inr (Some d), w') \<Rightarrow>
          if r_Type b \<in> {RecordTypeA, RecordTypeAAAA, RecordTypeCNAME, RecordTypeTXT} then
            cf_wrap (''updating '' @ r_Type b @ '' record'')
              (cf_UpdateRecord (cfp_client p) zoneID (dr_ID d) (r_Type b) (r_Hostname b) (r_Target b) (cf_ttl p b) (resolveProxied p b) w')
          else if r_Type b = RecordTypeSRV then
            (case (r_SRV a, r_SRV b) of
               (Some _, Some srv) \<Rightarrow>
                 (case cf_DeleteRecord (cfp_client p) zoneID (dr_ID d) w' of
                    (Some e, w2) \<Rightarrow> (Some (Errorf ''deleting old SRV record for update: '' e), w2)
                  | (None, w2) \<Rightarrow>
                      cf_wrap ''creating new SRV record for update''
                        (cf_CreateSRVRecord (cfp_client p) zoneID (r_Hostname b) srv (r_Target b) (cf_ttl p b) w2))
             | _ \<Rightarrow> (Some (ErrorNew ''updating SRV record: SRV data is required''), w'))
          else (Some (ErrorNew (''unsupported record type: '' @ r_Type b)), w')))"

definition cf_provider :: "'w cf_Provider \<Rightarrow> 'w Provider" where
  "cf_provider p =
     \<lparr>p_Name = cfp_name p, p_Type = ''cloudflare'', p_Ping = cf_Ping p, p_Capabilities = cf_Capabilities, p_List = cf_List p,
      p_Create = cf_Create p, p_Delete = cf_Delete p, p_Update = Some (cf_Update p), p_Identity = Some (cf_Identity p),
      p_Close = None\<rparr>"

definition cf_Factory :: "(string \<Rightarrow> (cf_zone, 'w) cell) \<Rightarrow> (HTTPConfig \<Rightarrow> 'w http) \<Rightarrow> 'w Factory" where
  "cf_Factory new_cell new_http cfg w =
     (case cf_LoadConfigFromMap (fc_Name cfg) (fc_ProviderConfig cfg) of
        Inl e \<Rightarrow> (Inl e, w)
      | Inr c \<Rightarrow>
          (case cf_New (new_cell (fc_Name cfg)) (new_http (fc_HTTP cfg)) (fc_Name cfg) (Some c) w of
             (Inl e, w') \<Rightarrow> (Inl e, w') | (Inr p, w') \<Rightarrow> (Inr (cf_provider p), w')))"

interpretation cf: named_factories "[(''cloudflare'', cf_Factory new_cell new_http)]" for new_cell new_http
  by unfold_locales
    (auto simp: cf_Factory_def cf_New_def cf_provider_def split: sum.splits option.splits if_splits prod.splits)

subsection \<open>The lookup is made once\<close>

lemma cf_ZoneID_failed:
  "zo_ID (cell_get (cfp_cell p) w) = [] \<Longrightarrow> zo_done (cell_get (cfp_cell p) w) \<Longrightarrow> zo_err (cell_get (cfp_cell p) w) = Some e \<Longrightarrow>
    cf_ZoneID p w = (Inl e, w)"
  by (simp add: cf_ZoneID_def Let_def)

text \<open>When the first lookup of the zone's identifier fails, for whatever reason, the error stays: this and every later call of
the instance fails with it, and the later ones send nothing, also when the API is well again.\<close>
theorem cloudflare_lookup_error_stays:
  assumes "cell_ok (cfp_cell p)" "zo_ID (cell_get (cfp_cell p) w) = []" "\<not> zo_done (cell_get (cfp_cell p) w)"
    and "GetZoneID (cfp_client p) (cfp_zone p) w = (Inl e, w1)"
  defines "failed \<equiv> Errorf ''getting zone ID: '' e"
  shows "fst (cf_List p w) = Inl failed \<and>
    (cell_get (cfp_cell p) v = cell_get (cfp_cell p) (snd (cf_List p w)) \<longrightarrow>
       cf_List p v = (Inl failed, v) \<and> cf_Create p r v = (Some failed, v) \<and> cf_Delete p r v = (Some failed, v) \<and>
       cf_Update p a r v = (Some failed, v))"
proof -
  let ?z = "\<lparr>zo_ID = [], zo_done = True, zo_err = Some e\<rparr>"
  have z: "cf_ZoneID p w = (Inl e, cell_set (cfp_cell p) ?z w1)"
    using assms(2-4) by (simp add: cf_ZoneID_def Let_def)
  have "cf_ZoneID p v = (Inl e, v)" if "cell_get (cfp_cell p) v = cell_get (cfp_cell p) (snd (cf_List p w))"
    using that z assms(1) by (intro cf_ZoneID_failed) (simp_all add: cf_List_def cell_ok_def)
  then show ?thesis using z
    by (auto simp: cf_List_def cf_Create_def cf_Delete_def cf_Update_def with_zone_def failed_def)
qed

subsection \<open>What a deletion deletes\<close>

text \<open>
  What the provider relies on for the records \<open>Z\<close> of the zone, at one type and name: a search answers with the records of
  that type and name in the order of the zone, and an accepted deletion removes the record with the identifier it names.
\<close>

definition has_type_name :: "string \<Rightarrow> string \<Rightarrow> dnsRecord \<Rightarrow> bool" where
  "has_type_name t n d \<longleftrightarrow> dr_Type d = t \<and> dr_Name d = n"

definition cf_search :: "string \<Rightarrow> string \<Rightarrow> string \<Rightarrow> string" where
  "cf_search zoneID t n = cf_records_path zoneID @ ''?'' @ Values_Encode [(''type'', t), (''name'', n)]"

definition cf_server :: "'w cf_Client \<Rightarrow> string \<Rightarrow> ('w \<Rightarrow> dnsRecord list) \<Rightarrow> string \<Rightarrow> string \<Rightarrow> bool" where
  "cf_server c zoneID Z t n \<longleftrightarrow>
     (\<forall>w r w'. ht_Do (cfk_http c) (cf_request c MethodGet (cf_search zoneID t n) NoBody) w = (r, w') \<longrightarrow> Z w' = Z w \<and>
        (\<forall>resp a. r = Inr resp \<longrightarrow> status_2xx resp \<longrightarrow> Unmarshal dec_cf_apiResponse no_cf_apiResponse resp = Inr a \<longrightarrow>
           cr_Success a \<longrightarrow> cf_result (dec_list no_dnsRecord dec_dnsRecord) [] a = Inr (filter (has_type_name t n) (Z w)))) \<and>
     (\<forall>i w r w'. ht_Do (cfk_http c) (cf_request c MethodDelete (cf_records_path zoneID @ ''/'' @ i) NoBody) w = (r, w') \<longrightarrow>
        (\<forall>resp a. r = Inr resp \<longrightarrow> status_2xx resp \<longrightarrow> Unmarshal dec_cf_apiResponse no_cf_apiResponse resp = Inr a \<longrightarrow>
           cr_Success a \<longrightarrow> Z w' = filter (\<lambda>d. dr_ID d \<noteq> i) (Z w)))"

lemma cf_doRequest_accepted:
  assumes "cf_doRequest c method path body w = (Inr a, w')"
  obtains resp where "ht_Do (cfk_http c) (cf_request c method path body) w = (Inr resp, w')" "status_2xx resp"
    "Unmarshal dec_cf_apiResponse no_cf_apiResponse resp = Inr a" "cr_Success a"
  using assms by (auto simp: cf_doRequest_def split: option.splits prod.splits sum.splits if_splits)

lemma FindRecord_server:
  assumes "cf_server c zoneID Z t n" "FindRecord c zoneID t n w = (Inr d, w')"
  shows "Z w' = Z w \<and> d = (case filter (has_type_name t n) (Z w) of [] \<Rightarrow> None | x # _ \<Rightarrow> Some x)"
proof -
  obtain a ds where a: "cf_doRequest c MethodGet (cf_search zoneID t n) NoBody w = (Inr a, w')"
      "cf_result (dec_list no_dnsRecord dec_dnsRecord) [] a = Inr ds" "d = (case ds of [] \<Rightarrow> None | x # _ \<Rightarrow> Some x)"
    using assms(2) by (auto simp: FindRecord_def cf_read_records_def cf_search_def split: prod.splits sum.splits list.splits)
  from a(1) obtain resp where r: "ht_Do (cfk_http c) (cf_request c MethodGet (cf_search zoneID t n) NoBody) w = (Inr resp, w')"
      "status_2xx resp" "Unmarshal dec_cf_apiResponse no_cf_apiResponse resp = Inr a" "cr_Success a"
    by (rule cf_doRequest_accepted)
  have "Z w' = Z w" "ds = filter (has_type_name t n) (Z w)"
    using assms(1) [unfolded cf_server_def, THEN conjunct1, rule_format, OF r(1)] r a(2) by auto
  then show ?thesis using a(3) by simp
qed

lemma cf_DeleteRecord_server:
  assumes "cf_server c zoneID Z t n" "cf_DeleteRecord c zoneID i w = (None, w')"
  shows "Z w' = filter (\<lambda>d. dr_ID d \<noteq> i) (Z w)"
proof -
  obtain a where "cf_doRequest c MethodDelete (cf_records_path zoneID @ ''/'' @ i) NoBody w = (Inr a, w')"
    using assms(2) by (auto simp: cf_DeleteRecord_def cf_send_def split: prod.splits sum.splits)
  then obtain resp where r: "ht_Do (cfk_http c) (cf_request c MethodDelete (cf_records_path zoneID @ ''/'' @ i) NoBody) w = (Inr resp, w')"
      "status_2xx resp" "Unmarshal dec_cf_apiResponse no_cf_apiResponse resp = Inr a" "cr_Success a"
    by (rule cf_doRequest_accepted)
  show ?thesis using assms(1) [unfolded cf_server_def, THEN conjunct2, rule_format, OF r(1) refl r(2-4)] .
qed

text \<open>A successful deletion removes the first record that the API lists under the name and type of the given one, if there is
one, and its target plays no part: with several records of a name and type, the one that goes may be another than the one that
was meant.\<close>
theorem cloudflare_delete_takes_first:
  assumes "cf_server (cfp_client p) zoneID Z (r_Type r) (r_Hostname r)" "zoneID \<noteq> []" "zo_ID (cell_get (cfp_cell p) w) = zoneID"
    and "cf_Delete p r w = (None, w')"
  shows "Z w' = (case filter (has_type_name (r_Type r) (r_Hostname r)) (Z w) of
                   [] \<Rightarrow> Z w | d # _ \<Rightarrow> filter (\<lambda>x. dr_ID x \<noteq> dr_ID d) (Z w))"
proof -
  have zone: "cf_ZoneID p w = (Inr zoneID, w)" using assms(2,3) by (simp add: cf_ZoneID_def)
  obtain q w1 where q: "FindRecord (cfp_client p) zoneID (r_Type r) (r_Hostname r) w = (q, w1)" by (rule prod.exhaust)
  consider "q = Inr None" "w' = w1"
    | d where "q = Inr (Some d)" "cf_DeleteRecord (cfp_client p) zoneID (dr_ID d) w1 = (None, w')"
    using assms(4) zone q by (auto simp: cf_Delete_def with_zone_def cf_wrap_def prod_eq_iff split: sum.splits option.splits)
  then show ?thesis
  proof cases
    case 1
    then show ?thesis using FindRecord_server [OF assms(1), of w None w1] q by (auto split: list.splits)
  next
    case (2 d)
    then have "Z w' = filter (\<lambda>x. dr_ID x \<noteq> dr_ID d) (Z w1)" using cf_DeleteRecord_server [OF assms(1)] by blast
    then show ?thesis using 2 FindRecord_server [OF assms(1), of w "Some d" w1] q by (auto split: list.splits)
  qed
qed

text \<open>A zone in memory that answers searches for one type and name; the world is the cell and the zone.\<close>

definition demo_ok :: "json \<Rightarrow> api_response" where
  "demo_ok j = \<lparr>hr_StatusCode = 200, hr_Body = [], hr_ReadError = None,
     hr_Json = Some (JObj [(''success'', JBool True), (''result'', j)])\<rparr>"

definition plain_json :: "dnsRecord \<Rightarrow> json" where
  "plain_json d = JObj [(''id'', JStr (dr_ID d)), (''type'', JStr (dr_Type d)), (''name'', JStr (dr_Name d)),
     (''content'', JStr (dr_Content d))]"

definition plain_record :: "string \<Rightarrow> string \<Rightarrow> string \<Rightarrow> string \<Rightarrow> dnsRecord" where
  "plain_record i t n content = no_dnsRecord\<lparr>dr_ID := i, dr_Type := t, dr_Name := n, dr_Content := content\<rparr>"

definition plain_zone :: "dnsRecord list \<Rightarrow> dnsRecord list" where
  "plain_zone ds = map (\<lambda>d. plain_record (dr_ID d) (dr_Type d) (dr_Name d) (dr_Content d)) ds"

definition demo_cf :: "http_request \<Rightarrow> cf_zone \<times> dnsRecord list \<Rightarrow> (err + api_response) \<times> (cf_zone \<times> dnsRecord list)" where
  "demo_cf req w =
     (let base = DefaultAPIEndpoint @ cf_records_path ''z1'' @ ''/'' in
      if hq_Method req = MethodGet then
        (Inr (demo_ok (JArr (map plain_json (filter (has_type_name ''A'' ''app.example.com'') (snd w))))), w)
      else (Inr (demo_ok JNull), (fst w, filter (\<lambda>d. base @ dr_ID d \<noteq> hq_URL req) (snd w))))"

definition demo_cf_client :: "(cf_zone \<times> dnsRecord list) cf_Client" where
  "demo_cf_client = cf_NewClient \<lparr>ht_NewRequest = (\<lambda>_ _. None), ht_Do = demo_cf\<rparr> ''token''"

definition demo_cloudflare :: "(cf_zone \<times> dnsRecord list) cf_Provider" where
  "demo_cloudflare = \<lparr>cfp_name = ''cf'', cfp_zone = ''example.com'', cfp_ttl = 300, cfp_proxied = False, cfp_configID = ''z1'',
     cfp_cell = \<lparr>cell_get = fst, cell_set = (\<lambda>s w. (s, snd w))\<rparr>, cfp_client = demo_cf_client\<rparr>"

lemma dec_plain: "dec_dnsRecord (plain_json d) no_dnsRecord = Inr (plain_record (dr_ID d) (dr_Type d) (dr_Name d) (dr_Content d))"
  by (simp add: dec_dnsRecord_def plain_json_def plain_record_def no_dnsRecord_def dec_struct_def on_field_def dec_string_def
      find_field_def)

lemma demo_cf_server: "cf_server demo_cf_client ''z1'' (\<lambda>w. plain_zone (snd w)) ''A'' ''app.example.com''"
proof -
  have items: "dec_items no_dnsRecord dec_dnsRecord (map plain_json ds) = Inr (plain_zone ds)" for ds
    by (induction ds) (simp_all add: dec_plain plain_zone_def)
  have filt: "filter (has_type_name t n) (plain_zone ds) = plain_zone (filter (has_type_name t n) ds)" for t n ds
    by (induction ds) (auto simp: plain_zone_def has_type_name_def plain_record_def)
  have del: "plain_zone (filter (\<lambda>d. dr_ID d \<noteq> i) ds) = filter (\<lambda>d. dr_ID d \<noteq> i) (plain_zone ds)" for i ds
    by (induction ds) (auto simp: plain_zone_def plain_record_def)
  have dec: "dec_cf_apiResponse (JObj [(''success'', JBool True), (''result'', j)]) no_cf_apiResponse =
      Inr (no_cf_apiResponse\<lparr>cr_Success := True, cr_Result := Some j\<rparr>)" for j
    by (simp add: dec_cf_apiResponse_def no_cf_apiResponse_def dec_struct_def on_field_def dec_bool_def find_field_def)
  show ?thesis
    by (auto simp: cf_server_def demo_cf_client_def cf_NewClient_def demo_cf_def cf_request_def http_methods Let_def demo_ok_def
        Unmarshal_def dec cf_result_def dec_list_def items filt del)
qed

definition demo_cf_world :: "cf_zone \<times> dnsRecord list" where
  "demo_cf_world = (\<lparr>zo_ID = ''z1'', zo_done = False, zo_err = None\<rparr>,
     [plain_record ''r1'' ''A'' ''app.example.com'' ''192.0.2.1'', plain_record ''r2'' ''A'' ''app.example.com'' ''192.0.2.2''])"

text \<open>Asked to delete the second address, the instance deletes the first.\<close>

theorem cloudflare_delete_takes_first_witness:
  "map dr_Content (plain_zone (snd (snd (cf_Delete demo_cloudflare (record_literal ''app.example.com'' ''A'' ''192.0.2.2'') demo_cf_world))))
     = [''192.0.2.2'']"
proof -
  let ?r = "record_literal ''app.example.com'' ''A'' ''192.0.2.2''"
  have "fst (cf_Delete demo_cloudflare ?r demo_cf_world) = None" by code_simp
  then have d: "cf_Delete demo_cloudflare ?r demo_cf_world = (None, snd (cf_Delete demo_cloudflare ?r demo_cf_world))"
    by (metis prod.collapse)
  have s: "cf_server (cfp_client demo_cloudflare) ''z1'' (\<lambda>w. plain_zone (snd w)) (r_Type ?r) (r_Hostname ?r)"
    by (simp add: demo_cloudflare_def demo_cf_server)
  have z: "zo_ID (cell_get (cfp_cell demo_cloudflare) demo_cf_world) = ''z1''"
    by (simp add: demo_cloudflare_def demo_cf_world_def)
  have f: "plain_zone (snd demo_cf_world) =
      [plain_record ''r1'' ''A'' ''app.example.com'' ''192.0.2.1'', plain_record ''r2'' ''A'' ''app.example.com'' ''192.0.2.2'']"
    by (simp add: demo_cf_world_def plain_zone_def plain_record_def)
  show ?thesis using cloudflare_delete_takes_first [OF s _ z d] f
    by (simp add: has_type_name_def plain_record_def)
qed

text \<open>An API that rejects everything.\<close>

definition demo_down :: "(cf_zone \<times> http_request list) cf_Client" where
  "demo_down = cf_NewClient \<lparr>ht_NewRequest = (\<lambda>_ _. None),
     ht_Do = (\<lambda>req w. (Inl (ErrorNew ''connection refused''), (fst w, snd w @ [req])))\<rparr> ''token''"

definition demo_cf_down :: "(cf_zone \<times> http_request list) cf_Provider" where
  "demo_cf_down = \<lparr>cfp_name = ''cf'', cfp_zone = ''example.com'', cfp_ttl = 300, cfp_proxied = False, cfp_configID = [],
     cfp_cell = \<lparr>cell_get = fst, cell_set = (\<lambda>s w. (s, snd w))\<rparr>, cfp_client = demo_down\<rparr>"

theorem cloudflare_lookup_error_stays_witness:
  "cf_List demo_cf_down (\<lparr>zo_ID = [], zo_done = True, zo_err = Some (ErrorNew ''no zone found for domain example.com'')\<rparr>, []) =
     (Inl (Errorf ''getting zone ID: '' (ErrorNew ''no zone found for domain example.com'')),
      (\<lparr>zo_ID = [], zo_done = True, zo_err = Some (ErrorNew ''no zone found for domain example.com'')\<rparr>, []))"
proof -
  let ?w = "(\<lparr>zo_ID = [], zo_done = False, zo_err = None\<rparr>, [])"
  let ?z = "\<lparr>zo_ID = [], zo_done = True, zo_err = Some (ErrorNew ''no zone found for domain example.com'')\<rparr>"
  have c: "cell_ok (cfp_cell demo_cf_down)" "zo_ID (cell_get (cfp_cell demo_cf_down) ?w) = []"
    "\<not> zo_done (cell_get (cfp_cell demo_cf_down) ?w)" by (simp_all add: demo_cf_down_def cell_ok_def)
  have "fst (GetZoneID (cfp_client demo_cf_down) (cfp_zone demo_cf_down) ?w) = Inl (ErrorNew ''no zone found for domain example.com'')"
    by code_simp
  then have g: "GetZoneID (cfp_client demo_cf_down) (cfp_zone demo_cf_down) ?w =
      (Inl (ErrorNew ''no zone found for domain example.com''), snd (GetZoneID (cfp_client demo_cf_down) (cfp_zone demo_cf_down) ?w))"
    by (metis prod.collapse)
  have "fst (snd (cf_List demo_cf_down ?w)) = ?z" by code_simp
  then have "cell_get (cfp_cell demo_cf_down) (?z, []) = cell_get (cfp_cell demo_cf_down) (snd (cf_List demo_cf_down ?w))"
    by (simp add: demo_cf_down_def)
  then show ?thesis using cloudflare_lookup_error_stays [OF c g, of "(?z, [])"] by simp
qed

subsection \<open>Proxied records\<close>

lemma cf_parseBool_format: "cf_parseBool (if b then ''true'' else ''false'') = b"
proof -
  have "cf_parseBool ''true''" "\<not> cf_parseBool ''false''" by code_simp+
  then show ?thesis by simp
qed

text \<open>A record that was listed is written back with the proxy setting it had.\<close>

lemma listed_proxied:
  assumes "t \<in> {RecordTypeA, RecordTypeAAAA, RecordTypeCNAME}"
  shows "resolveProxied p (cf_listed t d) = dr_Proxied d"
  using assms cf_parseBool_format
  by (auto simp: resolveProxied_def cf_listed_def proxiedMetadata_def Let_def RecordType_defs)

end
