(* ===== verification/Webhook.thy ===== *)
theory Webhook
  imports HttpApi RecordStore
begin

text \<open>
  \<^verbatim>\<open>providers/webhook\<close>: configuration, the client with its retries, and the provider. The wait before a retry is an argument,
  which answers with an error when the context is cancelled. Log lines and functional options are left out.
\<close>

subsection \<open>Configuration\<close>

record wh_Config =
  whc_URL :: string
  whc_Timeout :: int
  whc_AuthHeader :: string
  whc_AuthToken :: string
  whc_Retries :: int
  whc_RetryDelay :: int

definition wh_DefaultTimeout :: int where "wh_DefaultTimeout = 30 * one_second"
definition wh_DefaultRetries :: int where "wh_DefaultRetries = 3"
definition wh_DefaultRetryDelay :: int where "wh_DefaultRetryDelay = one_second"

definition wh_Validate :: "wh_Config \<Rightarrow> err option" where
  "wh_Validate c =
     (let errs = (if whc_URL c = [] then [''URL is required'']
                  else if \<not> HasPrefix (whc_URL c) ''http://'' \<and> \<not> HasPrefix (whc_URL c) ''https://''
                  then [''URL must start with http:// or https://''] else []) @
                 (if whc_AuthHeader c \<noteq> [] \<and> whc_AuthToken c = [] then [''AUTH_TOKEN is required when AUTH_HEADER is set''] else []) @
                 (if whc_Timeout c < 0 then [''TIMEOUT must be non-negative''] else []) @
                 (if whc_Retries c < 0 then [''RETRIES must be non-negative''] else []) @
                 (if whc_RetryDelay c < 0 then [''RETRY_DELAY must be non-negative''] else [])
      in if errs \<noteq> [] then Some (ErrorNew (''webhook config validation failed: '' @ Join errs ''; '')) else None)"

definition wh_checked :: "string \<Rightarrow> wh_Config \<Rightarrow> err + wh_Config" where
  "wh_checked name c =
     (case wh_Validate c of Some e \<Rightarrow> Inl (Errorf (''configuration for '' @ name @ '': '') e) | None \<Rightarrow> Inr c)"

text \<open>From a map, a setting that does not parse is ignored.\<close>

definition parsed_or :: "(string \<Rightarrow> err + int) \<Rightarrow> int \<Rightarrow> string \<Rightarrow> int" where
  "parsed_or parse dflt s = (if s \<noteq> [] then (case parse s of Inr n \<Rightarrow> n | Inl _ \<Rightarrow> dflt) else dflt)"

definition wh_LoadConfigFromMap :: "string \<Rightarrow> (string, string) gomap \<Rightarrow> err + wh_Config" where
  "wh_LoadConfigFromMap name m = wh_checked name
     \<lparr>whc_URL = map_get [] m ''URL'', whc_Timeout = parsed_or ParseDuration wh_DefaultTimeout (map_get [] m ''TIMEOUT''),
      whc_AuthHeader = map_get [] m ''AUTH_HEADER'', whc_AuthToken = map_get [] m ''AUTH_TOKEN'',
      whc_Retries = parsed_or Atoi wh_DefaultRetries (map_get [] m ''RETRIES''),
      whc_RetryDelay = parsed_or ParseDuration wh_DefaultRetryDelay (map_get [] m ''RETRY_DELAY'')\<rparr>"

definition wh_getEnvOrFile :: "environment \<Rightarrow> string \<Rightarrow> string \<Rightarrow> string" where
  "wh_getEnvOrFile E directKey fileKey =
     (let filePath = getEnv E fileKey in
      if filePath \<noteq> [] then (case ev_ReadFile E filePath of Inr content \<Rightarrow> TrimSpace content | Inl _ \<Rightarrow> getEnv E directKey)
      else getEnv E directKey)"

definition wh_envPrefix :: "string \<Rightarrow> string" where
  "wh_envPrefix name = ''DNSWEAVER_'' @ ReplaceAll1 (CHR ''-'') (CHR ''_'') (ToUpper name) @ ''_''"

text \<open>From the environment it is an error.\<close>

definition parsed_setting_or :: "string \<Rightarrow> (string \<Rightarrow> err + int) \<Rightarrow> int \<Rightarrow> string \<Rightarrow> err + int" where
  "parsed_setting_or setting parse dflt s =
     (if s \<noteq> [] then (case parse s of
        Inl e \<Rightarrow> Inl (Errorf (''invalid '' @ setting @ '' value '' @ Quote s @ '': '') e) | Inr n \<Rightarrow> Inr n)
      else Inr dflt)"

definition wh_LoadConfig :: "environment \<Rightarrow> string \<Rightarrow> err + wh_Config" where
  "wh_LoadConfig E name =
     (let pre = wh_envPrefix name; get = (\<lambda>k. getEnv E (pre @ k)) in
      case parsed_setting_or ''TIMEOUT'' ParseDuration wh_DefaultTimeout (get ''TIMEOUT'') of
        Inl e \<Rightarrow> Inl e
      | Inr timeout \<Rightarrow>
          (case parsed_setting_or ''RETRIES'' Sscanf_d wh_DefaultRetries (get ''RETRIES'') of
             Inl e \<Rightarrow> Inl e
           | Inr retries \<Rightarrow>
               (case parsed_setting_or ''RETRY_DELAY'' ParseDuration wh_DefaultRetryDelay (get ''RETRY_DELAY'') of
                  Inl e \<Rightarrow> Inl e
                | Inr delay \<Rightarrow> wh_checked name
                    \<lparr>whc_URL = get ''URL'', whc_Timeout = timeout, whc_AuthHeader = get ''AUTH_HEADER'',
                     whc_AuthToken = wh_getEnvOrFile E (pre @ ''AUTH_TOKEN'') (pre @ ''AUTH_TOKEN_FILE''),
                     whc_Retries = retries, whc_RetryDelay = delay\<rparr>)))"

subsection \<open>Documents\<close>

definition no_SRVData :: SRVData where "no_SRVData = \<lparr>srv_Priority = 0, srv_Weight = 0, srv_Port = 0\<rparr>"

definition dec_SRVData :: "SRVData decoder" where
  "dec_SRVData = dec_struct
     [(''priority'', on_field srv_Priority (\<lambda>v r. r\<lparr>srv_Priority := v\<rparr>) dec_uint16),
      (''weight'', on_field srv_Weight (\<lambda>v r. r\<lparr>srv_Weight := v\<rparr>) dec_uint16),
      (''port'', on_field srv_Port (\<lambda>v r. r\<lparr>srv_Port := v\<rparr>) dec_uint16)]"

definition SRVData_json :: "SRVData \<Rightarrow> json" where
  "SRVData_json s = JObj [(''priority'', JInt (int (unat (srv_Priority s)))), (''weight'', JInt (int (unat (srv_Weight s)))),
     (''port'', JInt (int (unat (srv_Port s))))]"

definition opt_field :: "string \<Rightarrow> SRVData option \<Rightarrow> (string \<times> json) list" where
  "opt_field k x = (case x of None \<Rightarrow> [] | Some s \<Rightarrow> [(k, SRVData_json s)])"

definition RecordRequest_json :: "string \<Rightarrow> string \<Rightarrow> string \<Rightarrow> int \<Rightarrow> SRVData option \<Rightarrow> json" where
  "RecordRequest_json hostname ty v ttl srv = JObj
     ([(''hostname'', JStr hostname), (''type'', JStr ty), (''value'', JStr v), (''ttl'', JInt ttl)] @ opt_field ''srv'' srv)"

definition DeleteRequest_json :: "string \<Rightarrow> string \<Rightarrow> json" where
  "DeleteRequest_json hostname ty = JObj ([(''hostname'', JStr hostname)] @ omit_empty (ty = []) ''type'' (JStr ty))"

definition UpdateRequest_json ::
  "string \<Rightarrow> string \<Rightarrow> string \<Rightarrow> string \<Rightarrow> int \<Rightarrow> SRVData option \<Rightarrow> SRVData option \<Rightarrow> json" where
  "UpdateRequest_json hostname ty oldValue newValue ttl srv oldSRV = JObj
     ([(''hostname'', JStr hostname), (''type'', JStr ty), (''old_value'', JStr oldValue), (''new_value'', JStr newValue),
       (''ttl'', JInt ttl)] @ opt_field ''srv'' srv @ opt_field ''old_srv'' oldSRV)"

record RecordResponse =
  rr_Hostname :: string
  rr_Type :: string
  rr_Value :: string
  rr_TTL :: int
  rr_ID :: string
  rr_SRV :: "SRVData option"

definition no_RecordResponse :: RecordResponse where
  "no_RecordResponse = \<lparr>rr_Hostname = [], rr_Type = [], rr_Value = [], rr_TTL = 0, rr_ID = [], rr_SRV = None\<rparr>"

definition dec_RecordResponse :: "RecordResponse decoder" where
  "dec_RecordResponse = dec_struct
     [(''hostname'', on_field rr_Hostname (\<lambda>v r. r\<lparr>rr_Hostname := v\<rparr>) dec_string),
      (''type'', on_field rr_Type (\<lambda>v r. r\<lparr>rr_Type := v\<rparr>) dec_string),
      (''value'', on_field rr_Value (\<lambda>v r. r\<lparr>rr_Value := v\<rparr>) dec_string),
      (''ttl'', on_field rr_TTL (\<lambda>v r. r\<lparr>rr_TTL := v\<rparr>) dec_int),
      (''id'', on_field rr_ID (\<lambda>v r. r\<lparr>rr_ID := v\<rparr>) dec_string),
      (''srv'', on_field rr_SRV (\<lambda>v r. r\<lparr>rr_SRV := v\<rparr>) (dec_pointer no_SRVData dec_SRVData))]"

record ErrorResponse =
  er_Error :: string
  er_Message :: string
  er_Code :: int

definition dec_ErrorResponse :: "ErrorResponse decoder" where
  "dec_ErrorResponse = dec_struct
     [(''error'', on_field er_Error (\<lambda>v r. r\<lparr>er_Error := v\<rparr>) dec_string),
      (''message'', on_field er_Message (\<lambda>v r. r\<lparr>er_Message := v\<rparr>) dec_string),
      (''code'', on_field er_Code (\<lambda>v r. r\<lparr>er_Code := v\<rparr>) dec_int)]"

subsection \<open>The client\<close>

record 'w wh_Client =
  whk_baseURL :: string
  whk_authHeader :: string
  whk_authToken :: string
  whk_retries :: int
  whk_retryDelay :: int
  whk_http :: "'w http"
  whk_wait :: "int \<Rightarrow> 'w \<Rightarrow> err option \<times> 'w"

text \<open>The options for retries keep the default when the value is negative.\<close>

definition wh_NewClient ::
  "'w http \<Rightarrow> (int \<Rightarrow> 'w \<Rightarrow> err option \<times> 'w) \<Rightarrow> string \<Rightarrow> string \<Rightarrow> string \<Rightarrow> int \<Rightarrow> int \<Rightarrow> 'w wh_Client" where
  "wh_NewClient h wait baseURL authHeader authToken retries delay =
     \<lparr>whk_baseURL = TrimSuffix baseURL ''/'', whk_authHeader = authHeader, whk_authToken = authToken,
      whk_retries = (if retries \<ge> 0 then retries else wh_DefaultRetries),
      whk_retryDelay = (if delay \<ge> 0 then delay else wh_DefaultRetryDelay), whk_http = h, whk_wait = wait\<rparr>"

definition isRetryable :: "nat \<Rightarrow> bool" where
  "isRetryable status \<longleftrightarrow> status = 429 \<or> status = 502 \<or> status = 503 \<or> status = 504"

definition wh_request :: "'w wh_Client \<Rightarrow> string \<Rightarrow> string \<Rightarrow> http_body \<Rightarrow> http_request" where
  "wh_request c method path body =
     \<lparr>hq_Method = method, hq_URL = whk_baseURL c @ path,
      hq_Header =
        (let header = [(''Content-Type'', ''application/json''), (''Accept'', ''application/json'')] in
         if whk_authHeader c \<noteq> [] \<and> whk_authToken c \<noteq> [] then AList.update (whk_authHeader c) (whk_authToken c) header
         else header),
      hq_Body = body\<rparr>"

text \<open>A duration is a signed number of 64 bits; doubling it wraps around.\<close>

definition retry_delay :: "int \<Rightarrow> nat \<Rightarrow> int" where
  "retry_delay delay attempt = sint (word_of_int delay * push_bit (attempt - 1) 1 :: 64 word)"

text \<open>The attempts that are left, with the number of the next one and the last error.\<close>

fun wh_attempts ::
  "'w wh_Client \<Rightarrow> http_request \<Rightarrow> nat \<Rightarrow> nat \<Rightarrow> err \<Rightarrow> 'w \<Rightarrow> (err + api_response \<times> string) \<times> 'w" where
  "wh_attempts c req attempt 0 lastErr w = (Inl (Errorf ''max retries exceeded: '' lastErr), w)"
| "wh_attempts c req attempt (Suc n) lastErr w =
     (case (if attempt > 0 then whk_wait c (retry_delay (whk_retryDelay c) attempt) w else (None, w)) of
        (Some e, w1) \<Rightarrow> (Inl e, w1)
      | (None, w1) \<Rightarrow>
          (case ht_NewRequest (whk_http c) (hq_Method req) (hq_URL req) of
             Some e \<Rightarrow> (Inl (Errorf ''creating request: '' e), w1)
           | None \<Rightarrow>
               (case ht_Do (whk_http c) req w1 of
                  (Inl e, w2) \<Rightarrow> wh_attempts c req (Suc attempt) n (Errorf ''executing request: '' e) w2
                | (Inr resp, w2) \<Rightarrow>
                    (case ReadBody resp 0 of
                       Inl e \<Rightarrow> wh_attempts c req (Suc attempt) n (Errorf ''reading response body: '' e) w2
                     | Inr body \<Rightarrow>
                         if isRetryable (hr_StatusCode resp) \<and> int attempt < whk_retries c
                         then wh_attempts c req (Suc attempt) n (ErrorNew (''server returned '' @ Itoa (hr_StatusCode resp))) w2
                         else (Inr (resp, body), w2)))))"

text \<open>Without any attempt the last error would be nil; configurations have at least one.\<close>

definition wh_doRequest :: "'w wh_Client \<Rightarrow> string \<Rightarrow> string \<Rightarrow> http_body \<Rightarrow> 'w \<Rightarrow> (err + api_response \<times> string) \<times> 'w" where
  "wh_doRequest c method path body w =
     wh_attempts c (wh_request c method path body) 0 (nat (whk_retries c + 1)) (ErrorNew ''%!w(<nil>)'') w"

text \<open>The error for a status that a call does not accept.\<close>

definition wh_status_error :: "string \<Rightarrow> api_response \<Rightarrow> err" where
  "wh_status_error what resp =
     (let message = (case Unmarshal dec_ErrorResponse \<lparr>er_Error = [], er_Message = [], er_Code = 0\<rparr> resp of
                       Inr e \<Rightarrow> er_Error e | Inl _ \<Rightarrow> [])
      in if message \<noteq> [] then ErrorNew (what @ '' failed: '' @ message)
         else ErrorNew (what @ '' failed: unexpected status '' @ Itoa (hr_StatusCode resp)))"

definition wh_client_Ping :: "'w wh_Client \<Rightarrow> 'w \<Rightarrow> err option \<times> 'w" where
  "wh_client_Ping c w =
     (case wh_doRequest c MethodGet ''/ping'' NoBody w of
        (Inl e, w') \<Rightarrow> (Some (Errorf ''ping failed: '' e), w')
      | (Inr (resp, _), w') \<Rightarrow>
          (if hr_StatusCode resp \<noteq> 200
           then Some (ErrorNew (''ping failed: unexpected status '' @ Itoa (hr_StatusCode resp))) else None, w'))"

definition wh_client_List :: "'w wh_Client \<Rightarrow> 'w \<Rightarrow> (err + RecordResponse list) \<times> 'w" where
  "wh_client_List c w =
     (case wh_doRequest c MethodGet ''/list'' NoBody w of
        (Inl e, w') \<Rightarrow> (Inl (Errorf ''list failed: '' e), w')
      | (Inr (resp, _), w') \<Rightarrow>
          if hr_StatusCode resp \<noteq> 200 then (Inl (wh_status_error ''list'' resp), w')
          else (case Unmarshal (dec_list no_RecordResponse dec_RecordResponse) [] resp of
                  Inl e \<Rightarrow> (Inl (Errorf ''parsing list response: '' e), w')
                | Inr rs \<Rightarrow> (Inr rs, w')))"

definition wh_write ::
  "'w wh_Client \<Rightarrow> string \<Rightarrow> string \<Rightarrow> json \<Rightarrow> nat set \<Rightarrow> string \<Rightarrow> 'w \<Rightarrow> err option \<times> 'w" where
  "wh_write c method path payload accepted what w =
     (case wh_doRequest c method path (JsonBody payload) w of
        (Inl e, w') \<Rightarrow> (Some (Errorf (what @ '' failed: '') e), w')
      | (Inr (resp, _), w') \<Rightarrow> (if hr_StatusCode resp \<notin> accepted then Some (wh_status_error what resp) else None, w'))"

definition wh_client_Create :: "'w wh_Client \<Rightarrow> string \<Rightarrow> string \<Rightarrow> string \<Rightarrow> int \<Rightarrow> 'w \<Rightarrow> err option \<times> 'w" where
  "wh_client_Create c hostname ty v ttl =
     wh_write c MethodPost ''/create'' (RecordRequest_json hostname ty v ttl None) {200, 201, 204} ''create''"

definition wh_CreateSRV :: "'w wh_Client \<Rightarrow> string \<Rightarrow> SRVData \<Rightarrow> string \<Rightarrow> int \<Rightarrow> 'w \<Rightarrow> err option \<times> 'w" where
  "wh_CreateSRV c hostname srv target ttl =
     wh_write c MethodPost ''/create'' (RecordRequest_json hostname ''SRV'' target ttl (Some srv)) {200, 201, 204} ''create SRV''"

definition wh_client_Delete :: "'w wh_Client \<Rightarrow> string \<Rightarrow> string \<Rightarrow> 'w \<Rightarrow> err option \<times> 'w" where
  "wh_client_Delete c hostname ty =
     wh_write c MethodDelete ''/delete'' (DeleteRequest_json hostname ty) {200, 204, 404} ''delete''"

definition wh_client_Update :: "'w wh_Client \<Rightarrow> string \<Rightarrow> string \<Rightarrow> string \<Rightarrow> string \<Rightarrow> int \<Rightarrow> 'w \<Rightarrow> err option \<times> 'w" where
  "wh_client_Update c hostname ty oldValue newValue ttl =
     wh_write c MethodPut ''/update'' (UpdateRequest_json hostname ty oldValue newValue ttl None None) {200, 204} ''update''"

definition wh_UpdateSRV ::
  "'w wh_Client \<Rightarrow> string \<Rightarrow> SRVData \<Rightarrow> string \<Rightarrow> SRVData \<Rightarrow> string \<Rightarrow> int \<Rightarrow> 'w \<Rightarrow> err option \<times> 'w" where
  "wh_UpdateSRV c hostname oldSRV oldTarget newSRV newTarget ttl =
     wh_write c MethodPut ''/update'' (UpdateRequest_json hostname ''SRV'' oldTarget newTarget ttl (Some newSRV) (Some oldSRV))
       {200, 204} ''update SRV''"

subsection \<open>The provider\<close>

record 'w wh_Provider =
  whp_name :: string
  whp_url :: string
  whp_client :: "'w wh_Client"

definition wh_New ::
  "'w http \<Rightarrow> (int \<Rightarrow> 'w \<Rightarrow> err option \<times> 'w) \<Rightarrow> string \<Rightarrow> wh_Config option \<Rightarrow> err + 'w wh_Provider" where
  "wh_New h wait name config =
     (case config of
        None \<Rightarrow> Inl (ErrorNew ''config is required'')
      | Some c \<Rightarrow>
          (case wh_Validate c of
             Some e \<Rightarrow> Inl e
           | None \<Rightarrow> Inr \<lparr>whp_name = name, whp_url = whc_URL c,
                          whp_client = wh_NewClient h wait (whc_URL c) (whc_AuthHeader c) (whc_AuthToken c) (whc_Retries c)
                                         (whc_RetryDelay c)\<rparr>))"

definition wh_NewFromEnv ::
  "'w http \<Rightarrow> (int \<Rightarrow> 'w \<Rightarrow> err option \<times> 'w) \<Rightarrow> environment \<Rightarrow> string \<Rightarrow> err + 'w wh_Provider" where
  "wh_NewFromEnv h wait E name = (case wh_LoadConfig E name of Inl e \<Rightarrow> Inl e | Inr c \<Rightarrow> wh_New h wait name (Some c))"

definition wh_NewFromMap ::
  "'w http \<Rightarrow> (int \<Rightarrow> 'w \<Rightarrow> err option \<times> 'w) \<Rightarrow> string \<Rightarrow> (string, string) gomap \<Rightarrow> err + 'w wh_Provider" where
  "wh_NewFromMap h wait name m = wh_New h wait name (Some
     \<lparr>whc_URL = map_get [] m ''URL'', whc_Timeout = parsed_or ParseDuration wh_DefaultTimeout (map_get [] m ''TIMEOUT''),
      whc_AuthHeader = map_get [] m ''AUTH_HEADER'', whc_AuthToken = map_get [] m ''AUTH_TOKEN'',
      whc_Retries = parsed_or Sscanf_d wh_DefaultRetries (map_get [] m ''RETRIES''),
      whc_RetryDelay = parsed_or ParseDuration wh_DefaultRetryDelay (map_get [] m ''RETRY_DELAY'')\<rparr>)"

definition wh_Identity :: "'w wh_Provider \<Rightarrow> ProviderIdentity" where
  "wh_Identity p = \<lparr>id_Type = ''webhook'', id_Endpoint = whp_url p, id_Zone = []\<rparr>"

definition wh_Capabilities :: Capabilities where
  "wh_Capabilities = \<lparr>SupportsOwnershipTXT = True, SupportsNativeUpdate = True,
     SupportedRecordTypes = [RecordTypeA, RecordTypeAAAA, RecordTypeCNAME, RecordTypeSRV, RecordTypeTXT]\<rparr>"

definition wh_Ping :: "'w wh_Provider \<Rightarrow> 'w \<Rightarrow> err option \<times> 'w" where
  "wh_Ping p = wh_client_Ping (whp_client p)"

definition wh_listed :: "RecordResponse \<Rightarrow> Record" where
  "wh_listed r = (record_literal (rr_Hostname r) (rr_Type r) (rr_Value r))
     \<lparr>r_TTL := rr_TTL r, r_ProviderID := rr_ID r, r_SRV := (if rr_Type r = RecordTypeSRV then rr_SRV r else None)\<rparr>"

definition wh_List :: "'w wh_Provider \<Rightarrow> 'w \<Rightarrow> (err + Record list) \<times> 'w" where
  "wh_List p w =
     (case wh_client_List (whp_client p) w of
        (Inl e, w') \<Rightarrow> (Inl (Errorf ''listing records: '' e), w')
      | (Inr rs, w') \<Rightarrow>
          (Inr (map wh_listed (filter (\<lambda>r. rr_Type r \<in> {''A'', ''AAAA'', ''CNAME'', ''TXT'', ''SRV''}) rs)), w'))"

definition wh_wrap :: "string \<Rightarrow> string \<Rightarrow> err option \<times> 'w \<Rightarrow> err option \<times> 'w" where
  "wh_wrap verb ty x = (map_option (Errorf (verb @ '' '' @ ty @ '' record: '')) (fst x), snd x)"

definition wh_Create :: "'w wh_Provider \<Rightarrow> Record \<Rightarrow> 'w \<Rightarrow> err option \<times> 'w" where
  "wh_Create p r w =
     (if r_Type r = RecordTypeSRV then
        (case r_SRV r of
           None \<Rightarrow> (Some (ErrorNew ''creating SRV record: SRV data is required''), w)
         | Some srv \<Rightarrow> wh_wrap ''creating'' (r_Type r) (wh_CreateSRV (whp_client p) (r_Hostname r) srv (r_Target r) (r_TTL r) w))
      else wh_wrap ''creating'' (r_Type r) (wh_client_Create (whp_client p) (r_Hostname r) (r_Type r) (r_Target r) (r_TTL r) w))"

definition wh_Delete :: "'w wh_Provider \<Rightarrow> Record \<Rightarrow> 'w \<Rightarrow> err option \<times> 'w" where
  "wh_Delete p r w = wh_wrap ''deleting'' (r_Type r) (wh_client_Delete (whp_client p) (r_Hostname r) (r_Type r) w)"

definition wh_Update :: "'w wh_Provider \<Rightarrow> Record \<Rightarrow> Record \<Rightarrow> 'w \<Rightarrow> err option \<times> 'w" where
  "wh_Update p a b w =
     (if r_Type b = RecordTypeSRV then
        (case (r_SRV b, r_SRV a) of
           (Some new, Some old) \<Rightarrow>
             wh_wrap ''updating'' (r_Type b)
               (wh_UpdateSRV (whp_client p) (r_Hostname b) old (r_Target a) new (r_Target b) (r_TTL b) w)
         | _ \<Rightarrow> (Some (ErrorNew ''updating SRV record: SRV data is required for both existing and desired records''), w))
      else wh_wrap ''updating'' (r_Type b)
             (wh_client_Update (whp_client p) (r_Hostname b) (r_Type b) (r_Target a) (r_Target b) (r_TTL b) w))"

definition wh_provider :: "'w wh_Provider \<Rightarrow> 'w Provider" where
  "wh_provider p =
     \<lparr>p_Name = whp_name p, p_Type = ''webhook'', p_Ping = wh_Ping p, p_Capabilities = wh_Capabilities, p_List = wh_List p,
      p_Create = wh_Create p, p_Delete = wh_Delete p, p_Update = Some (wh_Update p), p_Identity = Some (wh_Identity p),
      p_Close = None\<rparr>"

text \<open>The HTTP client of the factory has the timeout of the framework; the configured one is not used.\<close>

definition wh_Factory :: "(HTTPConfig \<Rightarrow> 'w http) \<Rightarrow> (int \<Rightarrow> 'w \<Rightarrow> err option \<times> 'w) \<Rightarrow> 'w Factory" where
  "wh_Factory new_http wait cfg w =
     (case wh_LoadConfigFromMap (fc_Name cfg) (fc_ProviderConfig cfg) of
        Inl e \<Rightarrow> (Inl e, w)
      | Inr c \<Rightarrow> (map_sum id wh_provider (wh_New (new_http (fc_HTTP cfg)) wait (fc_Name cfg) (Some c)), w))"

interpretation wh: named_factories "[(''webhook'', wh_Factory new_http wait)]" for new_http wait
  by unfold_locales (auto simp: wh_Factory_def wh_New_def wh_provider_def split: sum.splits option.splits if_splits)

subsection \<open>Retries\<close>

text \<open>The answers after which the client tries again, as long as it has attempts.\<close>

definition try_again :: "err + api_response \<Rightarrow> bool" where
  "try_again r = (case r of Inl _ \<Rightarrow> True | Inr resp \<Rightarrow> isl (ReadBody resp 0) \<or> isRetryable (hr_StatusCode resp))"

text \<open>What the last answer makes of the call.\<close>

definition final_result :: "err + api_response \<Rightarrow> err + api_response \<times> string" where
  "final_result r =
     (case r of
        Inl e \<Rightarrow> Inl (Errorf ''max retries exceeded: '' (Errorf ''executing request: '' e))
      | Inr resp \<Rightarrow>
          (case ReadBody resp 0 of
             Inl e \<Rightarrow> Inl (Errorf ''max retries exceeded: '' (Errorf ''reading response body: '' e))
           | Inr body \<Rightarrow> Inr (resp, body)))"

lemma wh_attempts_logged:
  assumes "whk_http c = logged srv" "whk_wait c = (\<lambda>d w. (None, w))" "int attempt + int m = whk_retries c"
    and "wh_attempts c req attempt (Suc m) lastErr log = (r, log')"
  shows "\<exists>k\<le>m. log' = log @ replicate (Suc k) req \<and> (\<forall>i<k. try_again (srv req (log @ replicate i req))) \<and>
    (k < m \<longrightarrow> \<not> try_again (srv req (log @ replicate k req))) \<and> r = final_result (srv req (log @ replicate k req))"
  using assms(3,4)
proof (induction m arbitrary: attempt lastErr log)
  case 0
  then have "\<not> int attempt < whk_retries c" by simp
  then have "log' = log @ [req]" "r = final_result (srv req log)"
    using 0(2) assms(1,2) by (auto simp: final_result_def split: sum.splits if_splits)
  then show ?case by auto
next
  case (Suc m)
  have more: "int attempt < whk_retries c" using Suc.prems(1) by simp
  show ?case
  proof (cases "try_again (srv req log)")
    case False
    then have "log' = log @ [req]" "r = final_result (srv req log)"
      using Suc.prems(2) assms(1,2) by (auto simp: final_result_def try_again_def split: sum.splits if_splits)
    then show ?thesis using False by (intro exI [of _ 0]) simp
  next
    case True
    then obtain e where "wh_attempts c req (Suc attempt) (Suc m) e (log @ [req]) = (r, log')"
      using Suc.prems(2) assms(1,2) more by (auto simp: try_again_def split: sum.splits if_splits)
    from Suc.IH [OF _ this] Suc.prems(1) obtain k where k: "k \<le> m" "log' = (log @ [req]) @ replicate (Suc k) req"
        "\<forall>i<k. try_again (srv req ((log @ [req]) @ replicate i req))"
        "k < m \<longrightarrow> \<not> try_again (srv req ((log @ [req]) @ replicate k req))" "r = final_result (srv req ((log @ [req]) @ replicate k req))"
      by auto
    have shift: "(log @ [req]) @ replicate i req = log @ replicate (Suc i) req" for i by simp
    have "try_again (srv req (log @ replicate i req))" if "i < Suc k" for i
      using that True k(3) shift by (cases i) auto
    then show ?thesis using k shift by (intro exI [of _ "Suc k"]) auto
  qed
qed


text \<open>A server that is unavailable at the first attempt.\<close>

definition flaky_server :: "http_request \<Rightarrow> http_request list \<Rightarrow> err + api_response" where
  "flaky_server req log = Inr \<lparr>hr_StatusCode = (if log = [] then 503 else 200), hr_Body = [], hr_ReadError = None, hr_Json = None\<rparr>"

definition demo_wh_client :: "http_request list wh_Client" where
  "demo_wh_client = wh_NewClient (logged flaky_server) (\<lambda>d w. (None, w)) ''http://hook/'' [] [] 3 one_second"


text \<open>The delays double until they wrap around: with one second, the 35th retry would wait a negative time.\<close>

lemma retry_delay_wraps: "retry_delay one_second 1 = one_second" "retry_delay one_second 3 = 4 * one_second" "retry_delay one_second 35 < 0"
  by (simp_all add: retry_delay_def one_second_def)

end
