(* ===== verification/Ovh.thy ===== *)
theory Ovh
  imports HttpApi RecordStore
begin

text \<open>
  \<^verbatim>\<open>providers/ovh\<close>: configuration, the signed client, whose offset to the server's clock is fetched once and kept in a cell of
  the world, and the provider. The clock, SHA-1 and the printing of JSON, which the signature covers, are arguments. Log lines
  and functional options are left out.
\<close>

subsection \<open>Configuration\<close>

record ov_Config =
  ovc_ApplicationKey :: string
  ovc_ApplicationSecret :: string
  ovc_ConsumerKey :: string
  ovc_Endpoint :: string
  ovc_Zone :: string
  ovc_TTL :: int

definition ov_DefaultTTL :: int where "ov_DefaultTTL = 3600"
definition DefaultEndpoint :: string where "DefaultEndpoint = ''ovh-eu''"

definition ov_endpoints :: "(string, string) gomap" where
  "ov_endpoints =
     [(''ovh-eu'', ''https://eu.api.ovh.com/1.0''), (''ovh-ca'', ''https://ca.api.ovh.com/1.0''),
      (''ovh-us'', ''https://api.us.ovhcloud.com/1.0''), (''kimsufi-eu'', ''https://eu.api.kimsufi.com/1.0''),
      (''kimsufi-ca'', ''https://ca.api.kimsufi.com/1.0''), (''soyoustart-eu'', ''https://eu.api.soyoustart.com/1.0''),
      (''soyoustart-ca'', ''https://ca.api.soyoustart.com/1.0'')]"

definition EndpointURL :: "ov_Config \<Rightarrow> string" where
  "EndpointURL c = map_get [] ov_endpoints (ovc_Endpoint c)"

definition validEndpoints :: string where
  "validEndpoints = Join (sort (map fst ov_endpoints)) '', ''"

definition ov_Validate :: "ov_Config \<Rightarrow> err option" where
  "ov_Validate c =
     (let errs = (if ovc_ApplicationKey c = [] then [''APPLICATION_KEY is required''] else []) @
                 (if ovc_ApplicationSecret c = [] then [''APPLICATION_SECRET is required''] else []) @
                 (if ovc_ConsumerKey c = [] then [''CONSUMER_KEY is required''] else []) @
                 (if ovc_Zone c = [] then [''ZONE is required''] else []) @
                 (if ovc_Endpoint c = [] then [''ENDPOINT is required'']
                  else if \<not> has_key ov_endpoints (ovc_Endpoint c)
                  then [''ENDPOINT '' @ Quote (ovc_Endpoint c) @ '' is not a known OVH region (valid: '' @ validEndpoints @ '')''] else []) @
                 (if ovc_TTL c < 0 then [''TTL must be non-negative''] else []) @
                 (if ovc_TTL c > 0 \<and> ovc_TTL c < 60 then [''TTL must be at least 60 seconds (or 0 for the zone default)''] else [])
      in if errs \<noteq> [] then Some (ErrorNew (''ovh config validation failed: '' @ Join errs ''; '')) else None)"

text \<open>Both loaders share everything but where the values and the three secrets come from.\<close>

definition ov_config_of :: "string \<Rightarrow> (string \<Rightarrow> string) \<Rightarrow> (string \<Rightarrow> string) \<Rightarrow> err + ov_Config" where
  "ov_config_of name get secret =
     (let ttlStr = get ''TTL'';
          finish = (\<lambda>ttl.
            let c = \<lparr>ovc_ApplicationKey = secret ''APPLICATION_KEY'', ovc_ApplicationSecret = secret ''APPLICATION_SECRET'',
                     ovc_ConsumerKey = secret ''CONSUMER_KEY'',
                     ovc_Endpoint = (if get ''ENDPOINT'' \<noteq> [] then get ''ENDPOINT'' else DefaultEndpoint),
                     ovc_Zone = get ''ZONE'', ovc_TTL = ttl\<rparr>
            in case ov_Validate c of
                 Some e \<Rightarrow> Inl (Errorf (''configuration for '' @ name @ '': '') e) | None \<Rightarrow> Inr c)
      in if ttlStr \<noteq> [] then
           (case Atoi ttlStr of
              Inl e \<Rightarrow> Inl (Errorf (''invalid TTL value '' @ Quote ttlStr @ '': '') e)
            | Inr ttl \<Rightarrow> finish ttl)
         else finish ov_DefaultTTL)"

definition ov_LoadConfigFromMap :: "string \<Rightarrow> (string, string) gomap \<Rightarrow> err + ov_Config" where
  "ov_LoadConfigFromMap name m = ov_config_of name (map_get [] m) (map_get [] m)"

definition ov_getEnvOrFile :: "environment \<Rightarrow> string \<Rightarrow> string \<Rightarrow> string" where
  "ov_getEnvOrFile E directKey fileKey =
     (let filePath = getEnv E fileKey in
      if filePath \<noteq> [] then (case ev_ReadFile E filePath of Inr content \<Rightarrow> TrimSpace content | Inl _ \<Rightarrow> getEnv E directKey)
      else getEnv E directKey)"

definition ov_envPrefix :: "string \<Rightarrow> string" where
  "ov_envPrefix name = ''DNSWEAVER_'' @ ReplaceAll1 (CHR ''-'') (CHR ''_'') (ToUpper name) @ ''_''"

definition ov_LoadConfig :: "environment \<Rightarrow> string \<Rightarrow> err + ov_Config" where
  "ov_LoadConfig E name =
     (let pre = ov_envPrefix name in
      ov_config_of name (\<lambda>k. getEnv E (pre @ k)) (\<lambda>k. ov_getEnvOrFile E (pre @ k) (pre @ k @ ''_FILE'')))"

subsection \<open>The client\<close>

record ovhRecord =
  or_ID :: int
  or_Zone :: string
  or_SubDomain :: string
  or_FieldType :: string
  or_Target :: string
  or_TTL :: int

definition no_ovhRecord :: ovhRecord where
  "no_ovhRecord = \<lparr>or_ID = 0, or_Zone = [], or_SubDomain = [], or_FieldType = [], or_Target = [], or_TTL = 0\<rparr>"

definition dec_ovhRecord :: "ovhRecord decoder" where
  "dec_ovhRecord = dec_struct
     [(''id'', on_field or_ID (\<lambda>v r. r\<lparr>or_ID := v\<rparr>) dec_int),
      (''zone'', on_field or_Zone (\<lambda>v r. r\<lparr>or_Zone := v\<rparr>) dec_string),
      (''subDomain'', on_field or_SubDomain (\<lambda>v r. r\<lparr>or_SubDomain := v\<rparr>) dec_string),
      (''fieldType'', on_field or_FieldType (\<lambda>v r. r\<lparr>or_FieldType := v\<rparr>) dec_string),
      (''target'', on_field or_Target (\<lambda>v r. r\<lparr>or_Target := v\<rparr>) dec_string),
      (''ttl'', on_field or_TTL (\<lambda>v r. r\<lparr>or_TTL := v\<rparr>) dec_int)]"

definition recordCreateRequest_json :: "string \<Rightarrow> string \<Rightarrow> string \<Rightarrow> int \<Rightarrow> json" where
  "recordCreateRequest_json fieldType subDomain target ttl = JObj
     ([(''fieldType'', JStr fieldType), (''subDomain'', JStr subDomain), (''target'', JStr target)] @
      omit_empty (ttl = 0) ''ttl'' (JInt ttl))"

definition recordUpdateRequest_json :: "string \<Rightarrow> string \<Rightarrow> int \<Rightarrow> json" where
  "recordUpdateRequest_json subDomain target ttl = JObj
     ([(''subDomain'', JStr subDomain), (''target'', JStr target)] @ omit_empty (ttl = 0) ''ttl'' (JInt ttl))"

record ov_apiError =
  oe_Message :: string
  oe_ErrorCode :: string
  oe_HTTPCode :: string

definition dec_ov_apiError :: "ov_apiError decoder" where
  "dec_ov_apiError = dec_struct
     [(''message'', on_field oe_Message (\<lambda>v r. r\<lparr>oe_Message := v\<rparr>) dec_string),
      (''errorCode'', on_field oe_ErrorCode (\<lambda>v r. r\<lparr>oe_ErrorCode := v\<rparr>) dec_string),
      (''httpCode'', on_field oe_HTTPCode (\<lambda>v r. r\<lparr>oe_HTTPCode := v\<rparr>) dec_string)]"

text \<open>The offset to the server's clock, whether it has been fetched, and the error of the attempt.\<close>

record ov_clock =
  ot_done :: bool
  ot_delta :: int
  ot_err :: "err option"

record 'w ov_Client =
  ovk_baseURL :: string
  ovk_appKey :: string
  ovk_appSecret :: string
  ovk_consumerKey :: string
  ovk_http :: "'w http"
  ovk_cell :: "(ov_clock, 'w) cell"
  ovk_now :: "'w \<Rightarrow> int"
  ovk_sha1_hex :: "string \<Rightarrow> string"
  ovk_marshal :: "json \<Rightarrow> string"

text \<open>\<^verbatim>\<open>strconv.ParseInt\<close> accepts what \<^verbatim>\<open>Atoi\<close> accepts, under its own name.\<close>

definition ParseInt64 :: "string \<Rightarrow> err + int" where
  "ParseInt64 s =
     (case Atoi s of
        Inl e \<Rightarrow> Inl (ErrorNew (''strconv.ParseInt'' @ drop (length ''strconv.Atoi'') (Error e)))
      | Inr n \<Rightarrow> Inr n)"

definition ov_fetch_delta :: "'w ov_Client \<Rightarrow> 'w \<Rightarrow> (err + int) \<times> 'w" where
  "ov_fetch_delta c w =
     (let u = ovk_baseURL c @ ''/auth/time'' in
      case ht_NewRequest (ovk_http c) MethodGet u of
        Some e \<Rightarrow> (Inl (Errorf ''creating time request: '' e), w)
      | None \<Rightarrow>
          (case ht_Do (ovk_http c) \<lparr>hq_Method = MethodGet, hq_URL = u, hq_Header = [], hq_Body = NoBody\<rparr> w of
             (Inl e, w') \<Rightarrow> (Inl (Errorf ''fetching server time: '' e), w')
           | (Inr resp, w') \<Rightarrow>
               (case ReadBody resp 0 of
                  Inl e \<Rightarrow> (Inl (Errorf ''reading server time: '' e), w')
                | Inr body \<Rightarrow>
                    if \<not> status_2xx resp then
                      (Inl (ErrorNew (''fetching server time: unexpected status '' @ Itoa (hr_StatusCode resp) @ '': '' @ body)), w')
                    else
                      (case ParseInt64 (TrimSpace body) of
                         Inl e \<Rightarrow> (Inl (Errorf (''parsing server time '' @ Quote body @ '': '') e), w')
                       | Inr serverTime \<Rightarrow> (Inr (int64 (serverTime - ovk_now c w')), w')))))"

text \<open>\<^verbatim>\<open>sync.Once\<close>: the offset, or the error, of the first attempt stays.\<close>

definition getTimeDelta :: "'w ov_Client \<Rightarrow> 'w \<Rightarrow> (err + int) \<times> 'w" where
  "getTimeDelta c w =
     (let z = cell_get (ovk_cell c) w;
          (z', w') =
            (if ot_done z then (z, w)
             else case ov_fetch_delta c w of
               (Inl e, w') \<Rightarrow> let z' = z\<lparr>ot_done := True, ot_err := Some e\<rparr> in (z', cell_set (ovk_cell c) z' w')
             | (Inr d, w') \<Rightarrow> let z' = z\<lparr>ot_done := True, ot_delta := d\<rparr> in (z', cell_set (ovk_cell c) z' w'))
      in case ot_err z' of Some e \<Rightarrow> (Inl e, w') | None \<Rightarrow> (Inr (ot_delta z'), w'))"

definition sign :: "'w ov_Client \<Rightarrow> string \<Rightarrow> string \<Rightarrow> string \<Rightarrow> int \<Rightarrow> string" where
  "sign c method fullURL body timestamp =
     ''$1$'' @ ovk_sha1_hex c (ovk_appSecret c @ ''+'' @ ovk_consumerKey c @ ''+'' @ method @ ''+'' @ fullURL @ ''+'' @ body @ ''+'' @
       show_int timestamp)"

definition ov_request :: "'w ov_Client \<Rightarrow> string \<Rightarrow> string \<Rightarrow> http_body \<Rightarrow> int \<Rightarrow> http_request" where
  "ov_request c method path body timestamp =
     (let fullURL = ovk_baseURL c @ path; bodyStr = (case body of NoBody \<Rightarrow> [] | JsonBody j \<Rightarrow> ovk_marshal c j) in
      \<lparr>hq_Method = method, hq_URL = fullURL,
       hq_Header = [(''X-Ovh-Application'', ovk_appKey c), (''X-Ovh-Consumer'', ovk_consumerKey c),
                    (''X-Ovh-Timestamp'', show_int timestamp), (''X-Ovh-Signature'', sign c method fullURL bodyStr timestamp)] @
         (if body \<noteq> NoBody then [(''Content-Type'', ''application/json'')] else []),
       hq_Body = body\<rparr>)"

definition ov_status_error :: "api_response \<Rightarrow> string \<Rightarrow> err" where
  "ov_status_error resp body =
     (case Unmarshal dec_ov_apiError \<lparr>oe_Message = [], oe_ErrorCode = [], oe_HTTPCode = []\<rparr> resp of
        Inr e \<Rightarrow>
          if oe_Message e \<noteq> [] then ErrorNew (''API error (status '' @ Itoa (hr_StatusCode resp) @ ''): '' @ oe_Message e)
          else ErrorNew (''unexpected status code '' @ Itoa (hr_StatusCode resp) @ '': '' @ body)
      | Inl _ \<Rightarrow> ErrorNew (''unexpected status code '' @ Itoa (hr_StatusCode resp) @ '': '' @ body))"

definition ov_doRequest :: "'w ov_Client \<Rightarrow> string \<Rightarrow> string \<Rightarrow> http_body \<Rightarrow> 'w \<Rightarrow> (err + api_response) \<times> 'w" where
  "ov_doRequest c method path body w =
     (case getTimeDelta c w of
        (Inl e, w') \<Rightarrow> (Inl e, w')
      | (Inr delta, w') \<Rightarrow>
          let req = ov_request c method path body (int64 (ovk_now c w' + delta)) in
          (case ht_NewRequest (ovk_http c) method (ovk_baseURL c @ path) of
             Some e \<Rightarrow> (Inl (Errorf ''creating request: '' e), w')
           | None \<Rightarrow>
               (case ht_Do (ovk_http c) req w' of
                  (Inl e, w2) \<Rightarrow> (Inl (Errorf ''executing request: '' e), w2)
                | (Inr resp, w2) \<Rightarrow>
                    (case ReadBody resp 0 of
                       Inl e \<Rightarrow> (Inl (Errorf ''reading response body: '' e), w2)
                     | Inr respBody \<Rightarrow>
                         if \<not> status_2xx resp then (Inl (ov_status_error resp respBody), w2) else (Inr resp, w2)))))"

definition zone_path :: "string \<Rightarrow> string" where "zone_path zone = ''/domain/zone/'' @ PathEscape zone"

definition record_path :: "string \<Rightarrow> int \<Rightarrow> string" where
  "record_path zone i = zone_path zone @ ''/record/'' @ show_int i"

definition ov_send :: "'w ov_Client \<Rightarrow> string \<Rightarrow> string \<Rightarrow> http_body \<Rightarrow> string \<Rightarrow> 'w \<Rightarrow> err option \<times> 'w" where
  "ov_send c method path body what w =
     (case ov_doRequest c method path body w of
        (Inl e, w') \<Rightarrow> (Some (Errorf (what @ '': '') e), w') | (Inr _, w') \<Rightarrow> (None, w'))"

definition ov_client_Ping :: "'w ov_Client \<Rightarrow> string \<Rightarrow> 'w \<Rightarrow> err option \<times> 'w" where
  "ov_client_Ping c zone = ov_send c MethodGet (zone_path zone @ ''/soa'') NoBody ''ping failed''"

text \<open>An empty subdomain puts no restriction on the records.\<close>

definition ids_path :: "string \<Rightarrow> string \<Rightarrow> string \<Rightarrow> string" where
  "ids_path zone fieldType subDomain =
     (let q = Values_Encode ((if fieldType \<noteq> [] then [(''fieldType'', fieldType)] else []) @
                             (if subDomain \<noteq> [] then [(''subDomain'', subDomain)] else []))
      in zone_path zone @ ''/record'' @ (if q \<noteq> [] then ''?'' @ q else []))"

definition ListRecordIDs :: "'w ov_Client \<Rightarrow> string \<Rightarrow> string \<Rightarrow> string \<Rightarrow> 'w \<Rightarrow> (err + int list) \<times> 'w" where
  "ListRecordIDs c zone fieldType subDomain w =
     (case ov_doRequest c MethodGet (ids_path zone fieldType subDomain) NoBody w of
        (Inl e, w') \<Rightarrow> (Inl (Errorf ''listing record IDs: '' e), w')
      | (Inr resp, w') \<Rightarrow>
          (case Unmarshal (dec_list 0 dec_int) [] resp of
             Inl e \<Rightarrow> (Inl (Errorf ''parsing record IDs: '' e), w')
           | Inr ids \<Rightarrow> (Inr ids, w')))"

definition GetRecord :: "'w ov_Client \<Rightarrow> string \<Rightarrow> int \<Rightarrow> 'w \<Rightarrow> (err + ovhRecord) \<times> 'w" where
  "GetRecord c zone i w =
     (case ov_doRequest c MethodGet (record_path zone i) NoBody w of
        (Inl e, w') \<Rightarrow> (Inl (Errorf (''getting record '' @ show_int i @ '': '') e), w')
      | (Inr resp, w') \<Rightarrow>
          (case Unmarshal dec_ovhRecord no_ovhRecord resp of
             Inl e \<Rightarrow> (Inl (Errorf (''parsing record '' @ show_int i @ '': '') e), w')
           | Inr r \<Rightarrow> (Inr r, w')))"

definition ov_CreateRecord :: "'w ov_Client \<Rightarrow> string \<Rightarrow> string \<Rightarrow> string \<Rightarrow> string \<Rightarrow> int \<Rightarrow> 'w \<Rightarrow> (err + ovhRecord) \<times> 'w" where
  "ov_CreateRecord c zone fieldType subDomain target ttl w =
     (case ov_doRequest c MethodPost (zone_path zone @ ''/record'') (JsonBody (recordCreateRequest_json fieldType subDomain target ttl)) w of
        (Inl e, w') \<Rightarrow> (Inl (Errorf ''creating record: '' e), w')
      | (Inr resp, w') \<Rightarrow>
          (case Unmarshal dec_ovhRecord no_ovhRecord resp of
             Inl e \<Rightarrow> (Inl (Errorf ''parsing created record: '' e), w')
           | Inr r \<Rightarrow> (Inr r, w')))"

definition ov_UpdateRecord :: "'w ov_Client \<Rightarrow> string \<Rightarrow> int \<Rightarrow> string \<Rightarrow> string \<Rightarrow> int \<Rightarrow> 'w \<Rightarrow> err option \<times> 'w" where
  "ov_UpdateRecord c zone i subDomain target ttl =
     ov_send c MethodPut (record_path zone i) (JsonBody (recordUpdateRequest_json subDomain target ttl))
       (''updating record '' @ show_int i)"

definition ov_DeleteRecord :: "'w ov_Client \<Rightarrow> string \<Rightarrow> int \<Rightarrow> 'w \<Rightarrow> err option \<times> 'w" where
  "ov_DeleteRecord c zone i = ov_send c MethodDelete (record_path zone i) NoBody (''deleting record '' @ show_int i)"

definition RefreshZone :: "'w ov_Client \<Rightarrow> string \<Rightarrow> 'w \<Rightarrow> err option \<times> 'w" where
  "RefreshZone c zone = ov_send c MethodPost (zone_path zone @ ''/refresh'') NoBody ''refreshing zone''"

subsection \<open>The provider\<close>

record 'w ov_Provider =
  ovp_name :: string
  ovp_zone :: string
  ovp_endpoint :: string
  ovp_ttl :: int
  ovp_client :: "'w ov_Client"

text \<open>What the constructor takes besides the configuration.\<close>

record 'w ov_env =
  oen_http :: "'w http"
  oen_cell :: "(ov_clock, 'w) cell"
  oen_now :: "'w \<Rightarrow> int"
  oen_sha1_hex :: "string \<Rightarrow> string"
  oen_marshal :: "json \<Rightarrow> string"

definition ov_NewClient :: "'w ov_env \<Rightarrow> string \<Rightarrow> string \<Rightarrow> string \<Rightarrow> string \<Rightarrow> 'w ov_Client" where
  "ov_NewClient n baseURL appKey appSecret consumerKey =
     \<lparr>ovk_baseURL = TrimRight1 baseURL (CHR ''/''), ovk_appKey = appKey, ovk_appSecret = appSecret, ovk_consumerKey = consumerKey,
      ovk_http = oen_http n, ovk_cell = oen_cell n, ovk_now = oen_now n, ovk_sha1_hex = oen_sha1_hex n, ovk_marshal = oen_marshal n\<rparr>"

definition ov_New :: "'w ov_env \<Rightarrow> string \<Rightarrow> ov_Config option \<Rightarrow> 'w \<Rightarrow> (err + 'w ov_Provider) \<times> 'w" where
  "ov_New n name config w =
     (case config of
        None \<Rightarrow> (Inl (ErrorNew ''config is required''), w)
      | Some c \<Rightarrow>
          (case ov_Validate c of
             Some e \<Rightarrow> (Inl e, w)
           | None \<Rightarrow> (Inr \<lparr>ovp_name = name, ovp_zone = ovc_Zone c, ovp_endpoint = ovc_Endpoint c, ovp_ttl = ovc_TTL c,
                           ovp_client = ov_NewClient n (EndpointURL c) (ovc_ApplicationKey c) (ovc_ApplicationSecret c) (ovc_ConsumerKey c)\<rparr>,
                      cell_set (oen_cell n) \<lparr>ot_done = False, ot_delta = 0, ot_err = None\<rparr> w)))"

definition ov_NewFromEnv :: "'w ov_env \<Rightarrow> environment \<Rightarrow> string \<Rightarrow> 'w \<Rightarrow> (err + 'w ov_Provider) \<times> 'w" where
  "ov_NewFromEnv n E name w = (case ov_LoadConfig E name of Inl e \<Rightarrow> (Inl e, w) | Inr c \<Rightarrow> ov_New n name (Some c) w)"

definition ov_NewFromMap :: "'w ov_env \<Rightarrow> string \<Rightarrow> (string, string) gomap \<Rightarrow> 'w \<Rightarrow> (err + 'w ov_Provider) \<times> 'w" where
  "ov_NewFromMap n name m w = (case ov_LoadConfigFromMap name m of Inl e \<Rightarrow> (Inl e, w) | Inr c \<Rightarrow> ov_New n name (Some c) w)"

definition ov_Identity :: "'w ov_Provider \<Rightarrow> ProviderIdentity" where
  "ov_Identity p = \<lparr>id_Type = ''ovh'', id_Endpoint = ovp_endpoint p, id_Zone = ovp_zone p\<rparr>"

definition ov_Capabilities :: Capabilities where
  "ov_Capabilities = \<lparr>SupportsOwnershipTXT = True, SupportsNativeUpdate = True,
     SupportedRecordTypes = [RecordTypeA, RecordTypeAAAA, RecordTypeCNAME, RecordTypeSRV, RecordTypeTXT]\<rparr>"

definition supportedFieldTypes :: "string list" where
  "supportedFieldTypes = [''A'', ''AAAA'', ''CNAME'', ''TXT'', ''SRV'']"

definition ov_Ping :: "'w ov_Provider \<Rightarrow> 'w \<Rightarrow> err option \<times> 'w" where
  "ov_Ping p = ov_client_Ping (ovp_client p) (ovp_zone p)"

definition toSubDomain :: "string \<Rightarrow> string \<Rightarrow> string" where
  "toSubDomain zone0 hostname =
     (let host = TrimSuffix hostname ''.''; zone = TrimSuffix zone0 ''.'' in
      if host = zone then [] else if HasSuffix host (''.'' @ zone) then TrimSuffix host (''.'' @ zone) else host)"

definition toFQDN :: "string \<Rightarrow> string \<Rightarrow> string" where
  "toFQDN zone0 subDomain =
     (let zone = TrimSuffix zone0 ''.'' in if subDomain = [] then zone else subDomain @ ''.'' @ zone)"

definition parseSRVTarget :: "string \<Rightarrow> (SRVData \<times> string) option" where
  "parseSRVTarget s =
     (case FieldsFunc s is_space of
        [a, b, c, d] \<Rightarrow>
          (case (ParseUint16 a, ParseUint16 b, ParseUint16 c) of
             (Inr prio, Inr weight, Inr port) \<Rightarrow> Some (\<lparr>srv_Priority = prio, srv_Weight = weight, srv_Port = port\<rparr>, d)
           | _ \<Rightarrow> None)
      | _ \<Rightarrow> None)"

definition ov_unquoteTXT :: "string \<Rightarrow> string" where
  "ov_unquoteTXT s = (if length s \<ge> 2 \<and> HasPrefix s [CHR 0x22] \<and> HasSuffix s [CHR 0x22] then butlast (tl s) else s)"

definition toProviderRecord :: "string \<Rightarrow> ovhRecord \<Rightarrow> Record" where
  "toProviderRecord zone rec =
     (let out = (record_literal (toFQDN zone (or_SubDomain rec)) (or_FieldType rec) [])
                  \<lparr>r_TTL := or_TTL rec, r_ProviderID := show_int (or_ID rec)\<rparr>
      in if or_FieldType rec = RecordTypeSRV then
           (case parseSRVTarget (or_Target rec) of
              Some (srv, target) \<Rightarrow> out\<lparr>r_SRV := Some srv, r_Target := target\<rparr>
            | None \<Rightarrow> out\<lparr>r_Target := or_Target rec\<rparr>)
         else if or_FieldType rec = RecordTypeTXT then out\<lparr>r_Target := ov_unquoteTXT (or_Target rec)\<rparr>
         else out\<lparr>r_Target := or_Target rec\<rparr>)"

definition toOVHTarget :: "Record \<Rightarrow> err + string" where
  "toOVHTarget r =
     (if r_Type r = RecordTypeSRV then
        (case r_SRV r of
           None \<Rightarrow> Inl (ErrorNew ''creating SRV record: SRV data is required'')
         | Some s \<Rightarrow> Inr (Itoa (unat (srv_Priority s)) @ '' '' @ Itoa (unat (srv_Weight s)) @ '' '' @ Itoa (unat (srv_Port s)) @ '' '' @
                        r_Target r))
      else Inr (r_Target r))"

definition effectiveTTL :: "'w ov_Provider \<Rightarrow> int \<Rightarrow> int" where
  "effectiveTTL p ttl = (if ttl > 0 then ttl else ovp_ttl p)"

fun get_all :: "'w ov_Provider \<Rightarrow> string \<Rightarrow> int list \<Rightarrow> 'w \<Rightarrow> (err + Record list) \<times> 'w" where
  "get_all p ty [] w = (Inr [], w)"
| "get_all p ty (i # ids) w =
     (case GetRecord (ovp_client p) (ovp_zone p) i w of
        (Inl e, w') \<Rightarrow> (Inl (Errorf (''getting '' @ ty @ '' record '' @ show_int i @ '': '') e), w')
      | (Inr rec, w') \<Rightarrow>
          (case get_all p ty ids w' of
             (Inl e, w2) \<Rightarrow> (Inl e, w2)
           | (Inr rs, w2) \<Rightarrow> (Inr (toProviderRecord (ovp_zone p) rec # rs), w2)))"

fun list_types :: "'w ov_Provider \<Rightarrow> string list \<Rightarrow> 'w \<Rightarrow> (err + Record list) \<times> 'w" where
  "list_types p [] w = (Inr [], w)"
| "list_types p (ty # tys) w =
     (case ListRecordIDs (ovp_client p) (ovp_zone p) ty [] w of
        (Inl e, w') \<Rightarrow> (Inl (Errorf (''listing '' @ ty @ '' record IDs: '') e), w')
      | (Inr ids, w') \<Rightarrow>
          (case get_all p ty ids w' of
             (Inl e, w2) \<Rightarrow> (Inl e, w2)
           | (Inr rs, w2) \<Rightarrow>
               (case list_types p tys w2 of (Inl e, w3) \<Rightarrow> (Inl e, w3) | (Inr rs', w3) \<Rightarrow> (Inr (rs @ rs'), w3))))"

definition ov_List :: "'w ov_Provider \<Rightarrow> 'w \<Rightarrow> (err + Record list) \<times> 'w" where
  "ov_List p = list_types p supportedFieldTypes"

fun first_with_target :: "'w ov_Provider \<Rightarrow> string \<Rightarrow> int list \<Rightarrow> 'w \<Rightarrow> (err + ovhRecord option) \<times> 'w" where
  "first_with_target p want [] w = (Inr None, w)"
| "first_with_target p want (i # ids) w =
     (case GetRecord (ovp_client p) (ovp_zone p) i w of
        (Inl e, w') \<Rightarrow> (Inl (Errorf (''getting record '' @ show_int i @ '': '') e), w')
      | (Inr rec, w') \<Rightarrow> if or_Target rec = want then (Inr (Some rec), w') else first_with_target p want ids w')"

definition findRecord :: "'w ov_Provider \<Rightarrow> Record \<Rightarrow> 'w \<Rightarrow> (err + ovhRecord option) \<times> 'w" where
  "findRecord p r w =
     (case ListRecordIDs (ovp_client p) (ovp_zone p) (r_Type r) (toSubDomain (ovp_zone p) (r_Hostname r)) w of
        (Inl e, w') \<Rightarrow> (Inl (Errorf ''finding record: '' e), w')
      | (Inr [], w') \<Rightarrow> (Inr None, w')
      | (Inr (i # ids), w') \<Rightarrow>
          let want = (case toOVHTarget r of Inl _ \<Rightarrow> [] | Inr t \<Rightarrow> t);
              take_first = (\<lambda>w. apfst (map_sum id Some) (GetRecord (ovp_client p) (ovp_zone p) i w))
          in if ids = [] \<or> want = [] then take_first w'
             else (case first_with_target p want (i # ids) w' of
                     (Inl e, w2) \<Rightarrow> (Inl e, w2)
                   | (Inr (Some rec), w2) \<Rightarrow> (Inr (Some rec), w2)
                   | (Inr None, w2) \<Rightarrow> take_first w2))"

definition ov_refresh_after :: "'w ov_Provider \<Rightarrow> string \<Rightarrow> 'w \<Rightarrow> err option \<times> 'w" where
  "ov_refresh_after p what w =
     (case RefreshZone (ovp_client p) (ovp_zone p) w of
        (Some e, w') \<Rightarrow> (Some (Errorf (''refreshing zone after '' @ what @ '': '') e), w') | (None, w') \<Rightarrow> (None, w'))"

definition ov_Create :: "'w ov_Provider \<Rightarrow> Record \<Rightarrow> 'w \<Rightarrow> err option \<times> 'w" where
  "ov_Create p r w =
     (case toOVHTarget r of
        Inl e \<Rightarrow> (Some e, w)
      | Inr target \<Rightarrow>
          (case ov_CreateRecord (ovp_client p) (ovp_zone p) (r_Type r) (toSubDomain (ovp_zone p) (r_Hostname r)) target
                  (effectiveTTL p (r_TTL r)) w of
             (Inl e, w') \<Rightarrow> (Some (Errorf (''creating '' @ r_Type r @ '' record: '') e), w')
           | (Inr _, w') \<Rightarrow> ov_refresh_after p ''create'' w'))"

definition ov_Delete :: "'w ov_Provider \<Rightarrow> Record \<Rightarrow> 'w \<Rightarrow> err option \<times> 'w" where
  "ov_Delete p r w =
     (case findRecord p r w of
        (Inl e, w') \<Rightarrow> (Some e, w')
      | (Inr None, w') \<Rightarrow> (None, w')
      | (Inr (Some rec), w') \<Rightarrow>
          (case ov_DeleteRecord (ovp_client p) (ovp_zone p) (or_ID rec) w' of
             (Some e, w2) \<Rightarrow> (Some (Errorf (''deleting '' @ r_Type r @ '' record: '') e), w2)
           | (None, w2) \<Rightarrow> ov_refresh_after p ''delete'' w2))"

definition ov_Update :: "'w ov_Provider \<Rightarrow> Record \<Rightarrow> Record \<Rightarrow> 'w \<Rightarrow> err option \<times> 'w" where
  "ov_Update p a b w =
     (case findRecord p a w of
        (Inl e, w') \<Rightarrow> (Some e, w')
      | (Inr None, w') \<Rightarrow> (Some ErrNotFound, w')
      | (Inr (Some rec), w') \<Rightarrow>
          (case toOVHTarget b of
             Inl e \<Rightarrow> (Some e, w')
           | Inr target \<Rightarrow>
               (case ov_UpdateRecord (ovp_client p) (ovp_zone p) (or_ID rec) (toSubDomain (ovp_zone p) (r_Hostname b)) target
                       (effectiveTTL p (r_TTL b)) w' of
                  (Some e, w2) \<Rightarrow> (Some (Errorf (''updating '' @ r_Type b @ '' record: '') e), w2)
                | (None, w2) \<Rightarrow> ov_refresh_after p ''update'' w2)))"

definition ov_provider :: "'w ov_Provider \<Rightarrow> 'w Provider" where
  "ov_provider p =
     \<lparr>p_Name = ovp_name p, p_Type = ''ovh'', p_Ping = ov_Ping p, p_Capabilities = ov_Capabilities, p_List = ov_List p,
      p_Create = ov_Create p, p_Delete = ov_Delete p, p_Update = Some (ov_Update p), p_Identity = Some (ov_Identity p),
      p_Close = None\<rparr>"

definition ov_Factory :: "(FactoryConfig \<Rightarrow> 'w ov_env) \<Rightarrow> 'w Factory" where
  "ov_Factory env_of cfg w =
     (case ov_LoadConfigFromMap (fc_Name cfg) (fc_ProviderConfig cfg) of
        Inl e \<Rightarrow> (Inl e, w)
      | Inr c \<Rightarrow>
          (case ov_New (env_of cfg) (fc_Name cfg) (Some c) w of (Inl e, w') \<Rightarrow> (Inl e, w') | (Inr p, w') \<Rightarrow> (Inr (ov_provider p), w')))"

interpretation ov: named_factories "[(''ovh'', ov_Factory env_of)]" for env_of
  by unfold_locales
    (auto simp: ov_Factory_def ov_New_def ov_provider_def split: sum.splits option.splits if_splits prod.splits)

subsection \<open>Names\<close>

lemma toSubDomain_toFQDN:
  assumes "sub \<noteq> []" "\<not> HasSuffix (toFQDN zone sub) ''.''"
  shows "toSubDomain zone (toFQDN zone sub) = sub"
  using assms by (auto simp: toSubDomain_def toFQDN_def Let_def HasSuffix_append [of "sub" "''.'' @ TrimSuffix zone ''.''", simplified]
      TrimSuffix_append [of sub "''.'' @ TrimSuffix zone ''.''", simplified])

end
