(* ===== verification/Pihole.thy ===== *)
theory Pihole
  imports HttpApi Dnsmasq MockBackend
begin

text \<open>
  \<^verbatim>\<open>providers/pihole\<close>: configuration, the detection of the API's version, the clients of the two versions behind one
  interface, and the provider, which in file mode is a dnsmasq provider. The session of the second version is kept in a cell of
  the world; the clock and SHA-256 are arguments. Log lines and functional options are left out.
\<close>

subsection \<open>Configuration\<close>

definition ModeAPI :: string where "ModeAPI = ''api''"
definition ModeFile :: string where "ModeFile = ''file''"
definition ph_DefaultTTL :: int where "ph_DefaultTTL = 300"
definition DefaultAPIPath :: string where "DefaultAPIPath = ''/admin/api.php''"
definition ph_DefaultConfigDir :: string where "ph_DefaultConfigDir = ''/etc/pihole''"
definition ph_DefaultConfigFile :: string where "ph_DefaultConfigFile = ''custom.list''"
definition ph_DefaultReloadCommand :: string where "ph_DefaultReloadCommand = ''pihole restartdns reload-lists''"

record ph_Config =
  phc_Mode :: string
  phc_URL :: string
  phc_Password :: string
  phc_APIVersion :: string
  phc_ConfigDir :: string
  phc_ConfigFile :: string
  phc_ReloadCommand :: string
  phc_Zone :: string
  phc_TTL :: int

text \<open>\<^verbatim>\<open>Validate\<close> first sets an empty mode.\<close>

definition ph_mode :: "ph_Config \<Rightarrow> string" where
  "ph_mode c = (if phc_Mode c = [] then ModeAPI else phc_Mode c)"

definition quoted :: "string \<Rightarrow> string" where "quoted s = CHR 0x27 # s @ [CHR 0x27]"

definition ph_api_errors :: "(string \<Rightarrow> err option) \<Rightarrow> ph_Config \<Rightarrow> string list" where
  "ph_api_errors malformed c =
     (if phc_URL c = [] then [''URL is required for API mode'']
      else case url_Parse malformed (phc_URL c) of
        Inl e \<Rightarrow> [''invalid URL: '' @ Error e]
      | Inr parsed \<Rightarrow>
          if u_Scheme parsed \<noteq> ''http'' \<and> u_Scheme parsed \<noteq> ''https'' then [''URL must start with http:// or https://'']
          else if u_User parsed then [''URL must not contain embedded credentials''] else []) @
     (if phc_Password c = [] then [''PASSWORD is required for API mode''] else []) @
     (if phc_APIVersion c \<noteq> [] \<and> phc_APIVersion c \<noteq> ''auto'' \<and> ToLower (phc_APIVersion c) \<noteq> ''v5'' \<and> ToLower (phc_APIVersion c) \<noteq> ''v6''
      then [''invalid API_VERSION '' @ Quote (phc_APIVersion c) @ '': must be '' @ quoted ''v5'' @ '', '' @ quoted ''v6'' @ '', or '' @ quoted ''auto''] else [])"

definition ph_file_errors :: "ph_Config \<Rightarrow> string list" where
  "ph_file_errors c =
     (if phc_ConfigDir c = [] then [''CONFIG_DIR is required for file mode''] else []) @
     (if phc_ConfigFile c = [] then [''CONFIG_FILE is required for file mode''] else []) @
     (if phc_ReloadCommand c = [] then [''RELOAD_COMMAND is required for file mode''] else [])"

definition ph_Validate :: "(string \<Rightarrow> err option) \<Rightarrow> ph_Config \<Rightarrow> err option" where
  "ph_Validate malformed c =
     (let mode = ph_mode c;
          errs = (if mode = ModeAPI then ph_api_errors malformed c
                  else if mode = ModeFile then ph_file_errors c
                  else [''invalid MODE '' @ Quote mode @ '': must be '' @ quoted ''api'' @ '' or '' @ quoted ''file'']) @
                 (if phc_TTL c < 0 then [''TTL must be non-negative''] else [])
      in if errs \<noteq> [] then Some (ErrorNew (''pihole config validation failed: '' @ Join errs ''; '')) else None)"

definition ph_ConfigFilePath :: "ph_Config \<Rightarrow> string" where
  "ph_ConfigFilePath c = phc_ConfigDir c @ ''/'' @ phc_ConfigFile c"

text \<open>Both loaders share everything but where the values come from; \<open>get\<close> has the keys of the environment.\<close>

definition ph_or :: "string \<Rightarrow> string \<Rightarrow> string" where
  "ph_or v d = (if v \<noteq> [] then v else d)"

definition ph_config_of ::
  "(string \<Rightarrow> err option) \<Rightarrow> string \<Rightarrow> (string \<Rightarrow> string) \<Rightarrow> string \<Rightarrow> err + ph_Config" where
  "ph_config_of malformed name get password =
     (let modeStr = (if get ''ACCESS_MODE'' = [] then ph_or (get ''MODE'') ModeAPI else get ''ACCESS_MODE'');
          finish = (\<lambda>ttl.
            let c = \<lparr>phc_Mode = ToLower modeStr, phc_URL = get ''URL'', phc_Password = password,
                     phc_APIVersion = ph_or (get ''API_VERSION'') ''auto'',
                     phc_ConfigDir = ph_or (get ''CONFIG_DIR'') ph_DefaultConfigDir,
                     phc_ConfigFile = ph_or (get ''CONFIG_FILE'') ph_DefaultConfigFile,
                     phc_ReloadCommand = ph_or (get ''RELOAD_COMMAND'') ph_DefaultReloadCommand,
                     phc_Zone = get ''ZONE'', phc_TTL = ttl\<rparr>
            in case ph_Validate malformed c of
                 Some e \<Rightarrow> Inl (Errorf (''configuration for '' @ name @ '': '') e)
               | None \<Rightarrow> Inr (c\<lparr>phc_Mode := ph_mode c\<rparr>))
      in if get ''TTL'' \<noteq> [] then
           (case Atoi (get ''TTL'') of
              Inl e \<Rightarrow> Inl (Errorf (''invalid TTL value '' @ Quote (get ''TTL'') @ '': '') e)
            | Inr ttl \<Rightarrow> finish ttl)
         else finish ph_DefaultTTL)"

definition ph_getMapValue :: "(string, string) gomap \<Rightarrow> string \<Rightarrow> string" where
  "ph_getMapValue m key =
     (if has_key m key then map_get [] m key else if has_key m (ToUpper key) then map_get [] m (ToUpper key) else [])"

definition ph_LoadConfigFromMap :: "(string \<Rightarrow> err option) \<Rightarrow> string \<Rightarrow> (string, string) gomap \<Rightarrow> err + ph_Config" where
  "ph_LoadConfigFromMap malformed name m =
     ph_config_of malformed name (\<lambda>k. ph_getMapValue m (ToLower k)) (ph_getMapValue m ''password'')"

definition ph_envPrefix :: "string \<Rightarrow> string" where
  "ph_envPrefix name = ''DNSWEAVER_'' @ ToUpper (ReplaceAll1 (CHR ''-'') (CHR ''_'') name) @ ''_''"

definition ph_getEnvOrFile :: "environment \<Rightarrow> string \<Rightarrow> string \<Rightarrow> string" where
  "ph_getEnvOrFile E envKey fileKey =
     (if getEnv E envKey \<noteq> [] then getEnv E envKey
      else if getEnv E fileKey \<noteq> [] then
        (case ev_ReadFile E (getEnv E fileKey) of Inl _ \<Rightarrow> [] | Inr content \<Rightarrow> TrimSpace content)
      else [])"

definition ph_LoadConfig :: "(string \<Rightarrow> err option) \<Rightarrow> environment \<Rightarrow> string \<Rightarrow> err + ph_Config" where
  "ph_LoadConfig malformed E name =
     (let pre = ph_envPrefix name in
      ph_config_of malformed name (\<lambda>k. getEnv E (pre @ k)) (ph_getEnvOrFile E (pre @ ''PASSWORD'') (pre @ ''PASSWORD_FILE'')))"

subsection \<open>The version of the API\<close>

datatype APIVersion = APIVersionUnknown | APIVersionV5 | APIVersionV6

definition APIVersion_String :: "APIVersion \<Rightarrow> string" where
  "APIVersion_String v = (case v of APIVersionV5 \<Rightarrow> ''v5'' | APIVersionV6 \<Rightarrow> ''v6'' | APIVersionUnknown \<Rightarrow> ''unknown'')"

text \<open>A probe reads the whole body, without the limit of \<^verbatim>\<open>ReadBody\<close>.\<close>

definition ph_probe :: "'w http \<Rightarrow> string \<Rightarrow> (string \<times> string) list \<Rightarrow> 'w \<Rightarrow> (err + api_response) \<times> 'w" where
  "ph_probe h u headers w =
     (case ht_NewRequest h MethodGet u of
        Some e \<Rightarrow> (Inl (Errorf ''creating request: '' e), w)
      | None \<Rightarrow>
          (case ht_Do h \<lparr>hq_Method = MethodGet, hq_URL = u, hq_Header = headers, hq_Body = NoBody\<rparr> w of
             (Inl e, w') \<Rightarrow> (Inl (Errorf ''executing request: '' e), w')
           | (Inr resp, w') \<Rightarrow>
               (if hr_StatusCode resp \<noteq> 200 then (Inl (ErrorNew (''unexpected status: '' @ Itoa (hr_StatusCode resp))), w')
                else case hr_ReadError resp of
                  Some e \<Rightarrow> (Inl (Errorf ''reading response: '' e), w')
                | None \<Rightarrow> (Inr resp, w'))))"

text \<open>Of the login information only whether it decodes and the port matter; a number of any size counts as a float.\<close>

definition dec_any_number :: "unit decoder" where
  "dec_any_number j u = (case j of JNull \<Rightarrow> Inr u | JInt _ \<Rightarrow> Inr u | JFrac _ \<Rightarrow> Inr u | _ \<Rightarrow> Inl (type_error ''float64''))"

record ph_login =
  pl_DNS :: bool
  pl_HTTPSPort :: int

definition dec_ph_login :: "ph_login decoder" where
  "dec_ph_login = dec_struct
     [(''dns'', on_field pl_DNS (\<lambda>v r. r\<lparr>pl_DNS := v\<rparr>) dec_bool),
      (''https_port'', on_field pl_HTTPSPort (\<lambda>v r. r\<lparr>pl_HTTPSPort := v\<rparr>) dec_int),
      (''took'', on_field (\<lambda>_. ()) (\<lambda>_ r. r) dec_any_number)]"

definition tryV6 :: "'w http \<Rightarrow> string \<Rightarrow> 'w \<Rightarrow> (err + string) \<times> 'w" where
  "tryV6 h baseURL w =
     (case ph_probe h (baseURL @ ''/api/info/login'') [(''Accept'', ''application/json'')] w of
        (Inl e, w') \<Rightarrow> (Inl e, w')
      | (Inr resp, w') \<Rightarrow>
          (case Unmarshal dec_ph_login \<lparr>pl_DNS = False, pl_HTTPSPort = 0\<rparr> resp of
             Inl e \<Rightarrow> (Inl (Errorf ''parsing response: '' e), w')
           | Inr l \<Rightarrow> if pl_HTTPSPort l = 0 then (Inl (ErrorNew ''unexpected response structure''), w') else (Inr ''v6'', w')))"

definition tryV5 :: "'w http \<Rightarrow> string \<Rightarrow> 'w \<Rightarrow> (err + string) \<times> 'w" where
  "tryV5 h baseURL w =
     (case ph_probe h (baseURL @ ''/admin/api.php?version'') [] w of
        (Inl e, w') \<Rightarrow> (Inl e, w')
      | (Inr resp, w') \<Rightarrow>
          (case Unmarshal (dec_struct [(''version'', on_field id (\<lambda>v _. v) dec_int)]) 0 resp of
             Inl e \<Rightarrow>
               let version = TrimSpace (hr_Body resp) in
               if version \<noteq> [] \<and> version \<noteq> ''[]'' then (Inr version, w') else (Inl (Errorf ''parsing response: '' e), w')
           | Inr v \<Rightarrow> if v = 0 then (Inl (ErrorNew ''no version in response''), w') else (Inr (show_int v), w')))"

definition Detect :: "'w http \<Rightarrow> string \<Rightarrow> 'w \<Rightarrow> (err + APIVersion \<times> string) \<times> 'w" where
  "Detect h url w =
     (let baseURL = TrimSuffix url ''/'' in
      case tryV6 h baseURL w of
        (Inr v, w') \<Rightarrow> (Inr (APIVersionV6, v), w')
      | (Inl _, w') \<Rightarrow>
          (case tryV5 h baseURL w' of
             (Inr v, w2) \<Rightarrow> (Inr (APIVersionV5, v), w2)
           | (Inl _, w2) \<Rightarrow> (Inl (ErrorNew ''unable to detect Pi-hole version: both v5 and v6 probes failed''), w2)))"

subsection \<open>The interface of the clients\<close>

record piholeRecord =
  ph_Hostname :: string
  ph_Type :: RecordType
  ph_Target :: string

definition pihole_record :: "string \<Rightarrow> RecordType \<Rightarrow> string \<Rightarrow> piholeRecord" where
  "pihole_record hostname t target = \<lparr>ph_Hostname = hostname, ph_Type = t, ph_Target = target\<rparr>"

record 'w DNSClient =
  dk_List :: "'w \<Rightarrow> (err + piholeRecord list) \<times> 'w"
  dk_Create :: "piholeRecord \<Rightarrow> 'w \<Rightarrow> err option \<times> 'w"
  dk_Delete :: "piholeRecord \<Rightarrow> 'w \<Rightarrow> err option \<times> 'w"

text \<open>The call that a record's type selects.\<close>

definition by_type ::
  "(piholeRecord \<Rightarrow> 'w \<Rightarrow> err option \<times> 'w) \<Rightarrow> (piholeRecord \<Rightarrow> 'w \<Rightarrow> err option \<times> 'w) \<Rightarrow> piholeRecord \<Rightarrow> 'w \<Rightarrow> err option \<times> 'w" where
  "by_type host cname r w =
     (if ph_Type r = RecordTypeA \<or> ph_Type r = RecordTypeAAAA then host r w
      else if ph_Type r = RecordTypeCNAME then cname r w
      else (Some (ErrorNew (''unsupported record type: '' @ ph_Type r)), w))"

subsection \<open>Version 5\<close>

record 'w APIClient =
  p5_baseURL :: string
  p5_password :: string
  p5_zone :: string
  p5_http :: "'w http"
  p5_sha256 :: "string \<Rightarrow> string"

definition NewAPIClient :: "'w http \<Rightarrow> (string \<Rightarrow> string) \<Rightarrow> string \<Rightarrow> string \<Rightarrow> string \<Rightarrow> 'w APIClient" where
  "NewAPIClient h sha256 baseURL password zone =
     \<lparr>p5_baseURL = TrimRight1 baseURL (CHR ''/''), p5_password = password, p5_zone = zone, p5_http = h, p5_sha256 = sha256\<rparr>"

definition hex_byte :: "char \<Rightarrow> string" where
  "hex_byte c = [hex_char (byte c div 16), hex_char (byte c mod 16)]"

definition hashPassword :: "'w APIClient \<Rightarrow> string" where
  "hashPassword c = concat (map hex_byte (p5_sha256 c (p5_sha256 c (p5_password c))))"

definition buildURL :: "'w APIClient \<Rightarrow> url_values \<Rightarrow> string" where
  "buildURL c params = p5_baseURL c @ DefaultAPIPath @ ''?'' @ Values_Encode (params @ [(''auth'', hashPassword c)])"

definition p5_request :: "'w APIClient \<Rightarrow> url_values \<Rightarrow> http_request" where
  "p5_request c params = \<lparr>hq_Method = MethodGet, hq_URL = buildURL c params, hq_Header = [], hq_Body = NoBody\<rparr>"

definition p5_Ping :: "'w APIClient \<Rightarrow> 'w \<Rightarrow> err option \<times> 'w" where
  "p5_Ping c w =
     (let params = [(''summary'', [])] in
      case ht_NewRequest (p5_http c) MethodGet (buildURL c params) of
        Some e \<Rightarrow> (Some (Errorf ''creating request: '' e), w)
      | None \<Rightarrow>
          (case ht_Do (p5_http c) (p5_request c params) w of
             (Inl e, w') \<Rightarrow> (Some (Errorf ''connecting to Pi-hole: '' e), w')
           | (Inr resp, w') \<Rightarrow>
               (if hr_StatusCode resp \<noteq> 200
                then (Some (ErrorNew (''pi-hole returned status '' @ Itoa (hr_StatusCode resp) @ '': '' @
                        (case ReadBody resp 0 of Inl _ \<Rightarrow> [] | Inr body \<Rightarrow> body))), w')
                else (None, w'))))"

definition p5_fetch :: "'w APIClient \<Rightarrow> url_values \<Rightarrow> 'w \<Rightarrow> (err + api_response \<times> string) \<times> 'w" where
  "p5_fetch c params w =
     (case ht_NewRequest (p5_http c) MethodGet (buildURL c params) of
        Some e \<Rightarrow> (Inl (Errorf ''creating request: '' e), w)
      | None \<Rightarrow>
          (case ht_Do (p5_http c) (p5_request c params) w of
             (Inl e, w') \<Rightarrow> (Inl (Errorf ''executing request: '' e), w')
           | (Inr resp, w') \<Rightarrow>
               (case ReadBody resp 0 of
                  Inl e \<Rightarrow> (Inl (Errorf ''reading response: '' e), w')
                | Inr body \<Rightarrow> (Inr (resp, body), w'))))"

definition dec_ph_data :: "string list list decoder" where
  "dec_ph_data = dec_struct [(''data'', on_field id (\<lambda>v _. v) (dec_list [] (dec_list [] dec_string)))]"

definition p5_entries :: "'w APIClient \<Rightarrow> string \<Rightarrow> 'w \<Rightarrow> (err + string list list) \<times> 'w" where
  "p5_entries c what w =
     (case p5_fetch c [(what, []), (''action'', ''get'')] w of
        (Inl e, w') \<Rightarrow> (Inl e, w')
      | (Inr (resp, body), w') \<Rightarrow>
          if hr_StatusCode resp \<noteq> 200
          then (Inl (ErrorNew (''API returned status '' @ Itoa (hr_StatusCode resp) @ '': '' @ body)), w')
          else (case Unmarshal dec_ph_data [] resp of
                  Inl e \<Rightarrow> (Inl (Errorf ''parsing response: '' e), w')
                | Inr entries \<Rightarrow> (Inr entries, w')))"

fun host_entry :: "string list \<Rightarrow> piholeRecord option" where
  "host_entry (ip # hostname # _) =
     (case ParseIP ip of
        None \<Rightarrow> None
      | Some parsed \<Rightarrow> Some (pihole_record hostname (if To4 parsed = None then RecordTypeAAAA else RecordTypeA) ip))"
| "host_entry _ = None"

fun cname_entry :: "string list \<Rightarrow> piholeRecord option" where
  "cname_entry (hostname # target # _) = Some (pihole_record hostname RecordTypeCNAME target)"
| "cname_entry _ = None"

definition listCustomDNS :: "'w APIClient \<Rightarrow> 'w \<Rightarrow> (err + piholeRecord list) \<times> 'w" where
  "listCustomDNS c w = apfst (map_sum id (List.map_filter host_entry)) (p5_entries c ''customdns'' w)"

definition listCNAME :: "'w APIClient \<Rightarrow> 'w \<Rightarrow> (err + piholeRecord list) \<times> 'w" where
  "listCNAME c w = apfst (map_sum id (List.map_filter cname_entry)) (p5_entries c ''customcname'' w)"

definition p5_in_zone :: "string \<Rightarrow> piholeRecord \<Rightarrow> bool" where
  "p5_in_zone zone r \<longleftrightarrow> zone = [] \<or> HasSuffix (ph_Hostname r) (''.'' @ zone) \<or> ph_Hostname r = zone"

definition p5_List :: "'w APIClient \<Rightarrow> 'w \<Rightarrow> (err + piholeRecord list) \<times> 'w" where
  "p5_List c w =
     (case listCustomDNS c w of
        (Inl e, w') \<Rightarrow> (Inl (Errorf ''listing custom DNS: '' e), w')
      | (Inr as, w') \<Rightarrow>
          (case listCNAME c w' of
             (Inl e, w2) \<Rightarrow> (Inl (Errorf ''listing CNAME: '' e), w2)
           | (Inr cs, w2) \<Rightarrow> (Inr (filter (p5_in_zone (p5_zone c)) (as @ cs)), w2)))"

record ph_result =
  pr_Success :: bool
  pr_Message :: string

definition dec_ph_result :: "ph_result decoder" where
  "dec_ph_result = dec_struct
     [(''success'', on_field pr_Success (\<lambda>v r. r\<lparr>pr_Success := v\<rparr>) dec_bool),
      (''message'', on_field pr_Message (\<lambda>v r. r\<lparr>pr_Message := v\<rparr>) dec_string)]"

text \<open>A write: an answer that is no result counts as a success when the status is 200; some messages are forgiven.\<close>

definition p5_write :: "'w APIClient \<Rightarrow> url_values \<Rightarrow> string list \<Rightarrow> 'w \<Rightarrow> err option \<times> 'w" where
  "p5_write c params forgiven w =
     (case p5_fetch c params w of
        (Inl e, w') \<Rightarrow> (Some e, w')
      | (Inr (resp, body), w') \<Rightarrow>
          (case Unmarshal dec_ph_result \<lparr>pr_Success = False, pr_Message = []\<rparr> resp of
             Inl e \<Rightarrow> if hr_StatusCode resp = 200 then (None, w') else (Some (Errorf ''parsing response: '' e), w')
           | Inr r \<Rightarrow>
               if pr_Success r \<or> list_ex (Contains (pr_Message r)) forgiven then (None, w')
               else (Some (ErrorNew (''API error: '' @ pr_Message r)), w')))"

definition createCustomDNS :: "'w APIClient \<Rightarrow> piholeRecord \<Rightarrow> 'w \<Rightarrow> err option \<times> 'w" where
  "createCustomDNS c r =
     p5_write c [(''customdns'', []), (''action'', ''add''), (''ip'', ph_Target r), (''domain'', ph_Hostname r)] [''already exists'']"

definition createCNAME :: "'w APIClient \<Rightarrow> piholeRecord \<Rightarrow> 'w \<Rightarrow> err option \<times> 'w" where
  "createCNAME c r =
     p5_write c [(''customcname'', []), (''action'', ''add''), (''domain'', ph_Hostname r), (''target'', ph_Target r)] [''already exists'']"

definition deleteCustomDNS :: "'w APIClient \<Rightarrow> piholeRecord \<Rightarrow> 'w \<Rightarrow> err option \<times> 'w" where
  "deleteCustomDNS c r =
     p5_write c [(''customdns'', []), (''action'', ''delete''), (''ip'', ph_Target r), (''domain'', ph_Hostname r)]
       [''not found'', ''does not exist'']"

definition deleteCNAME :: "'w APIClient \<Rightarrow> piholeRecord \<Rightarrow> 'w \<Rightarrow> err option \<times> 'w" where
  "deleteCNAME c r =
     p5_write c [(''customcname'', []), (''action'', ''delete''), (''domain'', ph_Hostname r), (''target'', ph_Target r)]
       [''not found'', ''does not exist'']"

definition p5_Create :: "'w APIClient \<Rightarrow> piholeRecord \<Rightarrow> 'w \<Rightarrow> err option \<times> 'w" where
  "p5_Create c = by_type (createCustomDNS c) (createCNAME c)"

definition p5_Delete :: "'w APIClient \<Rightarrow> piholeRecord \<Rightarrow> 'w \<Rightarrow> err option \<times> 'w" where
  "p5_Delete c = by_type (deleteCustomDNS c) (deleteCNAME c)"

definition p5_client :: "'w APIClient \<Rightarrow> 'w DNSClient" where
  "p5_client c = \<lparr>dk_List = p5_List c, dk_Create = p5_Create c, dk_Delete = p5_Delete c\<rparr>"

subsection \<open>Version 6\<close>

text \<open>The session: its identifier and when it expires, in nanoseconds.\<close>

record ph_session =
  ps_sid :: string
  ps_expires :: int

definition no_session :: ph_session where "no_session = \<lparr>ps_sid = [], ps_expires = 0\<rparr>"

record 'w V6APIClient =
  p6_baseURL :: string
  p6_password :: string
  p6_zone :: string
  p6_http :: "'w http"
  p6_cell :: "(ph_session, 'w) cell"
  p6_now :: "'w \<Rightarrow> int"

definition NewV6APIClient ::
  "'w http \<Rightarrow> (ph_session, 'w) cell \<Rightarrow> ('w \<Rightarrow> int) \<Rightarrow> string \<Rightarrow> string \<Rightarrow> string \<Rightarrow> 'w V6APIClient" where
  "NewV6APIClient h cell now baseURL password zone =
     \<lparr>p6_baseURL = TrimSuffix baseURL ''/'', p6_password = password, p6_zone = zone, p6_http = h, p6_cell = cell, p6_now = now\<rparr>"

record sessionResponse =
  sr_Valid :: bool
  sr_SID :: string
  sr_CSRF :: string
  sr_Validity :: int
  sr_Message :: string

definition no_sessionResponse :: sessionResponse where
  "no_sessionResponse = \<lparr>sr_Valid = False, sr_SID = [], sr_CSRF = [], sr_Validity = 0, sr_Message = []\<rparr>"

definition dec_sessionResponse :: "sessionResponse decoder" where
  "dec_sessionResponse = dec_struct
     [(''session'', on_field id (\<lambda>v _. v) (dec_struct
        [(''valid'', on_field sr_Valid (\<lambda>v r. r\<lparr>sr_Valid := v\<rparr>) dec_bool),
         (''sid'', on_field sr_SID (\<lambda>v r. r\<lparr>sr_SID := v\<rparr>) dec_string),
         (''csrf'', on_field sr_CSRF (\<lambda>v r. r\<lparr>sr_CSRF := v\<rparr>) dec_string),
         (''validity'', on_field sr_Validity (\<lambda>v r. r\<lparr>sr_Validity := v\<rparr>) dec_int),
         (''message'', on_field sr_Message (\<lambda>v r. r\<lparr>sr_Message := v\<rparr>) dec_string)]))]"

definition auth_request :: "'w V6APIClient \<Rightarrow> http_request" where
  "auth_request c =
     \<lparr>hq_Method = MethodPost, hq_URL = p6_baseURL c @ ''/api/auth'',
      hq_Header = [(''Content-Type'', ''application/json''), (''Accept'', ''application/json'')],
      hq_Body = JsonBody (JObj [(''password'', JStr (p6_password c))])\<rparr>"

text \<open>The validity in nanoseconds, less half a minute and at least half a minute, with the wrap-around of a duration.\<close>

definition session_validity :: "int \<Rightarrow> int" where
  "session_validity validity = max (int64 (int64 (validity - 30) * one_second)) (30 * one_second)"

definition session_live :: "'w V6APIClient \<Rightarrow> 'w \<Rightarrow> bool" where
  "session_live c w \<longleftrightarrow> ps_sid (cell_get (p6_cell c) w) \<noteq> [] \<and> p6_now c w < ps_expires (cell_get (p6_cell c) w)"

definition authenticate :: "'w V6APIClient \<Rightarrow> 'w \<Rightarrow> err option \<times> 'w" where
  "authenticate c w =
     (if session_live c w then (None, w)
      else case ht_NewRequest (p6_http c) MethodPost (p6_baseURL c @ ''/api/auth'') of
        Some e \<Rightarrow> (Some (Errorf ''creating auth request: '' e), w)
      | None \<Rightarrow>
          (case ht_Do (p6_http c) (auth_request c) w of
             (Inl e, w') \<Rightarrow> (Some (Errorf ''executing auth request: '' e), w')
           | (Inr resp, w') \<Rightarrow>
               (case ReadBody resp 0 of
                  Inl e \<Rightarrow> (Some (Errorf ''reading auth response: '' e), w')
                | Inr respBody \<Rightarrow>
                    if hr_StatusCode resp \<noteq> 200
                    then (Some (ErrorNew (''auth failed with status '' @ Itoa (hr_StatusCode resp) @ '': '' @ respBody)), w')
                    else (case Unmarshal dec_sessionResponse no_sessionResponse resp of
                            Inl e \<Rightarrow> (Some (Errorf ''parsing auth response: '' e), w')
                          | Inr s \<Rightarrow>
                              if \<not> sr_Valid s
                              then (Some (ErrorNew (''authentication failed: '' @
                                      (if sr_Message s = [] then ''invalid credentials'' else sr_Message s))), w')
                              else (None, cell_set (p6_cell c)
                                      \<lparr>ps_sid = sr_SID s, ps_expires = p6_now c w' + session_validity (sr_Validity s)\<rparr> w')))))"

definition getSID :: "'w V6APIClient \<Rightarrow> 'w \<Rightarrow> (err + string) \<times> 'w" where
  "getSID c w =
     (case authenticate c w of (Some e, w') \<Rightarrow> (Inl e, w') | (None, w') \<Rightarrow> (Inr (ps_sid (cell_get (p6_cell c) w')), w'))"

text \<open>No call of the provider has a body to send.\<close>

definition p6_request :: "'w V6APIClient \<Rightarrow> string \<Rightarrow> string \<Rightarrow> string \<Rightarrow> http_request" where
  "p6_request c method path sid =
     \<lparr>hq_Method = method, hq_URL = p6_baseURL c @ path, hq_Header = [(''X-FTL-SID'', sid), (''Accept'', ''application/json'')],
      hq_Body = NoBody\<rparr>"

definition p6_doRequest :: "'w V6APIClient \<Rightarrow> string \<Rightarrow> string \<Rightarrow> 'w \<Rightarrow> (err + api_response) \<times> 'w" where
  "p6_doRequest c method path w =
     (case getSID c w of
        (Inl e, w') \<Rightarrow> (Inl (Errorf ''getting session: '' e), w')
      | (Inr sid, w') \<Rightarrow>
          (case ht_NewRequest (p6_http c) method (p6_baseURL c @ path) of
             Some e \<Rightarrow> (Inl (Errorf ''creating request: '' e), w')
           | None \<Rightarrow>
               (case ht_Do (p6_http c) (p6_request c method path sid) w' of
                  (Inl e, w2) \<Rightarrow> (Inl (Errorf ''executing request: '' e), w2)
                | (Inr resp, w2) \<Rightarrow>
                    (case ReadBody resp 0 of
                       Inl e \<Rightarrow> (Inl (Errorf ''reading response: '' e), w2)
                     | Inr respBody \<Rightarrow>
                         if hr_StatusCode resp = 401
                         then (Inl (ErrorNew ''session expired, retry required''), cell_set (p6_cell c) no_session w2)
                         else if \<not> status_2xx resp
                         then (Inl (ErrorNew (''API error (status '' @ Itoa (hr_StatusCode resp) @ ''): '' @ respBody)), w2)
                         else (Inr resp, w2)))))"

record ph_dns_config =
  pd_Hosts :: "string list"
  pd_CnameRecords :: "string list"

definition dec_ph_dns_config :: "ph_dns_config decoder" where
  "dec_ph_dns_config = dec_struct
     [(''config'', on_field id (\<lambda>v _. v) (dec_struct
        [(''dns'', on_field id (\<lambda>v _. v) (dec_struct
           [(''hosts'', on_field pd_Hosts (\<lambda>v r. r\<lparr>pd_Hosts := v\<rparr>) (dec_list [] dec_string)),
            (''cnameRecords'', on_field pd_CnameRecords (\<lambda>v r. r\<lparr>pd_CnameRecords := v\<rparr>) (dec_list [] dec_string))]))]))]"

definition parseHostEntry :: "string \<Rightarrow> piholeRecord list" where
  "parseHostEntry entry =
     (case FieldsFunc entry is_space of
        ip # hostname # hostnames \<Rightarrow>
          map (\<lambda>h. pihole_record h (if ParseIP ip \<noteq> None \<and> Contains ip '':'' then RecordTypeAAAA else RecordTypeA) ip)
            (hostname # hostnames)
      | _ \<Rightarrow> [])"

definition parseCNAMEEntry :: "string \<Rightarrow> piholeRecord option" where
  "parseCNAMEEntry entry =
     (case Split entry (CHR '','') of
        alias # target # _ \<Rightarrow> Some (pihole_record (TrimSpace alias) RecordTypeCNAME (TrimSpace target))
      | _ \<Rightarrow> None)"

definition p6_List :: "'w V6APIClient \<Rightarrow> 'w \<Rightarrow> (err + piholeRecord list) \<times> 'w" where
  "p6_List c w =
     (case p6_doRequest c MethodGet ''/api/config/dns'' w of
        (Inl e, w') \<Rightarrow> (Inl (Errorf ''fetching config: '' e), w')
      | (Inr resp, w') \<Rightarrow>
          (case Unmarshal dec_ph_dns_config \<lparr>pd_Hosts = [], pd_CnameRecords = []\<rparr> resp of
             Inl e \<Rightarrow> (Inl (Errorf ''parsing config: '' e), w')
           | Inr d \<Rightarrow> (Inr (concat (map parseHostEntry (pd_Hosts d)) @ List.map_filter parseCNAMEEntry (pd_CnameRecords d)), w')))"

definition p6_write :: "'w V6APIClient \<Rightarrow> string \<Rightarrow> string \<Rightarrow> string list \<Rightarrow> string \<Rightarrow> 'w \<Rightarrow> err option \<times> 'w" where
  "p6_write c method path forgiven what w =
     (case p6_doRequest c method path w of
        (Inl e, w') \<Rightarrow> if list_ex (Contains (Error e)) forgiven then (None, w') else (Some (Errorf (what @ '': '') e), w')
      | (Inr _, w') \<Rightarrow> (None, w'))"

definition hosts_path :: "piholeRecord \<Rightarrow> string" where
  "hosts_path r = ''/api/config/dns/hosts/'' @ PathEscape (ph_Target r @ '' '' @ ph_Hostname r)"

definition cnames_path :: "piholeRecord \<Rightarrow> string" where
  "cnames_path r = ''/api/config/dns/cnameRecords/'' @ PathEscape (ph_Hostname r @ '','' @ ph_Target r)"

definition createHostEntry :: "'w V6APIClient \<Rightarrow> piholeRecord \<Rightarrow> 'w \<Rightarrow> err option \<times> 'w" where
  "createHostEntry c r = p6_write c MethodPut (hosts_path r) [''already exists'', ''duplicate''] ''creating host entry''"

definition createCNAMEEntry :: "'w V6APIClient \<Rightarrow> piholeRecord \<Rightarrow> 'w \<Rightarrow> err option \<times> 'w" where
  "createCNAMEEntry c r = p6_write c MethodPut (cnames_path r) [''already exists'', ''duplicate''] ''creating CNAME entry''"

definition deleteHostEntry :: "'w V6APIClient \<Rightarrow> piholeRecord \<Rightarrow> 'w \<Rightarrow> err option \<times> 'w" where
  "deleteHostEntry c r =
     p6_write c MethodDelete (hosts_path r) [''not found'', ''does not exist'', ''404''] ''deleting host entry''"

definition deleteCNAMEEntry :: "'w V6APIClient \<Rightarrow> piholeRecord \<Rightarrow> 'w \<Rightarrow> err option \<times> 'w" where
  "deleteCNAMEEntry c r =
     p6_write c MethodDelete (cnames_path r) [''not found'', ''does not exist'', ''404''] ''deleting CNAME entry''"

definition p6_Create :: "'w V6APIClient \<Rightarrow> piholeRecord \<Rightarrow> 'w \<Rightarrow> err option \<times> 'w" where
  "p6_Create c = by_type (createHostEntry c) (createCNAMEEntry c)"

definition p6_Delete :: "'w V6APIClient \<Rightarrow> piholeRecord \<Rightarrow> 'w \<Rightarrow> err option \<times> 'w" where
  "p6_Delete c = by_type (deleteHostEntry c) (deleteCNAMEEntry c)"

definition p6_client :: "'w V6APIClient \<Rightarrow> 'w DNSClient" where
  "p6_client c = \<lparr>dk_List = p6_List c, dk_Create = p6_Create c, dk_Delete = p6_Delete c\<rparr>"

subsection \<open>The provider\<close>

text \<open>The mode and the client or the file provider that it selects; the constructor makes no others.\<close>

datatype 'w ph_backend = ApiBackend APIVersion "'w DNSClient" | FileBackend "'w Provider"

record 'w ph_Provider =
  php_name :: string
  php_url :: string
  php_configPath :: string
  php_zone :: string
  php_ttl :: int
  php_backend :: "'w ph_backend"

text \<open>What the constructor takes besides the configuration.\<close>

record 'w ph_env =
  pen_malformed :: "string \<Rightarrow> err option"
  pen_http :: "'w http"
  pen_sha256 :: "string \<Rightarrow> string"
  pen_cell :: "(ph_session, 'w) cell"
  pen_now :: "'w \<Rightarrow> int"
  pen_fs :: "'w FileSystem"
  pen_runner :: "string \<Rightarrow> 'w \<Rightarrow> err option \<times> 'w"
  pen_ssh :: "dnsmasq_Config \<Rightarrow> 'w \<Rightarrow> (err + 'w transport) \<times> 'w"

definition resolveAPIVersion :: "'w http \<Rightarrow> ph_Config \<Rightarrow> 'w \<Rightarrow> (err + APIVersion) \<times> 'w" where
  "resolveAPIVersion h c w =
     (if phc_APIVersion c \<noteq> [] \<and> phc_APIVersion c \<noteq> ''auto'' \<and> ToLower (phc_APIVersion c) = ''v5'' then (Inr APIVersionV5, w)
      else if phc_APIVersion c \<noteq> [] \<and> phc_APIVersion c \<noteq> ''auto'' \<and> ToLower (phc_APIVersion c) = ''v6'' then (Inr APIVersionV6, w)
      else apfst (map_sum id fst) (Detect h (phc_URL c) w))"

definition ph_dnsmasq_config :: "ph_Config \<Rightarrow> dnsmasq_Config" where
  "ph_dnsmasq_config c =
     \<lparr>dc_ConfigDir = phc_ConfigDir c, dc_ConfigFile = phc_ConfigFile c, dc_ReloadCommand = phc_ReloadCommand c,
      dc_Zone = phc_Zone c, dc_TTL = phc_TTL c, dc_SSHHost = [], dc_SSHPort = 0, dc_SSHUser = [], dc_SSHKeyFile = [],
      dc_SSHPassword = [], dc_SSHKnownHostsFile = [], dc_SSHStrictHostKey = False\<rparr>"

text \<open>A new client of the second version starts without a session.\<close>

definition ph_api_backend :: "'w ph_env \<Rightarrow> ph_Config \<Rightarrow> 'w \<Rightarrow> (err + 'w ph_backend) \<times> 'w" where
  "ph_api_backend n c w =
     (case resolveAPIVersion (pen_http n) c w of
        (Inl e, w') \<Rightarrow> (Inl (Errorf ''determining Pi-hole API version: '' e), w')
      | (Inr v, w') \<Rightarrow>
          (case v of
             APIVersionV5 \<Rightarrow>
               (Inr (ApiBackend v (p5_client (NewAPIClient (pen_http n) (pen_sha256 n) (phc_URL c) (phc_Password c) (phc_Zone c)))), w')
           | APIVersionV6 \<Rightarrow>
               (Inr (ApiBackend v (p6_client (NewV6APIClient (pen_http n) (pen_cell n) (pen_now n)
                        (phc_URL c) (phc_Password c) (phc_Zone c)))), cell_set (pen_cell n) no_session w')
           | APIVersionUnknown \<Rightarrow> (Inl (ErrorNew (''unsupported API version: '' @ APIVersion_String v)), w')))"

definition ph_file_backend :: "'w ph_env \<Rightarrow> string \<Rightarrow> ph_Config \<Rightarrow> 'w \<Rightarrow> (err + 'w ph_backend) \<times> 'w" where
  "ph_file_backend n name c w =
     (case dm_New (pen_fs n) (pen_runner n) (pen_ssh n) name (ph_dnsmasq_config c) w of
        (Inl e, w') \<Rightarrow> (Inl (Errorf ''creating dnsmasq provider for file mode: '' e), w')
      | (Inr fp, w') \<Rightarrow> (Inr (FileBackend fp), w'))"

definition ph_New :: "'w ph_env \<Rightarrow> string \<Rightarrow> ph_Config option \<Rightarrow> 'w \<Rightarrow> (err + 'w ph_Provider) \<times> 'w" where
  "ph_New n name config w =
     (case config of
        None \<Rightarrow> (Inl (ErrorNew ''config is required''), w)
      | Some c \<Rightarrow>
          (case ph_Validate (pen_malformed n) c of
             Some e \<Rightarrow> (Inl e, w)
           | None \<Rightarrow>
               (case (if ph_mode c = ModeAPI then ph_api_backend n c w else ph_file_backend n name c w) of
                  (Inl e, w') \<Rightarrow> (Inl e, w')
                | (Inr b, w') \<Rightarrow>
                    (Inr \<lparr>php_name = name, php_url = phc_URL c, php_configPath = ph_ConfigFilePath c, php_zone = phc_Zone c,
                          php_ttl = phc_TTL c, php_backend = b\<rparr>, w'))))"

definition ph_NewFromEnv :: "'w ph_env \<Rightarrow> environment \<Rightarrow> string \<Rightarrow> 'w \<Rightarrow> (err + 'w ph_Provider) \<times> 'w" where
  "ph_NewFromEnv n E name w =
     (case ph_LoadConfig (pen_malformed n) E name of Inl e \<Rightarrow> (Inl e, w) | Inr c \<Rightarrow> ph_New n name (Some c) w)"

definition ph_NewFromMap :: "'w ph_env \<Rightarrow> string \<Rightarrow> (string, string) gomap \<Rightarrow> 'w \<Rightarrow> (err + 'w ph_Provider) \<times> 'w" where
  "ph_NewFromMap n name m w =
     (case ph_LoadConfigFromMap (pen_malformed n) name m of Inl e \<Rightarrow> (Inl e, w) | Inr c \<Rightarrow> ph_New n name (Some c) w)"

definition ph_Identity :: "'w ph_Provider \<Rightarrow> ProviderIdentity" where
  "ph_Identity p =
     \<lparr>id_Type = ''pihole'',
      id_Endpoint = (case php_backend p of FileBackend _ \<Rightarrow> ''file:'' @ php_configPath p | ApiBackend _ _ \<Rightarrow> php_url p),
      id_Zone = php_zone p\<rparr>"

definition ph_Capabilities :: "'w ph_Provider \<Rightarrow> Capabilities" where
  "ph_Capabilities p =
     (let api = (case php_backend p of ApiBackend _ _ \<Rightarrow> True | FileBackend _ \<Rightarrow> False) in
      \<lparr>SupportsOwnershipTXT = api, SupportsNativeUpdate = api, SupportedRecordTypes = [RecordTypeA, RecordTypeCNAME]\<rparr>)"

definition ph_Ping :: "'w ph_Provider \<Rightarrow> 'w \<Rightarrow> err option \<times> 'w" where
  "ph_Ping p w =
     (case php_backend p of
        ApiBackend _ c \<Rightarrow> (case dk_List c w of (Inl e, w') \<Rightarrow> (Some e, w') | (Inr _, w') \<Rightarrow> (None, w'))
      | FileBackend fp \<Rightarrow> p_Ping fp w)"

definition ph_listed :: "int \<Rightarrow> piholeRecord \<Rightarrow> Record" where
  "ph_listed ttl r = (record_literal (ph_Hostname r) (ph_Type r) (ph_Target r))
     \<lparr>r_TTL := ttl, r_ProviderID := ph_Hostname r @ '':'' @ ph_Type r @ '':'' @ ph_Target r\<rparr>"

definition listAPI :: "int \<Rightarrow> 'w DNSClient \<Rightarrow> 'w \<Rightarrow> (err + Record list) \<times> 'w" where
  "listAPI ttl c w =
     (case dk_List c w of
        (Inl e, w') \<Rightarrow> (Inl (Errorf ''listing records: '' e), w') | (Inr rs, w') \<Rightarrow> (Inr (map (ph_listed ttl) rs), w'))"

definition ph_List :: "'w ph_Provider \<Rightarrow> 'w \<Rightarrow> (err + Record list) \<times> 'w" where
  "ph_List p = (case php_backend p of ApiBackend _ c \<Rightarrow> listAPI (php_ttl p) c | FileBackend fp \<Rightarrow> p_List fp)"

definition ph_api_call ::
  "(piholeRecord \<Rightarrow> 'w \<Rightarrow> err option \<times> 'w) \<Rightarrow> string \<Rightarrow> Record \<Rightarrow> 'w \<Rightarrow> err option \<times> 'w" where
  "ph_api_call f what r w =
     (case f (pihole_record (r_Hostname r) (r_Type r) (r_Target r)) w of
        (Some e, w') \<Rightarrow> (Some (Errorf (what @ '' '' @ r_Type r @ '' record: '') e), w') | (None, w') \<Rightarrow> (None, w'))"

definition createAPI :: "'w DNSClient \<Rightarrow> Record \<Rightarrow> 'w \<Rightarrow> err option \<times> 'w" where
  "createAPI c = ph_api_call (dk_Create c) ''creating''"

definition deleteAPI :: "'w DNSClient \<Rightarrow> Record \<Rightarrow> 'w \<Rightarrow> err option \<times> 'w" where
  "deleteAPI c = ph_api_call (dk_Delete c) ''deleting''"

definition ph_Create :: "'w ph_Provider \<Rightarrow> Record \<Rightarrow> 'w \<Rightarrow> err option \<times> 'w" where
  "ph_Create p r w =
     (if r_Type r = RecordTypeTXT then (None, w)
      else if r_Type r = RecordTypeSRV then (Some (ErrorNew ''SRV records not supported by Pi-hole provider''), w)
      else if r_Type r \<noteq> RecordTypeA \<and> r_Type r \<noteq> RecordTypeAAAA \<and> r_Type r \<noteq> RecordTypeCNAME
      then (Some (ErrorNew (''unsupported record type: '' @ r_Type r)), w)
      else case php_backend p of ApiBackend _ c \<Rightarrow> createAPI c r w | FileBackend fp \<Rightarrow> p_Create fp r w)"

definition ph_Delete :: "'w ph_Provider \<Rightarrow> Record \<Rightarrow> 'w \<Rightarrow> err option \<times> 'w" where
  "ph_Delete p r w =
     (if r_Type r = RecordTypeTXT then (None, w)
      else case php_backend p of ApiBackend _ c \<Rightarrow> deleteAPI c r w | FileBackend fp \<Rightarrow> p_Delete fp r w)"

definition ph_provider :: "'w ph_Provider \<Rightarrow> 'w Provider" where
  "ph_provider p =
     \<lparr>p_Name = php_name p, p_Type = ''pihole'', p_Ping = ph_Ping p, p_Capabilities = ph_Capabilities p, p_List = ph_List p,
      p_Create = ph_Create p, p_Delete = ph_Delete p, p_Update = None, p_Identity = Some (ph_Identity p), p_Close = None\<rparr>"

definition ph_Factory :: "(FactoryConfig \<Rightarrow> 'w ph_env) \<Rightarrow> 'w Factory" where
  "ph_Factory env_of cfg w =
     (case ph_LoadConfigFromMap (pen_malformed (env_of cfg)) (fc_Name cfg) (fc_ProviderConfig cfg) of
        Inl e \<Rightarrow> (Inl e, w)
      | Inr c \<Rightarrow>
          (case ph_New (env_of cfg) (fc_Name cfg) (Some c) w of
             (Inl e, w') \<Rightarrow> (Inl e, w') | (Inr p, w') \<Rightarrow> (Inr (ph_provider p), w')))"

interpretation ph: named_factories "[(''pihole'', ph_Factory env_of)]" for env_of
  by unfold_locales
    (auto simp: ph_Factory_def ph_New_def ph_provider_def split: sum.splits option.splits if_splits prod.splits)

subsection \<open>Ownership\<close>

text \<open>No client lists a text record.\<close>

lemma host_entry_type: "host_entry e = Some r \<Longrightarrow> ph_Type r \<noteq> RecordTypeTXT"
  by (induction e rule: host_entry.induct) (auto simp: pihole_record_def RecordType_defs split: option.splits if_splits)

lemma cname_entry_type: "cname_entry e = Some r \<Longrightarrow> ph_Type r \<noteq> RecordTypeTXT"
  by (induction e rule: cname_entry.induct) (auto simp: pihole_record_def RecordType_defs)

lemma map_filter_mem: "y \<in> set (List.map_filter f xs) \<longleftrightarrow> (\<exists>x \<in> set xs. f x = Some y)"
  by (induction xs) (auto simp: List.map_filter_simps split: option.splits)

lemma p5_List_types:
  assumes "p5_List c w = (Inr rs, w')" "r \<in> set rs"
  shows "ph_Type r \<noteq> RecordTypeTXT"
proof -
  obtain as cs w1 w2 where "listCustomDNS c w = (Inr as, w1)" "listCNAME c w1 = (Inr cs, w2)" "r \<in> set as \<or> r \<in> set cs"
    using assms by (auto simp: p5_List_def split: prod.splits sum.splits)
  then show ?thesis
    by (cases "p5_entries c ''customdns'' w"; cases "p5_entries c ''customcname'' w1"; cases "fst (p5_entries c ''customdns'' w)";
        cases "fst (p5_entries c ''customcname'' w1)")
      (auto simp: listCustomDNS_def listCNAME_def map_filter_mem dest: host_entry_type cname_entry_type)
qed

lemma p6_List_types:
  assumes "p6_List c w = (Inr rs, w')" "r \<in> set rs"
  shows "ph_Type r \<noteq> RecordTypeTXT"
proof -
  have "q \<in> set (parseHostEntry e) \<Longrightarrow> ph_Type q \<noteq> RecordTypeTXT" "parseCNAMEEntry e = Some q \<Longrightarrow> ph_Type q \<noteq> RecordTypeTXT" for q e
    by (auto simp: parseHostEntry_def parseCNAMEEntry_def pihole_record_def RecordType_defs split: list.splits if_splits)
  note entries = this
  show ?thesis using assms by (auto simp: p6_List_def map_filter_mem split: prod.splits sum.splits dest: entries)
qed

lemma ph_New_types:
  assumes "ph_New n name cfg w0 = (Inr p, w1)" "php_backend p = ApiBackend v c" "ph_List p w = (Inr rs, w')" "r \<in> set rs"
  shows "r_Type r \<noteq> RecordTypeTXT"
proof -
  have "(\<exists>k. c = p5_client k) \<or> (\<exists>k. c = p6_client k)"
    using assms(1,2)
    by (auto simp: ph_New_def ph_api_backend_def ph_file_backend_def split: option.splits prod.splits sum.splits if_splits APIVersion.splits)
  moreover obtain qs q w2 where "dk_List c w = (Inr qs, w2)" "q \<in> set qs" "r = ph_listed (php_ttl p) q"
    using assms(2-4) by (auto simp: ph_List_def listAPI_def split: prod.splits sum.splits)
  ultimately show ?thesis
    by (auto simp: p5_client_def p6_client_def ph_listed_def dest: p5_List_types p6_List_types)
qed

lemma listings_source:
  "map_of (listings insts w) n = Some l \<Longrightarrow> \<exists>i \<in> set insts. \<exists>w'. Name i = n \<and> l = fst (p_List (pi_Provider i) w')"
  by (induction insts arbitrary: w) (auto simp: prod_eq_iff split: prod.splits if_splits)

text \<open>C34: An instance of Pi-hole in API mode, of either version, claims to keep ownership records and reports each as created, but
neither sends nor ever lists one. So with ownership tracking in managed mode, no orphan of such an instance is ever deleted, whether
the cache of the cycle is consulted or the server.\<close>
theorem pihole_never_owned:
  assumes "ph_New n name cfg w0 = (Inr p, w1)" "php_backend p = ApiBackend v c" "pi_Provider inst = ph_provider p"
    and "distinct (map Name (All reg))" "inst \<in> set (All reg)"
    and "pi_Mode inst = [] \<or> pi_Mode inst = ModeManaged" "rc_OwnershipTracking (rn_config r)"
  shows "SupportsOwnershipTXT (p_Capabilities (pi_Provider inst)) \<and> CreateOwnershipRecord inst h m w = (None, w) \<and>
    deleteOrphanForProvider r h inst (Some (fst (newRecordCache reg w))) w2 =
      ([skip_orphan h inst ''no ownership record - may be manually created''], w2) \<and>
    (\<exists>reason. deleteOrphanForProvider r h inst None w2 = ([skip_orphan h inst reason], snd (ph_List p w2)))"
proof -
  have types: "r_Type q \<noteq> RecordTypeTXT" if "p_List (pi_Provider inst) u = (Inr rs, u')" "q \<in> set rs" for u rs u' q
    using ph_New_types [OF assms(1,2)] that by (auto simp: assms(3) ph_provider_def)
  have uncached: "\<not> hasOwnershipRecord (fst (newRecordCache reg w)) (Name inst) h iid" for iid
  proof (cases "map_of (listings (All reg) w) (Name inst)")
    case None
    then show ?thesis by (simp add: hasOwnershipRecord_def newRecordCache_lookup [OF assms(4)])
  next
    case (Some l)
    then obtain i u where "i \<in> set (All reg)" "Name i = Name inst" "l = fst (p_List (pi_Provider i) u)"
      using listings_source by metis
    then have "l = fst (p_List (pi_Provider inst) u)"
      using assms(4,5) by (metis distinct_map inj_onD)
    then show ?thesis
      using Some types [of u] cache_failed(2) [OF assms(4)]
      by (cases l; cases "p_List (pi_Provider inst) u") (auto simp: cache_hasOwnershipRecord [OF assms(4)])
  qed
  have managed: "deleteOrphanForProvider r h inst cache w2 = deleteManagedForProvider r h inst cache w2" for cache
    using assms(6,7)
    by (auto simp: deleteOrphanForProvider_def AllowsDelete_def RequiresOwnership_def Mode_defs assms(2,3) ph_provider_def
        ph_Capabilities_def)
  have "\<exists>reason. deleteManagedForProvider r h inst None w2 = ([skip_orphan h inst reason], snd (ph_List p w2))"
    using types [of w2]
    by (auto simp: deleteManagedForProvider_def HasOwnershipRecord_def list_ex_iff Let_def assms(3) ph_provider_def
        split: prod.splits sum.splits)
  then show ?thesis
    using uncached
    by (simp add: managed deleteManaged_unowned CreateOwnershipRecord_def OwnershipRecord_def assms(2,3) ph_provider_def
        ph_Capabilities_def ph_Create_def)
qed

subsection \<open>Sessions\<close>

text \<open>A transport whose requests are logged and that keeps the session out of reach of the server.\<close>

definition ph_transport :: "'w V6APIClient \<Rightarrow> ('w \<Rightarrow> http_request list) \<Rightarrow> bool" where
  "ph_transport c L \<longleftrightarrow> cell_ok (p6_cell c) \<and> (\<forall>m u. ht_NewRequest (p6_http c) m u = None) \<and>
     (\<forall>s w. L (cell_set (p6_cell c) s w) = L w) \<and>
     (\<forall>req w. L (snd (ht_Do (p6_http c) req w)) = L w @ [req] \<and>
        cell_get (p6_cell c) (snd (ht_Do (p6_http c) req w)) = cell_get (p6_cell c) w)"

lemma ph_transportD:
  assumes "ph_transport c L"
  shows "ht_NewRequest (p6_http c) m u = None" "L (cell_set (p6_cell c) s w) = L w"
    "cell_get (p6_cell c) (cell_set (p6_cell c) s w) = s"
    "ht_Do (p6_http c) req w = (x, w') \<Longrightarrow> L w' = L w @ [req] \<and> cell_get (p6_cell c) w' = cell_get (p6_cell c) w"
  using assms by (auto simp: ph_transport_def cell_ok_def prod_eq_iff)

lemma authenticate_dead:
  assumes "ph_transport c L" "\<not> session_live c w" "authenticate c w = (e, w')"
  shows "L w' = L w @ [auth_request c] \<and> (e \<noteq> None \<longrightarrow> cell_get (p6_cell c) w' = cell_get (p6_cell c) w)"
  using assms(2,3) ph_transportD [OF assms(1)]
  by (auto simp: authenticate_def split: prod.splits sum.splits if_splits)

lemma p6_send:
  assumes "ph_transport c L" "getSID c w = (Inr sid, w1)" "p6_doRequest c method path w = (res, w')"
  shows "L w' = L w1 @ [p6_request c method path sid] \<and>
    (cell_get (p6_cell c) w' = cell_get (p6_cell c) w1 \<and> res \<noteq> Inl (ErrorNew ''session expired, retry required'') \<or>
     cell_get (p6_cell c) w' = no_session) \<and> (\<forall>resp. res = Inr resp \<longrightarrow> status_2xx resp)"
  using assms(2,3) ph_transportD [OF assms(1)]
  by (auto simp: p6_doRequest_def split: prod.splits sum.splits if_splits)


subsection \<open>Examples\<close>

text \<open>A server of version 5 that answers every request with an empty body.\<close>

definition demo_ph_env :: "mocks ph_env" where
  "demo_ph_env =
     \<lparr>pen_malformed = (\<lambda>_. None),
      pen_http = \<lparr>ht_NewRequest = (\<lambda>_ _. None),
                  ht_Do = (\<lambda>_ w. (Inr \<lparr>hr_StatusCode = 200, hr_Body = [], hr_ReadError = None, hr_Json = Some (JObj [])\<rparr>, w))\<rparr>,
      pen_sha256 = id, pen_cell = \<lparr>cell_get = (\<lambda>_. no_session), cell_set = (\<lambda>_ w. w)\<rparr>, pen_now = (\<lambda>_. 0),
      pen_fs = \<lparr>fs_ReadFile = (\<lambda>_ _. Inl (NotExist [])), fs_WriteFile = (\<lambda>_ _ w. (None, w)), fs_Stat = (\<lambda>_ _. Inl (NotExist [])),
                fs_MkdirAll = (\<lambda>_ w. (None, w))\<rparr>,
      pen_runner = (\<lambda>_ w. (None, w)), pen_ssh = (\<lambda>_ w. (Inl (ErrorNew []), w))\<rparr>"

definition demo_ph_config :: ph_Config where
  "demo_ph_config =
     \<lparr>phc_Mode = ModeAPI, phc_URL = ''http://ph'', phc_Password = ''pw'', phc_APIVersion = ''v5'', phc_ConfigDir = [],
      phc_ConfigFile = [], phc_ReloadCommand = [], phc_Zone = [], phc_TTL = 300\<rparr>"

lemma demo_ph_New:
  "\<exists>p c. ph_New demo_ph_env ''m'' (Some demo_ph_config) w = (Inr p, w) \<and> php_backend p = ApiBackend APIVersionV5 c"
proof -
  have "ph_Validate (\<lambda>_. None) demo_ph_config = None" "ToLower ''v5'' = ''v5''" by code_simp+
  then show ?thesis
    by (simp add: ph_New_def demo_ph_env_def ph_api_backend_def resolveAPIVersion_def ph_mode_def) (simp add: demo_ph_config_def)
qed

theorem pihole_never_owned_witness:
  "\<exists>inst :: mocks ProviderInstance. p_Type (pi_Provider inst) = ''pihole'' \<and>
     SupportsOwnershipTXT (p_Capabilities (pi_Provider inst)) \<and>
     snd (deleteOrphanForProvider (ex_reconciler ModeManaged DefaultConfig []) ''a.ex.com'' inst
       (Some (fst (newRecordCache (NewRegistry\<lparr>reg_instances := [inst]\<rparr>) ex_world))) ex_world) = ex_world"
proof -
  obtain p c where p: "ph_New demo_ph_env ''m'' (Some demo_ph_config) ex_world = (Inr p, ex_world)"
      "php_backend p = ApiBackend APIVersionV5 c"
    using demo_ph_New by blast
  let ?inst = "(ex_inst ModeManaged)\<lparr>pi_Provider := ph_provider p, pi_Mode := ModeManaged\<rparr>"
  have "rc_OwnershipTracking (rn_config (ex_reconciler ModeManaged DefaultConfig []))"
    by (simp add: ex_reconciler_def New_def syncAtomics_def DefaultConfig_def)
  then have "SupportsOwnershipTXT (p_Capabilities (pi_Provider ?inst))"
    "snd (deleteOrphanForProvider (ex_reconciler ModeManaged DefaultConfig []) ''a.ex.com'' ?inst
       (Some (fst (newRecordCache (NewRegistry\<lparr>reg_instances := [?inst]\<rparr>) ex_world))) ex_world) = ex_world"
    using pihole_never_owned [OF p, of ?inst "NewRegistry\<lparr>reg_instances := [?inst]\<rparr>" "ex_reconciler ModeManaged DefaultConfig []"
        "''a.ex.com''" "[]" ex_world ex_world]
    by (simp_all add: All_def)
  then show ?thesis by (intro exI [of _ ?inst]) (simp add: ph_provider_def)
qed

text \<open>A server of version 6 that grants one session and accepts everything.\<close>

definition demo_p6 :: "(ph_session \<times> http_request list) V6APIClient" where
  "demo_p6 = NewV6APIClient
     \<lparr>ht_NewRequest = (\<lambda>_ _. None),
      ht_Do = (\<lambda>req w. (Inr \<lparr>hr_StatusCode = 200, hr_Body = [], hr_ReadError = None,
        hr_Json = Some (JObj [(''session'', JObj [(''valid'', JBool True), (''sid'', JStr ''s1''), (''validity'', JInt 300)])])\<rparr>,
        (fst w, snd w @ [req])))\<rparr>
     \<lparr>cell_get = fst, cell_set = (\<lambda>s w. (s, snd w))\<rparr> (\<lambda>_. 0) ''http://ph/'' ''pw'' []"


end
