(* ===== verification/Opnsense.thy ===== *)
theory Opnsense
  imports HttpApi
begin

text \<open>
  \<^verbatim>\<open>providers/opnsense\<close>: configuration, the ownership mark in the description of a host override, the client, the two engines behind
  one interface, and the provider. The order in which the messages of a rejected request are ranged over is an argument. Log lines
  and functional options are left out.
\<close>

subsection \<open>Configuration\<close>

definition EngineUnbound :: string where "EngineUnbound = ''unbound''"
definition EngineDnsmasq :: string where "EngineDnsmasq = ''dnsmasq''"
definition ReconfigureModePerWrite :: string where "ReconfigureModePerWrite = ''per_write''"
definition ReconfigureModeNever :: string where "ReconfigureModeNever = ''never''"
definition op_DefaultTTL :: int where "op_DefaultTTL = 300"

record op_Config =
  opc_URL :: string
  opc_APIKey :: string
  opc_APISecret :: string
  opc_Engine :: string
  opc_Zone :: string
  opc_TTL :: int
  opc_ReconfigureMode :: string

text \<open>The checks that the pfSense provider makes as well.\<close>

definition engine_errors :: "string \<Rightarrow> string list" where
  "engine_errors e =
     (if e = EngineUnbound \<or> e = EngineDnsmasq then []
      else if e = [] then [''ENGINE is required (unbound or dnsmasq)'']
      else [''ENGINE must be '' @ Quote EngineUnbound @ '' or '' @ Quote EngineDnsmasq @ '', got '' @ Quote e])"

definition reconfigure_errors :: "string \<Rightarrow> string list" where
  "reconfigure_errors m =
     (if m = ReconfigureModePerWrite \<or> m = ReconfigureModeNever then []
      else [''RECONFIGURE_MODE must be '' @ Quote ReconfigureModePerWrite @ '' or '' @ Quote ReconfigureModeNever @ '', got '' @ Quote m])"

definition op_Validate :: "(string \<Rightarrow> err option) \<Rightarrow> op_Config \<Rightarrow> err option" where
  "op_Validate malformed c =
     (let errs = http_url_errors malformed (opc_URL c) @
                 (if opc_APIKey c = [] then [''API_KEY is required''] else []) @
                 (if opc_APISecret c = [] then [''API_SECRET is required''] else []) @
                 engine_errors (opc_Engine c) @ reconfigure_errors (opc_ReconfigureMode c) @
                 (if opc_TTL c < 0 then [''TTL must be non-negative''] else [])
      in if errs \<noteq> [] then Some (ErrorNew (''opnsense config validation failed: '' @ Join errs ''; '')) else None)"

definition engineFromString :: "string \<Rightarrow> string" where
  "engineFromString s =
     (let t = ToLower (TrimSpace s) in
      if t = [] then EngineUnbound else if t = EngineUnbound then EngineUnbound
      else if t = EngineDnsmasq then EngineDnsmasq else s)"

definition reconfigureModeFromString :: "string \<Rightarrow> string" where
  "reconfigureModeFromString s =
     (let t = ToLower (TrimSpace s) in
      if t = [] then ReconfigureModePerWrite else if t = ReconfigureModePerWrite then ReconfigureModePerWrite
      else if t = ReconfigureModeNever then ReconfigureModeNever else s)"

text \<open>Both loaders share everything but where the values and the secrets come from.\<close>

definition op_config_of ::
  "(string \<Rightarrow> err option) \<Rightarrow> string \<Rightarrow> (string \<Rightarrow> string) \<Rightarrow> (string \<Rightarrow> string) \<Rightarrow> err + op_Config" where
  "op_config_of malformed name get secret =
     (let finish = (\<lambda>ttl.
            let c = \<lparr>opc_URL = get ''URL'', opc_APIKey = secret ''API_KEY'', opc_APISecret = secret ''API_SECRET'',
                     opc_Engine = engineFromString (get ''ENGINE''), opc_Zone = get ''ZONE'', opc_TTL = ttl,
                     opc_ReconfigureMode = reconfigureModeFromString (get ''RECONFIGURE_MODE'')\<rparr>
            in case op_Validate malformed c of
                 Some e \<Rightarrow> Inl (Errorf (''configuration for '' @ name @ '': '') e) | None \<Rightarrow> Inr c)
      in if get ''TTL'' \<noteq> [] then
           (case Atoi (get ''TTL'') of
              Inl e \<Rightarrow> Inl (Errorf (''invalid TTL value '' @ Quote (get ''TTL'') @ '': '') e)
            | Inr ttl \<Rightarrow> finish ttl)
         else finish op_DefaultTTL)"

definition op_getMapValue :: "(string, string) gomap \<Rightarrow> string \<Rightarrow> string" where
  "op_getMapValue m key =
     (if has_key m key then map_get [] m key
      else if has_key m (ToUpper key) then map_get [] m (ToUpper key)
      else if has_key m (ToLower key) then map_get [] m (ToLower key) else [])"

definition op_LoadConfigFromMap :: "(string \<Rightarrow> err option) \<Rightarrow> string \<Rightarrow> (string, string) gomap \<Rightarrow> err + op_Config" where
  "op_LoadConfigFromMap malformed name m = op_config_of malformed name (op_getMapValue m) (op_getMapValue m)"

definition op_envPrefix :: "string \<Rightarrow> string" where
  "op_envPrefix name = ''DNSWEAVER_'' @ ToUpper (ReplaceAll1 (CHR ''-'') (CHR ''_'') name) @ ''_''"

definition op_getEnvOrFile :: "environment \<Rightarrow> string \<Rightarrow> string \<Rightarrow> string" where
  "op_getEnvOrFile E envKey fileKey =
     (if getEnv E envKey \<noteq> [] then getEnv E envKey
      else if getEnv E fileKey \<noteq> [] then
        (case ev_ReadFile E (getEnv E fileKey) of Inl _ \<Rightarrow> [] | Inr content \<Rightarrow> TrimSpace content)
      else [])"

definition op_LoadConfig :: "(string \<Rightarrow> err option) \<Rightarrow> environment \<Rightarrow> string \<Rightarrow> err + op_Config" where
  "op_LoadConfig malformed E name =
     (let pre = op_envPrefix name in
      op_config_of malformed name (\<lambda>k. getEnv E (pre @ k)) (\<lambda>k. op_getEnvOrFile E (pre @ k) (pre @ k @ ''_FILE'')))"

subsection \<open>Ownership\<close>

definition ownershipPrefix :: string where "ownershipPrefix = ''dnsweaver:''"

definition ownershipDescription :: "string \<Rightarrow> string" where
  "ownershipDescription instanceName = ownershipPrefix @ instanceName"

definition isOwnedBy :: "string \<Rightarrow> bool" where
  "isOwnedBy description \<longleftrightarrow> HasPrefix (TrimSpace description) ownershipPrefix"

definition ownedByInstance :: "string \<Rightarrow> string \<Rightarrow> bool" where
  "ownedByInstance description instanceName =
     (let trimmed = TrimSpace description; rest = drop (length ownershipPrefix) trimmed in
      if \<not> HasPrefix trimmed ownershipPrefix then False
      else rest = instanceName \<or> list_ex (\<lambda>sep. HasPrefix rest (instanceName @ sep)) ['' '', ''|'', [CHR 0x09], [newline]])"

subsection \<open>The client\<close>

record 'w op_Client =
  opk_baseURL :: string
  opk_apiKey :: string
  opk_apiSecret :: string
  opk_http :: "'w http"

definition op_NewClient :: "'w http \<Rightarrow> string \<Rightarrow> string \<Rightarrow> string \<Rightarrow> 'w op_Client" where
  "op_NewClient h baseURL apiKey apiSecret =
     \<lparr>opk_baseURL = TrimRight1 baseURL (CHR ''/''), opk_apiKey = apiKey, opk_apiSecret = apiSecret, opk_http = h\<rparr>"

definition op_request :: "'w op_Client \<Rightarrow> string \<Rightarrow> http_body \<Rightarrow> http_request" where
  "op_request c path body =
     \<lparr>hq_Method = MethodPost, hq_URL = opk_baseURL c @ path,
      hq_Header = [(''Authorization'', ''Basic '' @ base64 (opk_apiKey c @ '':'' @ opk_apiSecret c)),
                   (''Accept'', ''application/json'')] @
        (if body \<noteq> NoBody then [(''Content-Type'', ''application/json'')] else []),
      hq_Body = body\<rparr>"

definition op_do :: "'w op_Client \<Rightarrow> string \<Rightarrow> http_body \<Rightarrow> 'w \<Rightarrow> (err + api_response \<times> string) \<times> 'w" where
  "op_do c path body w =
     (case ht_NewRequest (opk_http c) MethodPost (opk_baseURL c @ path) of
        Some e \<Rightarrow> (Inl (Errorf ''build request: '' e), w)
      | None \<Rightarrow>
          (case ht_Do (opk_http c) (op_request c path body) w of
             (Inl e, w') \<Rightarrow> (Inl (Errorf ''executing request: '' e), w')
           | (Inr resp, w') \<Rightarrow>
               (case ReadBody resp 0 of
                  Inl e \<Rightarrow> (Inl (Errorf ''reading response body: '' e), w')
                | Inr respBody \<Rightarrow> (Inr (resp, respBody), w'))))"

definition op_truncate :: "string \<Rightarrow> string" where
  "op_truncate s = (if length s \<le> 200 then s else take 200 s @ ''...'')"

text \<open>Statuses below 400 pass, also redirects.\<close>

definition mapStatusError :: "nat \<Rightarrow> string \<Rightarrow> err option" where
  "mapStatusError status body =
     (if status = 401 \<or> status = 403 then Some ErrUnauthorized
      else if status = 404 then Some ErrNotFound
      else if status \<ge> 500
      then Some (ErrorfAfter ErrProviderUnavailable (''opnsense returned '' @ Itoa status @ '': '' @ op_truncate body))
      else if status \<ge> 400 then Some (ErrorNew (''opnsense returned '' @ Itoa status @ '': '' @ op_truncate body))
      else None)"

record resultEnvelope =
  rv_Result :: string
  rv_UUID :: string
  rv_Validations :: "(string, string) gomap"

definition dec_resultEnvelope :: "resultEnvelope decoder" where
  "dec_resultEnvelope = dec_struct
     [(''result'', on_field rv_Result (\<lambda>v r. r\<lparr>rv_Result := v\<rparr>) dec_string),
      (''uuid'', on_field rv_UUID (\<lambda>v r. r\<lparr>rv_UUID := v\<rparr>) dec_string),
      (''validations'', on_field rv_Validations (\<lambda>v r. r\<lparr>rv_Validations := v\<rparr>) dec_string_map)]"

definition formatValidations :: "((string, string) gomap \<Rightarrow> (string, string) gomap) \<Rightarrow> (string, string) gomap \<Rightarrow> string" where
  "formatValidations order v = Join (map (\<lambda>(k, msg). k @ '': '' @ msg) (order v)) ''; ''"

definition parseMutationResponse ::
  "((string, string) gomap \<Rightarrow> (string, string) gomap) \<Rightarrow> api_response \<Rightarrow> string \<Rightarrow> err option" where
  "parseMutationResponse order resp body =
     (case Unmarshal dec_resultEnvelope \<lparr>rv_Result = [], rv_UUID = [], rv_Validations = []\<rparr> resp of
        Inl e \<Rightarrow> Some (ErrorNew (''decoding opnsense response: '' @ Error e @ '' (body: '' @ op_truncate body @ '')''))
      | Inr env \<Rightarrow>
          let result = ToLower (rv_Result env) in
          if result = ''saved'' \<or> result = ''deleted'' \<or> result = ''ok'' then None
          else if result = ''failed'' \<or> result = [] then
            (if rv_Validations env \<noteq> []
             then Some (ErrorNew (''opnsense rejected request: '' @ formatValidations order (rv_Validations env)))
             else Some (ErrorNew (''opnsense request failed: '' @ op_truncate body)))
          else Some (ErrorNew (''opnsense returned unexpected result '' @ Quote (rv_Result env))))"

definition newSearchRequest :: json where
  "newSearchRequest = JObj [(''current'', JInt 1), (''rowCount'', JInt (- 1)), (''searchPhrase'', JStr [])]"

subsection \<open>Engines\<close>

record hostRecord =
  hc_UUID :: string
  hc_Hostname :: string
  hc_Domain :: string
  hc_Type :: string
  hc_Target :: string
  hc_Description :: string
  hc_Enabled :: bool

record dns_engine =
  en_Name :: string
  en_SearchPath :: string
  en_AddPath :: string
  en_DelPath :: "string \<Rightarrow> string"
  en_ReconfigurePath :: string
  en_EncodeAddPayload :: "hostRecord \<Rightarrow> err + json"
  en_DecodeSearchResponse :: "api_response \<Rightarrow> err + hostRecord list"

definition enabled_text :: "hostRecord \<Rightarrow> string" where
  "enabled_text r = (if hc_Enabled r then ''1'' else ''0'')"

text \<open>The rows of both engines, with the names of the fields that differ.\<close>

record search_row =
  sw_UUID :: string
  sw_Enabled :: string
  sw_Host :: string
  sw_Domain :: string
  sw_RR :: string
  sw_Address :: string
  sw_Description :: string

definition no_row :: search_row where
  "no_row = \<lparr>sw_UUID = [], sw_Enabled = [], sw_Host = [], sw_Domain = [], sw_RR = [], sw_Address = [], sw_Description = []\<rparr>"

definition dec_rows :: "search_row decoder \<Rightarrow> search_row list decoder" where
  "dec_rows d = dec_struct [(''rows'', on_field id (\<lambda>v _. v) (dec_list no_row d))]"

definition dec_unboundSearchRow :: "search_row decoder" where
  "dec_unboundSearchRow = dec_struct
     [(''uuid'', on_field sw_UUID (\<lambda>v r. r\<lparr>sw_UUID := v\<rparr>) dec_string),
      (''enabled'', on_field sw_Enabled (\<lambda>v r. r\<lparr>sw_Enabled := v\<rparr>) dec_string),
      (''hostname'', on_field sw_Host (\<lambda>v r. r\<lparr>sw_Host := v\<rparr>) dec_string),
      (''domain'', on_field sw_Domain (\<lambda>v r. r\<lparr>sw_Domain := v\<rparr>) dec_string),
      (''rr'', on_field sw_RR (\<lambda>v r. r\<lparr>sw_RR := v\<rparr>) dec_string),
      (''server'', on_field sw_Address (\<lambda>v r. r\<lparr>sw_Address := v\<rparr>) dec_string),
      (''description'', on_field sw_Description (\<lambda>v r. r\<lparr>sw_Description := v\<rparr>) dec_string)]"

definition dec_dnsmasqSearchRow :: "search_row decoder" where
  "dec_dnsmasqSearchRow = dec_struct
     [(''uuid'', on_field sw_UUID (\<lambda>v r. r\<lparr>sw_UUID := v\<rparr>) dec_string),
      (''enabled'', on_field sw_Enabled (\<lambda>v r. r\<lparr>sw_Enabled := v\<rparr>) dec_string),
      (''host'', on_field sw_Host (\<lambda>v r. r\<lparr>sw_Host := v\<rparr>) dec_string),
      (''domain'', on_field sw_Domain (\<lambda>v r. r\<lparr>sw_Domain := v\<rparr>) dec_string),
      (''ip'', on_field sw_Address (\<lambda>v r. r\<lparr>sw_Address := v\<rparr>) dec_string),
      (''descr'', on_field sw_Description (\<lambda>v r. r\<lparr>sw_Description := v\<rparr>) dec_string)]"

definition host_of_row :: "string \<Rightarrow> search_row \<Rightarrow> hostRecord" where
  "host_of_row rrType row =
     \<lparr>hc_UUID = sw_UUID row, hc_Hostname = sw_Host row, hc_Domain = sw_Domain row, hc_Type = rrType, hc_Target = sw_Address row,
      hc_Description = sw_Description row, hc_Enabled = (sw_Enabled row = ''1'')\<rparr>"

text \<open>The first word of the type, in capitals.\<close>

definition unbound_type :: "search_row \<Rightarrow> string" where
  "unbound_type row = ToUpper (takeWhile (\<lambda>c. c \<noteq> CHR '' '') (TrimSpace (sw_RR row)))"

definition dnsmasq_type :: "search_row \<Rightarrow> string" where
  "dnsmasq_type row =
     (case ParseIP (TrimSpace (sw_Address row)) of
        None \<Rightarrow> ''A'' | Some ip \<Rightarrow> if To4 ip = None then ''AAAA'' else ''A'')"

definition unbound_payload :: "hostRecord \<Rightarrow> err + json" where
  "unbound_payload r = Inr (JObj [(''host'', JObj
     [(''enabled'', JStr (enabled_text r)), (''hostname'', JStr (hc_Hostname r)), (''domain'', JStr (hc_Domain r)),
      (''rr'', JStr (hc_Type r)), (''server'', JStr (hc_Target r)), (''description'', JStr (hc_Description r))])])"

definition unbound_decode :: "api_response \<Rightarrow> err + hostRecord list" where
  "unbound_decode resp =
     (case Unmarshal (dec_rows dec_unboundSearchRow) [] resp of
        Inl e \<Rightarrow> Inl (Errorf ''decoding unbound search response: '' e)
      | Inr rows \<Rightarrow> Inr (map (\<lambda>row. host_of_row (unbound_type row) row) rows))"

definition unboundEngine :: dns_engine where
  "unboundEngine =
     \<lparr>en_Name = EngineUnbound, en_SearchPath = ''/api/unbound/settings/searchHostOverride'',
      en_AddPath = ''/api/unbound/settings/addHostOverride'', en_DelPath = (\<lambda>uuid. ''/api/unbound/settings/delHostOverride/'' @ uuid),
      en_ReconfigurePath = ''/api/unbound/service/reconfigure'',
      en_EncodeAddPayload = unbound_payload, en_DecodeSearchResponse = unbound_decode\<rparr>"

definition dnsmasq_payload :: "hostRecord \<Rightarrow> err + json" where
  "dnsmasq_payload r =
     (if ParseIP (hc_Target r) = None
      then Inl (ErrorNew (''dnsmasq engine requires an IP target, got '' @ Quote (hc_Target r)))
      else Inr (JObj [(''host'', JObj
        [(''enabled'', JStr (enabled_text r)), (''host'', JStr (hc_Hostname r)), (''domain'', JStr (hc_Domain r)),
         (''ip'', JStr (hc_Target r)), (''descr'', JStr (hc_Description r))])]))"

definition dnsmasq_decode :: "api_response \<Rightarrow> err + hostRecord list" where
  "dnsmasq_decode resp =
     (case Unmarshal (dec_rows dec_dnsmasqSearchRow) [] resp of
        Inl e \<Rightarrow> Inl (Errorf ''decoding dnsmasq search response: '' e)
      | Inr rows \<Rightarrow> Inr (map (\<lambda>row. host_of_row (dnsmasq_type row) row) rows))"

definition dnsmasqEngine :: dns_engine where
  "dnsmasqEngine =
     \<lparr>en_Name = EngineDnsmasq, en_SearchPath = ''/api/dnsmasq/settings/searchHost'',
      en_AddPath = ''/api/dnsmasq/settings/addHost'', en_DelPath = (\<lambda>uuid. ''/api/dnsmasq/settings/delHost/'' @ uuid),
      en_ReconfigurePath = ''/api/dnsmasq/service/reconfigure'',
      en_EncodeAddPayload = dnsmasq_payload, en_DecodeSearchResponse = dnsmasq_decode\<rparr>"

definition newEngine :: "string \<Rightarrow> dns_engine" where
  "newEngine e = (if e = EngineDnsmasq then dnsmasqEngine else unboundEngine)"

subsection \<open>Names\<close>

definition joinFQDN :: "string \<Rightarrow> string \<Rightarrow> string" where
  "joinFQDN hostname0 domain0 =
     (let hostname = TrimSuffix (ToLower (TrimSpace hostname0)) ''.''; domain = TrimSuffix (ToLower (TrimSpace domain0)) ''.'' in
      if hostname = [] \<and> domain = [] then [] else if hostname = [] then domain else if domain = [] then hostname
      else hostname @ ''.'' @ domain)"

definition splitFQDN :: "string \<Rightarrow> (string \<times> string) option" where
  "splitFQDN fqdn0 =
     (let fqdn = TrimSuffix (ToLower (TrimSpace fqdn0)) ''.'';
          hostname = takeWhile (\<lambda>c. c \<noteq> CHR ''.'') fqdn; rest = drop (length hostname + 1) fqdn
      in if hostname = [] \<or> rest = [] then None else Some (hostname, rest))"

definition inZone :: "string \<Rightarrow> string \<Rightarrow> bool" where
  "inZone fqdn0 zone0 =
     (let fqdn = TrimSuffix (ToLower fqdn0) ''.''; zone = TrimSuffix (ToLower zone0) ''.'' in
      fqdn = zone \<or> HasSuffix fqdn (''.'' @ zone))"

definition recordTypeFromString :: "string \<Rightarrow> RecordType option" where
  "recordTypeFromString s =
     (let t = ToUpper (TrimSpace s) in
      if t = ''A'' then Some RecordTypeA else if t = ''AAAA'' then Some RecordTypeAAAA else None)"

subsection \<open>The provider\<close>

record 'w op_Provider =
  opp_name :: string
  opp_url :: string
  opp_zone :: string
  opp_ttl :: int
  opp_engine :: dns_engine
  opp_mode :: string
  opp_client :: "'w op_Client"
  opp_order :: "(string, string) gomap \<Rightarrow> (string, string) gomap"

definition op_New ::
  "(string \<Rightarrow> err option) \<Rightarrow> ((string, string) gomap \<Rightarrow> (string, string) gomap) \<Rightarrow> 'w http \<Rightarrow> string \<Rightarrow> op_Config option \<Rightarrow>
   err + 'w op_Provider" where
  "op_New malformed order h name config =
     (case config of
        None \<Rightarrow> Inl (ErrorNew ''config is required'')
      | Some c \<Rightarrow>
          (case op_Validate malformed c of
             Some e \<Rightarrow> Inl e
           | None \<Rightarrow> Inr \<lparr>opp_name = name, opp_url = opc_URL c, opp_zone = opc_Zone c, opp_ttl = opc_TTL c,
                          opp_engine = newEngine (opc_Engine c), opp_mode = opc_ReconfigureMode c,
                          opp_client = op_NewClient h (opc_URL c) (opc_APIKey c) (opc_APISecret c), opp_order = order\<rparr>))"

definition op_Identity :: "'w op_Provider \<Rightarrow> ProviderIdentity" where
  "op_Identity p = \<lparr>id_Type = ''opnsense/'' @ en_Name (opp_engine p), id_Endpoint = opp_url p, id_Zone = opp_zone p\<rparr>"

definition op_Capabilities :: Capabilities where
  "op_Capabilities = \<lparr>SupportsOwnershipTXT = False, SupportsNativeUpdate = False,
     SupportedRecordTypes = [RecordTypeA, RecordTypeAAAA]\<rparr>"

definition op_search :: "'w op_Provider \<Rightarrow> 'w \<Rightarrow> (err + api_response \<times> string) \<times> 'w" where
  "op_search p = op_do (opp_client p) (en_SearchPath (opp_engine p)) (JsonBody newSearchRequest)"

definition op_Ping :: "'w op_Provider \<Rightarrow> 'w \<Rightarrow> err option \<times> 'w" where
  "op_Ping p w =
     (case op_search p w of
        (Inl e, w') \<Rightarrow> (Some (ErrorfTwo ErrProviderUnavailable e), w')
      | (Inr (resp, body), w') \<Rightarrow>
          (case mapStatusError (hr_StatusCode resp) body of
             Some e \<Rightarrow> (Some e, w')
           | None \<Rightarrow>
               (case en_DecodeSearchResponse (opp_engine p) resp of
                  Inl e \<Rightarrow>
                    let n = en_Name (opp_engine p) in
                    (Some (Errorf (''opnsense reachable but '' @ n @ '' search response is unparseable (is the '' @ n @
                       '' module enabled?): '') e), w')
                | Inr _ \<Rightarrow> (None, w'))))"

text \<open>The rows that a search finds; the text wraps an error of the exchange.\<close>

definition op_rows :: "'w op_Provider \<Rightarrow> string \<Rightarrow> 'w \<Rightarrow> (err + hostRecord list) \<times> 'w" where
  "op_rows p what w =
     (case op_search p w of
        (Inl e, w') \<Rightarrow> (Inl (Errorf (what @ '': '') e), w')
      | (Inr (resp, body), w') \<Rightarrow>
          (case mapStatusError (hr_StatusCode resp) body of
             Some e \<Rightarrow> (Inl e, w') | None \<Rightarrow> (en_DecodeSearchResponse (opp_engine p) resp, w')))"

definition op_listed :: "'w op_Provider \<Rightarrow> hostRecord \<Rightarrow> Record option" where
  "op_listed p r =
     (let fqdn = joinFQDN (hc_Hostname r) (hc_Domain r) in
      if \<not> isOwnedBy (hc_Description r) then None
      else if opp_zone p \<noteq> [] \<and> \<not> inZone fqdn (opp_zone p) then None
      else case recordTypeFromString (hc_Type r) of
        None \<Rightarrow> None
      | Some rt \<Rightarrow> Some ((record_literal fqdn rt (hc_Target r))\<lparr>r_TTL := opp_ttl p, r_ProviderID := hc_UUID r\<rparr>))"

definition op_List :: "'w op_Provider \<Rightarrow> 'w \<Rightarrow> (err + Record list) \<times> 'w" where
  "op_List p w =
     (case op_rows p ''listing records'' w of
        (Inl e, w') \<Rightarrow> (Inl e, w') | (Inr rows, w') \<Rightarrow> (Inr (List.map_filter (op_listed p) rows), w'))"

definition maybeReconfigure :: "'w op_Provider \<Rightarrow> 'w \<Rightarrow> err option \<times> 'w" where
  "maybeReconfigure p w =
     (if opp_mode p \<noteq> ReconfigureModePerWrite then (None, w)
      else case op_do (opp_client p) (en_ReconfigurePath (opp_engine p)) NoBody w of
        (Inl e, w') \<Rightarrow> (Some (Errorf ''reconfigure: '' e), w')
      | (Inr (resp, body), w') \<Rightarrow> (map_option (Errorf ''reconfigure: '') (mapStatusError (hr_StatusCode resp) body), w'))"

text \<open>A mutation and the reload that follows it.\<close>

definition op_mutate :: "'w op_Provider \<Rightarrow> string \<Rightarrow> http_body \<Rightarrow> string \<Rightarrow> string \<Rightarrow> 'w \<Rightarrow> err option \<times> 'w" where
  "op_mutate p path body what done w =
     (case op_do (opp_client p) path body w of
        (Inl e, w') \<Rightarrow> (Some (Errorf (what @ '': '') e), w')
      | (Inr (resp, respBody), w') \<Rightarrow>
          (case mapStatusError (hr_StatusCode resp) respBody of
             Some e \<Rightarrow> (Some e, w')
           | None \<Rightarrow>
               (case parseMutationResponse (opp_order p) resp respBody of
                  Some e \<Rightarrow> (Some (Errorf (what @ '': '') e), w')
                | None \<Rightarrow>
                    (case maybeReconfigure p w' of
                       (Some e, w2) \<Rightarrow> (Some (Errorf (done @ '' but reconfigure failed: '') e), w2)
                     | (None, w2) \<Rightarrow> (None, w2)))))"

definition op_Create :: "'w op_Provider \<Rightarrow> Record \<Rightarrow> 'w \<Rightarrow> err option \<times> 'w" where
  "op_Create p r w =
     (if r_Type r = RecordTypeTXT then (None, w)
      else if r_Type r \<noteq> RecordTypeA \<and> r_Type r \<noteq> RecordTypeAAAA
      then (Some (ErrorNew (r_Type r @ '' records are not supported by the opnsense provider (v1: A/AAAA only)'')), w)
      else if ParseIP (r_Target r) = None
      then (Some (ErrorNew (''opnsense provider requires an IP target for '' @ r_Type r @ '', got '' @ Quote (r_Target r))), w)
      else case splitFQDN (r_Hostname r) of
        None \<Rightarrow> (Some (ErrorNew (''hostname '' @ Quote (r_Hostname r) @ '' must be a fully qualified name with at least one dot'')), w)
      | Some (hostname, domain) \<Rightarrow>
          (case en_EncodeAddPayload (opp_engine p)
                  \<lparr>hc_UUID = [], hc_Hostname = hostname, hc_Domain = domain, hc_Type = r_Type r, hc_Target = r_Target r,
                   hc_Description = ownershipDescription (opp_name p), hc_Enabled = True\<rparr> of
             Inl e \<Rightarrow> (Some (Errorf ''encoding add payload: '' e), w)
           | Inr payload \<Rightarrow>
               op_mutate p (en_AddPath (opp_engine p)) (JsonBody payload) (''creating record '' @ r_Hostname r)
                 (''record '' @ r_Hostname r @ '' created'') w))"

definition op_matches :: "'w op_Provider \<Rightarrow> Record \<Rightarrow> hostRecord \<Rightarrow> bool" where
  "op_matches p r row \<longleftrightarrow>
     ownedByInstance (hc_Description row) (opp_name p) \<and>
     EqualFold (joinFQDN (hc_Hostname row) (hc_Domain row)) (TrimSuffix (ToLower (r_Hostname r)) ''.'') \<and>
     EqualFold (hc_Type row) (r_Type r) \<and> (r_Target r = [] \<or> EqualFold (hc_Target row) (r_Target r))"

definition findUUID :: "'w op_Provider \<Rightarrow> Record \<Rightarrow> 'w \<Rightarrow> (err + string) \<times> 'w" where
  "findUUID p r w =
     (case op_rows p (''searching for '' @ r_Hostname r) w of
        (Inl e, w') \<Rightarrow> (Inl e, w')
      | (Inr rows, w') \<Rightarrow> (Inr (case find (op_matches p r) rows of None \<Rightarrow> [] | Some row \<Rightarrow> hc_UUID row), w'))"

definition op_Delete :: "'w op_Provider \<Rightarrow> Record \<Rightarrow> 'w \<Rightarrow> err option \<times> 'w" where
  "op_Delete p r w =
     (if r_Type r = RecordTypeTXT then (None, w)
      else if r_Type r \<noteq> RecordTypeA \<and> r_Type r \<noteq> RecordTypeAAAA
      then (Some (ErrorNew (r_Type r @ '' records are not supported by the opnsense provider'')), w)
      else case (if r_ProviderID r \<noteq> [] then (Inr (r_ProviderID r), w) else findUUID p r w) of
        (Inl e, w') \<Rightarrow> (Some e, w')
      | (Inr uuid, w') \<Rightarrow>
          if uuid = [] then (Some ErrNotFound, w')
          else op_mutate p (en_DelPath (opp_engine p) uuid) NoBody (''deleting record '' @ r_Hostname r)
                 (''record '' @ r_Hostname r @ '' deleted'') w')"

definition op_provider :: "'w op_Provider \<Rightarrow> 'w Provider" where
  "op_provider p =
     \<lparr>p_Name = opp_name p, p_Type = ''opnsense'', p_Ping = op_Ping p, p_Capabilities = op_Capabilities, p_List = op_List p,
      p_Create = op_Create p, p_Delete = op_Delete p, p_Update = None, p_Identity = Some (op_Identity p), p_Close = None\<rparr>"

definition op_Factory ::
  "(string \<Rightarrow> err option) \<Rightarrow> ((string, string) gomap \<Rightarrow> (string, string) gomap) \<Rightarrow> (HTTPConfig \<Rightarrow> 'w http) \<Rightarrow> 'w Factory" where
  "op_Factory malformed order new_http cfg w =
     (case op_LoadConfigFromMap malformed (fc_Name cfg) (fc_ProviderConfig cfg) of
        Inl e \<Rightarrow> (Inl e, w)
      | Inr c \<Rightarrow> (map_sum id op_provider (op_New malformed order (new_http (fc_HTTP cfg)) (fc_Name cfg) (Some c)), w))"

interpretation op: named_factories "[(''opnsense'', op_Factory malformed order new_http)]" for malformed order new_http
  by unfold_locales (auto simp: op_Factory_def op_New_def op_provider_def split: sum.splits option.splits if_splits)

subsection \<open>Deletions\<close>

definition search_request :: "'w op_Provider \<Rightarrow> http_request" where
  "search_request p = op_request (opp_client p) (en_SearchPath (opp_engine p)) (JsonBody newSearchRequest)"

definition delete_request :: "'w op_Provider \<Rightarrow> string \<Rightarrow> http_request" where
  "delete_request p uuid = op_request (opp_client p) (en_DelPath (opp_engine p) uuid) NoBody"

definition reload_request :: "'w op_Provider \<Rightarrow> http_request" where
  "reload_request p = op_request (opp_client p) (en_ReconfigurePath (opp_engine p)) NoBody"

lemma op_do_logged:
  assumes "opk_http c = logged srv" "op_do c path body log = (r, log')"
  shows "log' = log @ [op_request c path body] \<and>
    (\<forall>resp b. r = Inr (resp, b) \<longrightarrow> srv (op_request c path body) log = Inr resp)"
  using assms by (auto simp: op_do_def split: sum.splits)

lemma findUUID_logged:
  assumes "opk_http (opp_client p) = logged srv" "findUUID p r log = (q, log')"
  shows "log' = log @ [search_request p] \<and>
    (\<forall>uuid. q = Inr uuid \<longrightarrow> uuid \<noteq> [] \<longrightarrow>
      (\<exists>resp rows row. srv (search_request p) log = Inr resp \<and> en_DecodeSearchResponse (opp_engine p) resp = Inr rows \<and>
         row \<in> set rows \<and> op_matches p r row \<and> uuid = hc_UUID row))"
  using assms(2)
  by (auto simp: findUUID_def op_rows_def op_search_def search_request_def find_Some_iff
      dest!: op_do_logged [OF assms(1)] split: prod.splits sum.splits option.splits) (metis nth_mem)+

lemma op_mutate_logged:
  assumes "opk_http (opp_client p) = logged srv" "op_mutate p path body what done log = (e, log')"
  shows "log' = log @ [op_request (opp_client p) path body] \<or>
    log' = log @ [op_request (opp_client p) path body, reload_request p]"
  using assms(2)
  by (auto simp: op_mutate_def maybeReconfigure_def reload_request_def
      dest!: op_do_logged [OF assms(1)] split: prod.splits sum.splits option.splits if_splits)

text \<open>C36: Whatever the firewall answers, a deletion that the reconciler asks for by hostname, type and target sends at most one
request that deletes, and only for a row of the search before it that carries this instance's mark and has that hostname, type and
target. Host overrides made by hand and those of other instances are never deleted that way.\<close>
theorem opnsense_deletes_own:
  assumes "opk_http (opp_client p) = logged srv" "pi_Provider inst = op_provider p"
    and "DeleteRecordByTarget inst hostname t target log = (e, log')"
  shows "\<exists>rest. log' = log @ rest \<and>
    (rest = [] \<or> rest = [search_request p] \<or>
     (\<exists>resp rows row. srv (search_request p) log = Inr resp \<and> en_DecodeSearchResponse (opp_engine p) resp = Inr rows \<and>
        row \<in> set rows \<and> op_matches p (record_literal hostname t target) row \<and>
        (rest = [search_request p, delete_request p (hc_UUID row)] \<or>
         rest = [search_request p, delete_request p (hc_UUID row), reload_request p])))"
proof -
  let ?r = "record_literal hostname t target"
  have del: "op_Delete p ?r log = (e, log')" and none: "r_ProviderID ?r = []"
    using assms(2,3) by (simp_all add: DeleteRecordByTarget_def op_provider_def record_literal_def)
  obtain q w1 where q: "findUUID p ?r log = (q, w1)" by (rule prod.exhaust)
  note found = findUUID_logged [OF assms(1) q]
  consider "log' = log" | "log' = w1"
    | uuid where "q = Inr uuid" "uuid \<noteq> []"
        "op_mutate p (en_DelPath (opp_engine p) uuid) NoBody (''deleting record '' @ r_Hostname ?r) (''record '' @ r_Hostname ?r @ '' deleted'') w1 = (e, log')"
    using del q none by (auto simp: op_Delete_def split: sum.splits if_splits)
  then show ?thesis
  proof cases
    case 3
    then obtain resp rows row where "srv (search_request p) log = Inr resp" "en_DecodeSearchResponse (opp_engine p) resp = Inr rows"
        "row \<in> set rows" "op_matches p ?r row" "uuid = hc_UUID row"
      using found by blast
    moreover have "log' = log @ [search_request p, delete_request p uuid] \<or>
        log' = log @ [search_request p, delete_request p uuid, reload_request p]"
      using op_mutate_logged [OF assms(1) 3(3)] found by (auto simp: delete_request_def)
    ultimately show ?thesis by blast
  qed (use found in auto)
qed

text \<open>A firewall with an override of this instance and one of another for the same name and address.\<close>

definition demo_row :: "string \<Rightarrow> string \<Rightarrow> json" where
  "demo_row uuid descr = JObj
     [(''uuid'', JStr uuid), (''enabled'', JStr ''1''), (''hostname'', JStr ''web''), (''domain'', JStr ''ex.com''),
      (''rr'', JStr ''A (IPv4 Address)''), (''server'', JStr ''10.0.0.1''), (''description'', JStr descr)]"

definition demo_rows :: json where
  "demo_rows = JObj [(''rows'', JArr [demo_row ''u1'' ''dnsweaver:other'', demo_row ''u2'' ''dnsweaver:fw | web''])]"

definition demo_firewall :: "http_request \<Rightarrow> http_request list \<Rightarrow> err + api_response" where
  "demo_firewall req log = Inr \<lparr>hr_StatusCode = 200, hr_Body = [], hr_ReadError = None,
     hr_Json = Some (if log = [] then demo_rows else JObj [(''result'', JStr ''deleted'')])\<rparr>"

definition demo_opnsense :: "http_request list op_Provider" where
  "demo_opnsense =
     \<lparr>opp_name = ''fw'', opp_url = ''http://fw'', opp_zone = [], opp_ttl = 300, opp_engine = unboundEngine,
      opp_mode = ReconfigureModePerWrite, opp_client = op_NewClient (logged demo_firewall) ''http://fw'' ''k'' ''s'', opp_order = id\<rparr>"

definition demo_op_inst :: "http_request list ProviderInstance" where
  "demo_op_inst =
     \<lparr>pi_ptr = 0, pi_Provider = op_provider demo_opnsense,
      pi_Matcher = \<lparr>dm_includes = [], dm_excludes = [], dm_patternType = PatternTypeGlob\<rparr>,
      pi_RecordType = RecordTypeA, pi_Target = ''10.0.0.1'', pi_dynamicTarget = None, pi_TTL = 300, pi_Mode = ModeManaged,
      pi_InstanceID = [], pi_MetadataFilters = [], pi_Identity = op_Identity demo_opnsense\<rparr>"

theorem opnsense_deletes_own_witness:
  "delete_request demo_opnsense ''u1'' \<notin> set (snd (DeleteRecordByTarget demo_op_inst ''web.ex.com'' ''A'' ''10.0.0.1'' [])) \<and>
   length (snd (DeleteRecordByTarget demo_op_inst ''web.ex.com'' ''A'' ''10.0.0.1'' [])) = 3"
proof -
  let ?d = "DeleteRecordByTarget demo_op_inst ''web.ex.com'' ''A'' ''10.0.0.1'' []"
  let ?r = "record_literal ''web.ex.com'' ''A'' ''10.0.0.1''"
  have hyps: "opk_http (opp_client demo_opnsense) = logged demo_firewall" "pi_Provider demo_op_inst = op_provider demo_opnsense"
    by (simp_all add: demo_opnsense_def op_NewClient_def demo_op_inst_def)
  obtain a b where rows: "unbound_decode \<lparr>hr_StatusCode = 200, hr_Body = [], hr_ReadError = None, hr_Json = Some demo_rows\<rparr> = Inr [a, b]"
      "\<not> op_matches demo_opnsense ?r a" "hc_UUID b = ''u2''"
  proof -
    have "case unbound_decode \<lparr>hr_StatusCode = 200, hr_Body = [], hr_ReadError = None, hr_Json = Some demo_rows\<rparr> of
        Inr [a, b] \<Rightarrow> \<not> op_matches demo_opnsense ?r a \<and> hc_UUID b = ''u2'' | _ \<Rightarrow> False" by code_simp
    then show ?thesis by (auto intro: that split: sum.splits list.splits)
  qed
  have uuid: "hc_UUID row = ''u2''"
    if "demo_firewall (search_request demo_opnsense) [] = Inr resp" "en_DecodeSearchResponse (opp_engine demo_opnsense) resp = Inr rs"
      "row \<in> set rs" "op_matches demo_opnsense ?r row" for resp rs row
    using that rows by (auto simp: demo_firewall_def demo_opnsense_def unboundEngine_def)
  have differ: "delete_request demo_opnsense ''u1'' \<notin> {search_request demo_opnsense, delete_request demo_opnsense ''u2'', reload_request demo_opnsense}"
    by (simp add: delete_request_def search_request_def reload_request_def op_request_def demo_opnsense_def unboundEngine_def)
  have "delete_request demo_opnsense ''u1'' \<notin> set (snd ?d)"
    using opnsense_deletes_own [OF hyps, of "''web.ex.com''" "''A''" "''10.0.0.1''" "[]" "fst ?d" "snd ?d"] uuid differ
    by fastforce
  moreover have "length (snd ?d) = 3" by code_simp
  ultimately show ?thesis by blast
qed

text \<open>A name that is split and joined again comes back without the final dot and in lower case.\<close>

lemma joinFQDN_splitFQDN:
  assumes "splitFQDN fqdn = Some (h, d)" "TrimSpace h = h" "TrimSpace d = d" "\<not> HasSuffix d ''.''"
  shows "joinFQDN h d = TrimSuffix (ToLower (TrimSpace fqdn)) ''.''"
proof -
  let ?f = "TrimSuffix (ToLower (TrimSpace fqdn)) ''.''"
  have h: "h = takeWhile (\<lambda>c. c \<noteq> CHR ''.'') ?f" "d = drop (length h + 1) ?f" "h \<noteq> []" "d \<noteq> []"
    using assms(1) by (auto simp: splitFQDN_def Let_def split: if_splits)
  have "ToLower (take n (ToLower s)) = take n (ToLower s)" for n s
    using ToLower_idem [of s] by (metis ToLower_def take_map)
  then have "ToLower ?f = ?f" by (simp add: TrimSuffix_def)
  then have "ToLower h = h" "ToLower d = d"
    using h(1,2) by (metis ToLower_def map_idI takeWhile_eq_take take_map, metis ToLower_def drop_map)
  moreover have "\<not> HasSuffix h ''.''"
    using set_takeWhileD [of "CHR ''.''" "\<lambda>c. c \<noteq> CHR ''.''" ?f] unfolding h(1) HasSuffix_iff by (auto simp del: takeWhile_eq_Nil_iff)
  moreover have "?f = h @ ''.'' @ d"
  proof -
    have "length h < length ?f" using h(2,4) by simp
    then have "?f ! length h = CHR ''.''" using h(1) nth_length_takeWhile by (metis (full_types))
    then show ?thesis
      using h(1,2) \<open>length h < length ?f\<close> by (metis Cons_nth_drop_Suc append_take_drop_id Suc_eq_plus1 append_Cons append_Nil takeWhile_eq_take)
  qed
  ultimately show ?thesis using assms(2-4) h(3,4) by (simp add: joinFQDN_def TrimSuffix_id)
qed

end
