(* ===== verification/Pfsense.thy ===== *)
theory Pfsense
  imports Opnsense
begin

text \<open>
  \<^verbatim>\<open>providers/pfsense\<close>: configuration, the client of the REST interface with its envelope, host overrides with several
  addresses, and the provider. Functions that the Go package copies from \<^verbatim>\<open>providers/opnsense\<close> are named here as that package's.
  Log lines and functional options are left out.
\<close>

subsection \<open>Configuration\<close>

record pf_Config =
  pfc_URL :: string
  pfc_APIKey :: string
  pfc_Engine :: string
  pfc_Zone :: string
  pfc_TTL :: int
  pfc_ReconfigureMode :: string

definition pf_DefaultTTL :: int where "pf_DefaultTTL = 300"

definition pf_Validate :: "(string \<Rightarrow> err option) \<Rightarrow> pf_Config \<Rightarrow> err option" where
  "pf_Validate malformed c =
     (let errs = http_url_errors malformed (pfc_URL c) @ (if pfc_APIKey c = [] then [''API_KEY is required''] else []) @
                 engine_errors (pfc_Engine c) @ reconfigure_errors (pfc_ReconfigureMode c) @
                 (if pfc_TTL c < 0 then [''TTL must be non-negative''] else [])
      in if errs \<noteq> [] then Some (ErrorNew (''pfsense config validation failed: '' @ Join errs ''; '')) else None)"

definition pf_engineFromString :: "string \<Rightarrow> string" where "pf_engineFromString = engineFromString"
definition pf_reconfigureModeFromString :: "string \<Rightarrow> string" where "pf_reconfigureModeFromString = reconfigureModeFromString"
definition pf_envPrefix :: "string \<Rightarrow> string" where "pf_envPrefix = op_envPrefix"
definition pf_getEnvOrFile :: "environment \<Rightarrow> string \<Rightarrow> string \<Rightarrow> string" where "pf_getEnvOrFile = op_getEnvOrFile"
definition pf_getMapValue :: "(string, string) gomap \<Rightarrow> string \<Rightarrow> string" where "pf_getMapValue = op_getMapValue"

definition pf_config_of ::
  "(string \<Rightarrow> err option) \<Rightarrow> string \<Rightarrow> (string \<Rightarrow> string) \<Rightarrow> (string \<Rightarrow> string) \<Rightarrow> err + pf_Config" where
  "pf_config_of malformed name get secret =
     (let finish = (\<lambda>ttl.
            let c = \<lparr>pfc_URL = get ''URL'', pfc_APIKey = secret ''API_KEY'', pfc_Engine = pf_engineFromString (get ''ENGINE''),
                     pfc_Zone = get ''ZONE'', pfc_TTL = ttl,
                     pfc_ReconfigureMode = pf_reconfigureModeFromString (get ''RECONFIGURE_MODE'')\<rparr>
            in case pf_Validate malformed c of
                 Some e \<Rightarrow> Inl (Errorf (''configuration for '' @ name @ '': '') e) | None \<Rightarrow> Inr c)
      in if get ''TTL'' \<noteq> [] then
           (case Atoi (get ''TTL'') of
              Inl e \<Rightarrow> Inl (Errorf (''invalid TTL value '' @ Quote (get ''TTL'') @ '': '') e)
            | Inr ttl \<Rightarrow> finish ttl)
         else finish pf_DefaultTTL)"

definition pf_LoadConfigFromMap :: "(string \<Rightarrow> err option) \<Rightarrow> string \<Rightarrow> (string, string) gomap \<Rightarrow> err + pf_Config" where
  "pf_LoadConfigFromMap malformed name m = pf_config_of malformed name (pf_getMapValue m) (pf_getMapValue m)"

definition pf_LoadConfig :: "(string \<Rightarrow> err option) \<Rightarrow> environment \<Rightarrow> string \<Rightarrow> err + pf_Config" where
  "pf_LoadConfig malformed E name =
     (let pre = pf_envPrefix name in
      pf_config_of malformed name (\<lambda>k. getEnv E (pre @ k)) (\<lambda>k. pf_getEnvOrFile E (pre @ k) (pre @ k @ ''_FILE'')))"

subsection \<open>Ownership and names\<close>

definition pf_ownershipDescription :: "string \<Rightarrow> string" where "pf_ownershipDescription = ownershipDescription"
definition pf_isOwnedBy :: "string \<Rightarrow> bool" where "pf_isOwnedBy = isOwnedBy"
definition pf_ownedByInstance :: "string \<Rightarrow> string \<Rightarrow> bool" where "pf_ownedByInstance = ownedByInstance"
definition pf_joinFQDN :: "string \<Rightarrow> string \<Rightarrow> string" where "pf_joinFQDN = joinFQDN"
definition pf_splitFQDN :: "string \<Rightarrow> (string \<times> string) option" where "pf_splitFQDN = splitFQDN"

definition pf_inZone :: "string \<Rightarrow> string \<Rightarrow> bool" where
  "pf_inZone fqdn0 zone0 =
     (let fqdn = TrimSuffix (ToLower (TrimSpace fqdn0)) ''.''; zone = TrimSuffix (ToLower (TrimSpace zone0)) ''.'' in
      zone = [] \<or> fqdn = zone \<or> HasSuffix fqdn (''.'' @ zone))"

record hostOverride =
  ho_ID :: string
  ho_Host :: string
  ho_Domain :: string
  ho_IPs :: "string list"
  ho_Descr :: string

definition same_ip :: "string \<Rightarrow> string \<Rightarrow> bool" where
  "same_ip existing ip \<longleftrightarrow> EqualFold (TrimSpace existing) (TrimSpace ip)"

definition containsIP :: "hostOverride \<Rightarrow> string \<Rightarrow> bool" where
  "containsIP h ip \<longleftrightarrow> list_ex (\<lambda>existing. same_ip existing ip) (ho_IPs h)"

definition withoutIP :: "hostOverride \<Rightarrow> string \<Rightarrow> string list" where
  "withoutIP h ip = filter (\<lambda>existing. \<not> same_ip existing ip) (ho_IPs h)"

definition recordTypeForIP :: "string \<Rightarrow> RecordType option" where
  "recordTypeForIP ip =
     (case ParseIP (TrimSpace ip) of
        None \<Rightarrow> None | Some parsed \<Rightarrow> Some (if To4 parsed \<noteq> None then RecordTypeA else RecordTypeAAAA))"

subsection \<open>Resolvers\<close>

record resolver =
  re_name :: string
  re_single :: string
  re_plural :: string
  re_apply :: string
  re_multiIP :: bool

definition resolverFor :: "string \<Rightarrow> resolver" where
  "resolverFor e =
     (if e = EngineDnsmasq
      then \<lparr>re_name = EngineDnsmasq, re_single = ''/api/v2/services/dns_forwarder/host_override'',
            re_plural = ''/api/v2/services/dns_forwarder/host_overrides'', re_apply = ''/api/v2/services/dns_forwarder/apply'',
            re_multiIP = False\<rparr>
      else \<lparr>re_name = EngineUnbound, re_single = ''/api/v2/services/dns_resolver/host_override'',
            re_plural = ''/api/v2/services/dns_resolver/host_overrides'', re_apply = ''/api/v2/services/dns_resolver/apply'',
            re_multiIP = True\<rparr>)"

subsection \<open>The client\<close>

record 'w pf_client =
  pfk_baseURL :: string
  pfk_apiKey :: string
  pfk_res :: resolver
  pfk_http :: "'w http"

definition pf_newClient :: "'w http \<Rightarrow> string \<Rightarrow> string \<Rightarrow> resolver \<Rightarrow> 'w pf_client" where
  "pf_newClient h baseURL apiKey res =
     \<lparr>pfk_baseURL = TrimRight1 baseURL (CHR ''/''), pfk_apiKey = apiKey, pfk_res = res, pfk_http = h\<rparr>"

record envelope =
  ev_Code :: int
  ev_Status :: string
  ev_ResponseID :: string
  ev_Message :: string
  ev_Data :: "json option"

definition zero_envelope :: envelope where
  "zero_envelope = \<lparr>ev_Code = 0, ev_Status = [], ev_ResponseID = [], ev_Message = [], ev_Data = None\<rparr>"

text \<open>\<^verbatim>\<open>json.RawMessage\<close> keeps the document.\<close>

definition dec_raw :: "json option decoder" where "dec_raw j _ = Inr (Some j)"

definition dec_envelope :: "envelope decoder" where
  "dec_envelope = dec_struct
     [(''code'', on_field ev_Code (\<lambda>v r. r\<lparr>ev_Code := v\<rparr>) dec_int),
      (''status'', on_field ev_Status (\<lambda>v r. r\<lparr>ev_Status := v\<rparr>) dec_string),
      (''response_id'', on_field ev_ResponseID (\<lambda>v r. r\<lparr>ev_ResponseID := v\<rparr>) dec_string),
      (''message'', on_field ev_Message (\<lambda>v r. r\<lparr>ev_Message := v\<rparr>) dec_string),
      (''data'', on_field ev_Data (\<lambda>v r. r\<lparr>ev_Data := v\<rparr>) dec_raw)]"

text \<open>
  The message is read also when another field has the wrong type, since \<^verbatim>\<open>encoding/json\<close> decodes the rest of the document
  before it returns such an error.
\<close>

definition envelope_message :: "api_response \<Rightarrow> string" where
  "envelope_message resp =
     (case hr_Json resp of
        Some (JObj kvs) \<Rightarrow>
          fold (\<lambda>(k, v) m. if EqualFold ''message'' k then (case v of JStr s \<Rightarrow> s | _ \<Rightarrow> m) else m) kvs []
      | _ \<Rightarrow> [])"

text \<open>The grammar of JSON numbers, which \<^verbatim>\<open>json.Number\<close> asks of a string.\<close>

definition valid_exponent :: "string \<Rightarrow> bool" where
  "valid_exponent s \<longleftrightarrow>
     s = [] \<or>
     (hd s = CHR ''e'' \<or> hd s = CHR ''E'') \<and>
     (let t = tl s; d = (if t \<noteq> [] \<and> (hd t = CHR ''+'' \<or> hd t = CHR ''-'') then tl t else t) in d \<noteq> [] \<and> list_all is_digit d)"

definition valid_number :: "string \<Rightarrow> bool" where
  "valid_number s =
     (let t = TrimPrefix s ''-''; n = takeWhile is_digit t; rest = drop (length n) t in
      n \<noteq> [] \<and> (hd n = CHR ''0'' \<longrightarrow> length n = 1) \<and>
      (if HasPrefix rest ''.''
       then let f = takeWhile is_digit (tl rest) in f \<noteq> [] \<and> valid_exponent (drop (length f) (tl rest))
       else valid_exponent rest))"

definition dec_number :: "string decoder" where
  "dec_number j n =
     (case j of
        JNull \<Rightarrow> Inr n | JInt i \<Rightarrow> Inr (show_int i) | JFrac t \<Rightarrow> Inr t
      | JStr s \<Rightarrow>
          if valid_number s then Inr s
          else Inl (ErrorNew (''json: invalid number literal, trying to unmarshal '' @ Quote s @ '' into Number''))
      | _ \<Rightarrow> Inl (type_error ''Number''))"

record wireOverride =
  wo_ID :: string
  wo_Host :: string
  wo_Domain :: string
  wo_IP :: "json option"
  wo_Descr :: string

definition zero_wireOverride :: wireOverride where
  "zero_wireOverride = \<lparr>wo_ID = [], wo_Host = [], wo_Domain = [], wo_IP = None, wo_Descr = []\<rparr>"

definition dec_wireOverride :: "wireOverride decoder" where
  "dec_wireOverride = dec_struct
     [(''id'', on_field wo_ID (\<lambda>v r. r\<lparr>wo_ID := v\<rparr>) dec_number),
      (''host'', on_field wo_Host (\<lambda>v r. r\<lparr>wo_Host := v\<rparr>) dec_string),
      (''domain'', on_field wo_Domain (\<lambda>v r. r\<lparr>wo_Domain := v\<rparr>) dec_string),
      (''ip'', on_field wo_IP (\<lambda>v r. r\<lparr>wo_IP := v\<rparr>) dec_raw),
      (''descr'', on_field wo_Descr (\<lambda>v r. r\<lparr>wo_Descr := v\<rparr>) dec_string)]"

definition pf_truncate :: "string \<Rightarrow> string" where "pf_truncate = op_truncate"

definition pf_mapStatusError :: "nat \<Rightarrow> string \<Rightarrow> string \<Rightarrow> err option" where
  "pf_mapStatusError status message body =
     (let detail = (if TrimSpace message = [] then pf_truncate body else TrimSpace message) in
      if 200 \<le> status \<and> status < 300 then None
      else if status = 401 \<or> status = 403 then Some ErrUnauthorized
      else if status = 404 then Some ErrNotFound
      else if status \<ge> 500
      then Some (ErrorfAfter ErrProviderUnavailable (''pfsense returned '' @ Itoa status @ '': '' @ detail))
      else Some (ErrorNew (''pfsense returned '' @ Itoa status @ '': '' @ detail)))"

definition pf_request :: "'w pf_client \<Rightarrow> string \<Rightarrow> string \<Rightarrow> string \<Rightarrow> http_body \<Rightarrow> http_request" where
  "pf_request c m path rawQuery body =
     \<lparr>hq_Method = m, hq_URL = pfk_baseURL c @ path @ (if rawQuery \<noteq> [] then ''?'' @ rawQuery else []),
      hq_Header = [(''X-API-Key'', pfk_apiKey c), (''Accept'', ''application/json'')] @
        (if body \<noteq> NoBody then [(''Content-Type'', ''application/json'')] else []),
      hq_Body = body\<rparr>"

text \<open>What \<open>pf_do\<close> makes of an answer.\<close>

definition pf_answer :: "api_response \<Rightarrow> err + json option" where
  "pf_answer resp =
     (case ReadBody resp 0 of
        Inl e \<Rightarrow> Inl (Errorf ''reading response body: '' e)
      | Inr respBody \<Rightarrow>
          (case pf_mapStatusError (hr_StatusCode resp) (envelope_message resp) respBody of
             Some e \<Rightarrow> Inl e
           | None \<Rightarrow>
               (case Unmarshal dec_envelope zero_envelope resp of
                  Inl e \<Rightarrow> Inl (ErrorNew (''decoding pfsense response: '' @ Error e @ '' (body: '' @ pf_truncate respBody @ '')''))
                | Inr env \<Rightarrow> Inr (ev_Data env))))"

definition pf_do ::
  "'w pf_client \<Rightarrow> string \<Rightarrow> string \<Rightarrow> string \<Rightarrow> http_body \<Rightarrow> 'w \<Rightarrow> (err + json option) \<times> 'w" where
  "pf_do c m path rawQuery body w =
     (let req = pf_request c m path rawQuery body in
      case ht_NewRequest (pfk_http c) m (hq_URL req) of
        Some e \<Rightarrow> (Inl (Errorf ''build request: '' e), w)
      | None \<Rightarrow>
          (case ht_Do (pfk_http c) req w of
             (Inl e, w') \<Rightarrow> (Inl (ErrorfTwo ErrProviderUnavailable e), w')
           | (Inr resp, w') \<Rightarrow> (pf_answer resp, w')))"

definition decodeIPs :: "json option \<Rightarrow> string list" where
  "decodeIPs raw =
     (case raw of
        None \<Rightarrow> []
      | Some j \<Rightarrow>
          (case dec_list [] dec_string j [] of
             Inr ips \<Rightarrow> ips
           | Inl _ \<Rightarrow> (case j of JStr single \<Rightarrow> if single \<noteq> [] then [single] else [] | _ \<Rightarrow> [])))"

definition override_of_wire :: "wireOverride \<Rightarrow> hostOverride" where
  "override_of_wire row =
     \<lparr>ho_ID = TrimSpace (wo_ID row), ho_Host = wo_Host row, ho_Domain = wo_Domain row, ho_IPs = decodeIPs (wo_IP row),
      ho_Descr = wo_Descr row\<rparr>"

definition overrides_of_data :: "json option \<Rightarrow> err + hostOverride list" where
  "overrides_of_data data =
     (case data of
        None \<Rightarrow> Inr []
      | Some j \<Rightarrow>
          (case dec_list zero_wireOverride dec_wireOverride j [] of
             Inl e \<Rightarrow> Inl (Errorf ''decoding pfsense host override list: '' e)
           | Inr rows \<Rightarrow> Inr (map override_of_wire rows)))"

definition pf_list :: "'w pf_client \<Rightarrow> 'w \<Rightarrow> (err + hostOverride list) \<times> 'w" where
  "pf_list c w =
     (case pf_do c MethodGet (re_plural (pfk_res c)) [] NoBody w of
        (Inl e, w') \<Rightarrow> (Inl e, w') | (Inr data, w') \<Rightarrow> (overrides_of_data data, w'))"

text \<open>The keys of a Go map are written in order.\<close>

definition encodePayload :: "'w pf_client \<Rightarrow> hostOverride \<Rightarrow> bool \<Rightarrow> err + json" where
  "encodePayload c ho withID =
     (if ho_IPs ho = []
      then Inl (ErrorNew (''host override '' @ ho_Host ho @ ''.'' @ ho_Domain ho @ '' has no IP targets''))
      else if \<not> re_multiIP (pfk_res c) \<and> length (ho_IPs ho) > 1
      then Inl (ErrorNew (''the '' @ re_name (pfk_res c) @ '' engine (DNS Forwarder) stores one IP per host override, got '' @
             Itoa (length (ho_IPs ho)) @ '' for '' @ ho_Host ho @ ''.'' @ ho_Domain ho @ ''; use the unbound engine for dual-stack''))
      else Inr (JObj ([(''descr'', JStr (ho_Descr ho)), (''domain'', JStr (ho_Domain ho)), (''host'', JStr (ho_Host ho))] @
             (if withID then [(''id'', JStr (ho_ID ho))] else []) @
             [(''ip'', if re_multiIP (pfk_res c) then JArr (map JStr (ho_IPs ho)) else JStr (hd (ho_IPs ho)))])))"

text \<open>A call whose data is not used.\<close>

definition pf_call :: "'w pf_client \<Rightarrow> string \<Rightarrow> string \<Rightarrow> string \<Rightarrow> http_body \<Rightarrow> 'w \<Rightarrow> err option \<times> 'w" where
  "pf_call c m path rawQuery body w =
     (case pf_do c m path rawQuery body w of (Inl e, w') \<Rightarrow> (Some e, w') | (Inr _, w') \<Rightarrow> (None, w'))"

definition pf_create :: "'w pf_client \<Rightarrow> hostOverride \<Rightarrow> 'w \<Rightarrow> err option \<times> 'w" where
  "pf_create c ho w =
     (case encodePayload c ho False of
        Inl e \<Rightarrow> (Some e, w) | Inr payload \<Rightarrow> pf_call c MethodPost (re_single (pfk_res c)) [] (JsonBody payload) w)"

definition pf_update :: "'w pf_client \<Rightarrow> hostOverride \<Rightarrow> 'w \<Rightarrow> err option \<times> 'w" where
  "pf_update c ho w =
     (if ho_ID ho = [] then (Some (ErrorNew ''update requires a host override id''), w)
      else case encodePayload c ho True of
        Inl e \<Rightarrow> (Some e, w) | Inr payload \<Rightarrow> pf_call c MethodPatch (re_single (pfk_res c)) [] (JsonBody payload) w)"

definition pf_remove :: "'w pf_client \<Rightarrow> string \<Rightarrow> 'w \<Rightarrow> err option \<times> 'w" where
  "pf_remove c i w =
     (if i = [] then (Some (ErrorNew ''remove requires a host override id''), w)
      else pf_call c MethodDelete (re_single (pfk_res c)) (Values_Encode [(''id'', i)]) NoBody w)"

definition pf_apply :: "'w pf_client \<Rightarrow> 'w \<Rightarrow> err option \<times> 'w" where
  "pf_apply c w = pf_call c MethodPost (re_apply (pfk_res c)) [] (JsonBody (JObj [])) w"

subsection \<open>The provider\<close>

record 'w pf_Provider =
  pfp_name :: string
  pfp_url :: string
  pfp_zone :: string
  pfp_ttl :: int
  pfp_res :: resolver
  pfp_mode :: string
  pfp_client :: "'w pf_client"

definition pf_New :: "(string \<Rightarrow> err option) \<Rightarrow> 'w http \<Rightarrow> string \<Rightarrow> pf_Config option \<Rightarrow> err + 'w pf_Provider" where
  "pf_New malformed h name cfg =
     (case cfg of
        None \<Rightarrow> Inl (ErrorNew ''config is required'')
      | Some c \<Rightarrow>
          (case pf_Validate malformed c of
             Some e \<Rightarrow> Inl e
           | None \<Rightarrow>
               let res = resolverFor (pfc_Engine c) in
               Inr \<lparr>pfp_name = name, pfp_url = pfc_URL c, pfp_zone = pfc_Zone c, pfp_ttl = pfc_TTL c, pfp_res = res,
                    pfp_mode = pfc_ReconfigureMode c, pfp_client = pf_newClient h (pfc_URL c) (pfc_APIKey c) res\<rparr>))"

definition pf_Identity :: "'w pf_Provider \<Rightarrow> ProviderIdentity" where
  "pf_Identity p = \<lparr>id_Type = ''pfsense/'' @ re_name (pfp_res p), id_Endpoint = pfp_url p, id_Zone = pfp_zone p\<rparr>"

definition pf_Capabilities :: Capabilities where
  "pf_Capabilities = \<lparr>SupportsOwnershipTXT = False, SupportsNativeUpdate = False,
     SupportedRecordTypes = [RecordTypeA, RecordTypeAAAA]\<rparr>"

definition pf_Ping :: "'w pf_Provider \<Rightarrow> 'w \<Rightarrow> err option \<times> 'w" where
  "pf_Ping p w =
     (case pf_list (pfp_client p) w of
        (Inl e, w') \<Rightarrow>
          if errors_Is e ErrNotFound
          then (Some (ErrorfAfter ErrProviderUnavailable (''pfsense reachable but the '' @ re_name (pfp_res p) @
                  '' host-override endpoint was not found (is the REST API package installed and the '' @ re_name (pfp_res p) @
                  '' resolver enabled?)'')), w')
          else (Some e, w')
      | (Inr _, w') \<Rightarrow> (None, w'))"

definition pf_listed :: "'w pf_Provider \<Rightarrow> hostOverride \<Rightarrow> Record list" where
  "pf_listed p ho =
     (let fqdn = pf_joinFQDN (ho_Host ho) (ho_Domain ho) in
      if \<not> pf_isOwnedBy (ho_Descr ho) then []
      else if pfp_zone p \<noteq> [] \<and> \<not> pf_inZone fqdn (pfp_zone p) then []
      else List.map_filter (\<lambda>ip. map_option (\<lambda>rt.
             (record_literal fqdn rt ip)\<lparr>r_TTL := pfp_ttl p, r_ProviderID := ho_ID ho\<rparr>) (recordTypeForIP ip)) (ho_IPs ho))"

definition pf_List :: "'w pf_Provider \<Rightarrow> 'w \<Rightarrow> (err + Record list) \<times> 'w" where
  "pf_List p w =
     (case pf_list (pfp_client p) w of
        (Inl e, w') \<Rightarrow> (Inl (Errorf ''listing records: '' e), w')
      | (Inr overrides, w') \<Rightarrow> (Inr (concat (map (pf_listed p) overrides)), w'))"

definition named_override :: "string \<Rightarrow> string \<Rightarrow> hostOverride \<Rightarrow> bool" where
  "named_override host domain ho \<longleftrightarrow> pf_joinFQDN (ho_Host ho) (ho_Domain ho) = pf_joinFQDN host domain"

definition findOverride :: "'w pf_Provider \<Rightarrow> string \<Rightarrow> string \<Rightarrow> 'w \<Rightarrow> (err + hostOverride option) \<times> 'w" where
  "findOverride p host domain w =
     (case pf_list (pfp_client p) w of
        (Inl e, w') \<Rightarrow> (Inl e, w') | (Inr overrides, w') \<Rightarrow> (Inr (find (named_override host domain) overrides), w'))"

definition maybeApply :: "'w pf_Provider \<Rightarrow> 'w \<Rightarrow> err option \<times> 'w" where
  "maybeApply p w = (if pfp_mode p \<noteq> ReconfigureModePerWrite then (None, w) else pf_apply (pfp_client p) w)"

text \<open>What Create and Delete do with the result of a change.\<close>

definition pf_finish :: "'w pf_Provider \<Rightarrow> string \<Rightarrow> string \<Rightarrow> err option \<times> 'w \<Rightarrow> err option \<times> 'w" where
  "pf_finish p what done r =
     (case r of
        (Some e, w) \<Rightarrow> (Some (Errorf (what @ '': '') e), w)
      | (None, w) \<Rightarrow>
          (case maybeApply p w of
             (Some e, w') \<Rightarrow> (Some (Errorf (done @ '' but apply failed: '') e), w') | (None, w') \<Rightarrow> (None, w')))"

definition not_fqdn :: "Record \<Rightarrow> err" where
  "not_fqdn r = ErrorNew (''hostname '' @ Quote (r_Hostname r) @ '' must be a fully qualified name with at least one dot'')"

definition pf_Create :: "'w pf_Provider \<Rightarrow> Record \<Rightarrow> 'w \<Rightarrow> err option \<times> 'w" where
  "pf_Create p r w =
     (if r_Type r = RecordTypeTXT then (None, w)
      else if r_Type r \<noteq> RecordTypeA \<and> r_Type r \<noteq> RecordTypeAAAA
      then (Some (ErrorNew (r_Type r @ '' records are not supported by the pfsense provider (v1: A/AAAA only)'')), w)
      else if ParseIP (r_Target r) = None
      then (Some (ErrorNew (''pfsense provider requires an IP target for '' @ r_Type r @ '', got '' @ Quote (r_Target r))), w)
      else case pf_splitFQDN (r_Hostname r) of
        None \<Rightarrow> (Some (not_fqdn r), w)
      | Some (host, domain) \<Rightarrow>
          let what = ''creating record '' @ r_Hostname r; done = ''record '' @ r_Hostname r @ '' created'' in
          (case findOverride p host domain w of
             (Inl e, w') \<Rightarrow> (Some (Errorf (what @ '': '') e), w')
           | (Inr None, w') \<Rightarrow>
               pf_finish p what done (pf_create (pfp_client p)
                 \<lparr>ho_ID = [], ho_Host = host, ho_Domain = domain, ho_IPs = [r_Target r],
                  ho_Descr = pf_ownershipDescription (pfp_name p)\<rparr> w')
           | (Inr (Some existing), w') \<Rightarrow>
               if \<not> pf_isOwnedBy (ho_Descr existing)
               then (Some (ErrorNew (''refusing to modify host override '' @ r_Hostname r @
                       '': it exists on pfsense but is not managed by dnsweaver (description '' @ Quote (ho_Descr existing) @ '')'')), w')
               else if containsIP existing (r_Target r) then (None, w')
               else if \<not> re_multiIP (pfp_res p)
               then (Some (ErrorNew (''the dnsmasq engine (DNS Forwarder) stores one IP per host override; '' @ r_Hostname r @
                       '' already resolves to ['' @ Join (ho_IPs existing) '' '' @
                       '']. Use the unbound engine for dual-stack (A+AAAA)'')), w')
               else pf_finish p what done (pf_update (pfp_client p)
                 (existing\<lparr>ho_IPs := ho_IPs existing @ [r_Target r], ho_Descr := pf_ownershipDescription (pfp_name p)\<rparr>) w')))"

definition pf_Delete :: "'w pf_Provider \<Rightarrow> Record \<Rightarrow> 'w \<Rightarrow> err option \<times> 'w" where
  "pf_Delete p r w =
     (if r_Type r = RecordTypeTXT then (None, w)
      else if r_Type r \<noteq> RecordTypeA \<and> r_Type r \<noteq> RecordTypeAAAA
      then (Some (ErrorNew (r_Type r @ '' records are not supported by the pfsense provider'')), w)
      else case pf_splitFQDN (r_Hostname r) of
        None \<Rightarrow> (Some (not_fqdn r), w)
      | Some (host, domain) \<Rightarrow>
          let what = ''deleting record '' @ r_Hostname r; done = ''record '' @ r_Hostname r @ '' deleted'' in
          (case findOverride p host domain w of
             (Inl e, w') \<Rightarrow> (Some (Errorf (what @ '': '') e), w')
           | (Inr None, w') \<Rightarrow> (Some ErrNotFound, w')
           | (Inr (Some existing), w') \<Rightarrow>
               if \<not> pf_ownedByInstance (ho_Descr existing) (pfp_name p) then (Some ErrNotFound, w')
               else if r_Target r \<noteq> [] \<and> \<not> containsIP existing (r_Target r) then (Some ErrNotFound, w')
               else
                 let remaining = withoutIP existing (r_Target r) in
                 if re_multiIP (pfp_res p) \<and> r_Target r \<noteq> [] \<and> remaining \<noteq> []
                 then pf_finish p what done (pf_update (pfp_client p) (existing\<lparr>ho_IPs := remaining\<rparr>) w')
                 else pf_finish p what done (pf_remove (pfp_client p) (ho_ID existing) w')))"

definition pf_provider :: "'w pf_Provider \<Rightarrow> 'w Provider" where
  "pf_provider p =
     \<lparr>p_Name = pfp_name p, p_Type = ''pfsense'', p_Ping = pf_Ping p, p_Capabilities = pf_Capabilities, p_List = pf_List p,
      p_Create = pf_Create p, p_Delete = pf_Delete p, p_Update = None, p_Identity = Some (pf_Identity p), p_Close = None\<rparr>"

definition pf_Factory :: "(string \<Rightarrow> err option) \<Rightarrow> (HTTPConfig \<Rightarrow> 'w http) \<Rightarrow> 'w Factory" where
  "pf_Factory malformed new_http cfg w =
     (case pf_LoadConfigFromMap malformed (fc_Name cfg) (fc_ProviderConfig cfg) of
        Inl e \<Rightarrow> (Inl e, w)
      | Inr c \<Rightarrow> (map_sum id pf_provider (pf_New malformed (new_http (fc_HTTP cfg)) (fc_Name cfg) (Some c)), w))"

interpretation pf: named_factories "[(''pfsense'', pf_Factory malformed new_http)]" for malformed new_http
  by unfold_locales (auto simp: pf_Factory_def pf_New_def pf_provider_def Let_def split: sum.splits option.splits if_splits)


subsection \<open>Changes\<close>

definition list_request :: "'w pf_Provider \<Rightarrow> http_request" where
  "list_request p = pf_request (pfp_client p) MethodGet (re_plural (pfk_res (pfp_client p))) [] NoBody"

definition apply_request :: "'w pf_Provider \<Rightarrow> http_request" where
  "apply_request p = pf_request (pfp_client p) MethodPost (re_apply (pfk_res (pfp_client p))) [] (JsonBody (JObj []))"

definition remove_request :: "'w pf_Provider \<Rightarrow> string \<Rightarrow> http_request" where
  "remove_request p i = pf_request (pfp_client p) MethodDelete (re_single (pfk_res (pfp_client p))) (Values_Encode [(''id'', i)]) NoBody"

definition payload_request :: "'w pf_Provider \<Rightarrow> string \<Rightarrow> json \<Rightarrow> http_request" where
  "payload_request p m payload = pf_request (pfp_client p) m (re_single (pfk_res (pfp_client p))) [] (JsonBody payload)"

definition listed_rows :: "api_response \<Rightarrow> err + hostOverride list" where
  "listed_rows resp = (case pf_answer resp of Inl e \<Rightarrow> Inl e | Inr data \<Rightarrow> overrides_of_data data)"

text \<open>The change that a row admits: an address more, with this instance's mark, or one less, or none of it left.\<close>

definition row_change :: "'w pf_Provider \<Rightarrow> Record \<Rightarrow> hostOverride \<Rightarrow> http_request \<Rightarrow> bool" where
  "row_change p r row ch \<longleftrightarrow>
     (\<exists>payload. pf_isOwnedBy (ho_Descr row) \<and> ch = payload_request p MethodPatch payload \<and>
        encodePayload (pfp_client p) (row\<lparr>ho_IPs := ho_IPs row @ [r_Target r], ho_Descr := pf_ownershipDescription (pfp_name p)\<rparr>) True
          = Inr payload) \<or>
     (\<exists>payload. pf_ownedByInstance (ho_Descr row) (pfp_name p) \<and> ch = payload_request p MethodPatch payload \<and>
        encodePayload (pfp_client p) (row\<lparr>ho_IPs := withoutIP row (r_Target r)\<rparr>) True = Inr payload) \<or>
     pf_ownedByInstance (ho_Descr row) (pfp_name p) \<and> ch = remove_request p (ho_ID row)"

definition new_row :: "'w pf_Provider \<Rightarrow> Record \<Rightarrow> string \<Rightarrow> string \<Rightarrow> http_request \<Rightarrow> bool" where
  "new_row p r host domain ch \<longleftrightarrow>
     (\<exists>payload. ch = payload_request p MethodPost payload \<and>
        encodePayload (pfp_client p)
          \<lparr>ho_ID = [], ho_Host = host, ho_Domain = domain, ho_IPs = [r_Target r], ho_Descr = pf_ownershipDescription (pfp_name p)\<rparr> False
          = Inr payload)"

definition admitted_change :: "'w pf_Provider \<Rightarrow> Record \<Rightarrow> hostOverride list \<Rightarrow> http_request \<Rightarrow> bool" where
  "admitted_change p r rows ch \<longleftrightarrow>
     (case pf_splitFQDN (r_Hostname r) of
        None \<Rightarrow> False
      | Some (host, domain) \<Rightarrow>
          (case find (named_override host domain) rows of
             None \<Rightarrow> new_row p r host domain ch | Some row \<Rightarrow> row_change p r row ch))"

lemma listed_rows_iff: "listed_rows resp = Inr rows \<longleftrightarrow> (\<exists>data. pf_answer resp = Inr data \<and> overrides_of_data data = Inr rows)"
  by (auto simp: listed_rows_def split: sum.splits)

lemma pf_call_logged:
  assumes "pfk_http c = logged srv" "pf_call c m path q body log = (e, log')"
  shows "log' = log @ [pf_request c m path q body]"
  using assms by (auto simp: pf_call_def pf_do_def Let_def split: sum.splits)

lemma findOverride_logged:
  assumes "pfk_http (pfp_client p) = logged srv" "findOverride p host domain log = (q, log')"
  shows "log' = log @ [list_request p] \<and>
    (\<forall>found. q = Inr found \<longrightarrow> (\<exists>resp rows. srv (list_request p) log = Inr resp \<and> listed_rows resp = Inr rows \<and>
       found = find (named_override host domain) rows))"
  using assms
  by (auto simp: findOverride_def pf_list_def pf_do_def Let_def list_request_def listed_rows_iff split: sum.splits prod.splits)

text \<open>The three changes: nothing is sent when the row cannot be encoded or has no identifier, which is an error.\<close>

lemma pf_changes_logged:
  assumes "pfk_http (pfp_client p) = logged srv"
  shows "pf_create (pfp_client p) ho log = (e, l) \<Longrightarrow> l = log \<and> e \<noteq> None \<or>
     (\<exists>payload. encodePayload (pfp_client p) ho False = Inr payload \<and> l = log @ [payload_request p MethodPost payload])"
  "pf_update (pfp_client p) ho log = (e, l) \<Longrightarrow> l = log \<and> e \<noteq> None \<or>
     (\<exists>payload. encodePayload (pfp_client p) ho True = Inr payload \<and> l = log @ [payload_request p MethodPatch payload])"
  "pf_remove (pfp_client p) i log = (e, l) \<Longrightarrow> l = log \<and> e \<noteq> None \<or> l = log @ [remove_request p i]"
  by (auto simp: pf_create_def pf_update_def pf_remove_def payload_request_def remove_request_def
      dest!: pf_call_logged [OF assms] split: sum.splits if_splits)

text \<open>A change that fails ends the call, and a reload may follow one that succeeds.\<close>

lemma pf_finish_logged:
  assumes "pfk_http (pfp_client p) = logged srv" "pf_finish p what done (f, log1) = (e, log')"
  shows "log' = log1 \<or> f = None \<and> log' = log1 @ [apply_request p]"
  using assms(2)
  by (auto simp: pf_finish_def maybeApply_def pf_apply_def apply_request_def
      dest!: pf_call_logged [OF assms(1)] split: option.splits prod.splits if_splits)

text \<open>The change of a call with the reload after it: nothing, the change, or the change and the reload.\<close>

definition tail_of :: "'w pf_Provider \<Rightarrow> (http_request \<Rightarrow> bool) \<Rightarrow> http_request list \<Rightarrow> bool" where
  "tail_of p C rest \<longleftrightarrow> rest = [] \<or> (\<exists>ch. C ch \<and> (rest = [ch] \<or> rest = [ch, apply_request p]))"

lemma finish_change:
  assumes "pfk_http (pfp_client p) = logged srv" "pf_finish p what done (f log) = (e, log')"
    and "\<And>e l. f log = (e, l) \<Longrightarrow> l = log \<and> e \<noteq> None \<or> (\<exists>ch. C ch \<and> l = log @ [ch])"
  shows "\<exists>rest. log' = log @ rest \<and> tail_of p C rest"
proof -
  obtain e1 l where f: "f log = (e1, l)" by (rule prod.exhaust)
  then have "log' = l \<or> e1 = None \<and> log' = l @ [apply_request p]"
    using pf_finish_logged [OF assms(1)] assms(2) by metis
  then show ?thesis using assms(3) [OF f] by (auto simp: tail_of_def)
qed

text \<open>The requests of a call: none, the list of the rows, or the list and an admitted change.\<close>

definition call_requests ::
  "http_request list pf_Provider \<Rightarrow> (http_request \<Rightarrow> http_request list \<Rightarrow> err + api_response) \<Rightarrow> Record \<Rightarrow> http_request list \<Rightarrow>
   http_request list \<Rightarrow> bool" where
  "call_requests p srv r log log' \<longleftrightarrow>
     log' = log \<or> (\<exists>rest. log' = log @ list_request p # rest \<and>
       (rest \<noteq> [] \<longrightarrow> (\<exists>resp rows. srv (list_request p) log = Inr resp \<and> listed_rows resp = Inr rows \<and>
          tail_of p (admitted_change p r rows) rest)))"

lemma call_requestsI:
  assumes "pfk_http (pfp_client p) = logged srv" "pf_splitFQDN (r_Hostname r) = Some (host, domain)"
    and "findOverride p host domain log = (Inr found, w1)" "log' = w1 @ rest"
    and "tail_of p (case found of None \<Rightarrow> new_row p r host domain | Some row \<Rightarrow> row_change p r row) rest"
  shows "call_requests p srv r log log'"
proof -
  obtain resp rows where "srv (list_request p) log = Inr resp" "listed_rows resp = Inr rows"
      "found = find (named_override host domain) rows" "w1 = log @ [list_request p]"
    using findOverride_logged [OF assms(1,3)] by blast
  moreover from this have "admitted_change p r rows = (case found of None \<Rightarrow> new_row p r host domain | Some row \<Rightarrow> row_change p r row)"
    using assms(2) by (auto simp: fun_eq_iff admitted_change_def split: option.splits)
  ultimately show ?thesis using assms(4,5) unfolding call_requests_def by auto
qed

lemma pf_Create_logged:
  assumes "pfk_http (pfp_client p) = logged srv" "pf_Create p r log = (e, log')"
  shows "call_requests p srv r log log'"
proof (cases "pf_splitFQDN (r_Hostname r)")
  case (Some hd)
  obtain host domain where hd: "pf_splitFQDN (r_Hostname r) = Some (host, domain)" using Some by (cases hd) simp
  obtain q w1 where q: "findOverride p host domain log = (q, w1)" by (rule prod.exhaust)
  note found = findOverride_logged [OF assms(1) q]
  let ?mark = "pf_ownershipDescription (pfp_name p)"
  let ?new = "\<lparr>ho_ID = [], ho_Host = host, ho_Domain = domain, ho_IPs = [r_Target r], ho_Descr = ?mark\<rparr>"
  let ?upd = "\<lambda>row. row\<lparr>ho_IPs := ho_IPs row @ [r_Target r], ho_Descr := ?mark\<rparr>"
  let ?what = "''creating record '' @ r_Hostname r" and ?done = "''record '' @ r_Hostname r @ '' created''"
  consider "log' = log" | "log' = w1"
    | "q = Inr None" "pf_finish p ?what ?done (pf_create (pfp_client p) ?new w1) = (e, log')"
    | row where "q = Inr (Some row)" "pf_isOwnedBy (ho_Descr row)"
        "pf_finish p ?what ?done (pf_update (pfp_client p) (?upd row) w1) = (e, log')"
    using assms(2) hd q by (auto simp: pf_Create_def Let_def split: if_splits sum.splits option.splits)
  then show ?thesis
  proof cases
    case 3
    have "\<exists>rest. log' = w1 @ rest \<and> tail_of p (new_row p r host domain) rest"
      by (rule finish_change [where f = "pf_create (pfp_client p) ?new", OF assms(1) 3(2)])
        (auto simp: new_row_def dest!: pf_changes_logged(1) [OF assms(1)])
    then show ?thesis using call_requestsI [OF assms(1) hd, of log _ w1 log'] q 3(1) by auto
  next
    case 4
    have "\<exists>rest. log' = w1 @ rest \<and> tail_of p (row_change p r row) rest"
      by (rule finish_change [where f = "pf_update (pfp_client p) (?upd row)", OF assms(1) 4(3)])
        (use 4(2) in \<open>auto simp: row_change_def dest!: pf_changes_logged(2) [OF assms(1)]\<close>)
    then show ?thesis using call_requestsI [OF assms(1) hd, of log _ w1 log'] q 4(1) by auto
  qed (use found in \<open>auto simp: call_requests_def\<close>)
qed (use assms(2) in \<open>auto simp: pf_Create_def call_requests_def split: if_splits\<close>)


text \<open>Marks of this instance are marks of dnsweaver, so a row that loses an address is one that may change.\<close>

lemma pf_Delete_logged:
  assumes "pfk_http (pfp_client p) = logged srv" "pf_Delete p r log = (e, log')"
  shows "call_requests p srv r log log'"
proof (cases "pf_splitFQDN (r_Hostname r)")
  case (Some hd)
  obtain host domain where hd: "pf_splitFQDN (r_Hostname r) = Some (host, domain)" using Some by (cases hd) simp
  obtain q w1 where q: "findOverride p host domain log = (q, w1)" by (rule prod.exhaust)
  note found = findOverride_logged [OF assms(1) q]
  let ?upd = "\<lambda>row. row\<lparr>ho_IPs := withoutIP row (r_Target r)\<rparr>"
  let ?what = "''deleting record '' @ r_Hostname r" and ?done = "''record '' @ r_Hostname r @ '' deleted''"
  consider "log' = log" | "log' = w1"
    | row where "q = Inr (Some row)" "pf_ownedByInstance (ho_Descr row) (pfp_name p)"
        "pf_finish p ?what ?done (pf_update (pfp_client p) (?upd row) w1) = (e, log')"
    | row where "q = Inr (Some row)" "pf_ownedByInstance (ho_Descr row) (pfp_name p)"
        "pf_finish p ?what ?done (pf_remove (pfp_client p) (ho_ID row) w1) = (e, log')"
    using assms(2) hd q by (auto simp: pf_Delete_def Let_def split: if_splits sum.splits option.splits)
  then show ?thesis
  proof cases
    case 3
    have "\<exists>rest. log' = w1 @ rest \<and> tail_of p (row_change p r row) rest"
      by (rule finish_change [where f = "pf_update (pfp_client p) (?upd row)", OF assms(1) 3(3)])
        (use 3(2) in \<open>auto simp: row_change_def dest!: pf_changes_logged(2) [OF assms(1)]\<close>)
    then show ?thesis using call_requestsI [OF assms(1) hd, of log _ w1 log'] q 3(1) by auto
  next
    case 4
    have "\<exists>rest. log' = w1 @ rest \<and> tail_of p (row_change p r row) rest"
      by (rule finish_change [where f = "pf_remove (pfp_client p) (ho_ID row)", OF assms(1) 4(3)])
        (use 4(2) in \<open>auto simp: row_change_def dest!: pf_changes_logged(3) [OF assms(1)]\<close>)
    then show ?thesis using call_requestsI [OF assms(1) hd, of log _ w1 log'] q 4(1) by auto
  qed (use found in \<open>auto simp: call_requests_def\<close>)
qed (use assms(2) in \<open>auto simp: pf_Delete_def call_requests_def split: if_splits\<close>)


text \<open>A firewall with a row made by hand, and one of this instance with two addresses.\<close>

definition demo_override :: "string \<Rightarrow> string \<Rightarrow> string list \<Rightarrow> string \<Rightarrow> json" where
  "demo_override i host ips descr = JObj
     [(''id'', JStr i), (''host'', JStr host), (''domain'', JStr ''ex.com''), (''ip'', JArr (map JStr ips)), (''descr'', JStr descr)]"

definition demo_pfsense_rows :: api_response where
  "demo_pfsense_rows = \<lparr>hr_StatusCode = 200, hr_Body = [], hr_ReadError = None,
     hr_Json = Some (JObj [(''code'', JInt 200), (''data'', JArr
       [demo_override ''0'' ''nas'' [''10.0.0.9''] ''by hand'',
        demo_override ''1'' ''web'' [''10.0.0.1'', ''10.0.0.2''] ''dnsweaver:fw | web''])])\<rparr>"

definition demo_pfsense :: "http_request list pf_Provider" where
  "demo_pfsense =
     \<lparr>pfp_name = ''fw'', pfp_url = ''http://fw'', pfp_zone = [], pfp_ttl = 300, pfp_res = resolverFor EngineUnbound,
      pfp_mode = ReconfigureModePerWrite,
      pfp_client = pf_newClient (logged (\<lambda>_ _. Inr demo_pfsense_rows)) ''http://fw'' ''k'' (resolverFor EngineUnbound)\<rparr>"

definition demo_target :: "string \<Rightarrow> Record" where
  "demo_target host = record_literal (host @ ''.ex.com'') ''A'' ''10.0.0.1''"

lemma demo_pfsense_listed:
  "listed_rows demo_pfsense_rows = Inr
     [\<lparr>ho_ID = ''0'', ho_Host = ''nas'', ho_Domain = ''ex.com'', ho_IPs = [''10.0.0.9''], ho_Descr = ''by hand''\<rparr>,
      \<lparr>ho_ID = ''1'', ho_Host = ''web'', ho_Domain = ''ex.com'', ho_IPs = [''10.0.0.1'', ''10.0.0.2''],
       ho_Descr = ''dnsweaver:fw | web''\<rparr>]"
  by code_simp


end
