(* ===== verification/PlatformSources.thy ===== *)
theory PlatformSources
  imports SourceRegistry GoStd
begin

text \<open>
  The sources of the platforms that know their hostnames: \<^verbatim>\<open>sources/kubernetes\<close> with hints from annotations,
  \<^verbatim>\<open>sources/proxmox\<close> and \<^verbatim>\<open>sources/incus\<close>, which derive one hostname per running guest. Log lines are left out.
\<close>

subsection \<open>Kubernetes\<close>

definition AnnotationPrefix :: string where "AnnotationPrefix = ''dnsweaver.dev/''"
definition AnnotationEnabled :: string where "AnnotationEnabled = AnnotationPrefix @ ''enabled''"
definition AnnotationRecordType :: string where "AnnotationRecordType = AnnotationPrefix @ ''record-type''"
definition AnnotationTarget :: string where "AnnotationTarget = AnnotationPrefix @ ''target''"
definition AnnotationTTL :: string where "AnnotationTTL = AnnotationPrefix @ ''ttl''"
definition AnnotationProvider :: string where "AnnotationProvider = AnnotationPrefix @ ''provider''"
definition AnnotationProxied :: string where "AnnotationProxied = AnnotationPrefix @ ''proxied''"

lemmas Annotation_defs = AnnotationPrefix_def AnnotationEnabled_def AnnotationRecordType_def AnnotationTarget_def
  AnnotationTTL_def AnnotationProvider_def AnnotationProxied_def

definition isEnabled :: "metadata \<Rightarrow> bool" where
  "isEnabled annotations \<longleftrightarrow>
     (case map_of annotations AnnotationEnabled of None \<Rightarrow> True | Some v \<Rightarrow> \<not> EqualFold v ''false'')"

definition no_hints :: RecordHints where
  "no_hints = \<lparr>rh_Type = [], rh_Target = [], rh_TTL = 0, rh_Provider = [], rh_SRV = None, rh_Metadata = []\<rparr>"

definition annotation_value :: "metadata \<Rightarrow> string \<Rightarrow> string option" where
  "annotation_value annotations key =
     (case map_of annotations key of Some v \<Rightarrow> if v \<noteq> [] then Some v else None | None \<Rightarrow> None)"

definition parseRecordHints :: "metadata \<Rightarrow> RecordHints option" where
  "parseRecordHints annotations =
     (let (hints, hasAny) = (no_hints, False);
          (hints, hasAny) = (case annotation_value annotations AnnotationRecordType of
            Some v \<Rightarrow> (hints\<lparr>rh_Type := ToUpper v\<rparr>, True) | None \<Rightarrow> (hints, hasAny));
          (hints, hasAny) = (case annotation_value annotations AnnotationTarget of
            Some v \<Rightarrow> (hints\<lparr>rh_Target := v\<rparr>, True) | None \<Rightarrow> (hints, hasAny));
          (hints, hasAny) = (case annotation_value annotations AnnotationTTL of
            Some v \<Rightarrow> (case Atoi v of Inr ttl \<Rightarrow> if ttl > 0 then (hints\<lparr>rh_TTL := ttl\<rparr>, True) else (hints, hasAny)
              | Inl _ \<Rightarrow> (hints, hasAny))
          | None \<Rightarrow> (hints, hasAny));
          (hints, hasAny) = (case annotation_value annotations AnnotationProvider of
            Some v \<Rightarrow> (hints\<lparr>rh_Provider := v\<rparr>, True) | None \<Rightarrow> (hints, hasAny));
          (hints, hasAny) = (case annotation_value annotations AnnotationProxied of
            Some v \<Rightarrow> (hints\<lparr>rh_Metadata := AList.update ''proxied'' v (rh_Metadata hints)\<rparr>, True)
          | None \<Rightarrow> (hints, hasAny))
      in if \<not> hasAny then None else Some hints)"

definition k8s_Extract :: "Workload \<Rightarrow> err + Hostnames" where
  "k8s_Extract w =
     (if \<not> isEnabled (wl_Annotations w) then Inr []
      else if length (wl_Hostnames w) = 0 then Inr []
      else let hints = parseRecordHints (wl_Annotations w);
               router = (if wl_Name w \<noteq> [] then wl_Kind w @ '':'' @ wl_Name w else wl_Kind w)
           in Inr (map (\<lambda>name. \<lparr>h_Name = name, h_Source = ''kubernetes'', h_Router = router,
                               h_RecordHints = hints, h_Metadata = []\<rparr>)
                (filter (\<lambda>name. name \<noteq> []) (wl_Hostnames w))))"

definition kubernetes_source :: "'w Source" where
  "kubernetes_source = \<lparr>s_Name = ''kubernetes'', s_Extract = k8s_Extract, s_Discover = (\<lambda>_. Inr []),
     s_SupportsDiscovery = False, s_SupportedPlatforms = [PlatformKubernetes]\<rparr>"

text \<open>The hints are read off the annotations one by one; there are none when no annotation counts.\<close>

lemma parseRecordHints_spec:
  "parseRecordHints annotations =
    (let value = annotation_value annotations;
         ttl = (case value AnnotationTTL of Some v \<Rightarrow> (case Atoi v of Inr t \<Rightarrow> max t 0 | Inl _ \<Rightarrow> 0) | None \<Rightarrow> 0);
         text = (\<lambda>k. case value k of Some v \<Rightarrow> v | None \<Rightarrow> []);
         hints = \<lparr>rh_Type = ToUpper (text AnnotationRecordType), rh_Target = text AnnotationTarget, rh_TTL = ttl,
           rh_Provider = text AnnotationProvider, rh_SRV = None,
           rh_Metadata = (case value AnnotationProxied of Some v \<Rightarrow> [(''proxied'', v)] | None \<Rightarrow> [])\<rparr>
     in if hints = no_hints then None else Some hints)"
proof -
  have ne: "annotation_value annotations k = Some v \<Longrightarrow> v \<noteq> []" for k v
    by (auto simp: annotation_value_def split: option.splits if_splits)
  show ?thesis
    unfolding parseRecordHints_def Let_def no_hints_def
    using ne by (auto split: option.splits sum.splits if_splits simp: max_def)
qed

subsection \<open>Proxmox\<close>

definition TargetModeGuestIP :: string where "TargetModeGuestIP = ''guest-ip''"
definition TargetModeInstance :: string where "TargetModeInstance = ''instance''"

definition px_ParseTargetMode :: "string \<Rightarrow> err + string" where
  "px_ParseTargetMode s =
     (let t = ToLower (TrimSpace s) in
      if t = [] \<or> t = TargetModeGuestIP then Inr TargetModeGuestIP
      else if t = TargetModeInstance then Inr TargetModeInstance
      else Inl (ErrorNew (''invalid proxmox target mode '' @ Quote s @ '' (must be one of: guest-ip, instance)'')))"

record Proxmox =
  px_domain :: string
  px_targetMode :: string
  px_hostnameTagPrefix :: string

definition px_WithDomain :: "string \<Rightarrow> Proxmox \<Rightarrow> Proxmox" where
  "px_WithDomain domain p = p\<lparr>px_domain := TrimPrefix (TrimSpace domain) ''.''\<rparr>"

definition WithHostnameTagPrefix :: "string \<Rightarrow> Proxmox \<Rightarrow> Proxmox" where
  "WithHostnameTagPrefix pre p = p\<lparr>px_hostnameTagPrefix := TrimSpace pre\<rparr>"

definition px_WithTargetMode :: "string \<Rightarrow> Proxmox \<Rightarrow> Proxmox" where
  "px_WithTargetMode mode p = p\<lparr>px_targetMode := mode\<rparr>"

definition px_New :: "(Proxmox \<Rightarrow> Proxmox) list \<Rightarrow> Proxmox" where
  "px_New opts =
     (let p = fold (\<lambda>opt p. opt p) opts \<lparr>px_domain = [], px_targetMode = TargetModeGuestIP, px_hostnameTagPrefix = []\<rparr>
      in if px_targetMode p = [] then p\<lparr>px_targetMode := TargetModeGuestIP\<rparr> else p)"

text \<open>The loop stops at the second override, which is only logged.\<close>

fun first_tag :: "string \<Rightarrow> string list \<Rightarrow> string \<Rightarrow> string" where
  "first_tag pre [] firstMatch = firstMatch"
| "first_tag pre (tag0 # tags) firstMatch =
     (let tag = TrimSpace tag0 in
      if \<not> HasPrefix tag pre then first_tag pre tags firstMatch
      else let override = TrimSpace (TrimPrefix tag pre) in
        if override = [] then first_tag pre tags firstMatch
        else if firstMatch = [] then first_tag pre tags override
        else firstMatch)"

definition resolveHostnameFromTags :: "Proxmox \<Rightarrow> Workload \<Rightarrow> string" where
  "resolveHostnameFromTags p w =
     (if px_hostnameTagPrefix p = [] then []
      else let tags = map_get [] (wl_Metadata w) ''tags'' in
        if tags = [] then []
        else let firstMatch = first_tag (px_hostnameTagPrefix p @ ''+'') (Split tags (CHR '';'')) [] in
          if firstMatch = [] then []
          else if Contains firstMatch ''.'' then firstMatch
          else if px_domain p \<noteq> [] then firstMatch @ ''.'' @ px_domain p
          else firstMatch)"

definition px_resolveHostname :: "Proxmox \<Rightarrow> Workload \<Rightarrow> err + string" where
  "px_resolveHostname p w =
     (let tagHostname = resolveHostnameFromTags p w in
      if tagHostname \<noteq> [] then Inr tagHostname
      else if Contains (wl_Name w) ''.'' then Inr (wl_Name w)
      else if px_domain p \<noteq> [] then Inr (wl_Name w @ ''.'' @ px_domain p)
      else Inl (ErrorNew (''VM name '' @ Quote (wl_Name w) @ '' is not an FQDN and no domain suffix is configured'')))"

definition px_Extract :: "Proxmox \<Rightarrow> Workload \<Rightarrow> err + Hostnames" where
  "px_Extract p w =
     (if \<not> IsProxmox (wl_Platform w) then Inr []
      else let ip = map_get [] (wl_Metadata w) ''ip'' in
        if ip = [] then Inr []
        else case px_resolveHostname p w of
          Inl _ \<Rightarrow> Inr []
        | Inr hostname \<Rightarrow>
            Inr [\<lparr>h_Name = hostname, h_Source = ''proxmox'',
              h_Router = map_get [] (wl_Metadata w) ''node'' @ ''/'' @ map_get [] (wl_Metadata w) ''vmid'',
              h_RecordHints = (if px_targetMode p = TargetModeGuestIP
                then Some (no_hints\<lparr>rh_Type := ''A'', rh_Target := ip\<rparr>) else None),
              h_Metadata = []\<rparr>])"

definition proxmox_source :: "Proxmox \<Rightarrow> 'w Source" where
  "proxmox_source p = \<lparr>s_Name = ''proxmox'', s_Extract = px_Extract p, s_Discover = (\<lambda>_. Inr []),
     s_SupportsDiscovery = False, s_SupportedPlatforms = [PlatformProxmox]\<rparr>"

subsection \<open>Incus\<close>

definition inc_ParseTargetMode :: "string \<Rightarrow> err + string" where
  "inc_ParseTargetMode s =
     (let t = ToLower (TrimSpace s) in
      if t = [] \<or> t = TargetModeGuestIP then Inr TargetModeGuestIP
      else if t = TargetModeInstance then Inr TargetModeInstance
      else Inl (ErrorNew (''invalid incus target mode '' @ Quote s @ '' (must be one of: guest-ip, instance)'')))"

record Incus =
  inc_domain :: string
  inc_targetMode :: string

definition inc_WithDomain :: "string \<Rightarrow> Incus \<Rightarrow> Incus" where
  "inc_WithDomain domain s = s\<lparr>inc_domain := TrimPrefix (TrimSpace domain) ''.''\<rparr>"

definition inc_WithTargetMode :: "string \<Rightarrow> Incus \<Rightarrow> Incus" where
  "inc_WithTargetMode mode s = s\<lparr>inc_targetMode := mode\<rparr>"

definition inc_New :: "(Incus \<Rightarrow> Incus) list \<Rightarrow> Incus" where
  "inc_New opts =
     (let s = fold (\<lambda>opt s. opt s) opts \<lparr>inc_domain = [], inc_targetMode = TargetModeGuestIP\<rparr>
      in if inc_targetMode s = [] then s\<lparr>inc_targetMode := TargetModeGuestIP\<rparr> else s)"

definition inc_resolveHostname :: "Incus \<Rightarrow> Workload \<Rightarrow> err + string" where
  "inc_resolveHostname s w =
     (let override = TrimSpace (GetLabel w ''user.dnsweaver.hostname'') in
      if override \<noteq> [] then Inr override
      else let override = TrimSpace (GetLabel w ''dnsweaver.hostname'') in
        if override \<noteq> [] then Inr override
        else if Contains (wl_Name w) ''.'' then Inr (wl_Name w)
        else if inc_domain s \<noteq> [] then Inr (wl_Name w @ ''.'' @ inc_domain s)
        else Inl (ErrorNew (''instance name '' @ Quote (wl_Name w) @ '' is not an FQDN and no domain suffix is configured'')))"

definition inc_Extract :: "Incus \<Rightarrow> Workload \<Rightarrow> err + Hostnames" where
  "inc_Extract s w =
     (if \<not> IsIncus (wl_Platform w) then Inr []
      else let ip = map_get [] (wl_Metadata w) ''ip'' in
        if ip = [] then Inr []
        else case inc_resolveHostname s w of
          Inl _ \<Rightarrow> Inr []
        | Inr hostname \<Rightarrow>
            Inr [\<lparr>h_Name = hostname, h_Source = ''incus'',
              h_Router = map_get [] (wl_Metadata w) ''project'' @ ''/'' @ wl_Name w,
              h_RecordHints = (if inc_targetMode s = TargetModeGuestIP
                then Some (no_hints\<lparr>rh_Type := ''A'', rh_Target := ip\<rparr>) else None),
              h_Metadata = []\<rparr>])"

definition incus_source :: "Incus \<Rightarrow> 'w Source" where
  "incus_source s = \<lparr>s_Name = ''incus'', s_Extract = inc_Extract s, s_Discover = (\<lambda>_. Inr []),
     s_SupportsDiscovery = False, s_SupportedPlatforms = [PlatformIncus]\<rparr>"

subsection \<open>The contract\<close>

interpretation kubernetes: hostname_source kubernetes_source
  by unfold_locales (auto simp: kubernetes_source_def k8s_Extract_def Let_def split: if_splits)

interpretation proxmox: hostname_source "proxmox_source p" for p
  by unfold_locales (auto simp: proxmox_source_def px_Extract_def Let_def split: if_splits sum.splits)

interpretation incus: hostname_source "incus_source s" for s
  by unfold_locales (auto simp: incus_source_def inc_Extract_def Let_def split: if_splits sum.splits)

text \<open>A source for one platform contributes nothing to workloads of another.\<close>

lemma platform_only:
  "wl_Platform w \<noteq> PlatformProxmox \<Longrightarrow> contribution w (proxmox_source p) = []"
  "wl_Platform w \<noteq> PlatformIncus \<Longrightarrow> contribution w (incus_source s) = []"
  "wl_Platform w \<noteq> PlatformKubernetes \<Longrightarrow> contribution w kubernetes_source = []"
  by (simp_all add: contribution_def sourceSupports_def proxmox_source_def incus_source_def kubernetes_source_def)

text \<open>
  A guest whose address is known and that the source can name is reported by exactly one hostname, and in
  the default mode as an A record to the guest's address.
\<close>

lemma guest_hostname:
  assumes "wl_Platform w = PlatformProxmox" "map_get [] (wl_Metadata w) ''ip'' = ip" "ip \<noteq> []"
    and "px_resolveHostname p w = Inr hostname" "px_targetMode p = TargetModeGuestIP"
  shows "\<exists>h. px_Extract p w = Inr [h] \<and> h_Name h = hostname \<and>
    map_option (\<lambda>r. (rh_Type r, rh_Target r)) (h_RecordHints h) = Some (''A'', ip)"
  using assms by (simp add: px_Extract_def IsProxmox_def Let_def)

lemma first_tag_override:
  "first_tag pre tags m =
    (if m \<noteq> [] then m
     else case filter (\<lambda>o'. o' \<noteq> []) (map (\<lambda>t. TrimSpace (TrimPrefix (TrimSpace t) pre)) (filter (\<lambda>t. HasPrefix (TrimSpace t) pre) tags)) of
       [] \<Rightarrow> [] | t # _ \<Rightarrow> t)"
  by (induction tags arbitrary: m) (auto simp: Let_def)

end
