(* ===== verification/ProxmoxLister.thy ===== *)
theory ProxmoxLister
  imports HttpApi PlatformSources
begin

text \<open>
  \<^verbatim>\<open>internal/proxmox\<close>: the client of the Proxmox VE interface, the address of a container or virtual machine, and the lister
  that turns cluster resources into workloads. Time limits, TLS settings and log lines are left out.
\<close>

subsection \<open>The client\<close>

record pve_ClientConfig =
  pvc_BaseURL :: string
  pvc_TokenID :: string
  pvc_TokenSecret :: string

record 'w pve_Client =
  pvk_baseURL :: string
  pvk_tokenHeader :: string
  pvk_http :: "'w http"

definition pve_NewClient :: "'w http \<Rightarrow> pve_ClientConfig \<Rightarrow> err + 'w pve_Client" where
  "pve_NewClient h cfg =
     (if pvc_BaseURL cfg = [] then Inl (ErrorNew ''proxmox: BaseURL is required'')
      else if pvc_TokenID cfg = [] then Inl (ErrorNew ''proxmox: TokenID is required'')
      else if pvc_TokenSecret cfg = [] then Inl (ErrorNew ''proxmox: TokenSecret is required'')
      else Inr \<lparr>pvk_baseURL = pvc_BaseURL cfg,
                pvk_tokenHeader = ''PVEAPIToken='' @ pvc_TokenID cfg @ ''='' @ pvc_TokenSecret cfg, pvk_http = h\<rparr>)"

record ClusterResource =
  cr_VMID :: int
  cr_Name :: string
  cr_Node :: string
  cr_Type :: string
  cr_Status :: string
  cr_Tags :: string

definition no_ClusterResource :: ClusterResource where
  "no_ClusterResource = \<lparr>cr_VMID = 0, cr_Name = [], cr_Node = [], cr_Type = [], cr_Status = [], cr_Tags = []\<rparr>"

definition dec_ClusterResource :: "ClusterResource decoder" where
  "dec_ClusterResource = dec_struct
     [(''vmid'', on_field cr_VMID (\<lambda>v r. r\<lparr>cr_VMID := v\<rparr>) dec_int),
      (''name'', on_field cr_Name (\<lambda>v r. r\<lparr>cr_Name := v\<rparr>) dec_string),
      (''node'', on_field cr_Node (\<lambda>v r. r\<lparr>cr_Node := v\<rparr>) dec_string),
      (''type'', on_field cr_Type (\<lambda>v r. r\<lparr>cr_Type := v\<rparr>) dec_string),
      (''status'', on_field cr_Status (\<lambda>v r. r\<lparr>cr_Status := v\<rparr>) dec_string),
      (''tags'', on_field cr_Tags (\<lambda>v r. r\<lparr>cr_Tags := v\<rparr>) dec_string)]"

record AgentIPAddress =
  ai_IPAddressType :: string
  ai_IPAddress :: string

record AgentNetworkInterface =
  an_Name :: string
  an_IPAddresses :: "AgentIPAddress list"

definition dec_AgentIPAddress :: "AgentIPAddress decoder" where
  "dec_AgentIPAddress = dec_struct
     [(''ip-address-type'', on_field ai_IPAddressType (\<lambda>v r. r\<lparr>ai_IPAddressType := v\<rparr>) dec_string),
      (''ip-address'', on_field ai_IPAddress (\<lambda>v r. r\<lparr>ai_IPAddress := v\<rparr>) dec_string)]"

definition dec_AgentNetworkInterface :: "AgentNetworkInterface decoder" where
  "dec_AgentNetworkInterface = dec_struct
     [(''name'', on_field an_Name (\<lambda>v r. r\<lparr>an_Name := v\<rparr>) dec_string),
      (''ip-addresses'', on_field an_IPAddresses (\<lambda>v r. r\<lparr>an_IPAddresses := v\<rparr>)
         (dec_list \<lparr>ai_IPAddressType = [], ai_IPAddress = []\<rparr> dec_AgentIPAddress))]"

text \<open>Everything in the answers stands below the key \<^verbatim>\<open>data\<close>.\<close>

definition dec_data :: "'a decoder \<Rightarrow> 'a decoder" where
  "dec_data d = dec_struct [(''data'', on_field id (\<lambda>v _. v) d)]"

text \<open>An error of a request, with the type that callers ask for.\<close>

datatype pve_error = AgentNotRunning string int | RequestError err

fun pve_Error :: "pve_error \<Rightarrow> err" where
  "pve_Error (AgentNotRunning node vmid) =
     ErrorNew (''proxmox: qemu-guest-agent not running on '' @ node @ ''/'' @ show_int vmid)"
| "pve_Error (RequestError e) = e"

text \<open>The search for a text at every position.\<close>

definition containsAgentError :: "string \<Rightarrow> bool" where
  "containsAgentError msg =
     list_ex (\<lambda>e. length e \<le> length msg \<and> list_ex (\<lambda>i. take (length e) (drop i msg) = e) [0..<length msg - length e + 1])
       [''QEMU guest agent is not running'', ''guest agent is not running'', ''No QEMU guest agent'']"

text \<open>
  \<^verbatim>\<open>fmt.Sscanf\<close> with \<^verbatim>\<open>%s\<close> reads to the next white space, so the node is the rest of the path, the literal after it
  does not match, and the number stays zero.
\<close>

definition agent_path_prefix :: string where "agent_path_prefix = ''/api2/json/nodes/''"

definition parseAgentNotRunning :: "string \<Rightarrow> pve_error" where
  "parseAgentNotRunning path =
     (if HasPrefix path agent_path_prefix
      then AgentNotRunning (takeWhile (\<lambda>c. \<not> is_space c)
             (dropWhile (\<lambda>c. is_space c \<and> c \<noteq> newline) (TrimPrefix path agent_path_prefix))) 0
      else AgentNotRunning [] 0)"

definition pve_truncate :: "string \<Rightarrow> nat \<Rightarrow> string" where
  "pve_truncate s n = (if length s \<le> n then s else take n s @ ''...'')"

definition pve_request :: "'w pve_Client \<Rightarrow> string \<Rightarrow> http_request" where
  "pve_request c path = \<lparr>hq_Method = MethodGet, hq_URL = pvk_baseURL c @ path,
     hq_Header = [(''Authorization'', pvk_tokenHeader c), (''Accept'', ''application/json'')], hq_Body = NoBody\<rparr>"

definition agent_error :: "api_response \<Rightarrow> bool" where
  "agent_error resp \<longleftrightarrow> hr_StatusCode resp = 500 \<and>
     (case Unmarshal (dec_struct [(''errors'', on_field id (\<lambda>v _. v) dec_string_map)]) [] resp of
        Inl _ \<Rightarrow> False | Inr errors \<Rightarrow> list_ex (\<lambda>(_, msg). containsAgentError msg) errors)"

definition pve_get :: "'w pve_Client \<Rightarrow> string \<Rightarrow> 'a decoder \<Rightarrow> 'a \<Rightarrow> 'w \<Rightarrow> (pve_error + 'a) \<times> 'w" where
  "pve_get c path d zero w =
     (case ht_NewRequest (pvk_http c) MethodGet (pvk_baseURL c @ path) of
        Some e \<Rightarrow> (Inl (RequestError (Errorf ''creating request: '' e)), w)
      | None \<Rightarrow>
          (case ht_Do (pvk_http c) (pve_request c path) w of
             (Inl e, w') \<Rightarrow> (Inl (RequestError (Errorf (''performing request to '' @ path @ '': '') e)), w')
           | (Inr resp, w') \<Rightarrow>
               (case hr_ReadError resp of
                  Some e \<Rightarrow> (Inl (RequestError (Errorf (''reading response body from '' @ path @ '': '') e)), w')
                | None \<Rightarrow>
                    if agent_error resp then (Inl (parseAgentNotRunning path), w')
                    else if hr_StatusCode resp \<noteq> 200
                    then (Inl (RequestError (ErrorNew (''proxmox api error: status '' @ Itoa (hr_StatusCode resp) @ '' for '' @ path @
                            '': '' @ pve_truncate (hr_Body resp) 200))), w')
                    else case Unmarshal d zero resp of
                      Inl e \<Rightarrow> (Inl (RequestError (Errorf (''decoding response from '' @ path @ '': '') e)), w')
                    | Inr x \<Rightarrow> (Inr x, w'))))"

definition ListClusterResources :: "'w pve_Client \<Rightarrow> 'w \<Rightarrow> (err + ClusterResource list) \<times> 'w" where
  "ListClusterResources c w =
     (case pve_get c ''/api2/json/cluster/resources?type=vm'' (dec_data (dec_list no_ClusterResource dec_ClusterResource)) [] w of
        (Inl e, w') \<Rightarrow> (Inl (Errorf ''listing cluster resources: '' (pve_Error e)), w') | (Inr rs, w') \<Rightarrow> (Inr rs, w'))"

text \<open>Of a container's configuration only the first interface is read.\<close>

definition GetLXCConfig :: "'w pve_Client \<Rightarrow> string \<Rightarrow> int \<Rightarrow> 'w \<Rightarrow> (err + string) \<times> 'w" where
  "GetLXCConfig c node vmid w =
     (case pve_get c (''/api2/json/nodes/'' @ node @ ''/lxc/'' @ show_int vmid @ ''/config'')
             (dec_data (dec_struct [(''net0'', on_field id (\<lambda>v _. v) dec_string)])) [] w of
        (Inl e, w') \<Rightarrow> (Inl (Errorf (''getting LXC config for '' @ node @ ''/'' @ show_int vmid @ '': '') (pve_Error e)), w')
      | (Inr net0, w') \<Rightarrow> (Inr net0, w'))"

definition GetVMAgentNetworks ::
  "'w pve_Client \<Rightarrow> string \<Rightarrow> int \<Rightarrow> 'w \<Rightarrow> (pve_error + AgentNetworkInterface list) \<times> 'w" where
  "GetVMAgentNetworks c node vmid =
     pve_get c (''/api2/json/nodes/'' @ node @ ''/qemu/'' @ show_int vmid @ ''/agent/network-get-interfaces'')
       (dec_data (dec_struct [(''result'', on_field id (\<lambda>v _. v)
          (dec_list \<lparr>an_Name = [], an_IPAddresses = []\<rparr> dec_AgentNetworkInterface))])) []"

subsection \<open>Addresses\<close>

definition isLoopback :: "string \<Rightarrow> bool" where
  "isLoopback name \<longleftrightarrow> name = ''lo'' \<or> name = ''lo0''"

text \<open>The ranges that no guest is reached at, as a network and the length of its mask.\<close>

definition nonRoutableRanges :: "(nat list \<times> nat) list" where
  "nonRoutableRanges =
     [([192, 0, 0, 0], 24), ([192, 0, 2, 0], 24), ([198, 18, 0, 0], 15), ([198, 51, 100, 0], 24), ([203, 0, 113, 0], 24),
      ([240, 0, 0, 0], 4), ([255, 255, 255, 255], 32)]"

text \<open>\<^verbatim>\<open>IPNet.Contains\<close> for an IPv4 network: in every byte the bits under the mask agree.\<close>

definition masked :: "nat \<Rightarrow> nat \<Rightarrow> nat \<Rightarrow> nat" where
  "masked bits i b = b div 2 ^ (8 - min 8 (bits - 8 * i))"

definition net_contains :: "nat list \<times> nat \<Rightarrow> nat list \<Rightarrow> bool" where
  "net_contains net ip \<longleftrightarrow>
     (case To4 ip of
        None \<Rightarrow> False
      | Some bs \<Rightarrow> list_all (\<lambda>i. masked (snd net) i (bs ! i) = masked (snd net) i (fst net ! i)) [0..<4])"

definition isNonRoutableIP :: "string \<Rightarrow> bool" where
  "isNonRoutableIP ip \<longleftrightarrow>
     ip = [] \<or>
     (case ParseIP ip of
        None \<Rightarrow> True
      | Some parsed \<Rightarrow>
          ip_is_loopback parsed \<or> ip_is_link_local parsed \<or> ip_is_unspecified parsed \<or> ip_is_multicast parsed \<or>
          list_ex (\<lambda>n. net_contains n parsed) nonRoutableRanges)"

fun net0_ip :: "string list \<Rightarrow> string" where
  "net0_ip [] = []"
| "net0_ip (part # parts) =
     (let (key, value, found) = Cut1 part (CHR ''='') in
      if \<not> found \<or> key \<noteq> ''ip'' then net0_ip parts
      else if value = ''dhcp'' \<or> value = [] then []
      else fst (Cut1 value (CHR ''/'')))"

definition parseLXCNet0IP :: "string \<Rightarrow> string" where
  "parseLXCNet0IP net0 = net0_ip (Split net0 (CHR '',''))"

definition resolveLXCIP :: "'w pve_Client \<Rightarrow> ClusterResource \<Rightarrow> 'w \<Rightarrow> (err + string) \<times> 'w" where
  "resolveLXCIP c r w =
     (case GetLXCConfig c (cr_Node r) (cr_VMID r) w of
        (Inl e, w') \<Rightarrow> (Inl (Errorf (''fetching config for LXC '' @ show_int (cr_VMID r) @ '' on '' @ cr_Node r @ '': '') e), w')
      | (Inr net0, w') \<Rightarrow>
          if net0 = [] then (Inr [], w')
          else let ip = parseLXCNet0IP net0 in (Inr (if isNonRoutableIP ip then [] else ip), w'))"

definition selectInterfaceForIP :: "AgentNetworkInterface list \<Rightarrow> string \<Rightarrow> string list \<Rightarrow> string" where
  "selectInterfaceForIP ifaces interfacePreference allowedInterfaces =
     (if interfacePreference \<noteq> [] then interfacePreference
      else if allowedInterfaces = [] then []
      else case find (\<lambda>i. list_ex (HasPrefix (an_Name i)) allowedInterfaces) ifaces of
        None \<Rightarrow> [] | Some i \<Rightarrow> an_Name i)"

definition usable :: "AgentIPAddress \<Rightarrow> bool" where
  "usable a \<longleftrightarrow> ai_IPAddressType a = ''ipv4'' \<and> \<not> isNonRoutableIP (ai_IPAddress a)"

text \<open>The first usable address of the selected interface, else of any interface but the loopback.\<close>

definition agent_ip :: "string \<Rightarrow> string list \<Rightarrow> AgentNetworkInterface list \<Rightarrow> string" where
  "agent_ip interfacePreference allowedInterfaces ifaces =
     (let selected = (if interfacePreference \<noteq> [] \<or> allowedInterfaces \<noteq> []
                      then selectInterfaceForIP ifaces interfacePreference allowedInterfaces else []);
          preferred = (if selected = [] then None
                       else case find (\<lambda>i. an_Name i = selected) ifaces of
                         None \<Rightarrow> None | Some i \<Rightarrow> find usable (an_IPAddresses i))
      in case preferred of
           Some a \<Rightarrow> ai_IPAddress a
         | None \<Rightarrow>
             (case find usable (concat (map an_IPAddresses (filter (\<lambda>i. \<not> isLoopback (an_Name i)) ifaces))) of
                Some a \<Rightarrow> ai_IPAddress a | None \<Rightarrow> []))"

definition resolveVMIP :: "'w pve_Client \<Rightarrow> ClusterResource \<Rightarrow> string \<Rightarrow> string list \<Rightarrow> 'w \<Rightarrow> (err + string) \<times> 'w" where
  "resolveVMIP c r interfacePreference allowedInterfaces w =
     (case GetVMAgentNetworks c (cr_Node r) (cr_VMID r) w of
        (Inl (AgentNotRunning _ _), w') \<Rightarrow> (Inr [], w')
      | (Inl (RequestError e), w') \<Rightarrow>
          (Inl (Errorf (''querying guest agent for VM '' @ show_int (cr_VMID r) @ '' on '' @ cr_Node r @ '': '') e), w')
      | (Inr ifaces, w') \<Rightarrow> (Inr (agent_ip interfacePreference allowedInterfaces ifaces), w'))"

definition resourceTypeLXC :: string where "resourceTypeLXC = ''lxc''"
definition resourceTypeQEMU :: string where "resourceTypeQEMU = ''qemu''"

definition ResolveIPWithInterfacePreferences ::
  "'w pve_Client \<Rightarrow> ClusterResource \<Rightarrow> string \<Rightarrow> string list \<Rightarrow> 'w \<Rightarrow> (err + string) \<times> 'w" where
  "ResolveIPWithInterfacePreferences c r interfacePreference allowedInterfaces w =
     (if cr_Type r = resourceTypeLXC then resolveLXCIP c r w
      else if cr_Type r = resourceTypeQEMU then resolveVMIP c r interfacePreference allowedInterfaces w
      else (Inl (ErrorNew (''proxmox: unsupported resource type '' @ Quote (cr_Type r))), w))"

definition pve_ResolveIP :: "'w pve_Client \<Rightarrow> ClusterResource \<Rightarrow> 'w \<Rightarrow> (err + string) \<times> 'w" where
  "pve_ResolveIP c r = ResolveIPWithInterfacePreferences c r [] []"

fun preference_tag :: "string \<Rightarrow> string list \<Rightarrow> string" where
  "preference_tag pre [] = []"
| "preference_tag pre (tag0 # tags) =
     (let tag = TrimSpace tag0 in
      if tag = [] \<or> \<not> HasPrefix tag (pre @ ''+'') then preference_tag pre tags
      else TrimSpace (TrimPrefix tag (pre @ ''+'')))"

definition parseInterfacePreferenceFromTags :: "string \<Rightarrow> string \<Rightarrow> string" where
  "parseInterfacePreferenceFromTags tags pre =
     (if pre = [] then [] else preference_tag pre (Split tags (CHR '';'')))"

subsection \<open>The lister\<close>

record pve_AdapterConfig =
  pva_NodeFilter :: string
  pva_TagFilter :: string
  pva_StateFilter :: string
  pva_InterfacePreference :: string
  pva_AllowedInterfaces :: "string list"

record 'w pve_Adapter =
  pvl_client :: "'w pve_Client"
  pvl_cfg :: pve_AdapterConfig

definition stateRunning :: string where "stateRunning = ''running''"

definition pve_NewWorkloadListerAdapter :: "'w pve_Client \<Rightarrow> pve_AdapterConfig \<Rightarrow> 'w pve_Adapter" where
  "pve_NewWorkloadListerAdapter c cfg =
     \<lparr>pvl_client = c,
      pvl_cfg = cfg\<lparr>pva_StateFilter := (if pva_StateFilter cfg = [] then stateRunning else pva_StateFilter cfg)\<rparr>\<rparr>"

definition hasTagWithPrefix :: "string \<Rightarrow> string \<Rightarrow> bool" where
  "hasTagWithPrefix tags pre \<longleftrightarrow> tags \<noteq> [] \<and> list_ex (\<lambda>tag. HasPrefix (TrimSpace tag) pre) (Split tags (CHR '';''))"

definition pve_matchesFilters :: "pve_AdapterConfig \<Rightarrow> ClusterResource \<Rightarrow> bool" where
  "pve_matchesFilters cfg r \<longleftrightarrow>
     (pva_StateFilter cfg = [] \<or> cr_Status r = pva_StateFilter cfg) \<and>
     (pva_NodeFilter cfg = [] \<or> cr_Node r = pva_NodeFilter cfg) \<and>
     (pva_TagFilter cfg = [] \<or> hasTagWithPrefix (cr_Tags r) (pva_TagFilter cfg))"

definition parseTags :: "string \<Rightarrow> metadata" where
  "parseTags tags =
     (if tags = [] then []
      else fold (\<lambda>tag0 labels. let tag = TrimSpace tag0 in
             if tag = [] then labels else AList.update (''proxmox.tag/'' @ tag) ''true'' labels) (Split tags (CHR '';'')) [])"

definition pve_toWorkload :: "ClusterResource \<Rightarrow> string \<Rightarrow> Workload" where
  "pve_toWorkload r ip =
     \<lparr>wl_ID = cr_Node r @ ''/'' @ show_int (cr_VMID r), wl_Name = cr_Name r, wl_Namespace = [], wl_Labels = parseTags (cr_Tags r),
      wl_Annotations = [], wl_Platform = PlatformProxmox, wl_Kind = (if cr_Type r = resourceTypeLXC then KindLXC else KindVM),
      wl_Hostnames = [],
      wl_Metadata = [(''node'', cr_Node r), (''vmid'', show_int (cr_VMID r)), (''tags'', cr_Tags r), (''status'', cr_Status r)] @
        (if ip \<noteq> [] then [(''ip'', ip)] else [])\<rparr>"

text \<open>A resource whose address cannot be determined is left out.\<close>

fun pve_workloads :: "'w pve_Adapter \<Rightarrow> ClusterResource list \<Rightarrow> 'w \<Rightarrow> Workload list \<times> 'w" where
  "pve_workloads a [] w = ([], w)"
| "pve_workloads a (r # rs) w =
     (if \<not> pve_matchesFilters (pvl_cfg a) r then pve_workloads a rs w
      else case ResolveIPWithInterfacePreferences (pvl_client a) r
             (parseInterfacePreferenceFromTags (cr_Tags r) (pva_InterfacePreference (pvl_cfg a)))
             (pva_AllowedInterfaces (pvl_cfg a)) w of
        (Inl _, w') \<Rightarrow> pve_workloads a rs w'
      | (Inr ip, w') \<Rightarrow> apfst (Cons (pve_toWorkload r ip)) (pve_workloads a rs w'))"

definition pve_ListWorkloads :: "'w pve_Adapter \<Rightarrow> 'w \<Rightarrow> (err + Workload list) \<times> 'w" where
  "pve_ListWorkloads a w =
     (case ListClusterResources (pvl_client a) w of
        (Inl e, w') \<Rightarrow> (Inl (Errorf ''listing proxmox cluster resources: '' e), w')
      | (Inr resources, w') \<Rightarrow> apfst Inr (pve_workloads a resources w'))"

text \<open>As the reconciler sees it; the exchange with the cluster is not part of the interface.\<close>

definition pve_lister :: "'w pve_Adapter \<Rightarrow> 'w Lister" where
  "pve_lister a = \<lparr>l_ListWorkloads = (\<lambda>w. fst (pve_ListWorkloads a w)), l_Platform = PlatformProxmox\<rparr>"


subsection \<open>What the addresses are\<close>

lemma find_Some_mem: "find P xs = Some x \<Longrightarrow> x \<in> set xs \<and> P x"
  by (auto simp: find_Some_iff)

lemma containsAgentError_Contains:
  "containsAgentError msg \<longleftrightarrow>
     list_ex (Contains msg) [''QEMU guest agent is not running'', ''guest agent is not running'', ''No QEMU guest agent'']"
proof -
  have "length e \<le> length msg \<and> list_ex (\<lambda>i. take (length e) (drop i msg) = e) [0..<length msg - length e + 1] \<longleftrightarrow> Contains msg e"
    (is "?l \<longleftrightarrow> _") for e
  proof
    assume ?l
    then have "\<exists>i. take (length e) (drop i msg) = e" unfolding list_ex_iff by blast
    then show "Contains msg e" by (metis Contains_iff append_take_drop_id)
  next
    assume "Contains msg e"
    then obtain u v where "msg = u @ e @ v" by (auto simp: Contains_iff)
    then show ?l by (auto simp: list_ex_iff intro!: bexI [of _ "length u"])
  qed
  then show ?thesis by (simp add: containsAgentError_def)
qed

lemma agent_ip_sound: "agent_ip pref allowed ifaces = [] \<or> \<not> isNonRoutableIP (agent_ip pref allowed ifaces)"
  by (auto simp: agent_ip_def Let_def usable_def dest!: find_Some_mem split: option.splits)

lemma resolved_routable:
  "ResolveIPWithInterfacePreferences c r pref allowed w = (Inr ip, w') \<Longrightarrow> ip = [] \<or> \<not> isNonRoutableIP ip"
  using agent_ip_sound
  by (auto simp: ResolveIPWithInterfacePreferences_def resolveLXCIP_def resolveVMIP_def Let_def
      split: if_splits prod.splits sum.splits pve_error.splits)

lemma pve_workloads_sound:
  "wl \<in> set (fst (pve_workloads a rs w)) \<Longrightarrow>
     \<exists>r ip. r \<in> set rs \<and> pve_matchesFilters (pvl_cfg a) r \<and> wl = pve_toWorkload r ip \<and> (ip = [] \<or> \<not> isNonRoutableIP ip)"
proof (induction a rs w rule: pve_workloads.induct)
  case (2 a r rs w)
  then show ?case
    by (fastforce split: if_splits prod.splits sum.splits dest: resolved_routable)
qed simp

text \<open>The addresses of version 4 that are refused, by their bytes.\<close>

lemma nonroutable_v4:
  assumes "ParseIP ip = Some (v4_mapped_prefix @ [a, b, c, d])" "a < 256" "b < 256" "c < 256" "d < 256"
  shows "isNonRoutableIP ip \<longleftrightarrow>
    a = 127 \<or> a = 169 \<and> b = 254 \<or> [a, b, c, d] = [0, 0, 0, 0] \<or> 224 \<le> a \<or>
    a = 192 \<and> b = 0 \<and> (c = 0 \<or> c = 2) \<or> a = 198 \<and> (b = 18 \<or> b = 19) \<or> a = 198 \<and> b = 51 \<and> c = 100 \<or>
    a = 203 \<and> b = 0 \<and> c = 113"
proof -
  have nonempty: "ip \<noteq> []" using assms(1) by (auto simp: ParseIP_def)
  have to4: "To4 (v4_mapped_prefix @ [a, b, c, d]) = Some [a, b, c, d]" by (simp add: To4_def v4_mapped_prefix_def)
  have unspec: "v4_mapped_prefix @ [a, b, c, d] \<noteq> replicate 16 0" by (simp add: v4_mapped_prefix_def numeral_eq_Suc)
  have ranges: "list_ex (\<lambda>r. net_contains r (v4_mapped_prefix @ [a, b, c, d])) nonRoutableRanges \<longleftrightarrow>
      a = 192 \<and> b = 0 \<and> c = 0 \<or> a = 192 \<and> b = 0 \<and> c = 2 \<or> a = 198 \<and> b div 2 = 9 \<or> a = 198 \<and> b = 51 \<and> c = 100 \<or>
      a = 203 \<and> b = 0 \<and> c = 113 \<or> a div 16 = 15 \<or> a = 255 \<and> b = 255 \<and> c = 255 \<and> d = 255"
    using assms(3-5) by (simp add: nonRoutableRanges_def net_contains_def to4 masked_def upt_rec)
  have half: "b div 2 = 9 \<longleftrightarrow> b = 18 \<or> b = 19" by auto
  have "16 * (a div 16) + a mod 16 = a" "a mod 16 < 16" by simp_all
  then have sixteenth: "a div 16 = 15 \<longleftrightarrow> 240 \<le> a" "a div 16 = 14 \<longleftrightarrow> 224 \<le> a \<and> a < 240"
    using assms(2) by auto
  have spelled: "isNonRoutableIP ip \<longleftrightarrow>
      a = 127 \<or> (a = 169 \<and> b = 254) \<or> [a, b, c, d] = [0, 0, 0, 0] \<or> a div 16 = 14 \<or>
      a = 192 \<and> b = 0 \<and> c = 0 \<or> a = 192 \<and> b = 0 \<and> c = 2 \<or> a = 198 \<and> b div 2 = 9 \<or> a = 198 \<and> b = 51 \<and> c = 100 \<or>
      a = 203 \<and> b = 0 \<and> c = 113 \<or> a div 16 = 15 \<or> a = 255 \<and> b = 255 \<and> c = 255 \<and> d = 255"
    unfolding isNonRoutableIP_def assms(1)
    using nonempty unspec
    by (simp add: ranges ip_is_loopback_def ip_is_link_local_def ip_is_unspecified_def ip_is_multicast_def to4 disj_assoc)
  show ?thesis
  proof (cases "224 \<le> a")
    case True
    then have "a div 16 = 14 \<or> a div 16 = 15" unfolding sixteenth by linarith
    then show ?thesis using spelled True by blast
  next
    case False
    then have "a div 16 \<noteq> 14" "a div 16 \<noteq> 15" "a \<noteq> 255" unfolding sixteenth by simp_all
    then have "isNonRoutableIP ip \<longleftrightarrow>
        a = 127 \<or> a = 169 \<and> b = 254 \<or> [a, b, c, d] = [0, 0, 0, 0] \<or> a = 192 \<and> b = 0 \<and> (c = 0 \<or> c = 2) \<or>
        a = 198 \<and> (b = 18 \<or> b = 19) \<or> a = 198 \<and> b = 51 \<and> c = 100 \<or> a = 203 \<and> b = 0 \<and> c = 113"
      unfolding spelled half by (simp only: simp_thms HOL.conj_disj_distribL) (simp only: disj_ac)
    then show ?thesis using False by (simp only: simp_thms)
  qed
qed

end
