(* ===== verification/IncusLister.thy ===== *)
theory IncusLister
  imports ProxmoxLister EventWatcher
begin

text \<open>
  \<^verbatim>\<open>internal/incus\<close>: the client of the Incus interface, the address of an instance, the lister, the event stream and the
  watcher, which has the states and operations of \<^verbatim>\<open>internal/watcher\<close>. Time limits, TLS settings and log lines are left
  out; the iteration order of a Go map is an argument.
\<close>

subsection \<open>The client\<close>

record ic_ClientConfig =
  icc_BaseURL :: string
  icc_SocketPath :: string
  icc_Project :: string
  icc_AllProjects :: bool

record 'w ic_Client =
  ick_baseURL :: string
  ick_project :: string
  ick_allProjects :: bool
  ick_http :: "'w http"

definition socketBaseURL :: string where "socketBaseURL = ''http://incus''"

text \<open>The transports for a socket and for the network are arguments.\<close>

definition ic_NewClient :: "(string \<Rightarrow> 'w http) \<Rightarrow> 'w http \<Rightarrow> ic_ClientConfig \<Rightarrow> err + 'w ic_Client" where
  "ic_NewClient socket_http net_http cfg =
     (if icc_BaseURL cfg = [] \<and> icc_SocketPath cfg = []
      then Inl (ErrorNew ''incus: either BaseURL or SocketPath is required'')
      else if icc_BaseURL cfg \<noteq> [] \<and> icc_SocketPath cfg \<noteq> []
      then Inl (ErrorNew ''incus: set exactly one of BaseURL or SocketPath, not both'')
      else Inr
        \<lparr>ick_baseURL = (if icc_SocketPath cfg \<noteq> [] then socketBaseURL else TrimRight1 (icc_BaseURL cfg) (CHR ''/'')),
         ick_project = icc_Project cfg, ick_allProjects = icc_AllProjects cfg,
         ick_http = (if icc_SocketPath cfg \<noteq> [] then socket_http (icc_SocketPath cfg) else net_http)\<rparr>)"

record ic_Address =
  ia_Family :: string
  ia_Address :: string
  ia_Netmask :: string
  ia_Scope :: string

record ic_Instance =
  ii_Name :: string
  ii_Type :: string
  ii_Status :: string
  ii_StatusCode :: int
  ii_Project :: string
  ii_Config :: metadata
  ii_State :: "(string, ic_Address list) gomap option"

definition dec_ic_Address :: "ic_Address decoder" where
  "dec_ic_Address = dec_struct
     [(''family'', on_field ia_Family (\<lambda>v r. r\<lparr>ia_Family := v\<rparr>) dec_string),
      (''address'', on_field ia_Address (\<lambda>v r. r\<lparr>ia_Address := v\<rparr>) dec_string),
      (''netmask'', on_field ia_Netmask (\<lambda>v r. r\<lparr>ia_Netmask := v\<rparr>) dec_string),
      (''scope'', on_field ia_Scope (\<lambda>v r. r\<lparr>ia_Scope := v\<rparr>) dec_string)]"

text \<open>The state of an instance has only its networks, and a network only its addresses.\<close>

definition dec_ic_State :: "(string, ic_Address list) gomap decoder" where
  "dec_ic_State = dec_struct
     [(''network'', on_field id (\<lambda>v _. v) (dec_map [] (dec_struct
        [(''addresses'', on_field id (\<lambda>v _. v)
           (dec_list \<lparr>ia_Family = [], ia_Address = [], ia_Netmask = [], ia_Scope = []\<rparr> dec_ic_Address))])))]"

definition no_ic_Instance :: ic_Instance where
  "no_ic_Instance = \<lparr>ii_Name = [], ii_Type = [], ii_Status = [], ii_StatusCode = 0, ii_Project = [], ii_Config = [], ii_State = None\<rparr>"

definition dec_ic_Instance :: "ic_Instance decoder" where
  "dec_ic_Instance = dec_struct
     [(''name'', on_field ii_Name (\<lambda>v r. r\<lparr>ii_Name := v\<rparr>) dec_string),
      (''type'', on_field ii_Type (\<lambda>v r. r\<lparr>ii_Type := v\<rparr>) dec_string),
      (''status'', on_field ii_Status (\<lambda>v r. r\<lparr>ii_Status := v\<rparr>) dec_string),
      (''status_code'', on_field ii_StatusCode (\<lambda>v r. r\<lparr>ii_StatusCode := v\<rparr>) dec_int),
      (''project'', on_field ii_Project (\<lambda>v r. r\<lparr>ii_Project := v\<rparr>) dec_string),
      (''config'', on_field ii_Config (\<lambda>v r. r\<lparr>ii_Config := v\<rparr>) dec_string_map),
      (''state'', on_field ii_State (\<lambda>v r. r\<lparr>ii_State := v\<rparr>) (dec_pointer [] dec_ic_State))]"

record ic_apiResponse =
  ir_Type :: string
  ir_StatusCode :: int
  ir_Error :: string
  ir_Metadata :: "json option"

definition dec_ic_apiResponse :: "ic_apiResponse decoder" where
  "dec_ic_apiResponse = dec_struct
     [(''type'', on_field ir_Type (\<lambda>v r. r\<lparr>ir_Type := v\<rparr>) dec_string),
      (''status_code'', on_field ir_StatusCode (\<lambda>v r. r\<lparr>ir_StatusCode := v\<rparr>) dec_int),
      (''error'', on_field ir_Error (\<lambda>v r. r\<lparr>ir_Error := v\<rparr>) dec_string),
      (''metadata'', on_field ir_Metadata (\<lambda>v r. r\<lparr>ir_Metadata := v\<rparr>) (\<lambda>j _. Inr (Some j)))]"

definition DefaultUserAgent :: string where "DefaultUserAgent = ''dnsweaver/1.0''"

definition ic_request :: "'w ic_Client \<Rightarrow> string \<Rightarrow> http_request" where
  "ic_request c path = \<lparr>hq_Method = MethodGet, hq_URL = ick_baseURL c @ path,
     hq_Header = [(''Accept'', ''application/json''), (''User-Agent'', DefaultUserAgent)], hq_Body = NoBody\<rparr>"

definition ic_truncate :: "string \<Rightarrow> nat \<Rightarrow> string" where "ic_truncate = pve_truncate"

text \<open>An envelope without metadata decodes as an empty text, which is an error.\<close>

definition ic_answer :: "string \<Rightarrow> 'a decoder \<Rightarrow> 'a \<Rightarrow> api_response \<Rightarrow> err + 'a" where
  "ic_answer path d zero resp =
     (let env = Unmarshal dec_ic_apiResponse \<lparr>ir_Type = [], ir_StatusCode = 0, ir_Error = [], ir_Metadata = None\<rparr> resp;
          failed = ''incus api error: status '' @ Itoa (hr_StatusCode resp) @ '' for '' @ path @ '': ''
      in if hr_StatusCode resp \<noteq> 200
         then Inl (ErrorNew (failed @ (case env of
                Inr e \<Rightarrow> if ir_Error e \<noteq> [] then ir_Error e else ic_truncate (hr_Body resp) 200
              | Inl _ \<Rightarrow> ic_truncate (hr_Body resp) 200)))
         else case env of
           Inl e \<Rightarrow> Inl (Errorf (''decoding response envelope from '' @ path @ '': '') e)
         | Inr e \<Rightarrow>
             if ir_Type e = ''error'' then Inl (ErrorNew (''incus api error for '' @ path @ '': '' @ ir_Error e))
             else case (case ir_Metadata e of None \<Rightarrow> Inl (ErrorNew ''unexpected end of JSON input'') | Some j \<Rightarrow> d j zero) of
               Inl e \<Rightarrow> Inl (Errorf (''decoding metadata from '' @ path @ '': '') e)
             | Inr x \<Rightarrow> Inr x)"

definition ic_get :: "'w ic_Client \<Rightarrow> string \<Rightarrow> 'a decoder \<Rightarrow> 'a \<Rightarrow> 'w \<Rightarrow> (err + 'a) \<times> 'w" where
  "ic_get c path d zero w =
     (case ht_NewRequest (ick_http c) MethodGet (ick_baseURL c @ path) of
        Some e \<Rightarrow> (Inl (Errorf ''creating request: '' e), w)
      | None \<Rightarrow>
          (case ht_Do (ick_http c) (ic_request c path) w of
             (Inl e, w') \<Rightarrow> (Inl (Errorf (''performing request to '' @ path @ '': '') e), w')
           | (Inr resp, w') \<Rightarrow>
               (case hr_ReadError resp of
                  Some e \<Rightarrow> (Inl (Errorf (''reading response body from '' @ path @ '': '') e), w')
                | None \<Rightarrow> (ic_answer path d zero resp, w'))))"

definition instances_query :: "'w ic_Client \<Rightarrow> url_values" where
  "instances_query c = [(''recursion'', ''2'')] @
     (if ick_allProjects c then [(''all-projects'', ''true'')]
      else if ick_project c \<noteq> [] then [(''project'', ick_project c)] else [])"

definition ListInstances :: "'w ic_Client \<Rightarrow> 'w \<Rightarrow> (err + ic_Instance list) \<times> 'w" where
  "ListInstances c w =
     (case ic_get c (''/1.0/instances?'' @ Values_Encode (instances_query c)) (dec_list no_ic_Instance dec_ic_Instance) [] w of
        (Inl e, w') \<Rightarrow> (Inl (Errorf ''listing instances: '' e), w') | (Inr is, w') \<Rightarrow> (Inr is, w'))"

subsection \<open>Addresses\<close>

definition ic_isLoopback :: "string \<Rightarrow> bool" where "ic_isLoopback = isLoopback"
definition ic_nonRoutableRanges :: "(nat list \<times> nat) list" where "ic_nonRoutableRanges = nonRoutableRanges"
definition ic_isNonRoutableIP :: "string \<Rightarrow> bool" where "ic_isNonRoutableIP = isNonRoutableIP"

definition ic_usable :: "ic_Address \<Rightarrow> bool" where
  "ic_usable a \<longleftrightarrow> ia_Family a = ''inet'' \<and> (ia_Scope a = [] \<or> ia_Scope a = ''global'') \<and> \<not> ic_isNonRoutableIP (ia_Address a)"

definition ic_ResolveIP :: "ic_Instance \<Rightarrow> string" where
  "ic_ResolveIP inst =
     (case ii_State inst of
        None \<Rightarrow> []
      | Some network \<Rightarrow>
          (let names = filter (\<lambda>name. \<not> ic_isLoopback name) (sort (map fst network)) in
           case find ic_usable (concat (map (\<lambda>name. map_get [] network name) names)) of
             None \<Rightarrow> [] | Some a \<Rightarrow> ia_Address a))"

subsection \<open>The lister\<close>

record 'w ic_Adapter =
  icl_client :: "'w ic_Client"
  icl_StateFilter :: string

definition ic_NewWorkloadListerAdapter :: "'w ic_Client \<Rightarrow> string \<Rightarrow> 'w ic_Adapter" where
  "ic_NewWorkloadListerAdapter c stateFilter =
     \<lparr>icl_client = c, icl_StateFilter = (if stateFilter = [] then ''running'' else stateFilter)\<rparr>"

definition ic_matchesFilters :: "'w ic_Adapter \<Rightarrow> ic_Instance \<Rightarrow> bool" where
  "ic_matchesFilters a inst \<longleftrightarrow> icl_StateFilter a = [] \<or> EqualFold (ii_Status inst) (icl_StateFilter a)"

definition composeLabelPrefix :: string where "composeLabelPrefix = ''user.label.''"

text \<open>A label without the prefix that exists already, also one added before, wins.\<close>

definition compose_labels :: "metadata \<Rightarrow> metadata \<Rightarrow> metadata" where
  "compose_labels cfg labels =
     fold (\<lambda>(k, v) labels.
         let stripped = drop (length composeLabelPrefix) k in
         if HasPrefix k composeLabelPrefix \<and> stripped \<noteq> [] \<and> \<not> has_key labels stripped
         then AList.update stripped v labels else labels) cfg labels"

definition defaultProject :: string where "defaultProject = ''default''"

definition ic_toWorkload :: "(metadata \<Rightarrow> metadata) \<Rightarrow> ic_Instance \<Rightarrow> string \<Rightarrow> Workload" where
  "ic_toWorkload order inst ip =
     (let project = (if ii_Project inst = [] then defaultProject else ii_Project inst) in
      \<lparr>wl_ID = project @ ''/'' @ ii_Name inst, wl_Name = ii_Name inst, wl_Namespace = [],
       wl_Labels = compose_labels (order (ii_Config inst)) (ii_Config inst), wl_Annotations = [], wl_Platform = PlatformIncus,
       wl_Kind = (if ii_Type inst = ''container'' then KindIncusContainer else KindIncusVM), wl_Hostnames = [],
       wl_Metadata = [(''project'', project), (''type'', ii_Type inst), (''status'', ii_Status inst)] @
         (if ip \<noteq> [] then [(''ip'', ip)] else [])\<rparr>)"

definition ic_ListWorkloads :: "(metadata \<Rightarrow> metadata) \<Rightarrow> 'w ic_Adapter \<Rightarrow> 'w \<Rightarrow> (err + Workload list) \<times> 'w" where
  "ic_ListWorkloads order a w =
     (case ListInstances (icl_client a) w of
        (Inl e, w') \<Rightarrow> (Inl (Errorf ''listing incus instances: '' e), w')
      | (Inr instances, w') \<Rightarrow>
          (Inr (map (\<lambda>inst. ic_toWorkload order inst (ic_ResolveIP inst)) (filter (ic_matchesFilters a) instances)), w'))"

definition ic_lister :: "(metadata \<Rightarrow> metadata) \<Rightarrow> 'w ic_Adapter \<Rightarrow> 'w Lister" where
  "ic_lister order a = \<lparr>l_ListWorkloads = (\<lambda>w. fst (ic_ListWorkloads order a w)), l_Platform = PlatformIncus\<rparr>"

subsection \<open>Events\<close>

definition EventTypeLifecycle :: string where "EventTypeLifecycle = ''lifecycle''"

record ic_Event =
  ie_Type :: string
  ie_Project :: string
  ie_Metadata :: "json option"

definition dec_ic_Event :: "ic_Event decoder" where
  "dec_ic_Event = dec_struct
     [(''type'', on_field ie_Type (\<lambda>v r. r\<lparr>ie_Type := v\<rparr>) dec_string),
      (''project'', on_field ie_Project (\<lambda>v r. r\<lparr>ie_Project := v\<rparr>) dec_string),
      (''metadata'', on_field ie_Metadata (\<lambda>v r. r\<lparr>ie_Metadata := v\<rparr>) (\<lambda>j _. Inr (Some j)))]"

record LifecycleMetadata =
  lm_Action :: string
  lm_Source :: string

definition dec_LifecycleMetadata :: "LifecycleMetadata decoder" where
  "dec_LifecycleMetadata = dec_struct
     [(''action'', on_field lm_Action (\<lambda>v r. r\<lparr>lm_Action := v\<rparr>) dec_string),
      (''source'', on_field lm_Source (\<lambda>v r. r\<lparr>lm_Source := v\<rparr>) dec_string)]"

definition ic_Action :: "ic_Event \<Rightarrow> string" where
  "ic_Action e =
     (if ie_Type e \<noteq> EventTypeLifecycle then []
      else case ie_Metadata e of
        None \<Rightarrow> []
      | Some j \<Rightarrow>
          (case dec_LifecycleMetadata j \<lparr>lm_Action = [], lm_Source = []\<rparr> of Inl _ \<Rightarrow> [] | Inr m \<Rightarrow> lm_Action m))"

definition eventsURL :: "'w ic_Client \<Rightarrow> string list \<Rightarrow> string" where
  "eventsURL c types =
     (let base = (if HasPrefix (ick_baseURL c) ''https://'' then ''wss://'' @ TrimPrefix (ick_baseURL c) ''https://''
                  else if HasPrefix (ick_baseURL c) ''http://'' then ''ws://'' @ TrimPrefix (ick_baseURL c) ''http://''
                  else ick_baseURL c);
          params = (if types \<noteq> [] then [''type='' @ Join types '',''] else []) @
            (if ick_allProjects c then [''all-projects=true'']
             else if ick_project c \<noteq> [] then [''project='' @ ick_project c] else [])
      in base @ ''/1.0/events'' @ (if params \<noteq> [] then ''?'' @ Join params ''&'' else []))"

text \<open>
  A stream that the connection delivers: its messages and the error that ends it. Messages that do not decode are
  skipped.
\<close>

definition decoded_event :: "json option \<Rightarrow> ic_Event option" where
  "decoded_event msg =
     (case msg of
        None \<Rightarrow> None
      | Some j \<Rightarrow> (case dec_ic_Event j \<lparr>ie_Type = [], ie_Project = [], ie_Metadata = None\<rparr> of Inl _ \<Rightarrow> None | Inr ev \<Rightarrow> Some ev))"

definition StreamEvents ::
  "(string \<Rightarrow> err + json option list \<times> err) \<Rightarrow> 'w ic_Client \<Rightarrow> string list \<Rightarrow> (ic_Event \<Rightarrow> 's \<Rightarrow> 's) \<Rightarrow> 's \<Rightarrow> err \<times> 's" where
  "StreamEvents dial c types handler s =
     (case dial (eventsURL c (if types = [] then [EventTypeLifecycle] else types)) of
        Inl e \<Rightarrow> (Errorf ''dialing incus events stream: '' e, s)
      | Inr (msgs, e) \<Rightarrow> (Errorf ''reading incus event: '' e, fold handler (List.map_filter decoded_event msgs) s))"

subsection \<open>The watcher\<close>

text \<open>Its fields, timers and loops are those of \<^verbatim>\<open>internal/watcher\<close>; there is no immediate trigger.\<close>

record ic_WatcherConfig =
  icw_Intervals :: ew_Config
  icw_EventTypes :: "string list"

definition ic_DefaultWatcherConfig :: ic_WatcherConfig where
  "ic_DefaultWatcherConfig =
     \<lparr>icw_Intervals = \<lparr>ew_DebounceInterval = 2 * 1000000000, ew_ReconnectInterval = 5 * 1000000000\<rparr>,
      icw_EventTypes = [EventTypeLifecycle]\<rparr>"

definition ic_NewWatcher :: "ic_WatcherConfig \<Rightarrow> int \<Rightarrow> ic_WatcherConfig \<times> event_watcher" where
  "ic_NewWatcher cfg now =
     (if icw_EventTypes cfg = [] then cfg\<lparr>icw_EventTypes := [EventTypeLifecycle]\<rparr> else cfg, ew_New now)"

definition icw_Start :: "event_watcher \<Rightarrow> event_watcher" where "icw_Start = ew_Start"
definition icw_Stop :: "event_watcher \<Rightarrow> event_watcher" where "icw_Stop = ew_Stop"
definition icw_IsRunning :: "event_watcher \<Rightarrow> bool" where "icw_IsRunning = ew_IsRunning"
definition icw_handleEvent :: "ic_WatcherConfig \<Rightarrow> ic_Event \<Rightarrow> event_watcher \<Rightarrow> event_watcher" where
  "icw_handleEvent cfg ev = ew_handleEvent (icw_Intervals cfg)"
definition icw_triggerReconcile :: "event_watcher \<Rightarrow> event_watcher" where "icw_triggerReconcile = ew_triggerReconcile"

text \<open>One round of the watch loop: the stream is consumed until it breaks.\<close>

definition icw_round ::
  "(string \<Rightarrow> err + json option list \<times> err) \<Rightarrow> 'w ic_Client \<Rightarrow> ic_WatcherConfig \<Rightarrow> event_watcher \<Rightarrow> err \<times> event_watcher" where
  "icw_round dial c cfg = StreamEvents dial c (icw_EventTypes cfg) (icw_handleEvent cfg)"


subsection \<open>Guests and their addresses\<close>

lemma ic_ResolveIP_sound: "ic_ResolveIP inst = [] \<or> \<not> isNonRoutableIP (ic_ResolveIP inst)"
  by (auto simp: ic_ResolveIP_def ic_usable_def ic_isNonRoutableIP_def Let_def dest!: find_Some_mem split: option.splits)

text \<open>What both listers put into the metadata of a workload.\<close>

definition guest_ip_ok :: "Workload \<Rightarrow> bool" where
  "guest_ip_ok wl \<longleftrightarrow> map_get [] (wl_Metadata wl) ''ip'' = [] \<or> \<not> isNonRoutableIP (map_get [] (wl_Metadata wl) ''ip'')"

lemma pve_guest_ip: "ip = [] \<or> \<not> isNonRoutableIP ip \<Longrightarrow> guest_ip_ok (pve_toWorkload r ip)"
  by (auto simp: guest_ip_ok_def pve_toWorkload_def map_get_def)

lemma ic_guest_ip: "ip = [] \<or> \<not> isNonRoutableIP ip \<Longrightarrow> guest_ip_ok (ic_toWorkload order inst ip)"
  by (auto simp: guest_ip_ok_def ic_toWorkload_def map_get_def Let_def)

lemma guest_platform [simp]:
  "wl_Platform (pve_toWorkload r ip) = PlatformProxmox" "wl_Platform (ic_toWorkload order inst ip) = PlatformIncus"
  by (simp_all add: pve_toWorkload_def ic_toWorkload_def Let_def)

lemma listed_guest_ip:
  "fst (pve_ListWorkloads a w) = Inr ws \<Longrightarrow> wl \<in> set ws \<Longrightarrow> guest_ip_ok wl \<and> wl_Platform wl = PlatformProxmox"
  "fst (ic_ListWorkloads order b w) = Inr ws \<Longrightarrow> wl \<in> set ws \<Longrightarrow> guest_ip_ok wl \<and> wl_Platform wl = PlatformIncus"
proof -
  assume "fst (pve_ListWorkloads a w) = Inr ws" "wl \<in> set ws"
  then obtain rs u where "wl \<in> set (fst (pve_workloads a rs u))"
    by (auto simp: pve_ListWorkloads_def split: prod.splits sum.splits)
  then show "guest_ip_ok wl \<and> wl_Platform wl = PlatformProxmox"
    by (auto dest!: pve_workloads_sound intro: pve_guest_ip)
next
  assume "fst (ic_ListWorkloads order b w) = Inr ws" "wl \<in> set ws"
  then show "guest_ip_ok wl \<and> wl_Platform wl = PlatformIncus"
    by (auto simp: ic_ListWorkloads_def intro: ic_guest_ip [OF ic_ResolveIP_sound] split: prod.splits sum.splits)
qed


text \<open>A cluster with one virtual machine, whose agent reports a loopback, a link-local and a private address.\<close>

definition demo_agent_ip :: "string \<Rightarrow> json" where
  "demo_agent_ip ip = JObj [(''ip-address-type'', JStr ''ipv4''), (''ip-address'', JStr ip)]"

definition demo_cluster :: "unit http" where
  "demo_cluster = \<lparr>ht_NewRequest = (\<lambda>_ _. None), ht_Do = (\<lambda>req w. (Inr \<lparr>hr_StatusCode = 200, hr_Body = [], hr_ReadError = None,
     hr_Json = Some (JObj [(''data'',
       if HasSuffix (hq_URL req) ''?type=vm''
       then JArr [JObj [(''vmid'', JInt 101), (''name'', JStr ''web.ex.com''), (''node'', JStr ''pve1''), (''type'', JStr ''qemu''),
                        (''status'', JStr ''running'')]]
       else JObj [(''result'', JArr
         [JObj [(''name'', JStr ''eth0''),
                (''ip-addresses'', JArr [demo_agent_ip ''127.0.0.1'', demo_agent_ip ''169.254.0.5'', demo_agent_ip ''10.0.0.5''])]])])])\<rparr>,
     w))\<rparr>"

definition demo_pve_adapter :: "unit pve_Adapter" where
  "demo_pve_adapter = pve_NewWorkloadListerAdapter
     \<lparr>pvk_baseURL = ''https://pve'', pvk_tokenHeader = [], pvk_http = demo_cluster\<rparr>
     \<lparr>pva_NodeFilter = [], pva_TagFilter = [], pva_StateFilter = [], pva_InterfacePreference = [], pva_AllowedInterfaces = []\<rparr>"

definition demo_guest :: Workload where
  "demo_guest = pve_toWorkload \<lparr>cr_VMID = 101, cr_Name = ''web.ex.com'', cr_Node = ''pve1'', cr_Type = ''qemu'',
     cr_Status = ''running'', cr_Tags = []\<rparr> ''10.0.0.5''"


end
