(* ===== verification/TraefikSource.thy ===== *)
theory TraefikSource
  imports SourceRegistry GoStd
begin

text \<open>
  \<^verbatim>\<open>sources/traefik\<close> and \<^verbatim>\<open>pkg/source/discovery.go\<close>: hostnames from the \<^verbatim>\<open>Host()\<close> matchers of Traefik router
  rules, in labels and in configuration files, fanned out over the entrypoints of the router. The order in
  which Go ranges over labels and routers is an argument of each loop. The YAML and TOML decoders are
  third-party code and arguments. Cancellation of the context and log lines are left out.
\<close>

subsection \<open>Rules\<close>

abbreviation backtick :: char where "backtick \<equiv> CHR 0x60"

text \<open>
  The regular expression \<^verbatim>\<open>Host\(`([^`]+)`\)\<close> at the start of a text: the captured name and what follows
  the match.
\<close>

definition host_at :: "string \<Rightarrow> (string \<times> string) option" where
  "host_at s =
     (if \<not> HasPrefix s (''Host('' @ [backtick]) then None
      else let t = drop 6 s; h = takeWhile (\<lambda>c. c \<noteq> backtick) t; r = dropWhile (\<lambda>c. c \<noteq> backtick) t
           in if h \<noteq> [] \<and> HasPrefix r [backtick, CHR '')''] then Some (h, drop 2 r) else None)"

lemma host_at_Some:
  "host_at s = Some (h, r) \<longleftrightarrow>
    s = ''Host('' @ backtick # h @ backtick # CHR '')'' # r \<and> h \<noteq> [] \<and> backtick \<notin> set h"
proof
  assume "host_at s = Some (h, r)"
  then have p: "HasPrefix s (''Host('' @ [backtick])" "h \<noteq> []"
    and h: "h = takeWhile (\<lambda>c. c \<noteq> backtick) (drop 6 s)"
    and r: "HasPrefix (dropWhile (\<lambda>c. c \<noteq> backtick) (drop 6 s)) [backtick, CHR '')'']"
      "r = drop 2 (dropWhile (\<lambda>c. c \<noteq> backtick) (drop 6 s))"
    by (auto simp: host_at_def Let_def split: if_splits)
  have "s = ''Host('' @ backtick # drop 6 s" using p(1) by (auto simp: HasPrefix_iff)
  also have "drop 6 s = h @ dropWhile (\<lambda>c. c \<noteq> backtick) (drop 6 s)" using h by simp
  also have "dropWhile (\<lambda>c. c \<noteq> backtick) (drop 6 s) = backtick # CHR '')'' # r"
    using r by (auto simp: HasPrefix_iff)
  finally show "s = ''Host('' @ backtick # h @ backtick # CHR '')'' # r \<and> h \<noteq> [] \<and> backtick \<notin> set h"
    using p(2) h by (auto dest: set_takeWhileD)
next
  assume "s = ''Host('' @ backtick # h @ backtick # CHR '')'' # r \<and> h \<noteq> [] \<and> backtick \<notin> set h"
  then show "host_at s = Some (h, r)" by (auto simp: host_at_def HasPrefix_def takeWhile_append dropWhile_append)
qed

text \<open>\<^verbatim>\<open>FindAllStringSubmatch\<close>: the leftmost match, then the matches after it.\<close>

function find_hosts :: "string \<Rightarrow> string list" where
  "find_hosts [] = []"
| "find_hosts (c # s) =
     (case host_at (c # s) of Some (h, r) \<Rightarrow> h # find_hosts r | None \<Rightarrow> find_hosts s)"
  by pat_completeness auto

termination find_hosts
  by (relation "measure length") (auto simp: host_at_Some)

fun keep_hosts :: "string list \<Rightarrow> string list \<Rightarrow> string list" where
  "keep_hosts seen [] = []"
| "keep_hosts seen (m # ms) =
     (let hostname = TrimSpace m in
      if hostname = [] then keep_hosts seen ms
      else if hostname \<in> set seen then keep_hosts seen ms
      else hostname # keep_hosts (hostname # seen) ms)"

definition extractHostsFromRule :: "string \<Rightarrow> string list" where
  "extractHostsFromRule rule = keep_hosts [] (find_hosts rule)"

subsection \<open>Labels\<close>

record HostnameExtraction =
  he_Hostname :: string
  he_Router :: string
  he_EntryPoint :: string

definition routerLabelPrefix :: string where "routerLabelPrefix = ''traefik.http.routers.''"
definition routerRuleSuffix :: string where "routerRuleSuffix = ''.rule''"
definition routerEntryPointsSuffix :: string where "routerEntryPointsSuffix = ''.entrypoints''"
definition MetadataKeyEntryPoint :: string where "MetadataKeyEntryPoint = ''traefik.entrypoint''"

definition extractRouterWithSuffix :: "string \<Rightarrow> string \<Rightarrow> string" where
  "extractRouterWithSuffix key suf =
     (if \<not> HasPrefix key routerLabelPrefix then []
      else if \<not> HasSuffix key suf then []
      else let withoutPrefix = TrimPrefix key routerLabelPrefix; withoutSuffix = TrimSuffix withoutPrefix suf
           in if withoutSuffix = [] then [] else if Contains withoutSuffix ''.'' then [] else withoutSuffix)"

definition extractRouterName :: "string \<Rightarrow> string" where
  "extractRouterName key = extractRouterWithSuffix key routerRuleSuffix"

definition extractRouterFromEntryPointsLabel :: "string \<Rightarrow> string" where
  "extractRouterFromEntryPointsLabel key = extractRouterWithSuffix key routerEntryPointsSuffix"

definition splitAndTrim :: "string \<Rightarrow> string list" where
  "splitAndTrim value = filter (\<lambda>p. p \<noteq> []) (map TrimSpace (Split value (CHR '','')))"

fun collect_entrypoints ::
  "(string, string) gomap \<Rightarrow> string list \<Rightarrow> (string, string list) gomap \<Rightarrow> (string, string list) gomap" where
  "collect_entrypoints labels [] m = m"
| "collect_entrypoints labels (key # keys) m =
     (let router = extractRouterFromEntryPointsLabel key in
      if router = [] then collect_entrypoints labels keys m
      else let eps = splitAndTrim (map_get [] labels key) in
        if length eps > 0 then collect_entrypoints labels keys (AList.update router eps m)
        else collect_entrypoints labels keys m)"

type_synonym emitted = "(string \<times> string) list \<times> HostnameExtraction list"

fun emit_entrypoints :: "string \<Rightarrow> string \<Rightarrow> string list \<Rightarrow> emitted \<Rightarrow> emitted" where
  "emit_entrypoints router hostname [] st = st"
| "emit_entrypoints router hostname (ep # eps) (seen, out) =
     (if (hostname, ep) \<in> set seen then emit_entrypoints router hostname eps (seen, out)
      else emit_entrypoints router hostname eps
        ((hostname, ep) # seen, out @ [\<lparr>he_Hostname = hostname, he_Router = router, he_EntryPoint = ep\<rparr>]))"

fun emit_hosts :: "string \<Rightarrow> string list \<Rightarrow> string list \<Rightarrow> emitted \<Rightarrow> emitted" where
  "emit_hosts router entryPoints [] st = st"
| "emit_hosts router entryPoints (hostname # hosts) (seen, out) =
     (if length entryPoints = 0 then
        (if (hostname, []) \<in> set seen then emit_hosts router entryPoints hosts (seen, out)
         else emit_hosts router entryPoints hosts
           ((hostname, []) # seen, out @ [\<lparr>he_Hostname = hostname, he_Router = router, he_EntryPoint = []\<rparr>]))
      else emit_hosts router entryPoints hosts (emit_entrypoints router hostname entryPoints (seen, out)))"

fun walk_rules :: "string list \<Rightarrow> (string, string list) gomap \<Rightarrow> (string, string) gomap \<Rightarrow> string list \<Rightarrow> emitted \<Rightarrow> emitted" where
  "walk_rules defaultEntryPoints routerEntryPoints labels [] st = st"
| "walk_rules defaultEntryPoints routerEntryPoints labels (key # keys) st =
     (let router = extractRouterName key in
      if router = [] then walk_rules defaultEntryPoints routerEntryPoints labels keys st
      else let hosts = extractHostsFromRule (map_get [] labels key);
               eps = map_get [] routerEntryPoints router;
               entryPoints = (if length eps = 0 \<and> length defaultEntryPoints > 0 then defaultEntryPoints else eps)
           in walk_rules defaultEntryPoints routerEntryPoints labels keys (emit_hosts router entryPoints hosts st))"

definition tf_ExtractHostnames ::
  "string iteration \<Rightarrow> string iteration \<Rightarrow> string list \<Rightarrow> (string, string) gomap \<Rightarrow> HostnameExtraction list" where
  "tf_ExtractHostnames it1 it2 defaultEntryPoints labels =
     (let routerEntryPoints = collect_entrypoints labels (it1 (map fst labels)) []
      in snd (walk_rules defaultEntryPoints routerEntryPoints labels (it2 (map fst labels)) ([], [])))"

definition ExtractHosts :: "string iteration \<Rightarrow> string iteration \<Rightarrow> string list \<Rightarrow> (string, string) gomap \<Rightarrow> string list" where
  "ExtractHosts it1 it2 defaultEntryPoints labels = map he_Hostname (tf_ExtractHostnames it1 it2 defaultEntryPoints labels)"

subsection \<open>Configuration files\<close>

record FileDiscoveryConfig =
  fd_FilePaths :: "string list"
  fd_FilePattern :: string
  fd_PollInterval :: int
  fd_WatchMethod :: string

definition DefaultFileDiscoveryConfig :: FileDiscoveryConfig where
  "DefaultFileDiscoveryConfig = \<lparr>fd_FilePaths = [], fd_FilePattern = [], fd_PollInterval = 60 * 1000000000,
     fd_WatchMethod = ''auto''\<rparr>"

definition fd_IsEnabled :: "FileDiscoveryConfig \<Rightarrow> bool" where
  "fd_IsEnabled c \<longleftrightarrow> length (fd_FilePaths c) > 0"

definition ParseWatchMethod :: "string \<Rightarrow> string" where
  "ParseWatchMethod s = (if s = ''inotify'' then ''inotify'' else if s = ''poll'' then ''poll'' else ''auto'')"

record traefikRouter =
  tr_Rule :: string
  tr_EntryPoints :: "string list"

text \<open>
  \<^verbatim>\<open>traefikFileConfig\<close>: both pointers may be nil, and so may be the router under a key, when the file gives
  it no value.
\<close>

type_synonym traefikHTTPConfig = "(string, traefikRouter option) gomap option"
type_synonym traefikFileConfig = "traefikHTTPConfig option"

text \<open>The file system calls and the two decoders.\<close>

record 'w config_files =
  cf_Stat :: "string \<Rightarrow> 'w \<Rightarrow> fs_error + bool"
  cf_WalkDir :: "string \<Rightarrow> 'w \<Rightarrow> (err + string \<times> string \<times> bool) list"   \<comment> \<open>path, name, directory\<close>
  cf_ReadFile :: "string \<Rightarrow> 'w \<Rightarrow> err + string"
  cf_yaml :: "string \<Rightarrow> err + traefikFileConfig"
  cf_toml :: "string \<Rightarrow> err + traefikFileConfig"

fun matchesAnyPattern :: "string \<Rightarrow> string list \<Rightarrow> bool" where
  "matchesAnyPattern name [] \<longleftrightarrow> False"
| "matchesAnyPattern name (pattern # patterns) \<longleftrightarrow>
     (case path_Match pattern name of
        Inl _ \<Rightarrow> matchesAnyPattern name patterns
      | Inr matched \<Rightarrow> if matched then True else matchesAnyPattern name patterns)"

fun walk_entries :: "string list \<Rightarrow> (err + string \<times> string \<times> bool) list \<Rightarrow> string list \<Rightarrow> err + string list" where
  "walk_entries patterns [] out = Inr out"
| "walk_entries patterns (Inl e # es) out = Inl e"
| "walk_entries patterns (Inr (path, name, isDir) # es) out =
     (if isDir then walk_entries patterns es out
      else if matchesAnyPattern name patterns then walk_entries patterns es (out @ [path])
      else walk_entries patterns es out)"

definition findFilesInDir :: "'w config_files \<Rightarrow> string \<Rightarrow> string list \<Rightarrow> 'w \<Rightarrow> err + string list" where
  "findFilesInDir fs dir patterns w =
     (case walk_entries patterns (cf_WalkDir fs dir w) [] of
        Inl e \<Rightarrow> Inl (Errorf (''walking directory '' @ dir @ '': '') e)
      | Inr matches \<Rightarrow> Inr matches)"

text \<open>A router without a value makes the code dereference a nil pointer: \<open>None\<close>.\<close>

fun config_extractions :: "string list \<Rightarrow> (string, traefikRouter option) gomap \<Rightarrow> string list \<Rightarrow> HostnameExtraction list option" where
  "config_extractions defaultEntryPoints routers [] = Some []"
| "config_extractions defaultEntryPoints routers (routerName # names) =
     (case map_get None routers routerName of
        None \<Rightarrow> None
      | Some router \<Rightarrow>
          if tr_Rule router = [] then config_extractions defaultEntryPoints routers names
          else let hosts = extractHostsFromRule (tr_Rule router);
                   eps = (if length (tr_EntryPoints router) = 0 \<and> length defaultEntryPoints > 0
                          then defaultEntryPoints else tr_EntryPoints router);
                   es = concat (map (\<lambda>hostname.
                     if length eps = 0 then [\<lparr>he_Hostname = hostname, he_Router = routerName, he_EntryPoint = []\<rparr>]
                     else map (\<lambda>ep. \<lparr>he_Hostname = hostname, he_Router = routerName, he_EntryPoint = ep\<rparr>) eps) hosts)
               in map_option (append es) (config_extractions defaultEntryPoints routers names))"

definition extractFromConfig :: "string iteration \<Rightarrow> string list \<Rightarrow> traefikFileConfig \<Rightarrow> HostnameExtraction list option" where
  "extractFromConfig it defaultEntryPoints config =
     (case config of None \<Rightarrow> Some [] | Some None \<Rightarrow> Some []
      | Some (Some routers) \<Rightarrow> config_extractions defaultEntryPoints routers (it (map fst routers)))"

definition parseYAMLFile :: "'w config_files \<Rightarrow> string iteration \<Rightarrow> string list \<Rightarrow> string \<Rightarrow> 'w \<Rightarrow> (err + HostnameExtraction list) option" where
  "parseYAMLFile fs it defaultEntryPoints path w =
     (case cf_ReadFile fs path w of
        Inl e \<Rightarrow> Some (Inl (Errorf ''reading file: '' e))
      | Inr data \<Rightarrow>
          (case cf_yaml fs data of
             Inl e \<Rightarrow> Some (Inl (Errorf ''parsing YAML: '' e))
           | Inr config \<Rightarrow> map_option Inr (extractFromConfig it defaultEntryPoints config)))"

definition parseTOMLFile :: "'w config_files \<Rightarrow> string iteration \<Rightarrow> string list \<Rightarrow> string \<Rightarrow> 'w \<Rightarrow> (err + HostnameExtraction list) option" where
  "parseTOMLFile fs it defaultEntryPoints path w =
     (case cf_ReadFile fs path w of
        Inl e \<Rightarrow> Some (Inl (Errorf ''reading file: '' e))
      | Inr data \<Rightarrow>
          (case cf_toml fs data of
             Inl e \<Rightarrow> Some (Inl (Errorf ''parsing TOML: '' e))
           | Inr config \<Rightarrow> map_option Inr (extractFromConfig it defaultEntryPoints config)))"

definition parseConfigFile :: "'w config_files \<Rightarrow> string iteration \<Rightarrow> string list \<Rightarrow> string \<Rightarrow> 'w \<Rightarrow> (err + HostnameExtraction list) option" where
  "parseConfigFile fs it defaultEntryPoints path w =
     (let ext = ToLower (path_Ext path) in
      if ext = ''.toml'' then parseTOMLFile fs it defaultEntryPoints path w
      else if ext = ''.yml'' \<or> ext = ''.yaml'' then parseYAMLFile fs it defaultEntryPoints path w
      else parseYAMLFile fs it defaultEntryPoints path w)"

fun discover_paths :: "'w config_files \<Rightarrow> string list \<Rightarrow> string list \<Rightarrow> 'w \<Rightarrow> err + string list" where
  "discover_paths fs patterns [] w = Inr []"
| "discover_paths fs patterns (path # paths) w =
     (case cf_Stat fs path w of
        Inl (NotExist _) \<Rightarrow> discover_paths fs patterns paths w
      | Inl (FsFailure e) \<Rightarrow> Inl (Errorf (''stat '' @ path @ '': '') e)
      | Inr isDir \<Rightarrow>
          if isDir then
            (case findFilesInDir fs path patterns w of
               Inl e \<Rightarrow> Inl e
             | Inr files \<Rightarrow> map_sum id (append files) (discover_paths fs patterns paths w))
          else if matchesAnyPattern (path_Base path) patterns
          then map_sum id (Cons path) (discover_paths fs patterns paths w)
          else discover_paths fs patterns paths w)"

fun add_extractions :: "HostnameExtraction list \<Rightarrow> emitted \<Rightarrow> emitted" where
  "add_extractions [] st = st"
| "add_extractions (e # es) (seen, out) =
     (if (he_Hostname e, he_EntryPoint e) \<in> set seen then add_extractions es (seen, out)
      else add_extractions es ((he_Hostname e, he_EntryPoint e) # seen, out @ [e]))"

fun parse_files :: "'w config_files \<Rightarrow> string iteration \<Rightarrow> string list \<Rightarrow> string list \<Rightarrow> 'w \<Rightarrow> emitted \<Rightarrow> HostnameExtraction list option" where
  "parse_files fs it defaultEntryPoints [] w st = Some (snd st)"
| "parse_files fs it defaultEntryPoints (file # files) w st =
     (case parseConfigFile fs it defaultEntryPoints file w of
        None \<Rightarrow> None
      | Some (Inl _) \<Rightarrow> parse_files fs it defaultEntryPoints files w st
      | Some (Inr es) \<Rightarrow> parse_files fs it defaultEntryPoints files w (add_extractions es st))"

definition DiscoverFromFiles ::
  "'w config_files \<Rightarrow> string iteration \<Rightarrow> string list \<Rightarrow> string list \<Rightarrow> string \<Rightarrow> 'w \<Rightarrow> (err + HostnameExtraction list) option" where
  "DiscoverFromFiles fs it defaultEntryPoints paths pattern w =
     (let patterns = map TrimSpace (Split pattern (CHR '','')) in
      case discover_paths fs patterns paths w of
        Inl e \<Rightarrow> Some (Inl e)
      | Inr allFiles \<Rightarrow> map_option Inr (parse_files fs it defaultEntryPoints allFiles w ([], [])))"

subsection \<open>The source\<close>

record Traefik =
  tk_fileConfig :: FileDiscoveryConfig
  tk_defaultEntryPoints :: "string list"

definition DefaultFilePattern :: string where "DefaultFilePattern = ''*.yml,*.yaml,*.toml''"

definition WithFileDiscovery :: "FileDiscoveryConfig \<Rightarrow> Traefik \<Rightarrow> Traefik" where
  "WithFileDiscovery config t =
     t\<lparr>tk_fileConfig := (if fd_FilePattern config = [] then config\<lparr>fd_FilePattern := DefaultFilePattern\<rparr> else config)\<rparr>"

definition WithDefaultEntryPoints :: "string list \<Rightarrow> Traefik \<Rightarrow> Traefik" where
  "WithDefaultEntryPoints eps t = t\<lparr>tk_defaultEntryPoints := eps\<rparr>"

definition tf_New :: "(Traefik \<Rightarrow> Traefik) list \<Rightarrow> Traefik" where
  "tf_New opts = fold (\<lambda>opt t. opt t) opts \<lparr>tk_fileConfig = DefaultFileDiscoveryConfig, tk_defaultEntryPoints = []\<rparr>"

definition entryPointMetadata :: "string \<Rightarrow> metadata" where
  "entryPointMetadata entrypoint = (if entrypoint = [] then [] else [(MetadataKeyEntryPoint, entrypoint)])"

definition tf_hostname :: "HostnameExtraction \<Rightarrow> Hostname" where
  "tf_hostname e = \<lparr>h_Name = he_Hostname e, h_Source = ''traefik'', h_Router = he_Router e,
     h_RecordHints = None, h_Metadata = entryPointMetadata (he_EntryPoint e)\<rparr>"

definition tf_Extract :: "string iteration \<Rightarrow> string iteration \<Rightarrow> Traefik \<Rightarrow> Workload \<Rightarrow> err + Hostnames" where
  "tf_Extract it1 it2 t w =
     (if wl_Labels w = [] then Inr []
      else Inr (map tf_hostname (tf_ExtractHostnames it1 it2 (tk_defaultEntryPoints t) (wl_Labels w))))"

definition tf_Discover :: "'w config_files \<Rightarrow> string iteration \<Rightarrow> Traefik \<Rightarrow> 'w \<Rightarrow> (err + Hostnames) option" where
  "tf_Discover fs it t w =
     (if \<not> fd_IsEnabled (tk_fileConfig t) then Some (Inr [])
      else map_option (map_sum id (map tf_hostname))
        (DiscoverFromFiles fs it (tk_defaultEntryPoints t) (fd_FilePaths (tk_fileConfig t)) (fd_FilePattern (tk_fileConfig t)) w))"

subsection \<open>Rules are read back\<close>

text \<open>
  A rule as its author writes it: connectives and parentheses, \<^verbatim>\<open>Host\<close> matchers, and other matchers
  such as \<^verbatim>\<open>PathPrefix\<close> with a quoted argument.
\<close>

datatype rule_part = Text string | Host string | Matcher string string

fun part_text :: "rule_part \<Rightarrow> string" where
  "part_text (Text t) = t"
| "part_text (Host h) = ''Host('' @ backtick # h @ backtick # '')''"
| "part_text (Matcher f a) = f @ ''('' @ backtick # a @ backtick # '')''"

fun part_ok :: "rule_part \<Rightarrow> bool" where
  "part_ok (Text t) \<longleftrightarrow> backtick \<notin> set t"
| "part_ok (Host h) \<longleftrightarrow> h \<noteq> [] \<and> backtick \<notin> set h"
| "part_ok (Matcher f a) \<longleftrightarrow> length f \<ge> 4 \<and> \<not> HasSuffix f ''Host'' \<and> backtick \<notin> set f \<and>
     backtick \<notin> set a \<and> \<not> HasSuffix a ''Host(''"

fun part_hosts :: "rule_part \<Rightarrow> string list" where
  "part_hosts (Host h) = [h]"
| "part_hosts _ = []"

definition rule_text :: "rule_part list \<Rightarrow> string" where
  "rule_text ps = concat (map part_text ps)"

definition rule_hosts :: "rule_part list \<Rightarrow> string list" where
  "rule_hosts ps = concat (map part_hosts ps)"

text \<open>No \<^verbatim>\<open>Host\<close> matcher starts in a text put before \<open>s\<close>.\<close>

definition closed_before :: "string \<Rightarrow> bool" where
  "closed_before s \<longleftrightarrow> (\<forall>b t. b \<noteq> [] \<longrightarrow> backtick \<notin> set b \<longrightarrow> b @ s \<noteq> ''Host('' @ backtick # t)"

lemma host_at_None: "(\<And>t. s \<noteq> ''Host('' @ backtick # t) \<Longrightarrow> host_at s = None"
  using host_at_Some [of s] by (cases "host_at s") auto

lemma find_hosts_skip:
  assumes "\<And>a b t. u = a @ b \<Longrightarrow> b \<noteq> [] \<Longrightarrow> b @ v \<noteq> ''Host('' @ backtick # t"
  shows "find_hosts (u @ v) = find_hosts v"
  using assms
proof (induction u)
  case (Cons c u)
  have "host_at (c # u @ v) = None"
    using Cons.prems [of "[]" "c # u"] by (intro host_at_None) simp
  moreover have "find_hosts (u @ v) = find_hosts v"
    by (rule Cons.IH) (metis Cons.prems append_Cons)
  ultimately show ?case by simp
qed simp

lemma find_hosts_closed: "backtick \<notin> set u \<Longrightarrow> closed_before s \<Longrightarrow> find_hosts (u @ s) = find_hosts s"
  by (rule find_hosts_skip) (simp add: closed_before_def)

lemma first_backtick:
  assumes "backtick \<notin> set u" "backtick \<notin> set v" "u @ backtick # x = v @ backtick # y"
  shows "u = v"
proof -
  have "takeWhile (\<lambda>c. c \<noteq> backtick) (w @ backtick # z) = w" if "backtick \<notin> set w" for w z
    using that by (simp add: takeWhile_append)
  then show ?thesis using assms by metis
qed

lemma find_hosts_quoted:
  assumes "backtick \<notin> set u" "\<not> HasSuffix u ''Host(''"
  shows "find_hosts (u @ backtick # s) = find_hosts s"
proof -
  have "find_hosts (u @ backtick # s) = find_hosts (backtick # s)"
  proof (rule find_hosts_skip)
    fix a b t assume u: "u = a @ b"
    show "b @ backtick # s \<noteq> ''Host('' @ backtick # t"
    proof
      assume t: "b @ backtick # s = ''Host('' @ backtick # t"
      have "backtick \<notin> set b" "backtick \<notin> set ''Host(''" using assms(1) u by simp_all
      then have "b = ''Host(''" using t by (rule first_backtick)
      then show False using assms(2) u by (simp add: HasSuffix_iff)
    qed
  qed
  also have "\<dots> = find_hosts s" by (simp add: host_at_None)
  finally show ?thesis .
qed

lemma closed_before_quoted:
  assumes "backtick \<notin> set u" "length u \<ge> 5" shows "closed_before (u @ backtick # s)"
  unfolding closed_before_def
proof (intro allI impI notI)
  fix b t assume b: "b \<noteq> []" "backtick \<notin> set b" "b @ u @ backtick # s = ''Host('' @ backtick # t"
  have "b @ u = ''Host(''" by (rule first_backtick) (use b assms in auto)
  then have "length (b @ u) = 5" by simp
  with b(1) assms(2) show False by (cases b) simp_all
qed

lemma closed_before_append: "backtick \<notin> set u \<Longrightarrow> closed_before s \<Longrightarrow> closed_before (u @ s)"
  by (auto simp: closed_before_def simp flip: append_assoc)

lemma rule_text_hosts:
  assumes "list_all part_ok ps"
  shows "closed_before (rule_text ps) \<and> find_hosts (rule_text ps) = rule_hosts ps"
  using assms
proof (induction ps)
  case Nil
  show ?case by (auto simp: rule_text_def rule_hosts_def closed_before_def)
next
  case (Cons p ps)
  then have ok: "part_ok p" and IH: "closed_before (rule_text ps)" "find_hosts (rule_text ps) = rule_hosts ps" by simp_all
  let ?s = "rule_text ps"
  have s: "rule_text (p # ps) = part_text p @ ?s" by (simp add: rule_text_def)
  have h: "rule_hosts (p # ps) = part_hosts p @ rule_hosts ps" by (simp add: rule_hosts_def)
  show ?case
  proof (cases p)
    case (Text t)
    then show ?thesis using ok IH s h by (simp add: closed_before_append find_hosts_closed)
  next
    case (Host n)
    have t: "rule_text (p # ps) = CHR ''H'' # ''ost('' @ backtick # n @ backtick # '')'' @ ?s" using s [unfolded Host] Host by simp
    then have "host_at (rule_text (p # ps)) = Some (n, ?s)" using ok Host by (simp add: host_at_Some)
    then have "find_hosts (rule_text (p # ps)) = n # find_hosts ?s" unfolding t by simp
    moreover have "closed_before (rule_text (p # ps))"
      unfolding t using closed_before_quoted [of "''Host(''"] by simp
    ultimately show ?thesis using h Host IH by simp
  next
    case (Matcher f a)
    have t: "rule_text (p # ps) = (f @ ''('') @ backtick # (a @ backtick # ('')'' @ ?s))" using s Matcher by simp
    have f: "\<not> HasSuffix (f @ ''('') ''Host(''" using ok Matcher by (auto simp: HasSuffix_iff append_eq_append_conv2)
    have "find_hosts (rule_text (p # ps)) = find_hosts (a @ backtick # ('')'' @ ?s))"
      unfolding t by (rule find_hosts_quoted) (use ok Matcher f in auto)
    also have "\<dots> = find_hosts ('')'' @ ?s)"
      by (rule find_hosts_quoted) (use ok Matcher in auto)
    also have "\<dots> = find_hosts ?s" using IH by (intro find_hosts_closed) auto
    finally have "find_hosts (rule_text (p # ps)) = find_hosts ?s" .
    moreover have "closed_before (rule_text (p # ps))"
      unfolding t using ok Matcher by (intro closed_before_quoted) auto
    ultimately show ?thesis using h Matcher IH by simp
  qed
qed

lemma keep_hosts_eq: "keep_hosts seen ms = first_by id seen (filter (\<lambda>h. h \<noteq> []) (map TrimSpace ms))"
  by (induction ms arbitrary: seen) (auto simp: Let_def)

lemma extractHostsFromRule_eq:
  "extractHostsFromRule rule = first_by id [] (filter (\<lambda>h. h \<noteq> []) (map TrimSpace (find_hosts rule)))"
  by (simp add: extractHostsFromRule_def keep_hosts_eq)

subsection \<open>What the labels declare\<close>

text \<open>All loops keep the first extraction for a hostname and an entrypoint.\<close>

abbreviation extraction_key :: "HostnameExtraction \<Rightarrow> string \<times> string" where
  "extraction_key e \<equiv> (he_Hostname e, he_EntryPoint e)"

definition fan_out :: "string \<Rightarrow> string list \<Rightarrow> string list \<Rightarrow> HostnameExtraction list" where
  "fan_out router eps hosts =
     concat (map (\<lambda>h. map (\<lambda>ep. \<lparr>he_Hostname = h, he_Router = router, he_EntryPoint = ep\<rparr>)
       (if eps = [] then [[]] else eps)) hosts)"

definition rule_extractions ::
  "string list \<Rightarrow> (string, string list) gomap \<Rightarrow> (string, string) gomap \<Rightarrow> string \<Rightarrow> HostnameExtraction list" where
  "rule_extractions defaultEntryPoints rep labels key =
     (let router = extractRouterName key; eps = map_get [] rep router in
      if router = [] then []
      else fan_out router (if eps = [] then defaultEntryPoints else eps) (extractHostsFromRule (map_get [] labels key)))"

lemma add_extractions_eq:
  "add_extractions es (seen, out) =
    (rev (map extraction_key (first_by extraction_key seen es)) @ seen, out @ first_by extraction_key seen es)"
  by (induction es "(seen, out)" arbitrary: seen out rule: add_extractions.induct) auto

lemma add_extractions_append: "add_extractions (es @ fs) st = add_extractions fs (add_extractions es st)"
proof (induction es arbitrary: st)
  case (Cons e es)
  then show ?case by (cases st) simp
qed simp

lemma emit_entrypoints_eq:
  "emit_entrypoints router h eps st =
    add_extractions (map (\<lambda>ep. \<lparr>he_Hostname = h, he_Router = router, he_EntryPoint = ep\<rparr>) eps) st"
proof (induction eps arbitrary: st)
  case (Cons ep eps)
  then show ?case by (cases st) simp
qed simp

lemma emit_hosts_eq: "emit_hosts router eps hosts st = add_extractions (fan_out router eps hosts) st"
proof (induction hosts arbitrary: st)
  case Nil
  then show ?case by (simp add: fan_out_def)
next
  case (Cons h hosts)
  then show ?case
    by (cases st; cases "eps = []") (simp_all add: fan_out_def add_extractions_append emit_entrypoints_eq)
qed

lemma walk_rules_eq:
  "walk_rules defaults rep labels keys st = add_extractions (concat (map (rule_extractions defaults rep labels) keys)) st"
proof (induction keys arbitrary: st)
  case (Cons key keys)
  then show ?case by (cases st) (auto simp: rule_extractions_def Let_def emit_hosts_eq add_extractions_append)
qed simp

lemma tf_ExtractHostnames_eq:
  "tf_ExtractHostnames it1 it2 defaults labels =
    first_by extraction_key [] (concat (map (rule_extractions defaults
      (collect_entrypoints labels (it1 (map fst labels)) []) labels) (it2 (map fst labels))))"
  by (simp add: tf_ExtractHostnames_def walk_rules_eq add_extractions_eq)

text \<open>
  A router label is the prefix, a name without dots and the suffix. The label without a name in between
  is the exception: prefix and suffix may overlap in a dot, and then the suffix is taken for a name.
\<close>

definition router_name :: "string \<Rightarrow> bool" where
  "router_name r \<longleftrightarrow> r \<noteq> [] \<and> CHR ''.'' \<notin> set r"

definition overlap_label :: "string \<Rightarrow> string" where
  "overlap_label suf = ''traefik.http.routers'' @ suf"

lemma extractRouterWithSuffix_iff:
  assumes suf: "suf = CHR ''.'' # tail" "CHR ''.'' \<notin> set tail" and key: "key \<noteq> overlap_label suf"
  shows "extractRouterWithSuffix key suf = r \<and> r \<noteq> [] \<longleftrightarrow> router_name r \<and> key = routerLabelPrefix @ r @ suf"
proof
  assume r: "extractRouterWithSuffix key suf = r \<and> r \<noteq> []"
  then obtain w where w: "key = routerLabelPrefix @ w" and hs: "HasSuffix key suf"
    and rw: "r = TrimSuffix w suf" "\<not> Contains r ''.''"
    by (auto simp: extractRouterWithSuffix_def Let_def HasPrefix_iff split: if_splits)
  have "HasSuffix w suf"
  proof (rule ccontr)
    assume no: "\<not> HasSuffix w suf"
    from hs w obtain t where "routerLabelPrefix @ w = t @ suf" by (auto simp: HasSuffix_iff)
    with no obtain a where a: "routerLabelPrefix = t @ a" "a @ w = suf"
      by (auto simp: append_eq_append_conv2 HasSuffix_iff)
    have "a \<noteq> []" using a no by (auto simp: HasSuffix_iff)
    then have "last a = CHR ''.''" using a(1) by (metis last_appendR routerLabelPrefix_def last.simps list.distinct(1))
    have "a = ''.''"
    proof (cases a)
      case (Cons c a')
      then have "CHR ''.'' \<notin> set a'" using a(2) suf by auto
      then have "a' = []" using \<open>last a = CHR ''.''\<close> Cons by (cases "a' = []") (auto dest: last_in_set)
      then show ?thesis using \<open>last a = CHR ''.''\<close> Cons by simp
    qed (use \<open>a \<noteq> []\<close> in simp)
    then have "key = overlap_label suf" using a w by (simp add: overlap_label_def routerLabelPrefix_def)
    with key show False ..
  qed
  then obtain u where "w = u @ suf" by (auto simp: HasSuffix_iff)
  then show "router_name r \<and> key = routerLabelPrefix @ r @ suf"
    using r rw w by (auto simp: router_name_def Contains_iff in_set_conv_decomp)
next
  assume "router_name r \<and> key = routerLabelPrefix @ r @ suf"
  then show "extractRouterWithSuffix key suf = r \<and> r \<noteq> []"
    by (auto simp: extractRouterWithSuffix_def Let_def router_name_def Contains_iff HasSuffix_iff)
qed

lemma extractRouterName_iff:
  "key \<noteq> overlap_label routerRuleSuffix \<Longrightarrow>
   extractRouterName key = r \<and> r \<noteq> [] \<longleftrightarrow> router_name r \<and> key = routerLabelPrefix @ r @ routerRuleSuffix"
  unfolding extractRouterName_def
  by (rule extractRouterWithSuffix_iff [where tail = "''rule''"]) (simp_all add: routerRuleSuffix_def)

lemma extractRouterFromEntryPointsLabel_iff:
  "key \<noteq> overlap_label routerEntryPointsSuffix \<Longrightarrow>
   extractRouterFromEntryPointsLabel key = r \<and> r \<noteq> [] \<longleftrightarrow>
     router_name r \<and> key = routerLabelPrefix @ r @ routerEntryPointsSuffix"
  unfolding extractRouterFromEntryPointsLabel_def
  by (rule extractRouterWithSuffix_iff [where tail = "''entrypoints''"]) (simp_all add: routerEntryPointsSuffix_def)

text \<open>The entrypoints of a router, and the pairs the labels stand for.\<close>

definition router_entrypoints :: "(string, string) gomap \<Rightarrow> string list \<Rightarrow> string \<Rightarrow> string list" where
  "router_entrypoints labels defaults r =
     (let own = (case map_of labels (routerLabelPrefix @ r @ routerEntryPointsSuffix) of
                   None \<Rightarrow> [] | Some v \<Rightarrow> splitAndTrim v);
          eps = (if own = [] then defaults else own)
      in if eps = [] then [[]] else eps)"

definition label_pairs :: "(string, string) gomap \<Rightarrow> string list \<Rightarrow> (string \<times> string) set" where
  "label_pairs labels defaults =
     {(h, ep). \<exists>r rule. router_name r \<and> map_of labels (routerLabelPrefix @ r @ routerRuleSuffix) = Some rule \<and>
        h \<in> set (extractHostsFromRule rule) \<and> ep \<in> set (router_entrypoints labels defaults r)}"

lemma collect_entrypoints_lookup:
  assumes "overlap_label routerEntryPointsSuffix \<notin> set keys" and "router_name r"
  shows "map_get [] (collect_entrypoints labels keys m) r =
    (let key = routerLabelPrefix @ r @ routerEntryPointsSuffix; eps = splitAndTrim (map_get [] labels key)
     in if key \<in> set keys \<and> eps \<noteq> [] then eps else map_get [] m r)"
  using assms(1)
proof (induction keys arbitrary: m)
  case (Cons key keys)
  then have ov: "key \<noteq> overlap_label routerEntryPointsSuffix" "overlap_label routerEntryPointsSuffix \<notin> set keys" by auto
  let ?e = "extractRouterFromEntryPointsLabel key"
  have eq: "?e = r \<longleftrightarrow> key = routerLabelPrefix @ r @ routerEntryPointsSuffix"
    using extractRouterFromEntryPointsLabel_iff [OF ov(1), of r] assms(2) by (auto simp: router_name_def)
  have upd: "map_get [] (AList.update ?e v m) r = (if ?e = r then v else map_get [] m r)" for v
    by (simp add: map_get_def)
  show ?case
  proof (cases "?e = r")
    case True
    then show ?thesis using Cons.IH [OF ov(2)] eq assms(2) upd
      by (auto simp: Let_def router_name_def)
  next
    case False
    then have "key \<noteq> routerLabelPrefix @ r @ routerEntryPointsSuffix" using eq by simp
    then show ?thesis using Cons.IH [OF ov(2)] False upd by (auto simp: Let_def)
  qed
qed simp

lemma fan_out_keys: "extraction_key ` set (fan_out router eps hosts) = set hosts \<times> set (if eps = [] then [[]] else eps)"
  by (auto simp: fan_out_def image_iff)

lemma tf_ExtractHostnames_spec:
  assumes "is_iteration it1" "is_iteration it2" "wf_map labels"
    and "\<not> has_key labels (overlap_label routerRuleSuffix)" "\<not> has_key labels (overlap_label routerEntryPointsSuffix)"
  shows "distinct (map extraction_key (tf_ExtractHostnames it1 it2 defaults labels))"
    and "extraction_key ` set (tf_ExtractHostnames it1 it2 defaults labels) = label_pairs labels defaults"
proof -
  show "distinct (map extraction_key (tf_ExtractHostnames it1 it2 defaults labels))"
    unfolding tf_ExtractHostnames_eq using distinct_first_by by blast
  let ?rep = "collect_entrypoints labels (it1 (map fst labels)) []"
  have keys: "set (it1 (map fst labels)) = fst ` set labels" "set (it2 (map fst labels)) = fst ` set labels"
    using assms by (simp_all add: is_iteration_set wf_map_def)
  have key: "k \<in> fst ` set labels \<longleftrightarrow> (\<exists>v. map_of labels k = Some v)" for k
    by (metis domIff dom_map_of_conv_image_fst not_None_eq)
  have ov: "overlap_label routerEntryPointsSuffix \<notin> set (it1 (map fst labels))"
    "k \<in> fst ` set labels \<Longrightarrow> k \<noteq> overlap_label routerRuleSuffix" for k
    using assms(4,5) keys unfolding has_key_iff by metis+
  have eps: "(let eps = map_get [] ?rep r; eps' = (if eps = [] then defaults else eps)
      in set (if eps' = [] then [[]] else eps')) = set (router_entrypoints labels defaults r)" if "router_name r" for r
  proof -
    have "map_get [] ?rep r = (case map_of labels (routerLabelPrefix @ r @ routerEntryPointsSuffix) of
        None \<Rightarrow> [] | Some v \<Rightarrow> splitAndTrim v)"
      using collect_entrypoints_lookup [OF ov(1) that, of labels "[]"] key keys
      by (auto simp: Let_def map_get_def split: option.splits)
    then show ?thesis by (simp add: router_entrypoints_def Let_def)
  qed
  have "extraction_key ` set (tf_ExtractHostnames it1 it2 defaults labels) =
      (\<Union>k \<in> fst ` set labels. extraction_key ` set (rule_extractions defaults ?rep labels k))"
    by (simp add: tf_ExtractHostnames_eq first_by_keys keys image_UN)
  also have "\<dots> = label_pairs labels defaults"
  proof (intro set_eqI iffI)
    fix p assume "p \<in> (\<Union>k \<in> fst ` set labels. extraction_key ` set (rule_extractions defaults ?rep labels k))"
    then obtain k where k: "k \<in> fst ` set labels" "p \<in> extraction_key ` set (rule_extractions defaults ?rep labels k)" by blast
    then obtain v where v: "map_of labels k = Some v" using key by blast
    let ?r = "extractRouterName k"
    from k(2) have r: "?r \<noteq> []" by (auto simp: rule_extractions_def Let_def)
    then have rk: "router_name ?r" "k = routerLabelPrefix @ ?r @ routerRuleSuffix"
      using extractRouterName_iff [OF ov(2) [OF k(1)], of ?r] by simp_all
    from k(2) r v have "p \<in> set (extractHostsFromRule v) \<times> set (router_entrypoints labels defaults ?r)"
      unfolding eps [OF rk(1), symmetric]
      by (simp only: rule_extractions_def Let_def if_False fan_out_keys) (simp add: map_get_def)
    then show "p \<in> label_pairs labels defaults" using rk v by (auto simp: label_pairs_def)
  next
    fix p assume "p \<in> label_pairs labels defaults"
    then obtain r rule where r: "router_name r" "map_of labels (routerLabelPrefix @ r @ routerRuleSuffix) = Some rule"
      "p \<in> set (extractHostsFromRule rule) \<times> set (router_entrypoints labels defaults r)"
      by (auto simp: label_pairs_def)
    let ?k = "routerLabelPrefix @ r @ routerRuleSuffix"
    have k: "?k \<in> fst ` set labels" using r(2) key by blast
    then have "extractRouterName ?k = r" "r \<noteq> []" using extractRouterName_iff [OF ov(2) [OF k], of r] r(1) by auto
    then have "p \<in> extraction_key ` set (rule_extractions defaults ?rep labels ?k)"
      using r(2,3) unfolding eps [OF r(1), symmetric]
      by (simp only: rule_extractions_def Let_def if_False fan_out_keys) (simp add: map_get_def)
    then show "p \<in> (\<Union>k \<in> fst ` set labels. extraction_key ` set (rule_extractions defaults ?rep labels k))" using k by blast
  qed
  finally show "extraction_key ` set (tf_ExtractHostnames it1 it2 defaults labels) = label_pairs labels defaults" .
qed

text \<open>
  The label without a router name is taken for a router called after the suffix; a file whose routers
  all have a value is read without a panic, and one that leaves a router empty is not.
\<close>

lemma overlap_label_router:
  "extractRouterName ''traefik.http.routers.rule'' = ''rule''"
  "extractRouterFromEntryPointsLabel ''traefik.http.routers.entrypoints'' = ''entrypoints''"
  by code_simp+

lemma config_extractions_None:
  "config_extractions defaults routers names = None \<longleftrightarrow> (\<exists>n \<in> set names. map_get None routers n = None)"
  by (induction names) (auto simp: Let_def split: option.splits)

lemma extractFromConfig_None:
  assumes "is_iteration it" "config = Some (Some routers)" "wf_map routers"
  shows "extractFromConfig it defaults config = None \<longleftrightarrow> (\<exists>n. map_of routers n = Some None)"
proof -
  have "set (it (map fst routers)) = fst ` set routers" using assms by (simp add: is_iteration_set wf_map_def)
  moreover have "(\<exists>n \<in> fst ` set routers. map_get None routers n = None) \<longleftrightarrow> (\<exists>n. map_of routers n = Some None)"
    unfolding dom_map_of_conv_image_fst [symmetric] by (auto simp: map_get_def dom_def split: option.splits)
  ultimately show ?thesis using assms(2) by (simp add: extractFromConfig_def config_extractions_None)
qed

text \<open>
  The source. The interface has no place for a panic, which is no hostname here; \<open>extractFromConfig_None\<close>
  says when it happens.
\<close>

definition traefik_source ::
  "'w config_files \<Rightarrow> string iteration \<Rightarrow> string iteration \<Rightarrow> string iteration \<Rightarrow> Traefik \<Rightarrow> 'w Source" where
  "traefik_source fs it1 it2 it3 t =
     \<lparr>s_Name = ''traefik'', s_Extract = tf_Extract it1 it2 t,
      s_Discover = (\<lambda>w. case tf_Discover fs it3 t w of Some r \<Rightarrow> r | None \<Rightarrow> Inr []),
      s_SupportsDiscovery = fd_IsEnabled (tk_fileConfig t), s_SupportedPlatforms = []\<rparr>"

interpretation traefik: hostname_source "traefik_source fs it1 it2 it3 t" for fs it1 it2 it3 t
proof
  fix w hs h assume "s_Discover (traefik_source fs it1 it2 it3 t) w = Inr hs" "h \<in> set hs"
  then show "h_Source h = s_Name (traefik_source fs it1 it2 it3 t)"
    by (auto simp: traefik_source_def tf_Discover_def tf_hostname_def map_option_case
        split: option.splits if_splits sum.splits) (auto simp: map_sum_def tf_hostname_def split: sum.splits)
qed (auto simp: traefik_source_def tf_Extract_def tf_Discover_def tf_hostname_def split: if_splits)

subsection \<open>Properties\<close>

text \<open>C22: A Traefik rule is read back: from any sequence of connectives, Host matchers and other matchers with
  quoted arguments, the parser returns exactly the trimmed nonempty names of the Host matchers, each once
  and in their order.\<close>
theorem traefik_rule_roundtrip:
  assumes "list_all part_ok ps"
  shows "extractHostsFromRule (rule_text ps) = first_by id [] (filter (\<lambda>h. h \<noteq> []) (map TrimSpace (rule_hosts ps)))"
  using rule_text_hosts [OF assms] by (simp add: extractHostsFromRule_eq)

theorem traefik_rule_roundtrip_witness:
  "extractHostsFromRule (rule_text [Text ''('', Host ''a.com'', Text '' || '', Host ''b.com'', Text '') && '',
     Matcher ''PathPrefix'' ''/api'']) = [''a.com'', ''b.com'']"
proof -
  let ?ps = "[Text ''('', Host ''a.com'', Text '' || '', Host ''b.com'', Text '') && '', Matcher ''PathPrefix'' ''/api'']"
  have "list_all part_ok ?ps" by code_simp
  from traefik_rule_roundtrip [OF this]
  have "extractHostsFromRule (rule_text ?ps) = first_by id [] (filter (\<lambda>h. h \<noteq> []) (map TrimSpace (rule_hosts ?ps)))" .
  also have "\<dots> = [''a.com'', ''b.com'']" by code_simp
  finally show ?thesis .
qed

text \<open>Whatever order Go ranges over the labels in, the Traefik source reports each pair of a hostname and
  an entrypoint once, and the pairs are those the labels stand for: the hosts of a router's rule with the
  router's own entrypoints, or else the configured defaults, or else the wildcard.\<close>
theorem traefik_labels_spec:
  assumes "is_iteration it1" "is_iteration it2" "wf_map labels"
    and "\<not> has_key labels (overlap_label routerRuleSuffix)" "\<not> has_key labels (overlap_label routerEntryPointsSuffix)"
  shows "distinct (map (\<lambda>e. (he_Hostname e, he_EntryPoint e)) (tf_ExtractHostnames it1 it2 defaults labels)) \<and>
    (\<lambda>e. (he_Hostname e, he_EntryPoint e)) ` set (tf_ExtractHostnames it1 it2 defaults labels) = label_pairs labels defaults"
  using tf_ExtractHostnames_spec [OF assms] by blast

definition ex_labels :: "(string, string) gomap" where
  "ex_labels = [(''traefik.http.routers.web.rule'', ''Host('' @ backtick # ''a.com'' @ backtick # '')''),
     (''traefik.http.routers.web.entrypoints'', ''web, websecure''), (''traefik.enable'', ''true'')]"

theorem traefik_labels_spec_witness:
  "label_pairs ex_labels [''x''] = {(''a.com'', ''web''), (''a.com'', ''websecure'')}"
proof -
  have "wf_map ex_labels" by (simp add: wf_map_def ex_labels_def)
  moreover have "\<not> has_key ex_labels (overlap_label routerRuleSuffix)"
    "\<not> has_key ex_labels (overlap_label routerEntryPointsSuffix)" by code_simp+
  ultimately have "label_pairs ex_labels [''x''] =
      (\<lambda>e. (he_Hostname e, he_EntryPoint e)) ` set (tf_ExtractHostnames id rev [''x''] ex_labels)"
    using traefik_labels_spec [of id rev ex_labels "[''x'']"] by simp
  also have "map (\<lambda>e. (he_Hostname e, he_EntryPoint e)) (tf_ExtractHostnames id rev [''x''] ex_labels) =
      [(''a.com'', ''web''), (''a.com'', ''websecure'')]" by code_simp
  then have "(\<lambda>e. (he_Hostname e, he_EntryPoint e)) ` set (tf_ExtractHostnames id rev [''x''] ex_labels) =
      {(''a.com'', ''web''), (''a.com'', ''websecure'')}"
    by (metis (no_types, lifting) list.set_map empty_set list.simps(15))
  finally show ?thesis .
qed

end
