(* ===== verification/KubernetesLister.thy ===== *)
theory KubernetesLister
  imports HttpApi TraefikSource PlatformSources EventWatcher
begin

text \<open>
  \<^verbatim>\<open>internal/kubernetes\<close>: how objects become workloads, the filters, and the watcher that lists objects from the caches of
  its informers and debounces their events. The caches, label selectors, the discovery of API groups and the accessors of
  unstructured objects belong to the Kubernetes client library and are arguments. Log lines are left out.
\<close>

subsection \<open>Objects\<close>

record object_meta =
  om_UID :: string
  om_Name :: string
  om_Namespace :: string
  om_Labels :: metadata
  om_Annotations :: metadata
  om_ResourceVersion :: string

record k8s_ingress = object_meta +
  ki_Rules :: "string list"           \<comment> \<open>the host of every rule\<close>
  ki_TLS :: "string list list"        \<comment> \<open>the hosts of every TLS entry\<close>

record k8s_service = object_meta +
  ks_Type :: string
  ks_ClusterIP :: string

record k8s_object = object_meta +
  ko_Object :: json

definition metaKeyResourceVersion :: string where "metaKeyResourceVersion = ''resourceVersion''"

text \<open>What all conversions share.\<close>

definition k8s_workload :: "'a object_meta_scheme \<Rightarrow> Kind \<Rightarrow> string list \<Rightarrow> metadata \<Rightarrow> Workload" where
  "k8s_workload obj kind hostnames meta =
     \<lparr>wl_ID = om_UID obj, wl_Name = om_Namespace obj @ ''/'' @ om_Name obj, wl_Namespace = om_Namespace obj,
      wl_Labels = om_Labels obj, wl_Annotations = om_Annotations obj, wl_Platform = PlatformKubernetes, wl_Kind = kind,
      wl_Hostnames = hostnames, wl_Metadata = (metaKeyResourceVersion, om_ResourceVersion obj) # meta\<rparr>"

text \<open>Hosts of rules are kept as often as they occur; a TLS host is added unless it was seen.\<close>

definition ConvertIngress :: "k8s_ingress \<Rightarrow> Workload" where
  "ConvertIngress ing =
     (let hostnames = filter (\<lambda>h. h \<noteq> []) (ki_Rules ing) in
      k8s_workload ing KindIngress (hostnames @ first_by id hostnames (concat (ki_TLS ing))) [])"

definition splitCSV :: "string \<Rightarrow> string list" where
  "splitCSV s = filter (\<lambda>p. p \<noteq> []) (map TrimSpace (Split s (CHR '','')))"

definition AnnotationExternalDNSHostname :: string where
  "AnnotationExternalDNSHostname = ''external-dns.alpha.kubernetes.io/hostname''"
definition AnnotationDNSWeaverHostname :: string where "AnnotationDNSWeaverHostname = ''dnsweaver.dev/hostname''"
definition AnnotationDNSWeaverHostnames :: string where "AnnotationDNSWeaverHostnames = ''dnsweaver.dev/hostnames''"

definition service_hostnames :: "metadata \<Rightarrow> string list" where
  "service_hostnames annotations =
     (let value = map_get [] annotations;
          single = value AnnotationDNSWeaverHostname
      in first_by id [] (splitCSV (value AnnotationExternalDNSHostname) @ (if single \<noteq> [] then [single] else []) @
           splitCSV (value AnnotationDNSWeaverHostnames)))"

definition ConvertService :: "k8s_service \<Rightarrow> Workload" where
  "ConvertService svc =
     k8s_workload svc KindK8sService (service_hostnames (om_Annotations svc))
       ((''type'', ks_Type svc) # (if ks_ClusterIP svc \<noteq> [] then [(''clusterIP'', ks_ClusterIP svc)] else []))"

text \<open>The accessors \<^verbatim>\<open>NestedStringSlice\<close> and \<^verbatim>\<open>NestedMap\<close> of the client library; \<open>None\<close> is a field that is missing or has another type.\<close>

record k8s_api =
  ka_NestedStringSlice :: "json \<Rightarrow> string list \<Rightarrow> string list option"
  ka_NestedMap :: "json \<Rightarrow> string list \<Rightarrow> (string \<times> json) list option"

definition ConvertHTTPRoute :: "k8s_api \<Rightarrow> k8s_object \<Rightarrow> Workload" where
  "ConvertHTTPRoute api obj =
     (let hosts = (case ka_NestedStringSlice api (ko_Object obj) [''spec'', ''hostnames''] of None \<Rightarrow> [] | Some hs \<Rightarrow> hs) in
      k8s_workload obj KindHTTPRoute (first_by id [] (filter (\<lambda>h. h \<noteq> []) hosts)) [])"

definition extractHostsFromMatch :: "string \<Rightarrow> string list" where
  "extractHostsFromMatch rule = filter (\<lambda>h. h \<noteq> []) (map TrimSpace (find_hosts rule))"

fun route_match :: "json \<Rightarrow> string" where
  "route_match (JObj kvs) = (case map_of kvs ''match'' of Some (JStr m) \<Rightarrow> m | _ \<Rightarrow> [])"
| "route_match _ = []"

definition ConvertIngressRoute :: "k8s_api \<Rightarrow> k8s_object \<Rightarrow> Workload" where
  "ConvertIngressRoute api obj =
     (let routes = (case ka_NestedMap api (ko_Object obj) [''spec''] of
            None \<Rightarrow> []
          | Some spec \<Rightarrow> (case map_of spec ''routes'' of Some (JArr rs) \<Rightarrow> rs | _ \<Rightarrow> []))
      in k8s_workload obj KindIngressRoute
           (first_by id [] (concat (map (\<lambda>r. extractHostsFromMatch (route_match r)) routes))) [])"

subsection \<open>Configuration and filters\<close>

record k8s_Config =
  kc_Kubeconfig :: string
  kc_Namespaces :: "string list"
  kc_WatchIngress :: bool
  kc_WatchIngressRoute :: bool
  kc_WatchHTTPRoute :: bool
  kc_WatchServices :: bool
  kc_LabelSelector :: string
  kc_AnnotationFilter :: string
  kc_DebounceInterval :: int

definition DefaultDebounceInterval :: int where "DefaultDebounceInterval = 2 * 1000000000"

definition k8s_DefaultConfig :: k8s_Config where
  "k8s_DefaultConfig =
     \<lparr>kc_Kubeconfig = [], kc_Namespaces = [], kc_WatchIngress = True, kc_WatchIngressRoute = True, kc_WatchHTTPRoute = True,
      kc_WatchServices = False, kc_LabelSelector = [], kc_AnnotationFilter = [], kc_DebounceInterval = DefaultDebounceInterval\<rparr>"

definition HasNamespaceFilter :: "k8s_Config \<Rightarrow> bool" where
  "HasNamespaceFilter c \<longleftrightarrow> length (kc_Namespaces c) > 0"

definition WatchesAnything :: "k8s_Config \<Rightarrow> bool" where
  "WatchesAnything c \<longleftrightarrow> kc_WatchIngress c \<or> kc_WatchIngressRoute c \<or> kc_WatchHTTPRoute c \<or> kc_WatchServices c"

fun indexByte :: "string \<Rightarrow> char \<Rightarrow> int" where
  "indexByte [] c = - 1"
| "indexByte (d # s) c = (if d = c then 0 else let i = indexByte s c in if i < 0 then - 1 else i + 1)"

definition splitAnnotationFilter :: "string \<Rightarrow> (string \<times> string) option" where
  "splitAnnotationFilter filt =
     (let idx = indexByte filt (CHR ''='') in
      if idx < 1 then None else Some (take (nat idx) filt, drop (nat idx + 1) filt))"

definition matchAnnotationFilter :: "string \<Rightarrow> metadata \<Rightarrow> bool" where
  "matchAnnotationFilter filt annotations \<longleftrightarrow>
     (case splitAnnotationFilter filt of
        None \<Rightarrow> False
      | Some (key, value) \<Rightarrow> (case map_of annotations key of Some actual \<Rightarrow> actual = value | None \<Rightarrow> False))"

definition k8s_matchesFilters :: "k8s_Config \<Rightarrow> string \<Rightarrow> metadata \<Rightarrow> bool" where
  "k8s_matchesFilters c namespace annotations \<longleftrightarrow>
     (HasNamespaceFilter c \<longrightarrow> list_ex (\<lambda>ns. ns = namespace) (kc_Namespaces c)) \<and>
     (kc_AnnotationFilter c \<noteq> [] \<longrightarrow> matchAnnotationFilter (kc_AnnotationFilter c) annotations)"

subsection \<open>The watcher\<close>

record k8s_watcher =
  kw_config :: k8s_Config
  kw_running :: bool
  kw_cancel :: bool                 \<comment> \<open>a context to cancel is held\<close>
  kw_hasIngressRoute :: bool
  kw_hasHTTPRoute :: bool
  kw_typedFactory :: bool
  kw_dynamicFactory :: bool
  kw_ingressInformer :: bool
  kw_serviceInformer :: bool
  kw_events :: event_watcher        \<comment> \<open>the debounce timer\<close>

definition k8s_New :: "k8s_Config \<Rightarrow> int \<Rightarrow> k8s_watcher" where
  "k8s_New cfg now =
     \<lparr>kw_config = cfg, kw_running = False, kw_cancel = False, kw_hasIngressRoute = False, kw_hasHTTPRoute = False,
      kw_typedFactory = False, kw_dynamicFactory = False, kw_ingressInformer = False, kw_serviceInformer = False,
      kw_events = ew_New now\<rparr>"

text \<open>The API groups that discovery reports, and whether an event handler can be added to an informer.\<close>

record 'w k8s_cluster =
  kx_ServerGroups :: "'w \<Rightarrow> err + string list"
  kx_AddEventHandler :: "string \<Rightarrow> 'w \<Rightarrow> err option"

definition HasAPIGroup :: "'w k8s_cluster \<Rightarrow> string \<Rightarrow> 'w \<Rightarrow> bool" where
  "HasAPIGroup k grp w = (case kx_ServerGroups k w of Inl _ \<Rightarrow> False | Inr groups \<Rightarrow> list_ex (\<lambda>g. g = grp) groups)"

definition IngressRouteGroup :: string where "IngressRouteGroup = ''traefik.io''"
definition HTTPRouteGroup :: string where "HTTPRouteGroup = ''gateway.networking.k8s.io''"

definition detectCRDs :: "'w k8s_cluster \<Rightarrow> 'w \<Rightarrow> k8s_watcher \<Rightarrow> k8s_watcher" where
  "detectCRDs k w s =
     s\<lparr>kw_hasIngressRoute :=
         (if kc_WatchIngressRoute (kw_config s) then HasAPIGroup k IngressRouteGroup w else kw_hasIngressRoute s),
       kw_hasHTTPRoute := (if kc_WatchHTTPRoute (kw_config s) then HasAPIGroup k HTTPRouteGroup w else kw_hasHTTPRoute s)\<rparr>"

definition createFactories :: "k8s_watcher \<Rightarrow> k8s_watcher" where
  "createFactories s = s\<lparr>kw_typedFactory := True,
     kw_dynamicFactory := (if kw_hasIngressRoute s \<or> kw_hasHTTPRoute s then True else kw_dynamicFactory s)\<rparr>"

text \<open>One informer of \<open>setupInformers\<close>, which keeps what the code has set when it fails.\<close>

definition add_informer ::
  "'w k8s_cluster \<Rightarrow> 'w \<Rightarrow> bool \<Rightarrow> string \<Rightarrow> (k8s_watcher \<Rightarrow> k8s_watcher) \<Rightarrow> err option \<times> k8s_watcher \<Rightarrow> err option \<times> k8s_watcher" where
  "add_informer k w wanted kind set_informer r =
     (case r of
        (Some e, s) \<Rightarrow> (Some e, s)
      | (None, s) \<Rightarrow>
          if \<not> wanted then (None, s)
          else case kx_AddEventHandler k kind w of
            Some e \<Rightarrow> (Some (Errorf (''adding '' @ kind @ '' event handler: '') e), set_informer s)
          | None \<Rightarrow> (None, set_informer s))"

definition setupInformers :: "'w k8s_cluster \<Rightarrow> 'w \<Rightarrow> k8s_watcher \<Rightarrow> err option \<times> k8s_watcher" where
  "setupInformers k w s =
     add_informer k w (kw_hasHTTPRoute s) ''httproute'' id
       (add_informer k w (kw_hasIngressRoute s) ''ingressroute'' id
         (add_informer k w (kc_WatchServices (kw_config s)) ''service'' (\<lambda>s. s\<lparr>kw_serviceInformer := True\<rparr>)
           (add_informer k w (kc_WatchIngress (kw_config s)) ''ingress'' (\<lambda>s. s\<lparr>kw_ingressInformer := True\<rparr>) (None, s))))"

definition k8s_Start :: "'w k8s_cluster \<Rightarrow> 'w \<Rightarrow> k8s_watcher \<Rightarrow> err option \<times> k8s_watcher" where
  "k8s_Start k w s =
     (if kw_running s then (None, s)
      else let s = s\<lparr>kw_cancel := True, kw_running := True\<rparr> in
        if \<not> WatchesAnything (kw_config s) then (None, s)
        else case setupInformers k w (createFactories (detectCRDs k w s)) of
          (Some e, s') \<Rightarrow> (Some (Errorf ''setting up kubernetes informers: '' e), s') | (None, s') \<Rightarrow> (None, s'))"

definition k8s_Stop :: "k8s_watcher \<Rightarrow> k8s_watcher" where
  "k8s_Stop s = s\<lparr>kw_cancel := False, kw_running := False,
     kw_events := (kw_events s)\<lparr>ew_timers := stop_timer (ew_debounce (kw_events s)) (ew_timers (kw_events s)), ew_debounce := None\<rparr>\<rparr>"

definition k8s_IsRunning :: "k8s_watcher \<Rightarrow> bool" where "k8s_IsRunning = kw_running"

definition k8s_handleEvent :: "k8s_watcher \<Rightarrow> k8s_watcher" where
  "k8s_handleEvent s = s\<lparr>kw_events := ew_handleEvent
     \<lparr>ew_DebounceInterval = kc_DebounceInterval (kw_config s), ew_ReconnectInterval = 0\<rparr> (kw_events s)\<rparr>"

definition k8s_TriggerNow :: "k8s_watcher \<Rightarrow> k8s_watcher" where
  "k8s_TriggerNow s = s\<lparr>kw_events := ew_TriggerNow (kw_events s)\<rparr>"

subsection \<open>Listing\<close>

text \<open>The caches, by kind, and label selectors. An object of a dynamic informer is \<open>None\<close> when it has an unexpected type.\<close>

record ('sel, 'w) k8s_caches =
  kk_Parse :: "string \<Rightarrow> err + 'sel"
  kk_Everything :: 'sel
  kk_Ingresses :: "'sel \<Rightarrow> 'w \<Rightarrow> err + k8s_ingress list"
  kk_Services :: "'sel \<Rightarrow> 'w \<Rightarrow> err + k8s_service list"
  kk_IngressRoutes :: "'sel \<Rightarrow> 'w \<Rightarrow> err + k8s_object option list"
  kk_HTTPRoutes :: "'sel \<Rightarrow> 'w \<Rightarrow> err + k8s_object option list"

text \<open>The workloads of one kind, added to those listed before.\<close>

definition list_kind ::
  "k8s_Config \<Rightarrow> bool \<Rightarrow> string \<Rightarrow> (err + 'a object_meta_scheme list) \<Rightarrow> ('a object_meta_scheme \<Rightarrow> Workload) \<Rightarrow>
   err + Workload list \<Rightarrow> err + Workload list" where
  "list_kind cfg wanted kind listed convert result =
     (case result of
        Inl e \<Rightarrow> Inl e
      | Inr ws \<Rightarrow>
          if \<not> wanted then Inr ws
          else case listed of
            Inl e \<Rightarrow> Inl (Errorf (''listing '' @ kind @ '': '') e)
          | Inr objs \<Rightarrow>
              Inr (ws @ map convert (filter (\<lambda>obj. k8s_matchesFilters cfg (om_Namespace obj) (om_Annotations obj)) objs)))"

definition unstructured :: "err + 'a option list \<Rightarrow> err + 'a list" where
  "unstructured listed = map_sum id (List.map_filter id) listed"

definition k8s_ListWorkloads :: "k8s_api \<Rightarrow> ('sel, 'w) k8s_caches \<Rightarrow> k8s_watcher \<Rightarrow> 'w \<Rightarrow> err + Workload list" where
  "k8s_ListWorkloads api k s w =
     (let cfg = kw_config s in
      case (if kc_LabelSelector cfg = [] then Inr (kk_Everything k)
            else case kk_Parse k (kc_LabelSelector cfg) of
              Inl e \<Rightarrow> Inl (Errorf (''parsing label selector '' @ Quote (kc_LabelSelector cfg) @ '': '') e)
            | Inr sel \<Rightarrow> Inr sel) of
        Inl e \<Rightarrow> Inl e
      | Inr sel \<Rightarrow>
          list_kind cfg (kw_hasHTTPRoute s \<and> kw_dynamicFactory s) ''httproutes'' (unstructured (kk_HTTPRoutes k sel w))
            (ConvertHTTPRoute api)
          (list_kind cfg (kw_hasIngressRoute s \<and> kw_dynamicFactory s) ''ingressroutes'' (unstructured (kk_IngressRoutes k sel w))
            (ConvertIngressRoute api)
          (list_kind cfg (kw_serviceInformer s) ''services'' (kk_Services k sel w) ConvertService
          (list_kind cfg (kw_ingressInformer s) ''ingresses'' (kk_Ingresses k sel w) ConvertIngress (Inr [])))))"

definition k8s_lister :: "k8s_api \<Rightarrow> ('sel, 'w) k8s_caches \<Rightarrow> k8s_watcher \<Rightarrow> 'w Lister" where
  "k8s_lister api k s = \<lparr>l_ListWorkloads = k8s_ListWorkloads api k s, l_Platform = PlatformKubernetes\<rparr>"


subsection \<open>Filters and listings\<close>

lemma indexByte_iff:
  "indexByte s c = (if c \<in> set s then int (length (takeWhile (\<lambda>d. d \<noteq> c) s)) else - 1)"
  by (induction s) auto

lemma takeWhile_at: "CHR ''='' \<notin> set u \<Longrightarrow> takeWhile (\<lambda>c. c \<noteq> CHR ''='') (u @ CHR ''='' # t) = u"
  by (induction u) auto

lemma splitAnnotationFilter_at:
  "CHR ''='' \<notin> set u \<Longrightarrow> splitAnnotationFilter (u @ CHR ''='' # t) = (if u = [] then None else Some (u, t))"
  by (cases u) (auto simp: splitAnnotationFilter_def Let_def indexByte_iff takeWhile_at nat_add_distrib)

lemma splitAnnotationFilter_iff:
  "splitAnnotationFilter filt = Some (k, v) \<longleftrightarrow> filt = k @ CHR ''='' # v \<and> k \<noteq> [] \<and> CHR ''='' \<notin> set k"
proof (cases "CHR ''='' \<in> set filt")
  case True
  then obtain u t where "filt = u @ CHR ''='' # t" "CHR ''='' \<notin> set u" by (metis split_list_first)
  then show ?thesis using splitAnnotationFilter_at takeWhile_at by (metis option.inject prod.inject option.distinct(1) same_append_eq list.inject)
next
  case False
  then show ?thesis by (auto simp: splitAnnotationFilter_def indexByte_iff)
qed

lemma matchAnnotationFilter_iff:
  "matchAnnotationFilter filt annotations \<longleftrightarrow>
     (\<exists>k v. filt = k @ CHR ''='' # v \<and> k \<noteq> [] \<and> CHR ''='' \<notin> set k \<and> map_of annotations k = Some v)"
proof -
  have "matchAnnotationFilter filt annotations \<longleftrightarrow>
      (\<exists>k v. splitAnnotationFilter filt = Some (k, v) \<and> map_of annotations k = Some v)"
    by (auto simp: matchAnnotationFilter_def split: option.splits)
  then show ?thesis by (simp add: splitAnnotationFilter_iff)
qed

lemma list_kind_mem:
  assumes "list_kind cfg wanted kind listed convert result = Inr ws" "wl \<in> set ws"
  shows "(\<exists>ws0. result = Inr ws0 \<and> wl \<in> set ws0) \<or>
    (\<exists>objs obj. listed = Inr objs \<and> obj \<in> set objs \<and> wl = convert obj \<and>
       k8s_matchesFilters cfg (om_Namespace obj) (om_Annotations obj))"
  using assms by (auto simp: list_kind_def split: sum.splits if_splits)

lemma k8s_workload_sel [simp]:
  "wl_Namespace (k8s_workload obj kind hs meta) = om_Namespace obj" "wl_Annotations (k8s_workload obj kind hs meta) = om_Annotations obj"
  "wl_Platform (k8s_workload obj kind hs meta) = PlatformKubernetes" "wl_Hostnames (k8s_workload obj kind hs meta) = hs"
  by (simp_all add: k8s_workload_def)

lemma converted [simp]:
  "wl_Namespace (ConvertIngress i) = om_Namespace i" "wl_Annotations (ConvertIngress i) = om_Annotations i"
  "wl_Namespace (ConvertService v) = om_Namespace v" "wl_Annotations (ConvertService v) = om_Annotations v"
  "wl_Namespace (ConvertIngressRoute api r) = om_Namespace r" "wl_Annotations (ConvertIngressRoute api r) = om_Annotations r"
  "wl_Namespace (ConvertHTTPRoute api r) = om_Namespace r" "wl_Annotations (ConvertHTTPRoute api r) = om_Annotations r"
  "wl_Platform (ConvertIngress i) = PlatformKubernetes" "wl_Platform (ConvertService v) = PlatformKubernetes"
  "wl_Platform (ConvertIngressRoute api r) = PlatformKubernetes" "wl_Platform (ConvertHTTPRoute api r) = PlatformKubernetes"
  by (simp_all add: ConvertIngress_def ConvertService_def ConvertIngressRoute_def ConvertHTTPRoute_def Let_def)

text \<open>Only an Ingress can name a hostname twice; the hostnames of an IngressRoute are those of its rules.\<close>

lemma converted_distinct:
  "distinct (wl_Hostnames (ConvertService v))" "distinct (wl_Hostnames (ConvertIngressRoute api r))"
  "distinct (wl_Hostnames (ConvertHTTPRoute api r))"
  using distinct_first_by [of id "[]"]
  by (auto simp: ConvertService_def ConvertIngressRoute_def ConvertHTTPRoute_def service_hostnames_def Let_def)

lemma keep_hosts_first_by: "keep_hosts seen ms = first_by id seen (filter (\<lambda>h. h \<noteq> []) (map TrimSpace ms))"
  by (induction seen ms rule: keep_hosts.induct) (auto simp: Let_def)

lemma route_hosts_as_rule: "first_by id [] (extractHostsFromMatch rule) = extractHostsFromRule rule"
  by (simp add: extractHostsFromMatch_def extractHostsFromRule_def keep_hosts_first_by)


text \<open>A watcher whose start fails, because the handler of an informer cannot be added, is left marked as running: it reports
that it runs, and every later start returns without an error and without doing anything, however the cluster has changed, until the
watcher is stopped.\<close>
theorem kubernetes_failed_start:
  assumes "k8s_Start k w s = (Some e, s')"
  shows "k8s_IsRunning s' \<and> k8s_Start k' w' s' = (None, s') \<and> \<not> k8s_IsRunning (k8s_Stop s')"
proof -
  have keeps: "kw_running (snd (add_informer k w b kind f r)) = kw_running (snd r)" if "\<And>s. kw_running (f s) = kw_running s" for b kind f r
    using that by (auto simp: add_informer_def split: prod.splits option.splits)
  have informers: "kw_running (snd (setupInformers k w t)) = kw_running t" for t
    by (simp add: setupInformers_def keeps)
  let ?t = "createFactories (detectCRDs k w (s\<lparr>kw_cancel := True, kw_running := True\<rparr>))"
  have "kw_running ?t" by (simp add: createFactories_def detectCRDs_def)
  moreover have "s' = snd (setupInformers k w ?t)"
    using assms by (simp add: k8s_Start_def Let_def split: if_splits prod.splits option.splits)
  ultimately have "kw_running s'" using informers by simp
  then show ?thesis by (simp add: k8s_IsRunning_def k8s_Start_def k8s_Stop_def)
qed

text \<open>A cluster that lists one Ingress of each of two namespaces and accepts no handler.\<close>

definition demo_k8s_cluster :: "unit k8s_cluster" where
  "demo_k8s_cluster = \<lparr>kx_ServerGroups = (\<lambda>_. Inr [IngressRouteGroup]), kx_AddEventHandler = (\<lambda>_ _. Some (ErrorNew ''stopped''))\<rparr>"

definition demo_ingress :: "string \<Rightarrow> k8s_ingress" where
  "demo_ingress namespace =
     \<lparr>om_UID = namespace, om_Name = ''web'', om_Namespace = namespace, om_Labels = [], om_Annotations = [(''dns'', ''a=b'')],
      om_ResourceVersion = ''1'', ki_Rules = [''web.ex.com'', []], ki_TLS = [[''web.ex.com'', ''www.ex.com'']]\<rparr>"

definition demo_caches :: "(unit, unit) k8s_caches" where
  "demo_caches = \<lparr>kk_Parse = (\<lambda>_. Inr ()), kk_Everything = (),
     kk_Ingresses = (\<lambda>_ _. Inr [demo_ingress ''prod'', demo_ingress ''test'']), kk_Services = (\<lambda>_ _. Inr []),
     kk_IngressRoutes = (\<lambda>_ _. Inr []), kk_HTTPRoutes = (\<lambda>_ _. Inr [])\<rparr>"

definition demo_k8s_watcher :: k8s_watcher where
  "demo_k8s_watcher = (k8s_New (k8s_DefaultConfig\<lparr>kc_Namespaces := [''prod''], kc_AnnotationFilter := ''dns=a=b''\<rparr>) 0)
     \<lparr>kw_ingressInformer := True\<rparr>"

definition demo_k8s_api :: k8s_api where
  "demo_k8s_api = \<lparr>ka_NestedStringSlice = (\<lambda>_ _. None), ka_NestedMap = (\<lambda>_ _. None)\<rparr>"

theorem kubernetes_failed_start_witness:
  "\<exists>e s'. k8s_Start demo_k8s_cluster () (k8s_New k8s_DefaultConfig 0) = (Some e, s') \<and> k8s_IsRunning s' \<and>
     k8s_Start (demo_k8s_cluster\<lparr>kx_AddEventHandler := \<lambda>_ _. None\<rparr>) () s' = (None, s')"
proof -
  have "fst (k8s_Start demo_k8s_cluster () (k8s_New k8s_DefaultConfig 0)) \<noteq> None" by code_simp
  then obtain e s' where "k8s_Start demo_k8s_cluster () (k8s_New k8s_DefaultConfig 0) = (Some e, s')" by (metis not_None_eq prod.collapse)
  then show ?thesis using kubernetes_failed_start [of _ "()" _ e s' "demo_k8s_cluster\<lparr>kx_AddEventHandler := \<lambda>_ _. None\<rparr>" "()"] by blast
qed


end
