(* ===== verification/DockerLister.thy ===== *)
theory DockerLister
  imports InstanceConfig Workload
begin

text \<open>
  \<^verbatim>\<open>internal/docker\<close>: the client with the detection of Swarm and its retries at start, the workloads it lists, and the
  lister. The Docker library, the clock and waiting are arguments over a world. Log lines and functional options are left out.
  Errors made by \<^verbatim>\<open>errors.New\<close> are told apart by their texts; a duration in an error text is written in nanoseconds.
\<close>

subsection \<open>Workloads of Docker\<close>

definition WorkloadTypeService :: string where "WorkloadTypeService = ''service''"
definition WorkloadTypeContainer :: string where "WorkloadTypeContainer = ''container''"

record dk_Workload =
  dw_ID :: string
  dw_Name :: string
  dw_Labels :: metadata
  dw_Type :: string

definition dk_Workload_String :: "dk_Workload \<Rightarrow> string" where
  "dk_Workload_String w = dw_Type w @ '':'' @ dw_Name w"

definition IsService :: "dk_Workload \<Rightarrow> bool" where "IsService w \<longleftrightarrow> dw_Type w = WorkloadTypeService"
definition IsContainer :: "dk_Workload \<Rightarrow> bool" where "IsContainer w \<longleftrightarrow> dw_Type w = WorkloadTypeContainer"
definition dk_HasLabel :: "dk_Workload \<Rightarrow> string \<Rightarrow> bool" where "dk_HasLabel w key = has_key (dw_Labels w) key"
definition dk_GetLabel :: "dk_Workload \<Rightarrow> string \<Rightarrow> string" where "dk_GetLabel w key = map_get [] (dw_Labels w) key"
definition dk_GetLabelOr :: "dk_Workload \<Rightarrow> string \<Rightarrow> string \<Rightarrow> string" where
  "dk_GetLabelOr w key defaultValue = map_get defaultValue (dw_Labels w) key"

definition dk_IDs :: "dk_Workload list \<Rightarrow> string list" where "dk_IDs ws = map dw_ID ws"
definition dk_Names :: "dk_Workload list \<Rightarrow> string list" where "dk_Names ws = map dw_Name ws"
definition dk_Filter :: "(dk_Workload \<Rightarrow> bool) \<Rightarrow> dk_Workload list \<Rightarrow> dk_Workload list" where "dk_Filter p ws = filter p ws"
definition WithLabel :: "string \<Rightarrow> dk_Workload list \<Rightarrow> dk_Workload list" where "WithLabel key = dk_Filter (\<lambda>w. dk_HasLabel w key)"
definition WithLabelValue :: "string \<Rightarrow> string \<Rightarrow> dk_Workload list \<Rightarrow> dk_Workload list" where
  "WithLabelValue key value = dk_Filter (\<lambda>w. dk_GetLabel w key = value)"
definition Services :: "dk_Workload list \<Rightarrow> dk_Workload list" where "Services = dk_Filter IsService"
definition Containers :: "dk_Workload list \<Rightarrow> dk_Workload list" where "Containers = dk_Filter IsContainer"

definition toWorkloadKind :: "string \<Rightarrow> Kind" where
  "toWorkloadKind t = (if t = WorkloadTypeService then KindService else KindContainer)"

definition ToWorkload :: "dk_Workload \<Rightarrow> Workload" where
  "ToWorkload w =
     \<lparr>wl_ID = dw_ID w, wl_Name = dw_Name w, wl_Namespace = [], wl_Labels = dw_Labels w, wl_Annotations = [],
      wl_Platform = PlatformDocker, wl_Kind = toWorkloadKind (dw_Type w), wl_Hostnames = [], wl_Metadata = []\<rparr>"

subsection \<open>The client\<close>

definition ModeAuto :: string where "ModeAuto = ''auto''"
definition ModeSwarm :: string where "ModeSwarm = ''swarm''"
definition ModeStandalone :: string where "ModeStandalone = ''standalone''"

definition ErrNotSwarmMode :: err where "ErrNotSwarmMode = ErrorNew ''operation requires Docker Swarm mode''"
definition ErrNotStandaloneMode :: err where "ErrNotStandaloneMode = ErrorNew ''operation requires Docker standalone mode''"
definition ErrNotManager :: err where "ErrNotManager = ErrorNew ''swarm mode detected but this node is not a manager''"
definition ErrSwarmNotActive :: err where "ErrSwarmNotActive = ErrorNew ''swarm mode forced but swarm is not active''"

record docker_info =
  di_LocalNodeState :: string
  di_ControlAvailable :: bool

record docker_object =
  do_ID :: string
  do_Names :: "string list"
  do_Labels :: metadata

text \<open>The Docker library. A service has one name. A wait returns the error of the context when that is cancelled first.\<close>

record 'w docker_api =
  da_Info :: "'w \<Rightarrow> (err + docker_info) \<times> 'w"
  da_Ping :: "'w \<Rightarrow> err option \<times> 'w"
  da_ServiceList :: "'w \<Rightarrow> (err + docker_object list) \<times> 'w"
  da_ContainerList :: "bool \<Rightarrow> string list \<Rightarrow> 'w \<Rightarrow> (err + docker_object list) \<times> 'w"
  da_ServiceLabels :: "string \<Rightarrow> 'w \<Rightarrow> (err + metadata) \<times> 'w"
  da_ContainerLabels :: "string \<Rightarrow> 'w \<Rightarrow> (err + metadata) \<times> 'w"
  da_Now :: "'w \<Rightarrow> int"
  da_Wait :: "int \<Rightarrow> 'w \<Rightarrow> err option \<times> 'w"

record 'w dk_Client =
  dk_docker :: "'w docker_api"
  dk_host :: string
  dk_mode :: string
  dk_detectedMode :: string
  dk_cleanupOnStop :: bool
  dk_connectTimeout :: int

definition isTerminalModeErr :: "err \<Rightarrow> bool" where
  "isTerminalModeErr e \<longleftrightarrow> errors_Is e ErrNotManager \<or> errors_Is e ErrSwarmNotActive"

text \<open>The mode that an answer selects; another configured mode than the three leaves it as it is.\<close>

definition detected_mode :: "'w dk_Client \<Rightarrow> docker_info \<Rightarrow> err + string" where
  "detected_mode c info =
     (let isSwarmActive = (di_LocalNodeState info = ''active''); isManager = di_ControlAvailable info in
      if dk_mode c = ModeAuto then
        (if isSwarmActive then (if \<not> isManager then Inl ErrNotManager else Inr ModeSwarm) else Inr ModeStandalone)
      else if dk_mode c = ModeSwarm then
        (if \<not> isSwarmActive then Inl ErrSwarmNotActive else if \<not> isManager then Inl ErrNotManager else Inr ModeSwarm)
      else if dk_mode c = ModeStandalone then Inr ModeStandalone
      else Inr (dk_detectedMode c))"

definition initializeMode :: "'w dk_Client \<Rightarrow> 'w \<Rightarrow> (err + 'w dk_Client) \<times> 'w" where
  "initializeMode c w =
     (case da_Info (dk_docker c) w of
        (Inl e, w') \<Rightarrow> (Inl (Errorf ''getting docker info: '' e), w')
      | (Inr info, w') \<Rightarrow> (map_sum id (\<lambda>m. c\<lparr>dk_detectedMode := m\<rparr>) (detected_mode c info), w'))"

definition initialBackoff :: int where "initialBackoff = 500 * 1000000"
definition maxBackoff :: int where "maxBackoff = 5 * 1000000000"

definition next_backoff :: "int \<Rightarrow> int" where
  "next_backoff b = (if b < maxBackoff then (if b * 2 > maxBackoff then maxBackoff else b * 2) else b)"

text \<open>The retry loop; \<open>err\<close> is the error of the attempt before. Its value is \<open>None\<close> if it does not end.\<close>

partial_function (option) connect_loop ::
  "'w dk_Client \<Rightarrow> int \<Rightarrow> int \<Rightarrow> err \<Rightarrow> 'w \<Rightarrow> ((err + 'w dk_Client) \<times> 'w) option" where
  "connect_loop c deadline backoff err w =
     (let remaining = deadline - da_Now (dk_docker c) w; wait = (if remaining < backoff then remaining else backoff) in
      if wait \<le> 0
      then Some (Inl (Errorf (''connecting to docker after '' @ show_int (dk_connectTimeout c) @ ''ns: '') err), w)
      else case da_Wait (dk_docker c) wait w of
        (Some e, w1) \<Rightarrow> Some (Inl (Errorf ''connecting to docker: '' e), w1)
      | (None, w1) \<Rightarrow>
          (case initializeMode c w1 of
             (Inr c', w2) \<Rightarrow> Some (Inr c', w2)
           | (Inl e, w2) \<Rightarrow>
               if isTerminalModeErr e then Some (Inl e, w2) else connect_loop c deadline (next_backoff backoff) e w2))"

definition connectWithRetry :: "'w dk_Client \<Rightarrow> 'w \<Rightarrow> ((err + 'w dk_Client) \<times> 'w) option" where
  "connectWithRetry c w =
     (case initializeMode c w of
        (Inr c', w1) \<Rightarrow> Some (Inr c', w1)
      | (Inl e, w1) \<Rightarrow>
          if dk_connectTimeout c \<le> 0 \<or> isTerminalModeErr e then Some (Inl e, w1)
          else connect_loop c (da_Now (dk_docker c) w1 + dk_connectTimeout c) initialBackoff e w1)"

text \<open>The options, and a client made with them; \<open>connect\<close> makes the library's client for a host, the empty one for the environment's.\<close>

definition WithHost :: "string \<Rightarrow> 'w dk_Client \<Rightarrow> 'w dk_Client" where "WithHost host c = c\<lparr>dk_host := host\<rparr>"
definition WithMode :: "string \<Rightarrow> 'w dk_Client \<Rightarrow> 'w dk_Client" where "WithMode m c = c\<lparr>dk_mode := m\<rparr>"
definition WithCleanupOnStop :: "bool \<Rightarrow> 'w dk_Client \<Rightarrow> 'w dk_Client" where
  "WithCleanupOnStop cleanup c = c\<lparr>dk_cleanupOnStop := cleanup\<rparr>"
definition WithConnectTimeout :: "int \<Rightarrow> 'w dk_Client \<Rightarrow> 'w dk_Client" where
  "WithConnectTimeout timeout c = (if timeout > 0 then c\<lparr>dk_connectTimeout := timeout\<rparr> else c)"

definition dk_default :: "'w docker_api \<Rightarrow> 'w dk_Client" where
  "dk_default a = \<lparr>dk_docker = a, dk_host = [], dk_mode = ModeAuto, dk_detectedMode = [], dk_cleanupOnStop = True,
     dk_connectTimeout = 0\<rparr>"

definition dk_NewClient ::
  "'w docker_api \<Rightarrow> (string \<Rightarrow> err + 'w docker_api) \<Rightarrow> ('w dk_Client \<Rightarrow> 'w dk_Client) list \<Rightarrow> 'w \<Rightarrow>
   ((err + 'w dk_Client) \<times> 'w) option" where
  "dk_NewClient none connect opts w =
     (let c = fold (\<lambda>opt. opt) opts (dk_default none) in
      case connect (dk_host c) of
        Inl e \<Rightarrow> Some (Inl (Errorf ''creating docker client: '' e), w)
      | Inr a \<Rightarrow> connectWithRetry (c\<lparr>dk_docker := a\<rparr>) w)"

definition dk_Mode :: "'w dk_Client \<Rightarrow> string" where "dk_Mode = dk_detectedMode"
definition IsSwarm :: "'w dk_Client \<Rightarrow> bool" where "IsSwarm c \<longleftrightarrow> dk_detectedMode c = ModeSwarm"

definition dk_Ping :: "'w dk_Client \<Rightarrow> 'w \<Rightarrow> err option \<times> 'w" where
  "dk_Ping c w = apfst (map_option (Errorf ''pinging docker: '')) (da_Ping (dk_docker c) w)"

definition normalizeContainerName :: "string list \<Rightarrow> string" where
  "normalizeContainerName names =
     (case names of [] \<Rightarrow> [] | name # _ \<Rightarrow> if name \<noteq> [] \<and> hd name = CHR ''/'' then tl name else name)"

text \<open>Services and containers, as an identifier, a name and labels.\<close>

definition ListServices :: "'w dk_Client \<Rightarrow> 'w \<Rightarrow> (err + (string \<times> string \<times> metadata) list) \<times> 'w" where
  "ListServices c w =
     (if dk_detectedMode c \<noteq> ModeSwarm then (Inl ErrNotSwarmMode, w)
      else case da_ServiceList (dk_docker c) w of
        (Inl e, w') \<Rightarrow> (Inl (Errorf ''listing services: '' e), w')
      | (Inr svcs, w') \<Rightarrow>
          (Inr (map (\<lambda>svc. (do_ID svc, (case do_Names svc of [] \<Rightarrow> [] | n # _ \<Rightarrow> n), do_Labels svc)) svcs), w'))"

definition ListContainers :: "'w dk_Client \<Rightarrow> 'w \<Rightarrow> (err + (string \<times> string \<times> metadata) list) \<times> 'w" where
  "ListContainers c w =
     (if dk_detectedMode c \<noteq> ModeStandalone then (Inl ErrNotStandaloneMode, w)
      else case da_ContainerList (dk_docker c) (\<not> dk_cleanupOnStop c)
               ([''running''] @ (if dk_cleanupOnStop c then [] else [''paused'', ''exited'', ''created''])) w of
        (Inl e, w') \<Rightarrow> (Inl (Errorf ''listing containers: '' e), w')
      | (Inr ctrs, w') \<Rightarrow> (Inr (map (\<lambda>ctr. (do_ID ctr, normalizeContainerName (do_Names ctr), do_Labels ctr)) ctrs), w'))"

definition GetServiceLabels :: "'w dk_Client \<Rightarrow> string \<Rightarrow> 'w \<Rightarrow> (err + metadata) \<times> 'w" where
  "GetServiceLabels c serviceID w =
     (if dk_detectedMode c \<noteq> ModeSwarm then (Inl ErrNotSwarmMode, w)
      else apfst (map_sum (Errorf (''inspecting service '' @ serviceID @ '': '')) id) (da_ServiceLabels (dk_docker c) serviceID w))"

definition GetContainerLabels :: "'w dk_Client \<Rightarrow> string \<Rightarrow> 'w \<Rightarrow> (err + metadata) \<times> 'w" where
  "GetContainerLabels c containerID w =
     (if dk_detectedMode c \<noteq> ModeStandalone then (Inl ErrNotStandaloneMode, w)
      else apfst (map_sum (Errorf (''inspecting container '' @ containerID @ '': '')) id)
             (da_ContainerLabels (dk_docker c) containerID w))"

definition docker_workload :: "string \<Rightarrow> string \<times> string \<times> metadata \<Rightarrow> dk_Workload" where
  "docker_workload t obj = (case obj of (i, name, labels) \<Rightarrow> \<lparr>dw_ID = i, dw_Name = name, dw_Labels = labels, dw_Type = t\<rparr>)"

definition dk_ListWorkloads :: "'w dk_Client \<Rightarrow> 'w \<Rightarrow> (err + dk_Workload list) \<times> 'w" where
  "dk_ListWorkloads c w =
     (if dk_detectedMode c = ModeSwarm
      then apfst (map_sum id (map (docker_workload WorkloadTypeService))) (ListServices c w)
      else apfst (map_sum id (map (docker_workload WorkloadTypeContainer))) (ListContainers c w))"

definition GetWorkloadLabels :: "'w dk_Client \<Rightarrow> string \<Rightarrow> 'w \<Rightarrow> (err + metadata) \<times> 'w" where
  "GetWorkloadLabels c workloadID w =
     (if dk_detectedMode c = ModeSwarm then GetServiceLabels c workloadID w else GetContainerLabels c workloadID w)"

definition dk_adapter_ListWorkloads :: "'w dk_Client \<Rightarrow> 'w \<Rightarrow> (err + Workload list) \<times> 'w" where
  "dk_adapter_ListWorkloads c w = apfst (map_sum id (map ToWorkload)) (dk_ListWorkloads c w)"

definition docker_lister :: "'w dk_Client \<Rightarrow> 'w Lister" where
  "docker_lister c = \<lparr>l_ListWorkloads = (\<lambda>w. fst (dk_adapter_ListWorkloads c w)), l_Platform = PlatformDocker\<rparr>"

subsection \<open>Connecting\<close>

text \<open>A clock that waiting advances and that never runs backwards.\<close>

definition clock_runs :: "'w docker_api \<Rightarrow> bool" where
  "clock_runs a \<longleftrightarrow>
     (\<forall>d w. fst (da_Wait a d w) = None \<longrightarrow> da_Now a w + d \<le> da_Now a (snd (da_Wait a d w))) \<and>
     (\<forall>w. da_Now a w \<le> da_Now a (snd (da_Info a w)))"

definition connected :: "'w dk_Client \<Rightarrow> 'w dk_Client \<Rightarrow> bool" where
  "connected c c' \<longleftrightarrow> (\<exists>info m. detected_mode c info = Inr m \<and> c' = c\<lparr>dk_detectedMode := m\<rparr>)"

lemma initializeMode_connected: "initializeMode c w = (Inr c', w') \<Longrightarrow> connected c c'"
proof -
  assume "initializeMode c w = (Inr c', w')"
  then obtain info where "map_sum id (\<lambda>m. c\<lparr>dk_detectedMode := m\<rparr>) (detected_mode c info) = Inr c'"
    by (auto simp: initializeMode_def split: prod.splits sum.splits)
  then show ?thesis unfolding connected_def by (cases "detected_mode c info") auto
qed

lemma initializeMode_now:
  "clock_runs (dk_docker c) \<Longrightarrow> initializeMode c w = (r, w') \<Longrightarrow> da_Now (dk_docker c) w \<le> da_Now (dk_docker c) w'"
  by (auto simp: clock_runs_def initializeMode_def split: prod.splits sum.splits) (metis snd_conv)+

text \<open>Every round waits for a positive time, so the time to the deadline decreases.\<close>

lemma connect_loop_ends:
  assumes "clock_runs (dk_docker c)" "0 < backoff"
  shows "\<exists>r w'. connect_loop c deadline backoff e w = Some (r, w') \<and> (\<forall>c'. r = Inr c' \<longrightarrow> connected c c')"
  using assms(2)
proof (induction "nat (deadline - da_Now (dk_docker c) w)" arbitrary: backoff e w rule: less_induct)
  case less
  let ?now = "da_Now (dk_docker c)"
  let ?wait = "if deadline - ?now w < backoff then deadline - ?now w else backoff"
  obtain s w1 where s: "da_Wait (dk_docker c) ?wait w = (s, w1)" by (rule prod.exhaust)
  obtain q w2 where q: "initializeMode c w1 = (q, w2)" by (rule prod.exhaust)
  show ?case
  proof (cases "?wait \<le> 0 \<or> s \<noteq> None \<or> (\<exists>c'. q = Inr c') \<or> (\<exists>e'. q = Inl e' \<and> isTerminalModeErr e')")
    case True
    then show ?thesis
      using s q by (subst connect_loop.simps) (auto simp: Let_def initializeMode_connected split: option.splits)
  next
    case False
    then obtain e' where e': "q = Inl e'" "\<not> isTerminalModeErr e'" "s = None" "0 < ?wait"
      by (cases q) (auto simp: not_le)
    have "?now w + ?wait \<le> ?now w1" using assms(1) s e'(3) unfolding clock_runs_def by (metis fst_conv snd_conv)
    also have "\<dots> \<le> ?now w2" by (rule initializeMode_now [OF assms(1) q])
    finally have "nat (deadline - ?now w2) < nat (deadline - ?now w)"
      using e'(4) less.prems by (auto split: if_splits)
    moreover have "0 < next_backoff backoff" using less.prems by (simp add: next_backoff_def maxBackoff_def)
    ultimately have "\<exists>r w'. connect_loop c deadline (next_backoff backoff) e' w2 = Some (r, w') \<and> (\<forall>c'. r = Inr c' \<longrightarrow> connected c c')"
      by (rule less.hyps)
    then show ?thesis using s q e' by (subst connect_loop.simps) (simp add: Let_def)
  qed
qed


text \<open>A daemon that answers from the second second on; the world is the time.\<close>

definition demo_docker :: "int docker_api" where
  "demo_docker =
     \<lparr>da_Info = (\<lambda>t. (if t < 2000000000 then Inl (ErrorNew ''refused'') else Inr \<lparr>di_LocalNodeState = ''active'', di_ControlAvailable = True\<rparr>, t)),
      da_Ping = (\<lambda>t. (None, t)), da_ServiceList = (\<lambda>t. (Inr [], t)), da_ContainerList = (\<lambda>_ _ t. (Inr [], t)),
      da_ServiceLabels = (\<lambda>_ t. (Inr [], t)), da_ContainerLabels = (\<lambda>_ t. (Inr [], t)), da_Now = id, da_Wait = (\<lambda>d t. (None, t + d))\<rparr>"

definition demo_docker_client :: "int dk_Client" where
  "demo_docker_client = \<lparr>dk_docker = demo_docker, dk_host = [], dk_mode = ModeAuto, dk_detectedMode = [], dk_cleanupOnStop = True,
     dk_connectTimeout = 10000000000\<rparr>"


end
