(* ===== verification/GlobalConfig.thy ===== *)
theory GlobalConfig
  imports InstanceConfig ProviderRegistry
begin

text \<open>
  \<^verbatim>\<open>internal/config/global.go\<close> and the part of \<^verbatim>\<open>loader.go\<close> that merges environment variables into the
  settings of a file: the application-wide settings. The Go functions run through one setting after
  another and collect errors; here each setting is a \<open>loader\<close>, and the function is the list of its settings
  in the order of the code. The struct is built up by record extension, one record per group of its fields.
\<close>

subsection \<open>The settings\<close>

record global_log =
  g_LogLevel :: string
  g_LogFormat :: string
  g_LogFile :: string
  g_LogMaxSize :: int
  g_LogMaxBackups :: int
  g_LogMaxAge :: int
  g_LogCompress :: bool

record global_behavior = global_log +
  g_DryRun :: bool
  g_CleanupOrphans :: bool
  g_CleanupOnStop :: bool
  g_OwnershipTracking :: bool
  g_AdoptExisting :: bool
  g_DefaultTTL :: int
  g_ReconcileInterval :: int
  g_ShutdownTimeout :: int
  g_HealthPort :: int

record global_platform = global_behavior +
  g_Platform :: string
  g_DockerHost :: string
  g_DockerMode :: string
  g_DockerConnectTimeout :: int
  g_Source :: string
  g_InstanceID :: string

record global_k8s = global_platform +
  g_K8sKubeconfig :: string
  g_K8sNamespaces :: string
  g_K8sWatchIngress :: bool
  g_K8sWatchIngressRoute :: bool
  g_K8sWatchHTTPRoute :: bool
  g_K8sWatchServices :: bool
  g_K8sLabelSelector :: string
  g_K8sAnnotationFilter :: string

record global_proxmox = global_k8s +
  g_ProxmoxURL :: string
  g_ProxmoxTokenID :: string
  g_ProxmoxTokenSecret :: string
  g_ProxmoxNodeFilter :: string
  g_ProxmoxTagFilter :: string
  g_ProxmoxStateFilter :: string
  g_ProxmoxDomainSuffix :: string
  g_ProxmoxHostnameTagPrefix :: string
  g_ProxmoxInterfaceTagPrefix :: string
  g_ProxmoxAllowedInterfaces :: "string list"
  g_ProxmoxVerifyTLS :: bool
  g_ProxmoxTargetMode :: string
  g_ProxmoxTLSCAFile :: string
  g_ProxmoxTLSCertFile :: string
  g_ProxmoxTLSKeyFile :: string
  g_ProxmoxTLSServerName :: string
  g_ProxmoxTLSSkipVerify :: bool
  g_ProxmoxTLSMinVersion :: string

record GlobalConfig = global_proxmox +
  g_IncusURL :: string
  g_IncusSocketPath :: string
  g_IncusProject :: string
  g_IncusProjects :: "string list"
  g_IncusAllProjects :: bool
  g_IncusStateFilter :: string
  g_IncusDomainSuffix :: string
  g_IncusTargetMode :: string
  g_IncusTLSCAFile :: string
  g_IncusTLSCertFile :: string
  g_IncusTLSKeyFile :: string
  g_IncusTLSServerName :: string
  g_IncusTLSSkipVerify :: bool
  g_IncusTLSPinSHA256 :: string
  g_IncusTLSMinVersion :: string
  g_IncusTrustToken :: string
  g_IncusCertStore :: string

text \<open>The zero value, and the value \<^verbatim>\<open>ToGlobalConfig\<close> starts from.\<close>

definition zero_global :: GlobalConfig where
  "zero_global =
     \<lparr>g_LogLevel = [], g_LogFormat = [], g_LogFile = [], g_LogMaxSize = 0, g_LogMaxBackups = 0, g_LogMaxAge = 0,
      g_LogCompress = False, g_DryRun = False, g_CleanupOrphans = False, g_CleanupOnStop = False,
      g_OwnershipTracking = False, g_AdoptExisting = False, g_DefaultTTL = 0, g_ReconcileInterval = 0,
      g_ShutdownTimeout = 0, g_HealthPort = 0, g_Platform = [], g_DockerHost = [], g_DockerMode = [],
      g_DockerConnectTimeout = 0, g_Source = [], g_InstanceID = [], g_K8sKubeconfig = [], g_K8sNamespaces = [],
      g_K8sWatchIngress = False, g_K8sWatchIngressRoute = False, g_K8sWatchHTTPRoute = False, g_K8sWatchServices = False,
      g_K8sLabelSelector = [], g_K8sAnnotationFilter = [], g_ProxmoxURL = [], g_ProxmoxTokenID = [],
      g_ProxmoxTokenSecret = [], g_ProxmoxNodeFilter = [], g_ProxmoxTagFilter = [], g_ProxmoxStateFilter = [],
      g_ProxmoxDomainSuffix = [], g_ProxmoxHostnameTagPrefix = [], g_ProxmoxInterfaceTagPrefix = [],
      g_ProxmoxAllowedInterfaces = [], g_ProxmoxVerifyTLS = False, g_ProxmoxTargetMode = [], g_ProxmoxTLSCAFile = [],
      g_ProxmoxTLSCertFile = [], g_ProxmoxTLSKeyFile = [], g_ProxmoxTLSServerName = [], g_ProxmoxTLSSkipVerify = False,
      g_ProxmoxTLSMinVersion = [], g_IncusURL = [], g_IncusSocketPath = [], g_IncusProject = [], g_IncusProjects = [],
      g_IncusAllProjects = False, g_IncusStateFilter = [], g_IncusDomainSuffix = [], g_IncusTargetMode = [],
      g_IncusTLSCAFile = [], g_IncusTLSCertFile = [], g_IncusTLSKeyFile = [], g_IncusTLSServerName = [],
      g_IncusTLSSkipVerify = False, g_IncusTLSPinSHA256 = [], g_IncusTLSMinVersion = [], g_IncusTrustToken = [],
      g_IncusCertStore = []\<rparr>"

definition DefaultTTL :: int where "DefaultTTL = 300"
definition DefaultDockerHost :: string where "DefaultDockerHost = ''unix:///var/run/docker.sock''"

definition default_global :: GlobalConfig where
  "default_global = zero_global
     \<lparr>g_LogLevel := ''info'', g_LogFormat := ''json'', g_LogMaxSize := 100, g_LogMaxBackups := 5, g_LogMaxAge := 30,
      g_LogCompress := True, g_DryRun := False, g_CleanupOrphans := True, g_CleanupOnStop := True,
      g_OwnershipTracking := True, g_AdoptExisting := False, g_DefaultTTL := DefaultTTL,
      g_ReconcileInterval := 60 * one_second, g_ShutdownTimeout := 30 * one_second, g_HealthPort := 8080,
      g_Platform := ''docker'', g_DockerHost := DefaultDockerHost, g_DockerMode := ''auto'',
      g_DockerConnectTimeout := 30 * one_second, g_Source := ''traefik'', g_K8sWatchIngress := True,
      g_K8sWatchIngressRoute := True, g_K8sWatchHTTPRoute := True, g_K8sWatchServices := False\<rparr>"

definition normalizePlatform :: "string \<Rightarrow> string" where
  "normalizePlatform v = (let t = ToLower (TrimSpace v) in if t = ''standalone'' then ''none'' else t)"

definition MaxInstanceIDLength :: nat where "MaxInstanceIDLength = 63"

definition instance_id_char :: "char \<Rightarrow> bool" where
  "instance_id_char c \<longleftrightarrow> is_upper c \<or> is_lower c \<or> is_digit c"

definition validateInstanceID :: "string \<Rightarrow> err option" where
  "validateInstanceID i =
     (if i = [] then None
      else if length i > MaxInstanceIDLength then
        Some (ErrorNew (''must be at most '' @ Itoa MaxInstanceIDLength @ '' characters, got '' @ Itoa (length i)))
      else if \<not> (instance_id_char (hd i) \<and>
                 list_all (\<lambda>c. instance_id_char c \<or> c = CHR ''.'' \<or> c = CHR ''_'' \<or> c = CHR ''-'') (tl i)) then
        Some (ErrorNew (''invalid format '' @ Quote i @
          '' (must be alphanumeric, hyphens, underscores, dots; must start with alphanumeric)''))
      else None)"

subsection \<open>Loading from the environment\<close>

type_synonym loader = "GlobalConfig \<Rightarrow> GlobalConfig \<times> conf_error list"

fun run_loaders :: "loader list \<Rightarrow> loader" where
  "run_loaders [] cfg = (cfg, [])"
| "run_loaders (l # ls) cfg = (let (c1, e1) = l cfg; (c2, e2) = run_loaders ls c1 in (c2, e1 @ e2))"

definition setting :: "(GlobalConfig \<Rightarrow> GlobalConfig) \<Rightarrow> loader" where
  "setting upd cfg = (upd cfg, [])"

text \<open>
  A setting with a default: the variable is parsed and checked when it is set, else the default is used.
  \<open>check\<close> gives the error of a value out of range.
\<close>

definition parsed_setting ::
  "environment \<Rightarrow> string \<Rightarrow> (string \<Rightarrow> err + 'a) \<Rightarrow> (string \<Rightarrow> conf_error) \<Rightarrow> ('a \<Rightarrow> conf_error option) \<Rightarrow> 'a \<Rightarrow>
   ('a \<Rightarrow> GlobalConfig \<Rightarrow> GlobalConfig) \<Rightarrow> loader" where
  "parsed_setting E key parse bad check dflt upd cfg =
     (let v = getEnv E key in
      if v = [] then (upd dflt cfg, [])
      else case parse v of
        Inl _ \<Rightarrow> (cfg, [bad v])
      | Inr x \<Rightarrow> (case check x of Some e \<Rightarrow> (cfg, [e]) | None \<Rightarrow> (upd x cfg, [])))"

definition bool_setting :: "environment \<Rightarrow> string \<Rightarrow> bool \<Rightarrow> (bool \<Rightarrow> GlobalConfig \<Rightarrow> GlobalConfig) \<Rightarrow> loader" where
  "bool_setting E key dflt upd cfg =
     (let v = getEnv E key in (upd (if v \<noteq> [] then conf_parseBool v dflt else dflt) cfg, []))"

definition invalid_integer :: "string \<Rightarrow> string \<Rightarrow> string \<Rightarrow> string \<Rightarrow> conf_error" where
  "invalid_integer key help example v = configErrFull key (''invalid integer '' @ Quote v) help example"

definition invalid_duration :: "string \<Rightarrow> string \<Rightarrow> string \<Rightarrow> string \<Rightarrow> conf_error" where
  "invalid_duration key help example v = configErrFull key (''invalid duration '' @ Quote v) help example"

definition check_that :: "bool \<Rightarrow> conf_error \<Rightarrow> conf_error list" where
  "check_that ok e = (if ok then [] else [e])"

definition valid_LogLevel :: "string \<Rightarrow> bool" where
  "valid_LogLevel v \<longleftrightarrow> v \<in> {''debug'', ''info'', ''warn'', ''error''}"
definition valid_LogFormat :: "string \<Rightarrow> bool" where
  "valid_LogFormat v \<longleftrightarrow> v \<in> {''json'', ''text''}"
definition valid_DockerMode :: "string \<Rightarrow> bool" where
  "valid_DockerMode v \<longleftrightarrow> v \<in> {''auto'', ''swarm'', ''standalone''}"
definition valid_Platform :: "string \<Rightarrow> bool" where
  "valid_Platform v \<longleftrightarrow> v \<in> {''docker'', ''kubernetes'', ''both'', ''none''}"

definition log_level_error :: "string \<Rightarrow> conf_error" where
  "log_level_error v = configErrFull ''DNSWEAVER_LOG_LEVEL'' (''invalid value '' @ Quote v)
     ''Must be one of: debug, info, warn, error'' ''DNSWEAVER_LOG_LEVEL=info''"
definition log_format_error :: "string \<Rightarrow> conf_error" where
  "log_format_error v = configErrFull ''DNSWEAVER_LOG_FORMAT'' (''invalid value '' @ Quote v)
     ''Must be one of: json, text'' ''DNSWEAVER_LOG_FORMAT=json''"
definition docker_mode_error :: "string \<Rightarrow> conf_error" where
  "docker_mode_error v = configErrFull ''DNSWEAVER_DOCKER_MODE'' (''invalid value '' @ Quote v)
     ''Must be one of: auto, swarm, standalone'' ''DNSWEAVER_DOCKER_MODE=auto''"
definition platform_error :: "string \<Rightarrow> conf_error" where
  "platform_error v = configErrFull ''DNSWEAVER_PLATFORM'' (''invalid value '' @ Quote v)
     ''Must be one of: docker, kubernetes, both, none'' ''DNSWEAVER_PLATFORM=docker''"
definition instance_id_error :: "err \<Rightarrow> conf_error" where
  "instance_id_error e = configErrFull ''DNSWEAVER_INSTANCE_ID'' (Error e)
     ''Must be 1-63 alphanumeric characters with hyphens, underscores, or dots'' ''DNSWEAVER_INSTANCE_ID=prod-01''"

text \<open>The first block reads the raw strings, fills in defaults, then validates.\<close>

definition or_default :: "string \<Rightarrow> string \<Rightarrow> string" where
  "or_default v d = (if v = [] then d else v)"

definition load_strings :: "environment \<Rightarrow> loader" where
  "load_strings E cfg =
     (let c1 = cfg\<lparr>g_LogLevel := or_default (getEnv E ''DNSWEAVER_LOG_LEVEL'') ''info'',
                   g_LogFormat := or_default (getEnv E ''DNSWEAVER_LOG_FORMAT'') ''json'',
                   g_LogFile := getEnv E ''DNSWEAVER_LOG_FILE'',
                   g_DockerHost := or_default (getEnv E ''DNSWEAVER_DOCKER_HOST'') DefaultDockerHost,
                   g_DockerMode := or_default (getEnv E ''DNSWEAVER_DOCKER_MODE'') ''auto'',
                   g_Source := ''traefik'',
                   g_Platform := or_default (getEnv E ''DNSWEAVER_PLATFORM'') ''docker''\<rparr>;
          platform = normalizePlatform (g_Platform c1); level = ToLower (g_LogLevel c1); format = ToLower (g_LogFormat c1)
      in (c1\<lparr>g_Platform := platform, g_LogLevel := level, g_LogFormat := format\<rparr>,
          check_that (valid_Platform platform) (platform_error platform) @
          check_that (valid_LogLevel level) (log_level_error level) @
          check_that (valid_LogFormat format) (log_format_error format)))"

definition load_rotation :: "environment \<Rightarrow> loader list" where
  "load_rotation E =
     [parsed_setting E ''DNSWEAVER_LOG_MAX_SIZE'' Atoi
        (invalid_integer ''DNSWEAVER_LOG_MAX_SIZE'' ''Must be a positive integer representing megabytes'' ''DNSWEAVER_LOG_MAX_SIZE=100'')
        (\<lambda>n. if n < 1 then Some (configErrFull ''DNSWEAVER_LOG_MAX_SIZE'' ''must be at least 1 (MB)''
           ''Minimum log file size is 1 MB'' ''DNSWEAVER_LOG_MAX_SIZE=100'') else None)
        100 (\<lambda>n cfg. cfg\<lparr>g_LogMaxSize := n\<rparr>),
      parsed_setting E ''DNSWEAVER_LOG_MAX_BACKUPS'' Atoi
        (invalid_integer ''DNSWEAVER_LOG_MAX_BACKUPS'' ''Must be a non-negative integer'' ''DNSWEAVER_LOG_MAX_BACKUPS=5'')
        (\<lambda>n. if n < 0 then Some (configErrFull ''DNSWEAVER_LOG_MAX_BACKUPS'' ''must be non-negative''
           ''Use 0 to keep all old log files'' ''DNSWEAVER_LOG_MAX_BACKUPS=5'') else None)
        5 (\<lambda>n cfg. cfg\<lparr>g_LogMaxBackups := n\<rparr>),
      parsed_setting E ''DNSWEAVER_LOG_MAX_AGE'' Atoi
        (invalid_integer ''DNSWEAVER_LOG_MAX_AGE'' ''Must be a non-negative integer (days)'' ''DNSWEAVER_LOG_MAX_AGE=30'')
        (\<lambda>n. if n < 0 then Some (configErrFull ''DNSWEAVER_LOG_MAX_AGE'' ''must be non-negative''
           ''Use 0 to keep old log files indefinitely'' ''DNSWEAVER_LOG_MAX_AGE=30'') else None)
        30 (\<lambda>n cfg. cfg\<lparr>g_LogMaxAge := n\<rparr>),
      bool_setting E ''DNSWEAVER_LOG_COMPRESS'' True (\<lambda>b cfg. cfg\<lparr>g_LogCompress := b\<rparr>)]"

definition load_docker_mode :: loader where
  "load_docker_mode cfg =
     (let mode = ToLower (g_DockerMode cfg) in
      (cfg\<lparr>g_DockerMode := mode\<rparr>, check_that (valid_DockerMode mode) (docker_mode_error mode)))"

definition load_flags :: "environment \<Rightarrow> loader list" where
  "load_flags E =
     [bool_setting E ''DNSWEAVER_DRY_RUN'' False (\<lambda>b cfg. cfg\<lparr>g_DryRun := b\<rparr>),
      bool_setting E ''DNSWEAVER_CLEANUP_ORPHANS'' True (\<lambda>b cfg. cfg\<lparr>g_CleanupOrphans := b\<rparr>),
      bool_setting E ''DNSWEAVER_CLEANUP_ON_STOP'' True (\<lambda>b cfg. cfg\<lparr>g_CleanupOnStop := b\<rparr>),
      bool_setting E ''DNSWEAVER_OWNERSHIP_TRACKING'' True (\<lambda>b cfg. cfg\<lparr>g_OwnershipTracking := b\<rparr>),
      bool_setting E ''DNSWEAVER_ADOPT_EXISTING'' False (\<lambda>b cfg. cfg\<lparr>g_AdoptExisting := b\<rparr>)]"

definition load_default_ttl :: "environment \<Rightarrow> loader" where
  "load_default_ttl E =
     parsed_setting E ''DNSWEAVER_DEFAULT_TTL'' Atoi
        (invalid_integer ''DNSWEAVER_DEFAULT_TTL'' ''Must be a positive integer (seconds)'' ''DNSWEAVER_DEFAULT_TTL=300'')
        (\<lambda>n. if n < 1 then Some (configErrFull ''DNSWEAVER_DEFAULT_TTL'' ''must be at least 1''
           ''TTL is in seconds; typical values are 60-3600'' ''DNSWEAVER_DEFAULT_TTL=300'') else None)
        DefaultTTL (\<lambda>n cfg. cfg\<lparr>g_DefaultTTL := n\<rparr>)"

definition load_reconcile_interval :: "environment \<Rightarrow> loader" where
  "load_reconcile_interval E =
     parsed_setting E ''DNSWEAVER_RECONCILE_INTERVAL'' ParseDuration
        (invalid_duration ''DNSWEAVER_RECONCILE_INTERVAL'' ''Use Go duration format: 60s, 5m, 1h'' ''DNSWEAVER_RECONCILE_INTERVAL=60s'')
        (\<lambda>d. if d < one_second then Some (configErrFull ''DNSWEAVER_RECONCILE_INTERVAL'' ''must be at least 1s''
           ''Shorter intervals cause excessive API calls'' ''DNSWEAVER_RECONCILE_INTERVAL=60s'') else None)
        (60 * one_second) (\<lambda>d cfg. cfg\<lparr>g_ReconcileInterval := d\<rparr>)"

definition load_shutdown_timeout :: "environment \<Rightarrow> loader" where
  "load_shutdown_timeout E =
     parsed_setting E ''DNSWEAVER_SHUTDOWN_TIMEOUT'' ParseDuration
        (invalid_duration ''DNSWEAVER_SHUTDOWN_TIMEOUT'' ''Use Go duration format: 30s, 1m, 2m'' ''DNSWEAVER_SHUTDOWN_TIMEOUT=30s'')
        (\<lambda>d. if d < one_second then Some (configErrFull ''DNSWEAVER_SHUTDOWN_TIMEOUT'' ''must be at least 1s''
           ''Allow enough time for in-flight DNS updates to complete'' ''DNSWEAVER_SHUTDOWN_TIMEOUT=30s'') else None)
        (30 * one_second) (\<lambda>d cfg. cfg\<lparr>g_ShutdownTimeout := d\<rparr>)"

definition load_connect_timeout :: "environment \<Rightarrow> loader" where
  "load_connect_timeout E =
     parsed_setting E ''DNSWEAVER_DOCKER_CONNECT_TIMEOUT'' ParseDuration
        (invalid_duration ''DNSWEAVER_DOCKER_CONNECT_TIMEOUT'' ''Use Go duration format: 30s, 1m; 0 to fail immediately''
          ''DNSWEAVER_DOCKER_CONNECT_TIMEOUT=30s'')
        (\<lambda>d. if d < 0 then Some (configErrFull ''DNSWEAVER_DOCKER_CONNECT_TIMEOUT'' ''must not be negative''
           ''Use 0 to fail immediately, or a positive duration to retry'' ''DNSWEAVER_DOCKER_CONNECT_TIMEOUT=30s'') else None)
        (30 * one_second) (\<lambda>d cfg. cfg\<lparr>g_DockerConnectTimeout := d\<rparr>)"

definition load_health_port :: "environment \<Rightarrow> loader" where
  "load_health_port E =
     parsed_setting E ''DNSWEAVER_HEALTH_PORT'' Atoi
        (invalid_integer ''DNSWEAVER_HEALTH_PORT'' ''Must be a valid TCP port number'' ''DNSWEAVER_HEALTH_PORT=8080'')
        (\<lambda>n. if n < 1 \<or> n > 65535 then Some (configErrFull ''DNSWEAVER_HEALTH_PORT''
           (''must be between 1 and 65535, got '' @ show_int n) ''Choose an unprivileged port (1024-65535)''
           ''DNSWEAVER_HEALTH_PORT=8080'') else None)
        8080 (\<lambda>n cfg. cfg\<lparr>g_HealthPort := n\<rparr>)"

definition load_numbers :: "environment \<Rightarrow> loader list" where
  "load_numbers E =
     [load_default_ttl E, load_reconcile_interval E, load_shutdown_timeout E, load_connect_timeout E, load_health_port E]"

definition load_instance_id :: "environment \<Rightarrow> loader" where
  "load_instance_id E cfg =
     (let v = getEnv E ''DNSWEAVER_INSTANCE_ID'' in
      if v = [] then (cfg, [])
      else case validateInstanceID v of
        Some e \<Rightarrow> (cfg, [instance_id_error e])
      | None \<Rightarrow> (cfg\<lparr>g_InstanceID := v\<rparr>, []))"

definition load_k8s :: "environment \<Rightarrow> loader list" where
  "load_k8s E =
     [setting (\<lambda>cfg. cfg\<lparr>g_K8sKubeconfig := getEnv E ''DNSWEAVER_K8S_KUBECONFIG'',
        g_K8sNamespaces := getEnv E ''DNSWEAVER_K8S_NAMESPACES'',
        g_K8sLabelSelector := getEnv E ''DNSWEAVER_K8S_LABEL_SELECTOR'',
        g_K8sAnnotationFilter := getEnv E ''DNSWEAVER_K8S_ANNOTATION_FILTER''\<rparr>),
      bool_setting E ''DNSWEAVER_K8S_WATCH_INGRESS'' True (\<lambda>b cfg. cfg\<lparr>g_K8sWatchIngress := b\<rparr>),
      bool_setting E ''DNSWEAVER_K8S_WATCH_INGRESSROUTE'' True (\<lambda>b cfg. cfg\<lparr>g_K8sWatchIngressRoute := b\<rparr>),
      bool_setting E ''DNSWEAVER_K8S_WATCH_HTTPROUTE'' True (\<lambda>b cfg. cfg\<lparr>g_K8sWatchHTTPRoute := b\<rparr>),
      bool_setting E ''DNSWEAVER_K8S_WATCH_SERVICES'' False (\<lambda>b cfg. cfg\<lparr>g_K8sWatchServices := b\<rparr>)]"

definition target_mode_error :: "string \<Rightarrow> string \<Rightarrow> conf_error list" where
  "target_mode_error key v =
     check_that (v = [] \<or> ToLower (TrimSpace v) \<in> {''guest-ip'', ''instance''})
       (configErrFull key (''invalid value '' @ Quote v)
         ''Must be one of: guest-ip (default, A record per guest IP), instance (defer to instance TARGET/RECORD_TYPE)''
         (key @ ''=instance''))"

definition load_proxmox :: "environment \<Rightarrow> loader" where
  "load_proxmox E cfg =
     (let verify = getEnv E ''DNSWEAVER_PROXMOX_VERIFY_TLS''; mode = getEnv E ''DNSWEAVER_PROXMOX_TARGET_MODE'' in
      (cfg\<lparr>g_ProxmoxURL := getEnv E ''DNSWEAVER_PROXMOX_URL'',
           g_ProxmoxTokenID := getEnv E ''DNSWEAVER_PROXMOX_TOKEN_ID'',
           g_ProxmoxTokenSecret := getEnvOrFile E ''DNSWEAVER_PROXMOX_TOKEN_SECRET'' ''DNSWEAVER_PROXMOX_TOKEN_SECRET_FILE'',
           g_ProxmoxNodeFilter := getEnv E ''DNSWEAVER_PROXMOX_NODE_FILTER'',
           g_ProxmoxTagFilter := getEnv E ''DNSWEAVER_PROXMOX_TAG_FILTER'',
           g_ProxmoxStateFilter := getEnv E ''DNSWEAVER_PROXMOX_STATE_FILTER'',
           g_ProxmoxDomainSuffix := getEnv E ''DNSWEAVER_PROXMOX_DOMAIN_SUFFIX'',
           g_ProxmoxHostnameTagPrefix := getEnv E ''DNSWEAVER_PROXMOX_HOSTNAME_TAG_PREFIX'',
           g_ProxmoxInterfaceTagPrefix := getEnv E ''DNSWEAVER_PROXMOX_INTERFACE_TAG_PREFIX'',
           g_ProxmoxAllowedInterfaces := splitPatterns (getEnv E ''DNSWEAVER_PROXMOX_ALLOWED_INTERFACES''),
           g_ProxmoxTargetMode := mode,
           g_ProxmoxVerifyTLS := (if verify \<noteq> [] then conf_parseBool verify False else g_ProxmoxVerifyTLS cfg)\<rparr>,
       target_mode_error ''DNSWEAVER_PROXMOX_TARGET_MODE'' mode))"

definition load_proxmox_tls :: "environment \<Rightarrow> loader" where
  "load_proxmox_tls E =
     setting (\<lambda>cfg. cfg\<lparr>g_ProxmoxTLSCAFile := getEnv E ''DNSWEAVER_PROXMOX_TLS_CA_FILE'',
       g_ProxmoxTLSCertFile := getEnv E ''DNSWEAVER_PROXMOX_TLS_CERT_FILE'',
       g_ProxmoxTLSKeyFile := getEnv E ''DNSWEAVER_PROXMOX_TLS_KEY_FILE'',
       g_ProxmoxTLSServerName := getEnv E ''DNSWEAVER_PROXMOX_TLS_SERVER_NAME'',
       g_ProxmoxTLSMinVersion := getEnv E ''DNSWEAVER_PROXMOX_TLS_MIN_VERSION'',
       g_ProxmoxTLSSkipVerify :=
         (case (ev_Lookup E ''DNSWEAVER_PROXMOX_TLS_SKIP_VERIFY'', ev_Lookup E ''DNSWEAVER_PROXMOX_VERIFY_TLS'') of
            (Some skipNew, _) \<Rightarrow> conf_parseBool skipNew False
          | (None, Some _) \<Rightarrow> \<not> g_ProxmoxVerifyTLS cfg
          | (None, None) \<Rightarrow> g_ProxmoxTLSSkipVerify cfg)\<rparr>)"

definition load_incus :: "environment \<Rightarrow> loader" where
  "load_incus E cfg =
     (let url = getEnv E ''DNSWEAVER_INCUS_URL''; socket = getEnv E ''DNSWEAVER_INCUS_SOCKET_PATH'';
          mode = getEnv E ''DNSWEAVER_INCUS_TARGET_MODE''; skip = getEnv E ''DNSWEAVER_INCUS_TLS_SKIP_VERIFY'' in
      (cfg\<lparr>g_IncusURL := url, g_IncusSocketPath := socket, g_IncusProject := getEnv E ''DNSWEAVER_INCUS_PROJECT'',
           g_IncusProjects := splitCommaList (getEnv E ''DNSWEAVER_INCUS_PROJECTS''),
           g_IncusAllProjects := conf_parseBool (getEnv E ''DNSWEAVER_INCUS_ALL_PROJECTS'') False,
           g_IncusStateFilter := getEnv E ''DNSWEAVER_INCUS_STATE_FILTER'',
           g_IncusDomainSuffix := getEnv E ''DNSWEAVER_INCUS_DOMAIN_SUFFIX'', g_IncusTargetMode := mode,
           g_IncusTLSCAFile := getEnv E ''DNSWEAVER_INCUS_TLS_CA_FILE'',
           g_IncusTLSCertFile := getEnv E ''DNSWEAVER_INCUS_TLS_CERT_FILE'',
           g_IncusTLSKeyFile := getEnv E ''DNSWEAVER_INCUS_TLS_KEY_FILE'',
           g_IncusTLSServerName := getEnv E ''DNSWEAVER_INCUS_TLS_SERVER_NAME'',
           g_IncusTLSMinVersion := getEnv E ''DNSWEAVER_INCUS_TLS_MIN_VERSION'',
           g_IncusTLSPinSHA256 := getEnv E ''DNSWEAVER_INCUS_TLS_PIN_SHA256'',
           g_IncusTLSSkipVerify := (if skip \<noteq> [] then conf_parseBool skip False else g_IncusTLSSkipVerify cfg),
           g_IncusTrustToken := getEnv E ''DNSWEAVER_INCUS_TRUST_TOKEN'',
           g_IncusCertStore := getEnv E ''DNSWEAVER_INCUS_CERT_STORE''\<rparr>,
       target_mode_error ''DNSWEAVER_INCUS_TARGET_MODE'' mode @
       check_that (\<not> (url \<noteq> [] \<and> socket \<noteq> []))
         (configErrFull ''DNSWEAVER_INCUS_URL'' ''both DNSWEAVER_INCUS_URL and DNSWEAVER_INCUS_SOCKET_PATH are set''
           ''Set exactly one: URL for a remote HTTPS endpoint, or SOCKET_PATH for the local Unix socket.''
           ''DNSWEAVER_INCUS_SOCKET_PATH=/var/lib/incus/unix.socket'')))"

definition loadGlobalConfig :: "environment \<Rightarrow> GlobalConfig \<times> conf_error list" where
  "loadGlobalConfig E =
     run_loaders ([load_strings E] @ load_rotation E @ [load_docker_mode] @ load_flags E @ load_numbers E @ [load_instance_id E] @
       load_k8s E @ [load_proxmox E, load_proxmox_tls E, load_incus E]) zero_global"

subsection \<open>Environment variables over the settings of a file\<close>

definition override :: "environment \<Rightarrow> string \<Rightarrow> (string \<Rightarrow> loader) \<Rightarrow> loader" where
  "override E key f cfg = (let v = getEnv E key in if v \<noteq> [] then f v cfg else (cfg, []))"

definition parseIntEnv :: "string \<Rightarrow> err + int" where
  "parseIntEnv s =
     (if s = [] then Inr 0
      else case Atoi (TrimSpace s) of Inl e \<Rightarrow> Inl (Errorf ''invalid integer: '' e) | Inr n \<Rightarrow> Inr n)"

definition checked_override ::
  "environment \<Rightarrow> string \<Rightarrow> (string \<Rightarrow> err + 'a) \<Rightarrow> ('a \<Rightarrow> bool) \<Rightarrow> string \<Rightarrow> string \<Rightarrow> ('a \<Rightarrow> GlobalConfig \<Rightarrow> GlobalConfig) \<Rightarrow> loader" where
  "checked_override E key parse ok help example upd =
     override E key (\<lambda>v cfg.
       case parse v of
         Inr x \<Rightarrow> if ok x then (upd x cfg, []) else (cfg, [configErrFull key (''invalid value '' @ Quote v) help example])
       | Inl _ \<Rightarrow> (cfg, [configErrFull key (''invalid value '' @ Quote v) help example]))"

definition override_bool :: "environment \<Rightarrow> string \<Rightarrow> (GlobalConfig \<Rightarrow> bool) \<Rightarrow> (bool \<Rightarrow> GlobalConfig \<Rightarrow> GlobalConfig) \<Rightarrow> loader" where
  "override_bool E key get upd = override E key (\<lambda>v cfg. (upd (conf_parseBool v (get cfg)) cfg, []))"

definition override_string :: "environment \<Rightarrow> string \<Rightarrow> (string \<Rightarrow> GlobalConfig \<Rightarrow> GlobalConfig) \<Rightarrow> loader" where
  "override_string E key upd = override E key (\<lambda>v cfg. (upd v cfg, []))"

definition merge_settings :: "environment \<Rightarrow> loader list" where
  "merge_settings E =
     [override E ''DNSWEAVER_LOG_LEVEL'' (\<lambda>v cfg. (cfg\<lparr>g_LogLevel := ToLower v\<rparr>, check_that (valid_LogLevel (ToLower v)) (log_level_error v))),
      override E ''DNSWEAVER_LOG_FORMAT'' (\<lambda>v cfg. (cfg\<lparr>g_LogFormat := ToLower v\<rparr>, check_that (valid_LogFormat (ToLower v)) (log_format_error v))),
      override_string E ''DNSWEAVER_DOCKER_HOST'' (\<lambda>v cfg. cfg\<lparr>g_DockerHost := v\<rparr>),
      override E ''DNSWEAVER_DOCKER_MODE'' (\<lambda>v cfg. (cfg\<lparr>g_DockerMode := ToLower v\<rparr>, check_that (valid_DockerMode (ToLower v)) (docker_mode_error v))),
      override_bool E ''DNSWEAVER_DRY_RUN'' g_DryRun (\<lambda>b cfg. cfg\<lparr>g_DryRun := b\<rparr>),
      override_bool E ''DNSWEAVER_CLEANUP_ORPHANS'' g_CleanupOrphans (\<lambda>b cfg. cfg\<lparr>g_CleanupOrphans := b\<rparr>),
      override_bool E ''DNSWEAVER_CLEANUP_ON_STOP'' g_CleanupOnStop (\<lambda>b cfg. cfg\<lparr>g_CleanupOnStop := b\<rparr>),
      override_bool E ''DNSWEAVER_OWNERSHIP_TRACKING'' g_OwnershipTracking (\<lambda>b cfg. cfg\<lparr>g_OwnershipTracking := b\<rparr>),
      override_bool E ''DNSWEAVER_ADOPT_EXISTING'' g_AdoptExisting (\<lambda>b cfg. cfg\<lparr>g_AdoptExisting := b\<rparr>),
      checked_override E ''DNSWEAVER_DEFAULT_TTL'' parseIntEnv (\<lambda>n. n \<ge> 1) ''Must be a positive integer (seconds)''
        ''DNSWEAVER_DEFAULT_TTL=300'' (\<lambda>n cfg. cfg\<lparr>g_DefaultTTL := n\<rparr>),
      checked_override E ''DNSWEAVER_RECONCILE_INTERVAL'' ParseDuration (\<lambda>d. d \<ge> one_second) ''Use Go duration format, minimum 1s''
        ''DNSWEAVER_RECONCILE_INTERVAL=60s'' (\<lambda>d cfg. cfg\<lparr>g_ReconcileInterval := d\<rparr>),
      checked_override E ''DNSWEAVER_HEALTH_PORT'' parseIntEnv (\<lambda>n. n \<ge> 1 \<and> n \<le> 65535) ''Must be a valid TCP port (1-65535)''
        ''DNSWEAVER_HEALTH_PORT=8080'' (\<lambda>n cfg. cfg\<lparr>g_HealthPort := n\<rparr>),
      override E ''DNSWEAVER_INSTANCE_ID'' (\<lambda>v cfg.
        case validateInstanceID v of Some e \<Rightarrow> (cfg, [instance_id_error e]) | None \<Rightarrow> (cfg\<lparr>g_InstanceID := v\<rparr>, [])),
      override E ''DNSWEAVER_PLATFORM'' (\<lambda>v cfg.
        (cfg\<lparr>g_Platform := normalizePlatform v\<rparr>, check_that (valid_Platform (normalizePlatform v)) (platform_error v))),
      override_string E ''DNSWEAVER_K8S_KUBECONFIG'' (\<lambda>v cfg. cfg\<lparr>g_K8sKubeconfig := v\<rparr>),
      override_string E ''DNSWEAVER_K8S_NAMESPACES'' (\<lambda>v cfg. cfg\<lparr>g_K8sNamespaces := v\<rparr>),
      override_string E ''DNSWEAVER_K8S_LABEL_SELECTOR'' (\<lambda>v cfg. cfg\<lparr>g_K8sLabelSelector := v\<rparr>),
      override_string E ''DNSWEAVER_K8S_ANNOTATION_FILTER'' (\<lambda>v cfg. cfg\<lparr>g_K8sAnnotationFilter := v\<rparr>),
      override_bool E ''DNSWEAVER_K8S_WATCH_INGRESS'' g_K8sWatchIngress (\<lambda>b cfg. cfg\<lparr>g_K8sWatchIngress := b\<rparr>),
      override_bool E ''DNSWEAVER_K8S_WATCH_INGRESSROUTE'' g_K8sWatchIngressRoute (\<lambda>b cfg. cfg\<lparr>g_K8sWatchIngressRoute := b\<rparr>),
      override_bool E ''DNSWEAVER_K8S_WATCH_HTTPROUTE'' g_K8sWatchHTTPRoute (\<lambda>b cfg. cfg\<lparr>g_K8sWatchHTTPRoute := b\<rparr>),
      override_bool E ''DNSWEAVER_K8S_WATCH_SERVICES'' g_K8sWatchServices (\<lambda>b cfg. cfg\<lparr>g_K8sWatchServices := b\<rparr>)]"

definition mergeGlobalConfig :: "environment \<Rightarrow> GlobalConfig option \<Rightarrow> GlobalConfig \<times> conf_error list" where
  "mergeGlobalConfig E base0 =
     (case base0 of None \<Rightarrow> loadGlobalConfig E | Some base \<Rightarrow> run_loaders (merge_settings E) base)"

subsection \<open>Invariants of the loaders\<close>

text \<open>A property every loader of a list keeps holds after the list.\<close>

lemma run_loaders_keeps:
  "(\<And>l cfg. l \<in> set ls \<Longrightarrow> P cfg \<Longrightarrow> P (fst (l cfg))) \<Longrightarrow> P cfg \<Longrightarrow> P (fst (run_loaders ls cfg))"
  by (induction ls arbitrary: cfg) (auto simp: split_beta Let_def)

text \<open>A view no loader of a list changes is unchanged by the list.\<close>

lemma run_loaders_frame:
  "(\<And>l cfg. l \<in> set ls \<Longrightarrow> f (fst (l cfg)) = f cfg) \<Longrightarrow> f (fst (run_loaders ls cfg)) = f cfg"
  by (induction ls arbitrary: cfg) (auto simp: split_beta Let_def)

lemma run_loaders_append:
  "run_loaders (ls @ ms) cfg =
    (let (c1, e1) = run_loaders ls cfg; (c2, e2) = run_loaders ms c1 in (c2, e1 @ e2))"
  by (induction ls arbitrary: cfg) (auto simp: split_beta Let_def)

lemma fst_override: "fst (override E key f cfg) = (if getEnv E key \<noteq> [] then fst (f (getEnv E key) cfg) else cfg)"
  by (simp add: override_def Let_def)

lemma fst_checked_override:
  "fst (checked_override E key parse ok help example upd cfg) =
    (if getEnv E key \<noteq> [] then case parse (getEnv E key) of Inr x \<Rightarrow> if ok x then upd x cfg else cfg | Inl _ \<Rightarrow> cfg else cfg)"
  by (simp add: checked_override_def fst_override split: sum.splits)

text \<open>
  Only the settings of \<open>merge_settings\<close> can be overridden once a file is used: the Proxmox and Incus settings
  and the log file stay those of the file, whatever the environment says.
\<close>

definition file_only :: "GlobalConfig \<Rightarrow> string list \<times> bool \<times> bool \<times> int \<times> int" where
  "file_only g = ([g_LogFile g, g_ProxmoxURL g, g_ProxmoxTokenID g, g_ProxmoxTokenSecret g, g_ProxmoxStateFilter g,
     g_IncusURL g, g_IncusSocketPath g, g_IncusProject g], g_ProxmoxTLSSkipVerify g, g_IncusTLSSkipVerify g,
     g_ShutdownTimeout g, g_DockerConnectTimeout g)"

lemma mergeGlobalConfig_frame: "file_only (fst (mergeGlobalConfig E (Some base))) = file_only base"
  unfolding mergeGlobalConfig_def option.case
proof (rule run_loaders_frame)
  fix l cfg assume "l \<in> set (merge_settings E)"
  then show "file_only (fst (l cfg)) = file_only cfg"
    unfolding merge_settings_def set_simps insert_iff empty_iff
    by (elim disjE; simp add: fst_override fst_checked_override override_bool_def override_string_def file_only_def
        split: sum.split option.split)
qed

text \<open>
  A condition that some loader establishes when it reports no error, and that all loaders keep, holds when
  the list reports no error.
\<close>

lemma run_loaders_establishes:
  assumes "snd (run_loaders ls cfg) = []"
    and "\<And>l c. l \<in> set ls \<Longrightarrow> snd (l c) = [] \<Longrightarrow> P c \<Longrightarrow> P (fst (l c))"
    and "P cfg \<or> (\<exists>l \<in> set ls. \<forall>c. snd (l c) = [] \<longrightarrow> P (fst (l c)))"
  shows "P (fst (run_loaders ls cfg))"
  using assms
proof (induction ls arbitrary: cfg)
  case (Cons l ls)
  obtain c1 e1 where l: "l cfg = (c1, e1)" by fastforce
  obtain c2 e2 where r: "run_loaders ls c1 = (c2, e2)" by fastforce
  have e: "e1 = []" "e2 = []" using Cons.prems(1) by (simp_all add: l r)
  have "P c1 \<or> (\<exists>l \<in> set ls. \<forall>c. snd (l c) = [] \<longrightarrow> P (fst (l c)))"
    using Cons.prems(2) [of l cfg] Cons.prems(3) l e(1) by (metis fst_conv list.set_intros(1) set_ConsD snd_conv)
  then have "P (fst (run_loaders ls c1))" using Cons.IH [of c1] Cons.prems(2) r e(2) by simp
  then show ?case by (simp add: l r)
qed simp

lemmas loader_simps = fst_override fst_checked_override override_bool_def override_string_def parsed_setting_def
  bool_setting_def setting_def check_that_def checked_override_def override_def Let_def

text \<open>The numeric settings the rest of the program relies on.\<close>

definition ranges :: "GlobalConfig \<Rightarrow> bool" where
  "ranges g \<longleftrightarrow> 1 \<le> g_DefaultTTL g \<and> one_second \<le> g_ReconcileInterval g \<and> one_second \<le> g_ShutdownTimeout g \<and>
     0 \<le> g_DockerConnectTimeout g \<and> 1 \<le> g_HealthPort g \<and> g_HealthPort g \<le> 65535"

lemma one_second_pos: "0 < one_second"
  by (simp add: one_second_def)

lemma ranges_default: "ranges default_global"
  by (simp add: ranges_def default_global_def DefaultTTL_def one_second_def)

lemma ranges_merge: "ranges base \<Longrightarrow> ranges (fst (run_loaders (merge_settings E) base))"
proof (erule run_loaders_keeps [rotated])
  fix l cfg assume "l \<in> set (merge_settings E)" and r: "ranges cfg"
  then show "ranges (fst (l cfg))"
    unfolding merge_settings_def set_simps insert_iff empty_iff
    by (elim disjE; use r in \<open>simp add: fst_override fst_checked_override override_bool_def override_string_def ranges_def
        split: sum.split option.split\<close>)
qed

text \<open>A list reports no error when each of its loaders does, one after the other.\<close>

lemma run_loaders_Cons_ok:
  "run_loaders (l # ls) c = (c', []) \<longleftrightarrow> (\<exists>c1. l c = (c1, []) \<and> run_loaders ls c1 = (c', []))"
  by (cases "l c"; cases "run_loaders ls (fst (l c))") auto

lemma run_loaders_append_ok:
  "run_loaders (ls @ ms) c = (c', []) \<longleftrightarrow> (\<exists>c1. run_loaders ls c = (c1, []) \<and> run_loaders ms c1 = (c', []))"
  by (cases "run_loaders ls c"; cases "run_loaders ms (fst (run_loaders ls c))") (auto simp: run_loaders_append)

lemma parsed_setting_ok:
  assumes "parsed_setting E key parse bad check dflt upd c = (c', [])" and "\<And>x. x = dflt \<or> check x = None \<Longrightarrow> P x"
  shows "\<exists>x. P x \<and> c' = upd x c"
  using assms by (auto simp: parsed_setting_def Let_def split: if_splits sum.splits option.splits)

lemma load_default_ttl_ok: "load_default_ttl E c = (c', []) \<Longrightarrow> \<exists>n. 1 \<le> n \<and> c' = c\<lparr>g_DefaultTTL := n\<rparr>"
  unfolding load_default_ttl_def by (erule parsed_setting_ok) (auto simp: DefaultTTL_def split: if_splits)

lemma load_reconcile_interval_ok:
  "load_reconcile_interval E c = (c', []) \<Longrightarrow> \<exists>d. one_second \<le> d \<and> c' = c\<lparr>g_ReconcileInterval := d\<rparr>"
  unfolding load_reconcile_interval_def by (erule parsed_setting_ok) (auto simp: one_second_def split: if_splits)

lemma load_shutdown_timeout_ok:
  "load_shutdown_timeout E c = (c', []) \<Longrightarrow> \<exists>d. one_second \<le> d \<and> c' = c\<lparr>g_ShutdownTimeout := d\<rparr>"
  unfolding load_shutdown_timeout_def by (erule parsed_setting_ok) (auto simp: one_second_def split: if_splits)

lemma load_connect_timeout_ok:
  "load_connect_timeout E c = (c', []) \<Longrightarrow> \<exists>d. 0 \<le> d \<and> c' = c\<lparr>g_DockerConnectTimeout := d\<rparr>"
  unfolding load_connect_timeout_def by (erule parsed_setting_ok) (auto simp: one_second_def split: if_splits)

lemma load_health_port_ok:
  "load_health_port E c = (c', []) \<Longrightarrow> \<exists>n. (1 \<le> n \<and> n \<le> 65535) \<and> c' = c\<lparr>g_HealthPort := n\<rparr>"
  unfolding load_health_port_def by (erule parsed_setting_ok) (auto split: if_splits)

lemma load_numbers_ranges:
  assumes "run_loaders (load_numbers E) c = (c', [])"
  shows "ranges c'"
proof -
  obtain c1 c2 c3 c4 where l: "load_default_ttl E c = (c1, [])" "load_reconcile_interval E c1 = (c2, [])"
    "load_shutdown_timeout E c2 = (c3, [])" "load_connect_timeout E c3 = (c4, [])" "load_health_port E c4 = (c', [])"
    using assms unfolding load_numbers_def run_loaders_Cons_ok by auto
  show ?thesis
    using load_default_ttl_ok [OF l(1)] load_reconcile_interval_ok [OF l(2)] load_shutdown_timeout_ok [OF l(3)]
      load_connect_timeout_ok [OF l(4)] load_health_port_ok [OF l(5)]
    by (elim exE conjE) (simp add: ranges_def)
qed

definition load_after :: "environment \<Rightarrow> loader list" where
  "load_after E = [load_instance_id E] @ load_k8s E @ [load_proxmox E, load_proxmox_tls E, load_incus E]"

lemma ranges_load_after: "ranges (fst (run_loaders (load_after E) c)) = ranges c"
proof (rule run_loaders_frame)
  fix l c assume "l \<in> set (load_after E)"
  then show "ranges (fst (l c)) = ranges c"
    unfolding load_after_def load_k8s_def append.simps set_simps insert_iff empty_iff
    by (elim disjE; simp add: load_instance_id_def load_proxmox_def load_proxmox_tls_def load_incus_def setting_def
        bool_setting_def Let_def ranges_def split: option.split)
qed

lemma loadGlobalConfig_parts:
  "loadGlobalConfig E = run_loaders (([load_strings E] @ load_rotation E @ [load_docker_mode]) @ load_flags E @ load_numbers E @ load_after E) zero_global"
  by (simp add: loadGlobalConfig_def load_after_def)

lemma ranges_load:
  assumes "loadGlobalConfig E = (g, [])"
  shows "ranges g"
proof -
  obtain c1 c2 where "run_loaders (load_numbers E) c1 = (c2, [])" "run_loaders (load_after E) c2 = (g, [])"
    using assms unfolding loadGlobalConfig_parts run_loaders_append_ok by blast
  then show ?thesis using load_numbers_ranges ranges_load_after [of E c2] by simp
qed

text \<open>A variable that is set to the empty string counts as absent everywhere but here: it turns verification off.\<close>

lemma empty_verify_disables_tls:
  assumes "ev_Lookup E ''DNSWEAVER_PROXMOX_VERIFY_TLS'' = Some []" "ev_Lookup E ''DNSWEAVER_PROXMOX_TLS_SKIP_VERIFY'' = None"
  shows "g_ProxmoxTLSSkipVerify (fst (run_loaders [load_proxmox E, load_proxmox_tls E] zero_global))"
  using assms by (simp add: load_proxmox_def load_proxmox_tls_def setting_def Let_def getEnv_def zero_global_def)

end
