(* ===== verification/FileConfig.thy ===== *)
theory FileConfig
  imports GlobalConfig TraefikSource
begin

text \<open>
  \<^verbatim>\<open>internal/config/file.go\<close>, \<^verbatim>\<open>sources.go\<close> and the conversions of \<^verbatim>\<open>loader.go\<close>: the YAML configuration
  file, the \<^verbatim>\<open>${NAME:-default}\<close> interpolation of its strings, and its conversion to the run-time
  configuration. The YAML decoder is third-party code and an argument: it gives the decoded structure. A pointer
  field that may be nil is an option. The order in which Go ranges over a provider's settings is an argument.
\<close>

subsection \<open>The structure of the file\<close>

record FileRotationConfig =
  fr_MaxSize :: "int option"
  fr_MaxBackups :: "int option"
  fr_MaxAge :: "int option"
  fr_Compress :: "bool option"

record FileLoggingConfig =
  fl_Level :: string
  fl_Format :: string
  fl_File :: string
  fl_Rotation :: "FileRotationConfig option"

record FileReconcilerConfig =
  fr_Interval :: string
  fr_ShutdownTimeout :: string
  fr_DryRun :: "bool option"
  fr_CleanupOrphans :: "bool option"
  fr_CleanupOnStop :: "bool option"
  fr_OwnershipTracking :: "bool option"
  fr_AdoptExisting :: "bool option"
  fr_InstanceID :: string

record FileDockerConfig =
  fdk_Host :: string
  fdk_Mode :: string
  fdk_ConnectTimeout :: string

record FileKubernetesConfig =
  fk_Kubeconfig :: string
  fk_Namespaces :: "string list"
  fk_WatchIngress :: "bool option"
  fk_WatchIngressRoute :: "bool option"
  fk_WatchHTTPRoute :: "bool option"
  fk_WatchServices :: "bool option"
  fk_LabelSelector :: string
  fk_AnnotationFilter :: string

record FileFileDiscoveryConfig =
  ff_Paths :: "string list"
  ff_Pattern :: string
  ff_PollInterval :: string
  ff_WatchMethod :: string

record FileSourceConfig =
  fs_Name :: string
  fs_FileDiscovery :: "FileFileDiscoveryConfig option"

record FileProviderConfig =
  fp_Name :: string
  fp_Type :: string
  fp_Domains :: "string list"
  fp_DomainsRegex :: "string list"
  fp_ExcludeDomains :: "string list"
  fp_ExcludeDomainsRegex :: "string list"
  fp_RecordType :: string
  fp_Target :: string
  fp_TTL :: int
  fp_Mode :: string
  fp_Config :: "(string, string) gomap"

record FileServerConfig =
  fsv_Port :: int

record FileConfig =
  fc_Logging :: "FileLoggingConfig option"
  fc_Reconciler :: "FileReconcilerConfig option"
  fc_Platform :: string
  fc_InstanceID :: string
  fc_Docker :: "FileDockerConfig option"
  fc_Kubernetes :: "FileKubernetesConfig option"
  fc_Sources :: "FileSourceConfig list"
  fc_Providers :: "FileProviderConfig list"
  fc_Server :: "FileServerConfig option"

subsection \<open>Interpolation of environment variables\<close>

abbreviation dollar :: char where "dollar \<equiv> CHR 0x24"

text \<open>
  \<open>env_ref\<close> reads what follows \<^verbatim>\<open>${\<close> in the pattern \<^verbatim>\<open>([^}:]+)(?::-([^}]*))?}\<close> and gives the name, the default
  and the text after the match. The name takes every character up to the first brace or colon, so the pattern can
  match in one way only.
\<close>

definition env_ref :: "string \<Rightarrow> (string \<times> string \<times> string) option" where
  "env_ref s =
     (let name = takeWhile (\<lambda>c. c \<noteq> CHR ''}'' \<and> c \<noteq> CHR '':'') s;
          after = dropWhile (\<lambda>c. c \<noteq> CHR ''}'' \<and> c \<noteq> CHR '':'') s in
      if name = [] then None
      else case after of
        [] \<Rightarrow> None
      | c # rest \<Rightarrow>
          if c = CHR ''}'' then Some (name, [], rest)
          else case rest of
            [] \<Rightarrow> None
          | d # body \<Rightarrow>
              if d \<noteq> CHR ''-'' then None
              else case dropWhile (\<lambda>c. c \<noteq> CHR ''}'') body of
                [] \<Rightarrow> None
              | _ # rest' \<Rightarrow> Some (name, takeWhile (\<lambda>c. c \<noteq> CHR ''}'') body, rest'))"

lemma env_ref_shorter: "env_ref s = Some (n, d, t) \<Longrightarrow> length t < length s"
proof -
  assume e: "env_ref s = Some (n, d, t)"
  let ?P = "\<lambda>c. c \<noteq> CHR ''}'' \<and> c \<noteq> CHR '':''"
  have l: "length (dropWhile ?P s) \<le> length s" by (rule length_dropWhile_le)
  show ?thesis
  proof (cases "dropWhile ?P s")
    case (Cons c rest)
    show ?thesis
    proof (cases "c = CHR ''}''")
      case True
      then show ?thesis using e l Cons by (simp add: env_ref_def Let_def split: if_splits)
    next
      case False
      obtain body b where b: "rest = CHR ''-'' # body" "dropWhile (\<lambda>c. c \<noteq> CHR ''}'') body = b # t"
        using e Cons False by (auto simp: env_ref_def Let_def split: if_splits list.splits)
      have "length (b # t) \<le> length body" unfolding b(2) [symmetric] by (rule length_dropWhile_le)
      then show ?thesis using l Cons b(1) by simp
    qed
  next
    case Nil
    then have "env_ref s = None" unfolding env_ref_def Let_def Nil by simp
    then show ?thesis using e by simp
  qed
qed

definition env_value :: "environment \<Rightarrow> string \<Rightarrow> string \<Rightarrow> string" where
  "env_value E name dflt = (let v = getEnv E name in if v \<noteq> [] then v else dflt)"

function InterpolateEnvVars :: "environment \<Rightarrow> string \<Rightarrow> string" where
  "InterpolateEnvVars E s =
     (case s of
        [] \<Rightarrow> []
      | c # cs \<Rightarrow>
          (case (if c = dollar \<and> HasPrefix cs ''{'' then env_ref (tl cs) else None) of
             Some (name, dflt, rest) \<Rightarrow> env_value E name dflt @ InterpolateEnvVars E rest
           | None \<Rightarrow> c # InterpolateEnvVars E cs))"
  by pat_completeness auto
termination
  by (relation "measure (length \<circ> snd)") (auto dest!: env_ref_shorter split: if_splits)

declare InterpolateEnvVars.simps [simp del]

definition interpolate_logging :: "environment \<Rightarrow> FileLoggingConfig \<Rightarrow> FileLoggingConfig" where
  "interpolate_logging E l =
     l\<lparr>fl_Level := InterpolateEnvVars E (fl_Level l), fl_Format := InterpolateEnvVars E (fl_Format l),
       fl_File := InterpolateEnvVars E (fl_File l)\<rparr>"

definition interpolate_reconciler :: "environment \<Rightarrow> FileReconcilerConfig \<Rightarrow> FileReconcilerConfig" where
  "interpolate_reconciler E r =
     r\<lparr>fr_Interval := InterpolateEnvVars E (fr_Interval r), fr_ShutdownTimeout := InterpolateEnvVars E (fr_ShutdownTimeout r),
       fr_InstanceID := InterpolateEnvVars E (fr_InstanceID r)\<rparr>"

definition interpolate_docker :: "environment \<Rightarrow> FileDockerConfig \<Rightarrow> FileDockerConfig" where
  "interpolate_docker E d =
     d\<lparr>fdk_Host := InterpolateEnvVars E (fdk_Host d), fdk_Mode := InterpolateEnvVars E (fdk_Mode d)\<rparr>"

definition interpolate_kubernetes :: "environment \<Rightarrow> FileKubernetesConfig \<Rightarrow> FileKubernetesConfig" where
  "interpolate_kubernetes E k =
     k\<lparr>fk_Kubeconfig := InterpolateEnvVars E (fk_Kubeconfig k),
       fk_Namespaces := map (InterpolateEnvVars E) (fk_Namespaces k),
       fk_LabelSelector := InterpolateEnvVars E (fk_LabelSelector k),
       fk_AnnotationFilter := InterpolateEnvVars E (fk_AnnotationFilter k)\<rparr>"

definition interpolate_source :: "environment \<Rightarrow> FileSourceConfig \<Rightarrow> FileSourceConfig" where
  "interpolate_source E s =
     s\<lparr>fs_Name := InterpolateEnvVars E (fs_Name s),
       fs_FileDiscovery := map_option (\<lambda>fd. fd
         \<lparr>ff_Paths := map (InterpolateEnvVars E) (ff_Paths fd), ff_Pattern := InterpolateEnvVars E (ff_Pattern fd),
          ff_PollInterval := InterpolateEnvVars E (ff_PollInterval fd),
          ff_WatchMethod := InterpolateEnvVars E (ff_WatchMethod fd)\<rparr>) (fs_FileDiscovery s)\<rparr>"

definition interpolate_provider :: "environment \<Rightarrow> FileProviderConfig \<Rightarrow> FileProviderConfig" where
  "interpolate_provider E p =
     p\<lparr>fp_Name := InterpolateEnvVars E (fp_Name p), fp_Type := InterpolateEnvVars E (fp_Type p),
       fp_Target := InterpolateEnvVars E (fp_Target p), fp_RecordType := InterpolateEnvVars E (fp_RecordType p),
       fp_Mode := InterpolateEnvVars E (fp_Mode p),
       fp_Domains := map (InterpolateEnvVars E) (fp_Domains p),
       fp_DomainsRegex := map (InterpolateEnvVars E) (fp_DomainsRegex p),
       fp_ExcludeDomains := map (InterpolateEnvVars E) (fp_ExcludeDomains p),
       fp_ExcludeDomainsRegex := map (InterpolateEnvVars E) (fp_ExcludeDomainsRegex p),
       fp_Config := map (\<lambda>(k, v). (k, InterpolateEnvVars E v)) (fp_Config p)\<rparr>"

definition interpolateEnvVars :: "environment \<Rightarrow> FileConfig \<Rightarrow> FileConfig" where
  "interpolateEnvVars E c =
     c\<lparr>fc_Logging := map_option (interpolate_logging E) (fc_Logging c),
       fc_Reconciler := map_option (interpolate_reconciler E) (fc_Reconciler c),
       fc_Platform := InterpolateEnvVars E (fc_Platform c), fc_InstanceID := InterpolateEnvVars E (fc_InstanceID c),
       fc_Docker := map_option (interpolate_docker E) (fc_Docker c),
       fc_Kubernetes := map_option (interpolate_kubernetes E) (fc_Kubernetes c),
       fc_Sources := map (interpolate_source E) (fc_Sources c),
       fc_Providers := map (interpolate_provider E) (fc_Providers c)\<rparr>"

definition LoadFile :: "(string \<Rightarrow> err + FileConfig) \<Rightarrow> environment \<Rightarrow> string \<Rightarrow> err + FileConfig" where
  "LoadFile yaml E path =
     (case ev_ReadFile E path of
        Inl e \<Rightarrow> Inl (Errorf ''reading config file: '' e)
      | Inr data \<Rightarrow>
          (case yaml data of
             Inl e \<Rightarrow> Inl (Errorf ''parsing YAML config: '' e)
           | Inr cfg \<Rightarrow> Inr (interpolateEnvVars E cfg)))"

definition GetConfigFilePath :: "environment \<Rightarrow> string" where
  "GetConfigFilePath E = getEnv E ''DNSWEAVER_CONFIG''"

subsection \<open>The application-wide settings of the file\<close>

text \<open>A field the file leaves empty keeps its value.\<close>

definition if_set :: "string \<Rightarrow> (string \<Rightarrow> GlobalConfig \<Rightarrow> GlobalConfig) \<Rightarrow> GlobalConfig \<Rightarrow> GlobalConfig" where
  "if_set v upd cfg = (if v \<noteq> [] then upd v cfg else cfg)"

definition if_some :: "'a option \<Rightarrow> ('a \<Rightarrow> GlobalConfig \<Rightarrow> GlobalConfig) \<Rightarrow> GlobalConfig \<Rightarrow> GlobalConfig" where
  "if_some v upd cfg = (case v of Some x \<Rightarrow> upd x cfg | None \<Rightarrow> cfg)"

definition if_duration :: "string \<Rightarrow> int \<Rightarrow> (int \<Rightarrow> GlobalConfig \<Rightarrow> GlobalConfig) \<Rightarrow> GlobalConfig \<Rightarrow> GlobalConfig" where
  "if_duration v least upd cfg =
     (if v = [] then cfg
      else case ParseDuration v of Inr d \<Rightarrow> if d \<ge> least then upd d cfg else cfg | Inl _ \<Rightarrow> cfg)"

definition rotation_settings :: "FileRotationConfig \<Rightarrow> GlobalConfig \<Rightarrow> GlobalConfig" where
  "rotation_settings r cfg =
     if_some (fr_Compress r) (\<lambda>b c. c\<lparr>g_LogCompress := b\<rparr>)
       (if_some (fr_MaxAge r) (\<lambda>n c. c\<lparr>g_LogMaxAge := n\<rparr>)
         (if_some (fr_MaxBackups r) (\<lambda>n c. c\<lparr>g_LogMaxBackups := n\<rparr>)
           (if_some (fr_MaxSize r) (\<lambda>n c. c\<lparr>g_LogMaxSize := n\<rparr>) cfg)))"

definition logging_settings :: "FileLoggingConfig \<Rightarrow> GlobalConfig \<Rightarrow> GlobalConfig" where
  "logging_settings l cfg =
     if_some (fl_Rotation l) rotation_settings
       (if_set (fl_File l) (\<lambda>v c. c\<lparr>g_LogFile := v\<rparr>)
         (if_set (fl_Format l) (\<lambda>v c. c\<lparr>g_LogFormat := ToLower v\<rparr>)
           (if_set (fl_Level l) (\<lambda>v c. c\<lparr>g_LogLevel := ToLower v\<rparr>) cfg)))"

definition reconciler_flags :: "FileReconcilerConfig \<Rightarrow> GlobalConfig \<Rightarrow> GlobalConfig" where
  "reconciler_flags r cfg =
     if_some (fr_AdoptExisting r) (\<lambda>b c. c\<lparr>g_AdoptExisting := b\<rparr>)
       (if_some (fr_OwnershipTracking r) (\<lambda>b c. c\<lparr>g_OwnershipTracking := b\<rparr>)
         (if_some (fr_CleanupOnStop r) (\<lambda>b c. c\<lparr>g_CleanupOnStop := b\<rparr>)
           (if_some (fr_CleanupOrphans r) (\<lambda>b c. c\<lparr>g_CleanupOrphans := b\<rparr>)
             (if_some (fr_DryRun r) (\<lambda>b c. c\<lparr>g_DryRun := b\<rparr>) cfg))))"

definition reconciler_settings :: "FileReconcilerConfig \<Rightarrow> GlobalConfig \<Rightarrow> GlobalConfig" where
  "reconciler_settings r cfg =
     if_set (fr_InstanceID r) (\<lambda>v c. c\<lparr>g_InstanceID := v\<rparr>)
       (if_duration (fr_ShutdownTimeout r) one_second (\<lambda>d c. c\<lparr>g_ShutdownTimeout := d\<rparr>)
         (if_duration (fr_Interval r) one_second (\<lambda>d c. c\<lparr>g_ReconcileInterval := d\<rparr>) (reconciler_flags r cfg)))"

definition docker_settings :: "FileDockerConfig \<Rightarrow> GlobalConfig \<Rightarrow> GlobalConfig" where
  "docker_settings d cfg =
     if_duration (fdk_ConnectTimeout d) 0 (\<lambda>t c. c\<lparr>g_DockerConnectTimeout := t\<rparr>)
       (if_set (fdk_Mode d) (\<lambda>v c. c\<lparr>g_DockerMode := ToLower v\<rparr>)
         (if_set (fdk_Host d) (\<lambda>v c. c\<lparr>g_DockerHost := v\<rparr>) cfg))"

definition kubernetes_settings :: "FileKubernetesConfig \<Rightarrow> GlobalConfig \<Rightarrow> GlobalConfig" where
  "kubernetes_settings k cfg =
     if_set (fk_AnnotationFilter k) (\<lambda>v c. c\<lparr>g_K8sAnnotationFilter := v\<rparr>)
       (if_set (fk_LabelSelector k) (\<lambda>v c. c\<lparr>g_K8sLabelSelector := v\<rparr>)
         (if_some (fk_WatchServices k) (\<lambda>b c. c\<lparr>g_K8sWatchServices := b\<rparr>)
           (if_some (fk_WatchHTTPRoute k) (\<lambda>b c. c\<lparr>g_K8sWatchHTTPRoute := b\<rparr>)
             (if_some (fk_WatchIngressRoute k) (\<lambda>b c. c\<lparr>g_K8sWatchIngressRoute := b\<rparr>)
               (if_some (fk_WatchIngress k) (\<lambda>b c. c\<lparr>g_K8sWatchIngress := b\<rparr>)
                 ((\<lambda>c. if length (fk_Namespaces k) > 0 then c\<lparr>g_K8sNamespaces := Join (fk_Namespaces k) '',''\<rparr> else c)
                   (if_set (fk_Kubeconfig k) (\<lambda>v c. c\<lparr>g_K8sKubeconfig := v\<rparr>) cfg)))))))"

definition server_settings :: "FileServerConfig \<Rightarrow> GlobalConfig \<Rightarrow> GlobalConfig" where
  "server_settings s cfg = (if fsv_Port s > 0 \<and> fsv_Port s \<le> 65535 then cfg\<lparr>g_HealthPort := fsv_Port s\<rparr> else cfg)"

definition ToGlobalConfig :: "FileConfig \<Rightarrow> GlobalConfig" where
  "ToGlobalConfig f =
     (let c1 = if_some (fc_Logging f) logging_settings default_global;
          c2 = if_some (fc_Reconciler f) reconciler_settings c1;
          c3 = if_set (fc_InstanceID f) (\<lambda>v c. c\<lparr>g_InstanceID := v\<rparr>) c2;
          c4 = if_some (fc_Docker f) docker_settings c3;
          c5 = if_set (fc_Platform f) (\<lambda>v c. c\<lparr>g_Platform := ToLower v\<rparr>) c4;
          c6 = if_some (fc_Kubernetes f) kubernetes_settings c5;
          c7 = if_some (fc_Server f) server_settings c6
      in case fc_Sources f of [] \<Rightarrow> c7 | s # _ \<Rightarrow> c7\<lparr>g_Source := fs_Name s\<rparr>)"

text \<open>The file cannot put a numeric setting out of its range, nor change the default TTL.\<close>

lemmas file_settings = if_set_def if_some_def if_duration_def logging_settings_def reconciler_settings_def
  docker_settings_def kubernetes_settings_def server_settings_def

lemma reconciler_flags_ranges: "ranges (reconciler_flags r c) = ranges c"
  by (simp add: ranges_def reconciler_flags_def if_some_def split: option.split)

lemma rotation_settings_ranges: "ranges (rotation_settings r c) = ranges c"
  by (simp add: ranges_def rotation_settings_def if_some_def split: option.split)

lemma if_set_ranges: "(\<And>v c. ranges (upd v c) = ranges c) \<Longrightarrow> ranges (if_set v upd c) = ranges c"
  by (simp add: if_set_def)

lemma if_some_ranges: "(\<And>v c. ranges c \<Longrightarrow> ranges (upd v c)) \<Longrightarrow> ranges c \<Longrightarrow> ranges (if_some v upd c)"
  by (simp add: if_some_def split: option.split)

lemma if_duration_ranges: "(\<And>d c. least \<le> d \<Longrightarrow> ranges c \<Longrightarrow> ranges (upd d c)) \<Longrightarrow> ranges c \<Longrightarrow> ranges (if_duration v least upd c)"
  by (simp add: if_duration_def split: sum.split)

lemma logging_settings_ranges: "ranges c \<Longrightarrow> ranges (logging_settings l c)"
  unfolding logging_settings_def
  by (rule if_some_ranges) (simp_all only: rotation_settings_ranges, simp add: if_set_def ranges_def)

lemma reconciler_settings_ranges: "ranges c \<Longrightarrow> ranges (reconciler_settings r c)"
proof -
  assume "ranges c"
  then have "ranges (if_duration (fr_ShutdownTimeout r) one_second (\<lambda>d c. c\<lparr>g_ShutdownTimeout := d\<rparr>)
       (if_duration (fr_Interval r) one_second (\<lambda>d c. c\<lparr>g_ReconcileInterval := d\<rparr>) (reconciler_flags r c)))"
    by (intro if_duration_ranges) (simp_all add: reconciler_flags_ranges, simp_all add: ranges_def)
  then show ?thesis unfolding reconciler_settings_def by (simp add: if_set_def ranges_def)
qed

lemma docker_settings_ranges: "ranges c \<Longrightarrow> ranges (docker_settings d c)"
  unfolding docker_settings_def by (rule if_duration_ranges) (simp_all add: if_set_def ranges_def)

lemma kubernetes_settings_ranges: "ranges (kubernetes_settings k c) = ranges c"
  by (simp add: kubernetes_settings_def if_set_def if_some_def ranges_def split: option.split)

lemma server_settings_ranges: "ranges c \<Longrightarrow> ranges (server_settings s c)"
  by (simp add: server_settings_def ranges_def)

lemma ranges_ToGlobalConfig: "ranges (ToGlobalConfig f)"
proof -
  have i: "ranges (if_set v (\<lambda>v c. c\<lparr>g_InstanceID := v\<rparr>) c) = ranges c" for v c by (simp add: if_set_def ranges_def)
  have p: "ranges (if_set v (\<lambda>v c. c\<lparr>g_Platform := ToLower v\<rparr>) c) = ranges c" for v c by (simp add: if_set_def ranges_def)
  have s: "ranges (c\<lparr>g_Source := v\<rparr>) = ranges c" for v c by (simp add: ranges_def)
  note steps = ranges_default logging_settings_ranges reconciler_settings_ranges docker_settings_ranges
    kubernetes_settings_ranges [THEN iffD2] server_settings_ranges i [THEN iffD2] p [THEN iffD2] s [THEN iffD2]
  show ?thesis
    unfolding ToGlobalConfig_def Let_def
    by (cases "fc_Sources f"; simp only: list.case; intro if_some_ranges steps; assumption?)
qed

subsection \<open>Sources\<close>

record SourceInstanceConfig =
  si_Name :: string
  si_FileDiscovery :: FileDiscoveryConfig
  si_DefaultEntryPoints :: "string list"

record SourceConfig =
  sc_Names :: "string list"
  sc_Instances :: "SourceInstanceConfig list"

definition parseSources :: "environment \<Rightarrow> string list" where
  "parseSources E =
     (let s = getEnv E ''DNSWEAVER_SOURCES''; sourcesStr = (if s = [] then getEnv E ''DNSWEAVER_SOURCE'' else s) in
      if sourcesStr = [] then [''traefik'']
      else filter (\<lambda>s. s \<noteq> []) (map (\<lambda>s. ToLower (TrimSpace s)) (Split sourcesStr (CHR '',''))))"

definition sourceEnvPrefix :: "string \<Rightarrow> string" where
  "sourceEnvPrefix name = ''DNSWEAVER_SOURCE_'' @ ToUpper name @ ''_''"

text \<open>An interval that does not parse or is below a second leaves the default in place.\<close>

definition poll_interval :: "string \<Rightarrow> FileDiscoveryConfig \<Rightarrow> FileDiscoveryConfig" where
  "poll_interval v fd =
     (if v = [] then fd
      else case ParseDuration v of
        Inr interval \<Rightarrow> if interval \<ge> one_second then fd\<lparr>fd_PollInterval := interval\<rparr> else fd
      | Inl _ \<Rightarrow> fd)"

definition file_pattern :: "string \<Rightarrow> FileDiscoveryConfig \<Rightarrow> FileDiscoveryConfig" where
  "file_pattern v fd = (if v \<noteq> [] then fd\<lparr>fd_FilePattern := v\<rparr> else fd)"

definition watch_method :: "string \<Rightarrow> FileDiscoveryConfig \<Rightarrow> FileDiscoveryConfig" where
  "watch_method v fd = (if v \<noteq> [] then fd\<lparr>fd_WatchMethod := ToLower v\<rparr> else fd)"

definition loadSourceInstanceConfig :: "environment \<Rightarrow> string \<Rightarrow> SourceInstanceConfig" where
  "loadSourceInstanceConfig E name =
     (let pre = sourceEnvPrefix name; pathsStr = getEnv E (pre @ ''FILE_PATHS''); eps = getEnv E (pre @ ''DEFAULT_ENTRYPOINTS'');
          f0 = DefaultFileDiscoveryConfig;
          f1 = (if pathsStr \<noteq> [] then f0\<lparr>fd_FilePaths := filter (\<lambda>p. p \<noteq> []) (map TrimSpace (Split pathsStr (CHR '','')))\<rparr> else f0)
      in \<lparr>si_Name = name,
          si_FileDiscovery = watch_method (getEnv E (pre @ ''WATCH_METHOD''))
            (poll_interval (getEnv E (pre @ ''POLL_INTERVAL'')) (file_pattern (getEnv E (pre @ ''FILE_PATTERN'')) f1)),
          si_DefaultEntryPoints =
            (if eps \<noteq> [] then filter (\<lambda>e. e \<noteq> []) (map TrimSpace (Split eps (CHR '',''))) else [])\<rparr>)"

definition loadSourceConfig :: "environment \<Rightarrow> SourceConfig" where
  "loadSourceConfig E =
     (let names = parseSources E in \<lparr>sc_Names = names, sc_Instances = map (loadSourceInstanceConfig E) names\<rparr>)"

definition GetSourceInstance :: "SourceConfig \<Rightarrow> string \<Rightarrow> SourceInstanceConfig option" where
  "GetSourceInstance c name = List.find (\<lambda>inst. si_Name inst = name) (sc_Instances c)"

definition sc_HasFileDiscovery :: "SourceConfig \<Rightarrow> bool" where
  "sc_HasFileDiscovery c \<longleftrightarrow> list_ex (\<lambda>inst. fd_IsEnabled (si_FileDiscovery inst)) (sc_Instances c)"

definition convert_discovery :: "FileFileDiscoveryConfig \<Rightarrow> FileDiscoveryConfig" where
  "convert_discovery d =
     watch_method (ff_WatchMethod d)
       (poll_interval (ff_PollInterval d)
         (file_pattern (ff_Pattern d) (DefaultFileDiscoveryConfig\<lparr>fd_FilePaths := ff_Paths d\<rparr>)))"

definition convert_source :: "FileSourceConfig \<Rightarrow> SourceInstanceConfig" where
  "convert_source s =
     \<lparr>si_Name = fs_Name s,
      si_FileDiscovery = (case fs_FileDiscovery s of None \<Rightarrow> DefaultFileDiscoveryConfig | Some d \<Rightarrow> convert_discovery d),
      si_DefaultEntryPoints = []\<rparr>"

definition convertFileSources :: "FileSourceConfig list \<Rightarrow> SourceConfig option" where
  "convertFileSources ss =
     (if length ss = 0 then None else Some \<lparr>sc_Names = map fs_Name ss, sc_Instances = map convert_source ss\<rparr>)"

text \<open>Names and instances of a source configuration go together, and polling is never faster than once a second.\<close>

definition wf_sources :: "SourceConfig \<Rightarrow> bool" where
  "wf_sources c \<longleftrightarrow> map si_Name (sc_Instances c) = sc_Names c \<and>
     (\<forall>i \<in> set (sc_Instances c). one_second \<le> fd_PollInterval (si_FileDiscovery i))"

lemma poll_interval_least: "one_second \<le> fd_PollInterval f \<Longrightarrow> one_second \<le> fd_PollInterval (poll_interval v f)"
  by (simp add: poll_interval_def split: sum.split)

lemma poll_interval_frame [simp]: "fd_PollInterval (watch_method v f) = fd_PollInterval f"
  "fd_PollInterval (file_pattern v f) = fd_PollInterval f"
  by (simp_all add: watch_method_def file_pattern_def)

lemma default_poll_interval [simp]: "one_second \<le> fd_PollInterval DefaultFileDiscoveryConfig"
  by (simp add: DefaultFileDiscoveryConfig_def one_second_def)

lemma wf_loadSourceConfig: "wf_sources (loadSourceConfig E)"
  by (auto simp: wf_sources_def loadSourceConfig_def loadSourceInstanceConfig_def Let_def comp_def intro!: poll_interval_least)

lemma wf_convertFileSources: "convertFileSources ss = Some c \<Longrightarrow> wf_sources c"
  by (auto simp: wf_sources_def convertFileSources_def convert_source_def convert_discovery_def comp_def
      intro!: poll_interval_least split: if_splits option.splits)

subsection \<open>Providers\<close>

text \<open>The settings under upper-case keys: of two keys that differ only in case the one visited last is kept.\<close>

fun upper_keys :: "(string, string) gomap \<Rightarrow> string list \<Rightarrow> (string, string) gomap \<Rightarrow> (string, string) gomap" where
  "upper_keys config [] m = m"
| "upper_keys config (k # ks) m = upper_keys config ks (AList.update (ToUpper k) (map_get [] config k) m)"

abbreviation providers_field :: "string \<Rightarrow> string \<Rightarrow> string" where
  "providers_field name field \<equiv> ''providers['' @ name @ '']'' @ field"

definition convert_record_type :: "FileProviderConfig \<Rightarrow> RecordType \<times> conf_error list" where
  "convert_record_type fp =
     (let t = ToUpper (fp_RecordType fp) in
      if t = [] \<or> t = ''A'' then (RecordTypeA, [])
      else if t = ''AAAA'' then (RecordTypeAAAA, [])
      else if t = ''CNAME'' then (RecordTypeCNAME, [])
      else ([], [configErrFull (providers_field (fp_Name fp) ''.record_type'') (''invalid value '' @ Quote (fp_RecordType fp))
              ''Must be one of: A, AAAA, CNAME'' ''record_type: A'']))"

definition convert_mode :: "FileProviderConfig \<Rightarrow> OperationalMode \<times> conf_error list" where
  "convert_mode fp =
     (if fp_Mode fp = [] then (ModeManaged, [])
      else case ParseOperationalMode (fp_Mode fp) of
        Inl e \<Rightarrow> ([], [configErr (providers_field (fp_Name fp) ''.mode'') (Error e)])
      | Inr mode \<Rightarrow> (mode, []))"

definition convert_domain_errors :: "FileProviderConfig \<Rightarrow> conf_error list" where
  "convert_domain_errors fp =
     check_that (\<not> (length (fp_Domains fp) = 0 \<and> length (fp_DomainsRegex fp) = 0))
       (configErrFull (providers_field (fp_Name fp) ''.domains'') ''domains or domains_regex is required''
         ''Specify which domains this provider should manage'' (''domains: ['' @ [CHR 0x22] @ ''*.example.com'' @ [CHR 0x22] @ '']'')) @
     check_that (\<not> (length (fp_Domains fp) > 0 \<and> length (fp_DomainsRegex fp) > 0))
       (configErrHelp (providers_field (fp_Name fp) []) ''cannot set both domains and domains_regex''
         ''Use either glob patterns or regex patterns, not both'') @
     check_that (\<not> (length (fp_ExcludeDomains fp) > 0 \<and> length (fp_ExcludeDomainsRegex fp) > 0))
       (configErrHelp (providers_field (fp_Name fp) []) ''cannot set both exclude_domains and exclude_domains_regex''
         ''Use either glob patterns or regex patterns for exclusions, not both'')"

definition convertFileProvider :: "string iteration \<Rightarrow> FileProviderConfig \<Rightarrow> int \<Rightarrow> conf_instance \<times> conf_error list" where
  "convertFileProvider it fp defaultTTL =
     (let typeName = ToLower (fp_Type fp); (recordType, rt_errs) = convert_record_type fp; (mode, mode_errs) = convert_mode fp in
      (\<lparr>ic_Name = fp_Name fp, ic_TypeName = typeName, ic_RecordType = recordType, ic_Target = fp_Target fp,
        ic_TargetMode = [], ic_TargetRefreshInterval = 0, ic_TargetPublicEndpoints = [],
        ic_TTL = (if fp_TTL fp > 0 then fp_TTL fp else defaultTTL), ic_Mode = mode, ic_Domains = fp_Domains fp,
        ic_DomainsRegex = fp_DomainsRegex fp, ic_ExcludeDomains = fp_ExcludeDomains fp,
        ic_ExcludeDomainsRegex = fp_ExcludeDomainsRegex fp, ic_MetadataFilters = [],
        ic_ProviderConfig = upper_keys (fp_Config fp) (it (map fst (fp_Config fp))) []\<rparr>,
       check_that (fp_Name fp \<noteq> []) (configErr ''providers[].name'' ''name is required for each provider'') @
       check_that (typeName \<noteq> []) (configErrFull (providers_field (fp_Name fp) ''.type'') ''type is required''
         (''Provider '' @ Quote (fp_Name fp) @ '' needs a type'') ''type: technitium'') @
       rt_errs @
       check_that (fp_Target fp \<noteq> []) (configErrFull (providers_field (fp_Name fp) ''.target'') ''target is required''
         (''Provider '' @ Quote (fp_Name fp) @ '' needs a target IP or hostname'') ''target: 10.0.0.1'') @
       mode_errs @ convert_domain_errors fp))"

record file_result =
  lf_Global :: GlobalConfig
  lf_Providers :: "conf_instance list"
  lf_Sources :: "SourceConfig option"

fun convert_providers :: "string iteration \<Rightarrow> int \<Rightarrow> FileProviderConfig list \<Rightarrow> conf_instance list \<times> conf_error list" where
  "convert_providers it defaultTTL [] = ([], [])"
| "convert_providers it defaultTTL (fp # fps) =
     (let (p, e1) = convertFileProvider it fp defaultTTL; (ps, e2) = convert_providers it defaultTTL fps in (p # ps, e1 @ e2))"

text \<open>The first three results of the Go function are nil together: they are one option here.\<close>

definition loadFromFile ::
  "(string \<Rightarrow> err + FileConfig) \<Rightarrow> string iteration \<Rightarrow> environment \<Rightarrow> string \<Rightarrow> file_result option \<times> conf_error list" where
  "loadFromFile yaml it E path =
     (if path = [] then (None, [])
      else case LoadFile yaml E path of
        Inl e \<Rightarrow> (None, [configErr ''config_file'' (Error e)])
      | Inr fileCfg \<Rightarrow>
          (let global = ToGlobalConfig fileCfg;
               (providers, errs) = convert_providers it (g_DefaultTTL global) (fc_Providers fileCfg)
           in (Some \<lparr>lf_Global = global, lf_Providers = providers, lf_Sources = convertFileSources (fc_Sources fileCfg)\<rparr>, errs)))"

subsection \<open>Interpolation of one reference\<close>

lemma Interpolate_Nil [simp]: "InterpolateEnvVars E [] = []"
  by (simp add: InterpolateEnvVars.simps)

lemma Interpolate_plain: "dollar \<notin> set pre \<Longrightarrow> InterpolateEnvVars E (pre @ s) = pre @ InterpolateEnvVars E s"
proof (induction pre)
  case (Cons c pre)
  then show ?case by (subst append_Cons, subst InterpolateEnvVars.simps) auto
qed simp

lemma Interpolate_ref:
  "env_ref s = Some (name, dflt, rest) \<Longrightarrow>
    InterpolateEnvVars E (dollar # CHR ''{'' # s) = env_value E name dflt @ InterpolateEnvVars E rest"
  by (subst InterpolateEnvVars.simps) (simp add: HasPrefix_def)

lemma env_ref_name:
  assumes "name \<noteq> []" "CHR ''}'' \<notin> set name" "CHR '':'' \<notin> set name"
  shows "env_ref (name @ CHR ''}'' # rest) = Some (name, [], rest)"
    "CHR ''}'' \<notin> set dflt \<Longrightarrow> env_ref (name @ CHR '':'' # CHR ''-'' # dflt @ CHR ''}'' # rest) = Some (name, dflt, rest)"
proof -
  have p: "\<And>c. c \<in> set name \<Longrightarrow> c \<noteq> CHR ''}'' \<and> c \<noteq> CHR '':''" using assms by auto
  show "env_ref (name @ CHR ''}'' # rest) = Some (name, [], rest)"
    using assms(1) p by (simp add: env_ref_def Let_def takeWhile_append2 dropWhile_append2)
  assume "CHR ''}'' \<notin> set dflt"
  then have "\<And>c. c \<in> set dflt \<Longrightarrow> c \<noteq> CHR ''}''" by auto
  then show "env_ref (name @ CHR '':'' # CHR ''-'' # dflt @ CHR ''}'' # rest) = Some (name, dflt, rest)"
    using assms(1) p by (simp add: env_ref_def Let_def takeWhile_append2 dropWhile_append2)
qed

text \<open>A reference \<^verbatim>\<open>${NAME:-default}\<close> in a string of the configuration file is replaced by the value of the
variable, or by the default when the variable is unset or empty. The text before it stays as it is, and the inserted
value is not read again: a value that itself looks like a reference is inserted literally.\<close>
theorem interpolate_reference:
  assumes "dollar \<notin> set pre" and "name \<noteq> []" "CHR ''}'' \<notin> set name" "CHR '':'' \<notin> set name" and "CHR ''}'' \<notin> set dflt"
  shows "InterpolateEnvVars E (pre @ [dollar] @ ''{'' @ name @ '':-'' @ dflt @ ''}'' @ rest) =
    pre @ (if getEnv E name \<noteq> [] then getEnv E name else dflt) @ InterpolateEnvVars E rest"
  using Interpolate_plain [OF assms(1), of E] Interpolate_ref [OF env_ref_name(2) [OF assms(2-5), of rest], of E]
  by (simp add: env_value_def Let_def)

lemma interpolate_reference_witness:
  "InterpolateEnvVars \<lparr>ev_Lookup = (\<lambda>k. if k = ''HOST'' then Some ([dollar] @ ''{HOST}'') else None), ev_ReadFile = (\<lambda>f. Inl ErrNotFound)\<rparr>
     (''http://'' @ [dollar] @ ''{'' @ ''HOST'' @ '':-'' @ ''localhost'' @ ''}'' @ ''/api'') = ''http://'' @ [dollar] @ ''{HOST}/api''"
proof -
  have "InterpolateEnvVars E ''/api'' = ''/api''" for E using Interpolate_plain [of "''/api''" E "[]"] by simp
  then show ?thesis
    using interpolate_reference [of "''http://''" "''HOST''" "''localhost''"
      "\<lparr>ev_Lookup = (\<lambda>k. if k = ''HOST'' then Some ([dollar] @ ''{HOST}'') else None), ev_ReadFile = (\<lambda>f. Inl ErrNotFound)\<rparr>" "''/api''"]
    by (simp add: getEnv_def)
qed

subsection \<open>What a conversion without errors gives\<close>

text \<open>What the loaders promise of an instance they accept, from the environment or from the file.\<close>

definition wf_conf_instance :: "conf_instance \<Rightarrow> bool" where
  "wf_conf_instance c \<longleftrightarrow> ic_Name c \<noteq> [] \<and> ic_TypeName c \<noteq> [] \<and> 1 \<le> ic_TTL c \<and>
     ic_RecordType c \<in> {RecordTypeA, RecordTypeAAAA, RecordTypeCNAME} \<and>
     ic_Mode c \<in> {ModeManaged, ModeAuthoritative, ModeAdditive} \<and>
     (ic_Domains c = [] \<or> ic_DomainsRegex c = []) \<and> (ic_Target c = [] \<longrightarrow> ic_TargetMode c \<noteq> [])"

lemma ParseOperationalMode_modes:
  "ParseOperationalMode s = Inr m \<Longrightarrow> m \<in> {ModeManaged, ModeAuthoritative, ModeAdditive}"
  by (auto simp: ParseOperationalMode_def Let_def split: if_splits)

lemma check_that_Nil [simp]: "check_that ok e = [] \<longleftrightarrow> ok" "[] = check_that ok e \<longleftrightarrow> ok"
  by (simp_all add: check_that_def)

lemma convertFileProvider_wf:
  assumes "convertFileProvider it fp defaultTTL = (c, [])" and "1 \<le> defaultTTL"
  shows "wf_conf_instance c" "ic_Name c = fp_Name fp"
proof -
  have c: "convert_record_type fp = (ic_RecordType c, [])" "convert_mode fp = (ic_Mode c, [])" "convert_domain_errors fp = []"
    "ic_Domains c = fp_Domains fp" "ic_DomainsRegex c = fp_DomainsRegex fp" "ic_Target c \<noteq> []" "ic_Name c \<noteq> []"
    "ic_TypeName c \<noteq> []" "1 \<le> ic_TTL c" "ic_Name c = fp_Name fp"
    using assms by (auto simp: convertFileProvider_def Let_def split: prod.splits if_splits)
  show "ic_Name c = fp_Name fp" by (rule c)
  have "ic_RecordType c \<in> {RecordTypeA, RecordTypeAAAA, RecordTypeCNAME}"
    using c(1) by (auto simp: convert_record_type_def Let_def split: if_splits)
  moreover have "ic_Mode c \<in> {ModeManaged, ModeAuthoritative, ModeAdditive}"
    using c(2) ParseOperationalMode_modes by (force simp: convert_mode_def split: if_splits sum.splits)
  moreover have "ic_Domains c = [] \<or> ic_DomainsRegex c = []" using c(3-5) by (auto simp: convert_domain_errors_def)
  ultimately show "wf_conf_instance c" using c by (simp add: wf_conf_instance_def)
qed

lemma convert_providers_wf:
  "convert_providers it defaultTTL fps = (cs, []) \<Longrightarrow> 1 \<le> defaultTTL \<Longrightarrow> \<forall>c \<in> set cs. wf_conf_instance c"
  by (induction fps arbitrary: cs) (auto simp: Let_def convertFileProvider_wf split: prod.splits)

lemma loadInstanceConfig_wf_conf:
  assumes "loadInstanceConfig E name defaultTTL = (c, [])" and "1 \<le> defaultTTL" and "name \<noteq> []"
  shows "wf_conf_instance c"
  using loadInstanceConfig_wf [OF assms(1,2)] assms(3) by (auto simp: wf_conf_instance_def)

end
