(* ===== verification/ConfigLoad.thy ===== *)
theory ConfigLoad
  imports FileConfig
begin

text \<open>
  \<^verbatim>\<open>internal/config/config.go\<close> and the cross-field checks of \<^verbatim>\<open>validate.go\<close>: loading the whole
  configuration from the environment and an optional file, its validation, and the accessors that compute
  something. The environment, the YAML decoder, the order of map iterations and the regular expression engine
  are arguments. Accessors that only read one setting, the printed summary and log lines are left out.
\<close>

subsection \<open>The configuration\<close>

record app_Config =
  cf_Global :: GlobalConfig
  cf_ProviderNames :: "string list"
  cf_ProviderInstances :: "conf_instance list"
  cf_Sources :: SourceConfig
  cf_ConfigFile :: string

text \<open>The environment overrides the enumerations of a file, so they are checked again after merging.\<close>

definition enum_errors :: "GlobalConfig \<Rightarrow> conf_error list" where
  "enum_errors g =
     check_that (valid_LogLevel (g_LogLevel g)) (configErrFull ''log_level'' (''invalid value '' @ Quote (g_LogLevel g))
       ''Must be one of: debug, info, warn, error'' ''DNSWEAVER_LOG_LEVEL=info'') @
     check_that (valid_LogFormat (g_LogFormat g)) (configErrFull ''log_format'' (''invalid value '' @ Quote (g_LogFormat g))
       ''Must be one of: json, text'' ''DNSWEAVER_LOG_FORMAT=json'') @
     check_that (valid_DockerMode (g_DockerMode g) \<or> g_DockerMode g = [])
       (configErrFull ''docker_mode'' (''invalid value '' @ Quote (g_DockerMode g))
         ''Must be one of: auto, swarm, standalone'' ''DNSWEAVER_DOCKER_MODE=auto'') @
     check_that (valid_Platform (g_Platform g) \<or> g_Platform g = [])
       (configErrFull ''platform'' (''invalid value '' @ Quote (g_Platform g))
         ''Must be one of: docker, kubernetes, both, none'' ''DNSWEAVER_PLATFORM=docker'')"

fun duplicate_errors :: "string list \<Rightarrow> conf_instance list \<Rightarrow> conf_error list" where
  "duplicate_errors seen [] = []"
| "duplicate_errors seen (inst # insts) =
     check_that (ic_Name inst \<notin> set seen) (configErrHelp ''providers''
       (''duplicate provider instance name: '' @ Quote (ic_Name inst)) ''Each provider instance must have a unique name'') @
     duplicate_errors (ic_Name inst # seen) insts"

definition validateConfig :: "engine \<Rightarrow> app_Config \<Rightarrow> conf_error list" where
  "validateConfig rx cfg =
     enum_errors (cf_Global cfg) @ duplicate_errors [] (cf_ProviderInstances cfg) @
     concat (map validateTargetRecordType (cf_ProviderInstances cfg)) @
     concat (map (validateDomainPatterns rx) (cf_ProviderInstances cfg))"

fun load_instances :: "environment \<Rightarrow> int \<Rightarrow> string list \<Rightarrow> conf_instance list \<times> conf_error list" where
  "load_instances E defaultTTL [] = ([], [])"
| "load_instances E defaultTTL (name # names) =
     (let (inst, e1) = loadInstanceConfig E name defaultTTL; (insts, e2) = load_instances E defaultTTL names
      in (inst # insts, e1 @ e2))"

text \<open>Providers come from the environment if it names any, else from the file, else there is an error.\<close>

definition load_providers ::
  "environment \<Rightarrow> int \<Rightarrow> conf_instance list \<Rightarrow> (string list \<times> conf_instance list) \<times> conf_error list" where
  "load_providers E defaultTTL fileProviders =
     (let names = parseInstances E in
      if length names > 0 then (let (insts, errs) = load_instances E defaultTTL names in ((names, insts), errs))
      else if length fileProviders > 0 then
        ((map ic_Name fileProviders, map (mergeProviderEnvOverrides E) fileProviders), [])
      else (([], []), [configErrFull ''providers'' ''no providers configured''
        ''Define providers via DNSWEAVER_INSTANCES env var or in the config file'' ''DNSWEAVER_INSTANCES=my-dns'']))"

definition load_sources :: "environment \<Rightarrow> SourceConfig option \<Rightarrow> SourceConfig" where
  "load_sources E fileSources =
     (if getEnv E ''DNSWEAVER_SOURCES'' \<noteq> [] then loadSourceConfig E
      else case fileSources of Some s \<Rightarrow> s | None \<Rightarrow> loadSourceConfig E)"

text \<open>The left value is the \<^verbatim>\<open>ValidationError\<close> with its list of errors.\<close>

definition Load ::
  "(string \<Rightarrow> err + FileConfig) \<Rightarrow> string iteration \<Rightarrow> engine \<Rightarrow> environment \<Rightarrow> conf_error list + app_Config" where
  "Load yaml it rx E =
     (let configPath = GetConfigFilePath E;
          (file, fileErrs) = (if configPath \<noteq> [] then loadFromFile yaml it E configPath else (None, []));
          (global, globalErrs) =
            (case file of Some f \<Rightarrow> mergeGlobalConfig E (Some (lf_Global f)) | None \<Rightarrow> loadGlobalConfig E);
          ((names, instances), providerErrs) =
            load_providers E (g_DefaultTTL global) (case file of Some f \<Rightarrow> lf_Providers f | None \<Rightarrow> []);
          cfg = \<lparr>cf_Global = global, cf_ProviderNames = names, cf_ProviderInstances = instances,
                 cf_Sources = load_sources E (case file of Some f \<Rightarrow> lf_Sources f | None \<Rightarrow> None), cf_ConfigFile = configPath\<rparr>;
          allErrors = fileErrs @ globalErrs @ providerErrs @ validateConfig rx cfg
      in if length allErrors > 0 then Inl allErrors else Inr cfg)"

subsection \<open>Accessors\<close>

definition UseDocker :: "app_Config \<Rightarrow> bool" where
  "UseDocker c \<longleftrightarrow> g_Platform (cf_Global c) = ''docker'' \<or> g_Platform (cf_Global c) = ''both''"

definition UseKubernetes :: "app_Config \<Rightarrow> bool" where
  "UseKubernetes c \<longleftrightarrow> g_Platform (cf_Global c) = ''kubernetes'' \<or> g_Platform (cf_Global c) = ''both''"

definition UseProxmox :: "app_Config \<Rightarrow> bool" where
  "UseProxmox c \<longleftrightarrow> g_ProxmoxURL (cf_Global c) \<noteq> []"

definition UseIncus :: "app_Config \<Rightarrow> bool" where
  "UseIncus c \<longleftrightarrow> g_IncusURL (cf_Global c) \<noteq> [] \<or> g_IncusSocketPath (cf_Global c) \<noteq> []"

text \<open>An invalid minimum version is ignored with a warning; settings that are all zero mean no TLS settings.\<close>

definition with_min_version :: "string \<Rightarrow> TLSConfig \<Rightarrow> TLSConfig" where
  "with_min_version v tls =
     (if v = [] then tls
      else case ParseTLSMinVersion v of Inr parsed \<Rightarrow> tls\<lparr>tls_MinVersion := parsed\<rparr> | Inl _ \<Rightarrow> tls)"

definition unless_zero :: "TLSConfig \<Rightarrow> TLSConfig option" where
  "unless_zero tls = (if IsZero tls then None else Some tls)"

definition ProxmoxTLS :: "app_Config \<Rightarrow> TLSConfig option" where
  "ProxmoxTLS c =
     (let g = cf_Global c in
      unless_zero (with_min_version (g_ProxmoxTLSMinVersion g)
        \<lparr>tls_CAFile = g_ProxmoxTLSCAFile g, tls_CertFile = g_ProxmoxTLSCertFile g, tls_KeyFile = g_ProxmoxTLSKeyFile g,
         tls_ServerName = g_ProxmoxTLSServerName g, tls_InsecureSkip = g_ProxmoxTLSSkipVerify g, tls_PinnedSHA256 = [],
         tls_MinVersion = 0\<rparr>))"

definition IncusTLS :: "app_Config \<Rightarrow> TLSConfig option" where
  "IncusTLS c =
     (let g = cf_Global c in
      unless_zero (with_min_version (g_IncusTLSMinVersion g)
        \<lparr>tls_CAFile = g_IncusTLSCAFile g, tls_CertFile = g_IncusTLSCertFile g, tls_KeyFile = g_IncusTLSKeyFile g,
         tls_ServerName = g_IncusTLSServerName g, tls_InsecureSkip = g_IncusTLSSkipVerify g,
         tls_PinnedSHA256 = g_IncusTLSPinSHA256 g, tls_MinVersion = 0\<rparr>))"

definition incus_wildcard :: "string \<Rightarrow> bool" where
  "incus_wildcard p \<longleftrightarrow> p = ''*'' \<or> EqualFold p ''all''"

definition IncusAllProjects :: "app_Config \<Rightarrow> bool" where
  "IncusAllProjects c \<longleftrightarrow> g_IncusAllProjects (cf_Global c) \<or> list_ex incus_wildcard (g_IncusProjects (cf_Global c))"

definition IncusProjects :: "app_Config \<Rightarrow> string list" where
  "IncusProjects c =
     (if IncusAllProjects c then [] else filter (\<lambda>p. \<not> incus_wildcard p) (g_IncusProjects (cf_Global c)))"

definition GetProviderInstance :: "app_Config \<Rightarrow> string \<Rightarrow> conf_instance option" where
  "GetProviderInstance c name = List.find (\<lambda>inst. ic_Name inst = name) (cf_ProviderInstances c)"

definition cf_GetSourceInstance :: "app_Config \<Rightarrow> string \<Rightarrow> SourceInstanceConfig option" where
  "cf_GetSourceInstance c name = GetSourceInstance (cf_Sources c) name"

definition SourceNames :: "app_Config \<Rightarrow> string list" where
  "SourceNames c = sc_Names (cf_Sources c)"

definition cf_HasFileDiscovery :: "app_Config \<Rightarrow> bool" where
  "cf_HasFileDiscovery c \<longleftrightarrow> sc_HasFileDiscovery (cf_Sources c)"

subsection \<open>Overrides of a provider's settings\<close>

lemma load_fields_lookup:
  "distinct (map fst fs) \<Longrightarrow>
    map_of (load_fields E pre fs m) k =
      (case map_of fs k of
         Some secret \<Rightarrow> (let v = field_value E pre (k, secret) in if v \<noteq> [] then Some v else map_of m k)
       | None \<Rightarrow> map_of m k)"
proof (induction fs arbitrary: m)
  case (Cons f fs)
  obtain a b where f: "f = (a, b)" by fastforce
  have "map_of fs a = None" using Cons.prems f by (simp add: map_of_eq_None_iff)
  then show ?case using Cons by (cases "k = a") (simp_all add: f Let_def update_conv' split: option.split)
qed simp

lemma distinct_fields: "distinct (map fst providerConfigFields)"
  by (simp add: providerConfigFields_def)

lemma resolveLegacy_other:
  "k \<notin> {''INSECURE_SKIP_VERIFY'', ''TLS_SKIP_VERIFY''} \<Longrightarrow> map_of (resolveLegacyTLSSkipVerify m) k = map_of m k"
  by (simp add: resolveLegacyTLSSkipVerify_def delete_conv' update_conv' split: option.split)

lemma resolveLegacy_skip:
  "map_of (resolveLegacyTLSSkipVerify m) ''TLS_SKIP_VERIFY'' =
    (case map_of m ''TLS_SKIP_VERIFY'' of Some v \<Rightarrow> Some v | None \<Rightarrow> map_of m ''INSECURE_SKIP_VERIFY'')"
  "map_of (resolveLegacyTLSSkipVerify m) ''INSECURE_SKIP_VERIFY'' = None"
  by (auto simp: resolveLegacyTLSSkipVerify_def delete_conv' update_conv' has_key_def split: option.split)

lemma override_frames [simp]:
  "ic_ProviderConfig (override_mode E p c) = ic_ProviderConfig c" "ic_ProviderConfig (override_ttl E p c) = ic_ProviderConfig c"
  "ic_ProviderConfig (override_target E p c) = ic_ProviderConfig c"
  by (simp_all add: override_mode_def override_ttl_def override_target_def Let_def split: sum.split)

text \<open>Environment over file, per provider setting: after merging, a setting of an instance from the file is the
variable \<^verbatim>\<open>DNSWEAVER_NAME_KEY\<close> (for a secret, the content of the file named by \<^verbatim>\<open>..._KEY_FILE\<close> first) when that gives
a non-empty value, and the file's value otherwise.\<close>
theorem env_overrides_provider_setting:
  assumes "map_of providerConfigFields k = Some secret" and "k \<notin> {''INSECURE_SKIP_VERIFY'', ''TLS_SKIP_VERIFY''}"
  shows "map_of (ic_ProviderConfig (mergeProviderEnvOverrides E c)) k =
    (let v = (if secret then getEnvWithFileFallback E (envPrefix (ic_Name c)) k else getEnv E (envPrefix (ic_Name c) @ k))
     in if v \<noteq> [] then Some v else map_of (ic_ProviderConfig c) k)"
  using assms
  by (simp add: mergeProviderEnvOverrides_def Let_def resolveLegacy_other load_fields_lookup [OF distinct_fields] field_value_def)

lemma env_overrides_provider_setting_witness:
  "let E = \<lparr>ev_Lookup = map_of [(''DNSWEAVER_MY_DNS_TOKEN_FILE'', ''/run/secrets/t''), (''DNSWEAVER_MY_DNS_TOKEN'', ''old'')],
        ev_ReadFile = (\<lambda>f. if f = ''/run/secrets/t'' then Inr (''s3cret'' @ [newline]) else Inl ErrNotFound)\<rparr>;
       c = fst (convertFileProvider id \<lparr>fp_Name = ''my-dns'', fp_Type = ''technitium'', fp_Domains = [''*.example.com''],
         fp_DomainsRegex = [], fp_ExcludeDomains = [], fp_ExcludeDomainsRegex = [], fp_RecordType = ''A'', fp_Target = ''10.0.0.1'',
         fp_TTL = 300, fp_Mode = [], fp_Config = [(''token'', ''file'')]\<rparr> 300)
   in map_of (ic_ProviderConfig (mergeProviderEnvOverrides E c)) ''TOKEN'' = Some ''s3cret''"
proof -
  have t: "map_of providerConfigFields ''TOKEN'' = Some True" by (simp add: providerConfigFields_def)
  show ?thesis
    unfolding Let_def
    by (subst env_overrides_provider_setting [OF t]) code_simp+
qed

subsection \<open>What an accepted configuration satisfies\<close>

definition valid_config :: "engine \<Rightarrow> app_Config \<Rightarrow> bool" where
  "valid_config rx cfg \<longleftrightarrow>
     ranges (cf_Global cfg) \<and> enum_errors (cf_Global cfg) = [] \<and>
     cf_ProviderNames cfg \<noteq> [] \<and> cf_ProviderNames cfg = map ic_Name (cf_ProviderInstances cfg) \<and>
     distinct (cf_ProviderNames cfg) \<and>
     (\<forall>c \<in> set (cf_ProviderInstances cfg). wf_conf_instance c \<and> validateTargetRecordType c = [] \<and> validateDomainPatterns rx c = []) \<and>
     wf_sources (cf_Sources cfg)"

lemma duplicate_errors_Nil:
  "duplicate_errors seen insts = [] \<longleftrightarrow> distinct (map ic_Name insts) \<and> set seen \<inter> set (map ic_Name insts) = {}"
  by (induction insts arbitrary: seen) auto

lemma validateConfig_Nil:
  "validateConfig rx cfg = [] \<longleftrightarrow> enum_errors (cf_Global cfg) = [] \<and> distinct (map ic_Name (cf_ProviderInstances cfg)) \<and>
     (\<forall>c \<in> set (cf_ProviderInstances cfg). validateTargetRecordType c = [] \<and> validateDomainPatterns rx c = [])"
  by (auto simp: validateConfig_def duplicate_errors_Nil)

lemma load_instances_wf:
  assumes "load_instances E ttl names = (cs, [])" "1 \<le> ttl" "\<forall>n \<in> set names. n \<noteq> []"
  shows "map ic_Name cs = names" "\<forall>c \<in> set cs. wf_conf_instance c"
proof -
  have "map ic_Name cs = names \<and> (\<forall>c \<in> set cs. wf_conf_instance c)"
    using assms
  proof (induction names arbitrary: cs)
    case (Cons n ns)
    obtain c cs' where l: "loadInstanceConfig E n ttl = (c, [])" "load_instances E ttl ns = (cs', [])" "cs = c # cs'"
      using Cons.prems(1) by (auto simp: Let_def split: prod.splits)
    show ?case
      using Cons.IH [OF l(2)] Cons.prems(2,3) loadInstanceConfig_wf(1) [OF l(1)] loadInstanceConfig_wf_conf [OF l(1)] l(3) by simp
  qed simp
  then show "map ic_Name cs = names" "\<forall>c \<in> set cs. wf_conf_instance c" by auto
qed

lemma merge_wf:
  assumes "wf_conf_instance c"
  shows "wf_conf_instance (mergeProviderEnvOverrides E c)" "ic_Name (mergeProviderEnvOverrides E c) = ic_Name c"
proof -
  have t: "wf_conf_instance (override_target E p d)" "ic_Name (override_target E p d) = ic_Name d" if "wf_conf_instance d" for p d
    using that by (auto simp: override_target_def Let_def wf_conf_instance_def)
  have l: "wf_conf_instance (override_ttl E p d)" "ic_Name (override_ttl E p d) = ic_Name d" if "wf_conf_instance d" for p d
    using that by (auto simp: override_ttl_def Let_def wf_conf_instance_def split: sum.split)
  have m: "wf_conf_instance (override_mode E p d)" "ic_Name (override_mode E p d) = ic_Name d" if "wf_conf_instance d" for p d
    using that ParseOperationalMode_modes [of "getEnv E (p @ ''MODE'')"]
    by (auto simp: override_mode_def Let_def wf_conf_instance_def split: sum.split)
  have u: "wf_conf_instance (d\<lparr>ic_ProviderConfig := x\<rparr>) = wf_conf_instance d" for d x by (simp add: wf_conf_instance_def)
  show "wf_conf_instance (mergeProviderEnvOverrides E c)" "ic_Name (mergeProviderEnvOverrides E c) = ic_Name c"
    using assms by (simp_all add: mergeProviderEnvOverrides_def Let_def u t l m)
qed

lemma load_providers_wf:
  assumes "load_providers E ttl fps = ((names, cs), [])" "1 \<le> ttl" "\<forall>c \<in> set fps. wf_conf_instance c"
  shows "names \<noteq> []" "map ic_Name cs = names" "\<forall>c \<in> set cs. wf_conf_instance c"
proof -
  have "names \<noteq> [] \<and> map ic_Name cs = names \<and> (\<forall>c \<in> set cs. wf_conf_instance c)"
  proof (cases "parseInstances E = []")
    case True
    then have "names = map ic_Name fps" "cs = map (mergeProviderEnvOverrides E) fps" "fps \<noteq> []"
      using assms(1) by (auto simp: load_providers_def Let_def split: if_splits)
    then show ?thesis using assms(3) by (auto simp: merge_wf)
  next
    case False
    then have "load_instances E ttl names = (cs, [])" "names = parseInstances E"
      using assms(1) by (auto simp: load_providers_def Let_def split: prod.splits)
    moreover have "\<forall>n \<in> set (parseInstances E). n \<noteq> []" by (auto dest: parseInstances_neq_Nil)
    ultimately show ?thesis using load_instances_wf [of E ttl names cs] assms(2) False by simp
  qed
  then show "names \<noteq> []" "map ic_Name cs = names" "\<forall>c \<in> set cs. wf_conf_instance c" by auto
qed

lemma loadFromFile_wf:
  assumes "loadFromFile yaml it E path = (Some f, [])"
  shows "ranges (lf_Global f)" "\<forall>c \<in> set (lf_Providers f). wf_conf_instance c" "\<And>s. lf_Sources f = Some s \<Longrightarrow> wf_sources s"
proof -
  obtain cfg where c: "lf_Global f = ToGlobalConfig cfg" "lf_Sources f = convertFileSources (fc_Sources cfg)"
    "convert_providers it (g_DefaultTTL (ToGlobalConfig cfg)) (fc_Providers cfg) = (lf_Providers f, [])"
    using assms by (auto simp: loadFromFile_def Let_def split: if_splits sum.splits prod.splits)
  have r: "ranges (ToGlobalConfig cfg)" by (rule ranges_ToGlobalConfig)
  then show "ranges (lf_Global f)" by (simp add: c(1))
  show "\<forall>c \<in> set (lf_Providers f). wf_conf_instance c" using convert_providers_wf [OF c(3)] r by (simp add: ranges_def)
  show "\<And>s. lf_Sources f = Some s \<Longrightarrow> wf_sources s" using c(2) by (simp add: wf_convertFileSources)
qed

lemma Load_parts:
  assumes "Load yaml it rx E = Inr cfg"
  shows "ranges (cf_Global cfg)" "cf_ProviderNames cfg \<noteq> []" "map ic_Name (cf_ProviderInstances cfg) = cf_ProviderNames cfg"
    "\<forall>c \<in> set (cf_ProviderInstances cfg). wf_conf_instance c" "wf_sources (cf_Sources cfg)" "validateConfig rx cfg = []"
proof -
  obtain doc where f: "(if GetConfigFilePath E \<noteq> [] then loadFromFile yaml it E (GetConfigFilePath E) else (None, [])) = (doc, [])"
    and g: "(case doc of Some f \<Rightarrow> mergeGlobalConfig E (Some (lf_Global f)) | None \<Rightarrow> loadGlobalConfig E) = (cf_Global cfg, [])"
    and p: "load_providers E (g_DefaultTTL (cf_Global cfg)) (case doc of Some f \<Rightarrow> lf_Providers f | None \<Rightarrow> []) =
      ((cf_ProviderNames cfg, cf_ProviderInstances cfg), [])"
    and s: "cf_Sources cfg = load_sources E (case doc of Some f \<Rightarrow> lf_Sources f | None \<Rightarrow> None)" and v: "validateConfig rx cfg = []"
    using assms unfolding Load_def Let_def by (auto split: prod.splits if_splits)
  have doc: "ranges (lf_Global f) \<and> (\<forall>c \<in> set (lf_Providers f). wf_conf_instance c) \<and> (\<forall>s. lf_Sources f = Some s \<longrightarrow> wf_sources s)"
    if "doc = Some f" for f
    using f that loadFromFile_wf [of yaml it E "GetConfigFilePath E" f] by (auto split: if_splits)
  show r: "ranges (cf_Global cfg)"
  proof (cases doc)
    case None
    then show ?thesis using g ranges_load by simp
  next
    case (Some f)
    then show ?thesis using g doc ranges_merge [of "lf_Global f" E] by (simp add: mergeGlobalConfig_def)
  qed
  then have ttl: "1 \<le> g_DefaultTTL (cf_Global cfg)" by (simp add: ranges_def)
  have w: "\<forall>c \<in> set (case doc of Some f \<Rightarrow> lf_Providers f | None \<Rightarrow> []). wf_conf_instance c" using doc by (auto split: option.split)
  show "cf_ProviderNames cfg \<noteq> []" "map ic_Name (cf_ProviderInstances cfg) = cf_ProviderNames cfg"
    "\<forall>c \<in> set (cf_ProviderInstances cfg). wf_conf_instance c"
    using load_providers_wf [OF p ttl w] by auto
  show "wf_sources (cf_Sources cfg)" unfolding s load_sources_def using doc wf_loadSourceConfig by (auto split: option.split)
  show "validateConfig rx cfg = []" by (rule v)
qed


definition sample_environment :: environment where
  "sample_environment =
     \<lparr>ev_Lookup = map_of [(''DNSWEAVER_INSTANCES'', ''lan, v6''), (''DNSWEAVER_LAN_TYPE'', ''dnsmasq''),
        (''DNSWEAVER_LAN_TARGET'', ''10.0.0.1''), (''DNSWEAVER_LAN_DOMAINS'', ''*.lan''),
        (''DNSWEAVER_V6_TYPE'', ''technitium''), (''DNSWEAVER_V6_RECORD_TYPE'', ''aaaa''), (''DNSWEAVER_V6_TARGET_MODE'', ''public''),
        (''DNSWEAVER_V6_DOMAINS'', ''*.example.com''), (''DNSWEAVER_RECONCILE_INTERVAL'', ''5m'')],
      ev_ReadFile = (\<lambda>f. Inl ErrNotFound)\<rparr>"

definition sample_load :: "conf_error list + app_Config" where
  "sample_load = Load (\<lambda>d. Inl ErrNotFound) id (\<lambda>p. Inl ErrNotFound) sample_environment"

lemma sample_load_ok:
  "(case sample_load of Inr cfg \<Rightarrow> map (\<lambda>c. (ic_Target c, ic_Domains c)) (cf_ProviderInstances cfg) | Inl es \<Rightarrow> []) =
     [(''10.0.0.1'', [''*.lan'']), ([], [''*.example.com''])]"
  by code_simp

lemma sample_load_instances:
  "\<exists>cfg. sample_load = Inr cfg \<and>
     map (\<lambda>c. (ic_Target c, ic_Domains c)) (cf_ProviderInstances cfg) = [(''10.0.0.1'', [''*.lan'']), ([], [''*.example.com''])]"
proof (cases sample_load)
  case (Inl es)
  show ?thesis using sample_load_ok unfolding Inl sum.case(1) by (rule list.distinct [THEN notE])
next
  case (Inr cfg)
  have "map (\<lambda>c. (ic_Target c, ic_Domains c)) (cf_ProviderInstances cfg) = [(''10.0.0.1'', [''*.lan'']), ([], [''*.example.com''])]"
    using sample_load_ok unfolding Inr sum.case(2) .
  with Inr show ?thesis by (intro exI conjI)
qed


subsection \<open>The two validations of an instance\<close>

text \<open>C20: Every instance of an accepted configuration passes the second validation, the one that the provider registry
applies when it builds the instance, exactly when it has a literal target and at least one domain pattern. So
the instances that the two checks judge differently are those with only a target mode, and those whose domain list is
nothing but separators.\<close>
theorem Load_accepted_by_registry:
  assumes "Load yaml it rx E = Inr cfg" and "c \<in> set (cf_ProviderInstances cfg)"
  shows "cfg_Validate (ToProviderConfig c) = None \<longleftrightarrow> ic_Target c \<noteq> [] \<and> (ic_Domains c \<noteq> [] \<or> ic_DomainsRegex c \<noteq> [])"
proof -
  have w: "wf_conf_instance c" and v: "validateTargetRecordType c = []"
    using Load_parts(4,6) [OF assms(1)] assms(2) by (auto simp: validateConfig_Nil)
  have t: "ic_Target c \<noteq> [] \<Longrightarrow>
     ic_RecordType c = RecordTypeA \<and> isIPv4Address (ic_Target c) \<or>
     ic_RecordType c = RecordTypeAAAA \<and> isIPv6Address (ic_Target c) \<or>
     ic_RecordType c = RecordTypeCNAME \<and> \<not> isIPAddress (ic_Target c)"
    using validateTargetRecordType_Nil [of c] v w by (simp add: wf_conf_instance_def)
  show ?thesis
    using w t by (auto simp: cfg_Validate_def ToProviderConfig_def wf_conf_instance_def Let_def RecordType_defs)
qed

lemma Load_accepted_by_registry_witness:
  "\<exists>cfg a b. sample_load = Inr cfg \<and> cf_ProviderInstances cfg = [a, b] \<and>
     cfg_Validate (ToProviderConfig a) = None \<and> cfg_Validate (ToProviderConfig b) \<noteq> None"
proof -
  obtain cfg where c: "sample_load = Inr cfg"
    "map (\<lambda>c. (ic_Target c, ic_Domains c)) (cf_ProviderInstances cfg) = [(''10.0.0.1'', [''*.lan'']), ([], [''*.example.com''])]"
    using sample_load_instances by (elim exE conjE)
  obtain a b where ab: "cf_ProviderInstances cfg = [a, b]" "ic_Target a = ''10.0.0.1''" "ic_Domains a = [''*.lan'']" "ic_Target b = []"
    using c(2) by (auto simp: map_eq_Cons_conv)
  have l: "Load (\<lambda>d. Inl ErrNotFound) id (\<lambda>p. Inl ErrNotFound) sample_environment = Inr cfg" using c(1) unfolding sample_load_def .
  have "cfg_Validate (ToProviderConfig a) = None" "cfg_Validate (ToProviderConfig b) \<noteq> None"
    using Load_accepted_by_registry [OF l, of a] Load_accepted_by_registry [OF l, of b] ab by simp_all
  with c(1) ab(1) show ?thesis by (intro exI conjI)
qed

end
