(* ===== verification/TargetRefresh.thy ===== *)
theory TargetRefresh
  imports ConfigLoad
begin

text \<open>
  \<^verbatim>\<open>internal/target/refresh.go\<close> and \<^verbatim>\<open>cmd/dnsweaver/target_refresh.go\<close>: refreshers that resolve the target of
  a provider instance now and then, and apply a new value to the instance in the registry. A refresher's loop is a
  goroutine: \<open>rf_loops\<close> counts those alive and \<open>rf_cancelled\<close> those of them whose context is cancelled, which may
  resolve once more before they notice. Ticks come at any time, so the interval only matters to the ticker.
\<close>

subsection \<open>A refresher\<close>

definition DefaultRefreshInterval :: int where "DefaultRefreshInterval = 5 * 60 * one_second"

text \<open>\<open>rf_ptr\<close> is the instance its callback updates. A nil resolver is \<^const>\<open>None\<close>.\<close>

record Refresher =
  rf_resolver :: "target_resolver option"
  rf_interval :: int
  rf_ptr :: nat
  rf_lastGood :: string
  rf_running :: bool
  rf_loops :: nat
  rf_cancelled :: nat

definition NewRefresher :: "target_resolver option \<Rightarrow> int \<Rightarrow> nat \<Rightarrow> Refresher" where
  "NewRefresher resolver interval ptr =
     \<lparr>rf_resolver = resolver, rf_interval = (if interval \<le> 0 then DefaultRefreshInterval else interval), rf_ptr = ptr,
      rf_lastGood = [], rf_running = False, rf_loops = 0, rf_cancelled = 0\<rparr>"

text \<open>The new refresher, the value returned, and whether the callback runs.\<close>

definition resolveOnce :: "err + string \<Rightarrow> Refresher \<Rightarrow> Refresher \<times> string \<times> bool" where
  "resolveOnce outcome r =
     (case outcome of
        Inl _ \<Rightarrow> (r, rf_lastGood r, False)
      | Inr value \<Rightarrow> (r\<lparr>rf_lastGood := value\<rparr>, value, value \<noteq> rf_lastGood r))"

definition rf_Stop :: "Refresher \<Rightarrow> Refresher" where
  "rf_Stop r = r\<lparr>rf_running := False, rf_cancelled := rf_loops r\<rparr>"

subsection \<open>The refreshers of the configured instances\<close>

definition with_endpoints :: "Family \<Rightarrow> string list \<Rightarrow> target_resolver option \<Rightarrow> target_resolver option" where
  "with_endpoints family endpoints r =
     (if length endpoints > 0 then
        (case r of Some (Public _) \<Rightarrow> Some (Public (NewPublicResolver family endpoints)) | _ \<Rightarrow> r)
      else r)"

definition target_family :: "RecordType \<Rightarrow> Family" where
  "target_family rt = (if rt = RecordTypeAAAA then FamilyIPv6 else FamilyIPv4)"

fun buildTargetRefreshers :: "conf_instance list \<Rightarrow> 'w Registry \<Rightarrow> Refresher list" where
  "buildTargetRefreshers [] registry = []"
| "buildTargetRefreshers (c # cs) registry =
     (if ic_TargetMode c = [] then buildTargetRefreshers cs registry
      else case Get registry (ic_Name c) of
        None \<Rightarrow> buildTargetRefreshers cs registry
      | Some inst \<Rightarrow>
          (let family = target_family (pi_RecordType inst) in
           case target_Parse (ic_TargetMode c) family of
             Inl _ \<Rightarrow> buildTargetRefreshers cs registry
           | Inr resolver \<Rightarrow>
               NewRefresher (with_endpoints family (ic_TargetPublicEndpoints c) resolver) (ic_TargetRefreshInterval c) (pi_ptr inst)
                 # buildTargetRefreshers cs registry))"

record 'w refresh_state =
  rs_refreshers :: "Refresher list"
  rs_registry :: "'w Registry"
  rs_triggers :: nat          \<comment> \<open>reconciliations triggered so far\<close>
  rs_world :: 'w

text \<open>Resolving with a nil resolver panics: the result is \<^const>\<open>None\<close>.\<close>

definition resolve_once :: "'w network \<Rightarrow> nat \<Rightarrow> 'w refresh_state \<Rightarrow> 'w refresh_state option" where
  "resolve_once net k s =
     (let r = rs_refreshers s ! k in
      case rf_resolver r of
        None \<Rightarrow> None
      | Some resolver \<Rightarrow>
          (let (outcome, w) = Resolve net resolver (rs_world s); (r', value, changed) = resolveOnce outcome r;
               s1 = s\<lparr>rs_refreshers := (rs_refreshers s)[k := r'], rs_world := w\<rparr>
           in Some (if changed
                    then s1\<lparr>rs_registry := set_dynamic_target (rf_ptr r) value (rs_registry s), rs_triggers := rs_triggers s + 1\<rparr>
                    else s1)))"

definition update_refresher :: "nat \<Rightarrow> (Refresher \<Rightarrow> Refresher) \<Rightarrow> 'w refresh_state \<Rightarrow> 'w refresh_state" where
  "update_refresher k f s = s\<lparr>rs_refreshers := (rs_refreshers s)[k := f (rs_refreshers s ! k)]\<rparr>"

definition rf_Start :: "'w network \<Rightarrow> nat \<Rightarrow> 'w refresh_state \<Rightarrow> 'w refresh_state option" where
  "rf_Start net k s =
     (if rf_running (rs_refreshers s ! k) then Some s
      else map_option (update_refresher k (\<lambda>r. r\<lparr>rf_loops := rf_loops r + 1\<rparr>))
             (resolve_once net k (update_refresher k (\<lambda>r. r\<lparr>rf_running := True\<rparr>) s)))"

fun start_refreshers :: "'w network \<Rightarrow> nat list \<Rightarrow> 'w refresh_state \<Rightarrow> 'w refresh_state option" where
  "start_refreshers net [] s = Some s"
| "start_refreshers net (k # ks) s = (case rf_Start net k s of None \<Rightarrow> None | Some s' \<Rightarrow> start_refreshers net ks s')"

definition startTargetRefreshers :: "'w network \<Rightarrow> 'w refresh_state \<Rightarrow> 'w refresh_state option" where
  "startTargetRefreshers net s = start_refreshers net [0..<length (rs_refreshers s)] s"

definition stopTargetRefreshers :: "'w refresh_state \<Rightarrow> 'w refresh_state" where
  "stopTargetRefreshers s = s\<lparr>rs_refreshers := map rf_Stop (rs_refreshers s)\<rparr>"

text \<open>
  While the program runs: a loop ticks, a cancelled loop ends, the refreshers are stopped, the world changes, and the
  provider manager registers further instances.
\<close>

inductive refresh_step :: "engine \<Rightarrow> 'w network \<Rightarrow> 'w refresh_state \<Rightarrow> 'w refresh_state \<Rightarrow> bool"
  for rx :: engine and net :: "'w network" where
  tick: "k < length (rs_refreshers s) \<Longrightarrow> rf_loops (rs_refreshers s ! k) > 0 \<Longrightarrow> resolve_once net k s = Some s' \<Longrightarrow>
    refresh_step rx net s s'"
| loop_end: "k < length (rs_refreshers s) \<Longrightarrow> rf_cancelled (rs_refreshers s ! k) > 0 \<Longrightarrow>
    refresh_step rx net s (update_refresher k (\<lambda>r. r\<lparr>rf_loops := rf_loops r - 1, rf_cancelled := rf_cancelled r - 1\<rparr>) s)"
| stop: "refresh_step rx net s (stopTargetRefreshers s)"
| environment: "refresh_step rx net s (s\<lparr>rs_world := w\<rparr>)"
| register: "CreateInstance rx cfg (rs_registry s, rs_world s) = (e, r', w') \<Longrightarrow>
    refresh_step rx net s (s\<lparr>rs_registry := r', rs_world := w'\<rparr>)"

subsection \<open>The registry follows the refreshers\<close>

text \<open>The dynamic target that the refreshers give an instance.\<close>

definition last_good :: "Refresher list \<Rightarrow> nat \<Rightarrow> string option" where
  "last_good rs p =
     (case map_of (map (\<lambda>f. (rf_ptr f, rf_lastGood f)) rs) p of
        None \<Rightarrow> None
      | Some v \<Rightarrow> if v = [] then None else Some v)"

definition good_refresher :: "'w Registry \<Rightarrow> Refresher \<Rightarrow> bool" where
  "good_refresher r f \<longleftrightarrow> rf_ptr f < reg_nextPtr r \<and>
     (\<forall>i \<in> set (reg_instances r). rf_ptr f = pi_ptr i \<longrightarrow>
        (\<forall>rv. rf_resolver f = Some rv \<longrightarrow> resolver_family rv = target_family (pi_RecordType i))) \<and>
     (rf_lastGood f \<noteq> [] \<longrightarrow> (\<exists>rv. rf_resolver f = Some rv \<and> target_of_family (resolver_family rv) (rf_lastGood f)))"

definition follows :: "Refresher list \<Rightarrow> 'w Registry \<Rightarrow> bool" where
  "follows rs r \<longleftrightarrow> wf_registry r \<and> distinct (map rf_ptr rs) \<and> (\<forall>f \<in> set rs. good_refresher r f) \<and>
     (\<forall>i \<in> set (reg_instances r). pi_dynamicTarget i = last_good rs (pi_ptr i))"

lemma map_of_list_update:
  "distinct (map fst xs) \<Longrightarrow> k < length xs \<Longrightarrow> fst (xs ! k) = a \<Longrightarrow>
    map_of (xs[k := (a, v)]) b = (if b = a then Some v else map_of xs b)"
proof (induction xs arbitrary: k)
  case (Cons x xs)
  show ?case
  proof (cases k)
    case 0
    then show ?thesis using Cons.prems(3) by (cases x) simp
  next
    case (Suc j)
    have "a \<in> fst ` set xs" using Cons.prems Suc nth_mem [of j xs] by force
    then have "fst x \<noteq> a" using Cons.prems(1) by auto
    then show ?thesis using Suc Cons.IH [of j] Cons.prems by (cases x; cases "b = a") simp_all
  qed
qed simp

lemma last_good_update:
  assumes "distinct (map rf_ptr rs)" "k < length rs" "rf_ptr f = rf_ptr (rs ! k)"
  shows "last_good (rs[k := f]) p =
    (if p = rf_ptr f then if rf_lastGood f = [] then None else Some (rf_lastGood f) else last_good rs p)"
  using map_of_list_update [of "map (\<lambda>f. (rf_ptr f, rf_lastGood f)) rs" k "rf_ptr f" "rf_lastGood f"] assms
  by (simp add: last_good_def map_update comp_def)

lemma last_good_same:
  assumes "map rf_ptr rs = map rf_ptr rs'" "map rf_lastGood rs = map rf_lastGood rs'"
  shows "last_good rs p = last_good rs' p"
proof -
  have "map (\<lambda>f. (rf_ptr f, rf_lastGood f)) qs = zip (map rf_ptr qs) (map rf_lastGood qs)" for qs
    by (simp add: zip_map_map zip_same_conv_map)
  from this [of rs] this [of rs'] show ?thesis unfolding last_good_def using assms by simp
qed

text \<open>Changes to a refresher that keep its instance, its resolver and its last value do not matter.\<close>

definition same_core :: "Refresher \<Rightarrow> Refresher \<Rightarrow> bool" where
  "same_core f g \<longleftrightarrow> rf_ptr f = rf_ptr g \<and> rf_resolver f = rf_resolver g \<and> rf_lastGood f = rf_lastGood g"

lemma follows_same_core:
  assumes "list_all2 same_core rs rs'" and "follows rs r"
  shows "follows rs' r"
proof -
  have m: "map rf_ptr rs = map rf_ptr rs'" "map rf_lastGood rs = map rf_lastGood rs'" "map rf_resolver rs = map rf_resolver rs'"
    using assms(1) by (induction rs rs' rule: list_all2_induct) (simp_all add: same_core_def)
  have "good_refresher r g" if g: "g \<in> set rs'" for g
  proof -
    obtain f where "f \<in> set rs" "same_core f g"
      using assms(1) g by (metis in_set_conv_nth list_all2_conv_all_nth)
    then show ?thesis using assms(2) unfolding follows_def good_refresher_def same_core_def by metis
  qed
  then show ?thesis using assms(2) m last_good_same [OF m(1,2)] unfolding follows_def by simp
qed

lemma same_core_update:
  "k < length rs \<Longrightarrow> same_core (rs ! k) f \<Longrightarrow> list_all2 same_core rs (rs[k := f])"
  by (auto simp: list_all2_conv_all_nth same_core_def nth_list_update)

lemma resolve_once_follows:
  assumes "resolve_once net k s = Some s'" "k < length (rs_refreshers s)" "sane_addresses net"
    and "follows (rs_refreshers s) (rs_registry s)"
  shows "follows (rs_refreshers s') (rs_registry s')"
proof -
  let ?f = "rs_refreshers s ! k" and ?r = "rs_registry s"
  obtain rv outcome w where rv: "rf_resolver ?f = Some rv" "Resolve net rv (rs_world s) = (outcome, w)"
    using assms(1) by (auto simp: resolve_once_def Let_def split: option.splits prod.splits)
  have f: "?f \<in> set (rs_refreshers s)" using assms(2) by simp
  then have g: "good_refresher ?r ?f" using assms(4) by (simp add: follows_def)
  have st: "rs_refreshers s' = (rs_refreshers s)[k := fst (resolveOnce outcome ?f)]"
    "rs_registry s' = (if snd (snd (resolveOnce outcome ?f)) then set_dynamic_target (rf_ptr ?f) (fst (snd (resolveOnce outcome ?f))) ?r else ?r)"
    using assms(1) by (auto simp: resolve_once_def Let_def rv split: prod.splits if_splits)
  show ?thesis
  proof (cases outcome)
    case (Inl e)
    then show ?thesis using st assms(4) by (simp add: resolveOnce_def)
  next
    case (Inr v)
    have v: "target_of_family (resolver_family rv) v" "v \<noteq> []"
      using Resolve_family [of net rv "rs_world s" v w] rv(2) Inr assms(3) target_of_family_neq_Nil by auto
    show ?thesis
    proof (cases "v = rf_lastGood ?f")
      case True
      have "follows ((rs_refreshers s)[k := ?f\<lparr>rf_lastGood := v\<rparr>]) ?r"
        using True assms(2) by (intro follows_same_core [OF same_core_update assms(4)]) (simp_all add: same_core_def)
      then show ?thesis using st True Inr by (simp add: resolveOnce_def)
    next
      case False
      let ?rs = "(rs_refreshers s)[k := ?f\<lparr>rf_lastGood := v\<rparr>]" and ?r' = "set_dynamic_target (rf_ptr ?f) v ?r"
      have d: "distinct (map rf_ptr (rs_refreshers s))" using assms(4) by (simp add: follows_def)
      have "map rf_ptr ?rs = map rf_ptr (rs_refreshers s)" by (simp add: map_update) (metis assms(2) list_update_id nth_map)
      moreover have "wf_registry ?r'" using assms(4) by (simp add: follows_def wf_set_dynamic_target)
      moreover have "good_refresher ?r' g" if "g \<in> set ?rs" for g
      proof -
        have keep: "good_refresher ?r' h" if "good_refresher ?r h" for h
          using that by (auto simp: good_refresher_def set_dynamic_target_def SetDynamicTarget_def)
        have "good_refresher ?r (?f\<lparr>rf_lastGood := v\<rparr>)" using g v rv(1) by (simp add: good_refresher_def)
        then show ?thesis
          using that keep assms(4) set_update_subset_insert [of "rs_refreshers s" k "?f\<lparr>rf_lastGood := v\<rparr>"]
          by (auto simp: follows_def)
      qed
      moreover have "pi_dynamicTarget i = last_good ?rs (pi_ptr i)" if "i \<in> set (reg_instances ?r')" for i
        using that assms(4) v(2) last_good_update [OF d assms(2), of "?f\<lparr>rf_lastGood := v\<rparr>" "pi_ptr i"]
        by (auto simp: set_dynamic_target_def follows_def SetDynamicTarget_def split: if_splits)
      ultimately have "follows ?rs ?r'" using d by (simp add: follows_def)
      then show ?thesis using st Inr False by (simp add: resolveOnce_def)
    qed
  qed
qed

subsection \<open>Building, starting and running\<close>

lemma set_buildTargetRefreshers:
  "f \<in> set (buildTargetRefreshers cs r) \<Longrightarrow>
    \<exists>c i. c \<in> set cs \<and> Get r (ic_Name c) = Some i \<and> rf_ptr f = pi_ptr i \<and> rf_lastGood f = [] \<and>
      (\<forall>v. rf_resolver f = Some v \<longrightarrow> resolver_family v = target_family (pi_RecordType i))"
proof (induction cs)
  case (Cons c cs)
  show ?case
  proof (cases "f \<in> set (buildTargetRefreshers cs r)")
    case True
    then show ?thesis using Cons.IH by auto
  next
    case False
    then obtain i rv where i: "Get r (ic_Name c) = Some i" "target_Parse (ic_TargetMode c) (target_family (pi_RecordType i)) = Inr rv"
      "f = NewRefresher (with_endpoints (target_family (pi_RecordType i)) (ic_TargetPublicEndpoints c) rv) (ic_TargetRefreshInterval c) (pi_ptr i)"
      using Cons.prems by (auto simp: Let_def split: if_splits option.splits sum.splits)
    have "resolver_family v = target_family (pi_RecordType i)"
      if "with_endpoints (target_family (pi_RecordType i)) (ic_TargetPublicEndpoints c) rv = Some v" for v
      using that i(2)
      by (auto simp: with_endpoints_def NewPublicResolver_def dest!: target_Parse_family
          split: if_splits option.splits target_resolver.splits)
    then show ?thesis using i by (intro exI [of _ c] exI [of _ i]) (auto simp: NewRefresher_def)
  qed
qed simp

lemma ptrs_buildTargetRefreshers:
  assumes "wf_registry r"
  shows "distinct (map ic_Name cs) \<Longrightarrow> distinct (map rf_ptr (buildTargetRefreshers cs r))"
proof (induction cs)
  case (Cons c cs)
  have ne: "pi_ptr i \<notin> rf_ptr ` set (buildTargetRefreshers cs r)" if i: "Get r (ic_Name c) = Some i" for i
  proof
    assume "pi_ptr i \<in> rf_ptr ` set (buildTargetRefreshers cs r)"
    then obtain f where f: "f \<in> set (buildTargetRefreshers cs r)" "rf_ptr f = pi_ptr i" by auto
    obtain d j where d: "d \<in> set cs" "Get r (ic_Name d) = Some j" "rf_ptr f = pi_ptr j" using set_buildTargetRefreshers [OF f(1)] by blast
    have "ic_Name d \<in> set (map ic_Name cs)" using d(1) by simp
    then have n: "ic_Name d \<noteq> ic_Name c" using Cons.prems by auto
    have "map_of (reg_byName r) (ic_Name d) = Some (pi_ptr j)" "map_of (reg_byName r) (ic_Name c) = Some (pi_ptr i)"
      using d(2) i assms by (simp_all add: Get_Some_iff)
    then have m: "(ic_Name d, pi_ptr j) \<in> set (reg_byName r)" "(ic_Name c, pi_ptr i) \<in> set (reg_byName r)" by (auto dest: map_of_SomeD)
    have inj: "inj_on snd (set (reg_byName r))" using assms by (simp add: wf_registry_def distinct_map)
    have "pi_ptr j \<noteq> pi_ptr i" using inj_onD [OF inj _ m] n by auto
    then show False using d(3) f(2) by simp
  qed
  show ?case using Cons ne by (auto simp: NewRefresher_def Let_def split: option.split sum.split)
qed simp

lemma follows_build:
  assumes "wf_registry r" "distinct (map ic_Name cs)" "\<forall>i \<in> set (reg_instances r). pi_dynamicTarget i = None"
  shows "follows (buildTargetRefreshers cs r) r"
proof -
  let ?rs = "buildTargetRefreshers cs r"
  have "good_refresher r f" if f: "f \<in> set ?rs" for f
  proof -
    obtain c i where i: "c \<in> set cs" "Get r (ic_Name c) = Some i" "rf_ptr f = pi_ptr i" "rf_lastGood f = []"
      "\<forall>v. rf_resolver f = Some v \<longrightarrow> resolver_family v = target_family (pi_RecordType i)"
      using set_buildTargetRefreshers [OF f] by blast
    have "i \<in> set (reg_instances r)" using i(2) assms(1) by (simp add: Get_Some_iff)
    moreover have "j = i" if "j \<in> set (reg_instances r)" "pi_ptr j = pi_ptr i" for j
      using that \<open>i \<in> set (reg_instances r)\<close> assms(1) by (auto simp: wf_registry_def distinct_map inj_on_def)
    ultimately have "resolver_family v = target_family (pi_RecordType j)"
      if "j \<in> set (reg_instances r)" "rf_ptr f = pi_ptr j" "rf_resolver f = Some v" for j v
      using that i(3,5) by metis
    moreover have "pi_ptr i < reg_nextPtr r" using \<open>i \<in> set (reg_instances r)\<close> assms(1) by (simp add: wf_registry_def)
    ultimately show ?thesis using i(3,4) by (simp add: good_refresher_def)
  qed
  moreover have "last_good ?rs p = None" for p
  proof -
    have "v = []" if "(p, v) \<in> set (map (\<lambda>f. (rf_ptr f, rf_lastGood f)) ?rs)" for v
      using that set_buildTargetRefreshers by fastforce
    then show ?thesis by (auto simp: last_good_def dest!: map_of_SomeD split: option.split)
  qed
  ultimately show ?thesis using assms ptrs_buildTargetRefreshers by (simp add: follows_def)
qed

lemma update_refresher_follows:
  assumes "k < length (rs_refreshers s)" "\<And>f. same_core f (g f)" "follows (rs_refreshers s) (rs_registry s)"
  shows "follows (rs_refreshers (update_refresher k g s)) (rs_registry (update_refresher k g s))"
  using follows_same_core [OF same_core_update [OF assms(1,2)] assms(3)] by (simp add: update_refresher_def)

lemma resolve_once_length: "resolve_once net k s = Some s' \<Longrightarrow> length (rs_refreshers s') = length (rs_refreshers s)"
  by (auto simp: resolve_once_def Let_def split: option.splits prod.splits)

lemma rf_Start_follows:
  assumes "rf_Start net k s = Some s'" "k < length (rs_refreshers s)" "sane_addresses net"
    and "follows (rs_refreshers s) (rs_registry s)"
  shows "follows (rs_refreshers s') (rs_registry s') \<and> length (rs_refreshers s') = length (rs_refreshers s)"
proof (cases "rf_running (rs_refreshers s ! k)")
  case False
  let ?s1 = "update_refresher k (\<lambda>r. r\<lparr>rf_running := True\<rparr>) s"
  obtain s2 where s2: "resolve_once net k ?s1 = Some s2" "s' = update_refresher k (\<lambda>r. r\<lparr>rf_loops := rf_loops r + 1\<rparr>) s2"
    using assms(1) False by (auto simp: rf_Start_def)
  have f1: "follows (rs_refreshers ?s1) (rs_registry ?s1)"
    using assms(2,4) by (intro update_refresher_follows) (simp_all add: same_core_def)
  have l: "length (rs_refreshers ?s1) = length (rs_refreshers s)" by (simp add: update_refresher_def)
  have l2: "length (rs_refreshers s2) = length (rs_refreshers s)" using resolve_once_length [OF s2(1)] l by simp
  have "follows (rs_refreshers s2) (rs_registry s2)" using resolve_once_follows [OF s2(1) _ assms(3) f1] assms(2) l by simp
  then have "follows (rs_refreshers s') (rs_registry s')"
    unfolding s2(2) using assms(2) l2 by (intro update_refresher_follows) (simp_all add: same_core_def)
  then show ?thesis using l2 s2(2) by (simp add: update_refresher_def)
qed (use assms in \<open>simp add: rf_Start_def\<close>)

lemma start_refreshers_follows:
  assumes "start_refreshers net ks s = Some s'" "\<forall>k \<in> set ks. k < length (rs_refreshers s)" "sane_addresses net"
    and "follows (rs_refreshers s) (rs_registry s)"
  shows "follows (rs_refreshers s') (rs_registry s')"
  using assms
proof (induction ks arbitrary: s)
  case (Cons k ks)
  obtain s1 where s1: "rf_Start net k s = Some s1" "start_refreshers net ks s1 = Some s'"
    using Cons.prems(1) by (auto split: option.splits)
  then show ?case using Cons.IH [OF s1(2)] Cons.prems(2-4) rf_Start_follows [OF s1(1)] by simp
qed simp

lemma refresh_step_follows:
  assumes "refresh_step rx net s s'" "sane_addresses net" "follows (rs_refreshers s) (rs_registry s)"
  shows "follows (rs_refreshers s') (rs_registry s')"
  using assms
proof (cases rule: refresh_step.cases)
  case (tick k)
  then show ?thesis using resolve_once_follows assms(2,3) by blast
next
  case (loop_end k)
  show ?thesis unfolding loop_end(1) using loop_end assms(3) by (intro update_refresher_follows) (simp_all add: same_core_def)
next
  case stop
  have "list_all2 same_core (rs_refreshers s) (map rf_Stop (rs_refreshers s))"
    by (simp add: list_all2_conv_all_nth same_core_def rf_Stop_def)
  then show ?thesis using follows_same_core assms(3) stop by (simp add: stopTargetRefreshers_def)
next
  case (environment w)
  then show ?thesis using assms(3) by simp
next
  case (register cfg e r' w')
  have wf: "wf_registry (rs_registry s)" using assms(3) by (simp add: follows_def)
  have wf': "wf_registry r'" by (rule wf_CreateInstance [OF wf register(2)])
  show ?thesis
    using register(2)
  proof (cases rule: CreateInstance_cases)
    case (failed x)
    then show ?thesis using assms(3) register(1) by simp
  next
    case (created f p m)
    let ?i = "new_instance (reg_nextPtr (rs_registry s)) (reg_instanceID (rs_registry s)) cfg p m"
    have i: "pi_ptr ?i = reg_nextPtr (rs_registry s)" "pi_dynamicTarget ?i = None" by (simp_all add: new_instance_def Let_def)
    have r: "rf_ptr f < reg_nextPtr (rs_registry s)" if "f \<in> set (rs_refreshers s)" for f
      using that assms(3) by (simp add: follows_def good_refresher_def)
    have "good_refresher r' f" if f: "f \<in> set (rs_refreshers s)" for f
      using r [OF f] assms(3) f i(1) created(6) unfolding follows_def good_refresher_def by fastforce
    moreover have "last_good (rs_refreshers s) (reg_nextPtr (rs_registry s)) = None"
      using r by (force simp: last_good_def dest: map_of_SomeD split: option.split)
    ultimately show ?thesis using assms(3) wf' created(6) i register(1) by (auto simp: follows_def)
  qed
qed

lemma refresh_steps_follow:
  assumes "(refresh_step rx net)\<^sup>*\<^sup>* s s'" "sane_addresses net" "follows (rs_refreshers s) (rs_registry s)"
  shows "follows (rs_refreshers s') (rs_registry s')"
  using assms(1) by (induction rule: rtranclp_induct) (use assms(2,3) refresh_step_follows in blast)+

lemma follows_EffectiveTarget:
  assumes "follows rs r" "i \<in> set (reg_instances r)"
  shows "(\<exists>f \<in> set rs. rf_ptr f = pi_ptr i \<and> rf_lastGood f \<noteq> [] \<and> EffectiveTarget i = rf_lastGood f \<and>
            target_of_family (target_family (pi_RecordType i)) (EffectiveTarget i)) \<or>
         (\<forall>f \<in> set rs. rf_ptr f = pi_ptr i \<longrightarrow> rf_lastGood f = []) \<and> EffectiveTarget i = pi_Target i"
proof (cases "last_good rs (pi_ptr i)")
  case None
  have d: "distinct (map fst (map (\<lambda>f. (rf_ptr f, rf_lastGood f)) rs))" using assms(1) by (simp add: follows_def comp_def)
  have "rf_lastGood f = []" if "f \<in> set rs" "rf_ptr f = pi_ptr i" for f
  proof -
    have "(pi_ptr i, rf_lastGood f) \<in> set (map (\<lambda>f. (rf_ptr f, rf_lastGood f)) rs)" using that by force
    then show ?thesis using None map_of_is_SomeI [OF d] by (auto simp: last_good_def split: if_splits)
  qed
  then show ?thesis using None assms by (auto simp: follows_def EffectiveTarget_def)
next
  case (Some v)
  then have "map_of (map (\<lambda>f. (rf_ptr f, rf_lastGood f)) rs) (pi_ptr i) = Some v" "v \<noteq> []"
    by (auto simp: last_good_def split: option.splits if_splits)
  then obtain f where f: "f \<in> set rs" "rf_ptr f = pi_ptr i" "rf_lastGood f = v" "v \<noteq> []" by (force dest: map_of_SomeD)
  have e: "EffectiveTarget i = v" using assms Some by (simp add: follows_def EffectiveTarget_def)
  have "good_refresher r f" using assms(1) f(1) by (simp add: follows_def)
  then have "target_of_family (target_family (pi_RecordType i)) v"
    using assms(2) f by (auto simp: good_refresher_def)
  then show ?thesis using f e by auto
qed


text \<open>A step triggers a reconciliation exactly when it changes the last good value of a refresher.\<close>

lemma refresh_step_triggers:
  assumes "refresh_step rx net s s'"
  shows "rs_triggers s' = rs_triggers s + (if map rf_lastGood (rs_refreshers s') = map rf_lastGood (rs_refreshers s) then 0 else 1)"
  using assms
proof (cases rule: refresh_step.cases)
  case (tick k)
  then show ?thesis
    by (auto simp: resolve_once_def resolveOnce_def Let_def map_update list_update_same_conv split: option.splits prod.splits sum.splits if_splits)
qed (auto simp: update_refresher_def stopTargetRefreshers_def rf_Stop_def map_update comp_def list_update_same_conv)

subsection \<open>An example\<close>

definition ex_target_network :: "nat network" where
  "ex_target_network =
     \<lparr>net_Get = (\<lambda>f ep w. (if w = 0 then Inr \<lparr>hr_StatusCode = 200, hr_Body = ''203.0.113.7'' @ [newline], hr_ReadError = None\<rparr>
        else Inl ErrNotFound, w + 1)),
      net_InterfaceAddrs = (\<lambda>n w. (Inl ErrNotFound, w))\<rparr>"

definition ex_target_conf :: conf_instance where
  "ex_target_conf = fst (loadInstanceConfig
     \<lparr>ev_Lookup = map_of [(''DNSWEAVER_WAN_TARGET_MODE'', ''public'')], ev_ReadFile = (\<lambda>f. Inl ErrNotFound)\<rparr> ''wan'' 300)"

definition ex_target_provider :: "nat Provider" where
  "ex_target_provider = \<lparr>p_Name = ''wan'', p_Type = ''mock'', p_Ping = (\<lambda>w. (None, w)),
     p_Capabilities = \<lparr>SupportsOwnershipTXT = False, SupportsNativeUpdate = False, SupportedRecordTypes = [RecordTypeA]\<rparr>,
     p_List = (\<lambda>w. (Inr [], w)), p_Create = (\<lambda>r w. (None, w)), p_Delete = (\<lambda>r w. (None, w)),
     p_Update = None, p_Identity = None, p_Close = None\<rparr>"

definition ex_target_registry :: "nat Registry" where
  "ex_target_registry = NewRegistry\<lparr>reg_instances := [new_instance 0 [] (ToProviderConfig (ex_target_conf\<lparr>ic_Target := ''192.0.2.1''\<rparr>))
     ex_target_provider \<lparr>dm_includes = [], dm_excludes = [], dm_patternType = PatternTypeGlob\<rparr>],
     reg_byName := [(''wan'', 0)], reg_nextPtr := 1\<rparr>"

definition ex_target_start :: "nat refresh_state option" where
  "ex_target_start = startTargetRefreshers ex_target_network
     \<lparr>rs_refreshers = buildTargetRefreshers [ex_target_conf] ex_target_registry, rs_registry = ex_target_registry,
      rs_triggers = 0, rs_world = 0\<rparr>"

lemma ex_target_started:
  "(case ex_target_start of Some s \<Rightarrow> map rf_lastGood (rs_refreshers s) = [''203.0.113.7''] \<and> length (reg_instances (rs_registry s)) = 1 |
     None \<Rightarrow> False)"
  by code_simp


end
