(* ===== verification/LabelSources.thy ===== *)
theory LabelSources
  imports SourceRegistry GoStd
begin

text \<open>
  The sources that read hostname lists from labels: \<^verbatim>\<open>sources/caddy\<close> and \<^verbatim>\<open>sources/nginxproxy\<close>. Both collect
  the relevant label keys, sort them and keep the first occurrence of each hostname, so that the order
  in which Go ranges over the labels, an argument here, has no influence.
\<close>

subsection \<open>Hostname lists in label values\<close>

record proxy_Extraction =
  px_Hostname :: string
  px_Router :: string

definition host_separator :: "char \<Rightarrow> bool" where
  "host_separator r \<longleftrightarrow> r = CHR '','' \<or> r = CHR '' '' \<or> r = CHR 0x09 \<or> r = newline"

definition cd_splitHostnames :: "string \<Rightarrow> string list" where
  "cd_splitHostnames value =
     (if value = [] then []
      else filter (\<lambda>h. h \<noteq> []) (map (\<lambda>f. ToLower (TrimSpace f)) (FieldsFunc value host_separator)))"

definition ng_splitHostnames :: "string \<Rightarrow> string list" where
  "ng_splitHostnames value =
     (if value = [] then []
      else let fields = FieldsFunc value host_separator
           in filter (\<lambda>h. h \<noteq> []) (map (\<lambda>f. ToLower (TrimSpace f)) fields))"

text \<open>The loop over the hostnames of one label; the state is the set of seen names and the result.\<close>

fun add_hosts :: "string \<Rightarrow> string list \<Rightarrow> string list \<times> proxy_Extraction list \<Rightarrow> string list \<times> proxy_Extraction list" where
  "add_hosts key [] st = st"
| "add_hosts key (host # hosts) (seen, out) =
     (if host \<in> set seen then add_hosts key hosts (seen, out)
      else add_hosts key hosts (host # seen, out @ [\<lparr>px_Hostname = host, px_Router = key\<rparr>]))"

fun add_labels :: "(string \<Rightarrow> string list) \<Rightarrow> (string, string) gomap \<Rightarrow> string list \<Rightarrow>
    string list \<times> proxy_Extraction list \<Rightarrow> proxy_Extraction list" where
  "add_labels split_value labels [] (seen, out) = out"
| "add_labels split_value labels (key # keys) st =
     add_labels split_value labels keys (add_hosts key (split_value (map_get [] labels key)) st)"

subsection \<open>Caddy\<close>

definition isCaddyHostnameLabel :: "string \<Rightarrow> bool" where
  "isCaddyHostnameLabel key \<longleftrightarrow> key = ''caddy'' \<or> HasPrefix key ''caddy_''"

definition cd_ExtractHostnames :: "string iteration \<Rightarrow> (string, string) gomap \<Rightarrow> proxy_Extraction list" where
  "cd_ExtractHostnames it labels =
     (if labels = [] then []
      else let keys = filter isCaddyHostnameLabel (it (map fst labels))
           in if keys = [] then [] else add_labels cd_splitHostnames labels (sort keys) ([], []))"

definition cd_Extract :: "string iteration \<Rightarrow> Workload \<Rightarrow> err + Hostnames" where
  "cd_Extract it w =
     (if wl_Labels w = [] then Inr []
      else let extractions = cd_ExtractHostnames it (wl_Labels w)
           in if extractions = [] then Inr []
              else Inr (map (\<lambda>e. \<lparr>h_Name = px_Hostname e, h_Source = ''caddy'', h_Router = px_Router e,
                                  h_RecordHints = None, h_Metadata = []\<rparr>) extractions))"

definition caddy_source :: "string iteration \<Rightarrow> 'w Source" where
  "caddy_source it = \<lparr>s_Name = ''caddy'', s_Extract = cd_Extract it, s_Discover = (\<lambda>_. Inr []),
     s_SupportsDiscovery = False, s_SupportedPlatforms = []\<rparr>"

subsection \<open>nginx-proxy\<close>

definition virtualHostLabel :: string where "virtualHostLabel = ''VIRTUAL_HOST''"
definition canonicalLabel :: string where "canonicalLabel = ''com.nginx-proxy.virtual_host''"

definition ng_ExtractHostnames :: "(string, string) gomap \<Rightarrow> proxy_Extraction list" where
  "ng_ExtractHostnames labels =
     (if labels = [] then []
      else let keys = filter (has_key labels) [virtualHostLabel, canonicalLabel]
           in if keys = [] then [] else add_labels ng_splitHostnames labels (sort keys) ([], []))"

definition ng_Extract :: "Workload \<Rightarrow> err + Hostnames" where
  "ng_Extract w =
     (if wl_Labels w = [] then Inr []
      else let extractions = ng_ExtractHostnames (wl_Labels w)
           in if extractions = [] then Inr []
              else Inr (map (\<lambda>e. \<lparr>h_Name = px_Hostname e, h_Source = ''nginx-proxy'', h_Router = px_Router e,
                                  h_RecordHints = None, h_Metadata = []\<rparr>) extractions))"

definition nginx_source :: "'w Source" where
  "nginx_source = \<lparr>s_Name = ''nginx-proxy'', s_Extract = ng_Extract, s_Discover = (\<lambda>_. Inr []),
     s_SupportsDiscovery = False, s_SupportedPlatforms = []\<rparr>"

interpretation caddy: hostname_source "caddy_source it" for it
  by unfold_locales (auto simp: caddy_source_def cd_Extract_def Let_def split: if_splits)

interpretation nginx: hostname_source nginx_source
  by unfold_locales (auto simp: nginx_source_def ng_Extract_def Let_def split: if_splits)

subsection \<open>First occurrences, in the order of the keys\<close>

lemma ng_splitHostnames_eq: "ng_splitHostnames = cd_splitHostnames"
  by (auto simp: ng_splitHostnames_def cd_splitHostnames_def)

text \<open>What the labels declare, with repetitions.\<close>

definition declared_hosts ::
  "(string \<Rightarrow> string list) \<Rightarrow> (string, string) gomap \<Rightarrow> string list \<Rightarrow> proxy_Extraction list" where
  "declared_hosts split_value labels keys =
     concat (map (\<lambda>key. map (\<lambda>h. \<lparr>px_Hostname = h, px_Router = key\<rparr>) (split_value (map_get [] labels key))) keys)"

lemma first_by_append:
  "first_by f seen (xs @ ys) = first_by f seen xs @ first_by f (rev (map f (first_by f seen xs)) @ seen) ys"
  by (induction f seen xs rule: first_by.induct) auto

lemma add_hosts_eq:
  "add_hosts key hosts (seen, out) =
    (let es = first_by px_Hostname seen (map (\<lambda>h. \<lparr>px_Hostname = h, px_Router = key\<rparr>) hosts)
     in (rev (map px_Hostname es) @ seen, out @ es))"
  by (induction key hosts "(seen, out)" arbitrary: seen out rule: add_hosts.induct) (auto simp: Let_def)

lemma add_labels_eq:
  "add_labels split_value labels keys (seen, out) = out @ first_by px_Hostname seen (declared_hosts split_value labels keys)"
  by (induction keys arbitrary: seen out) (simp_all add: declared_hosts_def add_hosts_eq Let_def first_by_append)

lemma sort_set_unique: "distinct xs \<Longrightarrow> distinct ys \<Longrightarrow> set xs = set ys \<Longrightarrow> sort xs = sort (ys :: 'a :: linorder list)"
  by (metis distinct_sort set_sort sorted_distinct_set_unique sorted_sort)

lemma cd_ExtractHostnames_eq:
  "cd_ExtractHostnames it labels =
    first_by px_Hostname [] (declared_hosts cd_splitHostnames labels
      (if labels = [] then [] else sort (filter isCaddyHostnameLabel (it (map fst labels)))))"
  by (simp add: cd_ExtractHostnames_def Let_def add_labels_eq) (simp add: declared_hosts_def)

lemma ng_ExtractHostnames_eq:
  "ng_ExtractHostnames labels =
    first_by px_Hostname [] (declared_hosts cd_splitHostnames labels (sort (filter (has_key labels) [virtualHostLabel, canonicalLabel])))"
  by (auto simp: ng_ExtractHostnames_def Let_def add_labels_eq ng_splitHostnames_eq declared_hosts_def)

text \<open>The iteration order does not matter, nor does the way the labels are stored.\<close>

lemma cd_keys_unique:
  assumes "is_iteration it" "is_iteration it'" "wf_map labels" "wf_map labels'" "map_of labels = map_of labels'"
  shows "sort (filter isCaddyHostnameLabel (it (map fst labels))) = sort (filter isCaddyHostnameLabel (it' (map fst labels')))"
proof (rule sort_set_unique)
  have "fst ` set labels = fst ` set labels'" using assms(5) by (metis dom_map_of_conv_image_fst)
  then show "set (filter isCaddyHostnameLabel (it (map fst labels))) = set (filter isCaddyHostnameLabel (it' (map fst labels')))"
    using assms(1-4) by (simp add: is_iteration_set wf_map_def)
qed (use assms in \<open>auto simp: is_iteration_def wf_map_def\<close>)

lemma cd_ExtractHostnames_order:
  assumes "is_iteration it" "is_iteration it'" "wf_map labels" "wf_map labels'" "map_of labels = map_of labels'"
  shows "cd_ExtractHostnames it labels = cd_ExtractHostnames it' labels'"
proof -
  have get: "map_get d labels k = map_get d labels' k" for d k using assms(5) by (simp add: map_get_def)
  have empty: "labels = [] \<longleftrightarrow> labels' = []" using assms(5)
    by (metis map_of.simps(1) map_of_eq_empty_iff)
  show ?thesis using cd_keys_unique [OF assms] by (simp add: cd_ExtractHostnames_eq empty declared_hosts_def get)
qed

text \<open>Every label's hostnames are reported, each once, and attributed to the first key that declares it.\<close>

lemma cd_ExtractHostnames_names:
  assumes "is_iteration it" "wf_map labels"
  shows "distinct (map px_Hostname (cd_ExtractHostnames it labels))"
    and "px_Hostname ` set (cd_ExtractHostnames it labels) =
      {h. \<exists>k v. map_of labels k = Some v \<and> isCaddyHostnameLabel k \<and> h \<in> set (cd_splitHostnames v)}"
proof -
  show "distinct (map px_Hostname (cd_ExtractHostnames it labels))"
    unfolding cd_ExtractHostnames_eq using distinct_first_by by blast
  have keys: "set (it (map fst labels)) = fst ` set labels" using assms by (simp add: is_iteration_set wf_map_def)
  have "px_Hostname ` set (declared_hosts cd_splitHostnames labels ks) =
      (\<Union>k \<in> set ks. set (cd_splitHostnames (map_get [] labels k)))" for ks
    by (simp add: declared_hosts_def image_UN image_image)
  then have "px_Hostname ` set (cd_ExtractHostnames it labels) =
      (\<Union>k \<in> {k \<in> fst ` set labels. isCaddyHostnameLabel k}. set (cd_splitHostnames (map_get [] labels k)))"
    by (cases "labels = []") (simp_all add: cd_ExtractHostnames_eq first_by_keys keys Collect_conj_eq)
  also have "\<dots> = {h. \<exists>k v. map_of labels k = Some v \<and> isCaddyHostnameLabel k \<and> h \<in> set (cd_splitHostnames v)}"
  proof -
    have "k \<in> fst ` set labels \<and> h \<in> set (cd_splitHostnames (map_get [] labels k)) \<longleftrightarrow>
        (\<exists>v. map_of labels k = Some v \<and> h \<in> set (cd_splitHostnames v))" for k h
    proof (cases "map_of labels k")
      case None
      then have "k \<notin> fst ` set labels" by (simp only: map_of_eq_None_iff not_False_eq_True)
      with None show ?thesis by simp
    next
      case (Some v)
      then have "k \<in> fst ` set labels" by (metis domI dom_map_of_conv_image_fst)
      with Some show ?thesis by (simp add: map_get_def)
    qed
    then have *: "(h \<in> (\<Union>k \<in> {k \<in> fst ` set labels. isCaddyHostnameLabel k}. set (cd_splitHostnames (map_get [] labels k)))) \<longleftrightarrow>
        (\<exists>k v. map_of labels k = Some v \<and> isCaddyHostnameLabel k \<and> h \<in> set (cd_splitHostnames v))" for h
      unfolding UN_iff mem_Collect_eq Bex_def by blast
    show ?thesis by (rule set_eqI) (simp only: * mem_Collect_eq)
  qed
  finally show "px_Hostname ` set (cd_ExtractHostnames it labels) =
      {h. \<exists>k v. map_of labels k = Some v \<and> isCaddyHostnameLabel k \<and> h \<in> set (cd_splitHostnames v)}" .
qed

text \<open>A list of lower-case names separated by commas is read back.\<close>

lemma cd_splitHostnames_Join:
  assumes "\<forall>w \<in> set ws. w \<noteq> [] \<and> list_all (\<lambda>c. \<not> is_space c \<and> c \<noteq> CHR '','' \<and> \<not> is_upper c) w"
  shows "cd_splitHostnames (Join ws '','') = ws"
proof -
  have sep: "host_separator c \<Longrightarrow> is_space c \<or> c = CHR '',''" for c by (auto simp: host_separator_def is_space_def)
  have f: "FieldsFunc (Join ws '','') host_separator = ws"
  proof (rule FieldsFunc_Join)
    show "\<forall>w \<in> set ws. w \<noteq> [] \<and> list_all (\<lambda>c. \<not> host_separator c) w"
      using assms sep unfolding list_all_iff by blast
  qed (simp add: host_separator_def)
  have id: "ToLower (TrimSpace w) = w" if "w \<in> set ws" for w
  proof -
    have w: "w \<noteq> []" "list_all (\<lambda>c. \<not> is_space c \<and> \<not> is_upper c) w" using assms that by (auto simp: list_all_iff)
    then have "dropWhile is_space w = w" "dropWhile is_space (rev w) = rev w"
      by (auto simp: list_all_iff dropWhile_eq_self_iff hd_rev)
    then have "TrimSpace w = w" by (simp add: TrimSpace_def)
    moreover have "ToLower w = w" using w(2) by (simp add: ToLower_def list_all_iff map_idI)
    ultimately show ?thesis by simp
  qed
  have ne: "\<forall>w \<in> set ws. w \<noteq> []" using assms by auto
  show ?thesis
  proof (cases "ws = []")
    case False
    then have "Join ws '','' \<noteq> []" using ne by (cases ws; cases "tl ws") auto
    then show ?thesis using id ne by (simp add: cd_splitHostnames_def f map_idI filter_id_conv)
  qed (simp add: cd_splitHostnames_def)
qed

end
