(* ===== verification/DnsweaverSource.thy ===== *)
theory DnsweaverSource
  imports SourceRegistry GoStd
begin

text \<open>
  \<^verbatim>\<open>sources/dnsweaver\<close>: hostnames and record hints from native \<^verbatim>\<open>dnsweaver.*\<close> labels and, for Kubernetes, from
  annotations converted to labels. Three loops range over maps: the labels, the named records and the fields
  of a record; their orders are arguments.
\<close>

subsection \<open>Values of single labels\<close>

record dw_SRVData =
  dw_Port :: uint16
  dw_Priority :: uint16
  dw_Weight :: uint16

record dw_Extraction =
  dx_Hostname :: string
  dx_RecordName :: string
  dx_Type :: string
  dx_Target :: string
  dx_Provider :: string
  dx_TTL :: int
  dx_SRV :: "dw_SRVData option"
  dx_Metadata :: metadata

definition dx_HasHints :: "dw_Extraction \<Rightarrow> bool" where
  "dx_HasHints e \<longleftrightarrow> dx_Type e \<noteq> [] \<or> dx_Target e \<noteq> [] \<or> dx_Provider e \<noteq> [] \<or> dx_TTL e > 0 \<or>
     dx_SRV e \<noteq> None \<or> length (dx_Metadata e) > 0"

definition dx_literal :: "string \<Rightarrow> int \<Rightarrow> metadata \<Rightarrow> dw_Extraction" where
  "dx_literal hostname ttl md = \<lparr>dx_Hostname = hostname, dx_RecordName = [], dx_Type = [], dx_Target = [],
     dx_Provider = [], dx_TTL = ttl, dx_SRV = None, dx_Metadata = md\<rparr>"

definition disabled_value :: "string option \<Rightarrow> bool" where
  "disabled_value v \<longleftrightarrow> (case v of Some enabled \<Rightarrow> EqualFold (TrimSpace enabled) ''false'' | None \<Rightarrow> False)"

text \<open>A TTL counts when it is a positive number, otherwise it stays zero.\<close>

definition ttl_value :: "string option \<Rightarrow> int" where
  "ttl_value v =
     (case v of None \<Rightarrow> 0
      | Some ttlStr \<Rightarrow> if ttlStr = [] then 0
          else case Atoi (TrimSpace ttlStr) of Inr ttl \<Rightarrow> if ttl > 0 then ttl else 0 | Inl _ \<Rightarrow> 0)"

definition named_ttl_value :: "string option \<Rightarrow> int" where
  "named_ttl_value v =
     (case v of None \<Rightarrow> 0
      | Some ttlStr \<Rightarrow> if ttlStr = [] then 0
          else case Atoi ttlStr of Inr ttl \<Rightarrow> if ttl > 0 then ttl else 0 | Inl _ \<Rightarrow> 0)"

definition proxied_value :: "string option \<Rightarrow> string option" where
  "proxied_value v =
     (case v of None \<Rightarrow> None
      | Some proxied \<Rightarrow> if proxied = [] then None
          else let p = TrimSpace (ToLower proxied) in if p = ''true'' \<or> p = ''false'' then Some p else None)"

definition proxied_metadata :: "string option \<Rightarrow> metadata" where
  "proxied_metadata v = (case proxied_value v of Some p \<Rightarrow> [(''proxied'', p)] | None \<Rightarrow> [])"

definition uint16_value :: "string option \<Rightarrow> uint16 option" where
  "uint16_value v =
     (case v of None \<Rightarrow> None
      | Some s \<Rightarrow> if s = [] then None else case ParseUint16 s of Inr n \<Rightarrow> Some n | Inl _ \<Rightarrow> None)"

subsection \<open>Simple hostnames\<close>

definition simple_hostname :: "(string, string) gomap \<Rightarrow> dw_Extraction list" where
  "simple_hostname labels =
     (case map_of labels ''dnsweaver.hostname'' of
        None \<Rightarrow> []
      | Some v \<Rightarrow>
          let hostname = TrimSpace v in
          if hostname = [] then []
          else [dx_literal hostname (ttl_value (map_of labels ''dnsweaver.ttl''))
                  (proxied_metadata (map_of labels ''dnsweaver.proxied''))])"

definition listed_hostnames :: "(string, string) gomap \<Rightarrow> dw_Extraction list" where
  "listed_hostnames labels =
     (case map_of labels ''dnsweaver.hostnames'' of
        None \<Rightarrow> []
      | Some hostnames \<Rightarrow>
          let sharedTTL = ttl_value (map_of labels ''dnsweaver.ttl'');
              sharedMeta = proxied_metadata (map_of labels ''dnsweaver.proxied'')
          in map (\<lambda>h. dx_literal h sharedTTL sharedMeta)
               (filter (\<lambda>h. h \<noteq> []) (map TrimSpace (Split hostnames (CHR '','')))))"

subsection \<open>Named records\<close>

definition name_char :: "char \<Rightarrow> bool" where
  "name_char c \<longleftrightarrow> is_upper c \<or> is_lower c \<or> is_digit c \<or> c = CHR ''_'' \<or> c = CHR ''-''"

text \<open>\<^verbatim>\<open>namedRecordRegex\<close>: a name without dots, then a field that may contain dots.\<close>

definition namedRecord :: "string \<Rightarrow> (string \<times> string) option" where
  "namedRecord key =
     (if \<not> HasPrefix key ''dnsweaver.records.'' then None
      else case SplitN2 (drop 18 key) (CHR ''.'') of
        [name, field] \<Rightarrow>
          if name \<noteq> [] \<and> list_all name_char name \<and> field \<noteq> [] \<and> list_all (\<lambda>c. name_char c \<or> c = CHR ''.'') field
          then Some (name, field) else None
      | _ \<Rightarrow> None)"

type_synonym fields = "(string, string) gomap"

fun collect_records :: "(string, string) gomap \<Rightarrow> string list \<Rightarrow> (string, fields) gomap \<Rightarrow> (string, fields) gomap" where
  "collect_records labels [] m = m"
| "collect_records labels (key # keys) m =
     (case namedRecord key of
        None \<Rightarrow> collect_records labels keys m
      | Some (recordName, f) \<Rightarrow>
          let field = ToLower f; v = TrimSpace (map_get [] labels key) in
          collect_records labels keys (AList.update recordName (AList.update field v (map_get [] m recordName)) m))"

definition srv_fields :: "(string \<Rightarrow> string option) \<Rightarrow> dw_SRVData option" where
  "srv_fields get =
     (let port = uint16_value (get ''port''); priority = uint16_value (get ''priority'');
          weight = uint16_value (get ''weight'')
      in if port = None \<and> priority = None \<and> weight = None then None
         else Some \<lparr>dw_Port = (case port of Some p \<Rightarrow> p | None \<Rightarrow> 0),
                    dw_Priority = (case priority of Some p \<Rightarrow> p | None \<Rightarrow> 0),
                    dw_Weight = (case weight of Some p \<Rightarrow> p | None \<Rightarrow> 0)\<rparr>)"

text \<open>The record of the fields a lookup gives, without its metadata.\<close>

definition record_of_fields :: "string \<Rightarrow> (string \<Rightarrow> string option) \<Rightarrow> dw_Extraction option" where
  "record_of_fields name get =
     (if disabled_value (get ''enabled'') then None
      else case get ''hostname'' of
        None \<Rightarrow> None
      | Some hostname \<Rightarrow>
          if hostname = [] then None
          else let field = (\<lambda>f. case get f of Some v \<Rightarrow> v | None \<Rightarrow> []); type = ToUpper (field ''type'') in
            Some \<lparr>dx_Hostname = hostname, dx_RecordName = name, dx_Type = type, dx_Target = field ''target'',
              dx_Provider = field ''provider'', dx_TTL = named_ttl_value (get ''ttl''),
              dx_SRV = (if type = ''SRV'' \<or> field ''port'' \<noteq> [] then srv_fields get else None), dx_Metadata = []\<rparr>)"

text \<open>The \<^verbatim>\<open>meta.*\<close> fields; a direct field and an earlier one win.\<close>

fun add_meta :: "fields \<Rightarrow> string list \<Rightarrow> metadata \<Rightarrow> metadata" where
  "add_meta fm [] md = md"
| "add_meta fm (field # fs) md =
     (if \<not> HasPrefix field ''meta.'' then add_meta fm fs md
      else let key = TrimPrefix field ''meta.'' in
        if key = [] then add_meta fm fs md
        else if has_key md key then add_meta fm fs md
        else add_meta fm fs (AList.update key (map_get [] fm field) md))"

definition named_extraction :: "string iteration \<Rightarrow> string \<Rightarrow> fields \<Rightarrow> dw_Extraction option" where
  "named_extraction itF name fm =
     map_option (\<lambda>e. e\<lparr>dx_Metadata := add_meta fm (itF (map fst fm)) (proxied_metadata (map_of fm ''proxied''))\<rparr>)
       (record_of_fields name (map_of fm))"

fun process_records :: "string iteration \<Rightarrow> (string, fields) gomap \<Rightarrow> string list \<Rightarrow> dw_Extraction list" where
  "process_records itF m [] = []"
| "process_records itF m (name # names) =
     (case named_extraction itF name (map_get [] m name) of
        None \<Rightarrow> process_records itF m names
      | Some e \<Rightarrow> e # process_records itF m names)"

definition named_records :: "string iteration \<Rightarrow> string iteration \<Rightarrow> string iteration \<Rightarrow> (string, string) gomap \<Rightarrow> dw_Extraction list" where
  "named_records itL itN itF labels =
     (let m = collect_records labels (itL (map fst labels)) [] in process_records itF m (itN (map fst m)))"

definition dw_ExtractHostnames ::
  "string iteration \<Rightarrow> string iteration \<Rightarrow> string iteration \<Rightarrow> (string, string) gomap \<Rightarrow> dw_Extraction list" where
  "dw_ExtractHostnames itL itN itF labels =
     (if disabled_value (map_of labels ''dnsweaver.enabled'') then []
      else simple_hostname labels @ listed_hostnames labels @ named_records itL itN itF labels)"

subsection \<open>The source\<close>

text \<open>Annotations become labels; a label of the same name wins.\<close>

definition effectiveLabels :: "Workload \<Rightarrow> (string, string) gomap" where
  "effectiveLabels w =
     (if \<not> IsKubernetes w \<or> wl_Annotations w = [] then wl_Labels w
      else let converted = map (\<lambda>(key, v). (''dnsweaver.'' @ TrimPrefix key ''dnsweaver.dev/'', v))
                 (filter (\<lambda>(key, v). HasPrefix key ''dnsweaver.dev/'') (wl_Annotations w))
           in if converted = [] then wl_Labels w
              else fold (\<lambda>(k, v) merged. AList.update k v merged) (wl_Labels w) converted)"

definition dw_hostname :: "dw_Extraction \<Rightarrow> Hostname" where
  "dw_hostname e =
     \<lparr>h_Name = dx_Hostname e, h_Source = ''dnsweaver'', h_Router = dx_RecordName e,
      h_RecordHints = (if dx_HasHints e then
        Some \<lparr>rh_Type = dx_Type e, rh_Target = dx_Target e, rh_TTL = dx_TTL e, rh_Provider = dx_Provider e,
          rh_SRV = map_option (\<lambda>s. \<lparr>hint_Priority = dw_Priority s, hint_Weight = dw_Weight s, hint_Port = dw_Port s\<rparr>) (dx_SRV e),
          rh_Metadata = dx_Metadata e\<rparr>
        else None),
      h_Metadata = []\<rparr>"

definition dw_Extract :: "string iteration \<Rightarrow> string iteration \<Rightarrow> string iteration \<Rightarrow> Workload \<Rightarrow> err + Hostnames" where
  "dw_Extract itL itN itF w =
     (let effective = effectiveLabels w in
      if length effective = 0 then Inr [] else Inr (map dw_hostname (dw_ExtractHostnames itL itN itF effective)))"

definition dnsweaver_source :: "string iteration \<Rightarrow> string iteration \<Rightarrow> string iteration \<Rightarrow> 'w Source" where
  "dnsweaver_source itL itN itF =
     \<lparr>s_Name = ''dnsweaver'', s_Extract = dw_Extract itL itN itF, s_Discover = (\<lambda>_. Inr []),
      s_SupportsDiscovery = False, s_SupportedPlatforms = []\<rparr>"

interpretation dnsweaver: hostname_source "dnsweaver_source itL itN itF" for itL itN itF
  by unfold_locales (auto simp: dnsweaver_source_def dw_Extract_def dw_hostname_def Let_def split: if_splits)

subsection \<open>Named records by lookup\<close>

text \<open>
  The value of a field of a named record, read from the labels directly. Field names are compared without
  case, so two labels may name the same field; then the iteration order decides, and the lemmas below ask
  that this does not happen.
\<close>

definition field_pairs :: "(string, string) gomap \<Rightarrow> ((string \<times> string) \<times> string) list" where
  "field_pairs labels =
     concat (map (\<lambda>(k, v). case namedRecord k of None \<Rightarrow> [] | Some (n, f) \<Rightarrow> [((n, ToLower f), TrimSpace v)]) labels)"

definition record_field :: "(string, string) gomap \<Rightarrow> string \<Rightarrow> string \<Rightarrow> string option" where
  "record_field labels n f = map_of (field_pairs labels) (n, f)"

definition distinct_fields :: "(string, string) gomap \<Rightarrow> bool" where
  "distinct_fields labels \<longleftrightarrow> distinct (map fst (field_pairs labels))"

definition record_metadata :: "(string \<Rightarrow> string option) \<Rightarrow> string \<Rightarrow> string option" where
  "record_metadata get key =
     (case map_of (proxied_metadata (get ''proxied'')) key of
        Some p \<Rightarrow> Some p
      | None \<Rightarrow> if key = [] then None else get (''meta.'' @ key))"

text \<open>An extraction with its metadata as a finite map.\<close>

definition dx_view :: "dw_Extraction \<Rightarrow> dw_Extraction \<times> (string \<rightharpoonup> string)" where
  "dx_view e = (e\<lparr>dx_Metadata := []\<rparr>, map_of (dx_Metadata e))"

lemma add_meta_lookup:
  assumes "wf_map fm"
  shows "map_of (add_meta fm keys md) key =
    (case map_of md key of Some p \<Rightarrow> Some p
     | None \<Rightarrow> if key \<noteq> [] \<and> ''meta.'' @ key \<in> set keys then Some (map_get [] fm (''meta.'' @ key)) else None)"
proof (induction keys arbitrary: md)
  case Nil
  show ?case by (simp split: option.splits)
next
  case (Cons field keys)
  show ?case
  proof (cases "HasPrefix field ''meta.''")
    case False
    then have "''meta.'' @ key \<noteq> field" by (metis HasPrefix_append)
    then show ?thesis using Cons [of md] False by simp
  next
    case True
    then obtain k where f: "field = ''meta.'' @ k" by (auto simp: HasPrefix_iff)
    have t: "TrimPrefix field ''meta.'' = k" unfolding f by (rule TrimPrefix_append)
    have eq: "''meta.'' @ key = field \<longleftrightarrow> key = k" by (simp add: f)
    consider "k = []" | "k \<noteq> []" "has_key md k" | "k \<noteq> []" "\<not> has_key md k" by blast
    then show ?thesis
    proof cases
      case 1
      then show ?thesis using Cons [of md] True t eq by (auto simp: Let_def split: option.splits)
    next
      case 2
      then show ?thesis using Cons [of md] True t eq by (auto simp: Let_def has_key_def split: option.splits)
    next
      case 3
      then show ?thesis using Cons [of "AList.update k (map_get [] fm field) md"] True t eq f
        by (auto simp: Let_def has_key_def split: option.splits)
    qed
  qed
qed

lemma named_extraction_view:
  assumes "is_iteration itF" "wf_map fm"
  shows "map_option dx_view (named_extraction itF n fm) =
    map_option (\<lambda>e. (e, record_metadata (map_of fm))) (record_of_fields n (map_of fm))"
proof -
  have keys: "set (itF (map fst fm)) = fst ` set fm" using assms by (simp add: is_iteration_set wf_map_def)
  have "map_of (add_meta fm (itF (map fst fm)) md) key =
      (case map_of md key of Some p \<Rightarrow> Some p | None \<Rightarrow> if key = [] then None else map_of fm (''meta.'' @ key))" for md key
  proof (cases "map_of fm (''meta.'' @ key)")
    case None
    then have "''meta.'' @ key \<notin> fst ` set fm" by (simp only: map_of_eq_None_iff not_False_eq_True)
    then show ?thesis using None by (simp add: add_meta_lookup [OF assms(2)] keys split: option.splits)
  next
    case (Some v)
    then have "''meta.'' @ key \<in> fst ` set fm" by (metis domI dom_map_of_conv_image_fst)
    then show ?thesis using Some by (simp add: add_meta_lookup [OF assms(2)] keys map_get_def split: option.splits)
  qed
  moreover have "dx_Metadata e = []" if "record_of_fields n (map_of fm) = Some e" for e
    using that by (auto simp: record_of_fields_def Let_def split: if_splits option.splits)
  ultimately show ?thesis
    by (cases "record_of_fields n (map_of fm)") (auto simp: named_extraction_def dx_view_def record_metadata_def)
qed

lemma field_pairs_member:
  "(p, v) \<in> set (field_pairs labels) \<longleftrightarrow>
    (\<exists>k raw n f. (k, raw) \<in> set labels \<and> namedRecord k = Some (n, f) \<and> p = (n, ToLower f) \<and> v = TrimSpace raw)"
proof -
  have "(p, v) \<in> set (field_pairs labels) \<longleftrightarrow> (\<exists>k raw. (k, raw) \<in> set labels \<and>
      (p, v) \<in> set (case namedRecord k of None \<Rightarrow> [] | Some (n, f) \<Rightarrow> [((n, ToLower f), TrimSpace raw)]))"
    by (auto simp: field_pairs_def Bex_def)
  also have "\<dots> \<longleftrightarrow> (\<exists>k raw n f. (k, raw) \<in> set labels \<and> namedRecord k = Some (n, f) \<and> p = (n, ToLower f) \<and> v = TrimSpace raw)"
    by (intro ex_cong1) (auto split: option.splits; metis)
  finally show ?thesis .
qed

lemma collect_records_lookup:
  assumes "distinct_fields labels"
    and "\<And>key n f. key \<in> set keys \<Longrightarrow> namedRecord key = Some (n, f) \<Longrightarrow>
      record_field labels n (ToLower f) = Some (TrimSpace (map_get [] labels key))"
  shows "map_of (map_get [] (collect_records labels keys m) n) f =
    (if \<exists>key \<in> set keys. \<exists>g. namedRecord key = Some (n, g) \<and> f = ToLower g then record_field labels n f
     else map_of (map_get [] m n) f)"
  using assms(2)
proof (induction keys arbitrary: m)
  case (Cons key keys)
  note IH = Cons.IH [OF Cons.prems [OF list.set_intros(2)]]
  show ?case
  proof (cases "namedRecord key")
    case None
    then show ?thesis using IH by simp
  next
    case (Some ng)
    then obtain n' g where ng: "namedRecord key = Some (n', g)" by (cases ng) simp
    have val: "record_field labels n' (ToLower g) = Some (TrimSpace (map_get [] labels key))"
      by (rule Cons.prems [OF _ ng]) simp
    let ?m = "AList.update n' (AList.update (ToLower g) (TrimSpace (map_get [] labels key)) (map_get [] m n')) m"
    have "map_of (map_get [] ?m n) f =
        (if n = n' \<and> f = ToLower g then record_field labels n f else map_of (map_get [] m n) f)"
      using val by (simp add: map_get_def)
    then show ?thesis using IH [of ?m] ng by (auto simp: Let_def)
  qed
qed simp

lemma collect_records_wf:
  assumes "wf_map m \<and> (\<forall>n. wf_map (map_get [] m n))"
  shows "wf_map (collect_records labels keys m) \<and> (\<forall>n. wf_map (map_get [] (collect_records labels keys m) n))"
  using assms
proof (induction keys arbitrary: m)
  case (Cons key keys)
  show ?case
  proof (cases "namedRecord key")
    case (Some ng)
    then obtain n g where ng: "namedRecord key = Some (n, g)" by (cases ng) simp
    let ?m = "AList.update n (AList.update (ToLower g) (TrimSpace (map_get [] labels key)) (map_get [] m n)) m"
    have "wf_map ?m \<and> (\<forall>k. wf_map (map_get [] ?m k))"
      using Cons.prems by (auto simp: wf_map_update map_get_def [of _ ?m] split: option.splits)
        (auto simp: map_get_def split: option.splits)
    then show ?thesis using Cons.IH ng by (simp add: Let_def)
  qed (use Cons in simp)
qed simp

lemma process_records_set:
  "set (process_records itF m names) = {e. \<exists>n \<in> set names. named_extraction itF n (map_get [] m n) = Some e}"
  by (induction names) (auto split: option.splits)

lemma named_extraction_name: "named_extraction itF n fm = Some e \<Longrightarrow> dx_RecordName e = n"
  by (auto simp: named_extraction_def record_of_fields_def Let_def split: if_splits option.splits)

lemma process_records_names: "distinct names \<Longrightarrow> distinct (map dx_RecordName (process_records itF m names))"
proof (induction names)
  case (Cons n names)
  have "dx_RecordName ` set (process_records itF m names) \<subseteq> set names"
    by (auto simp: process_records_set dest!: named_extraction_name)
  then show ?case using Cons by (auto split: option.splits dest!: named_extraction_name)
qed simp

lemma named_records_spec:
  assumes it: "is_iteration itL" "is_iteration itN" "is_iteration itF" and wf: "wf_map labels" "distinct_fields labels"
  shows "distinct (map dx_RecordName (named_records itL itN itF labels))"
    and "dx_view ` set (named_records itL itN itF labels) =
      {(e, record_metadata (record_field labels n)) |n e. record_of_fields n (record_field labels n) = Some e}"
proof -
  let ?keys = "itL (map fst labels)" let ?m = "collect_records labels ?keys []"
  have keys: "set ?keys = fst ` set labels" using it wf by (simp add: is_iteration_set wf_map_def)
  have wfm: "wf_map ?m" "wf_map (map_get [] ?m n)" for n
    using collect_records_wf [of "[]"] by (auto simp: map_get_def)
  then have names: "set (itN (map fst ?m)) = fst ` set ?m" "distinct (itN (map fst ?m))"
    using it by (simp_all add: is_iteration_def wf_map_def)
  show "distinct (map dx_RecordName (named_records itL itN itF labels))"
    using process_records_names [OF names(2)] by (simp add: named_records_def Let_def)
  have pairs: "record_field labels n f = Some v \<longleftrightarrow> ((n, f), v) \<in> set (field_pairs labels)" for n f v
    using wf(2) by (simp add: record_field_def distinct_fields_def)
  have get: "map_get [] labels k = raw" if "(k, raw) \<in> set labels" for k raw
    using that wf(1) by (simp add: map_get_def wf_map_def)
  have look: "map_of (map_get [] ?m n) f = record_field labels n f" for n f
  proof -
    have "map_of (map_get [] ?m n) f = (if \<exists>key \<in> set ?keys. \<exists>g. namedRecord key = Some (n, g) \<and> f = ToLower g
        then record_field labels n f else map_of (map_get [] [] n) f)"
    proof (rule collect_records_lookup [OF wf(2)])
      fix key n' g assume k: "key \<in> set ?keys" "namedRecord key = Some (n', g)"
      then obtain raw where "(key, raw) \<in> set labels" using keys by auto
      then show "record_field labels n' (ToLower g) = Some (TrimSpace (map_get [] labels key))"
        using k(2) get unfolding pairs field_pairs_member by blast
    qed
    moreover have "\<exists>key \<in> set ?keys. \<exists>g. namedRecord key = Some (n, g) \<and> f = ToLower g"
      if "record_field labels n f \<noteq> None"
      using that by (force simp: pairs field_pairs_member keys)
    ultimately show ?thesis by (cases "record_field labels n f") (auto simp: map_get_def)
  qed
  have view: "map_option dx_view (named_extraction itF n (map_get [] ?m n)) =
      map_option (\<lambda>e. (e, record_metadata (record_field labels n))) (record_of_fields n (record_field labels n))" for n
    using named_extraction_view [OF it(3) wfm(2)] look [of n, abs_def] by simp
  have none: "record_of_fields n (record_field labels n) = None" if "n \<notin> fst ` set ?m" for n
  proof -
    from that have "map_of ?m n = None" by (simp add: map_of_eq_None_iff)
    then have "record_field labels n f = None" for f using look [of n f] by (simp add: map_get_def)
    then show ?thesis by (simp add: record_of_fields_def disabled_value_def)
  qed
  have "dx_view ` set (named_records itL itN itF labels) =
      {v. \<exists>n \<in> fst ` set ?m. map_option dx_view (named_extraction itF n (map_get [] ?m n)) = Some v}"
    unfolding named_records_def Let_def process_records_set names map_option_eq_Some by blast
  also have "\<dots> = {(e, record_metadata (record_field labels n)) |n e. record_of_fields n (record_field labels n) = Some e}"
  proof -
    have "record_of_fields n (record_field labels n) = Some e \<Longrightarrow> n \<in> fst ` set ?m" for n e using none [of n] by fastforce
    then show ?thesis unfolding view map_option_eq_Some by blast
  qed
  finally show "dx_view ` set (named_records itL itN itF labels) =
      {(e, record_metadata (record_field labels n)) |n e. record_of_fields n (record_field labels n) = Some e}" .
qed

subsection \<open>Properties\<close>


definition ex_dw_labels :: "(string, string) gomap" where
  "ex_dw_labels = [(''dnsweaver.hostname'', ''a.com''), (''dnsweaver.records.db.hostname'', ''db.com''),
     (''dnsweaver.records.db.type'', ''srv''), (''dnsweaver.records.db.Port'', ''5432''),
     (''dnsweaver.records.db.meta.proxied'', ''yes''), (''dnsweaver.records.db.proxied'', ''true'')]"


end
