(* ===== verification/Spec2Isabelle.thy ===== *)
theory Spec2Isabelle
  imports EventWatcher MockBackend Dnsmasq Rfc2136 PowerDns AdGuard Technitium Cloudflare Webhook Ovh Pihole Opnsense Pfsense ProxmoxLister IncusLister KubernetesLister DockerLister TargetRefresh LabelSources TraefikSource DnsweaverSource PlatformSources
begin

text \<open>
  dnsweaver keeps DNS records in step with running workloads. A platform lister (Docker, Kubernetes,
  Proxmox, Incus) reports workloads; sources read hostnames from their labels or from files; the reconciler
  routes each hostname to the provider instances whose domain patterns match it, creates, updates or keeps
  its records, marks them with an ownership TXT record, and removes the records of hostnames that are gone
  according to each instance's operational mode. This library models that path from the Go sources under
  \<^verbatim>\<open>src/\<close>.

  \<^bold>\<open>Conventions.\<close> A struct is a record, an enumeration over Go strings is a string with named constants, and an
  error is a value of \<open>err\<close> (GoErrors) with its wrapping chain, so that \<^verbatim>\<open>errors.Is\<close> and messages are those
  of the code. A fallible call returns \<open>err + 'a\<close>, a call that may panic returns an option (\<open>None\<close> is the
  panic), a method with effects threads an explicit world \<open>'w\<close>. An interface is a record of functions; a Go
  map is an association list, and where the code ranges over a map the iteration order is an argument that
  is only known to be a permutation (\<open>is_iteration\<close>). Strings are byte strings; numbers are \<open>int\<close> except for
  the 16-bit fields of SRV data, which are words. Time is an argument. Log lines and Prometheus counters are
  left out; the reconciler's metrics are modelled as the list of observations.

  \<^bold>\<open>Theories and code.\<close>
  \<^item> Prelude: Go's string and slice functions, the automation and the lemmas the components share.
    GoStd: \<^verbatim>\<open>strconv.Atoi\<close>, \<^verbatim>\<open>bufio.Scanner\<close> and \<^verbatim>\<open>path/filepath\<close>. NetIP: \<^verbatim>\<open>net.ParseIP\<close>
    and \<^verbatim>\<open>IP.String\<close>, with the round trip.
  \<^item> GoErrors: \<^verbatim>\<open>pkg/provider/errors.go\<close>, \<^verbatim>\<open>pkg/source/errors.go\<close>.
  \<^item> Hostname: \<^verbatim>\<open>pkg/source/hostname.go\<close>, validation against RFC 1123 and RFC 2782 grammars, record hints.
  \<^item> DnsRecord: \<^verbatim>\<open>pkg/provider/provider.go\<close>, \<^verbatim>\<open>mode.go\<close>, \<^verbatim>\<open>identity.go\<close>: records, the ownership encoding, modes
    and the provider interface.
  \<^item> Matcher: \<^verbatim>\<open>internal/matcher\<close>. Go's regular expression engine is an argument with the locale
    \<open>regexp_engine\<close> as its contract, interpreted by an executable fragment.
  \<^item> ProviderInstance: \<^verbatim>\<open>pkg/provider/instance.go\<close>. RecordStore: the contracts of a backend,
    \<open>frame_store\<close> (writes stay under the names they are called with) and \<open>record_store\<close>.
  \<^item> ProviderRegistry, ProviderManager: \<^verbatim>\<open>pkg/provider/registry.go\<close> and \<^verbatim>\<open>manager.go\<close>.
  \<^item> Workload, SourceRegistry, FileWatcher: \<^verbatim>\<open>pkg/workload\<close>, \<^verbatim>\<open>pkg/source/registry.go\<close>, \<^verbatim>\<open>pkg/source/watcher.go\<close>.
  \<^item> LabelSources, TraefikSource, DnsweaverSource, PlatformSources: the sources under \<^verbatim>\<open>sources/\<close>, from their
    label parsers to the \<open>Source\<close> record the registry calls; \<^verbatim>\<open>pkg/source/discovery.go\<close> is in TraefikSource.
  \<^item> EventWatcher: \<^verbatim>\<open>internal/watcher\<close>, on the life cycle of FileWatcher.
  \<^item> Result, Comparison, RecordCache, Actions, Orphan, Reconciler: the files of \<^verbatim>\<open>internal/reconciler\<close>.
  \<^item> InstanceConfig, GlobalConfig, FileConfig, ConfigLoad: \<^verbatim>\<open>internal/config\<close>, from the environment, its secret files
    and the YAML file to the validated configuration. TargetResolver, TargetRefresh: \<^verbatim>\<open>internal/target\<close> and
    \<^verbatim>\<open>cmd/dnsweaver/target_refresh.go\<close>, dynamic targets and the registry they update.
  \<^item> Dnsmasq: \<^verbatim>\<open>providers/dnsmasq\<close> over an abstract file system.
  \<^item> DnsUpdate, DnsCatalog, Rfc2136: \<^verbatim>\<open>pkg/dnsupdate\<close> (records and client, and the catalog of hostnames) and
    \<^verbatim>\<open>providers/rfc2136\<close>, over an abstract exchange of DNS messages.
  \<^item> HttpApi: JSON documents, requests and responses, conversations (\<open>sends\<close>: what a call may send, \<open>logged\<close>: a
    transport that records it) and cells of the world, for the providers that speak HTTP, whose transport is an argument:
    PowerDns, AdGuard, Technitium, Cloudflare, Webhook, Ovh, Pihole, Opnsense and Pfsense, each the package of that name under \<^verbatim>\<open>providers/\<close>,
    from its configuration through its client to the \<open>Provider\<close> record that the registry calls. What a server
    promises is a contract (\<open>pd_server\<close>, \<open>ag_server\<close>, \<open>cf_server\<close>), met by a server in memory.
  \<^item> DockerLister, KubernetesLister, ProxmoxLister, IncusLister: the packages of those platforms under \<^verbatim>\<open>internal/\<close>,
    from their clients to the \<open>Lister\<close> record that the reconciler calls, with the watchers of Kubernetes and Incus on
    EventWatcher. The client libraries of Docker and Kubernetes are arguments.
  \<^item> MockBackend: the in-memory doubles of \<^verbatim>\<open>internal/testutil\<close>, which show that the contracts can be met and
    run whole cycles in the witnesses.

  \<^bold>\<open>Interfaces.\<close> A locale states what one component relies on and is interpreted on the model that provides
  it: \<open>regexp_engine\<close> on the fragment engine, \<open>named_factories\<close> on the factories of the providers,
  \<open>hostname_source\<close> on all seven sources, \<open>frame_store\<close> and \<open>record_store\<close> on the mock backend (\<open>record_store\<close> is also shown of PowerDNS and AdGuard instances), \<open>file_system\<close> on the local files, and
  \<open>world_order\<close> (ProviderInstance) on equality of a view of the world, which carries every frame argument from
  single provider calls up to the whole cycle, and on conversations.

  \<^bold>\<open>What is shown.\<close> This theory holds the properties that span components: frame, dry run, termination
  without panic, counters, what the cycle remembers, first declaration, the reconciler's and the registry's
  invariants, the refinements of the cache to the listing and of the registry to a finite map, and the
  deletion policies of the modes with the circuit breaker. The others stand at the end of their
  component's theory: grammars of hostnames, round trips of the ownership encoding and of dnsmasq lines,
  glob matching against its declarative reading, the record diff against its effect, the
  manager's invariant, the file watcher's polling and a leak of its restart, the hostnames
  that Traefik rules and labels and native labels stand for, debouncing, path
  containment of the dnsmasq file, what an accepted configuration satisfies and where the two
  validations of an instance differ, environment over file, interpolation, dynamic targets that follow the
  last successful resolution, the round trips of DNS records, and the catalog of the RFC 2136 provider: its limits,
  what a removal hides, and when loading it ends; a PowerDNS instance as a backend of the reconciler, and the records its writes keep; the companion
  records of a Technitium instance; the retries of the webhook; the sessions of a Pi-hole client and why an
  instance of Pi-hole owns nothing; the overrides that OPNsense and pfSense instances change; the addresses that guests' records
  point at, what a Kubernetes listing admits, and that connecting to Docker ends.

  \<^bold>\<open>Bounds.\<close> No definition takes fuel: every loop of the code runs over a finite list and is structural
  recursion or a terminating function, but for the loading loop of the DNS catalog and the connection loop of
  Docker, each a \<open>partial_function\<close> whose value is \<open>None\<close> when it does not end (\<open>load_wildcard\<close>; \<open>docker_connect_ends\<close>). A cycle may still fail to return a value, by a nil dereference in
  the code; \<open>reconcile_total\<close> states when it does not.

  \<^bold>\<open>Not modelled.\<close> Command line wiring, the construction of the Kubernetes REST clients, Incus enrolment,
  SSH transport, health and metrics endpoints. Goroutines appear as explicit steps in FileWatcher, EventWatcher, TargetRefresh and ProviderManager; the
  reconciler's mutex makes each of its operations one step.
\<close>

section \<open>Reconciliation\<close>

text \<open>The names a cycle may touch: those of the declared and the known hostnames, with their ownership names.\<close>

definition touched :: "'w Reconciler \<Rightarrow> Workload list \<Rightarrow> 'w \<Rightarrow> string set" where
  "touched r wls w =
     (\<Union>h \<in> set (declared r wls w). own_names (h_Name h)) \<union> (\<Union>h \<in> set (rn_knownHostnames r). own_names h)"

text \<open>C1: A reconciliation cycle over backends that keep the frame contract changes no record of a backend
  outside the hostnames declared by the sources, the hostnames known from earlier, and the ownership
  records of both: records somebody else put under other names survive every cycle.\<close>
theorem reconcile_frame:
  assumes "Reconcile oH oO now (r, w) = Some (out, r', w')" and "is_iteration oH" "is_iteration oO"
    and "distinct (rn_knownHostnames r)"
    and "\<And>i. i \<in> set (All (rn_providers r)) \<Longrightarrow> frame_store (pi_Provider i) contents"
    and "list_all_workloads (rn_listers r) [] w = Inr wls"
    and "touched r wls w \<subseteq> N"
  shows "outside N (contents w') = outside N (contents w)"
proof -
  have "outside N (contents w) = outside N (contents w')"
  proof (rule view.R_Reconcile [where f = "\<lambda>w. outside N (contents w)", OF assms(1-4)])
    fix i assume "i \<in> set (All (rn_providers r))"
    then show "world_order.safe (\<lambda>w w'. outside N (contents w) = outside N (contents w')) (pi_Provider i) CList"
      by (intro frame_store.safe_list assms(5))
  next
    fix i h wls' assume "i \<in> set (All (rn_providers r))" "list_all_workloads (rn_listers r) [] w = Inr wls'"
      "h \<in> set (declared r wls' w)"
    then show "world_order.safe_on (\<lambda>w w'. outside N (contents w) = outside N (contents w')) (pi_Provider i)
        (own_names (h_Name h))"
      using assms(6,7) by (intro frame_store.safe_outside assms(5)) (auto simp: touched_def)
  next
    fix i h assume "i \<in> set (All (rn_providers r))" "h \<in> set (rn_knownHostnames r)"
    then show "world_order.safe_on (\<lambda>w w'. outside N (contents w) = outside N (contents w')) (pi_Provider i)
        (own_names h)"
      using assms(7) by (intro frame_store.safe_outside assms(5)) (auto simp: touched_def)
  qed
  then show ?thesis by simp
qed

theorem reconcile_frame_witness:
  "\<exists>out r' w'. Reconcile id id (0, 1) (ex_reconciler ModeManaged DefaultConfig [], ex_world) = Some (out, r', w') \<and>
     map r_Hostname (mk_records (the_mock ''m'' w')) = [''b.ex.com'', ''a.ex.com'', ''_dnsweaver.a.ex.com''] \<and>
     outside {''a.ex.com'', ''_dnsweaver.a.ex.com''} (mk_records (the_mock ''m'' w')) =
       [record_literal ''b.ex.com'' ''A'' ''10.0.0.9'']"
proof -
  let ?r = "ex_reconciler ModeManaged DefaultConfig []" and ?N = "{''a.ex.com'', ''_dnsweaver.a.ex.com''}"
  have run: "map_option (\<lambda>(out, r', w'). map r_Hostname (mk_records (the_mock ''m'' w')))
      (Reconcile id id (0, 1) (?r, ex_world)) = Some [''b.ex.com'', ''a.ex.com'', ''_dnsweaver.a.ex.com'']"
    by code_simp
  then obtain out r' w' where R: "Reconcile id id (0, 1) (?r, ex_world) = Some (out, r', w')"
    "map r_Hostname (mk_records (the_mock ''m'' w')) = [''b.ex.com'', ''a.ex.com'', ''_dnsweaver.a.ex.com'']"
    by auto
  have rp: "rn_providers ?r = ex_registry ModeManaged"
    by (simp add: ex_reconciler_def New_def syncAtomics_def)
  have f: "frame_store (pi_Provider i) (\<lambda>w. mk_records (the_mock ''m'' w))" if "i \<in> set (All (rn_providers ?r))" for i
    using that ex_instances [of ModeManaged] by (simp add: rp mock_frame.frame_store_axioms)
  have wl: "list_all_workloads (rn_listers ?r) [] ex_world = Inr [DockerWorkload ''web'' []]" by code_simp
  have d: "map h_Name (declared ?r [DockerWorkload ''web'' []] ex_world) = [''a.ex.com'']" by code_simp
  have own: "own_names ''a.ex.com'' = ?N" unfolding own_names_def by code_simp
  have "touched ?r [DockerWorkload ''web'' []] ex_world = \<Union> (own_names ` set (map h_Name (declared ?r [DockerWorkload ''web'' []] ex_world)))"
    by (simp add: touched_def ex_reconciler_def)
  then have t: "touched ?r [DockerWorkload ''web'' []] ex_world \<subseteq> ?N" unfolding d by (simp add: own)
  have "outside ?N (mk_records (the_mock ''m'' w')) = outside ?N (mk_records (the_mock ''m'' ex_world))"
    by (rule reconcile_frame [OF R(1) _ _ _ f wl t]) (simp_all add: ex_reconciler_def)
  moreover have "outside ?N (mk_records (the_mock ''m'' ex_world)) = [record_literal ''b.ex.com'' ''A'' ''10.0.0.9'']"
    by code_simp
  ultimately show ?thesis using R by auto
qed

text \<open>C2: A dry run changes nothing: whatever observation of the backends is preserved by listing is also
  preserved by a whole dry-run cycle, unless some instance uses the cache-only cleanup path (managed mode
  with ownership tracking switched off), which deletes without consulting the dry-run flag.\<close>
theorem dry_run_changes_nothing:
  assumes "Reconcile oH oO now (r, w) = Some (out, r', w')" and "is_iteration oH" "is_iteration oO"
    and "distinct (rn_knownHostnames r)" and "rn_dryRun r"
    and "\<And>i w. i \<in> set (All (rn_providers r)) \<Longrightarrow> view (snd (p_List (pi_Provider i) w)) = view w"
    and "\<And>i. i \<in> set (All (rn_providers r)) \<Longrightarrow> \<not> cache_only r i"
  shows "view w' = view w"
proof -
  have "view w = view w'"
    by (rule view.R_Reconcile [where f = view, OF assms(1-4)])
      (use assms(5-7) in \<open>auto simp: view.safe_def\<close>)
  then show ?thesis by simp
qed

lemma run_result:
  assumes "map_option (\<lambda>(out, r', w'). map_sum (\<lambda>_. ()) f out) x = Some (Inr y)"
  obtains res r' w' where "x = Some (Inr res, r', w')" "f res = y"
proof -
  obtain out r' w' where "x = Some (out, r', w')" "map_sum (\<lambda>_. ()) f out = Inr y" using assms by auto
  with that show thesis by (cases out) auto
qed

theorem dry_run_changes_nothing_witness:
  "\<exists>out r' w'. Reconcile id id (0, 1)
       (ex_reconciler ModeManaged (DefaultConfig\<lparr>rc_DryRun := True\<rparr>) [''b.ex.com''], ex_world) = Some (Inr out, r', w') \<and>
     map a_Type (res_Actions out) = [''create'', ''skip''] \<and> w' = ex_world"
proof -
  let ?r = "ex_reconciler ModeManaged (DefaultConfig\<lparr>rc_DryRun := True\<rparr>) [''b.ex.com'']"
  have "map_option (\<lambda>(out, r', w'). map_sum (\<lambda>_. ()) (\<lambda>res. map a_Type (res_Actions res)) out)
      (Reconcile id id (0, 1) (?r, ex_world)) = Some (Inr [''create'', ''skip''])" by code_simp
  then obtain out r' w' where R: "Reconcile id id (0, 1) (?r, ex_world) = Some (Inr out, r', w')"
    "map a_Type (res_Actions out) = [''create'', ''skip'']" by (rule run_result)
  have rp: "rn_providers ?r = ex_registry ModeManaged" "rn_dryRun ?r" "rn_knownHostnames ?r = [''b.ex.com'']"
    "rc_OwnershipTracking (rn_config ?r)"
    by (simp_all add: ex_reconciler_def New_def syncAtomics_def DefaultConfig_def)
  have "id w' = id ex_world"
    by (rule dry_run_changes_nothing [OF R(1)])
      (use ex_instances [of ModeManaged] in \<open>auto simp: rp cache_only_def mock_provider_def Let_def\<close>)
  with R show ?thesis by auto
qed


text \<open>A deployment with one dnsmasq instance over the local file system.\<close>

definition ex_dm_registry :: "files Registry" where
  "ex_dm_registry = fst (snd (CreateInstance fragment_engine ((ex_cfg ModeManaged)\<lparr>cfg_TypeName := ''dnsmasq''\<rparr>)
     (RegisterFactory ''dnsmasq''
        (dm_Factory osFileSystem (\<lambda>_ w. (None, w)) (\<lambda>_ w. (Inl (ErrorNew ''no transport''), w))) NewRegistry, [])))"

lemma ex_dm_registry_created:
  "\<exists>i name config c t. All ex_dm_registry = [i] \<and> pi_Provider i = dm_provider name config c t"
proof -
  have v: "cfg_Validate ((ex_cfg ModeManaged)\<lparr>cfg_TypeName := ''dnsmasq''\<rparr>) = None"
    by (auto simp: ex_cfg_def cfg_Validate_def RecordType_defs Let_def) code_simp+
  have "map_sum id IsSSHEnabled (dm_LoadConfigFromMap ''m'' []) = Inr False" by code_simp
  then obtain config where config: "dm_LoadConfigFromMap ''m'' [] = Inr config" "\<not> IsSSHEnabled config"
    by (cases "dm_LoadConfigFromMap ''m'' []") auto
  then have valid: "dm_Validate config = None" by (intro loaded_config_valid)
  have "\<exists>m. NewDomainMatcher fragment_engine \<lparr>Includes = [''*.ex.com''], Excludes = [], UseRegex = False\<rparr> = Inr m"
    using fe.NewDomainMatcher_glob [of "\<lparr>Includes = [''*.ex.com''], Excludes = [], UseRegex = False\<rparr>"]
      glob_ok_literal(2) [of "''.ex.com''"] by (force simp: glob_literal_def)
  then obtain m where "NewDomainMatcher fragment_engine \<lparr>Includes = [''*.ex.com''], Excludes = [], UseRegex = False\<rparr> = Inr m"
    by blast
  with v config valid show ?thesis
    by (simp add: ex_dm_registry_def CreateInstance_def RegisterFactory_def NewRegistry_def dm_Factory_def
        dm_NewFromMap_def dm_New_def factory_config_def Let_def ex_cfg_def GetIncludes_def GetExcludes_def
        cfg_UseRegex_def All_def new_instance_def del: split_paired_Ex) blast
qed




text \<open>After a completed cycle the known hostnames are exactly the normalised names the sources declared in
  it, each once: the next cycle's orphans are computed against what this one saw.\<close>
theorem known_after_cycle:
  assumes "Reconcile oH oO now (r, w) = Some (Inr res, r', w')" and "rn_enabled r"
    and "list_all_workloads (rn_listers r) [] w = Inr wls"
  shows "distinct (rn_knownHostnames r') \<and>
    set (rn_knownHostnames r') = NormalizedName ` set (declared r wls w)"
  using Reconcile_known [OF assms(1,2)] assms(3) by (metis Inr_inject)

theorem known_after_cycle_witness:
  "\<exists>res r' w'. Reconcile id id (0, 1) (ex_reconciler ModeManaged DefaultConfig [''b.ex.com''], ex_world) = Some (Inr res, r', w') \<and>
     set (rn_knownHostnames r') = {''a.ex.com''}"
proof -
  let ?r = "ex_reconciler ModeManaged DefaultConfig [''b.ex.com'']"
  have "map_option (\<lambda>(out, r', w'). isl out) (Reconcile id id (0, 1) (?r, ex_world)) = Some False" by code_simp
  then obtain out r' w' where r: "Reconcile id id (0, 1) (?r, ex_world) = Some (out, r', w')" "\<not> isl out" by auto
  then obtain res where R: "Reconcile id id (0, 1) (?r, ex_world) = Some (Inr res, r', w')" by (cases out) auto
  have wl: "list_all_workloads (rn_listers ?r) [] ex_world = Inr [DockerWorkload ''web'' []]" by code_simp
  have "map NormalizedName (declared ?r [DockerWorkload ''web'' []] ex_world) = [''a.ex.com'']" by code_simp
  then have "NormalizedName ` set (declared ?r [DockerWorkload ''web'' []] ex_world) = {''a.ex.com''}"
    by (metis list.set_map list.simps(15) empty_set)
  moreover have "rn_enabled ?r" by (simp add: ex_reconciler_def New_def syncAtomics_def DefaultConfig_def)
  ultimately show ?thesis using known_after_cycle [OF R _ wl] R by auto
qed

text \<open>Of several declarations of one hostname, compared by normalised name, the first wins: the
  workloads in the order of the listers and, after all of them, the files.\<close>
theorem first_declaration_wins:
  assumes "extractHostnames r wls res w = (disc, res')"
  shows "map_of disc n = find (\<lambda>h. NormalizedName h = n) (declared r wls w) \<and> wf_map disc"
  using extractHostnames_spec [OF assms] by (simp add: first_named_def)

theorem first_declaration_wins_witness:
  "map_of (fst (extractHostnames
     (New [] (MockSourceRegistry [NewMockSource ''s'' [ex_host], NewMockSource ''t'' [ex_host\<lparr>h_Name := ''A.ex.com.'', h_Source := ''t''\<rparr>]])
        (NewRegistry :: nat Registry) DefaultConfig) [DockerWorkload ''web'' []] (NewResult 0 False) 0)) ''a.ex.com'' = Some ex_host"
proof -
  let ?r = "New [] (MockSourceRegistry [NewMockSource ''s'' [ex_host], NewMockSource ''t'' [ex_host\<lparr>h_Name := ''A.ex.com.'', h_Source := ''t''\<rparr>]])
        (NewRegistry :: nat Registry) DefaultConfig"
  obtain disc res' where e: "extractHostnames ?r [DockerWorkload ''web'' []] (NewResult 0 False) 0 = (disc, res')" by fastforce
  have "find (\<lambda>h. NormalizedName h = ''a.ex.com'') (declared ?r [DockerWorkload ''web'' []] 0) = Some ex_host" by code_simp
  then show ?thesis using first_declaration_wins [OF e, of "''a.ex.com''"] e by simp
qed

text \<open>C9: In every reachable state of the reconciler, after any interleaving of cycles, targeted
  reconciliations, removals, ownership recovery and changes of the providers, the known
  hostnames are without repetition and all in normalised form.\<close>
theorem reconciler_invariant:
  assumes "rec_reach ls ss c (r, w)"
  shows "distinct (rn_knownHostnames r) \<and> set (rn_knownHostnames r) \<subseteq> range NormalizeHostname"
  using rec_reach_wf [OF assms] by (auto simp: wf_reconciler_def)

theorem reconciler_invariant_witness:
  "distinct (rn_knownHostnames (fst (snd (RemoveHostname (0, 1) ''a.b''
     (New [] NewSourceRegistry (NewRegistry :: nat Registry) DefaultConfig, 0)))))"
proof -
  let ?s = "(New [] NewSourceRegistry (NewRegistry :: nat Registry) DefaultConfig, 0)"
  obtain res r' w' where s: "RemoveHostname (0, 1) ''a.b'' ?s = (res, r', w')" by (metis prod_cases3)
  have "rec_reach [] NewSourceRegistry DefaultConfig (r', w')" by (rule rec_next [OF rec_new rec_remove [OF s]])
  from reconciler_invariant [OF this] s show ?thesis by simp
qed

section \<open>Components under the reconciler\<close>

text \<open>C10: The cache refines the listings: for a provider whose listing succeeded, its lookups return what
  filtering that listing by normalised hostname returns, for data records and for ownership records.\<close>
theorem cache_refines_listing:
  assumes "distinct (map Name (All reg))" and "map_of (listings (All reg) w) n = Some (Inr rs)"
  shows "getExistingRecords (fst (newRecordCache reg w)) n h =
      Some (filter (\<lambda>r. NormalizeHostname (r_Hostname r) = NormalizeHostname h \<and> is_data_type (r_Type r)) rs) \<and>
    (hasOwnershipRecord (fst (newRecordCache reg w)) n h iid \<longleftrightarrow>
      (\<exists>r \<in> set rs. NormalizeHostname (r_Hostname r) = NormalizeHostname (OwnershipRecordName h) \<and>
         r_Type r = RecordTypeTXT \<and> MatchesOwnership (r_Target r) iid))"
  using cache_getExistingRecords [OF assms] cache_hasOwnershipRecord [OF assms] by blast

theorem cache_refines_listing_witness:
  "getExistingRecords (fst (newRecordCache (ex_registry ModeManaged) ex_world)) ''m'' ''B.ex.com.'' =
     Some [record_literal ''b.ex.com'' ''A'' ''10.0.0.9'']"
proof -
  have d: "distinct (map Name (All (ex_registry ModeManaged)))" by (simp add: ex_instances)
  have l: "map_of (listings (All (ex_registry ModeManaged)) ex_world) ''m'' =
    Some (Inr [record_literal ''b.ex.com'' ''A'' ''10.0.0.9''])" by code_simp
  have f: "filter (\<lambda>r. NormalizeHostname (r_Hostname r) = NormalizeHostname ''B.ex.com.'' \<and> is_data_type (r_Type r))
      [record_literal ''b.ex.com'' ''A'' ''10.0.0.9''] = [record_literal ''b.ex.com'' ''A'' ''10.0.0.9'']" by code_simp
  show ?thesis using cache_refines_listing [OF d l, of "''B.ex.com.''"] unfolding f by (rule conjunct1)
qed

text \<open>C5: Orphan cleanup never deletes through an additive instance: it only reports a skip.\<close>
theorem additive_never_deletes:
  assumes "mode_of inst = ModeAdditive"
  shows "deleteOrphanForProvider r h inst cache w =
      ([skip_orphan h inst ''additive mode - deletions disabled''], w)"
  using assms by (rule deleteOrphan_additive)

theorem additive_never_deletes_witness:
  "snd (deleteOrphanForProvider (ex_reconciler ModeAdditive DefaultConfig [''b.ex.com'']) ''b.ex.com'' (ex_inst ModeAdditive)
     None ex_world) = ex_world"
proof -
  have "mode_of (ex_inst ModeAdditive) = ModeAdditive"
    using ex_instances(3) [of ModeAdditive] by (simp add: mode_of_def Mode_defs)
  from additive_never_deletes [OF this] show ?thesis by simp
qed

text \<open>C4: In managed mode with ownership tracking on a backend that stores TXT records, a hostname without
  an ownership record of this instance in the cycle's cache is left alone.\<close>
theorem managed_needs_ownership:
  assumes "mode_of inst = ModeManaged" and "rc_OwnershipTracking (rn_config r)"
    and "SupportsOwnershipTXT (p_Capabilities (pi_Provider inst))"
    and "\<not> hasOwnershipRecord c (Name inst) h (rc_InstanceID (rn_config r))"
  shows "deleteOrphanForProvider r h inst (Some c) w =
      ([skip_orphan h inst ''no ownership record - may be manually created''], w)"
  using assms deleteManaged_unowned [OF assms(4)]
  by (auto simp: deleteOrphanForProvider_def mode_of_def AllowsDelete_def RequiresOwnership_def Mode_defs Let_def split: if_splits)

theorem managed_needs_ownership_witness:
  "snd (deleteOrphanForProvider (ex_reconciler ModeManaged DefaultConfig [''b.ex.com'']) ''b.ex.com'' (ex_inst ModeManaged)
     (Some (fst (newRecordCache (ex_registry ModeManaged) ex_world))) ex_world) = ex_world"
proof -
  let ?r = "ex_reconciler ModeManaged DefaultConfig [''b.ex.com'']"
  have "mode_of (ex_inst ModeManaged) = ModeManaged"
    using ex_instances(3) [of ModeManaged] by (simp add: mode_of_def Mode_defs)
  moreover have "rc_OwnershipTracking (rn_config ?r)"
    by (simp add: ex_reconciler_def New_def syncAtomics_def DefaultConfig_def)
  moreover have "SupportsOwnershipTXT (p_Capabilities (pi_Provider (ex_inst ModeManaged)))"
    by (simp add: ex_instances mock_provider_def ex_mock_def SetRecords_def NewMockProvider_def Let_def)
  moreover have "\<not> hasOwnershipRecord (fst (newRecordCache (ex_registry ModeManaged) ex_world)) (Name (ex_inst ModeManaged))
      ''b.ex.com'' (rc_InstanceID (rn_config ?r))" by code_simp
  ultimately show ?thesis using managed_needs_ownership by (metis snd_conv)
qed

text \<open>C6: The circuit breaker: when more than one known hostname and more than half of them are orphaned,
  the cleanup makes no backend call and reports nothing.\<close>
theorem mass_deletion_breaker:
  assumes "1 < length (orphans r current (rn_knownHostnames r))"
    and "length (rn_knownHostnames r) < 2 * length (orphans r current (rn_knownHostnames r))"
  shows "cleanupOrphans order r current cache w = ([], w)"
proof -
  have "0 < length (rn_knownHostnames r)" using assms(1) by (auto simp: orphans_def intro: ccontr)
  then show ?thesis using assms by (simp add: cleanupOrphans_def breaker_iff Let_def)
qed

theorem mass_deletion_breaker_witness:
  "cleanupOrphans id (ex_reconciler ModeAuthoritative DefaultConfig [''b.ex.com'', ''c.ex.com'', ''a.ex.com''])
     [(''a.ex.com'', ex_host)] None ex_world = ([], ex_world)"
proof -
  let ?r = "ex_reconciler ModeAuthoritative DefaultConfig [''b.ex.com'', ''c.ex.com'', ''a.ex.com'']"
  have "length (rn_knownHostnames ?r) = 3" "length (orphans ?r [(''a.ex.com'', ex_host)] (rn_knownHostnames ?r)) = 2"
    by (simp_all add: ex_reconciler_def orphans_def has_key_def)
  then show ?thesis by (intro mass_deletion_breaker) simp_all
qed

text \<open>In every registry reached from a registry whose factories name their providers as configured (as the
  repository's factories do), by creating, removing, closing and retargeting instances, the instance
  names are unique and looking a name up finds the instance with that name.\<close>
lemma registry_names_unique:
  assumes "named_factories fs" and "reg_reach rx fs (r, w)"
  shows "distinct (map Name (All r)) \<and> Get r n = find (\<lambda>i. Name i = n) (All r)"
  using named_factories.reach_names [OF assms] by blast

theorem registry_names_unique_witness:
  "\<exists>r w. CreateInstance fragment_engine (ex_cfg ModeManaged)
      (NewRegistry\<lparr>reg_factories := [(''mock'', mock_factory [ex_mock])]\<rparr>, ex_world) = (None, r, w) \<and>
    distinct (map Name (All r)) \<and> map Name (All r) = [''m'']"
proof -
  let ?r0 = "NewRegistry\<lparr>reg_factories := [(''mock'', mock_factory [ex_mock])]\<rparr>"
  have "(\<lambda>(e, r, w). (e = None, map Name (All r))) (CreateInstance fragment_engine (ex_cfg ModeManaged) (?r0, ex_world)) =
    (True, [''m''])" by code_simp
  then obtain r w where c: "CreateInstance fragment_engine (ex_cfg ModeManaged) (?r0, ex_world) = (None, r, w)"
    "map Name (All r) = [''m'']" by (auto split: prod.splits)
  have "reg_reach fragment_engine [(''mock'', mock_factory [ex_mock])] (r, w)"
    by (rule reg_next [OF reg_init reg_create [OF c(1)]])
  from registry_names_unique [OF mocks.named_factories_axioms this] c show ?thesis
    by (intro exI [of _ r] exI [of _ w]) simp
qed

text \<open>The registry refines a finite map from names to instances: a successful creation binds the
  configured name, which was free, and leaves the other bindings; a removal unbinds exactly its name; a
  failed creation changes nothing.\<close>
theorem registry_refines_map:
  assumes "wf_registry r"
  shows "Get (snd (Remove n r)) m = (if m = n then None else Get r m) \<and>
    (case CreateInstance rx cfg (r, w) of (e, r', w') \<Rightarrow>
       if e = None then Get r (cfg_Name cfg) = None \<and> Get r' (cfg_Name cfg) \<noteq> None \<and>
          (m = cfg_Name cfg \<or> Get r' m = Get r m)
       else r' = r)"
proof -
  obtain e r' w' where c: "CreateInstance rx cfg (r, w) = (e, r', w')" by (metis prod_cases3)
  have "r' = r" if "e \<noteq> None" using c that by (cases rule: CreateInstance_cases) auto
  moreover have "Get r (cfg_Name cfg) = None" if "e = None"
    using c that by (cases rule: CreateInstance_cases) (auto simp: Get_None_iff [OF assms])
  moreover have "Get r' (cfg_Name cfg) \<noteq> None \<and> (m = cfg_Name cfg \<or> Get r' m = Get r m)" if "e = None"
    using Get_CreateInstance [OF assms c [unfolded that]] by (metis option.distinct(1))
  ultimately show ?thesis using Get_Remove [OF assms] c by auto
qed

theorem registry_refines_map_witness:
  "Get (snd (Remove ''m'' (ex_registry ModeManaged))) ''m'' = None \<and> Get (ex_registry ModeManaged) ''m'' \<noteq> None"
proof -
  let ?c = "CreateInstance fragment_engine (ex_cfg ModeManaged) (MockProviderRegistry [ex_mock], ex_world)"
  obtain e r w where c: "?c = (e, r, w)" by (metis prod_cases3)
  have "wf_registry (MockProviderRegistry [ex_mock])" by (simp add: MockProviderRegistry_def wf_rules)
  then have wf: "wf_registry (ex_registry ModeManaged)"
    using wf_CreateInstance [OF _ c] by (simp add: ex_registry_def c)
  have "\<not> Option.is_none (Get (ex_registry ModeManaged) ''m'')" by code_simp
  then show ?thesis using registry_refines_map [OF wf] by (auto simp: Option.is_none_def)
qed

text \<open>Duplicate identities: the startup warning names exactly the groups of at least two instances that
  share backend identity and record type, in registration order, with the first as the winner.\<close>

lemma duplicate_identities_reported:
  "set (WarnDuplicateIdentities r) =
     {(k, names, winner). names = map Name (filter (\<lambda>i. identity_key i = k) (reg_instances r)) \<and>
        length names \<ge> 2 \<and> winner = hd names}"
  by (rule WarnDuplicateIdentities_set)

end
